(* ===== verification/Prelude.thy ===== *)
theory Prelude
  imports Main "HOL-Library.Sublist" "HOL-Library.Multiset"
begin

text \<open>
  Shared ground of the development: the collections of facts the component proofs draw on, the
  string and array operations of the JavaScript standard library that the WebUI uses, and generic
  lemmas on lists and association lists.  Strings are lists of 8-bit code units.
\<close>

named_theorems str_simps "string primitives: split, join, replace, search"
named_theorems alist_simps "objects as association lists in insertion order"

section \<open>Strings\<close>

text \<open>\<open>String.prototype.split\<close> with a non-empty separator.\<close>

function split_aux :: "string \<Rightarrow> string \<Rightarrow> string \<Rightarrow> string list" where
  "split_aux d acc [] = [rev acc]"
| "split_aux d acc (c # cs) =
     (if d \<noteq> [] \<and> prefix d (c # cs)
      then rev acc # split_aux d [] (drop (length d) (c # cs))
      else split_aux d (c # acc) cs)"
  by pat_completeness auto
termination
  by (relation "measure (\<lambda>(d, acc, s). length s)") (auto simp: neq_Nil_conv)

definition js_split :: "string \<Rightarrow> string \<Rightarrow> string list" where
  "js_split d s = (if d = [] then map (\<lambda>c. [c]) s else split_aux d [] s)"

text \<open>\<open>Array.prototype.join\<close>.\<close>

fun js_join :: "string \<Rightarrow> string list \<Rightarrow> string" where
  "js_join g [] = []"
| "js_join g [x] = x"
| "js_join g (x # y # ys) = x @ g @ js_join g (y # ys)"

text \<open>\<open>s.indexOf(p) !== -1\<close>.\<close>

fun contains :: "string \<Rightarrow> string \<Rightarrow> bool" where
  "contains p [] = (p = [])"
| "contains p (c # cs) = (prefix p (c # cs) \<or> contains p cs)"

text \<open>\<open>s.replace(p, r)\<close> with a string pattern: the first occurrence only.\<close>

fun replace_first :: "string \<Rightarrow> string \<Rightarrow> string \<Rightarrow> string" where
  "replace_first p r [] = (if p = [] then r else [])"
| "replace_first p r (c # cs) =
     (if prefix p (c # cs) then r @ drop (length p) (c # cs) else c # replace_first p r cs)"

definition is_upper :: "char \<Rightarrow> bool" where
  "is_upper c = (65 \<le> (of_char c :: nat) \<and> (of_char c :: nat) \<le> 90)"

definition is_lower :: "char \<Rightarrow> bool" where
  "is_lower c = (97 \<le> (of_char c :: nat) \<and> (of_char c :: nat) \<le> 122)"

definition is_digit :: "char \<Rightarrow> bool" where
  "is_digit c = (48 \<le> (of_char c :: nat) \<and> (of_char c :: nat) \<le> 57)"

definition to_upper_char :: "char \<Rightarrow> char" where
  "to_upper_char c = (if is_lower c then char_of (of_char c - 32 :: nat) else c)"

definition to_lower_char :: "char \<Rightarrow> char" where
  "to_lower_char c = (if is_upper c then char_of (of_char c + 32 :: nat) else c)"

definition toUpperCase :: "string \<Rightarrow> string" where
  "toUpperCase s = map to_upper_char s"

definition toLowerCase :: "string \<Rightarrow> string" where
  "toLowerCase s = map to_lower_char s"

text \<open>Decimal notation of integers, as a template literal prints them.\<close>

fun show_nat_aux :: "nat \<Rightarrow> string \<Rightarrow> string" where
  "show_nat_aux n acc =
     (let acc' = char_of (48 + n mod 10) # acc in
      if n < 10 then acc' else show_nat_aux (n div 10) acc')"

declare show_nat_aux.simps [simp del]

definition show_nat :: "nat \<Rightarrow> string" where
  "show_nat n = show_nat_aux n []"

definition show_int :: "int \<Rightarrow> string" where
  "show_int i = (if i < 0 then CHR ''-'' # show_nat (nat (- i)) else show_nat (nat i))"

section \<open>Arrays\<close>

text \<open>
  \<open>Array.prototype.sort\<close> with a comparator: stable.  An element is placed before the first element
  it does not exceed, and the elements are inserted from the last to the first, so that elements
  the comparator does not separate keep their order.
\<close>

fun insert_by :: "('a \<Rightarrow> 'a \<Rightarrow> int) \<Rightarrow> 'a \<Rightarrow> 'a list \<Rightarrow> 'a list" where
  "insert_by cmp x [] = [x]"
| "insert_by cmp x (y # ys) = (if cmp x y \<le> 0 then x # y # ys else y # insert_by cmp x ys)"

definition js_sort :: "('a \<Rightarrow> 'a \<Rightarrow> int) \<Rightarrow> 'a list \<Rightarrow> 'a list" where
  "js_sort cmp xs = foldr (insert_by cmp) xs []"

text \<open>\<open>new Set\<close>: duplicates dropped, the first occurrence kept.\<close>

fun set_add :: "'a \<Rightarrow> 'a list \<Rightarrow> 'a list" where
  "set_add x xs = (if x \<in> set xs then xs else xs @ [x])"

section \<open>Objects as association lists\<close>

text \<open>
  A string-keyed object is a list of properties in insertion order.  Assignment overwrites in place
  or appends; \<open>delete\<close> removes.
\<close>

fun obj_set :: "'k \<Rightarrow> 'v \<Rightarrow> ('k \<times> 'v) list \<Rightarrow> ('k \<times> 'v) list" where
  "obj_set k v [] = [(k, v)]"
| "obj_set k v ((k', v') # ps) = (if k = k' then (k, v) # ps else (k', v') # obj_set k v ps)"

definition obj_del :: "'k \<Rightarrow> ('k \<times> 'v) list \<Rightarrow> ('k \<times> 'v) list" where
  "obj_del k ps = filter (\<lambda>(k', _). k' \<noteq> k) ps"

definition obj_keys :: "('k \<times> 'v) list \<Rightarrow> 'k list" where
  "obj_keys ps = map fst ps"

definition obj_values :: "('k \<times> 'v) list \<Rightarrow> 'v list" where
  "obj_values ps = map snd ps"

section \<open>Lemmas\<close>

lemma map_of_obj_set [simp, alist_simps]:
  "map_of (obj_set k v ps) = (map_of ps)(k \<mapsto> v)"
  by (induction k v ps rule: obj_set.induct) (auto simp: fun_eq_iff)

lemma map_of_obj_del [simp, alist_simps]:
  "map_of (obj_del k ps) = (map_of ps)(k := None)"
  by (induction ps) (auto simp: obj_del_def fun_eq_iff)

lemma fst_set_obj_set [simp]: "fst ` set (obj_set k v ps) = insert k (fst ` set ps)"
  by (induction k v ps rule: obj_set.induct) auto

lemma fst_set_obj_del [simp]: "fst ` set (obj_del k ps) = fst ` set ps - {k}"
  by (auto simp: obj_del_def image_iff)

lemma distinct_obj_set [simp]:
  "distinct (map fst ps) \<Longrightarrow> distinct (map fst (obj_set k v ps))"
  by (induction k v ps rule: obj_set.induct) auto

lemma distinct_obj_del [simp]: "distinct (map fst ps) \<Longrightarrow> distinct (map fst (obj_del k ps))"
  by (simp add: obj_del_def distinct_map_filter)

lemma mset_insert_by [simp]: "mset (insert_by cmp x xs) = add_mset x (mset xs)"
  by (induction xs) auto

lemma mset_js_sort [simp]: "mset (js_sort cmp xs) = mset xs"
  by (induction xs) (auto simp: js_sort_def)

lemma set_js_sort [simp]: "set (js_sort cmp xs) = set xs"
  using mset_js_sort by (metis set_mset_mset)

lemma length_js_sort [simp]: "length (js_sort cmp xs) = length xs"
  using mset_js_sort by (metis size_mset)

lemma distinct_js_sort [simp]: "distinct (js_sort cmp xs) = distinct xs"
  using mset_js_sort mset_eq_imp_distinct_iff by blast

lemma set_fold_set_add [simp]: "set (fold set_add ys xs) = set xs \<union> set ys"
  by (induction ys arbitrary: xs) auto

lemma distinct_fold_set_add [simp]: "distinct xs \<Longrightarrow> distinct (fold set_add ys xs)"
  by (induction ys arbitrary: xs) auto

subsection \<open>Comparators\<close>

text \<open>
  What \<open>Array.prototype.sort\<close> asks of a comparator: its sign is antisymmetric and its order
  transitive.  Under this contract the result is sorted, and the order of elements that compare
  equal is kept.
\<close>

locale comparator =
  fixes cmp :: "'a \<Rightarrow> 'a \<Rightarrow> int"
  assumes antisymmetric: "sgn (cmp x y) = - sgn (cmp y x)"
    and transitive: "cmp x y \<le> 0 \<Longrightarrow> cmp y z \<le> 0 \<Longrightarrow> cmp x z \<le> 0"
begin

lemma refl_zero: "cmp x x = 0"
  using antisymmetric [of x x] by (auto simp: sgn_if split: if_splits)

lemma total: "cmp x y \<le> 0 \<or> cmp y x \<le> 0"
  using antisymmetric [of x y] by (auto simp: sgn_if split: if_splits)

lemma not_le_imp: "\<not> cmp x y \<le> 0 \<Longrightarrow> cmp y x \<le> 0"
  using total by blast

lemma sorted_insert_by:
  "sorted_wrt (\<lambda>a b. cmp a b \<le> 0) xs \<Longrightarrow> sorted_wrt (\<lambda>a b. cmp a b \<le> 0) (insert_by cmp x xs)"
proof (induction xs)
  case Nil
  then show ?case by simp
next
  case (Cons y ys)
  have "set (insert_by cmp x ys) = insert x (set ys)"
    by (metis mset_insert_by set_mset_add_mset_insert set_mset_mset)
  with Cons show ?case
    by (auto intro: transitive not_le_imp)
qed

lemma sorted_js_sort: "sorted_wrt (\<lambda>a b. cmp a b \<le> 0) (js_sort cmp xs)"
  by (induction xs) (auto simp: js_sort_def intro: sorted_insert_by)

lemma insert_by_filter:
  "cmp x z = 0 \<Longrightarrow> sorted_wrt (\<lambda>a b. cmp a b \<le> 0) xs \<Longrightarrow>
   filter (\<lambda>y. cmp y z = 0) (insert_by cmp x xs) = x # filter (\<lambda>y. cmp y z = 0) xs"
proof (induction xs)
  case Nil
  then show ?case by simp
next
  case (Cons y ys)
  have "cmp x y \<le> 0" if "cmp y z = 0"
    using Cons.prems(1) that antisymmetric [of y z] transitive [of x z y] by (simp add: sgn_0_0)
  then show ?case using Cons by auto
qed

lemma insert_by_filter_other:
  "cmp x z \<noteq> 0 \<Longrightarrow>
   filter (\<lambda>y. cmp y z = 0) (insert_by cmp x xs) = filter (\<lambda>y. cmp y z = 0) xs"
  by (induction xs) auto

lemma stable_js_sort:
  "filter (\<lambda>y. cmp y z = 0) (js_sort cmp xs) = filter (\<lambda>y. cmp y z = 0) xs"
proof (induction xs)
  case Nil
  then show ?case by (simp add: js_sort_def)
next
  case (Cons x xs)
  have "js_sort cmp (x # xs) = insert_by cmp x (js_sort cmp xs)"
    by (simp add: js_sort_def)
  with Cons show ?case
    by (auto simp: insert_by_filter insert_by_filter_other sorted_js_sort)
qed

end

text \<open>Comparing by an integer rank is a comparator.\<close>

lemma comparator_rank: "comparator (\<lambda>x y. f x - f y)"
  by unfold_locales (auto simp: sgn_if)

subsection \<open>Splitting and joining\<close>

lemma split_aux_sep [str_simps]:
  "d \<notin> set a \<Longrightarrow> split_aux [d] acc (a @ d # b) = (rev acc @ a) # split_aux [d] [] b"
  by (induction a arbitrary: acc) auto

lemma split_aux_end [str_simps]: "d \<notin> set a \<Longrightarrow> split_aux [d] acc a = [rev acc @ a]"
  by (induction a arbitrary: acc) auto

lemma js_split_sep [str_simps]: "d \<notin> set a \<Longrightarrow> js_split [d] (a @ d # b) = a # js_split [d] b"
  by (simp add: js_split_def split_aux_sep)

lemma js_split_end [str_simps]: "d \<notin> set a \<Longrightarrow> js_split [d] a = [a]"
  by (simp add: js_split_def split_aux_end)

lemma js_join_Cons: "xs \<noteq> [] \<Longrightarrow> js_join g (x # xs) = x @ g @ js_join g xs"
  by (cases xs) auto

lemma js_split_join [str_simps]:
  "ks \<noteq> [] \<Longrightarrow> \<forall>k \<in> set ks. d \<notin> set k \<Longrightarrow> js_split [d] (js_join [d] ks) = ks"
proof (induction ks)
  case (Cons k ks)
  then show ?case by (cases "ks = []") (auto simp: js_join_Cons str_simps)
qed simp

lemma js_join_empty_iff: "js_join [d] ks = [] \<longleftrightarrow> ks = [] \<or> ks = [[]]"
  by (cases "([d], ks)" rule: js_join.cases) auto

lemma js_join_snoc_inj: "js_join g (ks @ [a]) = js_join g (ks @ [b]) \<longleftrightarrow> a = b"
proof (induction ks)
  case (Cons k ks)
  then show ?case by (cases ks) (auto simp: js_join_Cons)
qed simp

lemma append_sep_inj:
  "d \<notin> set a \<Longrightarrow> d \<notin> set b \<Longrightarrow> a @ d # x = b @ d # y \<Longrightarrow> a = b"
proof (induction a arbitrary: b)
  case Nil
  then show ?case by (cases b) auto
next
  case (Cons c a)
  then show ?case by (cases b) auto
qed

lemma split_aux_ne [simp]: "split_aux d acc s \<noteq> []"
  by (induction d acc s rule: split_aux.induct) auto

lemma contains_iff [str_simps]: "contains p s \<longleftrightarrow> (\<exists>a b. s = a @ p @ b)"
proof (induction s)
  case (Cons c cs)
  have "(\<exists>a b. c # cs = a @ p @ b) \<longleftrightarrow> prefix p (c # cs) \<or> (\<exists>a b. cs = a @ p @ b)"
    by (auto simp: prefix_def Cons_eq_append_conv)
  with Cons show ?case by simp
qed auto

lemma to_lower_char_idem [simp]: "to_lower_char (to_lower_char c) = to_lower_char c"
  by (auto simp: to_lower_char_def is_upper_def)

lemma toLowerCase_idem [simp]: "toLowerCase (toLowerCase s) = toLowerCase s"
  by (simp add: toLowerCase_def)

lemma length_case [simp]:
  "length (toLowerCase s) = length s" "length (toUpperCase s) = length s"
  by (simp_all add: toLowerCase_def toUpperCase_def)

end
