(* ===== verification/Md5.thy ===== *)
theory Md5
  imports "HOL-Library.Word" Prelude
begin

unbundle bit_operations_syntax

text \<open>
  \<^verbatim>\<open>utils/md5.ts\<close>, the unrolled MD5 behind the user avatars.  A string is a list of byte-sized code
  units.  Every number of the digest computation passes through \<open>add32\<close> or a bitwise operator, which
  reduce it modulo \<open>2^32\<close>, so the numbers are 32-bit words; the two versions of \<open>add32\<close> themselves are
  modelled on integers as well.
\<close>

section \<open>The code\<close>

type_synonym u32 = "32 word"

subsection \<open>The two versions of \<open>add32\<close> on numbers\<close>

text \<open>\<open>ToInt32\<close> and the bitwise operators of the language on numbers.\<close>

definition to_int32 :: "int \<Rightarrow> int" where
  "to_int32 x = sint (word_of_int x :: u32)"

definition js_and :: "int \<Rightarrow> int \<Rightarrow> int" where
  "js_and x y = to_int32 (to_int32 x AND to_int32 y)"

definition js_bor :: "int \<Rightarrow> int \<Rightarrow> int" where
  "js_bor x y = to_int32 (to_int32 x OR to_int32 y)"

definition js_shl :: "int \<Rightarrow> nat \<Rightarrow> int" where
  "js_shl x n = to_int32 (push_bit n (to_int32 x))"

definition js_sar :: "int \<Rightarrow> nat \<Rightarrow> int" where
  "js_sar x n = drop_bit n (to_int32 x)"

definition add32_num :: "int \<Rightarrow> int \<Rightarrow> int" where
  "add32_num a b = js_and (a + b) 0xFFFFFFFF"

definition add32_split :: "int \<Rightarrow> int \<Rightarrow> int" where
  "add32_split x y =
     (let lsw = js_and x 0xFFFF + js_and y 0xFFFF;
          msw = js_sar x 16 + js_sar y 16 + js_sar lsw 16
      in js_bor (js_shl msw 16) (js_and lsw 0xFFFF))"

subsection \<open>The rounds\<close>

definition add32 :: "u32 \<Rightarrow> u32 \<Rightarrow> u32" where
  "add32 a b = a + b"

definition cmn :: "u32 \<Rightarrow> u32 \<Rightarrow> u32 \<Rightarrow> u32 \<Rightarrow> nat \<Rightarrow> u32 \<Rightarrow> u32" where
  "cmn q a b x s t =
     (let a = add32 (add32 a q) (add32 x t)
      in add32 (push_bit s a OR drop_bit (32 - s) a) b)"

definition ff :: "u32 \<Rightarrow> u32 \<Rightarrow> u32 \<Rightarrow> u32 \<Rightarrow> u32 \<Rightarrow> nat \<Rightarrow> u32 \<Rightarrow> u32" where
  "ff a b c d x s t = cmn ((b AND c) OR (NOT b AND d)) a b x s t"

definition gg :: "u32 \<Rightarrow> u32 \<Rightarrow> u32 \<Rightarrow> u32 \<Rightarrow> u32 \<Rightarrow> nat \<Rightarrow> u32 \<Rightarrow> u32" where
  "gg a b c d x s t = cmn ((b AND d) OR (c AND NOT d)) a b x s t"

definition hh :: "u32 \<Rightarrow> u32 \<Rightarrow> u32 \<Rightarrow> u32 \<Rightarrow> u32 \<Rightarrow> nat \<Rightarrow> u32 \<Rightarrow> u32" where
  "hh a b c d x s t = cmn (b XOR c XOR d) a b x s t"

definition ii :: "u32 \<Rightarrow> u32 \<Rightarrow> u32 \<Rightarrow> u32 \<Rightarrow> u32 \<Rightarrow> nat \<Rightarrow> u32 \<Rightarrow> u32" where
  "ii a b c d x s t = cmn (c XOR (b OR NOT d)) a b x s t"

type_synonym md5_state = "u32 \<times> u32 \<times> u32 \<times> u32"

definition md5cycle :: "md5_state \<Rightarrow> u32 list \<Rightarrow> md5_state" where
  "md5cycle x k = (case x of (x0, x1, x2, x3) \<Rightarrow>
     let a = x0; b = x1; c = x2; d = x3;
      a = ff a b c d (k ! 0) 7 (- 680876936);
      d = ff d a b c (k ! 1) 12 (- 389564586);
      c = ff c d a b (k ! 2) 17 606105819;
      b = ff b c d a (k ! 3) 22 (- 1044525330);
      a = ff a b c d (k ! 4) 7 (- 176418897);
      d = ff d a b c (k ! 5) 12 1200080426;
      c = ff c d a b (k ! 6) 17 (- 1473231341);
      b = ff b c d a (k ! 7) 22 (- 45705983);
      a = ff a b c d (k ! 8) 7 1770035416;
      d = ff d a b c (k ! 9) 12 (- 1958414417);
      c = ff c d a b (k ! 10) 17 (- 42063);
      b = ff b c d a (k ! 11) 22 (- 1990404162);
      a = ff a b c d (k ! 12) 7 1804603682;
      d = ff d a b c (k ! 13) 12 (- 40341101);
      c = ff c d a b (k ! 14) 17 (- 1502002290);
      b = ff b c d a (k ! 15) 22 1236535329;
      a = gg a b c d (k ! 1) 5 (- 165796510);
      d = gg d a b c (k ! 6) 9 (- 1069501632);
      c = gg c d a b (k ! 11) 14 643717713;
      b = gg b c d a (k ! 0) 20 (- 373897302);
      a = gg a b c d (k ! 5) 5 (- 701558691);
      d = gg d a b c (k ! 10) 9 38016083;
      c = gg c d a b (k ! 15) 14 (- 660478335);
      b = gg b c d a (k ! 4) 20 (- 405537848);
      a = gg a b c d (k ! 9) 5 568446438;
      d = gg d a b c (k ! 14) 9 (- 1019803690);
      c = gg c d a b (k ! 3) 14 (- 187363961);
      b = gg b c d a (k ! 8) 20 1163531501;
      a = gg a b c d (k ! 13) 5 (- 1444681467);
      d = gg d a b c (k ! 2) 9 (- 51403784);
      c = gg c d a b (k ! 7) 14 1735328473;
      b = gg b c d a (k ! 12) 20 (- 1926607734);
      a = hh a b c d (k ! 5) 4 (- 378558);
      d = hh d a b c (k ! 8) 11 (- 2022574463);
      c = hh c d a b (k ! 11) 16 1839030562;
      b = hh b c d a (k ! 14) 23 (- 35309556);
      a = hh a b c d (k ! 1) 4 (- 1530992060);
      d = hh d a b c (k ! 4) 11 1272893353;
      c = hh c d a b (k ! 7) 16 (- 155497632);
      b = hh b c d a (k ! 10) 23 (- 1094730640);
      a = hh a b c d (k ! 13) 4 681279174;
      d = hh d a b c (k ! 0) 11 (- 358537222);
      c = hh c d a b (k ! 3) 16 (- 722521979);
      b = hh b c d a (k ! 6) 23 76029189;
      a = hh a b c d (k ! 9) 4 (- 640364487);
      d = hh d a b c (k ! 12) 11 (- 421815835);
      c = hh c d a b (k ! 15) 16 530742520;
      b = hh b c d a (k ! 2) 23 (- 995338651);
      a = ii a b c d (k ! 0) 6 (- 198630844);
      d = ii d a b c (k ! 7) 10 1126891415;
      c = ii c d a b (k ! 14) 15 (- 1416354905);
      b = ii b c d a (k ! 5) 21 (- 57434055);
      a = ii a b c d (k ! 12) 6 1700485571;
      d = ii d a b c (k ! 3) 10 (- 1894986606);
      c = ii c d a b (k ! 10) 15 (- 1051523);
      b = ii b c d a (k ! 1) 21 (- 2054922799);
      a = ii a b c d (k ! 8) 6 1873313359;
      d = ii d a b c (k ! 15) 10 (- 30611744);
      c = ii c d a b (k ! 6) 15 (- 1560198380);
      b = ii b c d a (k ! 13) 21 1309151649;
      a = ii a b c d (k ! 4) 6 (- 145523070);
      d = ii d a b c (k ! 11) 10 (- 1120210379);
      c = ii c d a b (k ! 2) 15 718787259;
      b = ii b c d a (k ! 9) 21 (- 343485551)
     in (add32 a x0, add32 b x1, add32 c x2, add32 d x3))"

subsection \<open>Blocks, tail and output\<close>

definition charCodeAt :: "string \<Rightarrow> nat \<Rightarrow> u32" where
  "charCodeAt s i = of_char (s ! i)"

definition md5blk :: "string \<Rightarrow> u32 list" where
  "md5blk s = map (\<lambda>i. charCodeAt s i
      + push_bit 8 (charCodeAt s (i + 1))
      + push_bit 16 (charCodeAt s (i + 2))
      + push_bit 24 (charCodeAt s (i + 3)))
    [0, 4, 8, 12, 16, 20, 24, 28, 32, 36, 40, 44, 48, 52, 56, 60]"

text \<open>The loop over the full blocks; the rest of the string is what \<open>s.substring(i - 64)\<close> leaves.\<close>

function md5_blocks :: "md5_state \<Rightarrow> string \<Rightarrow> md5_state \<times> string" where
  "md5_blocks state s =
     (if 64 \<le> length s then md5_blocks (md5cycle state (md5blk (take 64 s))) (drop 64 s)
      else (state, s))"
  by pat_completeness auto
termination
  by (relation "measure (\<lambda>(state, s). length s)") auto

declare md5_blocks.simps [simp del]

definition tail_or :: "u32 \<Rightarrow> nat \<Rightarrow> u32 list \<Rightarrow> u32 list" where
  "tail_or v i tail = tail[drop_bit 2 i := tail ! drop_bit 2 i OR push_bit (push_bit 3 (i mod 4)) v]"

definition md5_tail :: "string \<Rightarrow> u32 list" where
  "md5_tail s = tail_or 0x80 (length s)
     (fold (\<lambda>i. tail_or (charCodeAt s i) i) [0..<length s] (replicate 16 0))"

definition md51 :: "string \<Rightarrow> md5_state" where
  "md51 str =
     (let n = length str;
          (state, s) = md5_blocks (1732584193, - 271733879, - 1732584194, 271733878) str;
          tail = md5_tail s;
          (state, tail) = (if 55 < length s
                           then (md5cycle state tail, replicate 16 0) else (state, tail));
          tail = tail[14 := of_nat (n * 8)]
      in md5cycle state tail)"

definition hex_chr :: string where
  "hex_chr = ''0123456789abcdef''"

definition rhex :: "u32 \<Rightarrow> string" where
  "rhex n = concat (map (\<lambda>j.
      [hex_chr ! unat (signed_drop_bit (j * 8 + 4) n AND 0x0F),
       hex_chr ! unat (signed_drop_bit (j * 8) n AND 0x0F)]) [0, 1, 2, 3])"

definition md5_hex :: "u32 list \<Rightarrow> string" where
  "md5_hex x = concat (map rhex x)"

definition md5 :: "string \<Rightarrow> string" where
  "md5 s = (case md51 s of (a, b, c, d) \<Rightarrow> md5_hex [a, b, c, d])"

section \<open>Reference: RFC 1321\<close>

definition rfc_T :: "u32 list" where
  "rfc_T = [
    0xd76aa478, 0xe8c7b756, 0x242070db, 0xc1bdceee, 0xf57c0faf, 0x4787c62a, 0xa8304613, 0xfd469501,
    0x698098d8, 0x8b44f7af, 0xffff5bb1, 0x895cd7be, 0x6b901122, 0xfd987193, 0xa679438e, 0x49b40821,
    0xf61e2562, 0xc040b340, 0x265e5a51, 0xe9b6c7aa, 0xd62f105d, 0x02441453, 0xd8a1e681, 0xe7d3fbc8,
    0x21e1cde6, 0xc33707d6, 0xf4d50d87, 0x455a14ed, 0xa9e3e905, 0xfcefa3f8, 0x676f02d9, 0x8d2a4c8a,
    0xfffa3942, 0x8771f681, 0x6d9d6122, 0xfde5380c, 0xa4beea44, 0x4bdecfa9, 0xf6bb4b60, 0xbebfbc70,
    0x289b7ec6, 0xeaa127fa, 0xd4ef3085, 0x04881d05, 0xd9d4d039, 0xe6db99e5, 0x1fa27cf8, 0xc4ac5665,
    0xf4292244, 0x432aff97, 0xab9423a7, 0xfc93a039, 0x655b59c3, 0x8f0ccc92, 0xffeff47d, 0x85845dd1,
    0x6fa87e4f, 0xfe2ce6e0, 0xa3014314, 0x4e0811a1, 0xf7537e82, 0xbd3af235, 0x2ad7d2bb, 0xeb86d391]"

definition rfc_shift :: "nat \<Rightarrow> nat" where
  "rfc_shift i =
     [[7, 12, 17, 22], [5, 9, 14, 20], [4, 11, 16, 23], [6, 10, 15, 21]] ! (i div 16) ! (i mod 4)"

definition rfc_index :: "nat \<Rightarrow> nat" where
  "rfc_index i = (if i < 16 then i else if i < 32 then (5 * i + 1) mod 16
     else if i < 48 then (3 * i + 5) mod 16 else (7 * i) mod 16)"

definition rfc_fun :: "nat \<Rightarrow> u32 \<Rightarrow> u32 \<Rightarrow> u32 \<Rightarrow> u32" where
  "rfc_fun i b c d =
     (if i < 16 then (b AND c) OR (NOT b AND d)
      else if i < 32 then (b AND d) OR (c AND NOT d)
      else if i < 48 then b XOR c XOR d
      else c XOR (b OR NOT d))"

fun rfc_step :: "u32 list \<Rightarrow> md5_state \<Rightarrow> nat \<Rightarrow> md5_state" where
  "rfc_step M (a, b, c, d) i =
     (d, b + word_rotl (rfc_shift i) (a + rfc_fun i b c d + M ! rfc_index i + rfc_T ! i), b, c)"

definition rfc_block :: "md5_state \<Rightarrow> u32 list \<Rightarrow> md5_state" where
  "rfc_block st M = (case (st, foldl (rfc_step M) st [0..<64]) of
     ((a0, b0, c0, d0), (a, b, c, d)) \<Rightarrow> (a0 + a, b0 + b, c0 + c, d0 + d))"

text \<open>Sixteen little-endian words of a block of 64 bytes.\<close>

definition rfc_word :: "string \<Rightarrow> nat \<Rightarrow> u32" where
  "rfc_word s j = of_nat (of_char (s ! (4 * j)) + 256 * of_char (s ! (4 * j + 1))
     + 65536 * of_char (s ! (4 * j + 2)) + 16777216 * of_char (s ! (4 * j + 3)))"

definition rfc_words :: "string \<Rightarrow> u32 list" where
  "rfc_words s = map (rfc_word s) [0..<16]"

definition rfc_length :: "nat \<Rightarrow> string" where
  "rfc_length n = map (\<lambda>i. char_of (n div 256 ^ i)) [0..<8]"

definition rfc_pad :: "string \<Rightarrow> string" where
  "rfc_pad s = s @ [char_of (0x80 :: nat)] @ replicate ((119 - length s mod 64) mod 64) (char_of (0 :: nat))
     @ rfc_length (8 * length s)"

function rfc_blocks :: "md5_state \<Rightarrow> string \<Rightarrow> md5_state" where
  "rfc_blocks st s =
     (if 64 \<le> length s then rfc_blocks (rfc_block st (rfc_words (take 64 s))) (drop 64 s) else st)"
  by pat_completeness auto
termination
  by (relation "measure (\<lambda>(st, s). length s)") auto

declare rfc_blocks.simps [simp del]

definition rfc_hex_byte :: "nat \<Rightarrow> string" where
  "rfc_hex_byte n = [''0123456789abcdef'' ! (n div 16), ''0123456789abcdef'' ! (n mod 16)]"

definition rfc_output :: "u32 \<Rightarrow> string" where
  "rfc_output w = concat (map (\<lambda>j. rfc_hex_byte (unat w div 256 ^ j mod 256)) [0..<4])"

definition rfc_md5 :: "string \<Rightarrow> string" where
  "rfc_md5 s = (case rfc_blocks (0x67452301, 0xefcdab89, 0x98badcfe, 0x10325476) (rfc_pad s) of
     (a, b, c, d) \<Rightarrow> concat (map rfc_output [a, b, c, d]))"

section \<open>The rounds agree\<close>

lemma rotl_or:
  fixes x :: "u32"
  assumes "s < 32"
  shows "push_bit s x OR drop_bit (32 - s) x = word_rotl s x"
proof (rule bit_word_eqI)
  fix n :: nat
  assume n: "n < LENGTH(32)"
  have "bit x (32 - s + n) \<longleftrightarrow> n < s \<and> bit x (32 - s + n)"
    using assms bit_imp_le_length [of x "32 - s + n"] by auto
  moreover have "(n + (32 - s)) mod 32 = (if s \<le> n then n - s else 32 - s + n)"
    using n assms by (auto simp: mod_if)
  ultimately show "bit (push_bit s x OR drop_bit (32 - s) x) n = bit (word_rotl s x) n"
    using n assms by (auto simp: bit_simps not_le)
qed

lemma cmn_rotl: "s < 32 \<Longrightarrow> cmn q a b x s t = b + word_rotl s (a + q + x + t)"
  by (simp add: cmn_def add32_def Let_def rotl_or algebra_simps)

lemma Let_eqI: "(\<And>x. t = x \<Longrightarrow> f x = g) \<Longrightarrow> Let t f = g"
  by (simp add: Let_def)

lemmas rfc_step_unfold =
  rfc_step.simps rfc_fun_def rfc_shift_def rfc_index_def rfc_T_def
  ff_def gg_def hh_def ii_def cmn_rotl

lemma word_wrap_eq:
  "numeral n + numeral m = (0 :: u32) \<Longrightarrow> x + numeral n = x - (numeral m :: u32)"
  by (simp add: eq_diff_eq add.assoc)

text \<open>The 64 calls of \<open>md5cycle\<close> are the 64 steps of the RFC, in this order and with these constants.\<close>

lemma rfc_round1:
  "rfc_step M (a, b, c, d) 0 = (d, ff a b c d (M ! 0) 7 (- 680876936), b, c)"
  "rfc_step M (a, b, c, d) 1 = (d, ff a b c d (M ! 1) 12 (- 389564586), b, c)"
  "rfc_step M (a, b, c, d) 2 = (d, ff a b c d (M ! 2) 17 606105819, b, c)"
  "rfc_step M (a, b, c, d) 3 = (d, ff a b c d (M ! 3) 22 (- 1044525330), b, c)"
  "rfc_step M (a, b, c, d) 4 = (d, ff a b c d (M ! 4) 7 (- 176418897), b, c)"
  "rfc_step M (a, b, c, d) 5 = (d, ff a b c d (M ! 5) 12 1200080426, b, c)"
  "rfc_step M (a, b, c, d) 6 = (d, ff a b c d (M ! 6) 17 (- 1473231341), b, c)"
  "rfc_step M (a, b, c, d) 7 = (d, ff a b c d (M ! 7) 22 (- 45705983), b, c)"
  "rfc_step M (a, b, c, d) 8 = (d, ff a b c d (M ! 8) 7 1770035416, b, c)"
  "rfc_step M (a, b, c, d) 9 = (d, ff a b c d (M ! 9) 12 (- 1958414417), b, c)"
  "rfc_step M (a, b, c, d) 10 = (d, ff a b c d (M ! 10) 17 (- 42063), b, c)"
  "rfc_step M (a, b, c, d) 11 = (d, ff a b c d (M ! 11) 22 (- 1990404162), b, c)"
  "rfc_step M (a, b, c, d) 12 = (d, ff a b c d (M ! 12) 7 1804603682, b, c)"
  "rfc_step M (a, b, c, d) 13 = (d, ff a b c d (M ! 13) 12 (- 40341101), b, c)"
  "rfc_step M (a, b, c, d) 14 = (d, ff a b c d (M ! 14) 17 (- 1502002290), b, c)"
  "rfc_step M (a, b, c, d) 15 = (d, ff a b c d (M ! 15) 22 1236535329, b, c)"
  by (simp_all add: rfc_step_unfold) (rule arg_cong [where f = "word_rotl _"], rule word_wrap_eq, simp)+

lemma rfc_round2:
  "rfc_step M (a, b, c, d) 16 = (d, gg a b c d (M ! 1) 5 (- 165796510), b, c)"
  "rfc_step M (a, b, c, d) 17 = (d, gg a b c d (M ! 6) 9 (- 1069501632), b, c)"
  "rfc_step M (a, b, c, d) 18 = (d, gg a b c d (M ! 11) 14 643717713, b, c)"
  "rfc_step M (a, b, c, d) 19 = (d, gg a b c d (M ! 0) 20 (- 373897302), b, c)"
  "rfc_step M (a, b, c, d) 20 = (d, gg a b c d (M ! 5) 5 (- 701558691), b, c)"
  "rfc_step M (a, b, c, d) 21 = (d, gg a b c d (M ! 10) 9 38016083, b, c)"
  "rfc_step M (a, b, c, d) 22 = (d, gg a b c d (M ! 15) 14 (- 660478335), b, c)"
  "rfc_step M (a, b, c, d) 23 = (d, gg a b c d (M ! 4) 20 (- 405537848), b, c)"
  "rfc_step M (a, b, c, d) 24 = (d, gg a b c d (M ! 9) 5 568446438, b, c)"
  "rfc_step M (a, b, c, d) 25 = (d, gg a b c d (M ! 14) 9 (- 1019803690), b, c)"
  "rfc_step M (a, b, c, d) 26 = (d, gg a b c d (M ! 3) 14 (- 187363961), b, c)"
  "rfc_step M (a, b, c, d) 27 = (d, gg a b c d (M ! 8) 20 1163531501, b, c)"
  "rfc_step M (a, b, c, d) 28 = (d, gg a b c d (M ! 13) 5 (- 1444681467), b, c)"
  "rfc_step M (a, b, c, d) 29 = (d, gg a b c d (M ! 2) 9 (- 51403784), b, c)"
  "rfc_step M (a, b, c, d) 30 = (d, gg a b c d (M ! 7) 14 1735328473, b, c)"
  "rfc_step M (a, b, c, d) 31 = (d, gg a b c d (M ! 12) 20 (- 1926607734), b, c)"
  by (simp_all add: rfc_step_unfold) (rule arg_cong [where f = "word_rotl _"], rule word_wrap_eq, simp)+

lemma rfc_round3:
  "rfc_step M (a, b, c, d) 32 = (d, hh a b c d (M ! 5) 4 (- 378558), b, c)"
  "rfc_step M (a, b, c, d) 33 = (d, hh a b c d (M ! 8) 11 (- 2022574463), b, c)"
  "rfc_step M (a, b, c, d) 34 = (d, hh a b c d (M ! 11) 16 1839030562, b, c)"
  "rfc_step M (a, b, c, d) 35 = (d, hh a b c d (M ! 14) 23 (- 35309556), b, c)"
  "rfc_step M (a, b, c, d) 36 = (d, hh a b c d (M ! 1) 4 (- 1530992060), b, c)"
  "rfc_step M (a, b, c, d) 37 = (d, hh a b c d (M ! 4) 11 1272893353, b, c)"
  "rfc_step M (a, b, c, d) 38 = (d, hh a b c d (M ! 7) 16 (- 155497632), b, c)"
  "rfc_step M (a, b, c, d) 39 = (d, hh a b c d (M ! 10) 23 (- 1094730640), b, c)"
  "rfc_step M (a, b, c, d) 40 = (d, hh a b c d (M ! 13) 4 681279174, b, c)"
  "rfc_step M (a, b, c, d) 41 = (d, hh a b c d (M ! 0) 11 (- 358537222), b, c)"
  "rfc_step M (a, b, c, d) 42 = (d, hh a b c d (M ! 3) 16 (- 722521979), b, c)"
  "rfc_step M (a, b, c, d) 43 = (d, hh a b c d (M ! 6) 23 76029189, b, c)"
  "rfc_step M (a, b, c, d) 44 = (d, hh a b c d (M ! 9) 4 (- 640364487), b, c)"
  "rfc_step M (a, b, c, d) 45 = (d, hh a b c d (M ! 12) 11 (- 421815835), b, c)"
  "rfc_step M (a, b, c, d) 46 = (d, hh a b c d (M ! 15) 16 530742520, b, c)"
  "rfc_step M (a, b, c, d) 47 = (d, hh a b c d (M ! 2) 23 (- 995338651), b, c)"
  by (simp_all add: rfc_step_unfold) (rule arg_cong [where f = "word_rotl _"], rule word_wrap_eq, simp)+

lemma rfc_round4:
  "rfc_step M (a, b, c, d) 48 = (d, ii a b c d (M ! 0) 6 (- 198630844), b, c)"
  "rfc_step M (a, b, c, d) 49 = (d, ii a b c d (M ! 7) 10 1126891415, b, c)"
  "rfc_step M (a, b, c, d) 50 = (d, ii a b c d (M ! 14) 15 (- 1416354905), b, c)"
  "rfc_step M (a, b, c, d) 51 = (d, ii a b c d (M ! 5) 21 (- 57434055), b, c)"
  "rfc_step M (a, b, c, d) 52 = (d, ii a b c d (M ! 12) 6 1700485571, b, c)"
  "rfc_step M (a, b, c, d) 53 = (d, ii a b c d (M ! 3) 10 (- 1894986606), b, c)"
  "rfc_step M (a, b, c, d) 54 = (d, ii a b c d (M ! 10) 15 (- 1051523), b, c)"
  "rfc_step M (a, b, c, d) 55 = (d, ii a b c d (M ! 1) 21 (- 2054922799), b, c)"
  "rfc_step M (a, b, c, d) 56 = (d, ii a b c d (M ! 8) 6 1873313359, b, c)"
  "rfc_step M (a, b, c, d) 57 = (d, ii a b c d (M ! 15) 10 (- 30611744), b, c)"
  "rfc_step M (a, b, c, d) 58 = (d, ii a b c d (M ! 6) 15 (- 1560198380), b, c)"
  "rfc_step M (a, b, c, d) 59 = (d, ii a b c d (M ! 13) 21 1309151649, b, c)"
  "rfc_step M (a, b, c, d) 60 = (d, ii a b c d (M ! 4) 6 (- 145523070), b, c)"
  "rfc_step M (a, b, c, d) 61 = (d, ii a b c d (M ! 11) 10 (- 1120210379), b, c)"
  "rfc_step M (a, b, c, d) 62 = (d, ii a b c d (M ! 2) 15 718787259, b, c)"
  "rfc_step M (a, b, c, d) 63 = (d, ii a b c d (M ! 9) 21 (- 343485551), b, c)"
  by (simp_all add: rfc_step_unfold) (rule arg_cong [where f = "word_rotl _"], rule word_wrap_eq, simp)+

lemma foldl_rounds:
  "foldl f s [0..<64] = foldl f (foldl f (foldl f (foldl f s
     [0, 1, 2, 3, 4, 5, 6, 7, 8, 9, 10, 11, 12, 13, 14, 15])
     [16, 17, 18, 19, 20, 21, 22, 23, 24, 25, 26, 27, 28, 29, 30, 31])
     [32, 33, 34, 35, 36, 37, 38, 39, 40, 41, 42, 43, 44, 45, 46, 47])
     [48, 49, 50, 51, 52, 53, 54, 55, 56, 57, 58, 59, 60, 61, 62, 63]"
  by (simp add: numeral_eq_Suc)

lemma md5cycle_rfc: "md5cycle st k = rfc_block st k"
proof -
  obtain a b c d where "st = (a, b, c, d)" by (cases st)
  then show ?thesis
    apply (simp only: md5cycle_def rfc_block_def prod.case)
    apply (rule Let_eqI)+
    apply (simp only: foldl_rounds foldl_Cons foldl_Nil rfc_round1 rfc_round2 rfc_round3 rfc_round4
        prod.case add32_def)
    apply (simp only: add.commute)
    done
qed

section \<open>Words and bytes agree\<close>

lemma rfc_word_char:
  "rfc_word s j = charCodeAt s (4 * j) + push_bit 8 (charCodeAt s (4 * j + 1))
     + push_bit 16 (charCodeAt s (4 * j + 2)) + push_bit 24 (charCodeAt s (4 * j + 3))"
  by (simp add: rfc_word_def charCodeAt_def of_nat_of_char push_bit_eq_mult)

lemma bit_charCodeAt: "bit (charCodeAt s i) n \<Longrightarrow> n < 8"
proof -
  assume bit: "bit (charCodeAt s i) n"
  have "take_bit 8 (of_char (s ! i) :: nat) = of_char (s ! i)"
    by (simp add: take_bit_eq_mod)
  then have "take_bit 8 (of_nat (of_char (s ! i)) :: u32) = of_nat (of_char (s ! i))"
    by (metis take_bit_of_nat)
  then have "take_bit 8 (charCodeAt s i) = charCodeAt s i"
    by (simp only: of_nat_of_char charCodeAt_def)
  with bit have "bit (take_bit 8 (charCodeAt s i)) n" by simp
  then show "n < 8" by (simp add: bit_take_bit_iff)
qed

lemma bytes_disjoint:
  fixes a :: u32
  assumes "\<And>i. bit a i \<Longrightarrow> i < n"
  shows "a + push_bit n b = a OR push_bit n b"
proof (rule disjunctive_add_eq_or)
  show "a AND push_bit n b = 0"
    by (rule bit_word_eqI) (use assms in \<open>auto simp: bit_simps not_le [symmetric]\<close>)
qed

lemma rfc_word_or:
  "rfc_word s j = charCodeAt s (4 * j) OR push_bit 8 (charCodeAt s (4 * j + 1))
     OR push_bit 16 (charCodeAt s (4 * j + 2)) OR push_bit 24 (charCodeAt s (4 * j + 3))"
proof -
  note bit = bit_charCodeAt [of s]
  have 1: "i < 8" if "bit (charCodeAt s k) i" for i k using bit that by blast
  have 2: "i < 16" if "bit (charCodeAt s k OR push_bit 8 (charCodeAt s l)) i" for i k l
    using that by (auto simp: bit_simps dest: bit)
  have 3: "i < 24" if
    "bit (charCodeAt s k OR push_bit 8 (charCodeAt s l) OR push_bit 16 (charCodeAt s m)) i" for i k l m
    using that by (auto simp: bit_simps dest: bit)
  show ?thesis
    by (simp only: rfc_word_char bytes_disjoint [OF 1] bytes_disjoint [OF 2]
        bytes_disjoint [OF 3, unfolded or.assoc [symmetric]] or.assoc [symmetric])
qed

lemma md5blk_rfc: "md5blk s = rfc_words s"
  by (simp add: md5blk_def rfc_words_def rfc_word_char upt_rec numeral_eq_Suc)

lemma md5_blocks_rfc:
  "md5_blocks st s = (st', r) \<Longrightarrow>
   length r < 64 \<and> rfc_blocks st (s @ t) = rfc_blocks st' (r @ t) \<and> length r = length s mod 64"
proof (induction st s rule: md5_blocks.induct)
  case (1 st s)
  show ?case
  proof (cases "64 \<le> length s")
    case True
    with 1 have "rfc_blocks (md5cycle st (md5blk (take 64 s))) (drop 64 s @ t) = rfc_blocks st' (r @ t)"
      "length r < 64" "length r = length (drop 64 s) mod 64"
      using md5_blocks.simps [of st s] by simp_all
    with True show ?thesis
      by (subst rfc_blocks.simps) (simp add: md5cycle_rfc md5blk_rfc le_mod_geq)
  next
    case False
    with 1 show ?thesis by (simp add: md5_blocks.simps)
  qed
qed

section \<open>The tail agrees with the padding\<close>

lemma of_char_word: "of_char (char_of (n :: nat)) = (of_nat (n mod 256) :: u32)"
  by (metis of_char_of of_nat_of_char)

lemma charCodeAt_hole:
  "charCodeAt (s @ c # z) k =
     (if k = length s then of_char c else charCodeAt (s @ char_of (0 :: nat) # z) k)"
  by (auto simp: charCodeAt_def nth_append nth_Cons')

lemma charCodeAt_zero: "charCodeAt (s @ char_of (0 :: nat) # z) (length s) = 0"
  by (simp add: charCodeAt_def of_char_word)

lemma rfc_word_hole:
  assumes "length s = 4 * j + m" "m < 4"
  shows "rfc_word (s @ char_of (0 :: nat) # z) j OR push_bit (8 * m) (of_char c)
         = rfc_word (s @ c # z) j"
proof -
  let ?z = "s @ char_of (0 :: nat) # z"
  consider "m = 0" | "m = 1" | "m = 2" | "m = 3" using assms(2) by linarith
  then show ?thesis
    using assms(1) charCodeAt_zero [of s z]
    by cases (simp_all add: rfc_word_or charCodeAt_hole [of s c z] ac_simps)
qed

lemma rfc_word_other:
  assumes "length s div 4 \<noteq> j"
  shows "rfc_word (s @ char_of (0 :: nat) # z) j = rfc_word (s @ c # z) j"
proof -
  have "4 * j + m \<noteq> length s" if "m < 4" for m using assms that by auto
  from this [of 0] this [of 1] this [of 2] this [of 3] show ?thesis
    by (simp add: rfc_word_or charCodeAt_hole [of s c z])
qed

lemma tail_or_rfc:
  assumes "length s < 64"
  shows "tail_or (of_char c) (length s) (rfc_words (s @ char_of (0 :: nat) # z))
         = rfc_words (s @ c # z)"
proof (rule nth_equalityI)
  fix j
  assume "j < length (tail_or (of_char c) (length s) (rfc_words (s @ char_of (0 :: nat) # z)))"
  then have j: "j < 16" by (simp add: tail_or_def rfc_words_def)
  have "length s div 4 < 16" using assms by simp
  moreover have "push_bit 3 (length s mod 4) = 8 * (length s mod 4)"
    by (simp add: push_bit_eq_mult)
  ultimately show "tail_or (of_char c) (length s) (rfc_words (s @ char_of (0 :: nat) # z)) ! j
      = rfc_words (s @ c # z) ! j"
    using j rfc_word_other [of s j z c] rfc_word_hole [of s j "length s mod 4" z c]
    by (auto simp: tail_or_def rfc_words_def nth_list_update drop_bit_eq_div)
qed (simp add: tail_or_def rfc_words_def)

lemma rfc_words_zeros: "rfc_words (replicate 64 (char_of (0 :: nat))) = replicate 16 0"
proof (rule nth_equalityI)
  fix j
  assume "j < length (rfc_words (replicate 64 (char_of (0 :: nat))))"
  then show "rfc_words (replicate 64 (char_of (0 :: nat))) ! j = replicate 16 0 ! j"
    by (simp add: rfc_words_def rfc_word_def)
qed (simp add: rfc_words_def)

lemma md5_tail_fold:
  "length s \<le> 64 \<Longrightarrow> fold (\<lambda>i. tail_or (charCodeAt (s @ t) i) i) [0..<length s] (replicate 16 0)
     = rfc_words (s @ replicate (64 - length s) (char_of (0 :: nat)))"
proof (induction s arbitrary: t rule: rev_induct)
  case Nil
  then show ?case by (simp add: rfc_words_zeros)
next
  case (snoc c s)
  have "replicate (64 - length s) (char_of (0 :: nat))
        = char_of (0 :: nat) # replicate (64 - length (s @ [c])) (char_of (0 :: nat))"
    using snoc.prems by (simp add: replicate_Suc [symmetric] Suc_diff_Suc del: replicate_Suc)
  with snoc.IH [of "c # t"] snoc.prems show ?case
    by (simp add: tail_or_rfc charCodeAt_def)
qed

lemma md5_tail_rfc:
  assumes "length s < 64"
  shows "md5_tail s = rfc_words (s @ char_of (0x80 :: nat) # replicate (63 - length s) (char_of (0 :: nat)))"
proof -
  have "replicate (64 - length s) (char_of (0 :: nat)) = char_of (0 :: nat) # replicate (63 - length s) (char_of (0 :: nat))"
    using assms by (simp add: replicate_Suc [symmetric] Suc_diff_le del: replicate_Suc)
  moreover have "of_char (char_of (0x80 :: nat)) = (0x80 :: u32)"
    by (simp add: of_char_word)
  ultimately show ?thesis
    using assms md5_tail_fold [of s "[]"] tail_or_rfc [of s "char_of (0x80 :: nat)"]
    by (simp add: md5_tail_def)
qed

text \<open>The length field: the upper half is zero below \<open>2^29\<close> bytes.\<close>

lemma nat_bytes: "n < 2 ^ 32 \<Longrightarrow>
  n mod 256 + 256 * (n div 256 mod 256) + 65536 * (n div 65536 mod 256) + 16777216 * (n div 16777216 mod 256) = (n :: nat)"
proof -
  assume n: "n < 2 ^ 32"
  have "n mod 256 + 256 * (n div 256 mod 256) = n mod 65536"
    using mod_mult2_eq [of n 256 256] by simp
  moreover have "n mod 65536 + 65536 * (n div 65536 mod 256) = n mod 16777216"
    using mod_mult2_eq [of n 65536 256] by simp
  moreover have "n mod 16777216 + 16777216 * (n div 16777216 mod 256) = n mod 4294967296"
    using mod_mult2_eq [of n 16777216 256] by simp
  ultimately show ?thesis using n by simp
qed

lemma rfc_length_eq:
  assumes "n < 2 ^ 32"
  shows "rfc_length n = [char_of n, char_of (n div 256), char_of (n div 65536), char_of (n div 16777216),
    char_of (0 :: nat), char_of (0 :: nat), char_of (0 :: nat), char_of (0 :: nat)]"
proof -
  have "[0..<8] = [0, 1, 2, 3, 4, 5, 6, 7]" by (simp add: upt_rec numeral_eq_Suc)
  with assms show ?thesis by (simp add: rfc_length_def div_less)
qed

lemma rfc_word_prefix: "length p = 56 \<Longrightarrow> j < 14 \<Longrightarrow> rfc_word (p @ x) j = rfc_word (p @ y) j"
  by (simp add: rfc_word_def nth_append)

lemma rfc_word_length:
  assumes "length p = 56" "n < 2 ^ 32"
  shows "rfc_word (p @ rfc_length n) 14 = of_nat n" "rfc_word (p @ rfc_length n) 15 = 0"
proof -
  have "rfc_word (p @ rfc_length n) 14 = of_nat (n mod 256 + 256 * (n div 256 mod 256)
      + 65536 * (n div 65536 mod 256) + 16777216 * (n div 16777216 mod 256))"
    unfolding rfc_word_def rfc_length_eq [OF assms(2)] nth_append assms(1) by simp
  then show "rfc_word (p @ rfc_length n) 14 = of_nat n"
    by (simp only: nat_bytes [OF assms(2)])
  show "rfc_word (p @ rfc_length n) 15 = 0"
    unfolding rfc_word_def rfc_length_eq [OF assms(2)] nth_append assms(1) by simp
qed

lemma rfc_word_zeros: "length p = 56 \<Longrightarrow> rfc_word (p @ replicate 8 (char_of (0 :: nat))) 15 = 0"
  by (simp add: rfc_word_def nth_append)

lemma rfc_words_length:
  assumes "length p = 56" "n < 2 ^ 32"
  shows "rfc_words (p @ rfc_length n) = (rfc_words (p @ replicate 8 (char_of (0 :: nat))))[14 := of_nat n]"
proof (rule nth_equalityI)
  fix j
  assume "j < length (rfc_words (p @ rfc_length n))"
  then consider "j < 14" | "j = 14" | "j = 15" by (fastforce simp: rfc_words_def)
  then show "rfc_words (p @ rfc_length n) ! j
      = (rfc_words (p @ replicate 8 (char_of (0 :: nat))))[14 := of_nat n] ! j"
  proof cases
    case 1
    with rfc_word_prefix [OF assms(1), of j] show ?thesis by (simp add: rfc_words_def)
  qed (simp_all add: rfc_words_def rfc_word_length [OF assms] rfc_word_zeros [OF assms(1)])
qed (simp add: rfc_words_def)

lemma rfc_blocks_append:
  "length b = 64 \<Longrightarrow> rfc_blocks st (b @ s) = rfc_blocks (rfc_block st (rfc_words b)) s"
  by (subst rfc_blocks.simps) simp

lemma rfc_blocks_Nil: "rfc_blocks st [] = st"
  by (simp add: rfc_blocks.simps)

lemma md51_rfc:
  assumes "length s < 2 ^ 29"
  shows "md51 s = rfc_blocks (0x67452301, 0xefcdab89, 0x98badcfe, 0x10325476) (rfc_pad s)"
proof -
  let ?init = "(1732584193, - 271733879, - 1732584194, 271733878) :: md5_state"
  let ?z = "\<lambda>k. replicate k (char_of (0 :: nat))"
  let ?one = "char_of (0x80 :: nat)"
  let ?len = "rfc_length (8 * length s)"
  obtain st r where r: "md5_blocks ?init s = (st, r)" by fastforce
  note blocks = md5_blocks_rfc [OF r]
  have len: "length s mod 64 = length r" "length r < 64" using blocks by auto
  have n: "8 * length s < 2 ^ 32" using assms by simp
  have pad: "rfc_blocks ?init (rfc_pad s)
      = rfc_blocks st (r @ ?one # ?z ((119 - length r) mod 64) @ ?len)"
    using blocks by (simp add: rfc_pad_def len)
  have "md51 s = rfc_blocks ?init (rfc_pad s)"
  proof (cases "55 < length r")
    case True
    let ?b = "r @ ?one # ?z (63 - length r)"
    have "(119 - length r) mod 64 = (63 - length r) + 56"
      using True len by simp
    then have "r @ ?one # ?z ((119 - length r) mod 64) @ ?len = ?b @ ?z 56 @ ?len"
      by (simp only: replicate_add append_Cons append_assoc)
    moreover have "length ?b = 64" "length (?z 56 @ ?len) = 64"
      using len by (simp_all add: rfc_length_def)
    moreover have "rfc_words (?z 56 @ ?len) = (replicate 16 0)[14 := of_nat (length s * 8)]"
      using rfc_words_length [of "?z 56", OF _ n] rfc_words_zeros
      by (simp flip: replicate_add add: mult.commute)
    ultimately show ?thesis
      using True len pad rfc_blocks_append [of ?b] rfc_blocks_append [of "?z 56 @ ?len" _ "[]"]
      by (simp add: md51_def r md5cycle_rfc md5_tail_rfc rfc_blocks_Nil)
  next
    case False
    let ?p = "r @ ?one # ?z (55 - length r)"
    have "63 - length r = 55 - length r + 8" using False by simp
    then have "?z (63 - length r) = ?z (55 - length r) @ ?z 8" by (simp only: replicate_add)
    moreover have "(119 - length r) mod 64 = 55 - length r"
      using False by (simp add: mod_if)
    moreover have "length ?p = 56" "length (?p @ ?len) = 64"
      using False by (simp_all add: rfc_length_def)
    ultimately show ?thesis
      using False len pad rfc_words_length [of ?p, OF _ n] rfc_blocks_append [of "?p @ ?len" _ "[]"]
      by (simp add: md51_def r md5cycle_rfc md5_tail_rfc rfc_blocks_Nil mult.commute)
  qed
  moreover have "?init = (0x67452301, 0xefcdab89, 0x98badcfe, 0x10325476)" by simp
  ultimately show ?thesis by (simp only:)
qed

section \<open>The output agrees\<close>

lemma nibble:
  assumes "k \<le> 28"
  shows "unat (signed_drop_bit k w AND 0x0F :: u32) = unat w div 2 ^ k mod 16"
proof -
  have "signed_drop_bit k w AND 0x0F = take_bit 4 (drop_bit k w)"
  proof (rule bit_word_eqI)
    fix i :: nat
    have mask: "(0x0F :: u32) = mask 4" by (simp add: mask_eq_exp_minus_1)
    assume "i < LENGTH(32)"
    then show "bit (signed_drop_bit k w AND 0x0F) i = bit (take_bit 4 (drop_bit k w)) i"
      using assms unfolding mask by (auto simp: bit_simps add.commute)
  qed
  also have "unat \<dots> = take_bit 4 (drop_bit k (unat w))"
    by (simp only: unsigned_take_bit_eq unsigned_drop_bit_eq) (simp flip: unsigned_take_bit_eq add: take_bit_word_eq_self)
  finally show ?thesis by (simp add: take_bit_eq_mod drop_bit_eq_div)
qed

lemma rhex_rfc: "rhex w = rfc_output w"
proof -
  have "unat w div 256 ^ j mod 256 div 16 = unat w div 2 ^ (j * 8 + 4) mod 16" for j
    by (simp add: power_add power_mult div_mult2_eq mod_mult2_eq [of _ 16 16, simplified] mult.commute [of j])
  moreover have "unat w div 256 ^ j mod 256 mod 16 = unat w div 2 ^ (j * 8) mod 16" for j
    by (simp add: power_mult mult.commute [of j] mod_mod_cancel)
  moreover have "j * 8 + 4 \<le> 28" "j * 8 \<le> 28" if "j \<in> set [0, 1, 2, 3]" for j :: nat
    using that by auto
  moreover have "[0..<4] = [0, 1, 2, 3]" by (simp add: upt_rec numeral_eq_Suc)
  ultimately show ?thesis
    unfolding rhex_def rfc_output_def rfc_hex_byte_def hex_chr_def
    by (metis (no_types, lifting) map_cong nibble)
qed

lemma md5_rfc: "length s < 2 ^ 29 \<Longrightarrow> md5 s = rfc_md5 s"
  by (simp add: md5_def md51_rfc rfc_md5_def md5_hex_def rhex_rfc)

section \<open>The two versions of \<open>add32\<close>\<close>

lemma word_of_to_int32 [simp]: "word_of_int (to_int32 x) = (word_of_int x :: u32)"
  by (simp add: to_int32_def)

lemma to_int32_eq: "to_int32 x = (x + 2 ^ 31) mod 2 ^ 32 - 2 ^ 31"
  by (simp add: to_int32_def int_word_sint)

lemma to_int32_small: "- (2 ^ 31) \<le> x \<Longrightarrow> x < 2 ^ 31 \<Longrightarrow> to_int32 x = x"
  by (simp add: to_int32_eq)

lemma to_int32_cong: "word_of_int x = (word_of_int y :: u32) \<Longrightarrow> to_int32 x = to_int32 y"
  by (simp add: to_int32_def)

lemma js_and_low: "js_and x 0xFFFF = to_int32 x mod 65536"
proof -
  have small: "0 \<le> y \<Longrightarrow> y < 65536 \<Longrightarrow> to_int32 y = y" for y
    by (rule to_int32_small) simp_all
  have "to_int32 (to_int32 x mod 65536) = to_int32 x mod 65536"
    by (rule small) simp_all
  moreover have "to_int32 0xFFFF = mask 16"
    by (simp add: to_int32_def mask_eq_exp_minus_1)
  moreover have "y AND mask 16 = y mod 65536" for y :: int
    by (simp flip: take_bit_eq_mask add: take_bit_eq_mod)
  ultimately show ?thesis by (simp only: js_and_def)
qed

lemma js_sar_div: "js_sar x 16 = to_int32 x div 65536"
  by (simp add: js_sar_def drop_bit_eq_div)

lemma add32_num_eq: "add32_num a b = to_int32 (a + b)"
proof -
  have "to_int32 0xFFFFFFFF = - 1" by (simp add: to_int32_def)
  then show ?thesis by (simp add: add32_num_def js_and_def) (simp add: to_int32_def)
qed

lemma add32_num_word: "word_of_int (add32_num a b) = add32 (word_of_int a) (word_of_int b)"
  by (simp add: add32_num_eq add32_def)


lemma js_bor_high_low:
  assumes "0 \<le> l" "l < 65536"
  shows "js_bor (js_shl m 16) l = to_int32 (65536 * m + l)"
proof -
  have "word_of_int (to_int32 (js_shl m 16) OR to_int32 l)
        = push_bit 16 (word_of_int m) OR (word_of_int l :: u32)"
    by (simp add: js_shl_def of_int_or_eq push_bit_of_int [symmetric])
  also have "\<dots> = word_of_int l + push_bit 16 (word_of_int m)"
  proof (subst or.commute, rule bytes_disjoint [symmetric])
    fix i
    assume "bit (word_of_int l :: u32) i"
    moreover have "take_bit 16 l = l" using assms by (simp add: take_bit_eq_mod)
    ultimately show "i < 16" by (metis bit_take_bit_iff bit_word_of_int_iff)
  qed
  also have "\<dots> = word_of_int (65536 * m + l)"
    by (simp add: push_bit_eq_mult ac_simps)
  finally show ?thesis
    unfolding js_bor_def by (rule to_int32_cong)
qed

lemma add32_split_eq: "add32_split x y = to_int32 (x + y)"
proof -
  let ?x = "to_int32 x" and ?y = "to_int32 y"
  define lsw where "lsw = ?x mod 65536 + ?y mod 65536"
  have "0 \<le> lsw" "lsw < 2 ^ 31"
    using pos_mod_bound [of 65536 ?x] pos_mod_bound [of 65536 ?y] by (simp_all add: lsw_def)
  then have lsw: "to_int32 lsw = lsw" by (simp add: to_int32_small)
  have "add32_split x y = js_bor (js_shl (?x div 65536 + ?y div 65536 + lsw div 65536) 16) (lsw mod 65536)"
    by (simp add: add32_split_def js_and_low js_sar_div Let_def lsw flip: lsw_def)
  also have "\<dots> = to_int32 (65536 * (?x div 65536 + ?y div 65536 + lsw div 65536) + lsw mod 65536)"
    by (rule js_bor_high_low) simp_all
  also have "65536 * (?x div 65536 + ?y div 65536 + lsw div 65536) + lsw mod 65536 = ?x + ?y"
    using mult_div_mod_eq [of 65536 ?x] mult_div_mod_eq [of 65536 ?y] mult_div_mod_eq [of 65536 lsw]
    by (simp add: lsw_def algebra_simps)
  also have "to_int32 (?x + ?y) = to_int32 (x + y)"
    by (rule to_int32_cong) simp
  finally show ?thesis .
qed

section \<open>Properties\<close>




end
