(* ===== verification/Js_Value.thy ===== *)
theory Js_Value
  imports Complex_Main Prelude
begin

text \<open>
  JavaScript values as the WebUI handles them: numbers with \<open>NaN\<close> and the infinities, the dynamic
  values behind \<open>RawJson\<close> and \<open>unknown\<close>, exceptions, and \<open>JSON.stringify\<close> / \<open>JSON.parse\<close>.

  Finite numbers are rationals with exact arithmetic: the rounding of IEEE doubles is not modelled,
  and \<open>-0\<close> is \<open>0\<close>.  An object is the list of its own properties in property order; what it inherits
  from \<open>Object.prototype\<close> is not modelled.  JSON text is a list of tokens: the quoting of strings and
  the decimal notation of numbers are left to the tokens \<open>TStr\<close> and \<open>TNum\<close>.
\<close>

section \<open>Numbers\<close>

datatype number = NaN | PInf | NInf | Fin rat

fun num_add :: "number \<Rightarrow> number \<Rightarrow> number" where
  "num_add (Fin a) (Fin b) = Fin (a + b)"
| "num_add NaN _ = NaN"
| "num_add _ NaN = NaN"
| "num_add PInf NInf = NaN"
| "num_add NInf PInf = NaN"
| "num_add PInf _ = PInf"
| "num_add _ PInf = PInf"
| "num_add NInf _ = NInf"
| "num_add _ NInf = NInf"

fun num_neg :: "number \<Rightarrow> number" where
  "num_neg NaN = NaN"
| "num_neg PInf = NInf"
| "num_neg NInf = PInf"
| "num_neg (Fin a) = Fin (- a)"

definition num_sub :: "number \<Rightarrow> number \<Rightarrow> number" where
  "num_sub a b = num_add a (num_neg b)"

text \<open>The sign of a number; \<open>sort\<close> reads the \<open>NaN\<close> of a comparator as \<open>0\<close>.\<close>

fun num_sgn :: "number \<Rightarrow> int" where
  "num_sgn NaN = 0"
| "num_sgn PInf = 1"
| "num_sgn NInf = - 1"
| "num_sgn (Fin a) = (if a < 0 then - 1 else if a = 0 then 0 else 1)"

text \<open>Multiplication and division; a zero divisor gives an infinity or \<open>NaN\<close>.\<close>

definition signed_inf :: "int \<Rightarrow> number" where
  "signed_inf s = (if s = 0 then NaN else if s < 0 then NInf else PInf)"

fun num_mul :: "number \<Rightarrow> number \<Rightarrow> number" where
  "num_mul (Fin a) (Fin b) = Fin (a * b)"
| "num_mul NaN _ = NaN"
| "num_mul _ NaN = NaN"
| "num_mul a b = signed_inf (num_sgn a * num_sgn b)"

fun num_div :: "number \<Rightarrow> number \<Rightarrow> number" where
  "num_div (Fin a) (Fin b) = (if b = 0 then signed_inf (num_sgn (Fin a)) else Fin (a / b))"
| "num_div NaN _ = NaN"
| "num_div _ NaN = NaN"
| "num_div (Fin a) _ = Fin 0"
| "num_div a (Fin b) = (if b = 0 then a else signed_inf (num_sgn a * num_sgn (Fin b)))"
| "num_div _ _ = NaN"

text \<open>\<open><\<close> and \<open>===\<close> on numbers: false whenever \<open>NaN\<close> takes part.\<close>

fun num_lt :: "number \<Rightarrow> number \<Rightarrow> bool" where
  "num_lt (Fin a) (Fin b) = (a < b)"
| "num_lt NaN _ = False"
| "num_lt _ NaN = False"
| "num_lt NInf NInf = False"
| "num_lt NInf _ = True"
| "num_lt PInf _ = False"
| "num_lt _ PInf = True"
| "num_lt _ NInf = False"

definition num_eq :: "number \<Rightarrow> number \<Rightarrow> bool" where
  "num_eq a b = (a \<noteq> NaN \<and> a = b)"

text \<open>\<open>Math.round\<close>: halves go up.\<close>

fun math_round :: "number \<Rightarrow> number" where
  "math_round (Fin a) = Fin (of_int \<lfloor>a + 1 / 2\<rfloor>)"
| "math_round x = x"

section \<open>Values and exceptions\<close>

datatype js =
    Undefined
  | Null
  | Bool bool
  | Num number
  | Str string
  | Arr "js list"
  | Obj "(string \<times> js) list"
  | MapV "(js \<times> js) list"
  | SetV "js list"
  | Func bool \<comment> \<open>whether it is an \<open>AsyncFunction\<close>\<close>

datatype exn = TypeError | SyntaxError | JsError string

type_synonym 'a result = "exn + 'a"

definition bind_exn :: "'e + 'a \<Rightarrow> ('a \<Rightarrow> 'e + 'b) \<Rightarrow> 'e + 'b" where
  "bind_exn m f = (case m of Inl e \<Rightarrow> Inl e | Inr x \<Rightarrow> f x)"

lemma bind_exn_simps [simp]:
  "bind_exn (Inl e) f = Inl e"
  "bind_exn (Inr x) f = f x"
  by (simp_all add: bind_exn_def)

lemma bind_exn_Inr_iff: "bind_exn m f = Inr y \<longleftrightarrow> (\<exists>x. m = Inr x \<and> f x = Inr y)"
  by (cases m) auto

text \<open>\<open>map\<close> with a callback that may throw.\<close>

fun mapM_exn :: "('a \<Rightarrow> 'e + 'b) \<Rightarrow> 'a list \<Rightarrow> 'e + 'b list" where
  "mapM_exn f [] = Inr []"
| "mapM_exn f (x # xs) = bind_exn (f x) (\<lambda>y. bind_exn (mapM_exn f xs) (\<lambda>ys. Inr (y # ys)))"

lemma mapM_exn_length: "mapM_exn f xs = Inr ys \<Longrightarrow> length ys = length xs"
  by (induction xs arbitrary: ys) (auto simp: bind_exn_def split: sum.splits)

text \<open>\<open>typeof\<close> and truthiness.\<close>

fun typeof :: "js \<Rightarrow> string" where
  "typeof Undefined = ''undefined''"
| "typeof (Bool _) = ''boolean''"
| "typeof (Num _) = ''number''"
| "typeof (Str _) = ''string''"
| "typeof (Func _) = ''function''"
| "typeof _ = ''object''"

fun truthy :: "js \<Rightarrow> bool" where
  "truthy Undefined = False"
| "truthy Null = False"
| "truthy (Bool b) = b"
| "truthy (Num n) = (n \<noteq> NaN \<and> n \<noteq> Fin 0)"
| "truthy (Str s) = (s \<noteq> [])"
| "truthy _ = True"

text \<open>\<open>a || b\<close>.\<close>

definition js_or :: "js \<Rightarrow> js \<Rightarrow> js" where
  "js_or a b = (if truthy a then a else b)"

definition is_nullish :: "js \<Rightarrow> bool" where
  "is_nullish v = (v = Undefined \<or> v = Null)"

fun parse_nat :: "nat \<Rightarrow> string \<Rightarrow> nat option" where
  "parse_nat acc [] = Some acc"
| "parse_nat acc (c # cs) =
     (if is_digit c then parse_nat (10 * acc + (of_char c - 48)) cs else None)"

text \<open>
  \<open>ToNumber\<close>.  Of the numeric notations a string may hold only plain decimal digits are modelled; an
  object converts through its text, which no numeric use in the WebUI relies on, and gives \<open>NaN\<close>.
\<close>

fun to_number :: "js \<Rightarrow> number" where
  "to_number Null = Fin 0"
| "to_number (Bool b) = Fin (if b then 1 else 0)"
| "to_number (Num n) = n"
| "to_number (Str s) = (case parse_nat 0 s of Some n \<Rightarrow> Fin (of_nat n) | None \<Rightarrow> NaN)"
| "to_number _ = NaN"

text \<open>The canonical decimal notation of an index: no sign, no leading zero.\<close>

definition array_index :: "string \<Rightarrow> nat option" where
  "array_index s = (case s of [] \<Rightarrow> None
     | c # cs \<Rightarrow> if c = CHR ''0'' \<and> cs \<noteq> [] then None else parse_nat 0 s)"

text \<open>
  Reading the property \<open>k\<close>: \<open>undefined\<close> when it is missing, a \<open>TypeError\<close> on \<open>null\<close> and \<open>undefined\<close>.
\<close>

fun js_get :: "js \<Rightarrow> string \<Rightarrow> js result" where
  "js_get Undefined k = Inl TypeError"
| "js_get Null k = Inl TypeError"
| "js_get (Obj ps) k = Inr (case map_of ps k of None \<Rightarrow> Undefined | Some v \<Rightarrow> v)"
| "js_get (Arr xs) k =
     Inr (if k = ''length'' then Num (Fin (of_nat (length xs)))
          else case array_index k of
              Some i \<Rightarrow> if i < length xs then xs ! i else Undefined
            | None \<Rightarrow> Undefined)"
| "js_get (Str s) k =
     Inr (if k = ''length'' then Num (Fin (of_nat (length s)))
          else case array_index k of
              Some i \<Rightarrow> if i < length s then Str [s ! i] else Undefined
            | None \<Rightarrow> Undefined)"
| "js_get _ k = Inr Undefined"

text \<open>\<open>k in o\<close>, for an object.\<close>

fun js_in :: "string \<Rightarrow> js \<Rightarrow> bool" where
  "js_in k (Obj ps) = (map_of ps k \<noteq> None)"
| "js_in k _ = False"

section \<open>JSON\<close>

datatype json =
    JNull | JBool bool | JNum rat | JStr string | JArr "json list" | JObj "(string \<times> json) list"

datatype tok =
    TLBrace | TRBrace | TLBrack | TRBrack | TComma | TColon
  | TStr string | TNum rat | TBool bool | TNull

type_synonym json_text = "tok list"

text \<open>
  What \<open>JSON.stringify\<close> keeps of a value: nothing of \<open>undefined\<close> and of functions (a property with
  such a value is left out, an array element becomes \<open>null\<close>), \<open>null\<close> for the numbers that are not
  finite, an empty object for a \<open>Map\<close> or a \<open>Set\<close>.
\<close>

primrec json_props :: "(string \<times> json option) list \<Rightarrow> (string \<times> json) list" where
  "json_props [] = []"
| "json_props (p # ps) = (case snd p of
     None \<Rightarrow> json_props ps | Some j \<Rightarrow> (fst p, j) # json_props ps)"

fun to_json :: "js \<Rightarrow> json option" where
  "to_json Undefined = None"
| "to_json Null = Some JNull"
| "to_json (Bool b) = Some (JBool b)"
| "to_json (Num (Fin q)) = Some (JNum q)"
| "to_json (Num _) = Some JNull"
| "to_json (Str s) = Some (JStr s)"
| "to_json (Arr xs) =
     Some (JArr (map (\<lambda>x. case to_json x of None \<Rightarrow> JNull | Some j \<Rightarrow> j) xs))"
| "to_json (Obj ps) = Some (JObj (json_props (map (\<lambda>(k, v). (k, to_json v)) ps)))"
| "to_json (MapV _) = Some (JObj [])"
| "to_json (SetV _) = Some (JObj [])"
| "to_json (Func _) = None"

fun of_json :: "json \<Rightarrow> js" where
  "of_json JNull = Null"
| "of_json (JBool b) = Bool b"
| "of_json (JNum q) = Num (Fin q)"
| "of_json (JStr s) = Str s"
| "of_json (JArr js) = Arr (map of_json js)"
| "of_json (JObj ps) = Obj (map (\<lambda>(k, v). (k, of_json v)) ps)"

fun commas :: "json_text list \<Rightarrow> json_text" where
  "commas [] = []"
| "commas [t] = t"
| "commas (t # u # us) = t @ TComma # commas (u # us)"

fun print_json :: "json \<Rightarrow> json_text" where
  "print_json JNull = [TNull]"
| "print_json (JBool b) = [TBool b]"
| "print_json (JNum q) = [TNum q]"
| "print_json (JStr s) = [TStr s]"
| "print_json (JArr js) = TLBrack # commas (map print_json js) @ [TRBrack]"
| "print_json (JObj ps) =
     TLBrace # commas (map (\<lambda>(k, v). TStr k # TColon # print_json v) ps) @ [TRBrace]"

text \<open>\<open>JSON.stringify\<close>: \<open>None\<close> is the result \<open>undefined\<close>.\<close>

definition stringify :: "js \<Rightarrow> json_text option" where
  "stringify v = map_option print_json (to_json v)"

text \<open>
  \<open>JSON.parse\<close>: a recursive descent over the tokens, with fuel; a repeated key overwrites the earlier
  value.
\<close>

fun parse_val :: "nat \<Rightarrow> json_text \<Rightarrow> (json \<times> json_text) option"
  and parse_elems :: "nat \<Rightarrow> json_text \<Rightarrow> (json list \<times> json_text) option"
  and parse_members :: "nat \<Rightarrow> (string \<times> json) list \<Rightarrow> json_text \<Rightarrow> ((string \<times> json) list \<times> json_text) option"
where
  "parse_val 0 ts = None"
| "parse_val (Suc n) ts = (case ts of
      [] \<Rightarrow> None
    | t # r \<Rightarrow> (case t of
        TNull \<Rightarrow> Some (JNull, r)
      | TBool b \<Rightarrow> Some (JBool b, r)
      | TNum q \<Rightarrow> Some (JNum q, r)
      | TStr s \<Rightarrow> Some (JStr s, r)
      | TLBrack \<Rightarrow>
          if r \<noteq> [] \<and> hd r = TRBrack then Some (JArr [], tl r)
          else map_option (map_prod JArr id) (parse_elems n r)
      | TLBrace \<Rightarrow>
          if r \<noteq> [] \<and> hd r = TRBrace then Some (JObj [], tl r)
          else map_option (map_prod JObj id) (parse_members n [] r)
      | _ \<Rightarrow> None))"
| "parse_elems 0 ts = None"
| "parse_elems (Suc n) ts = (case parse_val n ts of
      Some (v, TComma # r) \<Rightarrow> map_option (map_prod (\<lambda>vs. v # vs) id) (parse_elems n r)
    | Some (v, TRBrack # r) \<Rightarrow> Some ([v], r)
    | _ \<Rightarrow> None)"
| "parse_members 0 acc ts = None"
| "parse_members (Suc n) acc ts = (case ts of
      TStr k # TColon # r \<Rightarrow> (case parse_val n r of
          Some (v, TComma # r') \<Rightarrow> parse_members n (obj_set k v acc) r'
        | Some (v, TRBrace # r') \<Rightarrow> Some (obj_set k v acc, r')
        | _ \<Rightarrow> None)
    | _ \<Rightarrow> None)"

definition parse_json :: "json_text \<Rightarrow> json option" where
  "parse_json ts = (case parse_val (Suc (length ts)) ts of Some (j, []) \<Rightarrow> Some j | _ \<Rightarrow> None)"

definition json_parse :: "json_text \<Rightarrow> js result" where
  "json_parse ts = (case parse_json ts of Some j \<Rightarrow> Inr (of_json j) | None \<Rightarrow> Inl SyntaxError)"

section \<open>Lemmas on JSON\<close>

fun wf_json :: "json \<Rightarrow> bool" where
  "wf_json (JArr js) = list_all wf_json js"
| "wf_json (JObj ps) = (distinct (map fst ps) \<and> list_all (\<lambda>(k, v). wf_json v) ps)"
| "wf_json _ = True"

text \<open>The keys of an object are distinct, at every level.\<close>

fun wf_js :: "js \<Rightarrow> bool" where
  "wf_js (Arr xs) = list_all wf_js xs"
| "wf_js (Obj ps) = (distinct (map fst ps) \<and> list_all (\<lambda>(k, v). wf_js v) ps)"
| "wf_js _ = True"

lemma obj_set_new: "k \<notin> fst ` set ps \<Longrightarrow> obj_set k v ps = ps @ [(k, v)]"
  by (induction k v ps rule: obj_set.induct) auto

lemma print_json_Cons:
  "\<exists>t ts. print_json j = t # ts \<and> t \<noteq> TRBrack \<and> t \<noteq> TRBrace"
  by (cases j) auto

lemma commas_hd:
  "xs \<noteq> [] \<Longrightarrow> \<exists>t ts. commas (map print_json xs) @ r = t # ts \<and> t \<noteq> TRBrack"
  using print_json_Cons [of "hd xs"]
  by (cases "(\<lambda>t. t, map print_json xs)" rule: prod.exhaust)
     (cases "map print_json xs" rule: commas.cases; auto)

lemma parse_elems_print:
  assumes "\<And>x n r. x \<in> set xs \<Longrightarrow> length (print_json x) < n \<Longrightarrow>
      parse_val n (print_json x @ r) = Some (x, r)"
    and "xs \<noteq> []" and "length (commas (map print_json xs)) + 1 < n"
  shows "parse_elems n (commas (map print_json xs) @ TRBrack # r) = Some (xs, r)"
  using assms
proof (induction xs arbitrary: n)
  case Nil
  then show ?case by simp
next
  case (Cons x xs)
  obtain m where n: "n = Suc m" using Cons.prems(3) by (cases n) auto
  show ?case
  proof (cases xs)
    case Nil
    with Cons.prems n show ?thesis by simp
  next
    case (Cons y ys)
    with Cons.prems n have "parse_elems m (commas (map print_json xs) @ TRBrack # r) = Some (xs, r)"
      by (intro Cons.IH) auto
    with Cons Cons.prems n show ?thesis by simp
  qed
qed

lemma parse_members_print:
  assumes "\<And>k v n r. (k, v) \<in> set ps \<Longrightarrow> length (print_json v) < n \<Longrightarrow>
      parse_val n (print_json v @ r) = Some (v, r)"
    and "ps \<noteq> []" and "distinct (map fst (acc @ ps))"
    and "length (commas (map (\<lambda>(k, v). TStr k # TColon # print_json v) ps)) + 1 < n"
  shows "parse_members n acc
      (commas (map (\<lambda>(k, v). TStr k # TColon # print_json v) ps) @ TRBrace # r) = Some (acc @ ps, r)"
  using assms
proof (induction ps arbitrary: n acc)
  case Nil
  then show ?case by simp
next
  case (Cons p ps)
  obtain m where n: "n = Suc m" using Cons.prems(4) by (cases n) auto
  obtain k v where p: "p = (k, v)" by (cases p)
  have set_kv: "obj_set k v acc = acc @ [(k, v)]"
    using Cons.prems(3) p by (intro obj_set_new) auto
  show ?case
  proof (cases ps)
    case Nil
    with Cons.prems n p set_kv show ?thesis by simp
  next
    case (Cons q qs)
    with Cons.prems n p have "parse_members m (acc @ [(k, v)])
        (commas (map (\<lambda>(k, v). TStr k # TColon # print_json v) ps) @ TRBrace # r)
      = Some ((acc @ [(k, v)]) @ ps, r)"
      by (intro Cons.IH) auto
    moreover have "parse_val m (print_json v @ TComma # u) = Some (v, TComma # u)" for u
      using Cons.prems Cons n p by (intro Cons.prems(1)) auto
    ultimately show ?thesis using Cons n p set_kv by simp
  qed
qed

lemma parse_val_print:
  "wf_json j \<Longrightarrow> length (print_json j) < n \<Longrightarrow> parse_val n (print_json j @ r) = Some (j, r)"
proof (induction j arbitrary: n r)
  case JNull
  then show ?case by (cases n) auto
next
  case (JBool b)
  then show ?case by (cases n) auto
next
  case (JNum q)
  then show ?case by (cases n) auto
next
  case (JStr s)
  then show ?case by (cases n) auto
next
  case (JArr xs)
  obtain m where n: "n = Suc m" using JArr.prems(2) by (cases n) auto
  show ?case
  proof (cases "xs = []")
    case False
    have "parse_elems m (commas (map print_json xs) @ TRBrack # r) = Some (xs, r)"
      using JArr False n by (intro parse_elems_print) (auto simp: list_all_iff)
    moreover obtain t ts where "commas (map print_json xs) @ TRBrack # r = t # ts" "t \<noteq> TRBrack"
      using commas_hd [OF False] by blast
    ultimately show ?thesis using n by simp
  qed (simp add: n)
next
  case (JObj ps)
  obtain m where n: "n = Suc m" using JObj.prems(2) by (cases n) auto
  show ?case
  proof (cases ps)
    case (Cons p qs)
    let ?c = "commas (map (\<lambda>(k, v). TStr k # TColon # print_json v) ps)"
    have IH: "parse_val i (print_json v @ q) = Some (v, q)"
      if "(k, v) \<in> set ps" "length (print_json v) < i" for k v i q
      using that JObj.IH [of "(k, v)" v i q] JObj.prems(1) by (auto simp: list_all_iff)
    have "parse_members m [] (?c @ TRBrace # r) = Some ([] @ ps, r)"
      using JObj.prems Cons n by (intro parse_members_print IH) auto
    moreover obtain ts where "?c @ TRBrace # r = TStr (fst p) # ts"
      using Cons by (cases p; cases qs) auto
    ultimately show ?thesis using n by simp
  qed (simp add: n)
qed

lemma parse_print_json [simp]: "wf_json j \<Longrightarrow> parse_json (print_json j) = Some j"
  using parse_val_print [of j "Suc (length (print_json j))" "[]"] by (simp add: parse_json_def)

lemma print_json_inj: "wf_json a \<Longrightarrow> wf_json b \<Longrightarrow> print_json a = print_json b \<Longrightarrow> a = b"
  using parse_print_json by (metis option.inject)

lemma keys_json_props: "fst ` set (json_props ps) \<subseteq> fst ` set ps"
  by (induction ps) (auto split: option.splits)

lemma distinct_json_props: "distinct (map fst ps) \<Longrightarrow> distinct (map fst (json_props ps))"
proof (induction ps)
  case (Cons p ps)
  with keys_json_props [of ps] show ?case by (auto split: option.splits)
qed simp

lemma json_props_mem: "(k, j) \<in> set (json_props ps) \<Longrightarrow> (k, Some j) \<in> set ps"
  by (induction ps) (auto split: option.splits)

lemma wf_to_json: "wf_js v \<Longrightarrow> to_json v = Some j \<Longrightarrow> wf_json j"
proof (induction v arbitrary: j)
  case (Num x)
  then show ?case by (cases x) auto
next
  case (Arr xs)
  then show ?case by (auto simp: list_all_iff split: option.splits)
next
  case (Obj ps)
  have "distinct (map fst (json_props (map (\<lambda>(k, v). (k, to_json v)) ps)))"
    using Obj.prems by (intro distinct_json_props) (simp add: case_prod_unfold comp_def)
  moreover have "wf_json j'" if "(k, j') \<in> set (json_props (map (\<lambda>(k, v). (k, to_json v)) ps))" for k j'
  proof -
    from json_props_mem [OF that] obtain v where "(k, v) \<in> set ps" "to_json v = Some j'"
      by auto
    then show ?thesis using Obj by (fastforce simp: list_all_iff snds.simps)
  qed
  ultimately show ?case using Obj.prems by (auto simp: list_all_iff)
qed auto

text \<open>Values that survive \<open>JSON.stringify\<close> unchanged.\<close>

fun pure_json :: "js \<Rightarrow> bool" where
  "pure_json Null = True"
| "pure_json (Bool _) = True"
| "pure_json (Num (Fin _)) = True"
| "pure_json (Str _) = True"
| "pure_json (Arr xs) = list_all pure_json xs"
| "pure_json (Obj ps) = list_all (\<lambda>(k, v). pure_json v) ps"
| "pure_json _ = False"

lemma json_props_Some: "json_props (map (\<lambda>(k, v). (k, Some (f v))) ps) = map (\<lambda>(k, v). (k, f v)) ps"
  by (induction ps) auto

lemma to_of_json: "to_json (of_json j) = Some j"
proof (induction j)
  case (JArr xs)
  then show ?case by (simp add: map_idI)
next
  case (JObj ps)
  then have "map (\<lambda>(k, v). (k, to_json v)) (map (\<lambda>(k, v). (k, of_json v)) ps)
      = map (\<lambda>(k, v). (k, Some v)) ps"
    by (fastforce simp: snds.simps)
  then have "json_props (map (\<lambda>(k, v). (k, to_json v)) (map (\<lambda>(k, v). (k, of_json v)) ps)) = ps"
    using json_props_Some [of "\<lambda>x. x" ps] by (simp only:) simp
  then show ?case by simp
qed auto

lemma pure_json_of_json [simp]: "pure_json (of_json j)"
  by (induction j) (auto simp: list_all_iff snds.simps)

lemma of_to_json: "pure_json v \<Longrightarrow> \<exists>j. to_json v = Some j \<and> of_json j = v"
proof (induction v)
  case (Num x)
  then show ?case by (cases x) auto
next
  case (Arr xs)
  then have *: "of_json (case to_json x of None \<Rightarrow> JNull | Some j \<Rightarrow> j) = x" if "x \<in> set xs" for x
    using that by (fastforce simp: list_all_iff)
  then have "map (\<lambda>x. of_json (case to_json x of None \<Rightarrow> JNull | Some j \<Rightarrow> j)) xs = xs"
    by (simp add: map_idI)
  then show ?case by (simp add: comp_def)
next
  case (Obj ps)
  have *: "\<exists>j. to_json v = Some j \<and> of_json j = v" if "(k, v) \<in> set ps" for k v
    using Obj that by (fastforce simp: list_all_iff snds.simps)
  then have "\<forall>p \<in> set ps. (case p of (k, v) \<Rightarrow> (k, to_json v)) = (fst p, Some (the (to_json (snd p))))"
    by fastforce
  then have "map (\<lambda>(k, v). (k, to_json v)) ps = map (\<lambda>(k, v). (k, Some (the (to_json v)))) ps"
    by (auto simp: case_prod_unfold)
  then have "json_props (map (\<lambda>(k, v). (k, to_json v)) ps) = map (\<lambda>(k, v). (k, the (to_json v))) ps"
    using json_props_Some [of "\<lambda>v. the (to_json v)" ps] by (simp only:)
  moreover have "map (\<lambda>(k, v). (k, of_json (the (to_json v)))) ps = ps"
    using * by (intro map_idI) fastforce
  ultimately show ?case by (simp add: comp_def case_prod_unfold)
qed auto

text \<open>\<open>JSON.parse(JSON.stringify(v))\<close> gives back what the JSON text keeps of \<open>v\<close>.\<close>

lemma json_parse_stringify:
  "wf_js v \<Longrightarrow> stringify v = Some t \<Longrightarrow> json_parse t = Inr (of_json (the (to_json v)))"
  by (auto simp: stringify_def json_parse_def dest: wf_to_json)

lemma stringify_eq_iff:
  "wf_js a \<Longrightarrow> wf_js b \<Longrightarrow> stringify a = stringify b \<longleftrightarrow> to_json a = to_json b"
  by (auto simp: stringify_def map_option_case split: option.splits
      dest: wf_to_json intro: print_json_inj)

section \<open>Decimal notation\<close>

lemma is_digit_digit: "d < 10 \<Longrightarrow> is_digit (char_of (48 + d :: nat)) \<and> (of_char (char_of (48 + d :: nat)) :: nat) = 48 + d"
  by (simp add: is_digit_def)

lemma parse_show_nat_aux: "parse_nat 0 (show_nat_aux n acc) = parse_nat n acc"
proof (induction n acc rule: show_nat_aux.induct)
  case (1 n acc)
  have digit: "parse_nat a (char_of (48 + n mod 10) # acc) = parse_nat (10 * a + n mod 10) acc" for a
    using is_digit_digit [of "n mod 10"] by simp
  show ?case
  proof (cases "n < 10")
    case True
    with digit [of 0] show ?thesis by (subst show_nat_aux.simps) (simp add: Let_def)
  next
    case False
    have "10 * (n div 10) + n mod 10 = n" by simp
    with False 1 digit [of "n div 10"] show ?thesis by (subst show_nat_aux.simps) (simp add: Let_def)
  qed
qed

lemma parse_show_nat [simp]: "parse_nat 0 (show_nat n) = Some n"
  by (simp add: show_nat_def parse_show_nat_aux)

lemma show_nat_aux_hd:
  "\<exists>d cs. show_nat_aux n acc = char_of (48 + d :: nat) # cs \<and> d < 10 \<and> (d = 0 \<longrightarrow> n = 0 \<and> cs = acc)"
proof (induction n acc rule: show_nat_aux.induct)
  case (1 n acc)
  show ?case
  proof (cases "n < 10")
    case True
    then show ?thesis by (intro exI [of _ n] exI [of _ acc]) (subst show_nat_aux.simps, simp add: Let_def)
  next
    case False
    with 1 obtain d cs where "show_nat_aux (n div 10) (char_of (48 + n mod 10) # acc) = char_of (48 + d :: nat) # cs"
      "d < 10" "d = 0 \<longrightarrow> n div 10 = 0"
      by (auto simp: Let_def)
    with False show ?thesis
      by (intro exI [of _ d] exI [of _ cs]) (subst show_nat_aux.simps, auto simp: Let_def)
  qed
qed

lemma array_index_show_nat [simp]: "array_index (show_nat n) = Some n"
proof -
  obtain d cs where h: "show_nat n = char_of (48 + d :: nat) # cs" "d < 10" "d = 0 \<longrightarrow> n = 0 \<and> cs = []"
    using show_nat_aux_hd [of n "[]"] by (auto simp: show_nat_def)
  have "char_of (48 + d :: nat) = CHR ''0'' \<Longrightarrow> d = 0"
    using is_digit_digit [OF h(2)] by (auto dest!: arg_cong [of _ _ "of_char :: _ \<Rightarrow> nat"])
  with h parse_show_nat [of n] show ?thesis by (auto simp: array_index_def)
qed

lemma show_nat_inj: "show_nat m = show_nat n \<longleftrightarrow> m = n"
  by (metis parse_show_nat option.inject)

lemma show_nat_digits: "\<forall>c \<in> set (show_nat n). is_digit c"
proof -
  have "\<forall>c \<in> set acc. is_digit c \<Longrightarrow> \<forall>c \<in> set (show_nat_aux n acc). is_digit c" for acc
  proof (induction n acc rule: show_nat_aux.induct)
    case (1 n acc)
    then show ?case
      using is_digit_digit [of "n mod 10"] by (subst show_nat_aux.simps) (auto simp: Let_def)
  qed
  from this [of "[]"] show ?thesis by (simp add: show_nat_def)
qed

lemma show_nat_not_minus: "show_nat m \<noteq> CHR ''-'' # s"
  using show_nat_digits [of m] by (auto simp: is_digit_def)

lemma show_int_inj [simp]: "show_int i = show_int j \<longleftrightarrow> i = j"
  using show_nat_not_minus show_nat_not_minus [symmetric]
  by (auto simp: show_int_def show_nat_inj)

lemma array_index_show_int: "array_index (show_int i) = (if 0 \<le> i then Some (nat i) else None)"
  using array_index_show_nat [of "nat i"]
  by (auto simp: show_int_def simp del: array_index_show_nat) (simp add: array_index_def is_digit_def)

section \<open>parseInt\<close>

text \<open>\<open>parseInt\<close> of a text: white space, a sign, \<open>0x\<close> for sixteen, and the digits up to the first other character.\<close>

definition digit_value :: "char \<Rightarrow> nat" where
  "digit_value c = (let n = of_char c :: nat in
     if 48 \<le> n \<and> n \<le> 57 then n - 48
     else if 97 \<le> n \<and> n \<le> 102 then n - 87
     else if 65 \<le> n \<and> n \<le> 70 then n - 55 else 16)"

definition parse_digits :: "nat \<Rightarrow> string \<Rightarrow> number" where
  "parse_digits radix s = (case takeWhile (\<lambda>c. digit_value c < radix) s of
      [] \<Rightarrow> NaN
    | ds \<Rightarrow> Fin (of_nat (foldl (\<lambda>n c. radix * n + digit_value c) 0 ds)))"

definition parse_unsigned :: "string \<Rightarrow> number" where
  "parse_unsigned s = (case s of
      c # x # r \<Rightarrow> if c = CHR ''0'' \<and> (x = CHR ''x'' \<or> x = CHR ''X'') then parse_digits 16 r else parse_digits 10 s
    | _ \<Rightarrow> parse_digits 10 s)"

definition parseInt :: "string \<Rightarrow> number" where
  "parseInt text = (case dropWhile (\<lambda>c. (of_char c :: nat) \<in> {9, 10, 11, 12, 13, 32, 160}) text of
      [] \<Rightarrow> NaN
    | c # r \<Rightarrow> if c = CHR ''-'' then num_neg (parse_unsigned r)
        else if c = CHR ''+'' then parse_unsigned r else parse_unsigned (c # r))"

lemma digit_value_digit: "is_digit c \<Longrightarrow> digit_value c = of_char c - 48" "is_digit c \<Longrightarrow> digit_value c < 10"
  by (auto simp: is_digit_def digit_value_def Let_def)

lemma parse_nat_digits: "parse_nat a s = Some n \<Longrightarrow>
  foldl (\<lambda>n c. 10 * n + digit_value c) a s = n \<and> (\<forall>c \<in> set s. is_digit c)"
  by (induction a s rule: parse_nat.induct) (auto simp: digit_value_digit(1) split: if_splits)

lemma show_nat_all_digits: "\<forall>c \<in> set (show_nat n). is_digit c" "show_nat n \<noteq> []"
proof -
  show "\<forall>c \<in> set (show_nat n). is_digit c" using parse_nat_digits [OF parse_show_nat] by blast
  show "show_nat n \<noteq> []" using array_index_show_nat [of n] by (auto simp: array_index_def)
qed

lemma parse_digits_show_nat: "parse_digits 10 (show_nat n) = Fin (of_nat n)"
proof -
  have "takeWhile (\<lambda>c. digit_value c < 10) (show_nat n) = show_nat n"
    unfolding takeWhile_eq_all_conv using show_nat_all_digits(1) digit_value_digit(2) by blast
  moreover have "foldl (\<lambda>n c. 10 * n + digit_value c) 0 (show_nat n) = n" using parse_nat_digits [OF parse_show_nat] by blast
  ultimately show ?thesis
    unfolding parse_digits_def using show_nat_all_digits(2) [of n] by (cases "show_nat n") (simp_all only: list.case simp_thms)
qed

lemma parse_unsigned_show_nat: "parse_unsigned (show_nat n) = Fin (of_nat n)"
proof -
  have "\<not> is_digit (CHR ''x'')" "\<not> is_digit (CHR ''X'')" by (simp_all add: is_digit_def)
  then have "\<nexists>c r. show_nat n = c # CHR ''x'' # r \<or> show_nat n = c # CHR ''X'' # r"
    using show_nat_all_digits(1) [of n] by auto
  then have "parse_unsigned (show_nat n) = parse_digits 10 (show_nat n)"
    by (auto simp: parse_unsigned_def split: list.splits)
  then show ?thesis by (simp add: parse_digits_show_nat)
qed

lemma parseInt_show_int [simp]: "parseInt (show_int i) = Fin (of_int i)"
proof -
  obtain c r where n: "show_nat (nat i) = c # r" using show_nat_all_digits(2) by (cases "show_nat (nat i)") auto
  then have "is_digit c" using show_nat_all_digits(1) [of "nat i"] by simp
  then have c: "(of_char c :: nat) \<notin> {9, 10, 11, 12, 13, 32, 160}" "c \<noteq> CHR ''-''" "c \<noteq> CHR ''+''"
    by (auto simp: is_digit_def)
  then have pos: "parseInt (show_nat (nat i)) = parse_unsigned (show_nat (nat i))" by (simp add: parseInt_def n)
  have neg: "parseInt (CHR ''-'' # show_nat k) = num_neg (parse_unsigned (show_nat k))" for k by (simp add: parseInt_def)
  show ?thesis by (cases "i < 0") (simp_all add: show_int_def pos neg parse_unsigned_show_nat)
qed

end
