(* ===== verification/Types_Ts.thy ===== *)
theory Types_Ts
  imports Js_Value
begin

text \<open>
  \<^verbatim>\<open>types.ts\<close>: the data the WebUI works with.  An interface is a record whose fields carry a prefix for
  the interface, \<open>extends\<close> is record extension, an enum is a datatype with a function that gives the
  string the code compares and prints.  An optional property is an \<open>option\<close>; where the code tests with
  \<open>in\<close> whether the key is there at all it is a \<open>field\<close>.  The properties of slots that the decoder may leave
  undefined behind a cast are options as well.  Identifiers and counts are integers, measured
  values are numbers.
\<close>

datatype 'a field = Absent | Given "'a option"

fun has_field :: "'a field \<Rightarrow> bool" where
  "has_field Absent = False"
| "has_field (Given _) = True"

fun field_value :: "'a field \<Rightarrow> 'a option" where
  "field_value Absent = None"
| "field_value (Given v) = v"

type_synonym RawJson = js

section \<open>Enumerations\<close>

datatype ResourceType = ResourceType_CPU | ResourceType_GPU | ResourceType_UNSPECIFIED

fun str_ResourceType :: "ResourceType \<Rightarrow> string" where
  "str_ResourceType ResourceType_CPU = ''CPU''"
| "str_ResourceType ResourceType_GPU = ''GPU''"
| "str_ResourceType ResourceType_UNSPECIFIED = ''UNSPECIFIED''"

datatype ResourceState =
    ResourceState_Unspecified
  | ResourceState_Assigned
  | ResourceState_Pulling
  | ResourceState_Starting
  | ResourceState_Running
  | ResourceState_Terminated

fun str_ResourceState :: "ResourceState \<Rightarrow> string" where
  "str_ResourceState ResourceState_Unspecified = ''UNSPECIFIED''"
| "str_ResourceState ResourceState_Assigned = ''ASSIGNED''"
| "str_ResourceState ResourceState_Pulling = ''PULLING''"
| "str_ResourceState ResourceState_Starting = ''STARTING''"
| "str_ResourceState ResourceState_Running = ''RUNNING''"
| "str_ResourceState ResourceState_Terminated = ''TERMINATED''"

datatype SlotState = SlotState_Running | SlotState_Free | SlotState_Pending

fun str_SlotState :: "SlotState \<Rightarrow> string" where
  "str_SlotState SlotState_Running = ''RUNNING''"
| "str_SlotState SlotState_Free = ''FREE''"
| "str_SlotState SlotState_Pending = ''PENDING''"

datatype CommandState =
    CommandState_Pending
  | CommandState_Assigned
  | CommandState_Pulling
  | CommandState_Starting
  | CommandState_Running
  | CommandState_Terminating
  | CommandState_Terminated

fun str_CommandState :: "CommandState \<Rightarrow> string" where
  "str_CommandState CommandState_Pending = ''PENDING''"
| "str_CommandState CommandState_Assigned = ''ASSIGNED''"
| "str_CommandState CommandState_Pulling = ''PULLING''"
| "str_CommandState CommandState_Starting = ''STARTING''"
| "str_CommandState CommandState_Running = ''RUNNING''"
| "str_CommandState CommandState_Terminating = ''TERMINATING''"
| "str_CommandState CommandState_Terminated = ''TERMINATED''"

datatype CommandType = CommandType_Command | CommandType_Notebook | CommandType_Shell | CommandType_Tensorboard

fun str_CommandType :: "CommandType \<Rightarrow> string" where
  "str_CommandType CommandType_Command = ''COMMAND''"
| "str_CommandType CommandType_Notebook = ''NOTEBOOK''"
| "str_CommandType CommandType_Shell = ''SHELL''"
| "str_CommandType CommandType_Tensorboard = ''TENSORBOARD''"

datatype CheckpointStorageType =
    CheckpointStorageType_AWS
  | CheckpointStorageType_GCS
  | CheckpointStorageType_HDFS
  | CheckpointStorageType_S3
  | CheckpointStorageType_SharedFS

fun str_CheckpointStorageType :: "CheckpointStorageType \<Rightarrow> string" where
  "str_CheckpointStorageType CheckpointStorageType_AWS = ''aws''"
| "str_CheckpointStorageType CheckpointStorageType_GCS = ''gcs''"
| "str_CheckpointStorageType CheckpointStorageType_HDFS = ''hdfs''"
| "str_CheckpointStorageType CheckpointStorageType_S3 = ''s3''"
| "str_CheckpointStorageType CheckpointStorageType_SharedFS = ''shared_fs''"

datatype RunState =
    RunState_Active
  | RunState_Paused
  | RunState_StoppingCanceled
  | RunState_Canceled
  | RunState_StoppingCompleted
  | RunState_Completed
  | RunState_StoppingError
  | RunState_Errored
  | RunState_Deleted
  | RunState_Unspecified

fun str_RunState :: "RunState \<Rightarrow> string" where
  "str_RunState RunState_Active = ''ACTIVE''"
| "str_RunState RunState_Paused = ''PAUSED''"
| "str_RunState RunState_StoppingCanceled = ''STOPPING_CANCELED''"
| "str_RunState RunState_Canceled = ''CANCELED''"
| "str_RunState RunState_StoppingCompleted = ''STOPPING_COMPLETED''"
| "str_RunState RunState_Completed = ''COMPLETED''"
| "str_RunState RunState_StoppingError = ''STOPPING_ERROR''"
| "str_RunState RunState_Errored = ''ERROR''"
| "str_RunState RunState_Deleted = ''DELETED''"
| "str_RunState RunState_Unspecified = ''UNSPECIFIED''"

datatype CheckpointState =
    CheckpointState_Active
  | CheckpointState_Completed
  | CheckpointState_Error
  | CheckpointState_Deleted
  | CheckpointState_Unspecified

fun str_CheckpointState :: "CheckpointState \<Rightarrow> string" where
  "str_CheckpointState CheckpointState_Active = ''ACTIVE''"
| "str_CheckpointState CheckpointState_Completed = ''COMPLETED''"
| "str_CheckpointState CheckpointState_Error = ''ERROR''"
| "str_CheckpointState CheckpointState_Deleted = ''DELETED''"
| "str_CheckpointState CheckpointState_Unspecified = ''UNSPECIFIED''"

datatype MetricType = MetricType_Training | MetricType_Validation

fun str_MetricType :: "MetricType \<Rightarrow> string" where
  "str_MetricType MetricType_Training = ''training''"
| "str_MetricType MetricType_Validation = ''validation''"

datatype TBSourceType = TBSourceType_Trial | TBSourceType_Experiment

datatype LogLevel = LogLevel_Debug | LogLevel_Error | LogLevel_Info | LogLevel_Warning

fun str_LogLevel :: "LogLevel \<Rightarrow> string" where
  "str_LogLevel LogLevel_Debug = ''debug''"
| "str_LogLevel LogLevel_Error = ''error''"
| "str_LogLevel LogLevel_Info = ''info''"
| "str_LogLevel LogLevel_Warning = ''warning''"

definition resourceTypes :: "ResourceType list" where
  "resourceTypes = [ResourceType_CPU, ResourceType_GPU]"

definition resourceStates :: "ResourceState list" where
  "resourceStates = [ResourceState_Unspecified, ResourceState_Assigned, ResourceState_Pulling,
     ResourceState_Starting, ResourceState_Running, ResourceState_Terminated]"

definition metricTypeParamMap :: "(string \<times> string) list" where
  "metricTypeParamMap = [(str_MetricType MetricType_Training, ''METRIC_TYPE_TRAINING''),
     (str_MetricType MetricType_Validation, ''METRIC_TYPE_VALIDATION'')]"

definition ALL_VALUE :: string where
  "ALL_VALUE = ''all''"

text \<open>\<open>CommandState | RunState\<close>.\<close>

datatype State = CommandS CommandState | RunS RunState

fun str_State :: "State \<Rightarrow> string" where
  "str_State (CommandS s) = str_CommandState s"
| "str_State (RunS s) = str_RunState s"

datatype TaskType = CommandT CommandType | ExperimentT

fun str_TaskType :: "TaskType \<Rightarrow> string" where
  "str_TaskType (CommandT c) = str_CommandType c"
| "str_TaskType ExperimentT = ''Experiment''"

section \<open>Interfaces\<close>

record User =
  user_username :: string

record DetailedUser = User +
  user_isActive :: bool
  user_isAdmin :: bool

record Auth =
  auth_isAuthenticated :: bool
  auth_token :: "string option"
  auth_user :: "User option"

record Credentials =
  cred_password :: "string option"
  cred_username :: string

record DeterminedInfo =
  info_clusterId :: string
  info_clusterName :: string
  info_isTelemetryEnabled :: bool
  info_masterId :: string
  info_version :: string

record Telemetry =
  tel_enabled :: bool
  tel_segmentKey :: "string option"

record ResourceContainer =
  cont_id :: string
  cont_state :: "ResourceState option"

record Resource =
  res_container :: "ResourceContainer option"
  res_enabled :: bool
  res_id :: string
  res_name :: "string option"
  res_type :: "ResourceType option"
  res_uuid :: "string option"

record Agent =
  agent_id :: string
  agent_registeredTime :: number
  agent_resourcePool :: string
  agent_resources :: "Resource list"

record ClusterOverviewResource =
  cor_available :: int
  cor_total :: int

record ClusterOverview =
  ov_CPU :: ClusterOverviewResource
  ov_GPU :: ClusterOverviewResource
  ov_allocation :: number
  ov_totalResources :: ClusterOverviewResource

record StartEndTimes =
  t_endTime :: "string option"
  t_startTime :: string

record Pagination =
  page_limit :: int
  page_offset :: int

record CommandAddress =
  addr_containerIp :: string
  addr_containerPort :: int
  addr_hostIp :: string
  addr_hostPort :: int
  addr_protocol :: "string option"

record CommandMisc =
  misc_experimentIds :: "int list"
  misc_trialIds :: "int list"

record CommandConfig =
  cc_description :: string

record Command =
  cmd_config :: CommandConfig
  cmd_exitStatus :: "string option"
  cmd_id :: string
  cmd_kind :: CommandType
  cmd_misc :: "CommandMisc option"
  cmd_registeredTime :: string
  cmd_serviceAddress :: "string option"
  cmd_state :: CommandState
  cmd_user :: User

record CheckpointStorage =
  cs_bucket :: "string option"
  cs_hostPath :: "string option"
  cs_saveExperimentBest :: number
  cs_saveTrialBest :: number
  cs_saveTrialLatest :: number
  cs_storagePath :: "string option"
  cs_type :: "CheckpointStorageType option"

record DataLayer =
  dl_containerStoragePath :: "string option"
  dl_type :: string

record ExperimentHyperParam =
  hp_base :: "number option"
  hp_count :: "number option"
  hp_maxval :: "number option"
  hp_minval :: "number option"
  hp_type :: string
  hp_val :: "js option"

record ExperimentConfig =
  conf_checkpointPolicy :: string
  conf_checkpointStorage :: "CheckpointStorage option"
  conf_dataLayer :: "DataLayer option"
  conf_description :: string
  conf_hyperparameters :: "(string \<times> ExperimentHyperParam) list"
  conf_labels :: "string list option"
  conf_maxSlots :: "number option"
  conf_metric :: string
  conf_smallerIsBetter :: bool

record ValidationHistory =
  vh_endTime :: string
  vh_trialId :: int
  vh_validationError :: "number option"

record MetricName =
  mn_name :: string
  mn_type :: MetricType

record Checkpoint = StartEndTimes +
  cp_resources :: "(string \<times> number) list option"
  cp_state :: CheckpointState
  cp_trialId :: int
  cp_uuid :: "string option"
  cp_validationMetric :: "number option"

record Workload = StartEndTimes +
  wl_numBatches :: int
  wl_priorBatchesProcessed :: int

record CheckpointWorkload = Workload +
  cw_resources :: "((string \<times> number) list) field"
  cw_state :: CheckpointState
  cw_uuid :: "string field"

record CheckpointWorkloadExtended = CheckpointWorkload +
  cwe_experimentId :: int
  cwe_trialId :: int

record MetricsWorkload = Workload +
  mw_metrics :: "((string \<times> number) list) field"
  mw_numInputs :: "int field"
  mw_state :: RunState

record WorkloadWrapper =
  ww_checkpoint :: "CheckpointWorkload option"
  ww_training :: "MetricsWorkload option"
  ww_validation :: "MetricsWorkload option"

record Step = WorkloadWrapper +
  step_batchNum :: int

record CheckpointDetail = Checkpoint +
  cd_batch :: int
  cd_experimentId :: "int option"

record ValidationMetrics =
  vm_numInputs :: int
  vm_validationMetrics :: "(string \<times> number) list"

record TrialItem = StartEndTimes +
  tr_bestAvailableCheckpoint :: "CheckpointWorkload option"
  tr_bestValidationMetric :: "MetricsWorkload option"
  tr_experimentId :: int
  tr_hparams :: js
  tr_id :: int
  tr_latestValidationMetric :: "MetricsWorkload option"
  tr_state :: RunState
  tr_totalBatchesProcessed :: int

record TrialDetails = TrialItem +
  tr_workloads :: "WorkloadWrapper list"

record ExperimentItem =
  exp_archived :: bool
  exp_endTime :: "string option"
  exp_id :: int
  exp_labels :: "string list"
  exp_name :: string
  exp_numTrials :: int
  exp_progress :: "number option"
  exp_startTime :: string
  exp_state :: RunState
  exp_url :: string
  exp_username :: string

record ExperimentBase =
  eb_archived :: bool
  eb_config :: ExperimentConfig
  eb_configRaw :: js
  eb_endTime :: "string option"
  eb_id :: int
  eb_progress :: "number option"
  eb_startTime :: string
  eb_state :: RunState
  eb_username :: string

record ExperimentOld = ExperimentBase +
  eo_name :: string
  eo_url :: string

record RecentEvent =
  ev_date :: string
  ev_name :: string

record Task =
  task_id :: string
  task_name :: string
  task_serviceAddress :: "string option"
  task_startTime :: string
  task_url :: "string option"

record ExperimentTask = Task +
  et_archived :: bool
  et_progress :: "number option"
  et_state :: RunState
  et_username :: string
  et_lastEvent :: RecentEvent

record CommandTask = Task +
  ct_misc :: "CommandMisc option"
  ct_state :: CommandState
  ct_type :: CommandType
  ct_username :: string
  ct_lastEvent :: RecentEvent

record ExperimentFilters =
  ef_labels :: "string list option"
  ef_showArchived :: bool
  ef_states :: "string list"
  ef_username :: "string option"

record TaskFilters =
  tf_limit :: int
  tf_states :: "string list"
  tf_types :: "(string \<times> bool) list"
  tf_username :: "string option"

record TBSource =
  src_ids :: "int list"
  src_type :: TBSourceType

record Log =
  log_id :: int
  log_level :: "LogLevel option"
  log_message :: string
  log_meta :: "string option"
  log_time :: "string option"

text \<open>\<open>AnyTask\<close>: the tasks of the task list, with their last event.\<close>

datatype AnyTask = CommandTask CommandTask | ExperimentTask ExperimentTask

end
