(* ===== verification/Data_Util.thy ===== *)
theory Data_Util
  imports Types_Ts
begin

text \<open>
  \<^verbatim>\<open>utils/data.ts\<close>: classification and copying of dynamic values, access to nested properties by path,
  grouping, equality through JSON, and the comparators of the tables.

  What the code reads from the locale tables of the runtime (\<open>localeCompare\<close>) and from the parsing of
  date strings (\<open>new Date(s).getTime()\<close>) are arguments \<open>lc\<close> and \<open>time_of\<close>; number to string conversion
  is the argument \<open>num_str\<close>.  Mutation of an object is modelled by returning the changed object.
\<close>

section \<open>Classification\<close>

fun isMap :: "js \<Rightarrow> bool" where
  "isMap (MapV _) = True"
| "isMap _ = False"

definition isNumber :: "js \<Rightarrow> bool" where
  "isNumber data = (typeof data = ''number'')"

definition isObject :: "js \<Rightarrow> bool" where
  "isObject data = (typeof data = ''object'' \<and> data \<noteq> Null)"

text \<open>\<open>data !== Object(data)\<close>: \<open>Object\<close> wraps everything but objects and functions.\<close>

fun isPrimitive :: "js \<Rightarrow> bool" where
  "isPrimitive Undefined = True"
| "isPrimitive Null = True"
| "isPrimitive (Bool _) = True"
| "isPrimitive (Num _) = True"
| "isPrimitive (Str _) = True"
| "isPrimitive _ = False"

fun isSet :: "js \<Rightarrow> bool" where
  "isSet (SetV _) = True"
| "isSet _ = False"

definition isFunction :: "js \<Rightarrow> bool" where
  "isFunction fn = (typeof fn = ''function'')"

definition isAsyncFunction :: "js \<Rightarrow> bool" where
  "isAsyncFunction fn = (if \<not> isFunction fn then False else fn = Func True)"

definition isSyncFunction :: "js \<Rightarrow> bool" where
  "isSyncFunction fn = (isFunction fn \<and> \<not> isAsyncFunction fn)"

section \<open>Copying\<close>

text \<open>The own enumerable properties a spread copies.\<close>

fun spread :: "js \<Rightarrow> (string \<times> js) list" where
  "spread (Obj ps) = ps"
| "spread (Arr xs) = zip (map show_nat [0..<length xs]) xs"
| "spread _ = []"

definition clone :: "js \<Rightarrow> bool \<Rightarrow> js result" where
  "clone data deep =
     (if isPrimitive data then Inr data
      else if isMap data then Inr data
      else if isSet data then Inr data
      else if deep
        then (case stringify data of None \<Rightarrow> Inl SyntaxError | Some t \<Rightarrow> json_parse t)
        else Inr (Obj (spread data)))"

section \<open>Paths\<close>

text \<open>The loop of \<open>getPath\<close>: it stops with \<open>undefined\<close> at the first missing key.\<close>

fun path_every :: "js \<Rightarrow> string list \<Rightarrow> js result" where
  "path_every value [] = Inr value"
| "path_every value (key # keys) = bind_exn (js_get value key)
     (\<lambda>v. if v = Undefined then Inr Undefined else path_every v keys)"

definition getPath :: "js \<Rightarrow> string \<Rightarrow> js result" where
  "getPath obj path =
     (if path = '''' then Inr obj else path_every (js_or obj (Obj [])) (js_split ''.'' path))"

definition getPathList :: "js \<Rightarrow> string list \<Rightarrow> js result" where
  "getPathList obj path = getPath obj (js_join ''.'' path)"

definition getPathOrElse :: "js \<Rightarrow> string \<Rightarrow> js \<Rightarrow> js result" where
  "getPathOrElse obj path fallback = bind_exn (getPath obj path)
     (\<lambda>value. Inr (if value \<noteq> Undefined then value else fallback))"

text \<open>
  Adding a property: keys that are array indices come first, in ascending order, the others in the
  order of their creation.
\<close>

fun obj_insert :: "string \<Rightarrow> 'v \<Rightarrow> (string \<times> 'v) list \<Rightarrow> (string \<times> 'v) list" where
  "obj_insert k v [] = [(k, v)]"
| "obj_insert k v (p # ps) = (case (array_index k, array_index (fst p)) of
      (Some i, Some j) \<Rightarrow> if i < j then (k, v) # p # ps else p # obj_insert k v ps
    | (Some i, None) \<Rightarrow> (k, v) # p # ps
    | (None, _) \<Rightarrow> p # obj_insert k v ps)"

definition obj_put :: "string \<Rightarrow> 'v \<Rightarrow> (string \<times> 'v) list \<Rightarrow> (string \<times> 'v) list" where
  "obj_put k v ps = (if k \<in> fst ` set ps then obj_set k v ps else obj_insert k v ps)"

text \<open>
  Assignment to and deletion of a property.  A property of an array that is not an index, or of a
  \<open>Map\<close>, a \<open>Set\<close> or a function, is not part of the model's values and leaves them unchanged.
\<close>

definition js_set :: "js \<Rightarrow> string \<Rightarrow> js \<Rightarrow> js result" where
  "js_set obj k v = (case obj of
      Obj ps \<Rightarrow> Inr (Obj (obj_put k v ps))
    | Arr xs \<Rightarrow> (case array_index k of
          Some i \<Rightarrow> Inr (Arr (if i < length xs then xs[i := v]
                             else xs @ replicate (i - length xs) Undefined @ [v]))
        | None \<Rightarrow> Inr obj)
    | MapV _ \<Rightarrow> Inr obj
    | SetV _ \<Rightarrow> Inr obj
    | Func _ \<Rightarrow> Inr obj
    | _ \<Rightarrow> Inl TypeError)"

definition js_delete :: "js \<Rightarrow> string \<Rightarrow> js result" where
  "js_delete obj k = (case obj of
      Obj ps \<Rightarrow> Inr (Obj (obj_del k ps))
    | Arr xs \<Rightarrow> (case array_index k of
          Some i \<Rightarrow> Inr (Arr (xs[i := Undefined]))
        | None \<Rightarrow> if k = ''length'' then Inl TypeError else Inr obj)
    | Str s \<Rightarrow> (case array_index k of
          Some i \<Rightarrow> if i < length s then Inl TypeError else Inr obj
        | None \<Rightarrow> if k = ''length'' then Inl TypeError else Inr obj)
    | Undefined \<Rightarrow> Inl TypeError
    | Null \<Rightarrow> Inl TypeError
    | _ \<Rightarrow> Inr obj)"

text \<open>
  \<open>parentObj\<close> is a reference into \<open>obj\<close>: a change of it is a change of \<open>obj\<close> at the path that \<open>getPath\<close>
  follows.
\<close>

fun update_in :: "js \<Rightarrow> string list \<Rightarrow> (js \<Rightarrow> js result) \<Rightarrow> js result" where
  "update_in obj [] f = f obj"
| "update_in obj (k # ks) f = bind_exn (js_get obj k)
     (\<lambda>v. bind_exn (update_in v ks f) (\<lambda>v'. if v' = v then Inr obj else js_set obj k v'))"

definition path_keys :: "string list \<Rightarrow> string list" where
  "path_keys path =
     (let p = js_join ''.'' path in if p = '''' then [] else js_split ''.'' p)"

text \<open>\<open>path[path.length - 1]\<close> as a property key.\<close>

definition last_key :: "string list \<Rightarrow> string" where
  "last_key path = (if path = [] then ''undefined'' else last path)"

definition setPathList :: "js \<Rightarrow> string list \<Rightarrow> js \<Rightarrow> js result" where
  "setPathList obj path value = bind_exn (getPathList obj (butlast path))
     (\<lambda>parentObj. if truthy parentObj
        then update_in obj (path_keys (butlast path)) (\<lambda>p. js_set p (last_key path) value)
        else Inr obj)"

definition deletePathList :: "js \<Rightarrow> string list \<Rightarrow> js result" where
  "deletePathList obj path = bind_exn (getPathList obj (butlast path))
     (\<lambda>parentObj. if truthy parentObj
        then update_in obj (path_keys (butlast path)) (\<lambda>p. js_delete p (last_key path))
        else Inr obj)"

section \<open>Grouping, mapping, equality\<close>

definition categorize :: "'a list \<Rightarrow> ('a \<Rightarrow> string) \<Rightarrow> (string \<times> 'a list) list" where
  "categorize array keyFn = fold
     (\<lambda>item d. let key = keyFn item in case map_of d key of
         Some items \<Rightarrow> obj_put key (items @ [item]) d
       | None \<Rightarrow> obj_put key [item] d) array []"

definition applyMappers :: "js \<Rightarrow> (js \<Rightarrow> js result) list \<Rightarrow> js result" where
  "applyMappers data mappers =
     fold (\<lambda>mapper acc. bind_exn acc mapper) mappers (clone data True)"

text \<open>\<open>===\<close> on primitives; the identity of objects is not modelled, and identical objects have the same text.\<close>

fun strict_eq :: "js \<Rightarrow> js \<Rightarrow> bool" where
  "strict_eq (Num a) (Num b) = num_eq a b"
| "strict_eq a b = (isPrimitive a \<and> a = b)"

definition isEqual :: "js \<Rightarrow> js \<Rightarrow> bool" where
  "isEqual a b = (if strict_eq a b then True else stringify a = stringify b)"

section \<open>Sorters\<close>

fun runStateSortValues :: "RunState \<Rightarrow> int" where
  "runStateSortValues RunState_Active = 0"
| "runStateSortValues RunState_Paused = 1"
| "runStateSortValues RunState_StoppingError = 2"
| "runStateSortValues RunState_Errored = 3"
| "runStateSortValues RunState_StoppingCompleted = 4"
| "runStateSortValues RunState_Completed = 5"
| "runStateSortValues RunState_StoppingCanceled = 6"
| "runStateSortValues RunState_Canceled = 7"
| "runStateSortValues RunState_Deleted = 7"
| "runStateSortValues RunState_Unspecified = 8"

fun commandStateSortValues :: "CommandState \<Rightarrow> int" where
  "commandStateSortValues CommandState_Pending = 0"
| "commandStateSortValues CommandState_Assigned = 1"
| "commandStateSortValues CommandState_Pulling = 2"
| "commandStateSortValues CommandState_Starting = 3"
| "commandStateSortValues CommandState_Running = 4"
| "commandStateSortValues CommandState_Terminating = 5"
| "commandStateSortValues CommandState_Terminated = 6"

definition alphanumericSorter :: "(string \<Rightarrow> string \<Rightarrow> int) \<Rightarrow> string \<Rightarrow> string \<Rightarrow> int" where
  "alphanumericSorter lc a b = lc a b"

definition booleanSorter :: "bool \<Rightarrow> bool \<Rightarrow> int" where
  "booleanSorter a b = (if a = b then 0 else if a then - 1 else 1)"

definition commandStateSorter :: "CommandState \<Rightarrow> CommandState \<Rightarrow> int" where
  "commandStateSorter a b = commandStateSortValues a - commandStateSortValues b"

definition hpSorter ::
  "(string \<Rightarrow> string \<Rightarrow> int) \<Rightarrow> (number \<Rightarrow> string) \<Rightarrow> js \<Rightarrow> js \<Rightarrow> int" where
  "hpSorter lc num_str a b = (case (a, b) of
      (Bool x, Bool y) \<Rightarrow> booleanSorter x y
    | (Num x, Num y) \<Rightarrow> alphanumericSorter lc (num_str x) (num_str y)
    | (Str x, Str y) \<Rightarrow> alphanumericSorter lc x y
    | _ \<Rightarrow> 0)"

definition metricNameSorter :: "(string \<Rightarrow> string \<Rightarrow> int) \<Rightarrow> MetricName \<Rightarrow> MetricName \<Rightarrow> int" where
  "metricNameSorter lc a b =
     (let isAValidation = (mn_type a = MetricType_Validation);
          isBValidation = (mn_type b = MetricType_Validation)
      in if isAValidation \<and> \<not> isBValidation then - 1
         else if isBValidation \<and> \<not> isAValidation then 1
         else alphanumericSorter lc (mn_name a) (mn_name b))"

text \<open>The third test of the code reads \<open>b == null && b != null\<close>.\<close>

definition numericSorter :: "number option \<Rightarrow> number option \<Rightarrow> bool \<Rightarrow> number" where
  "numericSorter a b reverseOrder =
     (if a \<noteq> None \<and> b \<noteq> None
      then (if reverseOrder then num_sub (the b) (the a) else num_sub (the a) (the b))
      else if a \<noteq> None \<and> b = None then (if reverseOrder then Fin (- 1) else Fin 1)
      else if b = None \<and> b \<noteq> None then (if reverseOrder then Fin 1 else Fin (- 1))
      else Fin 0)"

definition runStateSorter :: "RunState \<Rightarrow> RunState \<Rightarrow> int" where
  "runStateSorter a b = runStateSortValues a - runStateSortValues b"

definition stringTimeSorter :: "(string \<Rightarrow> number) \<Rightarrow> string \<Rightarrow> string \<Rightarrow> number" where
  "stringTimeSorter time_of a b = num_sub (time_of a) (time_of b)"

text \<open>\<open>Object.values(RunState).includes(a)\<close> compares the strings.\<close>

definition RunState_values :: "RunState list" where
  "RunState_values = [RunState_Active, RunState_Paused, RunState_StoppingCanceled, RunState_Canceled,
     RunState_StoppingCompleted, RunState_Completed, RunState_StoppingError, RunState_Errored,
     RunState_Deleted, RunState_Unspecified]"

definition state_sort_value :: "State \<Rightarrow> int" where
  "state_sort_value a = (case find (\<lambda>r. str_RunState r = str_State a) RunState_values of
      Some r \<Rightarrow> runStateSortValues r
    | None \<Rightarrow> (case a of CommandS c \<Rightarrow> commandStateSortValues c | RunS r \<Rightarrow> runStateSortValues r))"

definition taskStateSorter :: "State \<Rightarrow> State \<Rightarrow> int" where
  "taskStateSorter a b = state_sort_value a - state_sort_value b"

section \<open>Lemmas on paths\<close>

lemma map_of_obj_insert: "k \<notin> fst ` set ps \<Longrightarrow> map_of (obj_insert k v ps) = (map_of ps)(k \<mapsto> v)"
  by (induction ps) (auto simp: fun_eq_iff split: option.splits)

lemma map_of_obj_put [simp, alist_simps]: "map_of (obj_put k v ps) = (map_of ps)(k \<mapsto> v)"
  by (simp add: obj_put_def map_of_obj_insert)

lemma keys_obj_insert: "fst ` set (obj_insert k v ps) = insert k (fst ` set ps)"
  by (induction ps) (auto split: option.splits)

lemma keys_obj_put [simp]: "fst ` set (obj_put k v ps) = insert k (fst ` set ps)"
  by (auto simp: obj_put_def keys_obj_insert)

lemma distinct_obj_insert:
  "k \<notin> fst ` set ps \<Longrightarrow> distinct (map fst ps) \<Longrightarrow> distinct (map fst (obj_insert k v ps))"
proof (induction ps)
  case (Cons p ps)
  then show ?case
    using keys_obj_insert [of k v ps] by (auto split: option.splits)
qed simp

lemma distinct_obj_put [simp]: "distinct (map fst ps) \<Longrightarrow> distinct (map fst (obj_put k v ps))"
  by (auto simp: obj_put_def distinct_obj_insert)

text \<open>Keys that survive joining with and splitting at dots.\<close>

definition good_path :: "string list \<Rightarrow> bool" where
  "good_path path = (\<forall>k \<in> set path. k \<noteq> [] \<and> CHR ''.'' \<notin> set k)"

text \<open>The properties of the object reached through nested objects only.\<close>

fun obj_walk :: "js \<Rightarrow> string list \<Rightarrow> (string \<times> js) list option" where
  "obj_walk (Obj ps) [] = Some ps"
| "obj_walk (Obj ps) (k # ks) = (case map_of ps k of Some v \<Rightarrow> obj_walk v ks | None \<Rightarrow> None)"
| "obj_walk _ _ = None"

lemma obj_walk_Some_Obj: "obj_walk obj ks = Some ps \<Longrightarrow> \<exists>qs. obj = Obj qs"
  by (cases "(obj, ks)" rule: obj_walk.cases) auto

lemma path_keys_good: "good_path path \<Longrightarrow> path_keys path = path"
proof (cases "path = []")
  case False
  assume "good_path path"
  with False have "js_join ''.'' path \<noteq> []" "js_split ''.'' (js_join ''.'' path) = path"
    by (auto simp: js_join_empty_iff good_path_def js_split_join)
  then show ?thesis by (simp add: path_keys_def)
qed (simp add: path_keys_def)

lemma getPathList_good:
  "good_path path \<Longrightarrow> getPathList (Obj ps) path = path_every (Obj ps) path"
  using path_keys_good [of path]
  by (auto simp: getPathList_def getPath_def path_keys_def js_or_def Let_def split: if_splits)

lemma path_every_obj_walk: "obj_walk obj ks = Some ps \<Longrightarrow> path_every obj (ks @ r) = path_every (Obj ps) r"
proof (induction obj ks rule: obj_walk.induct)
  case (2 qs k ks)
  then obtain v where v: "map_of qs k = Some v" "obj_walk v ks = Some ps"
    by (auto split: option.splits)
  then have "v \<noteq> Undefined" using obj_walk_Some_Obj by blast
  with 2 v show ?case by simp
qed auto

lemma update_in_obj_walk:
  assumes "obj_walk obj ks = Some ps" "f (Obj ps) = Inr (Obj ps')"
  shows "\<exists>obj'. update_in obj ks f = Inr obj' \<and> obj_walk obj' ks = Some ps'
    \<and> (\<forall>q. \<not> prefix ks q \<and> \<not> prefix q ks \<longrightarrow> path_every obj' q = path_every obj q)"
  using assms
proof (induction obj ks rule: obj_walk.induct)
  case (2 qs k ks)
  then obtain v where v: "map_of qs k = Some v" "obj_walk v ks = Some ps"
    by (auto split: option.splits)
  with 2 obtain v' where v': "update_in v ks f = Inr v'" "obj_walk v' ks = Some ps'"
    and frame: "\<And>q. \<not> prefix ks q \<Longrightarrow> \<not> prefix q ks \<Longrightarrow> path_every v' q = path_every v q"
    by blast
  have nU: "v \<noteq> Undefined" "v' \<noteq> Undefined" using v v' obj_walk_Some_Obj by blast+
  let ?o = "Obj (if v' = v then qs else obj_put k v' qs)"
  have "path_every ?o q = path_every (Obj qs) q" if "\<not> prefix (k # ks) q" "\<not> prefix q (k # ks)" for q
    using that nU v frame by (cases q) auto
  with v v' show ?case
    by (intro exI [of _ ?o]) (auto simp: js_set_def)
qed auto

lemma prefix_butlast_last:
  assumes "path \<noteq> []" "prefix (butlast path) q" "\<not> prefix q path" "\<not> prefix path q"
  shows "\<exists>k r. q = butlast path @ k # r \<and> k \<noteq> last path"
proof -
  from assms(2) obtain t where t: "q = butlast path @ t" by (auto simp: prefix_def)
  have path: "path = butlast path @ [last path]" using assms(1) by simp
  with t assms(3,4) have "t \<noteq> []" "\<not> prefix [last path] t"
    by (metis append_Nil2 prefixI, metis same_prefix_prefix)
  with t show ?thesis by (cases t) auto
qed

lemma write_path:
  assumes "path \<noteq> []" "obj_walk (Obj qs) (butlast path) = Some ps" "f (Obj ps) = Inr (Obj ps')"
    and off: "\<And>k. k \<noteq> last path \<Longrightarrow> map_of ps' k = map_of ps k"
  shows "\<exists>qs'. update_in (Obj qs) (butlast path) f = Inr (Obj qs')
    \<and> obj_walk (Obj qs') (butlast path) = Some ps'
    \<and> path_every (Obj qs') path =
        Inr (case map_of ps' (last path) of None \<Rightarrow> Undefined | Some v \<Rightarrow> v)
    \<and> (\<forall>q. \<not> prefix path q \<and> \<not> prefix q path \<longrightarrow> path_every (Obj qs') q = path_every (Obj qs) q)"
proof -
  from update_in_obj_walk [where f = f, OF assms(2,3)] obtain obj' where
    obj': "update_in (Obj qs) (butlast path) f = Inr obj'" "obj_walk obj' (butlast path) = Some ps'"
    and frame: "\<And>q. \<not> prefix (butlast path) q \<Longrightarrow> \<not> prefix q (butlast path) \<Longrightarrow>
        path_every obj' q = path_every (Obj qs) q"
    by auto
  obtain qs' where qs': "obj' = Obj qs'" using obj'(2) obj_walk_Some_Obj by blast
  have "path_every obj' path = path_every (Obj ps') [last path]"
    using path_every_obj_walk [OF obj'(2), of "[last path]"] assms(1) by simp
  moreover have "path_every obj' q = path_every (Obj qs) q"
    if apart: "\<not> prefix path q" "\<not> prefix q path" for q
  proof (cases "prefix (butlast path) q")
    case True
    then obtain k r where "q = butlast path @ k # r" "k \<noteq> last path"
      using prefix_butlast_last [OF assms(1) True apart(2,1)] by auto
    then show ?thesis
      using path_every_obj_walk [OF obj'(2)] path_every_obj_walk [OF assms(2)] off by simp
  next
    case False
    moreover have "\<not> prefix q (butlast path)" using apart(2) prefix_order.trans [OF _ prefixeq_butlast] by blast
    ultimately show ?thesis using frame by blast
  qed
  ultimately show ?thesis using obj' qs' by simp
qed

lemma good_path_butlast: "good_path path \<Longrightarrow> good_path (butlast path)"
  by (auto simp: good_path_def dest: in_set_butlastD)

lemma getPathList_parent:
  "good_path path \<Longrightarrow> obj_walk (Obj qs) (butlast path) = Some ps \<Longrightarrow>
   getPathList (Obj qs) (butlast path) = Inr (Obj ps)"
  using path_every_obj_walk [of "Obj qs" "butlast path" ps "[]"]
  by (simp add: getPathList_good good_path_butlast)

lemma js_set_Obj [simp]: "js_set (Obj ps) k v = Inr (Obj (obj_put k v ps))"
  by (simp add: js_set_def)

lemma js_delete_Obj [simp]: "js_delete (Obj ps) k = Inr (Obj (obj_del k ps))"
  by (simp add: js_delete_def)

lemma write_path_update:
  assumes "path \<noteq> []" "good_path path" "obj_walk (Obj qs) (butlast path) = Some ps"
  shows "setPathList (Obj qs) path v = update_in (Obj qs) (butlast path) (\<lambda>p. js_set p (last path) v)"
    and "deletePathList (Obj qs) path = update_in (Obj qs) (butlast path) (\<lambda>p. js_delete p (last path))"
  using assms getPathList_parent [of path qs ps]
  by (simp_all add: setPathList_def deletePathList_def path_keys_good good_path_butlast last_key_def)

section \<open>Properties\<close>

text \<open>
  writing and deleting nested properties.  Where the parent of \<open>path\<close> is an object reached through
  objects, \<open>setPathList\<close> makes \<open>getPathList\<close> return the written value, \<open>deletePathList\<close> makes it return
  \<open>undefined\<close>, and both leave every path that does not overlap with \<open>path\<close> as it was.
\<close>

theorem path_list_set_delete:
  assumes "path \<noteq> []" "good_path path" "obj_walk (Obj qs) (butlast path) = Some ps" "v \<noteq> Undefined"
  shows "(\<exists>qs'. setPathList (Obj qs) path v = Inr (Obj qs') \<and> getPathList (Obj qs') path = Inr v
      \<and> (\<forall>q. good_path q \<and> \<not> prefix path q \<and> \<not> prefix q path \<longrightarrow>
             getPathList (Obj qs') q = getPathList (Obj qs) q))
    \<and> (\<exists>qs'. deletePathList (Obj qs) path = Inr (Obj qs') \<and> getPathList (Obj qs') path = Inr Undefined
      \<and> (\<forall>q. good_path q \<and> \<not> prefix path q \<and> \<not> prefix q path \<longrightarrow>
             getPathList (Obj qs') q = getPathList (Obj qs) q))"
  using write_path [of path qs ps "\<lambda>p. js_set p (last path) v" "obj_put (last path) v ps"]
    write_path [of path qs ps "\<lambda>p. js_delete p (last path)" "obj_del (last path) ps"] assms
  by (simp only: write_path_update [OF assms(1-3)]) (fastforce simp: getPathList_good)

theorem path_list_set_delete_witness:
  "\<exists>qs'. setPathList (Obj [(''searcher'', Obj [(''name'', Str ''adaptive'')])]) [''searcher'', ''metric'']
      (Str ''loss'') = Inr (Obj qs')
    \<and> getPathList (Obj qs') [''searcher'', ''metric''] = Inr (Str ''loss'')
    \<and> getPathList (Obj qs') [''searcher'', ''name''] = Inr (Str ''adaptive'')"
proof -
  let ?qs = "[(''searcher'', Obj [(''name'', Str ''adaptive'')])]"
  have "getPathList (Obj ?qs) [''searcher'', ''name''] = Inr (Str ''adaptive'')"
    by (simp add: getPathList_good good_path_def)
  moreover note path_list_set_delete [of "[''searcher'', ''metric'']" ?qs "[(''name'', Str ''adaptive'')]" "Str ''loss''"]
  ultimately show ?thesis
    by (auto simp: good_path_def dest!: spec [of _ "[''searcher'', ''name'']"])
qed

text \<open>
  copying.  A deep clone of JSON data is the data itself; in general it is what the JSON text keeps of
  the value, and only a value without JSON text (a function) makes it throw.
\<close>

theorem clone_deep:
  assumes "wf_js data" "\<not> isPrimitive data" "\<not> isMap data" "\<not> isSet data"
  shows "clone data True = (case to_json data of None \<Rightarrow> Inl SyntaxError | Some j \<Rightarrow> Inr (of_json j))
    \<and> (pure_json data \<longrightarrow> clone data True = Inr data)"
proof -
  have "clone data True = (case to_json data of None \<Rightarrow> Inl SyntaxError | Some j \<Rightarrow> Inr (of_json j))"
    using assms json_parse_stringify [of data]
    by (auto simp: clone_def stringify_def split: option.splits)
  then show ?thesis using of_to_json [of data] by auto
qed

theorem clone_deep_witness:
  "clone (Obj [(''a'', Num (Fin 1)), (''b'', Arr [Null, Str ''x''])]) True
     = Inr (Obj [(''a'', Num (Fin 1)), (''b'', Arr [Null, Str ''x''])])"
  using clone_deep [of "Obj [(''a'', Num (Fin 1)), (''b'', Arr [Null, Str ''x''])]"] by simp

text \<open>
  \<open>isEqual\<close> decides whether two values have the same JSON data, and is an equivalence relation on
  well-formed values.
\<close>

theorem isEqual_json:
  assumes "wf_js a" "wf_js b"
  shows "isEqual a b = (to_json a = to_json b)"
proof -
  have "to_json a = to_json b" if "strict_eq a b"
    using that by (cases "(a, b)" rule: strict_eq.cases) (auto simp: num_eq_def)
  then show ?thesis using assms stringify_eq_iff by (auto simp: isEqual_def)
qed

theorem isEqual_json_witness:
  "isEqual (Obj [(''x'', Undefined), (''y'', Num NaN)]) (Obj [(''y'', Null)])"
  using isEqual_json [of "Obj [(''x'', Undefined), (''y'', Num NaN)]" "Obj [(''y'', Null)]"] by simp

section \<open>The sorters as comparators\<close>

interpretation run_state: comparator runStateSorter
  using comparator_rank [of runStateSortValues] by (simp add: runStateSorter_def [abs_def])

interpretation command_state: comparator commandStateSorter
  using comparator_rank [of commandStateSortValues] by (simp add: commandStateSorter_def [abs_def])

interpretation task_state: comparator taskStateSorter
  using comparator_rank [of state_sort_value] by (simp add: taskStateSorter_def [abs_def])

interpretation boolean: comparator booleanSorter
  by unfold_locales (auto simp: booleanSorter_def split: if_splits)

lemma state_sort_value_simps [simp]:
  "state_sort_value (RunS r) = runStateSortValues r"
  "state_sort_value (CommandS c) = commandStateSortValues c"
  by (cases r; simp add: state_sort_value_def RunState_values_def)
     (cases c; simp add: state_sort_value_def RunState_values_def)

lemma metricNameSorter_le_iff:
  "metricNameSorter lc a b \<le> 0 \<longleftrightarrow>
     (mn_type a = MetricType_Validation \<and> mn_type b = MetricType_Training)
     \<or> (mn_type a = mn_type b \<and> lc (mn_name a) (mn_name b) \<le> 0)"
  by (cases "mn_type a"; cases "mn_type b") (auto simp: metricNameSorter_def alphanumericSorter_def)

lemma comparator_metricNameSorter:
  assumes "comparator lc"
  shows "comparator (metricNameSorter lc)"
proof
  fix x y z :: MetricName
  show "sgn (metricNameSorter lc x y) = - sgn (metricNameSorter lc y x)"
    using comparator.antisymmetric [OF assms, of "mn_name x" "mn_name y"]
    unfolding metricNameSorter_def alphanumericSorter_def Let_def by (simp split: if_split)
  show "metricNameSorter lc x y \<le> 0 \<Longrightarrow> metricNameSorter lc y z \<le> 0 \<Longrightarrow> metricNameSorter lc x z \<le> 0"
    using comparator.transitive [OF assms, of "mn_name x" "mn_name y" "mn_name z"]
    unfolding metricNameSorter_le_iff by (metis MetricType.distinct(1))
qed

lemma numericSorter_none: 
  "numericSorter None (Some b) r = Fin 0 \<and> numericSorter (Some b) None r = (if r then Fin (- 1) else Fin 1)"
  by (simp add: numericSorter_def)

text \<open>
  the task table sorted by state.  The result is a rearrangement of the rows, ordered by the state's rank,
  rows of equal rank in their old order; on two run states and on two command states the order is that of
  the respective sorters.
\<close>

theorem task_state_sort:
  "mset (js_sort taskStateSorter xs) = mset xs
   \<and> sorted_wrt (\<lambda>a b. taskStateSorter a b \<le> 0) (js_sort taskStateSorter xs)
   \<and> filter (\<lambda>y. taskStateSorter y z = 0) (js_sort taskStateSorter xs)
       = filter (\<lambda>y. taskStateSorter y z = 0) xs
   \<and> taskStateSorter (RunS r) (RunS r') = runStateSorter r r'
   \<and> taskStateSorter (CommandS c) (CommandS c') = commandStateSorter c c'"
  by (simp add: task_state.sorted_js_sort task_state.stable_js_sort)
     (simp add: taskStateSorter_def runStateSorter_def commandStateSorter_def)

text \<open>
  metric names sorted with \<open>metricNameSorter\<close>: a rearrangement in which every validation metric comes
  before every training metric, and the names of each kind are in the order of the locale comparison.
\<close>

theorem metric_name_sort:
  assumes "comparator lc"
  shows "mset (js_sort (metricNameSorter lc) ms) = mset ms
   \<and> sorted_wrt (\<lambda>a b. (mn_type a = MetricType_Validation \<and> mn_type b = MetricType_Training)
        \<or> (mn_type a = mn_type b \<and> lc (mn_name a) (mn_name b) \<le> 0)) (js_sort (metricNameSorter lc) ms)"
  using comparator.sorted_js_sort [OF comparator_metricNameSorter [OF assms], of ms]
  by (simp add: metricNameSorter_le_iff)

theorem metric_name_sort_witness:
  "let ms = [\<lparr>mn_name = ''loss'', mn_type = MetricType_Training\<rparr>,
             \<lparr>mn_name = ''acc'', mn_type = MetricType_Validation\<rparr>];
       lc = (\<lambda>a b. int (length a) - int (length b))
   in mset (js_sort (metricNameSorter lc) ms) = mset ms
      \<and> js_sort (metricNameSorter lc) ms = rev ms"
  using metric_name_sort [OF comparator_rank [of "\<lambda>s. int (length s)"], of
      "[\<lparr>mn_name = ''loss'', mn_type = MetricType_Training\<rparr>,
        \<lparr>mn_name = ''acc'', mn_type = MetricType_Validation\<rparr>]"]
  by (simp add: js_sort_def metricNameSorter_def)

end
