(* ===== verification/Types_Util.thy ===== *)
theory Types_Util
  imports Data_Util
begin

text \<open>
  \<^verbatim>\<open>utils/step.ts\<close> and \<^verbatim>\<open>utils/types.ts\<close>: steps assembled from workloads, conversions of commands and
  experiments to tasks, state tables, the upgrade of old experiment configurations, and the matching of
  TensorBoard instances.
\<close>

section \<open>Workloads and steps\<close>

datatype AnyWorkload = MetricsW MetricsWorkload | CheckpointW CheckpointWorkload

definition hasCheckpointStep :: "Step \<Rightarrow> bool" where
  "hasCheckpointStep step = (case ww_checkpoint step of
      None \<Rightarrow> False | Some c \<Rightarrow> cw_state c \<noteq> CheckpointState_Deleted)"

definition hasCheckpoint :: "WorkloadWrapper \<Rightarrow> bool" where
  "hasCheckpoint workload = (case ww_checkpoint workload of
      None \<Rightarrow> False | Some c \<Rightarrow> cw_state c \<noteq> CheckpointState_Deleted)"

text \<open>\<open>Object.values(wrapper).find(val => !!val)\<close>: the first of the three that is set.\<close>

definition getWorkload :: "WorkloadWrapper \<Rightarrow> AnyWorkload option" where
  "getWorkload wrapper = (case ww_checkpoint wrapper of
      Some c \<Rightarrow> Some (CheckpointW c)
    | None \<Rightarrow> (case ww_training wrapper of
          Some t \<Rightarrow> Some (MetricsW t)
        | None \<Rightarrow> map_option MetricsW (ww_validation wrapper)))"

text \<open>A checkpoint workload has no property \<open>metrics\<close>, a metrics workload none of the others.\<close>

fun isMetricsWorkload :: "AnyWorkload \<Rightarrow> bool" where
  "isMetricsWorkload (CheckpointW w) = False"
| "isMetricsWorkload (MetricsW w) = (has_field (mw_metrics w) \<or> has_field (mw_numInputs w))"

fun any_numBatches :: "AnyWorkload \<Rightarrow> int" where
  "any_numBatches (MetricsW w) = wl_numBatches w"
| "any_numBatches (CheckpointW w) = wl_numBatches w"

fun any_prior :: "AnyWorkload \<Rightarrow> int" where
  "any_prior (MetricsW w) = wl_priorBatchesProcessed w"
| "any_prior (CheckpointW w) = wl_priorBatchesProcessed w"

definition empty_step :: Step where
  "empty_step = \<lparr>ww_checkpoint = None, ww_training = None, ww_validation = None, step_batchNum = 0\<rparr>"

text \<open>
  One round of the loop of \<open>workloadsToSteps\<close>.  \<open>stepsDict\<close> is keyed by the decimal notation of the batch
  number, so its values come out in ascending order of the batch number.
\<close>

definition add_workload ::
  "WorkloadWrapper \<Rightarrow> (string \<times> Step) list \<Rightarrow> (string \<times> Step) list result" where
  "add_workload wlWrapper stepsDict = (case getWorkload wlWrapper of
      None \<Rightarrow> Inl TypeError
    | Some wl \<Rightarrow>
        (let batchNum = any_numBatches wl + any_prior wl;
             key = show_int batchNum;
             step = (case map_of stepsDict key of None \<Rightarrow> empty_step | Some s \<Rightarrow> s);
             step = step\<lparr>step_batchNum := batchNum\<rparr>;
             step = (case ww_checkpoint wlWrapper of
                 Some c \<Rightarrow> step\<lparr>ww_checkpoint := Some c\<rparr>
               | None \<Rightarrow> (case ww_validation wlWrapper of
                   Some v \<Rightarrow> step\<lparr>ww_validation := Some v\<rparr>
                 | None \<Rightarrow> (case ww_training wlWrapper of
                     Some t \<Rightarrow> step\<lparr>ww_training := Some t\<rparr>
                   | None \<Rightarrow> step)))
         in Inr (obj_put key step stepsDict)))"

fun add_workloads ::
  "WorkloadWrapper list \<Rightarrow> (string \<times> Step) list \<Rightarrow> (string \<times> Step) list result" where
  "add_workloads [] d = Inr d"
| "add_workloads (w # ws) d = bind_exn (add_workload w d) (add_workloads ws)"

definition workloadsToSteps :: "WorkloadWrapper list \<Rightarrow> Step list result" where
  "workloadsToSteps workloads = bind_exn (add_workloads workloads []) (\<lambda>d. Inr (obj_values d))"

section \<open>Conversions to tasks\<close>

text \<open>
  \<open>description.replace(/.*\((.*)\).*/, '$1')\<close>: the first line with a parenthesis that is closed again is
  replaced by what stands between its last opening parenthesis before the last closing one and that one.
\<close>

definition is_newline :: "char \<Rightarrow> bool" where
  "is_newline c = ((of_char c :: nat) = 10 \<or> (of_char c :: nat) = 13)"

definition paren_group :: "string \<Rightarrow> string option" where
  "paren_group line = (case dropWhile (\<lambda>c. c \<noteq> CHR '')'') (rev line) of
      [] \<Rightarrow> None
    | _ # r \<Rightarrow> if CHR ''('' \<in> set r then Some (rev (takeWhile (\<lambda>c. c \<noteq> CHR ''('') r)) else None)"

function replace_paren :: "string \<Rightarrow> string" where
  "replace_paren s =
     (case paren_group (takeWhile (\<lambda>c. \<not> is_newline c) s) of
        Some g \<Rightarrow> g @ dropWhile (\<lambda>c. \<not> is_newline c) s
      | None \<Rightarrow> takeWhile (\<lambda>c. \<not> is_newline c) s @
          (case dropWhile (\<lambda>c. \<not> is_newline c) s of [] \<Rightarrow> [] | c # cs \<Rightarrow> c # replace_paren cs))"
  by pat_completeness auto
termination
proof (relation "measure length")
  fix s c cs
  assume "dropWhile (\<lambda>c. \<not> is_newline c) s = c # cs"
  then have "length (c # cs) \<le> length s" by (metis length_dropWhile_le)
  then show "(cs, s) \<in> measure length" by simp
qed simp

declare replace_paren.simps [simp del]

definition commandToTask :: "Command \<Rightarrow> CommandTask" where
  "commandToTask command = \<lparr>
     task_id = cmd_id command,
     task_name = replace_paren (cc_description (cmd_config command)),
     task_serviceAddress = cmd_serviceAddress command,
     task_startTime = cmd_registeredTime command,
     task_url = None,
     ct_misc = cmd_misc command,
     ct_state = cmd_state command,
     ct_type = cmd_kind command,
     ct_username = user_username (cmd_user command),
     ct_lastEvent = \<lparr>ev_date = cmd_registeredTime command, ev_name = ''requested''\<rparr>\<rparr>"

definition experimentToTask :: "ExperimentItem \<Rightarrow> ExperimentTask" where
  "experimentToTask experiment =
     (let lastEvent = (case exp_endTime experiment of
          Some t \<Rightarrow> if t \<noteq> '''' then \<lparr>ev_date = t, ev_name = ''finished''\<rparr>
            else \<lparr>ev_date = exp_startTime experiment, ev_name = ''requested''\<rparr>
        | None \<Rightarrow> \<lparr>ev_date = exp_startTime experiment, ev_name = ''requested''\<rparr>)
      in \<lparr>task_id = show_int (exp_id experiment),
          task_name = exp_name experiment,
          task_serviceAddress = None,
          task_startTime = exp_startTime experiment,
          task_url = Some (exp_url experiment),
          et_archived = exp_archived experiment,
          et_progress = exp_progress experiment,
          et_state = exp_state experiment,
          et_username = exp_username experiment,
          et_lastEvent = lastEvent\<rparr>)"

section \<open>State tables\<close>

definition activeCommandStates :: "CommandState list" where
  "activeCommandStates = [CommandState_Assigned, CommandState_Pending, CommandState_Pulling,
     CommandState_Running, CommandState_Starting, CommandState_Terminating]"

definition activeRunStates :: "string list" where
  "activeRunStates = [''STATE_ACTIVE'', ''STATE_STOPPING_CANCELED'', ''STATE_STOPPING_COMPLETED'',
     ''STATE_STOPPING_ERROR'']"

definition killableRunStates :: "RunState list" where
  "killableRunStates = [RunState_Active, RunState_Paused, RunState_StoppingCanceled]"

definition cancellableRunStates :: "RunState list" where
  "cancellableRunStates = [RunState_Active, RunState_Paused]"

definition killableCmdStates :: "CommandState list" where
  "killableCmdStates = [CommandState_Assigned, CommandState_Pending, CommandState_Pulling,
     CommandState_Running, CommandState_Starting]"

definition terminalCommandStates :: "CommandState set" where
  "terminalCommandStates = {CommandState_Terminated, CommandState_Terminating}"

definition terminalRunStates :: "RunState set" where
  "terminalRunStates = {RunState_Canceled, RunState_Completed, RunState_Errored, RunState_Deleted}"

definition runStateToLabel :: "(string \<times> string) list" where
  "runStateToLabel = [
     (str_RunState RunState_Active, ''Active''),
     (str_RunState RunState_Canceled, ''Canceled''),
     (str_RunState RunState_Completed, ''Completed''),
     (str_RunState RunState_Deleted, ''Deleted''),
     (str_RunState RunState_Errored, ''Errored''),
     (str_RunState RunState_Paused, ''Paused''),
     (str_RunState RunState_StoppingCanceled, ''Canceling''),
     (str_RunState RunState_StoppingCompleted, ''Completing''),
     (str_RunState RunState_StoppingError, ''Erroring''),
     (str_RunState RunState_Unspecified, ''Unspecified'')]"

definition commandStateToLabel :: "(string \<times> string) list" where
  "commandStateToLabel = [
     (str_CommandState CommandState_Pending, ''Pending''),
     (str_CommandState CommandState_Assigned, ''Assigned''),
     (str_CommandState CommandState_Pulling, ''Pulling''),
     (str_CommandState CommandState_Starting, ''Starting''),
     (str_CommandState CommandState_Running, ''Running''),
     (str_CommandState CommandState_Terminating, ''Terminating''),
     (str_CommandState CommandState_Terminated, ''Terminated'')]"

definition slotStateToLabel :: "(string \<times> string) list" where
  "slotStateToLabel = [
     (str_SlotState SlotState_Pending, ''Pending''),
     (str_SlotState SlotState_Running, ''Running''),
     (str_SlotState SlotState_Free, ''Free'')]"

definition checkpointStateToLabel :: "(string \<times> string) list" where
  "checkpointStateToLabel = [
     (str_CheckpointState CheckpointState_Active, ''Active''),
     (str_CheckpointState CheckpointState_Completed, ''Completed''),
     (str_CheckpointState CheckpointState_Error, ''Error''),
     (str_CheckpointState CheckpointState_Deleted, ''Deleted''),
     (str_CheckpointState CheckpointState_Unspecified, ''Unspecified'')]"

definition resourceStateToLabel :: "(string \<times> string) list" where
  "resourceStateToLabel = [
     (str_ResourceState ResourceState_Running, ''Running''),
     (str_ResourceState ResourceState_Assigned, ''Assigned''),
     (str_ResourceState ResourceState_Terminated, ''Terminated''),
     (str_ResourceState ResourceState_Pulling, ''Pulling''),
     (str_ResourceState ResourceState_Starting, ''Starting''),
     (str_ResourceState ResourceState_Unspecified, ''Unspecified'')]"

text \<open>The \<open>state\<close> of a task or experiment is a string; \<open>includes\<close> compares strings.\<close>

definition isTaskKillable :: "State \<Rightarrow> bool" where
  "isTaskKillable state = (str_State state \<in> set (map str_RunState killableRunStates)
     \<or> str_State state \<in> set (map str_CommandState killableCmdStates))"

text \<open>\<open>a || b\<close> on optional strings.\<close>

definition str_or :: "string option \<Rightarrow> string option \<Rightarrow> string option" where
  "str_or a b = (if a = None \<or> a = Some '''' then b else a)"

definition stateToLabel :: "string \<Rightarrow> string option" where
  "stateToLabel state = str_or (str_or (str_or (str_or
       (map_of runStateToLabel state)
       (map_of commandStateToLabel state))
       (map_of resourceStateToLabel state))
       (map_of checkpointStateToLabel state))
       (map_of slotStateToLabel state)"

fun commandTypeToLabel :: "CommandType \<Rightarrow> string" where
  "commandTypeToLabel CommandType_Command = ''Command''"
| "commandTypeToLabel CommandType_Notebook = ''Notebook''"
| "commandTypeToLabel CommandType_Shell = ''Shell''"
| "commandTypeToLabel CommandType_Tensorboard = ''Tensorboard''"

section \<open>Dynamic objects\<close>

definition hasKey :: "js \<Rightarrow> string \<Rightarrow> bool" where
  "hasKey obj key = js_in key obj"

definition isExperiment :: "js \<Rightarrow> bool" where
  "isExperiment obj = (js_in ''config'' obj \<and> js_in ''archived'' obj)"

definition isCommandTask :: "js \<Rightarrow> bool" where
  "isCommandTask obj = js_in ''type'' obj"

fun oneOfProperties :: "js \<Rightarrow> string list \<Rightarrow> js result" where
  "oneOfProperties obj [] = Inl (JsError ''no matching property'')"
| "oneOfProperties obj (prop # props) =
     (if js_in prop obj then js_get obj prop else oneOfProperties obj props)"

definition checkpointSize :: "(string \<times> number) list option \<Rightarrow> number" where
  "checkpointSize resources = (case resources of
      None \<Rightarrow> Fin 0
    | Some rs \<Rightarrow> foldl (\<lambda>acc size. num_add acc size) (Fin 0) (obj_values rs))"

section \<open>Experiment configurations\<close>

definition trialHParamsToExperimentHParams :: "(string \<times> js) list \<Rightarrow> (string \<times> js) list" where
  "trialHParamsToExperimentHParams hParams = fold
     (\<lambda>(param, value) acc. obj_put param (Obj [(''type'', Str ''const''), (''val'', value)]) acc) hParams []"

definition getLengthFromStepCount :: "js \<Rightarrow> number \<Rightarrow> (string \<times> number) result" where
  "getLengthFromStepCount config stepCount = bind_exn (js_get config ''batches_per_step'')
     (\<lambda>v. Inr (''batches'', num_mul stepCount (to_number (js_or v (Num (Fin 100))))))"

text \<open>The new name, if there is one, and the old name of each setting.\<close>

definition stepRemovalTranslations :: "(string option \<times> string) list" where
  "stepRemovalTranslations = [
     (Some ''searcher.max_length'', ''searcher.max_steps''),
     (None, ''min_validation_period''),
     (None, ''min_checkpoint_period''),
     (Some ''searcher.max_length'', ''searcher.target_trial_steps''),
     (Some ''searcher.length_per_round'', ''searcher.steps_per_round''),
     (Some ''searcher.budget'', ''searcher.step_budget'')]"

definition upgrade_entry :: "string option \<times> string \<Rightarrow> js \<Rightarrow> js result" where
  "upgrade_entry translation config =
     (case translation of (newName, oldName) \<Rightarrow>
      let oldPath = js_split ''.'' oldName in
      bind_exn (getPathList config oldPath) (\<lambda>curValue.
      if curValue = Undefined then Inr config
      else bind_exn (if curValue = Null then deletePathList config oldPath else Inr config) (\<lambda>config.
      case curValue of
        Num n \<Rightarrow> bind_exn (getLengthFromStepCount config n) (\<lambda>(key, count).
          let newPath = js_split ''.'' (case newName of Some s \<Rightarrow> s | None \<Rightarrow> oldName) in
          bind_exn (setPathList config newPath (Obj [(key, Num count)])) (\<lambda>config.
          if newName \<noteq> None then deletePathList config oldPath else Inr config))
      | _ \<Rightarrow> Inr config)))"

fun upgrade_entries :: "(string option \<times> string) list \<Rightarrow> js \<Rightarrow> js result" where
  "upgrade_entries [] config = Inr config"
| "upgrade_entries (t # ts) config = bind_exn (upgrade_entry t config) (upgrade_entries ts)"

definition upgradeConfig :: "js \<Rightarrow> js result" where
  "upgradeConfig config = bind_exn (upgrade_entries stepRemovalTranslations config)
     (\<lambda>config. js_delete config ''batches_per_step'')"

section \<open>TensorBoard sources\<close>

text \<open>\<open>sort()\<close> without a comparator orders by the decimal notations as strings.\<close>

fun str_cmp :: "string \<Rightarrow> string \<Rightarrow> int" where
  "str_cmp [] [] = 0"
| "str_cmp [] (_ # _) = - 1"
| "str_cmp (_ # _) [] = 1"
| "str_cmp (a # as) (b # bs) =
     (if (of_char a :: nat) < of_char b then - 1
      else if (of_char b :: nat) < of_char a then 1 else str_cmp as bs)"

definition sort_ids :: "int list \<Rightarrow> int list" where
  "sort_ids ids = js_sort (\<lambda>a b. str_cmp (show_int a) (show_int b)) ids"

definition js_ids :: "int list \<Rightarrow> js" where
  "js_ids ids = Arr (map (\<lambda>i. Num (Fin (of_int i))) ids)"

text \<open>The result, and the command and the source whose identifier lists have been sorted in place.\<close>

definition tsbMatchesSource :: "Command \<Rightarrow> TBSource \<Rightarrow> bool \<times> Command \<times> TBSource" where
  "tsbMatchesSource tensorboard source =
     (let source = source\<lparr>src_ids := sort_ids (src_ids source)\<rparr> in
      case src_type source of
        TBSourceType_Experiment \<Rightarrow>
          (let misc = map_option (\<lambda>m. m\<lparr>misc_experimentIds := sort_ids (misc_experimentIds m)\<rparr>) (cmd_misc tensorboard)
           in (isEqual (case misc of Some m \<Rightarrow> js_ids (misc_experimentIds m) | None \<Rightarrow> Undefined)
                 (js_ids (src_ids source)),
               tensorboard\<lparr>cmd_misc := misc\<rparr>, source))
      | TBSourceType_Trial \<Rightarrow>
          (let misc = map_option (\<lambda>m. m\<lparr>misc_trialIds := sort_ids (misc_trialIds m)\<rparr>) (cmd_misc tensorboard)
           in (isEqual (case misc of Some m \<Rightarrow> js_ids (misc_trialIds m) | None \<Rightarrow> Undefined)
                 (js_ids (src_ids source)),
               tensorboard\<lparr>cmd_misc := misc\<rparr>, source)))"

section \<open>Metrics and batches\<close>

definition getMetricValue :: "AnyWorkload option \<Rightarrow> string option \<Rightarrow> number option" where
  "getMetricValue workload metricName = (case workload of
      Some (MetricsW w) \<Rightarrow>
        (if \<not> isMetricsWorkload (MetricsW w) then None
         else case field_value (mw_metrics w) of
             None \<Rightarrow> None
           | Some metrics \<Rightarrow>
               (let name = (case metricName of
                    Some n \<Rightarrow> if n \<noteq> '''' then Some n else None | None \<Rightarrow> None);
                    name = (case name of Some n \<Rightarrow> n
                      | None \<Rightarrow> (case obj_keys metrics of [] \<Rightarrow> ''undefined'' | k # _ \<Rightarrow> k))
                in map_of metrics name))
    | _ \<Rightarrow> None)"

datatype BatchData = BatchOf int | BatchesOf int int \<comment> \<open>\<open>numBatches\<close>, \<open>priorBatchesProcessed\<close>\<close>

fun getBatchNumber :: "BatchData \<Rightarrow> int" where
  "getBatchNumber (BatchOf batch) = batch"
| "getBatchNumber (BatchesOf numBatches priorBatchesProcessed) = numBatches + priorBatchesProcessed"

section \<open>Lemmas on steps\<close>

text \<open>The batch number of a wrapped workload.\<close>

definition batch_of :: "WorkloadWrapper \<Rightarrow> int" where
  "batch_of w = (case getWorkload w of None \<Rightarrow> 0 | Some wl \<Rightarrow> any_numBatches wl + any_prior wl)"

text \<open>A dictionary of steps keyed by non-negative batch numbers, in ascending order.\<close>

definition steps_ok :: "(string \<times> Step) list \<Rightarrow> bool" where
  "steps_ok d = (list_all (\<lambda>(k, s). 0 \<le> step_batchNum s \<and> k = show_int (step_batchNum s)) d
     \<and> sorted_wrt (<) (map (\<lambda>(k, s). step_batchNum s) d))"

lemma steps_ok_Cons:
  "steps_ok ((k, s) # d) \<longleftrightarrow> 0 \<le> step_batchNum s \<and> k = show_int (step_batchNum s)
     \<and> (\<forall>p \<in> set d. step_batchNum s < step_batchNum (snd p)) \<and> steps_ok d"
  by (auto simp: steps_ok_def list_all_iff)

lemma set_obj_insert: "set (obj_insert k v ps) = insert (k, v) (set ps)"
  by (induction ps) (auto split: option.splits)

lemma steps_ok_insert:
  "steps_ok d \<Longrightarrow> 0 \<le> step_batchNum s \<Longrightarrow> show_int (step_batchNum s) \<notin> fst ` set d \<Longrightarrow>
   steps_ok (obj_insert (show_int (step_batchNum s)) s d)"
proof (induction d)
  case Nil
  then show ?case by (simp add: steps_ok_def)
next
  case (Cons p d)
  obtain k t where p: "p = (k, t)" by (cases p)
  from Cons.prems p have t: "k = show_int (step_batchNum t)" "0 \<le> step_batchNum t"
    "step_batchNum s \<noteq> step_batchNum t" "\<forall>p \<in> set d. step_batchNum t < step_batchNum (snd p)" "steps_ok d"
    by (auto simp: steps_ok_Cons)
  have IH: "steps_ok (obj_insert (show_int (step_batchNum s)) s d)" using Cons t by simp
  show ?case
  proof (cases "step_batchNum s < step_batchNum t")
    case True
    with t Cons.prems(2) show ?thesis
      by (auto simp: p steps_ok_Cons array_index_show_int intro: order.strict_trans)
  next
    case False
    with t Cons.prems(2) IH show ?thesis
      by (auto simp: p steps_ok_Cons array_index_show_int set_obj_insert nat_less_eq_zless)
  qed
qed

lemma set_obj_set: "q \<in> set (obj_set k v ps) \<Longrightarrow> q = (k, v) \<or> q \<in> set ps"
  by (induction k v ps rule: obj_set.induct) (auto split: if_splits)

lemma steps_ok_key: "steps_ok d \<Longrightarrow> (k, s) \<in> set d \<Longrightarrow> k = show_int (step_batchNum s)"
  by (auto simp: steps_ok_def list_all_iff)

lemma steps_ok_set:
  "steps_ok d \<Longrightarrow> show_int (step_batchNum s) \<in> fst ` set d \<Longrightarrow>
   steps_ok (obj_set (show_int (step_batchNum s)) s d)"
proof (induction d)
  case (Cons p d)
  obtain k t where p: "p = (k, t)" by (cases p)
  note ok = Cons.prems(1) [unfolded p steps_ok_Cons]
  show ?case
  proof (cases "show_int (step_batchNum s) = k")
    case True
    with ok p show ?thesis by (simp add: steps_ok_Cons)
  next
    case False
    with Cons.prems(2) p obtain u where u: "(show_int (step_batchNum s), u) \<in> set d" by auto
    with ok have "step_batchNum t < step_batchNum u" "step_batchNum s = step_batchNum u"
      using steps_ok_key [of d, OF _ u] by auto
    moreover have "steps_ok (obj_set (show_int (step_batchNum s)) s d)"
      using Cons.IH ok u by force
    ultimately show ?thesis
      using False ok p by (auto simp: steps_ok_Cons dest!: set_obj_set)
  qed
qed simp

lemma steps_ok_put:
  "steps_ok d \<Longrightarrow> 0 \<le> step_batchNum s \<Longrightarrow> steps_ok (obj_put (show_int (step_batchNum s)) s d)"
  by (simp add: obj_put_def steps_ok_set steps_ok_insert)

text \<open>What each wrapper contributes to a step, and the last contribution for a batch number.\<close>

definition sel_checkpoint :: "WorkloadWrapper \<Rightarrow> CheckpointWorkload option" where
  "sel_checkpoint w = ww_checkpoint w"

definition sel_validation :: "WorkloadWrapper \<Rightarrow> MetricsWorkload option" where
  "sel_validation w = (if ww_checkpoint w = None then ww_validation w else None)"

definition sel_training :: "WorkloadWrapper \<Rightarrow> MetricsWorkload option" where
  "sel_training w = (if ww_checkpoint w = None \<and> ww_validation w = None then ww_training w else None)"

definition last_of :: "(WorkloadWrapper \<Rightarrow> 'a option) \<Rightarrow> int \<Rightarrow> WorkloadWrapper list \<Rightarrow> 'a option" where
  "last_of f b ws = foldl (\<lambda>acc w. if batch_of w = b \<and> f w \<noteq> None then f w else acc) None ws"

lemma last_of_snoc [simp]:
  "last_of f b (ws @ [w]) = (if batch_of w = b \<and> f w \<noteq> None then f w else last_of f b ws)"
  by (auto simp: last_of_def)

lemma last_of_absent: "b \<notin> batch_of ` set ws \<Longrightarrow> last_of f b ws = None"
  by (induction ws rule: rev_induct) (auto simp: last_of_def)

lemma add_workloads_snoc:
  "add_workloads (ws @ [w]) d = bind_exn (add_workloads ws d) (add_workload w)"
  by (induction ws arbitrary: d) (auto simp: bind_exn_def split: sum.splits)

definition step_spec :: "int \<Rightarrow> WorkloadWrapper list \<Rightarrow> Step" where
  "step_spec b ws = \<lparr>ww_checkpoint = last_of sel_checkpoint b ws, ww_training = last_of sel_training b ws,
     ww_validation = last_of sel_validation b ws, step_batchNum = b\<rparr>"

lemma add_workload_step:
  assumes "getWorkload w \<noteq> None"
    and "map_of d (show_int (batch_of w)) = (if batch_of w \<in> batch_of ` set ws then Some (step_spec (batch_of w) ws) else None)"
  shows "add_workload w d = Inr (obj_put (show_int (batch_of w)) (step_spec (batch_of w) (ws @ [w])) d)"
proof -
  obtain wl where wl: "getWorkload w = Some wl" using assms(1) by blast
  then have b: "any_numBatches wl + any_prior wl = batch_of w" by (simp add: batch_of_def)
  have "(case map_of d (show_int (batch_of w)) of None \<Rightarrow> empty_step | Some s \<Rightarrow> s)\<lparr>step_batchNum := batch_of w\<rparr>
      = step_spec (batch_of w) ws"
    using assms(2) by (auto simp: step_spec_def empty_step_def last_of_absent)
  then show ?thesis
    by (auto simp: add_workload_def wl b Let_def step_spec_def sel_checkpoint_def sel_validation_def
        sel_training_def split: option.splits)
qed

lemma add_workloads_spec:
  assumes "\<forall>w \<in> set ws. getWorkload w \<noteq> None \<and> 0 \<le> batch_of w"
  shows "\<exists>d. add_workloads ws [] = Inr d \<and> steps_ok d
    \<and> (\<forall>b. map_of d (show_int b) = (if b \<in> batch_of ` set ws then Some (step_spec b ws) else None))"
  using assms
proof (induction ws rule: rev_induct)
  case Nil
  then show ?case by (simp add: steps_ok_def)
next
  case (snoc w ws)
  then obtain d where d: "add_workloads ws [] = Inr d" "steps_ok d"
    "\<And>b. map_of d (show_int b) = (if b \<in> batch_of ` set ws then Some (step_spec b ws) else None)"
    by auto
  let ?d = "obj_put (show_int (batch_of w)) (step_spec (batch_of w) (ws @ [w])) d"
  have "add_workloads (ws @ [w]) [] = Inr ?d"
    using snoc.prems add_workload_step [of w d ws] d by (simp add: add_workloads_snoc)
  moreover have "steps_ok ?d"
    using steps_ok_put [OF d(2), of "step_spec (batch_of w) (ws @ [w])"] snoc.prems by (simp add: step_spec_def)
  moreover have "map_of ?d (show_int b)
      = (if b \<in> batch_of ` set (ws @ [w]) then Some (step_spec b (ws @ [w])) else None)" for b
    using d(3) by (auto simp: step_spec_def)
  ultimately show ?case by blast
qed

lemma steps_ok_distinct:
  assumes "steps_ok d"
  shows "distinct (map fst d)"
proof -
  have "map fst d = map show_int (map (\<lambda>(k, s). step_batchNum s) d)"
    using assms by (auto simp: steps_ok_def list_all_iff)
  moreover have "distinct (map (\<lambda>(k, s). step_batchNum s) d)"
    using assms by (simp add: steps_ok_def strict_sorted_iff)
  ultimately show ?thesis by (simp add: distinct_map inj_on_def)
qed

lemma steps_ok_values:
  assumes "steps_ok d" "\<And>b. map_of d (show_int b) = (if b \<in> B then Some (f b) else None)"
    and "\<And>b. step_batchNum (f b) = b"
  shows "set (obj_values d) = f ` B"
proof -
  have mem: "(show_int b, s) \<in> set d \<longleftrightarrow> b \<in> B \<and> s = f b" for b s
    using assms(2) [of b] map_of_eq_Some_iff [OF steps_ok_distinct [OF assms(1)], of "show_int b" s] by (auto split: if_splits)
  show ?thesis
  proof (intro set_eqI iffI)
    fix s
    assume "s \<in> set (obj_values d)"
    then obtain k where "(k, s) \<in> set d" by (auto simp: obj_values_def)
    with mem steps_ok_key [OF assms(1)] show "s \<in> f ` B" by blast
  next
    fix s
    assume "s \<in> f ` B"
    with mem have "(show_int (step_batchNum s), s) \<in> set d" using assms(3) by auto
    then show "s \<in> set (obj_values d)" by (force simp: obj_values_def)
  qed
qed

lemma add_workloads_error:
  "\<exists>w \<in> set ws. getWorkload w = None \<Longrightarrow> add_workloads ws d = Inl TypeError"
proof (induction ws arbitrary: d)
  case (Cons w ws)
  then show ?case
    by (cases "getWorkload w") (auto simp: add_workload_def Let_def)
qed simp

section \<open>Properties\<close>

text \<open>
  C19: \<open>workloadsToSteps\<close>.  For workloads with non-negative batch numbers the steps come out in strictly
  ascending order of their batch number, one for each batch number that occurs, and each step carries the
  last checkpoint, validation and training workload reported for its batch number; a wrapper without any
  workload makes the conversion throw.
\<close>

theorem workloads_to_steps:
  "((\<forall>w \<in> set ws. getWorkload w \<noteq> None \<and> 0 \<le> batch_of w) \<longrightarrow>
     (\<exists>steps. workloadsToSteps ws = Inr steps
       \<and> sorted_wrt (<) (map step_batchNum steps)
       \<and> step_batchNum ` set steps = batch_of ` set ws
       \<and> (\<forall>s \<in> set steps. s = step_spec (step_batchNum s) ws)))
   \<and> ((\<exists>w \<in> set ws. getWorkload w = None) \<longrightarrow> workloadsToSteps ws = Inl TypeError)"
proof (intro conjI impI)
  assume "\<forall>w \<in> set ws. getWorkload w \<noteq> None \<and> 0 \<le> batch_of w"
  then obtain d where d: "add_workloads ws [] = Inr d" "steps_ok d"
    "\<And>b. map_of d (show_int b) = (if b \<in> batch_of ` set ws then Some (step_spec b ws) else None)"
    using add_workloads_spec [of ws] by auto
  have "sorted_wrt (<) (map step_batchNum (obj_values d))"
    using d(2) by (simp add: steps_ok_def obj_values_def case_prod_unfold comp_def)
  moreover have "set (obj_values d) = (\<lambda>b. step_spec b ws) ` batch_of ` set ws"
    by (rule steps_ok_values [OF d(2,3)]) (simp_all add: step_spec_def)
  moreover have "workloadsToSteps ws = Inr (obj_values d)"
    by (simp add: workloadsToSteps_def d(1))
  ultimately show "\<exists>steps. workloadsToSteps ws = Inr steps \<and> sorted_wrt (<) (map step_batchNum steps)
       \<and> step_batchNum ` set steps = batch_of ` set ws \<and> (\<forall>s \<in> set steps. s = step_spec (step_batchNum s) ws)"
    by (intro exI [of _ "obj_values d"]) (simp add: image_image, simp add: step_spec_def)
next
  assume "\<exists>w \<in> set ws. getWorkload w = None"
  then show "workloadsToSteps ws = Inl TypeError"
    by (simp add: workloadsToSteps_def add_workloads_error)
qed

theorem workloads_to_steps_witness:
  "\<exists>steps. workloadsToSteps
      [\<lparr>ww_checkpoint = None, ww_training = Some \<lparr>t_endTime = None, t_startTime = '''', wl_numBatches = 100,
          wl_priorBatchesProcessed = 0, mw_metrics = Absent, mw_numInputs = Absent, mw_state = RunState_Active\<rparr>,
        ww_validation = None\<rparr>] = Inr steps
    \<and> step_batchNum ` set steps = {100}"
  using workloads_to_steps [of "[\<lparr>ww_checkpoint = None, ww_training = Some \<lparr>t_endTime = None,
      t_startTime = '''', wl_numBatches = 100, wl_priorBatchesProcessed = 0, mw_metrics = Absent,
      mw_numInputs = Absent, mw_state = RunState_Active\<rparr>, ww_validation = None\<rparr>]"]
  by (auto simp: batch_of_def getWorkload_def)

section \<open>Lemmas on upgrades\<close>

definition apart :: "string list \<Rightarrow> string list \<Rightarrow> bool" where
  "apart p q = (\<not> prefix p q \<and> \<not> prefix q p)"

text \<open>A configuration whose \<open>searcher\<close>, if there is one, is an object.\<close>

definition config_ok :: "(string \<times> js) list \<Rightarrow> bool" where
  "config_ok cs = (path_every (Obj cs) [''searcher''] = Inr Undefined
     \<or> (\<exists>ss. map_of cs ''searcher'' = Some (Obj ss)))"

text \<open>A setting that is neither \<open>null\<close> nor a number.\<close>

definition settled :: "(string \<times> js) list \<Rightarrow> string list \<Rightarrow> bool" where
  "settled cs p = (\<exists>v. getPathList (Obj cs) p = Inr v \<and> v \<noteq> Null \<and> \<not> isNumber v)"

definition setting_path :: "string list \<Rightarrow> bool" where
  "setting_path p = (good_path p \<and> ((\<exists>k. p = [k] \<and> k \<noteq> ''searcher'') \<or> (\<exists>k. p = [''searcher'', k])))"

lemma setting_pathD: "setting_path p \<Longrightarrow> good_path p \<and> p \<noteq> []"
  by (auto simp: setting_path_def)

lemma setting_value:
  assumes "config_ok cs" "setting_path p"
  shows "\<exists>v. getPathList (Obj cs) p = Inr v \<and> (v \<noteq> Undefined \<longrightarrow> (\<exists>ps. obj_walk (Obj cs) (butlast p) = Some ps))"
  using assms
  by (auto simp: setting_path_def config_ok_def getPathList_good split: option.splits)

lemma config_ok_write:
  assumes "config_ok cs" "setting_path p" "obj_walk (Obj cs') (butlast p) = Some ps'"
    and frame: "\<And>q. \<not> prefix p q \<and> \<not> prefix q p \<Longrightarrow> path_every (Obj cs') q = path_every (Obj cs) q"
  shows "config_ok cs'"
proof -
  consider k where "p = [k]" "k \<noteq> ''searcher''" | k where "p = [''searcher'', k]"
    using assms(2) by (auto simp: setting_path_def)
  then show ?thesis
  proof cases
    case 1
    with frame [of "[''searcher'']"] assms(1) show ?thesis
      by (auto simp: config_ok_def split: option.splits if_splits)
  next
    case 2
    with assms(3) show ?thesis
      by (auto simp: config_ok_def split: option.splits dest: obj_walk_Some_Obj)
  qed
qed

lemma set_setting:
  assumes "config_ok cs" "setting_path p" "obj_walk (Obj cs) (butlast p) = Some ps" "v \<noteq> Undefined"
  shows "\<exists>cs' ps'. setPathList (Obj cs) p v = Inr (Obj cs') \<and> config_ok cs'
    \<and> obj_walk (Obj cs') (butlast p) = Some ps' \<and> getPathList (Obj cs') p = Inr v
    \<and> (\<forall>q. good_path q \<and> apart p q \<longrightarrow> getPathList (Obj cs') q = getPathList (Obj cs) q)"
proof -
  note p = setting_pathD [OF assms(2)]
  from write_path [of p cs ps "\<lambda>o'. js_set o' (last p) v" "obj_put (last p) v ps"] assms p obtain cs' where
    cs': "setPathList (Obj cs) p v = Inr (Obj cs')"
      "obj_walk (Obj cs') (butlast p) = Some (obj_put (last p) v ps)" "path_every (Obj cs') p = Inr v"
    and frame: "\<And>q. \<not> prefix p q \<and> \<not> prefix q p \<Longrightarrow> path_every (Obj cs') q = path_every (Obj cs) q"
    using write_path_update(1) [of p cs ps v] by auto
  have "config_ok cs'"
    using config_ok_write [OF assms(1,2) cs'(2)] frame by blast
  with cs' frame p show ?thesis by (auto simp: getPathList_good apart_def)
qed

lemma delete_setting:
  assumes "config_ok cs" "setting_path p" "obj_walk (Obj cs) (butlast p) = Some ps"
  shows "\<exists>cs'. deletePathList (Obj cs) p = Inr (Obj cs') \<and> config_ok cs'
    \<and> getPathList (Obj cs') p = Inr Undefined
    \<and> (\<forall>q. good_path q \<and> apart p q \<longrightarrow> getPathList (Obj cs') q = getPathList (Obj cs) q)"
proof -
  note p = setting_pathD [OF assms(2)]
  from write_path [of p cs ps "\<lambda>o'. js_delete o' (last p)" "obj_del (last p) ps"] assms p obtain cs' where
    cs': "deletePathList (Obj cs) p = Inr (Obj cs')"
      "obj_walk (Obj cs') (butlast p) = Some (obj_del (last p) ps)" "path_every (Obj cs') p = Inr Undefined"
    and frame: "\<And>q. \<not> prefix p q \<and> \<not> prefix q p \<Longrightarrow> path_every (Obj cs') q = path_every (Obj cs) q"
    using write_path_update(2) [of p cs ps] by auto
  have "config_ok cs'"
    using config_ok_write [OF assms(1,2) cs'(2)] frame by blast
  with cs' frame p show ?thesis by (auto simp: getPathList_good apart_def)
qed

definition old_path :: "string option \<times> string \<Rightarrow> string list" where
  "old_path t = js_split ''.'' (snd t)"

definition new_path :: "string option \<times> string \<Rightarrow> string list" where
  "new_path t = js_split ''.'' (case fst t of Some s \<Rightarrow> s | None \<Rightarrow> snd t)"

definition entry_ok :: "string option \<times> string \<Rightarrow> bool" where
  "entry_ok t = (setting_path (old_path t) \<and> setting_path (new_path t)
     \<and> butlast (new_path t) = butlast (old_path t) \<and> (fst t \<noteq> None \<longrightarrow> apart (new_path t) (old_path t)))"

lemma upgrade_entry_eq:
  "upgrade_entry t config = bind_exn (getPathList config (old_path t)) (\<lambda>v. case v of
      Undefined \<Rightarrow> Inr config
    | Null \<Rightarrow> deletePathList config (old_path t)
    | Num n \<Rightarrow> bind_exn (getLengthFromStepCount config n) (\<lambda>(key, count).
        bind_exn (setPathList config (new_path t) (Obj [(key, Num count)])) (\<lambda>config.
        if fst t \<noteq> None then deletePathList config (old_path t) else Inr config))
    | _ \<Rightarrow> Inr config)"
proof -
  have null: "bind_exn r Inr = r" for r :: "js result" by (cases r) auto
  show ?thesis
    unfolding upgrade_entry_def old_path_def new_path_def Let_def
    by (cases t, simp only: prod.case fst_conv snd_conv, rule arg_cong [where f = "bind_exn _"], rule ext)
       (simp add: null split: js.splits)
qed

lemma upgrade_entry_settled: "settled cs (old_path t) \<Longrightarrow> upgrade_entry t (Obj cs) = Inr (Obj cs)"
  by (auto simp: settled_def upgrade_entry_eq isNumber_def split: js.splits)

lemma upgrade_entry_ok:
  assumes ok: "config_ok cs" "entry_ok t"
  shows "\<exists>cs'. upgrade_entry t (Obj cs) = Inr (Obj cs') \<and> config_ok cs' \<and> settled cs' (old_path t)
    \<and> (\<forall>q. good_path q \<and> apart (old_path t) q \<and> apart (new_path t) q \<longrightarrow>
           getPathList (Obj cs') q = getPathList (Obj cs) q)"
proof -
  note t = ok(2) [unfolded entry_ok_def]
  obtain v where v: "getPathList (Obj cs) (old_path t) = Inr v"
    and walk: "v \<noteq> Undefined \<Longrightarrow> \<exists>ps. obj_walk (Obj cs) (butlast (old_path t)) = Some ps"
    using setting_value [OF ok(1)] t by blast
  consider "v = Null" | n where "v = Num n" | "v \<noteq> Null" "\<not> isNumber v"
    by (cases v) (auto simp: isNumber_def)
  then show ?thesis
  proof cases
    case 1
    with walk obtain ps where ps: "obj_walk (Obj cs) (butlast (old_path t)) = Some ps" by auto
    with delete_setting [OF ok(1) _ ps] t obtain cs' where "deletePathList (Obj cs) (old_path t) = Inr (Obj cs')"
      "config_ok cs'" "getPathList (Obj cs') (old_path t) = Inr Undefined"
      "\<forall>q. good_path q \<and> apart (old_path t) q \<longrightarrow> getPathList (Obj cs') q = getPathList (Obj cs) q"
      by auto
    with 1 v show ?thesis by (auto simp: upgrade_entry_eq settled_def isNumber_def)
  next
    case (2 n)
    obtain key count where len: "getLengthFromStepCount (Obj cs) n = Inr (key, count)"
      by (auto simp: getLengthFromStepCount_def)
    let ?v = "Obj [(key, Num count)]"
    from 2 walk obtain ps where ps: "obj_walk (Obj cs) (butlast (old_path t)) = Some ps" by auto
    with set_setting [OF ok(1), of "new_path t" ps ?v] t obtain cs1 ps1 where
      cs1: "setPathList (Obj cs) (new_path t) ?v = Inr (Obj cs1)" "config_ok cs1"
        "obj_walk (Obj cs1) (butlast (old_path t)) = Some ps1" "getPathList (Obj cs1) (new_path t) = Inr ?v"
      and frame1: "\<And>q. good_path q \<Longrightarrow> apart (new_path t) q \<Longrightarrow> getPathList (Obj cs1) q = getPathList (Obj cs) q"
      by auto
    show ?thesis
    proof (cases "fst t = None")
      case True
      then have "new_path t = old_path t" by (simp add: new_path_def old_path_def)
      with 2 v len cs1 frame1 True show ?thesis
        by (auto simp: upgrade_entry_eq settled_def isNumber_def)
    next
      case False
      with delete_setting [OF cs1(2) _ cs1(3)] t obtain cs' where
        "deletePathList (Obj cs1) (old_path t) = Inr (Obj cs')" "config_ok cs'"
        "getPathList (Obj cs') (old_path t) = Inr Undefined"
        "\<forall>q. good_path q \<and> apart (old_path t) q \<longrightarrow> getPathList (Obj cs') q = getPathList (Obj cs1) q"
        by auto
      with 2 v len cs1 frame1 False show ?thesis
        by (auto simp: upgrade_entry_eq settled_def isNumber_def)
    qed
  next
    case 3
    with v have "settled cs (old_path t)" by (simp add: settled_def)
    with ok(1) show ?thesis by (auto simp: upgrade_entry_settled)
  qed
qed

lemma upgrade_entries_ok:
  assumes "config_ok cs" "\<forall>t \<in> set ts. entry_ok t"
    and "sorted_wrt (\<lambda>t u. apart (old_path u) (old_path t) \<and> apart (new_path u) (old_path t)) ts"
  shows "\<exists>cs'. upgrade_entries ts (Obj cs) = Inr (Obj cs') \<and> config_ok cs'
    \<and> (\<forall>t \<in> set ts. settled cs' (old_path t))
    \<and> (\<forall>q. good_path q \<and> (\<forall>t \<in> set ts. apart (old_path t) q \<and> apart (new_path t) q) \<longrightarrow>
           getPathList (Obj cs') q = getPathList (Obj cs) q)"
  using assms
proof (induction ts arbitrary: cs)
  case (Cons t ts)
  obtain cs1 where cs1: "upgrade_entry t (Obj cs) = Inr (Obj cs1)" "config_ok cs1" "settled cs1 (old_path t)"
    and frame1: "\<And>q. good_path q \<Longrightarrow> apart (old_path t) q \<Longrightarrow> apart (new_path t) q \<Longrightarrow>
        getPathList (Obj cs1) q = getPathList (Obj cs) q"
    using upgrade_entry_ok [of cs t] Cons.prems by auto
  obtain cs' where cs': "upgrade_entries ts (Obj cs1) = Inr (Obj cs')" "config_ok cs'"
      "\<And>u. u \<in> set ts \<Longrightarrow> settled cs' (old_path u)"
    and frame': "\<And>q. good_path q \<Longrightarrow> \<forall>u \<in> set ts. apart (old_path u) q \<and> apart (new_path u) q \<Longrightarrow>
        getPathList (Obj cs') q = getPathList (Obj cs1) q"
    using Cons.IH [OF cs1(2)] Cons.prems by auto
  have "good_path (old_path t)" using Cons.prems(2) by (auto simp: entry_ok_def dest: setting_pathD)
  then have "settled cs' (old_path t)"
    using frame' [of "old_path t"] cs1(3) Cons.prems(3) by (simp add: settled_def)
  then show ?case
    using cs1 cs' frame1 frame' by (intro exI [of _ cs']) auto
qed simp

lemma upgrade_entries_settled:
  "\<forall>t \<in> set ts. settled cs (old_path t) \<Longrightarrow> upgrade_entries ts (Obj cs) = Inr (Obj cs)"
  by (induction ts) (auto simp: upgrade_entry_settled)

lemma translation_paths:
  "map (\<lambda>t. (old_path t, new_path t)) stepRemovalTranslations = [
     ([''searcher'', ''max_steps''], [''searcher'', ''max_length'']),
     ([''min_validation_period''], [''min_validation_period'']),
     ([''min_checkpoint_period''], [''min_checkpoint_period'']),
     ([''searcher'', ''target_trial_steps''], [''searcher'', ''max_length'']),
     ([''searcher'', ''steps_per_round''], [''searcher'', ''length_per_round'']),
     ([''searcher'', ''step_budget''], [''searcher'', ''budget''])]"
  by (simp add: stepRemovalTranslations_def old_path_def new_path_def js_split_def)

lemma translations_ok: "\<forall>t \<in> set stepRemovalTranslations. entry_ok t"
  using translation_paths
  by (simp add: stepRemovalTranslations_def entry_ok_def setting_path_def good_path_def apart_def)

lemma translations_apart:
  "sorted_wrt (\<lambda>t u. apart (old_path u) (old_path t) \<and> apart (new_path u) (old_path t)) stepRemovalTranslations"
  using translation_paths by (simp add: stepRemovalTranslations_def apart_def)

lemma translation_heads:
  "t \<in> set stepRemovalTranslations \<Longrightarrow>
   hd (old_path t) \<in> {''searcher'', ''min_validation_period'', ''min_checkpoint_period''} \<and>
   hd (new_path t) = hd (old_path t) \<and> old_path t \<noteq> [] \<and> new_path t \<noteq> [] \<and> good_path (old_path t)"
  using translation_paths by (auto simp: stepRemovalTranslations_def good_path_def)

lemma apart_hd: "p \<noteq> [] \<Longrightarrow> q \<noteq> [] \<Longrightarrow> hd p \<noteq> hd q \<Longrightarrow> apart p q"
  by (cases p; cases q) (auto simp: apart_def)

lemma getPathList_obj_del:
  "good_path q \<Longrightarrow> q \<noteq> [] \<Longrightarrow> hd q \<noteq> k \<Longrightarrow> getPathList (Obj (obj_del k cs)) q = getPathList (Obj cs) q"
  by (cases q) (simp_all add: getPathList_good)

lemma obj_del_absent: "map_of cs k = None \<Longrightarrow> obj_del k cs = cs"
  by (force simp: obj_del_def filter_id_conv map_of_eq_None_iff)

lemma upgradeConfig_facts:
  assumes "config_ok cs"
  shows "\<exists>cs'. upgradeConfig (Obj cs) = Inr (Obj cs')
    \<and> (\<forall>t \<in> set stepRemovalTranslations. settled cs' (js_split ''.'' (snd t)))
    \<and> map_of cs' ''batches_per_step'' = None
    \<and> (\<forall>q. good_path q \<and> q \<noteq> [] \<and> hd q \<notin> {''searcher'', ''min_validation_period'',
          ''min_checkpoint_period'', ''batches_per_step''} \<longrightarrow>
          getPathList (Obj cs') q = getPathList (Obj cs) q)
    \<and> upgradeConfig (Obj cs') = Inr (Obj cs')"
proof -
  obtain cs1 where cs1: "upgrade_entries stepRemovalTranslations (Obj cs) = Inr (Obj cs1)"
      "\<And>t. t \<in> set stepRemovalTranslations \<Longrightarrow> settled cs1 (old_path t)"
    and frame: "\<And>q. good_path q \<Longrightarrow>
        \<forall>t \<in> set stepRemovalTranslations. apart (old_path t) q \<and> apart (new_path t) q \<Longrightarrow>
        getPathList (Obj cs1) q = getPathList (Obj cs) q"
    using upgrade_entries_ok [OF assms translations_ok translations_apart] by auto
  let ?cs = "obj_del ''batches_per_step'' cs1"
  have up: "upgradeConfig (Obj cs) = Inr (Obj ?cs)"
    by (simp add: upgradeConfig_def cs1)
  have settled: "settled ?cs (old_path t)" if "t \<in> set stepRemovalTranslations" for t
    using cs1(2) [OF that] translation_heads [OF that] by (auto simp: settled_def getPathList_obj_del)
  have same: "getPathList (Obj ?cs) q = getPathList (Obj cs) q"
    if "good_path q" "q \<noteq> []" "hd q \<notin> {''searcher'', ''min_validation_period'',
          ''min_checkpoint_period'', ''batches_per_step''}" for q
  proof -
    have "apart (old_path t) q \<and> apart (new_path t) q" if "t \<in> set stepRemovalTranslations" for t
      using translation_heads [OF that] \<open>q \<noteq> []\<close> \<open>hd q \<notin> _\<close> by (intro conjI apart_hd) auto
    with frame [of q] that show ?thesis by (simp add: getPathList_obj_del)
  qed
  have "upgradeConfig (Obj ?cs) = Inr (Obj ?cs)"
    using settled by (simp add: upgradeConfig_def upgrade_entries_settled obj_del_absent)
  with up settled same show ?thesis
    by (intro exI [of _ ?cs]) (simp add: old_path_def)
qed



section \<open>Sorting identifiers\<close>

text \<open>A comparator that separates distinct elements: the sorted list is determined by the elements.\<close>

locale total_comparator = comparator +
  assumes separates: "cmp x y = 0 \<Longrightarrow> x = y"
begin

lemma sorted_unique:
  "sorted_wrt (\<lambda>a b. cmp a b \<le> 0) xs \<Longrightarrow> sorted_wrt (\<lambda>a b. cmp a b \<le> 0) ys \<Longrightarrow>
   mset xs = mset ys \<Longrightarrow> xs = ys"
proof (induction xs arbitrary: ys)
  case (Cons x xs)
  then obtain y ys' where ys: "ys = y # ys'" by (cases ys) auto
  have "x \<in> set ys" "y \<in> set (x # xs)"
    using Cons.prems(3) ys by (metis mset_eq_setD list.set_intros(1))+
  then have "cmp y x \<le> 0" "cmp x y \<le> 0"
    using Cons.prems(1,2) ys refl_zero by auto
  then have "x = y"
    using antisymmetric [of x y] separates [of x y] by (auto simp: sgn_if split: if_splits)
  with Cons ys show ?case by simp
qed simp

lemma js_sort_eq_iff: "js_sort cmp xs = js_sort cmp ys \<longleftrightarrow> mset xs = mset ys"
  using sorted_unique [of "js_sort cmp xs" "js_sort cmp ys"] sorted_js_sort mset_js_sort by metis

end

lemma str_cmp_antisym: "sgn (str_cmp a b) = - sgn (str_cmp b a)"
  by (induction a b rule: str_cmp.induct) auto

lemma str_cmp_separates: "str_cmp a b = 0 \<Longrightarrow> a = b"
  by (induction a b rule: str_cmp.induct) (auto split: if_splits)

lemma str_cmp_Cons_le:
  "str_cmp (x # xs) (y # ys) \<le> 0 \<longleftrightarrow>
     (of_char x :: nat) < of_char y \<or> (of_char x :: nat) = of_char y \<and> str_cmp xs ys \<le> 0"
  by auto

lemma str_cmp_trans: "str_cmp a b \<le> 0 \<Longrightarrow> str_cmp b c \<le> 0 \<Longrightarrow> str_cmp a c \<le> 0"
proof (induction a b arbitrary: c rule: str_cmp.induct)
  case (4 a as b bs)
  show ?case
  proof (cases c)
    case Nil
    with "4.prems" show ?thesis by simp
  next
    case (Cons d cs)
    have IH: "(of_char a :: nat) = of_char b \<Longrightarrow> str_cmp as bs \<le> 0 \<Longrightarrow> str_cmp bs cs \<le> 0 \<Longrightarrow> str_cmp as cs \<le> 0"
      using "4.IH" by simp
    show ?thesis
      using "4.prems" unfolding Cons str_cmp_Cons_le using IH by (elim disjE conjE) auto
  qed
next
  case 1
  then show ?case by simp
next
  case (2 b bs)
  then show ?case by (cases c) simp_all
next
  case (3 a as)
  then show ?case by simp
qed

interpretation id_order: total_comparator "\<lambda>a b. str_cmp (show_int a) (show_int b)"
proof
  show "sgn (str_cmp (show_int x) (show_int y)) = - sgn (str_cmp (show_int y) (show_int x))" for x y
    by (rule str_cmp_antisym)
  show "str_cmp (show_int x) (show_int y) \<le> 0 \<Longrightarrow> str_cmp (show_int y) (show_int z) \<le> 0 \<Longrightarrow>
      str_cmp (show_int x) (show_int z) \<le> 0" for x y z
    by (rule str_cmp_trans)
  show "str_cmp (show_int x) (show_int y) = 0 \<Longrightarrow> x = y" for x y
    using str_cmp_separates by fastforce
qed

lemma isEqual_js_ids: "isEqual (js_ids xs) (js_ids ys) \<longleftrightarrow> xs = ys"
proof -
  have "to_json (js_ids zs) = Some (JArr (map (\<lambda>i. JNum (of_int i)) zs))" for zs
    by (simp add: js_ids_def comp_def)
  moreover have "wf_js (js_ids zs)" for zs by (simp add: js_ids_def list_all_iff)
  moreover have "map (\<lambda>i. JNum (of_int i)) xs = map (\<lambda>i. JNum (of_int i)) ys \<longleftrightarrow> xs = ys"
    by (rule inj_map_eq_map) (simp add: inj_def)
  moreover have "\<not> strict_eq (js_ids xs) (js_ids ys)" by (simp add: js_ids_def)
  ultimately show ?thesis
    using stringify_eq_iff [of "js_ids xs" "js_ids ys"] by (simp add: isEqual_def)
qed

lemma isEqual_undefined_ids: "\<not> isEqual Undefined (js_ids ys)"
  by (simp add: isEqual_def js_ids_def stringify_def)

text \<open>
  \<open>tsbMatchesSource\<close> holds exactly when the TensorBoard was started from the same experiments
  (respectively trials), counted with repetition and in any order; the sorting in place only rearranges
  the identifier lists.
\<close>

theorem tsb_matches_source:
  "fst (tsbMatchesSource tb src) \<longleftrightarrow> (case cmd_misc tb of
      None \<Rightarrow> False
    | Some m \<Rightarrow> mset (if src_type src = TBSourceType_Experiment then misc_experimentIds m else misc_trialIds m)
                = mset (src_ids src))"
  by (cases "src_type src"; cases "cmd_misc tb")
     (simp_all add: tsbMatchesSource_def isEqual_js_ids isEqual_undefined_ids sort_ids_def id_order.js_sort_eq_iff)

end
