(* ===== verification/String_Util.thy ===== *)
theory String_Util
  imports Js_Value
begin

text \<open>
  \<^verbatim>\<open>utils/string.ts\<close>, \<^verbatim>\<open>utils/number.ts\<close>, \<^verbatim>\<open>utils/color.ts\<close> and \<^verbatim>\<open>constants/colors.ts\<close>: text formatting,
  percentages and colours.  What \<open>Math.random\<close> yields is an argument: a list of numbers in \<open>[0, 1)\<close>, one
  for each call.  Byte sizes are formatted by a package and are not modelled.
\<close>

section \<open>Strings\<close>

definition charAt :: "string \<Rightarrow> nat \<Rightarrow> string" where
  "charAt s i = (if i < length s then [s ! i] else [])"

text \<open>\<open>s.slice(0, n)\<close>: a negative end counts from the end of the string.\<close>

definition slice_to :: "string \<Rightarrow> int \<Rightarrow> string" where
  "slice_to s n = (if n < 0 then take (length s - nat (- n)) s else take (nat n) s)"

definition capitalize :: "string \<Rightarrow> string" where
  "capitalize str = toUpperCase (charAt str 0) @ toLowerCase (drop 1 str)"

definition LETTERS :: string where
  "LETTERS = ''abcdefghijklmnopqrstuvwxyzABCDEFGHIJKLMNOPQRSTUVWXYZ''"

definition CHARACTERS :: string where
  "CHARACTERS = ''0123456789abcdefghijklmnopqrstuvwxyzABCDEFGHIJKLMNOPQRSTUVWXYZ''"

text \<open>The first argument holds the results of the calls of \<open>Math.random\<close>.\<close>

fun generateAlphaNumeric :: "rat list \<Rightarrow> nat \<Rightarrow> string \<Rightarrow> string" where
  "generateAlphaNumeric _ 0 chars = []"
| "generateAlphaNumeric [] (Suc n) chars = []"
| "generateAlphaNumeric (r # rs) (Suc n) chars =
     chars ! nat \<lfloor>r * of_nat (length chars)\<rfloor> # generateAlphaNumeric rs n chars"

definition generateLetters :: "rat list \<Rightarrow> nat \<Rightarrow> string" where
  "generateLetters rs n = generateAlphaNumeric rs n LETTERS"

text \<open>The slice taken when \<open>maxLen < 4\<close> is thrown away.\<close>

definition truncate_str :: "string \<Rightarrow> int \<Rightarrow> string" where
  "truncate_str str maxLen =
     (let _ = (if maxLen < 4 then slice_to str maxLen else str)
      in if int (length str) \<le> maxLen then str
         else slice_to str (maxLen - 3) @ ''...'')"

text \<open>The white space of \<open>\s\<close> among the byte-sized code units.\<close>

definition is_space :: "char \<Rightarrow> bool" where
  "is_space c = ((of_char c :: nat) \<in> {9, 10, 11, 12, 13, 32, 160})"

definition toHtmlId :: "string \<Rightarrow> string" where
  "toHtmlId str = toLowerCase
     (filter (\<lambda>c. is_lower c \<or> is_upper c \<or> is_digit c \<or> c = CHR ''-'')
       (map (\<lambda>c. if is_space c \<or> c = CHR ''_'' then CHR ''-'' else c) str))"

definition listToStr :: "string option list \<Rightarrow> string \<Rightarrow> string" where
  "listToStr list glue = js_join glue (map the (filter (\<lambda>i. i \<noteq> None \<and> i \<noteq> Some []) list))"

text \<open>\<open>toFixed\<close> for magnitudes below \<open>10^21\<close>: the nearest decimal fraction, the larger one of two.\<close>

definition pad_left :: "nat \<Rightarrow> string \<Rightarrow> string" where
  "pad_left n s = replicate (n - length s) (CHR ''0'') @ s"

definition show_fixed :: "nat \<Rightarrow> rat \<Rightarrow> string" where
  "show_fixed f x =
     (let n = nat \<lfloor>\<bar>x\<bar> * 10 ^ f + 1 / 2\<rfloor>;
          m = show_nat (n div 10 ^ f);
          s = (if f = 0 then m else m @ ''.'' @ pad_left f (show_nat (n mod 10 ^ f)))
      in if x < 0 then CHR ''-'' # s else s)"

fun toFixed :: "nat \<Rightarrow> number \<Rightarrow> string" where
  "toFixed f (Fin x) = show_fixed f x"
| "toFixed f NaN = ''NaN''"
| "toFixed f PInf = ''Infinity''"
| "toFixed f NInf = ''-Infinity''"

definition floatToPercent :: "number \<Rightarrow> nat \<Rightarrow> string" where
  "floatToPercent num precision =
     (let num = (if num = NaN then Fin 0 else num)
      in toFixed precision (num_mul num (Fin 100)) @ ''%'')"

definition camelCaseToSentence :: "string \<Rightarrow> string" where
  "camelCaseToSentence txt =
     (let result = concat (map (\<lambda>c. if is_upper c then [CHR '' '', c] else [c]) txt)
      in toUpperCase (charAt result 0) @ drop 1 result)"

section \<open>Numbers\<close>

definition percent :: "number \<Rightarrow> nat \<Rightarrow> number" where
  "percent n decimals =
     (let normalized = (if num_lt n (Fin 0) then Fin 0
            else if num_lt (Fin 1) n then Fin 1
            else if n = NaN then Fin 0 else n);
          factor = Fin (10 ^ decimals)
      in num_div (math_round (num_mul (num_mul normalized (Fin 100)) factor)) factor)"

section \<open>Colours\<close>

record HslColor =
  hsl_h :: int
  hsl_l :: int
  hsl_s :: int

definition hex_digit :: "char \<Rightarrow> nat option" where
  "hex_digit c =
     (let n = of_char (to_lower_char c) :: nat in
      if 48 \<le> n \<and> n \<le> 57 then Some (n - 48)
      else if 97 \<le> n \<and> n \<le> 102 then Some (n - 87) else None)"

text \<open>The match of \<open>/^#?([a-f\d]{2})([a-f\d]{2})([a-f\d]{2})$/i\<close>, each pair read in base 16.\<close>

definition parse_hex :: "string \<Rightarrow> (nat \<times> nat \<times> nat) option" where
  "parse_hex hex =
     (case map hex_digit (case hex of c # cs \<Rightarrow> if c = CHR ''#'' then cs else hex | [] \<Rightarrow> []) of
        [Some a, Some b, Some c, Some d, Some e, Some f] \<Rightarrow> Some (16 * a + b, 16 * c + d, 16 * e + f)
      | _ \<Rightarrow> None)"

definition round_rat :: "rat \<Rightarrow> int" where
  "round_rat x = \<lfloor>x + 1 / 2\<rfloor>"

definition hsl_of_rgb :: "rat \<Rightarrow> rat \<Rightarrow> rat \<Rightarrow> rat \<times> rat \<times> rat" where
  "hsl_of_rgb r g b =
     (let mx = max (max r g) b; mn = min (min r g) b; avg = (mx + mn) / 2 in
      if mx = mn then (0, 0, avg)
      else
        (let d = mx - mn;
             s = (if avg > 1 / 2 then d / (2 - mx - mn) else d / (mx + mn));
             h = (if mx = r then (g - b) / d + (if g < b then 6 else 0)
                  else if mx = g then (b - r) / d + 2
                  else (r - g) / d + 4)
         in (h, s, avg)))"

definition hex2hsl :: "rat \<Rightarrow> string \<Rightarrow> HslColor" where
  "hex2hsl random hex =
     (let (h, s, l) = (case parse_hex hex of
            None \<Rightarrow> (of_int (round_rat (random * 6)), 1 / 2, 1 / 2)
          | Some (r, g, b) \<Rightarrow> hsl_of_rgb (of_nat r / 255) (of_nat g / 255) (of_nat b / 255))
      in \<lparr>hsl_h = round_rat (360 * h / 6), hsl_l = round_rat (l * 100), hsl_s = round_rat (s * 100)\<rparr>)"

definition hsl2str :: "HslColor \<Rightarrow> string" where
  "hsl2str hsl = ''hsl('' @ show_int (hsl_h hsl) @ '', '' @ show_int (hsl_s hsl) @ ''%, ''
     @ show_int (hsl_l hsl) @ ''%)''"

definition GLASBEY :: "(nat \<times> nat \<times> nat) list" where
  "GLASBEY = [
     (87, 43, 255), (158, 73, 209), (184, 125, 112), (0, 128, 90), (253, 229, 0), (149, 75, 119),
     (140, 213, 104), (114, 58, 62), (63, 65, 172), (102, 162, 214), (206, 105, 193), (94, 89, 106),
     (237, 172, 136), (106, 166, 160), (230, 170, 210), (99, 0, 136), (219, 253, 0), (25, 40, 104),
     (255, 66, 180), (197, 89, 14), (67, 135, 23), (0, 211, 145), (0, 121, 206), (255, 90, 249),
     (102, 116, 91), (179, 174, 142), (140, 125, 156), (198, 0, 70), (46, 78, 108), (70, 109, 166),
     (115, 137, 158), (202, 175, 168), (167, 141, 206), (100, 254, 0), (0, 121, 146), (161, 99, 255),
     (216, 255, 245), (241, 140, 1), (160, 172, 20), (90, 46, 91), (158, 134, 137), (187, 204, 208),
     (197, 175, 212), (109, 221, 219), (244, 255, 208), (134, 101, 0), (99, 105, 0), (104, 65, 168),
     (197, 151, 45), (255, 116, 169), (94, 187, 39), (0, 183, 88), (167, 255, 203), (171, 122, 164),
     (148, 189, 255), (193, 226, 137), (255, 201, 15), (197, 0, 213), (138, 109, 99), (143, 133, 105),
     (83, 78, 75), (104, 96, 171), (213, 182, 122), (23, 90, 44), (37, 0, 154), (243, 209, 190),
     (104, 111, 138), (107, 165, 106), (104, 84, 134), (186, 205, 174), (127, 153, 136), (0, 220, 203),
     (145, 4, 155), (27, 188, 235), (210, 156, 235), (111, 0, 112), (50, 161, 177), (147, 108, 202),
     (164, 70, 65), (138, 140, 229), (0, 69, 213), (203, 139, 199), (151, 150, 183), (118, 32, 212),
     (204, 75, 114), (0, 78, 104), (56, 34, 104), (79, 86, 56), (171, 187, 111), (49, 58, 134),
     (152, 211, 165), (143, 175, 185), (223, 228, 216), (224, 0, 171), (219, 193, 203), (140, 223, 255),
     (77, 83, 227), (111, 105, 102), (28, 0, 255), (115, 45, 83), (108, 145, 78), (17, 109, 168),
     (38, 159, 255), (176, 163, 95), (87, 133, 200), (152, 89, 146), (255, 161, 163), (186, 186, 254),
     (136, 42, 37), (168, 230, 219), (167, 242, 151), (214, 148, 103), (64, 91, 186), (146, 93, 58),
     (47, 79, 54), (150, 124, 39), (155, 149, 138), (87, 180, 208), (100, 71, 0), (47, 93, 95),
     (65, 142, 142), (19, 63, 173), (60, 150, 106), (133, 61, 161), (186, 183, 191), (103, 198, 172),
     (207, 105, 101), (0, 176, 146), (218, 227, 44), (54, 111, 1), (83, 121, 255), (127, 129, 66),
     (0, 233, 79), (40, 84, 153), (0, 10, 93), (88, 0, 163), (0, 136, 12), (167, 131, 90),
     (251, 236, 255), (1, 105, 75), (212, 118, 136), (255, 199, 230), (218, 255, 165), (120, 111, 216),
     (75, 2, 223), (92, 104, 106), (162, 107, 120), (103, 128, 126), (134, 71, 90), (202, 0, 0),
     (43, 0, 124), (114, 255, 151), (225, 227, 182), (201, 83, 220), (52, 120, 119), (142, 190, 88)]"

definition glasbeyColor :: "nat \<Rightarrow> string result" where
  "glasbeyColor seriesIdx =
     (if seriesIdx < length GLASBEY
      then (case GLASBEY ! seriesIdx of (r, g, b) \<Rightarrow>
        Inr (''rgb('' @ show_nat r @ '', '' @ show_nat g @ '', '' @ show_nat b @ '')''))
      else Inl TypeError)"

section \<open>Lemmas\<close>

lemma to_lower_char_keep: "is_lower c \<or> is_digit c \<or> c = CHR ''-'' \<Longrightarrow> to_lower_char c = c"
  by (auto simp: to_lower_char_def is_lower_def is_upper_def is_digit_def)

lemma to_lower_char_lower: "is_upper c \<Longrightarrow> is_lower (to_lower_char c)"
  by (simp add: to_lower_char_def is_lower_def is_upper_def)

lemma to_lower_char_id:
  "is_lower c \<or> is_upper c \<or> is_digit c \<or> c = CHR ''-'' \<Longrightarrow>
   is_lower (to_lower_char c) \<or> is_digit (to_lower_char c) \<or> to_lower_char c = CHR ''-''"
  by (metis to_lower_char_keep to_lower_char_lower)

lemma html_id_chars:
  assumes "c \<in> set (toHtmlId str)"
  shows "is_lower c \<or> is_digit c \<or> c = CHR ''-''"
proof -
  from assms obtain d where "c = to_lower_char d" "is_lower d \<or> is_upper d \<or> is_digit d \<or> d = CHR ''-''"
    unfolding toHtmlId_def toLowerCase_def set_map set_filter by blast
  then show ?thesis using to_lower_char_id by blast
qed

lemma toHtmlId_fixed:
  assumes "\<forall>c \<in> set str. is_lower c \<or> is_digit c \<or> c = CHR ''-''"
  shows "toHtmlId str = str"
proof -
  have plain: "\<not> is_space c \<and> c \<noteq> CHR ''_''" if "is_lower c \<or> is_digit c \<or> c = CHR ''-''" for c
    using that by (auto simp: is_space_def is_lower_def is_digit_def)
  have "map (\<lambda>c. if is_space c \<or> c = CHR ''_'' then CHR ''-'' else c) str = str"
    using assms plain by (intro map_idI) auto
  moreover have "filter (\<lambda>c. is_lower c \<or> is_upper c \<or> is_digit c \<or> c = CHR ''-'') str = str"
    using assms by (auto simp: filter_id_conv)
  moreover have "map to_lower_char str = str"
    using assms to_lower_char_keep by (intro map_idI) blast
  ultimately show ?thesis by (simp add: toHtmlId_def toLowerCase_def)
qed

lemma round_rat_bounds: "of_int a \<le> x \<Longrightarrow> x \<le> of_int b \<Longrightarrow> a \<le> round_rat x \<and> round_rat x \<le> b"
  by (auto simp: round_rat_def le_floor_iff floor_le_iff)

lemma div_bounds: "0 < d \<Longrightarrow> 0 \<le> x \<Longrightarrow> x \<le> d \<Longrightarrow> 0 \<le> x / d \<and> x / d \<le> (1 :: rat)"
  by (simp add: divide_le_eq_1)

lemma div_bounds_neg: "0 < d \<Longrightarrow> - d \<le> x \<Longrightarrow> x \<le> d \<Longrightarrow> - 1 \<le> x / d \<and> x / d \<le> (1 :: rat)"
  by (simp add: pos_le_divide_eq divide_le_eq_1)

lemma hsl_of_rgb_bounds:
  assumes "0 \<le> r" "r \<le> 1" "0 \<le> g" "g \<le> 1" "0 \<le> b" "b \<le> 1" and hsl: "hsl_of_rgb r g b = (h, s, l)"
  shows "0 \<le> h \<and> h \<le> 6 \<and> 0 \<le> s \<and> s \<le> 1 \<and> 0 \<le> l \<and> l \<le> 1"
proof -
  define mx where "mx = max (max r g) b"
  define mn where "mn = min (min r g) b"
  have range: "0 \<le> mn" "mn \<le> mx" "mx \<le> 1" using assms by (auto simp: mx_def mn_def)
  have each: "mn \<le> r" "r \<le> mx" "mn \<le> g" "g \<le> mx" "mn \<le> b" "b \<le> mx" by (auto simp: mx_def mn_def)
  have which: "mx = r \<or> mx = g \<or> mx = b" by (auto simp: mx_def max_def)
  note def = hsl [unfolded hsl_of_rgb_def Let_def, folded mx_def mn_def]
  show ?thesis
  proof (cases "mx = mn")
    case True
    with def range show ?thesis by auto
  next
    case False
    let ?d = "mx - mn"
    have d: "0 < ?d" using False range by simp
    have s: "s = (if (mx + mn) / 2 > 1 / 2 then ?d / (2 - mx - mn) else ?d / (mx + mn))" and l: "l = (mx + mn) / 2"
      and h: "h = (if mx = r then (g - b) / ?d + (if g < b then 6 else 0)
          else if mx = g then (b - r) / ?d + 2 else (r - g) / ?d + 4)"
      using def False by auto
    have "0 \<le> s \<and> s \<le> 1"
    proof (cases "(mx + mn) / 2 > 1 / 2")
      case True
      with s d range show ?thesis by (cases "2 - mx - mn = 0") (auto intro!: div_bounds)
    next
      case F: False
      with s d range show ?thesis using div_bounds [of "mx + mn" ?d] by auto
    qed
    moreover have "0 \<le> h \<and> h \<le> 6"
    proof -
      define x y z where "x = (g - b) / ?d" and "y = (b - r) / ?d" and "z = (r - g) / ?d"
      have "- 1 \<le> x \<and> x \<le> 1" "- 1 \<le> y \<and> y \<le> 1" "- 1 \<le> z \<and> z \<le> 1"
        unfolding x_def y_def z_def using each by (intro div_bounds_neg d; linarith)+
      moreover have "if g < b then x \<le> 0 else 0 \<le> x"
        using d by (simp add: x_def divide_le_0_iff)
      ultimately show ?thesis
        unfolding h x_def [symmetric] y_def [symmetric] z_def [symmetric] by (simp split: if_splits)
    qed
    ultimately show ?thesis using l range by simp
  qed
qed

lemma hex_digit_less: "hex_digit c = Some n \<Longrightarrow> n < 16"
  by (auto simp: hex_digit_def Let_def split: if_splits)

lemma parse_hex_less: "parse_hex hex = Some (r, g, b) \<Longrightarrow> r < 256 \<and> g < 256 \<and> b < 256"
  by (auto simp: parse_hex_def split: list.splits option.splits dest!: hex_digit_less)

lemma length_slice_to_neg: "n < 0 \<Longrightarrow> length (slice_to s n) = length s - nat (- n)"
  by (simp add: slice_to_def)

lemma percent_normalized:
  "\<exists>q. (if num_lt n (Fin 0) then Fin 0 else if num_lt (Fin 1) n then Fin 1 else if n = NaN then Fin 0 else n) = Fin q
     \<and> 0 \<le> q \<and> q \<le> 1"
  by (cases n) auto

lemma percent_bounds:
  "\<exists>p. percent n decimals = Fin p \<and> 0 \<le> p \<and> p \<le> 100
     \<and> (\<forall>q. n = Fin q \<and> 0 \<le> q \<and> q \<le> 1 \<longrightarrow> \<bar>p - 100 * q\<bar> \<le> 1 / (2 * 10 ^ decimals))"
proof -
  obtain q where q: "(if num_lt n (Fin 0) then Fin 0 else if num_lt (Fin 1) n then Fin 1
      else if n = NaN then Fin 0 else n) = Fin q" "0 \<le> q" "q \<le> 1"
    using percent_normalized by blast
  define f :: rat where "f = 10 ^ decimals"
  have f: "0 < f" by (simp add: f_def)
  let ?k = "\<lfloor>q * 100 * f + 1 / 2\<rfloor>"
  have p: "percent n decimals = Fin (of_int ?k / f)"
    using q f by (simp add: percent_def Let_def f_def)
  have f_int: "f = of_int (10 ^ decimals)" by (simp add: f_def)
  have "0 \<le> ?k" using q f by (simp add: add_increasing2)
  moreover have "?k \<le> 100 * 10 ^ decimals"
  proof -
    have "q * 100 * f \<le> 100 * f" using q f by simp
    moreover have "of_int (100 * 10 ^ decimals + 1) = 100 * f + 1" by (simp add: f_def)
    ultimately have "q * 100 * f + 1 / 2 < of_int (100 * 10 ^ decimals + 1)" by linarith
    then have "?k < 100 * 10 ^ decimals + 1" by (simp only: floor_less_iff)
    then show ?thesis by simp
  qed
  then have "(of_int ?k :: rat) \<le> 100 * f" by (simp add: f_def flip: of_int_le_iff [where ?'a = rat])
  moreover have "\<bar>of_int ?k / f - 100 * q\<bar> \<le> 1 / (2 * f)"
  proof -
    have round: "\<bar>of_int \<lfloor>x + 1 / 2\<rfloor> - x\<bar> \<le> 1 / 2" for x :: rat
      using floor_correct [of "x + 1 / 2"] by linarith
    from round [of "q * 100 * f"] have "\<bar>of_int ?k - 100 * q * f\<bar> \<le> 1 / 2"
      by (simp only: mult.commute [of 100 q])
    then have "\<bar>(of_int ?k - 100 * q * f) / f\<bar> \<le> 1 / 2 / f"
      using f divide_right_mono [of "\<bar>of_int ?k - 100 * q * f\<bar>" "1 / 2" f] by (simp only: abs_divide abs_of_pos less_imp_le)
    then show ?thesis using f by (simp add: diff_divide_distrib)
  qed
  ultimately show ?thesis
    using p f q by (intro exI [of _ "of_int ?k / f"]) (auto simp: divide_le_eq f_def)
qed

section \<open>Properties\<close>

text \<open>
  \<open>truncate\<close>.  From three characters on the result has at most \<open>maxLen\<close> characters: a short string is
  returned as it is, a long one is cut and ends in three dots.  Below three characters, where the code drops
  the slice it takes, a string that is too long stays longer than \<open>maxLen\<close>.
\<close>

theorem truncate_length:
  "(3 \<le> maxLen \<longrightarrow> int (length (truncate_str str maxLen)) \<le> maxLen
      \<and> (int (length str) \<le> maxLen \<longrightarrow> truncate_str str maxLen = str)
      \<and> (maxLen < int (length str) \<longrightarrow> truncate_str str maxLen = take (nat maxLen - 3) str @ ''...''))
   \<and> (0 \<le> maxLen \<and> maxLen < 3 \<and> maxLen < int (length str) \<longrightarrow>
      maxLen < int (length (truncate_str str maxLen)))"
  by (auto simp: truncate_str_def slice_to_def nat_diff_distrib)

theorem truncate_length_witness:
  "truncate_str ''experiment'' 6 = ''exp...'' \<and> int (length (truncate_str ''experiment'' 6)) \<le> 6
   \<and> 2 < int (length (truncate_str ''abcdef'' 2))"
  using truncate_length [of 6 "''experiment''"] truncate_length [of 2 "''abcdef''"] by simp

text \<open>
  an identifier made by \<open>toHtmlId\<close> consists of lower case letters, digits and hyphens, and making an
  identifier of it again changes nothing.
\<close>

theorem html_id:
  "list_all (\<lambda>c. is_lower c \<or> is_digit c \<or> c = CHR ''-'') (toHtmlId str)
   \<and> toHtmlId (toHtmlId str) = toHtmlId str"
  using html_id_chars toHtmlId_fixed by (auto simp: list_all_iff)

text \<open>
  \<open>percent\<close> of any number, \<open>NaN\<close> and the infinities included, is a number between 0 and 100, and within
  half a unit of the last decimal of the exact percentage when the number is between 0 and 1.
\<close>

theorem percent_range:
  "\<exists>p. percent n decimals = Fin p \<and> 0 \<le> p \<and> p \<le> 100
     \<and> (\<forall>q. n = Fin q \<and> 0 \<le> q \<and> q \<le> 1 \<longrightarrow> \<bar>p - 100 * q\<bar> \<le> 1 / (2 * 10 ^ decimals))"
  by (rule percent_bounds)

theorem percent_range_witness:
  "percent (Fin (1 / 3)) 1 = Fin (333 / 10) \<and> (\<exists>p. percent NaN 1 = Fin p \<and> 0 \<le> p \<and> p \<le> 100)"
proof -
  have "\<lfloor>2003 / 6 :: rat\<rfloor> = 333" by (simp add: floor_eq_iff)
  then show ?thesis using percent_range [of NaN 1] by (auto simp: percent_def)
qed

text \<open>
  \<open>hex2hsl\<close> yields a hue of 0 to 360 degrees and a saturation and lightness of 0 to 100 percent for every
  string, a valid colour or not.
\<close>

theorem hex2hsl_range:
  assumes "0 \<le> random" "random < 1"
  shows "0 \<le> hsl_h (hex2hsl random hex) \<and> hsl_h (hex2hsl random hex) \<le> 360
    \<and> 0 \<le> hsl_s (hex2hsl random hex) \<and> hsl_s (hex2hsl random hex) \<le> 100
    \<and> 0 \<le> hsl_l (hex2hsl random hex) \<and> hsl_l (hex2hsl random hex) \<le> 100"
proof -
  define t where "t = (case parse_hex hex of
            None \<Rightarrow> (of_int (round_rat (random * 6)), 1 / 2, 1 / 2)
          | Some (r, g, b) \<Rightarrow> hsl_of_rgb (of_nat r / 255) (of_nat g / 255) (of_nat b / 255))"
  obtain h s l where hsl: "t = (h, s, l)" by (cases t)
  have "0 \<le> h \<and> h \<le> 6 \<and> 0 \<le> s \<and> s \<le> 1 \<and> 0 \<le> l \<and> l \<le> 1"
  proof (cases "parse_hex hex")
    case None
    with assms hsl round_rat_bounds [of 0 "random * 6" 6] show ?thesis by (simp add: t_def)
  next
    case (Some rgb)
    then obtain r g b where "parse_hex hex = Some (r, g, b)" by (cases rgb) auto
    with parse_hex_less [OF this] hsl show ?thesis
      by (intro hsl_of_rgb_bounds [of "of_nat r / 255" "of_nat g / 255" "of_nat b / 255"]) (auto simp: t_def)
  qed
  then show ?thesis
    using round_rat_bounds [of 0 "360 * h / 6" 360] round_rat_bounds [of 0 "s * 100" 100]
      round_rat_bounds [of 0 "l * 100" 100] hsl
    by (simp add: hex2hsl_def t_def)
qed

theorem hex2hsl_range_witness:
  "hsl_h (hex2hsl 0 ''#00ff80'') \<le> 360 \<and> hsl_l (hex2hsl (1 / 2) ''nocolor'') \<le> 100"
  using hex2hsl_range [of 0 "''#00ff80''"] hex2hsl_range [of "1 / 2" "''nocolor''"] by simp

end
