(* ===== verification/Error_Handler.thy ===== *)
theory Error_Handler
  imports Data_Util String_Util
begin

text \<open>
  \<^verbatim>\<open>ErrorHandler.ts\<close>, \<^verbatim>\<open>Analytics.ts\<close> and \<^verbatim>\<open>utils/Logger.ts\<close>.  Errors are dynamic objects, as in the code,
  where the handler spreads and tests them by key.  What the handler does to its surroundings (the history,
  the notifications, the console, the analytics library) is recorded in the state \<open>App\<close>.  The test
  \<open>axios.isCancel\<close> of the HTTP package is the argument \<open>isCancel\<close>.
\<close>

section \<open>The surroundings\<close>

record App =
  app_pathname :: string \<comment> \<open>\<open>window.location.pathname\<close>\<close>
  app_location :: js \<comment> \<open>\<open>window.location\<close>\<close>
  app_history :: "(string \<times> js) list" \<comment> \<open>\<open>history.push\<close>: path and state\<close>
  app_notifications :: "(string \<times> js \<times> string) list" \<comment> \<open>kind, description, message\<close>
  app_console :: "(js \<times> string \<times> js) list" \<comment> \<open>logger, level, message\<close>
  app_window_analytics :: js \<comment> \<open>\<open>window.analytics\<close>\<close>
  app_analytics :: "js option" \<comment> \<open>\<open>data.analytics\<close>\<close>
  app_isEnabled :: bool \<comment> \<open>\<open>data.isEnabled\<close>\<close>
  app_segment :: "(string \<times> js list) list" \<comment> \<open>calls of the analytics library\<close>

text \<open>Reading a property of an object; a template literal, which the code applies to strings and integers.\<close>

definition get_prop :: "js \<Rightarrow> string \<Rightarrow> js" where
  "get_prop obj k = (case js_get obj k of Inr v \<Rightarrow> v | Inl _ \<Rightarrow> Undefined)"

fun js_str :: "js \<Rightarrow> string" where
  "js_str (Str s) = s"
| "js_str Undefined = ''undefined''"
| "js_str Null = ''null''"
| "js_str (Bool b) = (if b then ''true'' else ''false'')"
| "js_str (Num (Fin q)) = show_int \<lfloor>q\<rfloor>"
| "js_str (Num NaN) = ''NaN''"
| "js_str (Num PInf) = ''Infinity''"
| "js_str (Num NInf) = ''-Infinity''"
| "js_str _ = ''[object Object]''"

fun str_opt :: "js \<Rightarrow> string option" where
  "str_opt (Str s) = Some s"
| "str_opt _ = None"

text \<open>\<open>{ ...a, ...b }\<close>.\<close>

definition merge :: "js \<Rightarrow> js \<Rightarrow> js" where
  "merge a b = Obj (fold (\<lambda>(k, v). obj_put k v) (spread b) (spread a))"

section \<open>Logger\<close>

definition logWithLevel :: "js \<Rightarrow> string \<Rightarrow> js \<Rightarrow> App \<Rightarrow> App" where
  "logWithLevel logger level msg w = w\<lparr>app_console := app_console w @ [(logger, level, msg)]\<rparr>"

definition logger_error :: "js \<Rightarrow> js \<Rightarrow> App \<Rightarrow> App" where
  "logger_error logger msg w = logWithLevel logger ''error'' msg w"

definition logger_warn :: "js \<Rightarrow> js \<Rightarrow> App \<Rightarrow> App" where
  "logger_warn logger msg w = logWithLevel logger ''warn'' msg w"

section \<open>Analytics\<close>

definition getReadyAnalytics :: "App \<Rightarrow> js option \<times> App" where
  "getReadyAnalytics w = (case app_analytics w of
      Some a \<Rightarrow> (Some a, w)
    | None \<Rightarrow>
        (let analytics = app_window_analytics w in
         if truthy analytics then
           (let keys = obj_keys (spread analytics);
                methods = (case get_prop analytics ''methods'' of Arr ms \<Rightarrow> map js_str ms | _ \<Rightarrow> [])
                  @ [''identify'', ''load'', ''page''];
                missingMethods = list_ex (\<lambda>method. method \<notin> set keys) methods
            in if \<not> missingMethods then (Some analytics, w\<lparr>app_analytics := Some analytics\<rparr>) else (None, w))
         else (None, w)))"

definition getAnalytics :: "App \<Rightarrow> js option" where
  "getAnalytics w = (if app_analytics w \<noteq> None \<and> app_isEnabled w then app_analytics w else None)"

definition segment_call :: "string \<Rightarrow> js list \<Rightarrow> App \<Rightarrow> App" where
  "segment_call name args w = w\<lparr>app_segment := app_segment w @ [(name, args)]\<rparr>"

definition recordPageAccess :: "string \<Rightarrow> App \<Rightarrow> App" where
  "recordPageAccess pathname w =
     (if app_analytics w \<noteq> None \<and> app_isEnabled w then segment_call ''page'' [Str pathname] w else w)"

section \<open>The handler\<close>

datatype ErrorLevel = ErrorLevel_Fatal | ErrorLevel_Error | ErrorLevel_Warn

fun str_ErrorLevel :: "ErrorLevel \<Rightarrow> string" where
  "str_ErrorLevel ErrorLevel_Fatal = ''fatal''"
| "str_ErrorLevel ErrorLevel_Error = ''error''"
| "str_ErrorLevel ErrorLevel_Warn = ''warning''"

datatype ErrorType =
    ErrorType_Server
  | ErrorType_Auth
  | ErrorType_Unknown
  | ErrorType_Ui
  | ErrorType_Input
  | ErrorType_ApiBadResponse
  | ErrorType_Api

fun str_ErrorType :: "ErrorType \<Rightarrow> string" where
  "str_ErrorType ErrorType_Server = ''server''"
| "str_ErrorType ErrorType_Auth = ''auth''"
| "str_ErrorType ErrorType_Unknown = ''unknown''"
| "str_ErrorType ErrorType_Ui = ''ui''"
| "str_ErrorType ErrorType_Input = ''input''"
| "str_ErrorType ErrorType_ApiBadResponse = ''apiBadResponse''"
| "str_ErrorType ErrorType_Api = ''api''"

abbreviation js_level :: "ErrorLevel \<Rightarrow> js" where
  "js_level l \<equiv> Str (str_ErrorLevel l)"

abbreviation js_type :: "ErrorType \<Rightarrow> js" where
  "js_type t \<equiv> Str (str_ErrorType t)"

definition isDaError :: "js \<Rightarrow> bool" where
  "isDaError e =
     (if \<not> truthy e \<or> typeof e \<noteq> ''object'' then False
      else let keys = obj_keys (spread e)
           in find (\<lambda>reqKey. reqKey \<notin> set keys) [''level'', ''type'', ''silent''] = None)"

definition logger_EH :: js where
  "logger_EH = Obj [(''namespace'', Str ''EH'')]"

definition openNotification :: "js \<Rightarrow> App \<Rightarrow> App" where
  "openNotification e w =
     (let description = get_prop e ''publicMessage'';
          message = (if truthy (get_prop e ''publicSubject'') then js_str (get_prop e ''publicSubject'')
                     else listToStr [str_opt (get_prop e ''type''), str_opt (get_prop e ''level'')] '' '');
          note = (\<lambda>kind. w\<lparr>app_notifications := app_notifications w @ [(kind, description, message)]\<rparr>)
      in if get_prop e ''level'' = js_level ErrorLevel_Fatal \<or> get_prop e ''level'' = js_level ErrorLevel_Error
         then note ''error''
         else if get_prop e ''level'' = js_level ErrorLevel_Warn then note ''warn'' else w)"

definition defaultErrorParameters :: js where
  "defaultErrorParameters = Obj [(''level'', js_level ErrorLevel_Error), (''silent'', Bool False)]"

definition log_error :: "js \<Rightarrow> App \<Rightarrow> App" where
  "log_error e w =
     (let msg = Str (listToStr [Some (js_str (get_prop e ''type'') @ '':''), str_opt (get_prop e ''publicMessage''),
            str_opt (get_prop e ''message'')] '' '');
          targetLogger = js_or (get_prop e ''logger'') logger_EH
      in if get_prop e ''level'' = js_level ErrorLevel_Fatal \<or> get_prop e ''level'' = js_level ErrorLevel_Error then
           (let w = logger_error targetLogger msg w
            in if truthy (get_prop e ''error'') then logger_error targetLogger (get_prop e ''error'') w else w)
         else if get_prop e ''level'' = js_level ErrorLevel_Warn then
           (let w = logger_warn targetLogger msg w
            in if truthy (get_prop e ''error'') then logger_warn targetLogger (get_prop e ''error'') w else w)
         else w)"

definition handleError :: "(js \<Rightarrow> bool) \<Rightarrow> js \<Rightarrow> App \<Rightarrow> js \<times> App" where
  "handleError isCancel e w =
     (let e = merge defaultErrorParameters e in
      if isCancel e then (e, w)
      else if get_prop e ''type'' = js_type ErrorType_Auth then
        (e, if \<not> suffix ''login'' (app_pathname w)
            then w\<lparr>app_history := app_history w @ [(''/logout'',
                Obj [(''loginRedirect'', case clone (app_location w) True of Inr l \<Rightarrow> l | Inl _ \<Rightarrow> Undefined)])]\<rparr>
            else w)
      else
        (let skipNotification = (truthy (get_prop e ''silent'')
               \<or> get_prop e ''level'' = js_level ErrorLevel_Warn \<and> \<not> truthy (get_prop e ''publicMessage''));
             w = (if \<not> skipNotification then openNotification e w else w);
             w = (if \<not> truthy (get_prop e ''silent'') then log_error e w else w);
             w = (if getAnalytics w \<noteq> None
                  then segment_call ''track'' [Str (''EH:'' @ js_str (get_prop e ''level'')), e] w else w)
         in (e, w)))"

text \<open>\<open>func\<close> as the outcome of its call: the thrown error or the result.\<close>

definition handleErrorForFn ::
  "(js \<Rightarrow> bool) \<Rightarrow> js \<Rightarrow> (App \<Rightarrow> (js + js) \<times> App) \<Rightarrow> App \<Rightarrow> js \<times> App" where
  "handleErrorForFn isCancel daError func w = (case func w of
      (Inr v, w) \<Rightarrow> (v, w)
    | (Inl e, w) \<Rightarrow>
        handleError isCancel (merge daError (Obj [(''error'', js_or (get_prop daError ''error'') e)])) w)"

text \<open>\<open>/^[a-z0-9]{32}$/i\<close>.\<close>

definition proper_key :: "string \<Rightarrow> bool" where
  "proper_key k = (length k = 32 \<and> list_all (\<lambda>c. is_lower c \<or> is_upper c \<or> is_digit c) k)"

text \<open>\<open>setupAnalytics\<close>; the outcome of the request \<open>getTelemetry\<close> is an argument.\<close>

definition setupAnalytics :: "(js \<Rightarrow> bool) \<Rightarrow> (js + Telemetry) \<Rightarrow> DeterminedInfo \<Rightarrow> App \<Rightarrow> App" where
  "setupAnalytics isCancel telemetryResult info w =
     (let w = (if app_analytics w = None
               then (case getReadyAnalytics w of (a, w) \<Rightarrow> w\<lparr>app_analytics := a\<rparr>) else w) in
      if app_analytics w = None \<or> app_isEnabled w then w
      else if info_isTelemetryEnabled info then
        (case telemetryResult of
          Inr telemetry \<Rightarrow>
            (case tel_segmentKey telemetry of
              Some k \<Rightarrow>
                if k \<noteq> '''' \<and> proper_key k then
                  (segment_call ''identify'' [Str (info_clusterId info)] (segment_call ''load'' [Str k] w))
                    \<lparr>app_isEnabled := True\<rparr>
                else w
            | None \<Rightarrow> w)
        | Inl e \<Rightarrow> snd (handleError isCancel (Obj [
            (''error'', e),
            (''level'', js_level ErrorLevel_Error),
            (''message'', get_prop e ''message''),
            (''publicMessage'', Str ''Failed to get telemetry info''),
            (''silent'', Bool True),
            (''type'', js_type ErrorType_Server)]) w))
      else w)"

section \<open>Lemmas\<close>

lemma map_of_fold_put:
  "distinct (map fst qs) \<Longrightarrow>
   map_of (fold (\<lambda>(k, v). obj_put k v) qs ps) k = (case map_of qs k of Some v \<Rightarrow> Some v | None \<Rightarrow> map_of ps k)"
proof (induction qs arbitrary: ps)
  case (Cons q qs)
  obtain a b where q: "q = (a, b)" by (cases q)
  from Cons.prems q have "map_of qs a = None" by (auto simp: map_of_eq_None_iff)
  with Cons q show ?case by (auto split: option.splits)
qed simp

lemma get_prop_merge:
  "distinct (map fst ps) \<Longrightarrow>
   get_prop (merge a (Obj ps)) k = (case map_of ps k of Some v \<Rightarrow> v | None \<Rightarrow> get_prop (Obj (spread a)) k)"
  by (simp add: get_prop_def merge_def map_of_fold_put split: option.splits)

lemma app_unchanged [simp]:
  "app_history (openNotification e w) = app_history w"
  "app_console (openNotification e w) = app_console w"
  "app_segment (openNotification e w) = app_segment w"
  "getAnalytics (openNotification e w) = getAnalytics w"
  "app_history (log_error e w) = app_history w"
  "app_notifications (log_error e w) = app_notifications w"
  "app_segment (log_error e w) = app_segment w"
  "getAnalytics (log_error e w) = getAnalytics w"
  "app_history (segment_call n as w) = app_history w"
  "app_notifications (segment_call n as w) = app_notifications w"
  "app_console (segment_call n as w) = app_console w"
  by (simp_all add: openNotification_def log_error_def logger_error_def logger_warn_def logWithLevel_def
      segment_call_def getAnalytics_def Let_def)

lemma log_error_console:
  "get_prop e ''level'' \<in> js_level ` {ErrorLevel_Fatal, ErrorLevel_Error, ErrorLevel_Warn} \<Longrightarrow>
   \<exists>logs. logs \<noteq> [] \<and> app_console (log_error e w) = app_console w @ logs"
  by (auto simp: log_error_def logger_error_def logger_warn_def logWithLevel_def Let_def)

lemma openNotification_one:
  "get_prop e ''level'' \<in> js_level ` {ErrorLevel_Fatal, ErrorLevel_Error, ErrorLevel_Warn} \<Longrightarrow>
   \<exists>n. app_notifications (openNotification e w) = app_notifications w @ [n]"
  by (auto simp: openNotification_def Let_def)

section \<open>Properties\<close>

text \<open>
  what the error handler does.  It returns the error completed with the default level and silence.  A
  cancelled request has no effect.  An authentication error sends the user to \<open>/logout\<close>, unless the login page
  is open, and does nothing else.  A silent error is neither shown nor logged.  Any other error of a known
  level is logged, and shown in exactly one notification unless it is a warning without a public message.
  Every error that is neither cancelled nor an authentication failure is reported to analytics exactly when
  these are enabled.
\<close>

theorem handle_error:
  fixes isCancel e w
  defines "e' \<equiv> merge defaultErrorParameters e"
    and "w' \<equiv> snd (handleError isCancel e w)"
  shows "fst (handleError isCancel e w) = e'
    \<and> (isCancel e' \<longrightarrow> w' = w)
    \<and> (\<not> isCancel e' \<and> get_prop e' ''type'' = js_type ErrorType_Auth \<longrightarrow>
        w' = w\<lparr>app_history := app_history w'\<rparr>
        \<and> (app_history w' = app_history w \<longleftrightarrow> suffix ''login'' (app_pathname w))
        \<and> (\<not> suffix ''login'' (app_pathname w) \<longrightarrow>
             (\<exists>st. app_history w' = app_history w @ [(''/logout'', st)])))
    \<and> (\<not> isCancel e' \<and> get_prop e' ''type'' \<noteq> js_type ErrorType_Auth \<longrightarrow>
        app_history w' = app_history w
        \<and> app_segment w' = (if getAnalytics w = None then app_segment w
             else app_segment w @ [(''track'', [Str (''EH:'' @ js_str (get_prop e' ''level'')), e'])])
        \<and> (truthy (get_prop e' ''silent'') \<longrightarrow>
             app_notifications w' = app_notifications w \<and> app_console w' = app_console w)
        \<and> (\<not> truthy (get_prop e' ''silent'')
             \<and> get_prop e' ''level'' \<in> js_level ` {ErrorLevel_Fatal, ErrorLevel_Error, ErrorLevel_Warn} \<longrightarrow>
             (\<exists>logs. logs \<noteq> [] \<and> app_console w' = app_console w @ logs)
             \<and> (if get_prop e' ''level'' = js_level ErrorLevel_Warn \<and> \<not> truthy (get_prop e' ''publicMessage'')
                then app_notifications w' = app_notifications w
                else \<exists>n. app_notifications w' = app_notifications w @ [n])))"
proof -
  note defs = handleError_def Let_def e'_def [symmetric]
  show ?thesis
    unfolding w'_def
    using log_error_console [of e' "openNotification e' w"] log_error_console [of e' w]
      openNotification_one [of e' w]
    by (cases "isCancel e'"; cases "get_prop e' ''type'' = js_type ErrorType_Auth"; cases "truthy (get_prop e' ''silent'')")
       (simp_all add: defs, simp_all add: segment_call_def)
qed

theorem handle_error_witness:
  "let w = \<lparr>app_pathname = ''/det/dashboard'', app_location = Null, app_history = [], app_notifications = [],
        app_console = [], app_window_analytics = Undefined, app_analytics = None, app_isEnabled = False,
        app_segment = []\<rparr>;
      w1 = snd (handleError (\<lambda>_. False) (Obj [(''message'', Str ''m''), (''type'', js_type ErrorType_Auth)]) w);
      w2 = snd (handleError (\<lambda>_. False) (Obj [(''message'', Str ''m''), (''type'', js_type ErrorType_Server)]) w)
   in (\<exists>st. app_history w1 = [(''/logout'', st)]) \<and> (\<exists>n. app_notifications w2 = [n])"
proof -
  let ?w = "\<lparr>app_pathname = ''/det/dashboard'', app_location = Null, app_history = [], app_notifications = [],
        app_console = [], app_window_analytics = Undefined, app_analytics = None, app_isEnabled = False,
        app_segment = []\<rparr>"
  let ?e = "\<lambda>t. Obj [(''message'', Str ''m''), (''type'', js_type t)]"
  have props: "get_prop (merge defaultErrorParameters (?e t)) ''type'' = js_type t"
    "get_prop (merge defaultErrorParameters (?e t)) ''silent'' = Bool False"
    "get_prop (merge defaultErrorParameters (?e t)) ''level'' = js_level ErrorLevel_Error" for t
    by (simp_all add: get_prop_merge, simp_all add: get_prop_def defaultErrorParameters_def)
  have "\<not> suffix ''login'' ''/det/dashboard''" by (simp add: suffix_def)
  with handle_error [of "\<lambda>_. False" "?e ErrorType_Auth" ?w] handle_error [of "\<lambda>_. False" "?e ErrorType_Server" ?w]
  show ?thesis
    by (simp add: props [of ErrorType_Auth, simplified] props [of ErrorType_Server, simplified] Let_def)
qed

end
