(* ===== verification/Trial_Util.thy ===== *)
theory Trial_Util
  imports Types_Util Error_Handler
begin

text \<open>
  \<^verbatim>\<open>utils/trial.ts\<close> and \<^verbatim>\<open>utils/time.ts\<close>: metric names and values of a trial's workloads, their encoding in
  the metric selector, and the time a trial spent on each kind of workload.  \<open>now\<close> is the time of
  \<open>new Date()\<close> and \<open>time_of\<close> the time of a date string, in milliseconds.
\<close>

section \<open>Metric names\<close>

definition metrics_of :: "MetricsWorkload option \<Rightarrow> (string \<times> number) list option" where
  "metrics_of wl = (case wl of None \<Rightarrow> None | Some w \<Rightarrow> field_value (mw_metrics w))"

definition collect_names :: "(WorkloadWrapper \<Rightarrow> MetricsWorkload option) \<Rightarrow> WorkloadWrapper list \<Rightarrow> string list" where
  "collect_names sel workloads =
     foldl (\<lambda>acc cur. fold set_add (obj_keys (the (metrics_of (sel cur)))) acc) []
       (filter (\<lambda>wl. metrics_of (sel wl) \<noteq> None) workloads)"

definition extractMetricNames :: "(string \<Rightarrow> string \<Rightarrow> int) \<Rightarrow> WorkloadWrapper list \<Rightarrow> MetricName list" where
  "extractMetricNames lc workloads =
     (let trainingNames = collect_names ww_training workloads;
          trainingMetrics = map (\<lambda>name. \<lparr>mn_name = name, mn_type = MetricType_Training\<rparr>) trainingNames;
          validationNames = collect_names ww_validation workloads;
          validationMetrics = map (\<lambda>name. \<lparr>mn_name = name, mn_type = MetricType_Validation\<rparr>) validationNames
      in js_sort (metricNameSorter lc) (validationMetrics @ trainingMetrics))"

definition metricNameToValue :: "MetricName \<Rightarrow> string" where
  "metricNameToValue metricName = str_MetricType (mn_type metricName) @ ''|'' @ mn_name metricName"

definition extractMetricValue :: "WorkloadWrapper \<Rightarrow> MetricName \<Rightarrow> number option" where
  "extractMetricValue wl metricName =
     (let source = (case (if mn_type metricName = MetricType_Training
              then metrics_of (ww_training wl) else metrics_of (ww_validation wl)) of
            Some ms \<Rightarrow> ms | None \<Rightarrow> [])
      in map_of source (mn_name metricName))"

definition trainingPrefix :: string where
  "trainingPrefix = str_MetricType MetricType_Training @ ''|''"

definition validationPrefix :: string where
  "validationPrefix = str_MetricType MetricType_Validation @ ''|''"

text \<open>The error that an unrecognised value raises; \<open>isDev\<close> is \<open>process.env.IS_DEV\<close>.\<close>

definition newline :: string where
  "newline = [char_of (10 :: nat)]"

definition metric_type_error :: "bool \<Rightarrow> string \<Rightarrow> js" where
  "metric_type_error isDev metricValue =
     (let errMessage = newline
        @ ''      metricNameFromValue was called, but the metricName doesn'' @ [char_of (39 :: nat)]
        @ ''t appear to '' @ newline
        @ ''      be a training metric or a validation metric ('' @ metricValue @ '')'' @ newline @ ''    ''
      in Obj [
        (''error'', Obj [(''message'', Str errMessage), (''name'', Str ''metricNameFromValueUnrecognizedMetricType'')]),
        (''id'', Str ''metricnamefromvalue-unrecognized-metric-type''),
        (''isUserTriggered'', Bool False),
        (''level'', js_level ErrorLevel_Error),
        (''message'', Str errMessage),
        (''silent'', Bool (\<not> isDev)),
        (''type'', js_type ErrorType_Ui)])"

definition metricNameFromValue :: "(js \<Rightarrow> bool) \<Rightarrow> bool \<Rightarrow> string \<Rightarrow> App \<Rightarrow> MetricName option \<times> App" where
  "metricNameFromValue isCancel isDev metricValue w =
     (if prefix trainingPrefix metricValue then
        (Some \<lparr>mn_name = drop (length trainingPrefix) metricValue, mn_type = MetricType_Training\<rparr>, w)
      else if prefix validationPrefix metricValue then
        (Some \<lparr>mn_name = drop (length validationPrefix) metricValue, mn_type = MetricType_Validation\<rparr>, w)
      else (None, snd (handleError isCancel (metric_type_error isDev metricValue) w)))"

text \<open>\<open>valueToMetricName\<close> casts whatever stands before the bar to a metric type.\<close>

definition valueToMetricName :: "string \<Rightarrow> (string \<times> string) option" where
  "valueToMetricName value =
     (let parts = js_split ''|'' value
      in if length parts = 2 then Some (parts ! 1, parts ! 0) else None)"

section \<open>Durations\<close>

definition getDuration :: "(string \<Rightarrow> number) \<Rightarrow> number \<Rightarrow> string option \<Rightarrow> string \<Rightarrow> number" where
  "getDuration time_of now end_time start_time =
     (let endTime = (case end_time of Some t \<Rightarrow> if t \<noteq> '''' then time_of t else now | None \<Rightarrow> now)
      in num_sub endTime (time_of start_time))"

record TrialDurations =
  td_checkpoint :: number
  td_train :: number
  td_validation :: number

definition trialDurations :: "(string \<Rightarrow> number) \<Rightarrow> number \<Rightarrow> WorkloadWrapper list \<Rightarrow> TrialDurations" where
  "trialDurations time_of now wlWrappers =
     foldl (\<lambda>acc cur.
       (let acc = (case ww_training cur of
              Some t \<Rightarrow> acc\<lparr>td_train := num_add (td_train acc) (getDuration time_of now (t_endTime t) (t_startTime t))\<rparr>
            | None \<Rightarrow> acc);
            acc = (case ww_checkpoint cur of
              Some c \<Rightarrow> acc\<lparr>td_checkpoint := num_add (td_checkpoint acc) (getDuration time_of now (t_endTime c) (t_startTime c))\<rparr>
            | None \<Rightarrow> acc)
        in (case ww_validation cur of
              Some v \<Rightarrow> acc\<lparr>td_validation := num_add (td_validation acc) (getDuration time_of now (t_endTime v) (t_startTime v))\<rparr>
            | None \<Rightarrow> acc)))
       \<lparr>td_checkpoint = Fin 0, td_train = Fin 0, td_validation = Fin 0\<rparr> wlWrappers"

section \<open>Lemmas\<close>

definition has_metric :: "(WorkloadWrapper \<Rightarrow> MetricsWorkload option) \<Rightarrow> WorkloadWrapper list \<Rightarrow> string \<Rightarrow> bool" where
  "has_metric sel workloads name =
     list_ex (\<lambda>wl. case metrics_of (sel wl) of None \<Rightarrow> False | Some ms \<Rightarrow> name \<in> set (obj_keys ms)) workloads"

lemma set_collect:
  "set (foldl (\<lambda>acc cur. fold set_add (f cur) acc) acc ws) = set acc \<union> (\<Union>w \<in> set ws. set (f w))"
  by (induction ws arbitrary: acc) auto

lemma distinct_collect:
  "distinct acc \<Longrightarrow> distinct (foldl (\<lambda>acc cur. fold set_add (f cur) acc) acc ws)"
  by (induction ws arbitrary: acc) auto

lemma collect_names_iff: "name \<in> set (collect_names sel workloads) \<longleftrightarrow> has_metric sel workloads name"
  by (auto simp: collect_names_def set_collect has_metric_def list_ex_iff split: option.splits)

lemma distinct_collect_names: "distinct (collect_names sel workloads)"
  by (simp add: collect_names_def distinct_collect)

section \<open>Properties\<close>

text \<open>
  \<open>extractMetricNames\<close> lists each training and each validation metric that occurs in the workloads
  exactly once, validation metrics first, each kind in the order of the locale comparison.
\<close>

theorem extract_metric_names:
  assumes "comparator lc"
  shows "distinct (extractMetricNames lc workloads)
    \<and> (\<forall>name. \<lparr>mn_name = name, mn_type = MetricType_Training\<rparr> \<in> set (extractMetricNames lc workloads)
         \<longleftrightarrow> has_metric ww_training workloads name)
    \<and> (\<forall>name. \<lparr>mn_name = name, mn_type = MetricType_Validation\<rparr> \<in> set (extractMetricNames lc workloads)
         \<longleftrightarrow> has_metric ww_validation workloads name)
    \<and> sorted_wrt (\<lambda>a b. (mn_type a = MetricType_Validation \<and> mn_type b = MetricType_Training)
        \<or> (mn_type a = mn_type b \<and> lc (mn_name a) (mn_name b) \<le> 0)) (extractMetricNames lc workloads)"
proof -
  have "sorted_wrt (\<lambda>a b. metricNameSorter lc a b \<le> 0) (extractMetricNames lc workloads)"
    by (simp add: extractMetricNames_def Let_def comparator.sorted_js_sort [OF comparator_metricNameSorter [OF assms]])
  moreover have "distinct (extractMetricNames lc workloads)"
    by (auto simp: extractMetricNames_def Let_def distinct_map distinct_collect_names inj_on_def)
  ultimately show ?thesis
    by (auto simp: extractMetricNames_def Let_def collect_names_iff metricNameSorter_le_iff)
qed

theorem extract_metric_names_witness:
  "let wl = \<lparr>t_endTime = None, t_startTime = '''', wl_numBatches = 1, wl_priorBatchesProcessed = 0,
        mw_metrics = Given (Some [(''loss'', Fin 1)]), mw_numInputs = Absent, mw_state = RunState_Active\<rparr>;
       ws = [\<lparr>ww_checkpoint = None, ww_training = Some wl, ww_validation = None\<rparr>]
   in \<lparr>mn_name = ''loss'', mn_type = MetricType_Training\<rparr>
        \<in> set (extractMetricNames (\<lambda>a b. int (length a) - int (length b)) ws)"
  using extract_metric_names [OF comparator_rank [of "\<lambda>s. int (length s)"]]
  by (simp add: has_metric_def metrics_of_def obj_keys_def)

text \<open>
  the selector value of a metric determines the metric: \<open>metricNameFromValue\<close> undoes \<open>metricNameToValue\<close>
  without raising an error, distinct metrics have distinct values, and \<open>valueToMetricName\<close> undoes it as well
  exactly when the name contains no bar.
\<close>

theorem metric_value_round_trip:
  "metricNameFromValue isCancel isDev (metricNameToValue m) w = (Some m, w)
   \<and> (metricNameToValue m = metricNameToValue m' \<longleftrightarrow> m = m')
   \<and> (valueToMetricName (metricNameToValue m) = Some (mn_name m, str_MetricType (mn_type m))
        \<longleftrightarrow> CHR ''|'' \<notin> set (mn_name m))"
proof -
  have inv: "metricNameFromValue isCancel isDev (metricNameToValue m) w = (Some m, w)" for m
    by (cases m; cases "mn_type m")
       (simp_all add: metricNameFromValue_def metricNameToValue_def trainingPrefix_def validationPrefix_def)
  have parts: "js_split ''|'' (metricNameToValue m) = str_MetricType (mn_type m) # js_split ''|'' (mn_name m)"
    by (cases "mn_type m") (simp_all add: metricNameToValue_def js_split_sep [of "CHR ''|''" "''training''", simplified]
        js_split_sep [of "CHR ''|''" "''validation''", simplified])
  have "js_split ''|'' (mn_name m) = [mn_name m] \<longleftrightarrow> CHR ''|'' \<notin> set (mn_name m)"
  proof
    assume single: "js_split ''|'' (mn_name m) = [mn_name m]"
    show "CHR ''|'' \<notin> set (mn_name m)"
    proof
      assume "CHR ''|'' \<in> set (mn_name m)"
      then obtain a b where "mn_name m = a @ CHR ''|'' # b" "CHR ''|'' \<notin> set a" by (meson split_list_first)
      then have "js_split ''|'' (mn_name m) = a # js_split ''|'' b" by (simp add: js_split_sep)
      moreover have "js_split ''|'' b \<noteq> []" by (simp add: js_split_def)
      ultimately show False using single by simp
    qed
  qed (simp add: js_split_end)
  moreover have "(let parts = t # L in if length parts = 2 then Some (parts ! 1, parts ! 0) else None) = Some (n, t)
      \<longleftrightarrow> L = [n]" for L :: "string list" and t n
    by (cases L; cases "tl L") simp_all
  ultimately have "valueToMetricName (metricNameToValue m) = Some (mn_name m, str_MetricType (mn_type m))
        \<longleftrightarrow> CHR ''|'' \<notin> set (mn_name m)"
    by (simp only: valueToMetricName_def parts)
  moreover have "metricNameToValue m = metricNameToValue m' \<Longrightarrow> m = m'"
    using inv [of m] inv [of m'] by (metis fst_conv option.inject)
  ultimately show ?thesis using inv [of m] by blast
qed

end
