(* ===== verification/Io_Types.thy ===== *)
theory Io_Types
  imports Error_Handler
begin

text \<open>
  \<^verbatim>\<open>ioTypes.ts\<close>: the codecs that validate what the server sends, and \<open>decode\<close>, which turns a failed validation
  into an error of type \<open>apiBadResponse\<close>.

  The codecs are values of the package \<open>io-ts\<close>; the datatype \<open>codec\<close> has one constructor for each combinator the
  file uses.  The package's own \<open>decode\<close> method is an argument \<open>dec\<close>; the locale \<open>io_ts\<close> states what its documentation
  promises: a value that conforms to the codec is returned, stripped only by \<open>exact\<close>, any other value is refused.
  \<open>io_decode\<close> is an implementation of that contract.
\<close>

section \<open>Codecs\<close>

datatype codec =
    CNull
  | CUndefined
  | CString
  | CNumber
  | CBoolean
  | CAny
  | CUnknown
  | CKeyof "string list"
  | CType "(string \<times> codec) list"
  | CPartial "(string \<times> codec) list"
  | CArray codec
  | CRecord codec
  | CUnion "codec list"
  | CExact codec

text \<open>The value of a property as the codecs of objects read it.\<close>

definition own :: "(string \<times> js) list \<Rightarrow> string \<Rightarrow> js" where
  "own ps k = (case map_of ps k of Some v \<Rightarrow> v | None \<Rightarrow> Undefined)"

fun conforms :: "codec \<Rightarrow> js \<Rightarrow> bool" where
  "conforms CNull v = (v = Null)"
| "conforms CUndefined v = (v = Undefined)"
| "conforms CString v = (case v of Str _ \<Rightarrow> True | _ \<Rightarrow> False)"
| "conforms CNumber v = (case v of Num _ \<Rightarrow> True | _ \<Rightarrow> False)"
| "conforms CBoolean v = (case v of Bool _ \<Rightarrow> True | _ \<Rightarrow> False)"
| "conforms CAny v = True"
| "conforms CUnknown v = True"
| "conforms (CKeyof ks) v = (case v of Str s \<Rightarrow> s \<in> set ks | _ \<Rightarrow> False)"
| "conforms (CType fs) v = (case v of Obj ps \<Rightarrow> list_all (\<lambda>(k, c). conforms c (own ps k)) fs | _ \<Rightarrow> False)"
| "conforms (CPartial fs) v =
     (case v of Obj ps \<Rightarrow> list_all (\<lambda>(k, c). own ps k = Undefined \<or> conforms c (own ps k)) fs | _ \<Rightarrow> False)"
| "conforms (CArray c) v = (case v of Arr xs \<Rightarrow> list_all (conforms c) xs | _ \<Rightarrow> False)"
| "conforms (CRecord c) v = (case v of Obj ps \<Rightarrow> list_all (\<lambda>(k, x). conforms c x) ps | _ \<Rightarrow> False)"
| "conforms (CUnion cs) v = list_ex (\<lambda>c. conforms c v) cs"
| "conforms (CExact c) v = conforms c v"

fun exact_free :: "codec \<Rightarrow> bool" where
  "exact_free (CType fs) = list_all (\<lambda>(k, c). exact_free c) fs"
| "exact_free (CPartial fs) = list_all (\<lambda>(k, c). exact_free c) fs"
| "exact_free (CArray c) = exact_free c"
| "exact_free (CRecord c) = exact_free c"
| "exact_free (CUnion cs) = list_all exact_free cs"
| "exact_free (CExact c) = False"
| "exact_free _ = True"

section \<open>decode\<close>

definition bad_response :: "js \<Rightarrow> js" where
  "bad_response e = Obj [(''error'', e), (''level'', js_level ErrorLevel_Fatal), (''silent'', Bool False),
     (''type'', js_type ErrorType_ApiBadResponse)]"

definition decode :: "(codec \<Rightarrow> js \<Rightarrow> js + js) \<Rightarrow> codec \<Rightarrow> js \<Rightarrow> js + js" where
  "decode dec type data = (case dec type data of
      Inl left \<Rightarrow> Inl (bad_response left)
    | Inr right \<Rightarrow> Inr right)"

definition ioNullOrUndefined :: codec where
  "ioNullOrUndefined = CUnion [CNull, CUndefined]"

definition optional :: "codec \<Rightarrow> codec" where
  "optional x = CUnion [x, ioNullOrUndefined]"

section \<open>User\<close>

definition ioDetailedUser :: codec where
  "ioDetailedUser = CType [
     (''active'', CBoolean),
     (''admin'', CBoolean),
     (''id'', CNumber),
     (''username'', CString)]"

definition ioDetailedUsers :: codec where
  "ioDetailedUsers = CArray ioDetailedUser"

definition ioLogin :: codec where
  "ioLogin = CType [(''token'', CString)]"

section \<open>Info\<close>

definition ioDeterminedInfo :: codec where
  "ioDeterminedInfo = CType [
     (''cluster_id'', CString),
     (''cluster_name'', CString),
     (''isTelemetryEnabled'', CBoolean),
     (''master_id'', CString),
     (''version'', CString)]"

section \<open>Slots and agents\<close>

definition ioSlotDevice :: codec where
  "ioSlotDevice = CType [
     (''brand'', CString),
     (''id'', CNumber),
     (''type'', CString),
     (''uuid'', optional CString)]"

definition ioSlotContainer :: codec where
  "ioSlotContainer = CType [
     (''devices'', optional (CArray ioSlotDevice)),
     (''id'', CString),
     (''state'', CString)]"

definition ioSlot :: codec where
  "ioSlot = CType [
     (''container'', optional ioSlotContainer),
     (''device'', ioSlotDevice),
     (''enabled'', CBoolean),
     (''id'', CString)]"

definition ioSlots :: codec where
  "ioSlots = CRecord ioSlot"

definition ioAgent :: codec where
  "ioAgent = CType [
     (''id'', CString),
     (''registered_time'', CString),
     (''slots'', ioSlots)]"

definition ioAgents :: codec where
  "ioAgents = CRecord ioAgent"

section \<open>Commands\<close>

definition ioUser :: codec where
  "ioUser = CType [(''id'', CNumber), (''username'', CString)]"

definition ioCommandAddress :: codec where
  "ioCommandAddress = CType [
     (''container_ip'', CString),
     (''container_port'', CNumber),
     (''host_ip'', CString),
     (''host_port'', CNumber),
     (''protocol'', optional CString)]"

definition ioCommandMisc :: codec where
  "ioCommandMisc = CPartial [
     (''experiment_ids'', optional (CArray CNumber)),
     (''trial_ids'', optional (CArray CNumber))]"

definition ioCommandConfig :: codec where
  "ioCommandConfig = CExact (CType [(''description'', CString)])"

definition CommandState_values :: "CommandState list" where
  "CommandState_values = [CommandState_Pending, CommandState_Assigned, CommandState_Pulling,
     CommandState_Starting, CommandState_Running, CommandState_Terminating, CommandState_Terminated]"

definition commandStatesIoType :: codec where
  "commandStatesIoType = CKeyof (map str_CommandState CommandState_values)"

definition ioGenericCommand :: codec where
  "ioGenericCommand = CType [
     (''config'', ioCommandConfig),
     (''exit_status'', optional CString),
     (''id'', CString),
     (''misc'', optional ioCommandMisc),
     (''owner'', ioUser),
     (''registered_time'', CString),
     (''service_address'', optional CString),
     (''state'', commandStatesIoType)]"

definition ioGenericCommands :: codec where
  "ioGenericCommands = CRecord ioGenericCommand"

definition runStatesIoType :: codec where
  "runStatesIoType = CKeyof (map str_RunState RunState_values)"

section \<open>Trials\<close>

definition CheckpointState_values :: "CheckpointState list" where
  "CheckpointState_values = [CheckpointState_Active, CheckpointState_Completed, CheckpointState_Error,
     CheckpointState_Deleted, CheckpointState_Unspecified]"

definition checkpointStatesIoType :: codec where
  "checkpointStatesIoType = CKeyof (map str_CheckpointState CheckpointState_values)"

definition ioMetricValue :: codec where
  "ioMetricValue = CAny"

definition ioMetric :: codec where
  "ioMetric = CRecord ioMetricValue"

definition ioValidationMetrics :: codec where
  "ioValidationMetrics = CType [(''num_inputs'', CNumber), (''validation_metrics'', ioMetric)]"

definition startEndTimeDef :: "(string \<times> codec) list" where
  "startEndTimeDef = [(''end_time'', optional CString), (''start_time'', CString)]"

definition ioCheckpoint :: codec where
  "ioCheckpoint = CType (startEndTimeDef @ [
     (''id'', CNumber),
     (''resources'', optional (CRecord CNumber)),
     (''state'', checkpointStatesIoType),
     (''step_id'', CNumber),
     (''trial_id'', CNumber),
     (''uuid'', optional CString),
     (''validation_metric'', ioMetricValue)])"

definition ioValidation :: codec where
  "ioValidation = CType (startEndTimeDef @ [
     (''id'', CNumber),
     (''metrics'', optional ioValidationMetrics),
     (''state'', runStatesIoType)])"

definition ioStep :: codec where
  "ioStep = CType (startEndTimeDef @ [
     (''avg_metrics'', optional ioMetric),
     (''checkpoint'', optional ioCheckpoint),
     (''id'', CNumber),
     (''num_batches'', optional CNumber),
     (''prior_batches_processed'', optional CNumber),
     (''state'', runStatesIoType),
     (''validation'', optional ioValidation)])"

definition ioTrialDetails :: codec where
  "ioTrialDetails = CType [
     (''end_time'', optional CString),
     (''experiment_id'', CNumber),
     (''hparams'', CRecord CAny),
     (''id'', CNumber),
     (''seed'', CNumber),
     (''start_time'', CString),
     (''state'', runStatesIoType),
     (''steps'', CArray ioStep),
     (''warm_start_checkpoint_id'', optional CNumber)]"

definition ioTrial :: codec where
  "ioTrial = CType [
     (''best_available_checkpoint'', optional ioCheckpoint),
     (''best_validation_metric'', ioMetricValue),
     (''end_time'', optional CString),
     (''experiment_id'', CNumber),
     (''hparams'', CRecord CAny),
     (''id'', CNumber),
     (''latest_validation_metrics'', optional ioValidationMetrics),
     (''num_completed_checkpoints'', CNumber),
     (''num_steps'', CNumber),
     (''seed'', CNumber),
     (''start_time'', CString),
     (''state'', runStatesIoType),
     (''total_batches_processed'', optional CNumber)]"

section \<open>Experiments\<close>

definition CheckpointStorageType_values :: "CheckpointStorageType list" where
  "CheckpointStorageType_values = [CheckpointStorageType_AWS, CheckpointStorageType_GCS,
     CheckpointStorageType_HDFS, CheckpointStorageType_S3, CheckpointStorageType_SharedFS]"

definition ioCheckpointStorageType :: codec where
  "ioCheckpointStorageType = CKeyof (map str_CheckpointStorageType CheckpointStorageType_values)"

definition ioCheckpointStorage :: codec where
  "ioCheckpointStorage = CType [
     (''bucket'', optional CString),
     (''host_path'', optional CString),
     (''save_experiment_best'', CNumber),
     (''save_trial_best'', CNumber),
     (''save_trial_latest'', CNumber),
     (''storage_path'', optional CString),
     (''type'', optional ioCheckpointStorageType)]"

definition ioDataLayer :: codec where
  "ioDataLayer = CType [(''container_storage_path'', optional CString), (''type'', CString)]"

definition ioExpResources :: codec where
  "ioExpResources = CType [(''max_slots'', optional CNumber)]"

definition ioExpHParam :: codec where
  "ioExpHParam = CType [
     (''base'', optional CNumber),
     (''count'', optional CNumber),
     (''maxval'', optional CNumber),
     (''minval'', optional CNumber),
     (''type'', CKeyof [''categorical'', ''const'', ''double'', ''int'', ''log'']),
     (''val'', optional CUnknown)]"

definition ioHyperparameters :: codec where
  "ioHyperparameters = CRecord ioExpHParam"

definition ioExperimentConfig :: codec where
  "ioExperimentConfig = CType [
     (''checkpoint_policy'', CString),
     (''checkpoint_storage'', optional ioCheckpointStorage),
     (''data_layer'', optional ioDataLayer),
     (''description'', CString),
     (''hyperparameters'', ioHyperparameters),
     (''labels'', optional (CArray CString)),
     (''resources'', ioExpResources),
     (''searcher'', CType [(''metric'', CString), (''smaller_is_better'', CBoolean)])]"

definition ioExperiment :: codec where
  "ioExperiment = CType [
     (''archived'', CBoolean),
     (''config'', ioExperimentConfig),
     (''end_time'', optional CString),
     (''id'', CNumber),
     (''owner_id'', CNumber),
     (''progress'', optional CNumber),
     (''start_time'', CString),
     (''state'', runStatesIoType)]"

definition ioExperiments :: codec where
  "ioExperiments = CArray ioExperiment"

definition ioValidationHistory :: codec where
  "ioValidationHistory = CType [
     (''end_time'', CString),
     (''trial_id'', CNumber),
     (''validation_error'', optional CNumber)]"

definition ioExperimentDetails :: codec where
  "ioExperimentDetails = CType [
     (''archived'', CBoolean),
     (''config'', ioExperimentConfig),
     (''end_time'', optional CString),
     (''id'', CNumber),
     (''owner'', ioUser),
     (''progress'', optional CNumber),
     (''start_time'', CString),
     (''state'', runStatesIoType),
     (''trials'', CArray ioTrial),
     (''validation_history'', CArray ioValidationHistory)]"

section \<open>Logs\<close>

definition LogLevel_values :: "LogLevel list" where
  "LogLevel_values = [LogLevel_Debug, LogLevel_Error, LogLevel_Info, LogLevel_Warning]"

definition ioLogLevelType :: codec where
  "ioLogLevelType = CKeyof (map str_LogLevel LogLevel_values)"

definition ioLog :: codec where
  "ioLog = CType [
     (''id'', CNumber),
     (''level'', optional ioLogLevelType),
     (''message'', CString),
     (''time'', optional CString)]"

definition ioLogs :: codec where
  "ioLogs = CArray ioLog"

definition ioTaskLog :: codec where
  "ioTaskLog = CType [
     (''assigned_event'', CUnknown),
     (''container_started_event'', CUnknown),
     (''exited_event'', optional CString),
     (''id'', CString),
     (''log_event'', optional CString),
     (''parent_id'', CString),
     (''scheduled_event'', optional CString),
     (''seq'', CNumber),
     (''service_ready_event'', optional (CType [])),
     (''snapshot'', CType [(''config'', CType [(''description'', CString)])]),
     (''terminate_request_event'', optional CString),
     (''time'', CString)]"

definition ioTaskLogs :: codec where
  "ioTaskLogs = CArray ioTaskLog"

section \<open>What \<open>decode\<close> returns\<close>

text \<open>The value that a successful validation returns: the input, less the properties that \<open>exact\<close> strips.\<close>

fun strip :: "codec \<Rightarrow> js \<Rightarrow> js" where
  "strip (CType fs) v = (case v of
      Obj ps \<Rightarrow> Obj (map (\<lambda>(k, x). (k, case map_of (map (\<lambda>(k, c). (k, strip c)) fs) k of Some f \<Rightarrow> f x | None \<Rightarrow> x)) ps)
    | _ \<Rightarrow> v)"
| "strip (CPartial fs) v = (case v of
      Obj ps \<Rightarrow> Obj (map (\<lambda>(k, x). (k, case map_of (map (\<lambda>(k, c). (k, strip c)) fs) k of Some f \<Rightarrow> f x | None \<Rightarrow> x)) ps)
    | _ \<Rightarrow> v)"
| "strip (CArray c) v = (case v of Arr xs \<Rightarrow> Arr (map (strip c) xs) | _ \<Rightarrow> v)"
| "strip (CRecord c) v = (case v of Obj ps \<Rightarrow> Obj (map (\<lambda>(k, x). (k, strip c x)) ps) | _ \<Rightarrow> v)"
| "strip (CUnion cs) v = (case find (\<lambda>(ok, f). ok) (map (\<lambda>c. (conforms c v, strip c v)) cs) of
      Some (_, u) \<Rightarrow> u | None \<Rightarrow> v)"
| "strip (CExact c) v = (case (c, strip c v) of
      (CType fs, Obj ps) \<Rightarrow> Obj (filter (\<lambda>(k, x). k \<in> fst ` set fs) ps)
    | (CPartial fs, Obj ps) \<Rightarrow> Obj (filter (\<lambda>(k, x). k \<in> fst ` set fs) ps)
    | (_, u) \<Rightarrow> u)"
| "strip _ v = v"

text \<open>The keys of an object codec are distinct: it is built from an object.\<close>

fun wf_codec :: "codec \<Rightarrow> bool" where
  "wf_codec (CType fs) = (distinct (map fst fs) \<and> list_all (\<lambda>(k, c). wf_codec c) fs)"
| "wf_codec (CPartial fs) = (distinct (map fst fs) \<and> list_all (\<lambda>(k, c). wf_codec c) fs)"
| "wf_codec (CArray c) = wf_codec c"
| "wf_codec (CRecord c) = wf_codec c"
| "wf_codec (CUnion cs) = list_all wf_codec cs"
| "wf_codec (CExact c) = wf_codec c"
| "wf_codec _ = True"

lemma find_tagged: "find (\<lambda>(ok, f). ok) (map (\<lambda>c. (P c, g c)) cs)
    = (case find P cs of Some c \<Rightarrow> Some (True, g c) | None \<Rightarrow> None)"
  by (induction cs) auto

lemma find_Some: "find P xs = Some x \<Longrightarrow> x \<in> set xs \<and> P x"
  by (induction xs) (auto split: if_splits)

lemma find_ex: "list_ex P xs \<Longrightarrow> \<exists>x. find P xs = Some x"
  by (induction xs) auto

lemma map_of_strip: "map_of (map (\<lambda>(k, c). (k, strip c)) fs) k = map_option strip (map_of fs k)"
  by (induction fs) auto

lemma own_map:
  "own (map (\<lambda>(k, x). (k, case f k of Some g \<Rightarrow> g x | None \<Rightarrow> x)) ps) k
     = (case map_of ps k of None \<Rightarrow> Undefined | Some x \<Rightarrow> (case f k of Some g \<Rightarrow> g x | None \<Rightarrow> x))"
proof (induction ps)
  case (Cons p ps)
  then show ?case by (cases p) (auto simp: own_def split: option.splits)
qed (simp add: own_def)

lemma own_filter: "k \<in> K \<Longrightarrow> own (filter (\<lambda>(k, x). k \<in> K) ps) k = own ps k"
  by (induction ps) (auto simp: own_def)

lemma strip_Undefined [simp]: "strip c Undefined = Undefined"
proof (induction c)
  case (CUnion cs)
  then show ?case by (auto simp: find_tagged split: option.splits dest: find_Some)
next
  case (CExact c)
  then show ?case by (auto split: codec.splits)
qed (auto split: option.splits)

lemma own_strip:
  "own (map (\<lambda>(k, x). (k, case map_of (map (\<lambda>(k, c). (k, strip c)) fs) k of Some f \<Rightarrow> f x | None \<Rightarrow> x)) ps) k
     = (case map_of fs k of Some c \<Rightarrow> strip c (own ps k) | None \<Rightarrow> own ps k)"
  using own_map [of "map_of (map (\<lambda>(k, c). (k, strip c)) fs)" ps k]
  by (simp add: map_of_strip own_def split: option.splits)

lemma conforms_filter:
  "conforms (CType fs) (Obj ps) \<Longrightarrow> conforms (CType fs) (Obj (filter (\<lambda>(k, x). k \<in> fst ` set fs) ps))"
  "conforms (CPartial fs) (Obj ps) \<Longrightarrow> conforms (CPartial fs) (Obj (filter (\<lambda>(k, x). k \<in> fst ` set fs) ps))"
  by (auto simp: list_all_iff own_filter rev_image_eqI)

lemma conforms_strip: "wf_codec c \<Longrightarrow> conforms c v \<Longrightarrow> conforms c (strip c v)"
proof (induction c arbitrary: v)
  case (CType fs)
  then obtain ps where v: "v = Obj ps" by (auto split: js.splits)
  have "conforms c (own ps k) \<Longrightarrow> conforms c (strip c (own ps k))" if "(k, c) \<in> set fs" for k c
    using CType that by (fastforce simp: list_all_iff snds.simps)
  moreover have "map_of fs k = Some c" if "(k, c) \<in> set fs" for k c
    using CType.prems(1) that by simp
  ultimately show ?case using CType.prems(2) by (auto simp: v own_strip list_all_iff)
next
  case (CPartial fs)
  then obtain ps where v: "v = Obj ps" by (auto split: js.splits)
  have "conforms c (own ps k) \<Longrightarrow> conforms c (strip c (own ps k))" if "(k, c) \<in> set fs" for k c
    using CPartial that by (fastforce simp: list_all_iff snds.simps)
  moreover have "map_of fs k = Some c" if "(k, c) \<in> set fs" for k c
    using CPartial.prems(1) that by simp
  ultimately show ?case using CPartial.prems(2) by (fastforce simp: v own_strip list_all_iff)
next
  case (CArray c)
  then show ?case by (auto simp: list_all_iff split: js.splits)
next
  case (CRecord c)
  then show ?case by (fastforce simp: list_all_iff split: js.splits)
next
  case (CUnion cs)
  then obtain c where c: "find (\<lambda>c. conforms c v) cs = Some c"
    using find_ex [of "\<lambda>c. conforms c v" cs] by auto
  then have "c \<in> set cs" "conforms c v" by (auto dest: find_Some)
  with CUnion c show ?case by (auto simp: find_tagged list_ex_iff list_all_iff)
next
  case (CExact c)
  then have ok: "conforms c (strip c v)" by simp
  show ?case
  proof (cases c)
    case (CType fs)
    with ok obtain ps where "strip c v = Obj ps" by (auto split: js.splits)
    with CType ok show ?thesis using conforms_filter(1) [of fs ps] by simp
  next
    case (CPartial fs)
    with ok obtain ps where "strip c v = Obj ps" by (auto split: js.splits)
    with CPartial ok show ?thesis using conforms_filter(2) [of fs ps] by simp
  qed (use ok in simp_all)
qed auto

lemma strip_exact_free: "exact_free c \<Longrightarrow> strip c v = v"
proof (induction c arbitrary: v)
  case (CType fs)
  have "(case map_of (map (\<lambda>(k, c). (k, strip c)) fs) k of Some f \<Rightarrow> f x | None \<Rightarrow> x) = x" for k x
    using CType by (auto simp: map_of_strip list_all_iff snds.simps dest!: map_of_SomeD split: option.splits)
  then show ?case by (auto split: js.splits simp: map_idI)
next
  case (CPartial fs)
  have "(case map_of (map (\<lambda>(k, c). (k, strip c)) fs) k of Some f \<Rightarrow> f x | None \<Rightarrow> x) = x" for k x
    using CPartial by (auto simp: map_of_strip list_all_iff snds.simps dest!: map_of_SomeD split: option.splits)
  then show ?case by (auto split: js.splits simp: map_idI)
next
  case (CArray c)
  then show ?case by (auto split: js.splits simp: map_idI)
next
  case (CRecord c)
  then show ?case by (auto split: js.splits simp: map_idI)
next
  case (CUnion cs)
  then show ?case by (auto simp: find_tagged list_all_iff split: option.splits dest: find_Some)
qed auto

section \<open>The contract of the package\<close>

locale io_ts =
  fixes dec :: "codec \<Rightarrow> js \<Rightarrow> js + js"
  assumes accepts: "conforms c v \<Longrightarrow> dec c v = Inr (strip c v)"
    and refuses: "\<not> conforms c v \<Longrightarrow> \<exists>e. dec c v = Inl e"
begin

lemma decode_ok: "conforms c v \<Longrightarrow> decode dec c v = Inr (strip c v)"
  by (simp add: decode_def accepts)

lemma decode_bad: "\<not> conforms c v \<Longrightarrow> \<exists>e. decode dec c v = Inl (bad_response e)"
  using refuses [of c v] by (auto simp: decode_def)

lemma decode_cases:
  "(\<exists>e. decode dec c v = Inl (bad_response e) \<and> \<not> conforms c v)
   \<or> decode dec c v = Inr (strip c v) \<and> conforms c v"
  using decode_ok [of c v] decode_bad [of c v] by (cases "conforms c v") auto

lemma decode_type_safe: "wf_codec c \<Longrightarrow> decode dec c v = Inr u \<Longrightarrow> conforms c u"
  using decode_cases [of c v] conforms_strip [of c v] by auto

end

definition io_decode :: "codec \<Rightarrow> js \<Rightarrow> js + js" where
  "io_decode c v = (if conforms c v then Inr (strip c v) else Inl (Arr []))"

interpretation io: io_ts io_decode
  by unfold_locales (simp_all add: io_decode_def)

end
