(* ===== verification/Decoder.thy ===== *)
theory Decoder
  imports Io_Types Types_Util
begin

text \<open>
  The decoders of \<^verbatim>\<open>services/decoder.ts\<close> that read unchecked JSON: each validates its input with a codec of
  \<^verbatim>\<open>ioTypes.ts\<close> and rebuilds it as one of the interfaces of \<^verbatim>\<open>types.ts\<close>.

  The code reads the validated value through a static type; in the model every such read is a cast that
  may fail, and a failed cast is the value \<open>IllTyped\<close>.  That \<open>IllTyped\<close> never occurs is a theorem: the
  codecs guarantee the types the decoders read.
\<close>

section \<open>Typed reads\<close>

text \<open>What a decoder may end with instead of a result: a thrown value, an exception, or a failed cast.\<close>

datatype failure = Throws js | Raises exn | IllTyped

text \<open>Reading a property; on \<open>null\<close> and \<open>undefined\<close> a \<open>TypeError\<close>.\<close>

definition prop_of :: "js \<Rightarrow> string \<Rightarrow> failure + js" where
  "prop_of v k = (case js_get v k of Inl e \<Rightarrow> Inl (Raises e) | Inr x \<Rightarrow> Inr x)"

fun as_str :: "js \<Rightarrow> failure + string" where
  "as_str (Str s) = Inr s"
| "as_str _ = Inl IllTyped"

fun as_bool :: "js \<Rightarrow> failure + bool" where
  "as_bool (Bool b) = Inr b"
| "as_bool _ = Inl IllTyped"

fun as_num :: "js \<Rightarrow> failure + number" where
  "as_num (Num n) = Inr n"
| "as_num _ = Inl IllTyped"

fun as_int :: "js \<Rightarrow> failure + int" where
  "as_int (Num (Fin q)) = (if of_int \<lfloor>q\<rfloor> = q then Inr \<lfloor>q\<rfloor> else Inl IllTyped)"
| "as_int _ = Inl IllTyped"

fun as_arr :: "js \<Rightarrow> failure + js list" where
  "as_arr (Arr xs) = Inr xs"
| "as_arr _ = Inl IllTyped"

fun as_obj :: "js \<Rightarrow> failure + (string \<times> js) list" where
  "as_obj (Obj ps) = Inr ps"
| "as_obj _ = Inl IllTyped"

text \<open>A value of a string enumeration with the given members.\<close>

definition as_enum :: "('a \<Rightarrow> string) \<Rightarrow> 'a list \<Rightarrow> js \<Rightarrow> failure + 'a" where
  "as_enum str vals v = (case find (\<lambda>x. Str (str x) = v) vals of Some x \<Rightarrow> Inr x | None \<Rightarrow> Inl IllTyped)"

text \<open>\<open>v || undefined\<close> at a type: \<open>None\<close> for every falsy value.\<close>

definition opt_as :: "(js \<Rightarrow> failure + 'a) \<Rightarrow> js \<Rightarrow> failure + 'a option" where
  "opt_as f v = (if truthy v then bind_exn (f v) (\<lambda>x. Inr (Some x)) else Inr None)"

text \<open>An optional property passed on as it is: \<open>None\<close> for \<open>null\<close> and \<open>undefined\<close> only.\<close>

definition nullable_as :: "(js \<Rightarrow> failure + 'a) \<Rightarrow> js \<Rightarrow> failure + 'a option" where
  "nullable_as f v = (if is_nullish v then Inr None else bind_exn (f v) (\<lambda>x. Inr (Some x)))"

text \<open>The property \<open>k\<close> of \<open>v\<close>, read with \<open>f\<close>.\<close>

definition rd :: "js \<Rightarrow> string \<Rightarrow> (js \<Rightarrow> failure + 'a) \<Rightarrow> failure + 'a" where
  "rd v k f = bind_exn (prop_of v k) f"

definition arr_of :: "(js \<Rightarrow> failure + 'a) \<Rightarrow> js \<Rightarrow> failure + 'a list" where
  "arr_of f v = bind_exn (as_arr v) (mapM_exn f)"

text \<open>\<open>ioTypes.decode\<close>, whose error is thrown.\<close>

definition decode_io :: "(codec \<Rightarrow> js \<Rightarrow> js + js) \<Rightarrow> codec \<Rightarrow> js \<Rightarrow> failure + js" where
  "decode_io dec c v = (case decode dec c v of Inl e \<Rightarrow> Inl (Throws e) | Inr u \<Rightarrow> Inr u)"

section \<open>Users and login\<close>

text \<open>The listed users carry an identifier beside the fields of \<open>DetailedUser\<close>.\<close>

record ListedUser = DetailedUser +
  user_id :: number

record LoginResponse =
  login_token :: string

definition user_of_io :: "js \<Rightarrow> failure + ListedUser" where
  "user_of_io user =
     bind_exn (rd user ''id'' as_num) (\<lambda>i.
     bind_exn (rd user ''active'' as_bool) (\<lambda>active.
     bind_exn (rd user ''admin'' as_bool) (\<lambda>admin.
     bind_exn (rd user ''username'' as_str) (\<lambda>username.
     Inr \<lparr>user_username = username, user_isActive = active, user_isAdmin = admin, user_id = i\<rparr>))))"

definition jsonToUsers :: "(codec \<Rightarrow> js \<Rightarrow> js + js) \<Rightarrow> js \<Rightarrow> failure + ListedUser list" where
  "jsonToUsers dec data = bind_exn (decode_io dec ioDetailedUsers data) (arr_of user_of_io)"

definition jsonToLogin :: "(codec \<Rightarrow> js \<Rightarrow> js + js) \<Rightarrow> js \<Rightarrow> failure + LoginResponse" where
  "jsonToLogin dec data = bind_exn (decode_io dec ioLogin data) (\<lambda>io.
     bind_exn (rd io ''token'' as_str) (\<lambda>token. Inr \<lparr>login_token = token\<rparr>))"

section \<open>Commands\<close>

definition id_list :: "js \<Rightarrow> failure + int list" where
  "id_list v = (if truthy v then arr_of as_int v else Inr [])"

definition command_misc :: "js \<Rightarrow> failure + CommandMisc" where
  "command_misc misc =
     bind_exn (rd misc ''experiment_ids'' id_list) (\<lambda>es.
     bind_exn (rd misc ''trial_ids'' id_list) (\<lambda>ts.
     Inr \<lparr>misc_experimentIds = es, misc_trialIds = ts\<rparr>))"

definition command_config :: "js \<Rightarrow> failure + CommandConfig" where
  "command_config c = bind_exn (rd c ''description'' as_str) (\<lambda>d. Inr \<lparr>cc_description = d\<rparr>)"

definition io_user :: "js \<Rightarrow> failure + User" where
  "io_user u = bind_exn (rd u ''username'' as_str) (\<lambda>n. Inr \<lparr>user_username = n\<rparr>)"

definition command_of_io :: "CommandType \<Rightarrow> js \<Rightarrow> failure + Command" where
  "command_of_io type io =
     bind_exn (rd io ''config'' command_config) (\<lambda>config.
     bind_exn (rd io ''exit_status'' (opt_as as_str)) (\<lambda>exit_status.
     bind_exn (rd io ''id'' as_str) (\<lambda>i.
     bind_exn (rd io ''misc'' (opt_as command_misc)) (\<lambda>misc.
     bind_exn (rd io ''registered_time'' as_str) (\<lambda>registered_time.
     bind_exn (rd io ''service_address'' (opt_as as_str)) (\<lambda>service_address.
     bind_exn (rd io ''state'' (as_enum str_CommandState CommandState_values)) (\<lambda>state.
     bind_exn (rd io ''owner'' io_user) (\<lambda>owner.
     Inr \<lparr>cmd_config = config, cmd_exitStatus = exit_status, cmd_id = i, cmd_kind = type,
          cmd_misc = misc, cmd_registeredTime = registered_time, cmd_serviceAddress = service_address,
          cmd_state = state, cmd_user = owner\<rparr>))))))))"

definition jsonToGenericCommand ::
  "(codec \<Rightarrow> js \<Rightarrow> js + js) \<Rightarrow> js \<Rightarrow> CommandType \<Rightarrow> failure + Command" where
  "jsonToGenericCommand dec data type = bind_exn (decode_io dec ioGenericCommand data) (command_of_io type)"

definition jsonToGenericCommands ::
  "(codec \<Rightarrow> js \<Rightarrow> js + js) \<Rightarrow> js \<Rightarrow> CommandType \<Rightarrow> failure + Command list" where
  "jsonToGenericCommands dec data type = bind_exn (decode_io dec ioGenericCommands data) (\<lambda>io.
     bind_exn (as_obj io) (\<lambda>ps.
     mapM_exn (\<lambda>genericCommandId. bind_exn (prop_of io genericCommandId)
        (\<lambda>c. jsonToGenericCommand dec c type)) (obj_keys ps)))"

definition jsonToCommands :: "(codec \<Rightarrow> js \<Rightarrow> js + js) \<Rightarrow> js \<Rightarrow> failure + Command list" where
  "jsonToCommands dec data = jsonToGenericCommands dec data CommandType_Command"

definition jsonToNotebook :: "(codec \<Rightarrow> js \<Rightarrow> js + js) \<Rightarrow> js \<Rightarrow> failure + Command" where
  "jsonToNotebook dec data = jsonToGenericCommand dec data CommandType_Notebook"

definition jsonToNotebooks :: "(codec \<Rightarrow> js \<Rightarrow> js + js) \<Rightarrow> js \<Rightarrow> failure + Command list" where
  "jsonToNotebooks dec data = jsonToGenericCommands dec data CommandType_Notebook"

definition jsonToShells :: "(codec \<Rightarrow> js \<Rightarrow> js + js) \<Rightarrow> js \<Rightarrow> failure + Command list" where
  "jsonToShells dec data = jsonToGenericCommands dec data CommandType_Shell"

definition jsonToTensorboard :: "(codec \<Rightarrow> js \<Rightarrow> js + js) \<Rightarrow> js \<Rightarrow> failure + Command" where
  "jsonToTensorboard dec data = jsonToGenericCommand dec data CommandType_Tensorboard"

definition jsonToTensorboards :: "(codec \<Rightarrow> js \<Rightarrow> js + js) \<Rightarrow> js \<Rightarrow> failure + Command list" where
  "jsonToTensorboards dec data = jsonToGenericCommands dec data CommandType_Tensorboard"

section \<open>Experiment configurations\<close>

definition checkpoint_storage :: "js \<Rightarrow> failure + CheckpointStorage" where
  "checkpoint_storage s =
     bind_exn (rd s ''bucket'' (opt_as as_str)) (\<lambda>bucket.
     bind_exn (rd s ''host_path'' (opt_as as_str)) (\<lambda>host_path.
     bind_exn (rd s ''save_experiment_best'' as_num) (\<lambda>se.
     bind_exn (rd s ''save_trial_best'' as_num) (\<lambda>st.
     bind_exn (rd s ''save_trial_latest'' as_num) (\<lambda>sl.
     bind_exn (rd s ''storage_path'' (opt_as as_str)) (\<lambda>storage_path.
     bind_exn (rd s ''type'' (opt_as (as_enum str_CheckpointStorageType CheckpointStorageType_values))) (\<lambda>type.
     Inr \<lparr>cs_bucket = bucket, cs_hostPath = host_path, cs_saveExperimentBest = se, cs_saveTrialBest = st,
          cs_saveTrialLatest = sl, cs_storagePath = storage_path, cs_type = type\<rparr>)))))))"

definition data_layer :: "js \<Rightarrow> failure + DataLayer" where
  "data_layer d =
     bind_exn (rd d ''container_storage_path'' (opt_as as_str)) (\<lambda>path.
     bind_exn (rd d ''type'' as_str) (\<lambda>type.
     Inr \<lparr>dl_containerStoragePath = path, dl_type = type\<rparr>))"

definition hyperparam :: "js \<Rightarrow> failure + ExperimentHyperParam" where
  "hyperparam h =
     bind_exn (rd h ''base'' (nullable_as as_num)) (\<lambda>base.
     bind_exn (rd h ''count'' (nullable_as as_num)) (\<lambda>cnt.
     bind_exn (rd h ''maxval'' (nullable_as as_num)) (\<lambda>maxval.
     bind_exn (rd h ''minval'' (nullable_as as_num)) (\<lambda>minval.
     bind_exn (rd h ''type'' as_str) (\<lambda>type.
     bind_exn (rd h ''val'' (nullable_as Inr)) (\<lambda>val.
     Inr \<lparr>hp_base = base, hp_count = cnt, hp_maxval = maxval, hp_minval = minval, hp_type = type,
          hp_val = val\<rparr>))))))"

definition hyperparams :: "js \<Rightarrow> failure + (string \<times> ExperimentHyperParam) list" where
  "hyperparams v = bind_exn (as_obj v) (mapM_exn (\<lambda>(k, h). bind_exn (hyperparam h) (\<lambda>x. Inr (k, x))))"

definition ioToExperimentConfig :: "js \<Rightarrow> failure + ExperimentConfig" where
  "ioToExperimentConfig io =
     bind_exn (rd io ''checkpoint_policy'' as_str) (\<lambda>checkpoint_policy.
     bind_exn (rd io ''checkpoint_storage'' (opt_as checkpoint_storage)) (\<lambda>storage.
     bind_exn (rd io ''data_layer'' (opt_as data_layer)) (\<lambda>layer.
     bind_exn (rd io ''description'' as_str) (\<lambda>description.
     bind_exn (rd io ''hyperparameters'' hyperparams) (\<lambda>hps.
     bind_exn (rd io ''labels'' (opt_as (arr_of as_str))) (\<lambda>labels.
     bind_exn (rd io ''searcher'' (\<lambda>s. rd s ''metric'' as_str)) (\<lambda>metric.
     bind_exn (rd io ''searcher'' (\<lambda>s. rd s ''smaller_is_better'' as_bool)) (\<lambda>smaller_is_better.
     bind_exn (rd io ''resources'' (\<lambda>r. rd r ''max_slots'' (nullable_as as_num))) (\<lambda>max_slots.
     Inr \<lparr>conf_checkpointPolicy = checkpoint_policy, conf_checkpointStorage = storage,
          conf_dataLayer = layer, conf_description = description, conf_hyperparameters = hps,
          conf_labels = labels, conf_maxSlots = max_slots, conf_metric = metric,
          conf_smallerIsBetter = smaller_is_better\<rparr>)))))))))"

section \<open>Type safety\<close>

definition returns :: "'e + 'a \<Rightarrow> bool" where
  "returns m = (\<exists>x. m = Inr x)"

named_theorems typed_simps "when a typed read returns"

lemma returns_simps [simp, typed_simps]: "returns (Inr x)" "\<not> returns (Inl e)"
  by (simp_all add: returns_def)

lemma returns_bind [typed_simps]:
  "returns (bind_exn m f) \<longleftrightarrow> returns m \<and> (\<forall>x. m = Inr x \<longrightarrow> returns (f x))"
  by (auto simp: returns_def bind_exn_Inr_iff)

lemma returns_mapM [typed_simps]: "returns (mapM_exn f xs) \<longleftrightarrow> (\<forall>x \<in> set xs. returns (f x))"
proof (induction xs)
  case (Cons x xs)
  then show ?case by (auto simp: returns_bind) (auto simp: returns_def)
qed simp

lemma prop_of_Obj [simp]: "prop_of (Obj ps) k = Inr (own ps k)"
  by (simp add: prop_of_def own_def)

lemma rd_Obj [simp]: "rd (Obj ps) k f = f (own ps k)"
  by (simp add: rd_def)

lemma returns_as [typed_simps]:
  "returns (as_str v) \<longleftrightarrow> conforms CString v"
  "returns (as_bool v) \<longleftrightarrow> conforms CBoolean v"
  "returns (as_num v) \<longleftrightarrow> conforms CNumber v"
  by (cases v; simp)+

lemma returns_as_enum [typed_simps]:
  "returns (as_enum str vals v) \<longleftrightarrow> conforms (CKeyof (map str vals)) v"
proof (cases v)
  case (Str s)
  have "find (\<lambda>x. str x = s) vals \<noteq> None \<longleftrightarrow> s \<in> str ` set vals"
    by (auto simp: find_None_iff image_iff)
  with Str show ?thesis by (auto simp: as_enum_def split: option.splits)
qed (simp_all add: as_enum_def find_None_iff split: option.splits)

lemma returns_opt_as [typed_simps]: "returns (opt_as f v) \<longleftrightarrow> (truthy v \<longrightarrow> returns (f v))"
  by (auto simp: opt_as_def returns_bind)

lemma returns_nullable_as [typed_simps]: "returns (nullable_as f v) \<longleftrightarrow> (is_nullish v \<or> returns (f v))"
  by (auto simp: nullable_as_def returns_bind)

lemma conforms_optional: "conforms (optional c) v \<longleftrightarrow> conforms c v \<or> is_nullish v"
  by (auto simp: optional_def ioNullOrUndefined_def is_nullish_def)

lemma truthy_not_nullish: "truthy v \<Longrightarrow> \<not> is_nullish v"
  by (auto simp: is_nullish_def)

lemma returns_arr_of: "conforms (CArray c) v \<Longrightarrow> (\<And>x. conforms c x \<Longrightarrow> returns (f x)) \<Longrightarrow> returns (arr_of f v)"
  by (cases v) (auto simp: arr_of_def typed_simps list_all_iff)

lemma conforms_CType: "conforms (CType fs) v \<longleftrightarrow> (\<exists>ps. v = Obj ps \<and> (\<forall>(k, c) \<in> set fs. conforms c (own ps k)))"
  by (cases v) (auto simp: list_all_iff)

lemma conforms_CPartial: "conforms (CPartial fs) v
    \<longleftrightarrow> (\<exists>ps. v = Obj ps \<and> (\<forall>(k, c) \<in> set fs. own ps k = Undefined \<or> conforms c (own ps k)))"
  by (cases v) (auto simp: list_all_iff)

lemma returns_opt_optional:
  "conforms (optional c) v \<Longrightarrow> (conforms c v \<Longrightarrow> returns (f v)) \<Longrightarrow> returns (opt_as f v)"
  by (auto simp: typed_simps conforms_optional truthy_not_nullish)

lemma returns_nullable_optional:
  "conforms (optional c) v \<Longrightarrow> (conforms c v \<Longrightarrow> returns (f v)) \<Longrightarrow> returns (nullable_as f v)"
  by (auto simp: typed_simps conforms_optional)

text \<open>Identifiers are integers: all the numbers in a value are.\<close>

fun integral :: "js \<Rightarrow> bool" where
  "integral (Num n) = (case n of Fin q \<Rightarrow> of_int \<lfloor>q\<rfloor> = q | _ \<Rightarrow> False)"
| "integral (Arr xs) = list_all integral xs"
| "integral (Obj ps) = list_all (\<lambda>(k, x). integral x) ps"
| "integral _ = True"

lemma integral_own: "integral (Obj ps) \<Longrightarrow> integral (own ps k)"
  by (auto simp: own_def list_all_iff split: option.splits dest!: map_of_SomeD)

lemma returns_as_int: "integral v \<Longrightarrow> conforms CNumber v \<Longrightarrow> returns (as_int v)"
  by (cases v) (auto split: number.splits)

lemma returns_id_list:
  assumes "integral v" "conforms (optional (CArray CNumber)) v"
  shows "returns (id_list v)"
proof (cases v)
  case (Arr xs)
  then have "returns (as_int x)" if "x \<in> set xs" for x
    using assms that by (auto simp: conforms_optional is_nullish_def list_all_iff intro!: returns_as_int)
  with Arr show ?thesis by (simp add: id_list_def arr_of_def typed_simps)
qed (use assms in \<open>auto simp: id_list_def conforms_optional is_nullish_def\<close>)

lemma integral_strip: "integral v \<Longrightarrow> integral (strip c v)"
proof (induction c arbitrary: v)
  case (CType fs)
  have "integral (case map_of (map (\<lambda>(k, c). (k, strip c)) fs) k of Some f \<Rightarrow> f x | None \<Rightarrow> x)"
    if "integral x" for k x
    using CType.IH that by (auto simp: map_of_strip snds.simps split: option.splits dest!: map_of_SomeD)
  with CType.prems show ?case by (fastforce simp: list_all_iff split: js.splits)
next
  case (CPartial fs)
  have "integral (case map_of (map (\<lambda>(k, c). (k, strip c)) fs) k of Some f \<Rightarrow> f x | None \<Rightarrow> x)"
    if "integral x" for k x
    using CPartial.IH that by (auto simp: map_of_strip snds.simps split: option.splits dest!: map_of_SomeD)
  with CPartial.prems show ?case by (fastforce simp: list_all_iff split: js.splits)
next
  case (CArray c)
  then show ?case by (auto simp: list_all_iff split: js.splits)
next
  case (CRecord c)
  then show ?case by (fastforce simp: list_all_iff split: js.splits)
next
  case (CUnion cs)
  then show ?case by (auto simp: find_tagged split: option.splits dest: find_Some)
next
  case (CExact c)
  define u where "u = strip c v"
  with CExact have "integral u" by simp
  then show ?case unfolding strip.simps(6) u_def [symmetric]
    by (cases c; cases u; simp add: list_all_iff)
qed auto

lemma returns_opt_str: "conforms (optional CString) v \<Longrightarrow> returns (opt_as as_str v)"
  by (rule returns_opt_optional) (simp_all add: returns_as del: conforms.simps)

lemma returns_user_of_io: "conforms ioDetailedUser v \<Longrightarrow> returns (user_of_io v)"
  by (auto simp: ioDetailedUser_def conforms_CType user_of_io_def typed_simps simp del: conforms.simps)

lemma returns_command_misc:
  assumes "integral v" "conforms ioCommandMisc v"
  shows "returns (command_misc v)"
proof -
  obtain ps where v: "v = Obj ps"
    and ok: "\<forall>k \<in> {''experiment_ids'', ''trial_ids''}.
      own ps k = Undefined \<or> conforms (optional (CArray CNumber)) (own ps k)"
    using assms(2) by (auto simp: ioCommandMisc_def conforms_CPartial simp del: conforms.simps)
  have "returns (id_list (own ps k))" if "k \<in> {''experiment_ids'', ''trial_ids''}" for k
    using ok that assms(1) returns_id_list [of "own ps k"] integral_own [of ps k]
    by (cases "own ps k = Undefined") (auto simp: v id_list_def simp del: conforms.simps integral.simps)
  then show ?thesis by (simp add: v command_misc_def typed_simps)
qed

lemma returns_command_config: "conforms ioCommandConfig v \<Longrightarrow> returns (command_config v)"
  by (cases v) (auto simp: ioCommandConfig_def command_config_def typed_simps)

lemma returns_io_user: "conforms ioUser v \<Longrightarrow> returns (io_user v)"
  by (cases v) (auto simp: ioUser_def io_user_def typed_simps)

lemma returns_command_of_io:
  assumes int: "integral v" and ok: "conforms ioGenericCommand v"
  shows "returns (command_of_io type v)"
proof -
  obtain ps where v: "v = Obj ps" and f: "\<forall>(k, c) \<in> set [
      (''config'', ioCommandConfig), (''exit_status'', optional CString), (''id'', CString),
      (''misc'', optional ioCommandMisc), (''owner'', ioUser), (''registered_time'', CString),
      (''service_address'', optional CString), (''state'', commandStatesIoType)]. conforms c (own ps k)"
    using ok unfolding ioGenericCommand_def conforms_CType by blast
  have "returns (opt_as command_misc (own ps ''misc''))"
    using f int integral_own [of ps "''misc''"]
    by (auto simp: v intro!: returns_opt_optional returns_command_misc simp del: conforms.simps integral.simps)
  moreover have "returns (opt_as as_str (own ps k))" if "k \<in> {''exit_status'', ''service_address''}" for k
    using f that by (auto intro: returns_opt_str)
  ultimately show ?thesis using f
    by (simp add: v command_of_io_def returns_bind returns_as returns_as_enum returns_command_config
        returns_io_user commandStatesIoType_def del: conforms.simps)
qed

lemma returns_checkpoint_storage:
  assumes "conforms ioCheckpointStorage v"
  shows "returns (checkpoint_storage v)"
proof -
  obtain ps where v: "v = Obj ps" and f: "\<forall>(k, c) \<in> set [
      (''bucket'', optional CString), (''host_path'', optional CString), (''save_experiment_best'', CNumber),
      (''save_trial_best'', CNumber), (''save_trial_latest'', CNumber), (''storage_path'', optional CString),
      (''type'', optional ioCheckpointStorageType)]. conforms c (own ps k)"
    using assms unfolding ioCheckpointStorage_def conforms_CType by blast
  have "returns (opt_as as_str (own ps k))" if "k \<in> {''bucket'', ''host_path'', ''storage_path''}" for k
    using f that by (auto intro: returns_opt_str)
  moreover have "returns (opt_as (as_enum str_CheckpointStorageType CheckpointStorageType_values) (own ps ''type''))"
    using f by (auto simp: returns_as_enum ioCheckpointStorageType_def intro!: returns_opt_optional simp del: conforms.simps)
  ultimately show ?thesis using f
    by (simp add: v checkpoint_storage_def returns_bind returns_as del: conforms.simps)
qed

lemma returns_data_layer: "conforms ioDataLayer v \<Longrightarrow> returns (data_layer v)"
  by (auto simp: ioDataLayer_def conforms_CType data_layer_def returns_bind returns_as
      simp del: conforms.simps intro!: returns_opt_optional)

lemma returns_hyperparam: "conforms ioExpHParam v \<Longrightarrow> returns (hyperparam v)"
proof -
  assume "conforms ioExpHParam v"
  then obtain ps where v: "v = Obj ps"
    and num: "\<forall>k \<in> {''base'', ''count'', ''maxval'', ''minval''}. conforms (optional CNumber) (own ps k)"
    and type: "conforms (CKeyof [''categorical'', ''const'', ''double'', ''int'', ''log'']) (own ps ''type'')"
    unfolding ioExpHParam_def conforms_CType by auto
  have "returns (nullable_as as_num (own ps k))" if "k \<in> {''base'', ''count'', ''maxval'', ''minval''}" for k
    using num that by (auto simp: returns_as intro!: returns_nullable_optional simp del: conforms.simps)
  with type show ?thesis
    by (simp add: v hyperparam_def returns_bind returns_nullable_as returns_as split: js.splits)
qed

lemma returns_hyperparams: "conforms ioHyperparameters v \<Longrightarrow> returns (hyperparams v)"
  by (cases v) (auto simp: ioHyperparameters_def hyperparams_def typed_simps list_all_iff
      intro!: returns_hyperparam)

lemma returns_ioToExperimentConfig:
  assumes "conforms ioExperimentConfig v"
  shows "returns (ioToExperimentConfig v)"
proof -
  obtain ps where v: "v = Obj ps" and f: "\<forall>(k, c) \<in> set [
      (''checkpoint_policy'', CString), (''checkpoint_storage'', optional ioCheckpointStorage),
      (''data_layer'', optional ioDataLayer), (''description'', CString),
      (''hyperparameters'', ioHyperparameters), (''labels'', optional (CArray CString)),
      (''resources'', ioExpResources),
      (''searcher'', CType [(''metric'', CString), (''smaller_is_better'', CBoolean)])]. conforms c (own ps k)"
    using assms unfolding ioExperimentConfig_def conforms_CType by blast
  have "returns (opt_as checkpoint_storage (own ps ''checkpoint_storage''))"
    "returns (opt_as data_layer (own ps ''data_layer''))"
    "returns (opt_as (arr_of as_str) (own ps ''labels''))"
    using f by (auto intro!: returns_opt_optional returns_checkpoint_storage returns_data_layer
        returns_arr_of simp: returns_as simp del: conforms.simps)
  moreover have "returns (rd (own ps ''searcher'') ''metric'' as_str)"
    "returns (rd (own ps ''searcher'') ''smaller_is_better'' as_bool)"
    "returns (rd (own ps ''resources'') ''max_slots'' (nullable_as as_num))"
    using f by (auto simp: conforms_CType ioExpResources_def returns_as simp del: conforms.simps
        intro!: returns_nullable_optional)
  ultimately show ?thesis using f
    by (simp add: v ioToExperimentConfig_def returns_bind returns_as returns_hyperparams del: conforms.simps)
qed

text \<open>
  The outcome of a decoder: a result when the input conforms to the codec, otherwise the error of
  \<open>ioTypes.decode\<close>; never a failed cast or an exception.
\<close>

definition safe_outcome :: "bool \<Rightarrow> failure + 'a \<Rightarrow> bool" where
  "safe_outcome ok m = (if ok then returns m else \<exists>e. m = Inl (Throws (bad_response e)))"

context io_ts
begin

lemma decode_io_eq:
  "decode_io dec c v = (if conforms c v then Inr (strip c v) else decode_io dec c v)"
  by (simp add: decode_io_def decode_ok)

lemma decode_safe:
  assumes "conforms c v \<Longrightarrow> returns (f (strip c v))"
  shows "safe_outcome (conforms c v) (bind_exn (decode_io dec c v) f)"
proof (cases "conforms c v")
  case True
  then show ?thesis using assms by (simp add: safe_outcome_def decode_io_def decode_ok)
next
  case False
  with decode_bad [of c v] show ?thesis by (auto simp: safe_outcome_def decode_io_def)
qed

lemma command_safe:
  assumes "integral v"
  shows "safe_outcome (conforms ioGenericCommand v) (jsonToGenericCommand dec v type)"
  unfolding jsonToGenericCommand_def
proof (rule decode_safe)
  assume "conforms ioGenericCommand v"
  moreover have "wf_codec ioGenericCommand"
    by (simp add: ioGenericCommand_def ioCommandConfig_def ioCommandMisc_def ioUser_def optional_def
        ioNullOrUndefined_def commandStatesIoType_def)
  ultimately show "returns (command_of_io type (strip ioGenericCommand v))"
    using assms by (intro returns_command_of_io integral_strip conforms_strip)
qed

lemma commands_safe:
  assumes "integral v"
  shows "safe_outcome (conforms ioGenericCommands v) (jsonToGenericCommands dec v type)"
  unfolding jsonToGenericCommands_def
proof (rule decode_safe)
  assume ok: "conforms ioGenericCommands v"
  then obtain ps where v: "v = Obj ps" by (cases v) (auto simp: ioGenericCommands_def)
  define qs where "qs = map (\<lambda>(k, x). (k, strip ioGenericCommand x)) ps"
  have wf: "wf_codec ioGenericCommands"
    by (simp add: ioGenericCommands_def ioGenericCommand_def ioCommandConfig_def ioCommandMisc_def ioUser_def
        optional_def ioNullOrUndefined_def commandStatesIoType_def)
  have s: "strip ioGenericCommands v = Obj qs" by (simp add: v ioGenericCommands_def qs_def)
  have ok': "conforms ioGenericCommands (Obj qs)" "integral (Obj qs)"
    using conforms_strip [OF wf ok] integral_strip [OF assms, of ioGenericCommands] by (simp_all add: s)
  have "returns (jsonToGenericCommand dec (own qs k) type)" if "k \<in> fst ` set qs" for k
  proof -
    from that obtain x where "map_of qs k = Some x" by (metis map_of_eq_None_iff not_None_eq)
    then have "own qs k = x" "(k, x) \<in> set qs" by (auto simp: own_def dest: map_of_SomeD)
    with ok' have "conforms ioGenericCommand (own qs k)" "integral (own qs k)"
      by (auto simp: ioGenericCommands_def list_all_iff)
    with command_safe [of "own qs k" type] show ?thesis by (simp add: safe_outcome_def)
  qed
  then show "returns (bind_exn (as_obj (strip ioGenericCommands v)) (\<lambda>ps. mapM_exn
      (\<lambda>k. bind_exn (prop_of (strip ioGenericCommands v) k) (\<lambda>c. jsonToGenericCommand dec c type)) (obj_keys ps)))"
    by (simp add: s returns_mapM obj_keys_def)
qed

lemma users_safe: "safe_outcome (conforms ioDetailedUsers v) (jsonToUsers dec v)"
  unfolding jsonToUsers_def
proof (rule decode_safe)
  assume "conforms ioDetailedUsers v"
  moreover have "wf_codec ioDetailedUsers" by (simp add: ioDetailedUsers_def ioDetailedUser_def)
  ultimately have "conforms (CArray ioDetailedUser) (strip ioDetailedUsers v)"
    using conforms_strip [of ioDetailedUsers v] unfolding ioDetailedUsers_def by blast
  then show "returns (arr_of user_of_io (strip ioDetailedUsers v))"
    by (rule returns_arr_of) (rule returns_user_of_io)
qed

lemma login_safe: "safe_outcome (conforms ioLogin v) (jsonToLogin dec v)"
  unfolding jsonToLogin_def
  by (rule decode_safe) (auto simp: ioLogin_def returns_bind returns_as strip_exact_free split: js.splits
      simp del: strip.simps)

end

lemma as_str_Inr: "as_str v = Inr s \<longleftrightarrow> v = Str s"
  by (cases v) auto

lemma as_enum_Inr: "as_enum str vals v = Inr x \<Longrightarrow> v = Str (str x)"
  by (auto simp: as_enum_def split: option.splits dest: find_Some)

lemma opt_as_str_Inr: "opt_as as_str v = Inr s \<Longrightarrow> s = (case v of Str t \<Rightarrow> if t = [] then None else Some t | _ \<Rightarrow> None)"
  by (cases v) (auto simp: opt_as_def split: if_splits)

lemma command_of_io_fields:
  assumes "command_of_io type (Obj ps) = Inr c"
  shows "cmd_kind c = type" "own ps ''id'' = Str (cmd_id c)"
    "own ps ''state'' = Str (str_CommandState (cmd_state c))"
    "own ps ''registered_time'' = Str (cmd_registeredTime c)"
    "cmd_serviceAddress c = (case own ps ''service_address'' of Str t \<Rightarrow> if t = [] then None else Some t | _ \<Rightarrow> None)"
    "cmd_exitStatus c = (case own ps ''exit_status'' of Str t \<Rightarrow> if t = [] then None else Some t | _ \<Rightarrow> None)"
  using assms
  by (auto simp: command_of_io_def bind_exn_Inr_iff as_str_Inr dest!: as_enum_Inr opt_as_str_Inr)

lemma own_strip_field:
  "map_of fs k = Some c \<Longrightarrow> exact_free c \<Longrightarrow> \<exists>qs. strip (CType fs) (Obj ps) = Obj qs \<and> own qs k = own ps k"
  by (simp add: own_strip strip_exact_free)

lemma own_strip_command:
  "k \<in> {''id'', ''state'', ''registered_time'', ''service_address'', ''exit_status''} \<Longrightarrow>
   \<exists>qs. strip ioGenericCommand (Obj ps) = Obj qs \<and> own qs k = own ps k"
  unfolding ioGenericCommand_def
  by (rule own_strip_field [where c = "the (map_of [(''exit_status'', optional CString), (''id'', CString),
      (''registered_time'', CString), (''service_address'', optional CString), (''state'', commandStatesIoType)] k)"])
    (auto simp: commandStatesIoType_def optional_def ioNullOrUndefined_def)

section \<open>Properties\<close>

text \<open>
  C7: The decoders never continue with data of the wrong type.  Over every validation package that keeps its
  contract, the decoders of users, logins and experiment configurations, and those of commands when the numbers
  they are sent are integers, return a result exactly when the input conforms to the codec and otherwise throw the
  \<open>apiBadResponse\<close> error; no cast fails and no \<open>TypeError\<close> occurs.
\<close>

theorem decoders_type_safe:
  assumes "io_ts dec"
  shows "safe_outcome (conforms ioDetailedUsers v) (jsonToUsers dec v)
    \<and> safe_outcome (conforms ioLogin v) (jsonToLogin dec v)
    \<and> (conforms ioExperimentConfig v \<longrightarrow> returns (ioToExperimentConfig v))
    \<and> (integral v \<longrightarrow> safe_outcome (conforms ioGenericCommand v) (jsonToGenericCommand dec v type)
        \<and> safe_outcome (conforms ioGenericCommands v) (jsonToGenericCommands dec v type))"
  using io_ts.users_safe [OF assms] io_ts.login_safe [OF assms] returns_ioToExperimentConfig
    io_ts.command_safe [OF assms] io_ts.commands_safe [OF assms]
  by auto

definition sample_command :: js where
  "sample_command = Obj [(''config'', Obj [(''description'', Str ''nb''), (''extra'', Null)]),
     (''exit_status'', Null), (''id'', Str ''c1''),
     (''misc'', Obj [(''experiment_ids'', Arr [Num (Fin 3)])]),
     (''owner'', Obj [(''id'', Num (Fin 1)), (''username'', Str ''ann'')]),
     (''registered_time'', Str ''2020''), (''service_address'', Str ''/proxy''), (''state'', Str ''RUNNING'')]"

lemma sample_command_ok: "conforms ioGenericCommand sample_command" "integral sample_command"
  by (simp_all add: sample_command_def ioGenericCommand_def ioCommandConfig_def ioCommandMisc_def ioUser_def
      optional_def ioNullOrUndefined_def commandStatesIoType_def CommandState_values_def own_def)

theorem decoders_type_safe_witness:
  "returns (jsonToGenericCommand io_decode sample_command CommandType_Notebook)
   \<and> safe_outcome False (jsonToGenericCommands io_decode Null CommandType_Notebook)
   \<and> safe_outcome False (jsonToUsers io_decode Null) \<and> safe_outcome False (jsonToLogin io_decode Null)"
  using decoders_type_safe [OF io.io_ts_axioms, of Null CommandType_Notebook]
    decoders_type_safe [OF io.io_ts_axioms, of sample_command CommandType_Notebook]
  by (simp add: safe_outcome_def sample_command_ok ioDetailedUsers_def ioLogin_def ioGenericCommands_def)

text \<open>
  A command is decoded field by field: the result of \<open>jsonToGenericCommand\<close> has the kind it was asked for, the
  identifier, state and time of the input, and an empty service address or exit status becomes \<open>undefined\<close>.
\<close>

theorem command_decoded:
  assumes "io_ts dec" and "jsonToGenericCommand dec (Obj ps) type = Inr c"
  shows "cmd_kind c = type"
    and "own ps ''id'' = Str (cmd_id c)"
    and "own ps ''state'' = Str (str_CommandState (cmd_state c))"
    and "own ps ''registered_time'' = Str (cmd_registeredTime c)"
    and "cmd_serviceAddress c = (case own ps ''service_address'' of Str t \<Rightarrow> if t = [] then None else Some t | _ \<Rightarrow> None)"
    and "cmd_exitStatus c = (case own ps ''exit_status'' of Str t \<Rightarrow> if t = [] then None else Some t | _ \<Rightarrow> None)"
proof -
  have "decode_io dec ioGenericCommand (Obj ps) = Inr (strip ioGenericCommand (Obj ps))"
    using assms(2) io_ts.decode_cases [OF assms(1), of ioGenericCommand "Obj ps"]
    by (auto simp: jsonToGenericCommand_def decode_io_def)
  with assms(2) have c: "command_of_io type (strip ioGenericCommand (Obj ps)) = Inr c"
    by (simp add: jsonToGenericCommand_def)
  obtain qs where qs: "strip ioGenericCommand (Obj ps) = Obj qs" by (auto simp: ioGenericCommand_def)
  note f = command_of_io_fields [OF c [unfolded qs]]
  note same = own_strip_command [of _ ps, unfolded qs]
  show "cmd_kind c = type" by (rule f(1))
  show "own ps ''id'' = Str (cmd_id c)" using f(2) same [of "''id''"] by simp
  show "own ps ''state'' = Str (str_CommandState (cmd_state c))" using f(3) same [of "''state''"] by simp
  show "own ps ''registered_time'' = Str (cmd_registeredTime c)"
    using f(4) same [of "''registered_time''"] by simp
  show "cmd_serviceAddress c = (case own ps ''service_address'' of Str t \<Rightarrow> if t = [] then None else Some t | _ \<Rightarrow> None)"
    using f(5) same [of "''service_address''"] by simp
  show "cmd_exitStatus c = (case own ps ''exit_status'' of Str t \<Rightarrow> if t = [] then None else Some t | _ \<Rightarrow> None)"
    using f(6) same [of "''exit_status''"] by simp
qed

theorem command_decoded_witness:
  "\<exists>c. jsonToGenericCommand io_decode sample_command CommandType_Notebook = Inr c \<and> cmd_id c = ''c1''
     \<and> cmd_kind c = CommandType_Notebook \<and> cmd_serviceAddress c = Some ''/proxy'' \<and> cmd_exitStatus c = None"
proof -
  obtain c where c: "jsonToGenericCommand io_decode sample_command CommandType_Notebook = Inr c"
    using io.command_safe [OF sample_command_ok(2)] by (auto simp: safe_outcome_def sample_command_ok returns_def)
  note f = command_decoded [OF io.io_ts_axioms c [unfolded sample_command_def]]
  show ?thesis using c f(1,2,5,6) by (auto simp: own_def)
qed

end
