(* ===== verification/Decoder_Sdk.thy ===== *)
theory Decoder_Sdk
  imports Decoder
begin

text \<open>
  The decoders of \<^verbatim>\<open>services/decoder.ts\<close> that read messages of the generated API client.  The client is generated
  from the protocol definitions under \<^verbatim>\<open>proto/src/determined\<close>; a message is a record of the fields that the decoders
  read, optional where the definition does not require them, and an enumeration of the client is a datatype with
  its string.  The conversion of a timestamp by \<open>dayjs\<close> is an argument.
\<close>

section \<open>Messages\<close>

datatype Sdk_ExperimentState =
    Sdk_UNSPECIFIED
  | Sdk_ACTIVE
  | Sdk_PAUSED
  | Sdk_STOPPINGCANCELED
  | Sdk_STOPPINGCOMPLETED
  | Sdk_STOPPINGERROR
  | Sdk_CANCELED
  | Sdk_COMPLETED
  | Sdk_ERROR
  | Sdk_DELETED

datatype Sdk_CheckpointState =
    SdkC_UNSPECIFIED
  | SdkC_ACTIVE
  | SdkC_COMPLETED
  | SdkC_ERROR
  | SdkC_DELETED

datatype Sdk_ContainerState =
    SdkS_UNSPECIFIED
  | SdkS_ASSIGNED
  | SdkS_PULLING
  | SdkS_STARTING
  | SdkS_RUNNING
  | SdkS_TERMINATED

fun str_ContainerState :: "Sdk_ContainerState \<Rightarrow> string" where
  "str_ContainerState SdkS_UNSPECIFIED = ''STATE_UNSPECIFIED''"
| "str_ContainerState SdkS_ASSIGNED = ''STATE_ASSIGNED''"
| "str_ContainerState SdkS_PULLING = ''STATE_PULLING''"
| "str_ContainerState SdkS_STARTING = ''STATE_STARTING''"
| "str_ContainerState SdkS_RUNNING = ''STATE_RUNNING''"
| "str_ContainerState SdkS_TERMINATED = ''STATE_TERMINATED''"

datatype Sdk_DeviceType = SdkT_UNSPECIFIED | SdkT_CPU | SdkT_GPU

fun str_DeviceType :: "Sdk_DeviceType \<Rightarrow> string" where
  "str_DeviceType SdkT_UNSPECIFIED = ''TYPE_UNSPECIFIED''"
| "str_DeviceType SdkT_CPU = ''TYPE_CPU''"
| "str_DeviceType SdkT_GPU = ''TYPE_GPU''"

record V1User =
  v1u_active :: bool
  v1u_admin :: bool
  v1u_username :: string

record V1GetMasterResponse =
  v1m_clusterId :: string
  v1m_clusterName :: string
  v1m_telemetryEnabled :: "bool option"
  v1m_masterId :: string
  v1m_version :: string

record V1Container =
  v1c_id :: string
  v1c_state :: "Sdk_ContainerState option"

record V1Device =
  v1d_brand :: "string option"
  v1d_type :: "Sdk_DeviceType option"
  v1d_uuid :: "string option"

record V1Slot =
  v1s_container :: "V1Container option"
  v1s_device :: "V1Device option"
  v1s_enabled :: bool
  v1s_id :: string

record V1Agent =
  v1a_id :: string
  v1a_registeredTime :: string
  v1a_resourcePool :: string
  v1a_slots :: "(string \<times> V1Slot) list option"

record V1Experiment =
  v1e_archived :: bool
  v1e_description :: string
  v1e_endTime :: "string option"
  v1e_id :: int
  v1e_labels :: "string list option"
  v1e_numTrials :: "int option"
  v1e_progress :: "number option"
  v1e_startTime :: string
  v1e_state :: Sdk_ExperimentState
  v1e_username :: string

record V1MetricsWorkload =
  v1w_endTime :: "string option"
  v1w_metrics :: "(string \<times> number) list option"
  v1w_numBatches :: int
  v1w_priorBatchesProcessed :: int
  v1w_startTime :: string
  v1w_state :: Sdk_ExperimentState

record V1CheckpointWorkload =
  v1k_endTime :: "string option"
  v1k_numBatches :: int
  v1k_priorBatchesProcessed :: int
  v1k_resources :: "(string \<times> string) list option"
  v1k_startTime :: string
  v1k_state :: Sdk_CheckpointState
  v1k_uuid :: "string option"

record V1Checkpoint =
  v1p_batchNumber :: int
  v1p_endTime :: "string option"
  v1p_experimentId :: int
  v1p_resources :: "(string \<times> string) list option"
  v1p_searcherMetric :: "number option"
  v1p_startTime :: string
  v1p_state :: Sdk_CheckpointState
  v1p_trialId :: int
  v1p_uuid :: "string option"

record Trialv1Trial =
  v1t_bestCheckpoint :: "V1CheckpointWorkload option"
  v1t_bestValidation :: "V1MetricsWorkload option"
  v1t_endTime :: "string option"
  v1t_experimentId :: int
  v1t_hparams :: js
  v1t_id :: int
  v1t_latestValidation :: "V1MetricsWorkload option"
  v1t_startTime :: string
  v1t_state :: Sdk_ExperimentState
  v1t_totalBatchesProcessed :: int

record V1WorkloadContainer =
  v1x_checkpoint :: "V1CheckpointWorkload option"
  v1x_training :: "V1MetricsWorkload option"
  v1x_validation :: "V1MetricsWorkload option"

record V1GetTrialResponse =
  v1r_trial :: Trialv1Trial
  v1r_workloads :: "V1WorkloadContainer list option"

section \<open>parseFloat\<close>

text \<open>The longest numeric prefix of a string, after leading white space; \<open>NaN\<close> when there is none.\<close>

definition nat_of_digits :: "string \<Rightarrow> nat" where
  "nat_of_digits ds = (case parse_nat 0 ds of Some n \<Rightarrow> n | None \<Rightarrow> 0)"

definition parse_sign :: "string \<Rightarrow> int \<times> string" where
  "parse_sign s = (case s of
      [] \<Rightarrow> (1, [])
    | c # r \<Rightarrow> if c = CHR ''-'' then (- 1, r) else if c = CHR ''+'' then (1, r) else (1, s))"

definition parse_exponent :: "string \<Rightarrow> int" where
  "parse_exponent s = (case s of
      [] \<Rightarrow> 0
    | c # r \<Rightarrow> if c = CHR ''e'' \<or> c = CHR ''E'' then
                 (case parse_sign r of (sg, t) \<Rightarrow> sg * int (nat_of_digits (takeWhile is_digit t)))
               else 0)"

definition parseFloat :: "string \<Rightarrow> number" where
  "parseFloat s =
     (case parse_sign (dropWhile is_space s) of (sg, t) \<Rightarrow>
      if prefix ''Infinity'' t then signed_inf sg
      else
        (let ds = takeWhile is_digit t;
             r = dropWhile is_digit t;
             dot = (r \<noteq> [] \<and> hd r = CHR ''.'');
             fs = (if dot then takeWhile is_digit (tl r) else []);
             e = parse_exponent (if dot then dropWhile is_digit (tl r) else r)
         in if ds = [] \<and> fs = [] then NaN
            else Fin (of_int sg * (of_nat (nat_of_digits ds) + of_nat (nat_of_digits fs) / 10 ^ length fs)
                      * 10 powi e)))"

section \<open>Users, information, agents\<close>

definition user :: "V1User \<Rightarrow> DetailedUser" where
  "user data = \<lparr>user_username = v1u_username data, user_isActive = v1u_active data,
     user_isAdmin = v1u_admin data\<rparr>"

definition jsonToDeterminedInfo :: "V1GetMasterResponse \<Rightarrow> DeterminedInfo" where
  "jsonToDeterminedInfo data = \<lparr>info_clusterId = v1m_clusterId data, info_clusterName = v1m_clusterName data,
     info_isTelemetryEnabled = (v1m_telemetryEnabled data = Some True), info_masterId = v1m_masterId data,
     info_version = v1m_version data\<rparr>"

text \<open>The members of the enumerations \<open>ResourceState\<close> and \<open>ResourceType\<close> by key.\<close>

definition ResourceState_members :: "(string \<times> ResourceState) list" where
  "ResourceState_members = [(''Unspecified'', ResourceState_Unspecified), (''Assigned'', ResourceState_Assigned),
     (''Pulling'', ResourceState_Pulling), (''Starting'', ResourceState_Starting),
     (''Running'', ResourceState_Running), (''Terminated'', ResourceState_Terminated)]"

definition ResourceType_members :: "(string \<times> ResourceType) list" where
  "ResourceType_members = [(''CPU'', ResourceType_CPU), (''GPU'', ResourceType_GPU),
     (''UNSPECIFIED'', ResourceType_UNSPECIFIED)]"

definition slot_container :: "V1Container \<Rightarrow> ResourceContainer" where
  "slot_container c = \<lparr>cont_id = v1c_id c,
     cont_state = (case v1c_state c of
         Some s \<Rightarrow> map_of ResourceState_members (capitalize (replace_first ''STATE_'' '''' (str_ContainerState s)))
       | None \<Rightarrow> None)\<rparr>"

definition slot_resource :: "V1Slot \<Rightarrow> Resource" where
  "slot_resource slot = \<lparr>
     res_container = map_option slot_container (v1s_container slot),
     res_enabled = v1s_enabled slot,
     res_id = v1s_id slot,
     res_name = Option.bind (v1s_device slot) v1d_brand,
     res_type = (case Option.bind (v1s_device slot) v1d_type of
         Some t \<Rightarrow> map_of ResourceType_members (replace_first ''TYPE_'' '''' (toUpperCase (str_DeviceType t)))
       | None \<Rightarrow> Some ResourceType_UNSPECIFIED),
     res_uuid = (case Option.bind (v1s_device slot) v1d_uuid of
         Some u \<Rightarrow> if u = '''' then None else Some u | None \<Rightarrow> None)\<rparr>"

definition jsonToAgents :: "(string \<Rightarrow> number) \<Rightarrow> V1Agent list \<Rightarrow> Agent list" where
  "jsonToAgents dayjs_unix agents = map (\<lambda>agent.
     let agentSlots = (case v1a_slots agent of Some ss \<Rightarrow> ss | None \<Rightarrow> []);
         resources = map (\<lambda>slotId. slot_resource (the (map_of agentSlots slotId))) (obj_keys agentSlots)
     in \<lparr>agent_id = v1a_id agent, agent_registeredTime = dayjs_unix (v1a_registeredTime agent),
         agent_resourcePool = v1a_resourcePool agent, agent_resources = resources\<rparr>) agents"

section \<open>Experiments and trials\<close>

definition checkpointStateMap :: "(Sdk_CheckpointState \<times> CheckpointState) list" where
  "checkpointStateMap = [
     (SdkC_UNSPECIFIED, CheckpointState_Unspecified),
     (SdkC_ACTIVE, CheckpointState_Active),
     (SdkC_COMPLETED, CheckpointState_Completed),
     (SdkC_ERROR, CheckpointState_Error),
     (SdkC_DELETED, CheckpointState_Deleted)]"

definition experimentStateMap :: "(Sdk_ExperimentState \<times> RunState) list" where
  "experimentStateMap = [
     (Sdk_UNSPECIFIED, RunState_Unspecified),
     (Sdk_ACTIVE, RunState_Active),
     (Sdk_PAUSED, RunState_Paused),
     (Sdk_STOPPINGCANCELED, RunState_StoppingCanceled),
     (Sdk_STOPPINGCOMPLETED, RunState_StoppingCompleted),
     (Sdk_STOPPINGERROR, RunState_StoppingError),
     (Sdk_CANCELED, RunState_Canceled),
     (Sdk_COMPLETED, RunState_Completed),
     (Sdk_ERROR, RunState_Errored),
     (Sdk_DELETED, RunState_Deleted)]"

definition decodeCheckpointState :: "Sdk_CheckpointState \<Rightarrow> CheckpointState" where
  "decodeCheckpointState data = the (map_of checkpointStateMap data)"

definition decodeExperimentState :: "Sdk_ExperimentState \<Rightarrow> RunState" where
  "decodeExperimentState data = the (map_of experimentStateMap data)"

definition encodeExperimentState :: "RunState \<Rightarrow> Sdk_ExperimentState" where
  "encodeExperimentState state =
     (case find (\<lambda>key. map_of experimentStateMap key = Some state) (obj_keys experimentStateMap) of
        Some stateKey \<Rightarrow> stateKey
      | None \<Rightarrow> Sdk_UNSPECIFIED)"

definition decodeGetV1ExperimentRespToExperimentBase ::
  "(codec \<Rightarrow> js \<Rightarrow> js + js) \<Rightarrow> V1Experiment \<Rightarrow> js \<Rightarrow> failure + ExperimentBase" where
  "decodeGetV1ExperimentRespToExperimentBase dec ex config =
     bind_exn (decode_io dec ioExperimentConfig config) (\<lambda>ioConfig.
     bind_exn (ioToExperimentConfig ioConfig) (\<lambda>c.
     Inr \<lparr>eb_archived = v1e_archived ex, eb_config = c, eb_configRaw = config, eb_endTime = v1e_endTime ex,
          eb_id = v1e_id ex, eb_progress = v1e_progress ex, eb_startTime = v1e_startTime ex,
          eb_state = decodeExperimentState (v1e_state ex), eb_username = v1e_username ex\<rparr>))"

definition decodeV1ExperimentToExperimentItem :: "V1Experiment \<Rightarrow> ExperimentItem" where
  "decodeV1ExperimentToExperimentItem data = \<lparr>
     exp_archived = v1e_archived data,
     exp_endTime = v1e_endTime data,
     exp_id = v1e_id data,
     exp_labels = (case v1e_labels data of Some ls \<Rightarrow> ls | None \<Rightarrow> []),
     exp_name = v1e_description data,
     exp_numTrials = (case v1e_numTrials data of Some n \<Rightarrow> n | None \<Rightarrow> 0),
     exp_progress = v1e_progress data,
     exp_startTime = v1e_startTime data,
     exp_state = decodeExperimentState (v1e_state data),
     exp_url = ''/experiments/'' @ show_int (v1e_id data),
     exp_username = v1e_username data\<rparr>"

definition decodeExperimentList :: "V1Experiment list \<Rightarrow> ExperimentItem list" where
  "decodeExperimentList data = map decodeV1ExperimentToExperimentItem data"

definition decodeMetricsWorkload :: "V1MetricsWorkload \<Rightarrow> MetricsWorkload" where
  "decodeMetricsWorkload data = \<lparr>
     t_endTime = v1w_endTime data,
     t_startTime = v1w_startTime data,
     wl_numBatches = v1w_numBatches data,
     wl_priorBatchesProcessed = v1w_priorBatchesProcessed data,
     mw_metrics = Given (v1w_metrics data),
     mw_numInputs = Absent,
     mw_state = decodeExperimentState (v1w_state data)\<rparr>"

text \<open>The assignments \<open>resources[res] = parseFloat(val)\<close> for the entries of the message.\<close>

definition parse_resources :: "(string \<times> string) list option \<Rightarrow> (string \<times> number) list" where
  "parse_resources r = fold (\<lambda>(res, val). obj_put res (parseFloat val))
     (case r of Some rs \<Rightarrow> rs | None \<Rightarrow> []) []"

definition decodeCheckpointWorkload :: "V1CheckpointWorkload \<Rightarrow> CheckpointWorkload" where
  "decodeCheckpointWorkload data = \<lparr>
     t_endTime = v1k_endTime data,
     t_startTime = v1k_startTime data,
     wl_numBatches = v1k_numBatches data,
     wl_priorBatchesProcessed = v1k_priorBatchesProcessed data,
     cw_resources = Given (Some (parse_resources (v1k_resources data))),
     cw_state = decodeCheckpointState (v1k_state data),
     cw_uuid = Given (v1k_uuid data)\<rparr>"

text \<open>\<open>x && x\<close> on an optional string.\<close>

definition decodeCheckpoint :: "V1Checkpoint \<Rightarrow> CheckpointDetail" where
  "decodeCheckpoint data = \<lparr>
     t_endTime = v1p_endTime data,
     t_startTime = v1p_startTime data,
     cp_resources = Some (parse_resources (v1p_resources data)),
     cp_state = decodeCheckpointState (v1p_state data),
     cp_trialId = v1p_trialId data,
     cp_uuid = v1p_uuid data,
     cp_validationMetric = v1p_searcherMetric data,
     cd_batch = v1p_batchNumber data,
     cd_experimentId = Some (v1p_experimentId data)\<rparr>"

definition decodeV1TrialToTrialItem :: "Trialv1Trial \<Rightarrow> TrialItem" where
  "decodeV1TrialToTrialItem data = \<lparr>
     t_endTime = v1t_endTime data,
     t_startTime = v1t_startTime data,
     tr_bestAvailableCheckpoint = map_option decodeCheckpointWorkload (v1t_bestCheckpoint data),
     tr_bestValidationMetric = map_option decodeMetricsWorkload (v1t_bestValidation data),
     tr_experimentId = v1t_experimentId data,
     tr_hparams = v1t_hparams data,
     tr_id = v1t_id data,
     tr_latestValidationMetric = map_option decodeMetricsWorkload (v1t_latestValidation data),
     tr_state = decodeExperimentState (v1t_state data),
     tr_totalBatchesProcessed = v1t_totalBatchesProcessed data\<rparr>"

definition decodeTrialResponseToTrialDetails :: "V1GetTrialResponse \<Rightarrow> TrialDetails" where
  "decodeTrialResponseToTrialDetails data =
     (let trialItem = decodeV1TrialToTrialItem (v1r_trial data);
          workloads = map_option (map (\<lambda>ww. \<lparr>
            ww_checkpoint = map_option decodeCheckpointWorkload (v1x_checkpoint ww),
            ww_training = map_option decodeMetricsWorkload (v1x_training ww),
            ww_validation = map_option decodeMetricsWorkload (v1x_validation ww)\<rparr>)) (v1r_workloads data)
      in TrialItem.extend trialItem \<lparr>tr_workloads = (case workloads of Some ws \<Rightarrow> ws | None \<Rightarrow> [])\<rparr>)"

section \<open>Lemmas\<close>

lemma takeWhile_show_nat: "takeWhile is_digit (show_nat n) = show_nat n" "dropWhile is_digit (show_nat n) = []"
  using show_nat_digits [of n] by (simp_all add: takeWhile_eq_all_conv)

lemma show_nat_nonempty: "show_nat n \<noteq> []"
  using parse_show_nat [of n] array_index_show_nat [of n] by (auto simp: array_index_def)

lemma show_nat_hd: "\<exists>c cs. show_nat n = c # cs \<and> is_digit c"
  using show_nat_nonempty [of n] show_nat_digits [of n] by (cases "show_nat n") auto

lemma digit_not_sign: "is_digit c \<Longrightarrow> c \<noteq> CHR ''-'' \<and> c \<noteq> CHR ''+'' \<and> c \<noteq> CHR ''I'' \<and> \<not> is_space c"
  by (auto simp: is_digit_def is_space_def)

lemma parseFloat_show_int [simp]: "parseFloat (show_int i) = Fin (of_int i)"
proof -
  have inf: "\<not> prefix ''Infinity'' (show_nat n)" for n
    using show_nat_hd [of n] by (auto simp: prefix_def is_digit_def)
  have space: "dropWhile is_space (show_int i) = show_int i"
    using show_nat_hd [of "nat i"] digit_not_sign by (auto simp: show_int_def is_space_def)
  have sign: "parse_sign (show_int i) = (if i < 0 then (- 1, show_nat (nat (- i))) else (1, show_nat (nat i)))"
    using show_nat_hd [of "nat i"] digit_not_sign by (auto simp: show_int_def parse_sign_def)
  show ?thesis
    by (simp add: parseFloat_def space sign inf takeWhile_show_nat show_nat_nonempty nat_of_digits_def
        parse_exponent_def)
qed

lemma decode_tables [simp]:
  "decodeExperimentState Sdk_UNSPECIFIED = RunState_Unspecified"
  "decodeExperimentState Sdk_ACTIVE = RunState_Active"
  "decodeExperimentState Sdk_PAUSED = RunState_Paused"
  "decodeExperimentState Sdk_STOPPINGCANCELED = RunState_StoppingCanceled"
  "decodeExperimentState Sdk_STOPPINGCOMPLETED = RunState_StoppingCompleted"
  "decodeExperimentState Sdk_STOPPINGERROR = RunState_StoppingError"
  "decodeExperimentState Sdk_CANCELED = RunState_Canceled"
  "decodeExperimentState Sdk_COMPLETED = RunState_Completed"
  "decodeExperimentState Sdk_ERROR = RunState_Errored"
  "decodeExperimentState Sdk_DELETED = RunState_Deleted"
  by (simp_all add: decodeExperimentState_def experimentStateMap_def)

section \<open>Properties\<close>

text \<open>
  The states of experiments in the API and in the WebUI correspond one to one: encoding a decoded state gives the
  state back and decoding an encoded state too, so that a filter by state asks the server for the states it shows.
\<close>

theorem experiment_state_round_trip:
  "encodeExperimentState (decodeExperimentState s) = s \<and> decodeExperimentState (encodeExperimentState r) = r"
proof
  show "encodeExperimentState (decodeExperimentState s) = s"
    by (cases s) (simp_all add: encodeExperimentState_def experimentStateMap_def obj_keys_def)
  show "decodeExperimentState (encodeExperimentState r) = r"
    by (cases r) (simp_all add: encodeExperimentState_def experimentStateMap_def obj_keys_def)
qed

lemma mset_obj_insert: "mset (obj_insert k v ps) = add_mset (k, v) (mset ps)"
  by (induction ps) (auto split: option.splits)

lemma mset_obj_put_new: "k \<notin> fst ` set ps \<Longrightarrow> mset (obj_put k v ps) = add_mset (k, v) (mset ps)"
  by (simp add: obj_put_def mset_obj_insert)

lemma mset_fold_obj_put:
  "distinct (map fst rs) \<Longrightarrow> fst ` set rs \<inter> fst ` set ps = {} \<Longrightarrow>
   mset (fold (\<lambda>(k, v). obj_put k (f v)) rs ps) = mset ps + mset (map (\<lambda>(k, v). (k, f v)) rs)"
proof (induction rs arbitrary: ps)
  case (Cons r rs)
  obtain k v where r: "r = (k, v)" by (cases r)
  with Cons.prems have "k \<notin> fst ` set ps" "fst ` set rs \<inter> fst ` set (obj_put k (f v) ps) = {}" by auto
  with Cons.prems Cons.IH [of "obj_put k (f v) ps"] show ?case by (simp add: r mset_obj_put_new)
qed simp

lemma foldl_num_add: "foldl num_add (Fin a) (map (\<lambda>x. Fin (f x)) xs) = Fin (a + sum_list (map f xs))"
  by (induction xs arbitrary: a) (simp_all add: add.assoc)

lemma foldl_num_add_mset:
  assumes "mset ns = mset (map (\<lambda>x. Fin (f x)) xs)"
  shows "foldl num_add (Fin 0) ns = Fin (sum_list (map f xs))"
proof -
  define g where "g n = (case n of Fin q \<Rightarrow> q | _ \<Rightarrow> 0)" for n
  have "set ns = (\<lambda>x. Fin (f x)) ` set xs" using assms by (metis list.set_map set_mset_mset)
  then have ns: "ns = map (\<lambda>n. Fin (g n)) ns" by (auto simp: g_def intro!: map_idI [symmetric])
  have "sum_list (map g ns) = sum_mset (image_mset g (mset ns))"
    by (metis mset_map sum_mset_sum_list)
  also have "\<dots> = sum_mset (mset (map f xs))"
    unfolding assms by (simp add: g_def image_mset.compositionality comp_def)
  finally have "sum_list (map g ns) = sum_list (map f xs)" by (simp only: sum_mset_sum_list)
  then show ?thesis using foldl_num_add [of 0 g ns] ns by simp
qed

text \<open>
  The size of a checkpoint is the sum of the sizes of its files: the server sends them as decimal strings, keyed
  by file, and \<open>checkpointSize\<close> of the decoded checkpoint adds the numbers they denote, whatever the order of the keys.
\<close>

theorem checkpoint_size:
  assumes "distinct (map fst files)"
    and "v1p_resources d = Some (map (\<lambda>(file, size). (file, show_int size)) files)"
  shows "checkpointSize (cp_resources (decodeCheckpoint d)) = Fin (sum_list (map (of_int \<circ> snd) files))"
proof -
  have "mset (obj_values (parse_resources (v1p_resources d))) = image_mset snd
      (mset (fold (\<lambda>(k, v). obj_put k (parseFloat v)) (map (\<lambda>(file, size). (file, show_int size)) files) []))"
    by (simp add: parse_resources_def assms(2) obj_values_def)
  also have "\<dots> = mset (map (\<lambda>x. Fin ((of_int \<circ> snd) x)) files)"
    using assms(1) by (subst mset_fold_obj_put)
      (simp_all add: comp_def case_prod_unfold image_mset.compositionality)
  finally show ?thesis
    by (simp add: decodeCheckpoint_def checkpointSize_def foldl_num_add_mset comp_def)
qed

theorem checkpoint_size_witness:
  "checkpointSize (cp_resources (decodeCheckpoint \<lparr>v1p_batchNumber = 1, v1p_endTime = None, v1p_experimentId = 1,
      v1p_resources = Some [(''code/'', ''0''), (''state_dict.pth'', ''1024'')], v1p_searcherMetric = None,
      v1p_startTime = '''', v1p_state = SdkC_COMPLETED, v1p_trialId = 1, v1p_uuid = None\<rparr>)) = Fin 1024"
proof -
  have s: "show_int 0 = ''0''" "show_int 1024 = ''1024''" by code_simp+
  show ?thesis
    by (subst checkpoint_size [of "[(''code/'', 0), (''state_dict.pth'', 1024)]"]) (simp_all add: s)
qed

text \<open>How a decoded resource corresponds to its slot: by the names of the enumerations' members.\<close>

definition slot_matches :: "Resource \<Rightarrow> V1Slot \<Rightarrow> bool" where
  "slot_matches r s =
     (res_id r = v1s_id s \<and> res_enabled r = v1s_enabled s
      \<and> (\<exists>t. res_type r = Some t \<and> ''TYPE_'' @ str_ResourceType t
           = (case Option.bind (v1s_device s) v1d_type of Some d \<Rightarrow> str_DeviceType d | None \<Rightarrow> ''TYPE_UNSPECIFIED''))
      \<and> (case (v1s_container s, res_container r) of
           (None, None) \<Rightarrow> True
         | (Some c, Some rc) \<Rightarrow> cont_id rc = v1c_id c \<and> (case (v1c_state c, cont_state rc) of
               (None, None) \<Rightarrow> True
             | (Some x, Some st) \<Rightarrow> ''STATE_'' @ str_ResourceState st = str_ContainerState x
             | _ \<Rightarrow> False)
         | _ \<Rightarrow> False))"

lemma slot_resource_matches: "slot_matches (slot_resource s) s"
proof -
  have type: "\<exists>t. res_type (slot_resource s) = Some t \<and> ''TYPE_'' @ str_ResourceType t
     = (case Option.bind (v1s_device s) v1d_type of Some d \<Rightarrow> str_DeviceType d | None \<Rightarrow> ''TYPE_UNSPECIFIED'')"
  proof (cases "Option.bind (v1s_device s) v1d_type")
    case (Some d)
    then show ?thesis
      by (cases d) (simp_all add: slot_resource_def ResourceType_members_def toUpperCase_def to_upper_char_def
          is_lower_def)
  qed (simp add: slot_resource_def)
  have state: "\<exists>st. cont_state (slot_container c) = Some st \<and> ''STATE_'' @ str_ResourceState st = str_ContainerState x"
    if "v1c_state c = Some x" for c x
    using that by (cases x) (simp_all add: slot_container_def ResourceState_members_def capitalize_def toUpperCase_def
        toLowerCase_def to_upper_char_def to_lower_char_def is_lower_def is_upper_def charAt_def char_of_def bit_Suc_0_iff)
  have none: "cont_state (slot_container c) = None" if "v1c_state c = None" for c
    using that by (simp add: slot_container_def)
  have fields: "res_id (slot_resource s) = v1s_id s" "res_enabled (slot_resource s) = v1s_enabled s"
    "res_container (slot_resource s) = map_option slot_container (v1s_container s)"
    "cont_id (slot_container c) = v1c_id c" for c
    by (simp_all add: slot_resource_def slot_container_def)
  have "case (v1c_state c, cont_state (slot_container c)) of (None, None) \<Rightarrow> True
      | (Some x, Some st) \<Rightarrow> ''STATE_'' @ str_ResourceState st = str_ContainerState x | _ \<Rightarrow> False" for c
    using state [of c] none [of c] by (cases "v1c_state c") auto
  then show ?thesis using type unfolding slot_matches_def fields by (cases "v1s_container s") (simp_all add: fields)
qed

text \<open>
  Every slot of an agent becomes one resource, in the order of the slots, with the same identifier; its type is the
  member of \<open>ResourceType\<close> with the name of the device's type (\<open>UNSPECIFIED\<close> without a device) and the state of its
  container the member of \<open>ResourceState\<close> of that name.  Neither lookup by name ever misses.
\<close>

theorem agents_decoded:
  assumes "\<forall>agent \<in> set agents. distinct (map fst (the (v1a_slots agent)))"
  shows "list_all2 (\<lambda>a agent. agent_id a = v1a_id agent
      \<and> (case v1a_slots agent of
           None \<Rightarrow> agent_resources a = []
         | Some slots \<Rightarrow> list_all2 slot_matches (agent_resources a) (map snd slots)))
    (jsonToAgents unix agents) agents"
proof -
  have keys: "map (\<lambda>k. slot_resource (the (map_of slots k))) (map fst slots) = map slot_resource (map snd slots)"
    if "distinct (map fst slots)" for slots
    using that by (auto simp: comp_def)
  have ok: "list_all2 slot_matches (map (\<lambda>k. slot_resource (the (map_of slots k))) (map fst slots)) (map snd slots)"
    if "distinct (map fst slots)" for slots
    unfolding keys [OF that] by (simp add: list_all2_map1 list_all2_map2 list_all2_same slot_resource_matches)
  show ?thesis
    using assms ok by (fastforce simp: jsonToAgents_def list_all2_map1 list_all2_same obj_keys_def Let_def
        simp del: map_map split: option.splits)
qed

theorem agents_decoded_witness:
  "\<exists>r. agent_resources (hd (jsonToAgents (\<lambda>_. Fin 0) [\<lparr>v1a_id = ''a'', v1a_registeredTime = '''', v1a_resourcePool = '''',
      v1a_slots = Some [(''0'', \<lparr>v1s_container = None, v1s_device = None, v1s_enabled = True, v1s_id = ''0''\<rparr>)]\<rparr>])) = [r]
     \<and> slot_matches r \<lparr>v1s_container = None, v1s_device = None, v1s_enabled = True, v1s_id = ''0''\<rparr>"
  using agents_decoded [of "[\<lparr>v1a_id = ''a'', v1a_registeredTime = '''', v1a_resourcePool = '''',
      v1a_slots = Some [(''0'', \<lparr>v1s_container = None, v1s_device = None, v1s_enabled = True, v1s_id = ''0''\<rparr>)]\<rparr>]"
      "\<lambda>_. Fin 0"]
  by (auto simp: jsonToAgents_def obj_keys_def list_all2_Cons2)

text \<open>
  The response for an experiment is decoded whenever its configuration conforms to \<open>ioExperimentConfig\<close>, keeping the
  unchanged configuration beside the decoded one; otherwise the \<open>apiBadResponse\<close> error is thrown.
\<close>

theorem experiment_decoded:
  assumes "io_ts dec"
  shows "safe_outcome (conforms ioExperimentConfig config)
      (decodeGetV1ExperimentRespToExperimentBase dec ex config)
    \<and> (decodeGetV1ExperimentRespToExperimentBase dec ex config = Inr base \<longrightarrow>
      eb_configRaw base = config \<and> eb_id base = v1e_id ex
      \<and> encodeExperimentState (eb_state base) = v1e_state ex)"
proof (rule conjI [OF _ impI])
  have wf: "wf_codec ioExperimentConfig"
    by (simp add: ioExperimentConfig_def ioCheckpointStorage_def ioDataLayer_def ioHyperparameters_def ioExpHParam_def
        ioExpResources_def optional_def ioNullOrUndefined_def ioCheckpointStorageType_def)
  show "safe_outcome (conforms ioExperimentConfig config) (decodeGetV1ExperimentRespToExperimentBase dec ex config)"
    unfolding decodeGetV1ExperimentRespToExperimentBase_def
    by (rule io_ts.decode_safe [OF assms])
      (simp add: returns_bind returns_ioToExperimentConfig conforms_strip [OF wf])
  have "encodeExperimentState (decodeExperimentState s) = s" for s
    by (cases s) (simp_all add: encodeExperimentState_def experimentStateMap_def obj_keys_def)
  then show "decodeGetV1ExperimentRespToExperimentBase dec ex config = Inr base \<Longrightarrow>
      eb_configRaw base = config \<and> eb_id base = v1e_id ex \<and> encodeExperimentState (eb_state base) = v1e_state ex"
    by (auto simp: decodeGetV1ExperimentRespToExperimentBase_def bind_exn_Inr_iff)
qed

theorem experiment_decoded_witness:
  "safe_outcome False (decodeGetV1ExperimentRespToExperimentBase io_decode \<lparr>v1e_archived = False, v1e_description = '''',
     v1e_endTime = None, v1e_id = 1, v1e_labels = None, v1e_numTrials = None, v1e_progress = None, v1e_startTime = '''',
     v1e_state = Sdk_ACTIVE, v1e_username = ''''\<rparr> Null)"
  using experiment_decoded [OF io.io_ts_axioms, of Null "\<lparr>v1e_archived = False, v1e_description = '''',
     v1e_endTime = None, v1e_id = 1, v1e_labels = None, v1e_numTrials = None, v1e_progress = None, v1e_startTime = '''',
     v1e_state = Sdk_ACTIVE, v1e_username = ''''\<rparr>"]
  by (simp add: ioExperimentConfig_def)

end
