(* ===== verification/Decoder_Logs.thy ===== *)
theory Decoder_Logs
  imports Decoder
begin

text \<open>
  The log decoders of \<^verbatim>\<open>services/decoder.ts\<close>: logs of the master, of trials and of tasks, and the two regular
  expressions that split a trial's line into time and message.  The expressions are written as matchers: both have
  the flag \<open>m\<close>, so \<open>^\<close> matches at the start of every line and \<open>$\<close> at the end of every line; \<open>[\s\S]*\<close> takes the
  longest text that still leaves a line break followed by the end of a line.  All their other repetitions stop where
  the next character cannot continue them, so that backtracking never finds another match.
\<close>

section \<open>The regular expressions\<close>

text \<open>\<open>([\s\S]*)(\r|\n)$\<close>: the first group.\<close>

fun body_match :: "string \<Rightarrow> string option" where
  "body_match [] = None"
| "body_match (c # cs) = (case body_match cs of
      Some a \<Rightarrow> Some (c # a)
    | None \<Rightarrow> if is_newline c \<and> (cs = [] \<or> is_newline (hd cs)) then Some [] else None)"

text \<open>A single character of a class, or a non-empty run of them: what it takes and the rest.\<close>

definition one :: "(char \<Rightarrow> bool) \<Rightarrow> string \<Rightarrow> string option" where
  "one P s = (case s of [] \<Rightarrow> None | c # cs \<Rightarrow> if P c then Some cs else None)"

definition run :: "(char \<Rightarrow> bool) \<Rightarrow> string \<Rightarrow> (string \<times> string) option" where
  "run P s = (let t = takeWhile P s in if t = [] then None else Some (t, dropWhile P s))"

text \<open>The expression is tried at the start of every line, from the first on.\<close>

fun exec_lines :: "(string \<Rightarrow> 'a option) \<Rightarrow> bool \<Rightarrow> string \<Rightarrow> 'a option" where
  "exec_lines m start [] = (if start then m [] else None)"
| "exec_lines m start (c # cs) = (case (if start then m (c # cs) else None) of
      Some r \<Rightarrow> Some r
    | None \<Rightarrow> exec_lines m (is_newline c) cs)"

text \<open>\<open>\[([^\]]+)\]\s([\s\S]*)(\r|\n)$\<close>: the first two groups.\<close>

definition default_match :: "string \<Rightarrow> (string \<times> string) option" where
  "default_match s =
     Option.bind (one (\<lambda>c. c = CHR ''['') s) (\<lambda>s.
     Option.bind (run (\<lambda>c. c \<noteq> CHR '']'') s) (\<lambda>(time, s).
     Option.bind (one (\<lambda>c. c = CHR '']'') s) (\<lambda>s.
     Option.bind (one is_space s) (\<lambda>s.
     Option.bind (body_match s) (\<lambda>msg. Some (time, msg))))))"

definition defaultRegex :: "string \<Rightarrow> (string \<times> string) option" where
  "defaultRegex s = exec_lines default_match True s"

definition is_hex :: "char \<Rightarrow> bool" where
  "is_hex c = (hex_digit c \<noteq> None)"

text \<open>
  \<open>\s*([0-9a-f]+)\s+(\[[^\]]+\])\s\|\|\s(\S+)\s([\s\S]*)(\r|\n)$\<close>: the first four groups.
\<close>

definition kubernetes_match :: "string \<Rightarrow> (string \<times> string \<times> string \<times> string) option" where
  "kubernetes_match s =
     Option.bind (run is_hex (dropWhile is_space s)) (\<lambda>(hex, s).
     Option.bind (run is_space s) (\<lambda>(_, s).
     Option.bind (one (\<lambda>c. c = CHR ''['') s) (\<lambda>s.
     Option.bind (run (\<lambda>c. c \<noteq> CHR '']'') s) (\<lambda>(inner, s).
     Option.bind (one (\<lambda>c. c = CHR '']'') s) (\<lambda>s.
     Option.bind (one is_space s) (\<lambda>s.
     Option.bind (one (\<lambda>c. c = CHR ''|'') s) (\<lambda>s.
     Option.bind (one (\<lambda>c. c = CHR ''|'') s) (\<lambda>s.
     Option.bind (one is_space s) (\<lambda>s.
     Option.bind (run (\<lambda>c. \<not> is_space c) s) (\<lambda>(time, s).
     Option.bind (one is_space s) (\<lambda>s.
     Option.bind (body_match s) (\<lambda>msg.
       Some (hex, ''['' @ inner @ '']'', time, msg)))))))))))))"

definition kubernetesRegex :: "string \<Rightarrow> (string \<times> string \<times> string \<times> string) option" where
  "kubernetesRegex s = exec_lines kubernetes_match True s"

section \<open>The decoders\<close>

definition LogLevel_members :: "(string \<times> LogLevel) list" where
  "LogLevel_members = [(''Debug'', LogLevel_Debug), (''Error'', LogLevel_Error), (''Info'', LogLevel_Info),
     (''Warning'', LogLevel_Warning)]"

definition log_of_io :: "js \<Rightarrow> failure + Log" where
  "log_of_io entry =
     bind_exn (rd entry ''id'' as_int) (\<lambda>i.
     bind_exn (rd entry ''level'' (opt_as as_str)) (\<lambda>level.
     bind_exn (rd entry ''message'' as_str) (\<lambda>message.
     bind_exn (rd entry ''time'' (opt_as as_str)) (\<lambda>time.
     Inr \<lparr>log_id = i,
          log_level = (case level of Some l \<Rightarrow> map_of LogLevel_members (capitalize l) | None \<Rightarrow> None),
          log_message = message, log_meta = None, log_time = time\<rparr>))))"

definition jsonToLogs :: "(codec \<Rightarrow> js \<Rightarrow> js + js) \<Rightarrow> js \<Rightarrow> failure + Log list" where
  "jsonToLogs dec data = bind_exn (decode_io dec ioLogs data) (arr_of log_of_io)"

text \<open>The result of \<open>ioToTrialLog\<close> for the identifier and the message of a line.\<close>

definition trial_log :: "int \<Rightarrow> string \<Rightarrow> Log" where
  "trial_log i line =
     (let mk = (\<lambda>message time. \<lparr>log_id = i, log_level = None, log_message = message, log_meta = None, log_time = time\<rparr>) in
      case defaultRegex line of
        Some (time, message) \<Rightarrow> mk message (Some time)
      | None \<Rightarrow> (case kubernetesRegex line of
          Some (hex, bracket, time, rest) \<Rightarrow> mk (js_join '' '' [hex, bracket, rest]) (Some time)
        | None \<Rightarrow> mk line None))"

definition ioToTrialLog :: "js \<Rightarrow> failure + Log" where
  "ioToTrialLog io =
     bind_exn (rd io ''id'' as_int) (\<lambda>i.
     bind_exn (rd io ''message'' as_str) (\<lambda>message. Inr (trial_log i message)))"

definition jsonToTrialLog :: "(codec \<Rightarrow> js \<Rightarrow> js + js) \<Rightarrow> js \<Rightarrow> failure + Log" where
  "jsonToTrialLog dec data = bind_exn (decode_io dec ioLog data) ioToTrialLog"

definition jsonToTrialLogs :: "(codec \<Rightarrow> js \<Rightarrow> js + js) \<Rightarrow> js \<Rightarrow> failure + Log list" where
  "jsonToTrialLogs dec data = bind_exn (decode_io dec ioLogs data) (arr_of ioToTrialLog)"

definition ioTaskEventToMessage :: "string \<Rightarrow> string" where
  "ioTaskEventToMessage event = (case defaultRegex event of Some (_, message) \<Rightarrow> message | None \<Rightarrow> event)"

definition task_message :: "js \<Rightarrow> string \<Rightarrow> string \<Rightarrow> failure + string" where
  "task_message entry description parent_id =
     bind_exn (prop_of entry ''scheduled_event'') (\<lambda>scheduled_event.
     bind_exn (prop_of entry ''assigned_event'') (\<lambda>assigned_event.
     bind_exn (prop_of entry ''container_started_event'') (\<lambda>container_started_event.
     bind_exn (prop_of entry ''terminate_request_event'') (\<lambda>terminate_request_event.
     bind_exn (rd entry ''exited_event'' (opt_as as_str)) (\<lambda>exited_event.
     bind_exn (rd entry ''log_event'' (opt_as as_str)) (\<lambda>log_event.
     Inr (if truthy scheduled_event then ''Scheduling '' @ parent_id @ '' (id: '' @ description @ '')...''
          else if truthy assigned_event then description @ '' was assigned to an agent...''
          else if truthy container_started_event then ''Container of '' @ description @ '' has started...''
          else if truthy terminate_request_event then description @ '' was requested to terminate...''
          else case exited_event of
            Some e \<Rightarrow> description @ '' was terminated: '' @ e
          | None \<Rightarrow> (case log_event of Some e \<Rightarrow> ioTaskEventToMessage e | None \<Rightarrow> []))))))))"

definition task_log :: "js \<Rightarrow> failure + Log" where
  "task_log entry =
     bind_exn (rd entry ''snapshot'' (\<lambda>s. rd s ''config'' (\<lambda>c. rd c ''description'' as_str))) (\<lambda>description.
     bind_exn (rd entry ''parent_id'' as_str) (\<lambda>parent_id.
     bind_exn (task_message entry description parent_id) (\<lambda>message.
     bind_exn (rd entry ''seq'' as_int) (\<lambda>seq.
     bind_exn (rd entry ''time'' as_str) (\<lambda>time.
     Inr \<lparr>log_id = seq, log_level = None, log_message = message, log_meta = None, log_time = Some time\<rparr>)))))"

definition is_ready_event :: "js \<Rightarrow> bool" where
  "is_ready_event entry = truthy (get_prop entry ''service_ready_event'')"

definition jsonToTaskLogs :: "(codec \<Rightarrow> js \<Rightarrow> js + js) \<Rightarrow> js \<Rightarrow> failure + Log list" where
  "jsonToTaskLogs dec data = bind_exn (decode_io dec ioTaskLogs data) (\<lambda>io.
     bind_exn (as_arr io) (\<lambda>logs. mapM_exn task_log (filter (\<lambda>entry. \<not> is_ready_event entry) logs)))"

section \<open>Lemmas\<close>

lemma body_match_end: "is_newline n \<Longrightarrow> body_match (msg @ [n]) = Some msg"
  by (induction msg) auto

lemma body_match_Some:
  "body_match s = Some a \<Longrightarrow> \<exists>n b. s = a @ n # b \<and> is_newline n \<and> (b = [] \<or> is_newline (hd b))"
proof (induction s arbitrary: a)
  case (Cons c cs)
  show ?case
  proof (cases "body_match cs")
    case None
    with Cons.prems show ?thesis by (auto split: if_splits)
  next
    case (Some a')
    with Cons.prems have a: "a = c # a'" by simp
    from Cons.IH [OF Some] obtain n b where "cs = a' @ n # b" "is_newline n" "b = [] \<or> is_newline (hd b)" by blast
    then show ?thesis unfolding a by auto
  qed
qed simp

lemma body_match_None:
  "body_match s = None \<longleftrightarrow> (\<forall>a n b. s = a @ n # b \<longrightarrow> is_newline n \<longrightarrow> b \<noteq> [] \<and> \<not> is_newline (hd b))"
proof (induction s)
  case (Cons c cs)
  then show ?case by (auto simp: Cons_eq_append_conv split: option.splits)
qed simp

lemma one_iff: "one P s = Some r \<longleftrightarrow> (\<exists>c. s = c # r \<and> P c)"
  by (cases s) (auto simp: one_def)

lemma run_iff: "run P s = Some (t, r) \<longleftrightarrow>
    s = t @ r \<and> t \<noteq> [] \<and> (\<forall>c \<in> set t. P c) \<and> (r = [] \<or> \<not> P (hd r))"
proof
  assume "run P s = Some (t, r)"
  then show "s = t @ r \<and> t \<noteq> [] \<and> (\<forall>c \<in> set t. P c) \<and> (r = [] \<or> \<not> P (hd r))"
    using hd_dropWhile [of P s] by (auto simp: run_def Let_def dest: set_takeWhileD split: if_splits)
next
  assume a: "s = t @ r \<and> t \<noteq> [] \<and> (\<forall>c \<in> set t. P c) \<and> (r = [] \<or> \<not> P (hd r))"
  then have "takeWhile P r = []" "dropWhile P r = r" by (cases r; simp)+
  with a show "run P s = Some (t, r)"
    by (auto simp: run_def Let_def takeWhile_append2 dropWhile_append2)
qed

lemma exec_lines_start: "m s = Some r \<Longrightarrow> exec_lines m True s = Some r"
  by (cases s) auto

lemma exec_lines_Some:
  "exec_lines m b s = Some r \<Longrightarrow>
   \<exists>pre s'. s = pre @ s' \<and> m s' = Some r \<and> (pre = [] \<and> b \<or> pre \<noteq> [] \<and> is_newline (last pre))"
proof (induction s arbitrary: b)
  case Nil
  then show ?case by (auto split: if_splits)
next
  case (Cons c cs)
  show ?case
  proof (cases "b \<and> m (c # cs) = Some r")
    case True
    then show ?thesis by (intro exI [of _ "[]"] exI [of _ "c # cs"]) auto
  next
    case False
    with Cons.prems have "exec_lines m (is_newline c) cs = Some r"
      by (auto split: if_splits option.splits)
    from Cons.IH [OF this] obtain pre s' where
      "cs = pre @ s'" "m s' = Some r" "pre = [] \<and> is_newline c \<or> pre \<noteq> [] \<and> is_newline (last pre)"
      by blast
    then show ?thesis by (intro exI [of _ "c # pre"] exI [of _ s']) auto
  qed
qed

lemma exec_lines_None: "(\<And>pre s'. s = pre @ s' \<Longrightarrow> m s' = None) \<Longrightarrow> exec_lines m b s = None"
  using exec_lines_Some [of m b s] by (cases "exec_lines m b s") auto

lemma default_match_iff: "default_match s = Some (time, msg) \<longleftrightarrow>
    (\<exists>sp r. s = CHR ''['' # time @ CHR '']'' # sp # r \<and> time \<noteq> [] \<and> CHR '']'' \<notin> set time \<and> is_space sp
       \<and> body_match r = Some msg)"
proof
  assume "default_match s = Some (time, msg)"
  then obtain a b c d where "one (\<lambda>c. c = CHR ''['') s = Some a" "run (\<lambda>c. c \<noteq> CHR '']'') a = Some (time, b)"
    "one (\<lambda>c. c = CHR '']'') b = Some c" "one is_space c = Some d" "body_match d = Some msg"
    by (auto simp: default_match_def Option.bind_eq_Some_conv)
  then show "\<exists>sp r. s = CHR ''['' # time @ CHR '']'' # sp # r \<and> time \<noteq> [] \<and> CHR '']'' \<notin> set time \<and> is_space sp
       \<and> body_match r = Some msg"
    by (auto simp: one_iff run_iff)
next
  assume "\<exists>sp r. s = CHR ''['' # time @ CHR '']'' # sp # r \<and> time \<noteq> [] \<and> CHR '']'' \<notin> set time \<and> is_space sp
       \<and> body_match r = Some msg"
  then obtain sp r where s: "s = CHR ''['' # time @ CHR '']'' # sp # r" "time \<noteq> []" "CHR '']'' \<notin> set time"
    "is_space sp" "body_match r = Some msg" by blast
  then have "run (\<lambda>c. c \<noteq> CHR '']'') (time @ CHR '']'' # sp # r) = Some (time, CHR '']'' # sp # r)"
    by (auto simp: run_iff)
  with s show "default_match s = Some (time, msg)" by (simp add: default_match_def one_def)
qed

lemma default_match_hd: "s = [] \<or> hd s \<noteq> CHR ''['' \<Longrightarrow> default_match s = None"
  by (cases s) (auto simp: default_match_def one_def)

lemma kubernetes_match_line:
  assumes "hex \<noteq> []" "\<forall>c \<in> set hex. is_hex c" "inner \<noteq> []" "CHR '']'' \<notin> set inner"
    "time \<noteq> []" "\<forall>c \<in> set time. \<not> is_space c" "is_newline n"
  shows "kubernetes_match (hex @ '' ['' @ inner @ ''] || '' @ time @ '' '' @ msg @ [n])
    = Some (hex, ''['' @ inner @ '']'', time, msg)"
proof -
  have sp: "is_space CHR '' ''" "\<not> is_space CHR ''[''" "\<not> is_hex CHR '' ''"
    by (simp_all add: is_space_def is_hex_def hex_digit_def to_lower_char_def is_upper_def)
  have hexsp: "\<not> is_space c" if "is_hex c" for c
    using that by (auto simp: is_hex_def hex_digit_def is_space_def to_lower_char_def is_upper_def)
  have "dropWhile is_space (hex @ r) = hex @ r" for r
    using assms(1,2) hexsp by (cases hex) auto
  moreover have "run is_hex (hex @ CHR '' '' # r) = Some (hex, CHR '' '' # r)" for r
    using assms(1,2) sp by (simp add: run_iff)
  moreover have "run is_space (CHR '' '' # CHR ''['' # r) = Some ('' '', CHR ''['' # r)" for r
    using sp by (simp add: run_iff)
  moreover have "run (\<lambda>c. c \<noteq> CHR '']'') (inner @ CHR '']'' # r) = Some (inner, CHR '']'' # r)" for r
    using assms(3,4) by (auto simp: run_iff)
  moreover have "run (\<lambda>c. \<not> is_space c) (time @ CHR '' '' # r) = Some (time, CHR '' '' # r)" for r
    using assms(5,6) sp by (simp add: run_iff)
  ultimately show ?thesis
    using assms(7) by (simp add: kubernetes_match_def one_def sp body_match_end)
qed

lemma defaultRegex_single_line:
  assumes "s \<noteq> []" "hd s \<noteq> CHR ''[''" "\<forall>c \<in> set (butlast s). \<not> is_newline c"
  shows "defaultRegex s = None"
proof (cases "exec_lines default_match True s")
  case (Some r)
  from exec_lines_Some [OF this] obtain pre s' where s: "s = pre @ s'" "default_match s' = Some r"
    and pre: "pre = [] \<or> pre \<noteq> [] \<and> is_newline (last pre)" by blast
  from s(2) have "s' \<noteq> []" "hd s' = CHR ''[''" using default_match_hd [of s'] by auto
  moreover from this pre have "pre \<noteq> [] \<and> is_newline (last pre)" using s(1) assms(2) by auto
  ultimately have "last pre \<in> set (butlast s)" "is_newline (last pre)" using s(1) by (auto simp: butlast_append)
  with assms(3) show ?thesis by blast
qed (simp add: defaultRegex_def)

lemma returns_log_of_io:
  assumes "integral v" "conforms ioLog v"
  shows "returns (log_of_io v)" "returns (ioToTrialLog v)"
proof -
  obtain ps where v: "v = Obj ps" and f: "\<forall>(k, c) \<in> set [(''id'', CNumber), (''level'', optional ioLogLevelType),
      (''message'', CString), (''time'', optional CString)]. conforms c (own ps k)"
    using assms(2) unfolding ioLog_def conforms_CType by blast
  have i: "returns (as_int (own ps ''id''))"
    using f assms(1) integral_own [of ps "''id''"] by (intro returns_as_int) (auto simp: v)
  have lev: "conforms (optional CString) (own ps ''level'')"
    using f by (auto simp: conforms_optional ioLogLevelType_def split: js.splits)
  show "returns (log_of_io v)" using f i returns_opt_str [OF lev]
    by (simp add: v log_of_io_def returns_bind returns_as returns_opt_str del: conforms.simps)
  show "returns (ioToTrialLog v)" using f i
    by (simp add: v ioToTrialLog_def returns_bind returns_as del: conforms.simps)
qed

lemma returns_task_log:
  assumes "integral v" "conforms ioTaskLog v"
  shows "returns (task_log v)"
proof -
  obtain ps where v: "v = Obj ps" and f: "\<forall>(k, c) \<in> set [(''exited_event'', optional CString),
      (''log_event'', optional CString), (''parent_id'', CString), (''seq'', CNumber),
      (''snapshot'', CType [(''config'', CType [(''description'', CString)])]), (''time'', CString)].
      conforms c (own ps k)"
    using assms(2) unfolding ioTaskLog_def conforms_CType by auto
  have "returns (as_int (own ps ''seq''))"
    using f assms(1) integral_own [of ps "''seq''"] by (intro returns_as_int) (auto simp: v)
  moreover have "returns (rd (own ps ''snapshot'') ''config'' (\<lambda>c. rd c ''description'' as_str))"
    using f by (auto simp: conforms_CType returns_as simp del: conforms.simps)
  ultimately show ?thesis using f
    by (simp add: v task_log_def task_message_def returns_bind returns_as returns_opt_str del: conforms.simps)
qed

section \<open>Properties\<close>

text \<open>
  Trial log lines are split as the master prints them.  A line \<open>[time] message\<close> gives back its time and its whole
  message, also one that spans several lines; a line of Kubernetes gives its time, and its container, level and
  message joined by spaces; and whenever a time is extracted the line holds it, in brackets or between white space,
  followed by the message.
\<close>

theorem trial_log_round_trip:
  "(time \<noteq> [] \<and> CHR '']'' \<notin> set time \<and> is_space sp \<and> is_newline n \<longrightarrow>
     log_time (trial_log i (''['' @ time @ '']'' @ [sp] @ msg @ [n])) = Some time
     \<and> log_message (trial_log i (''['' @ time @ '']'' @ [sp] @ msg @ [n])) = msg)
 \<and> (hex \<noteq> [] \<and> (\<forall>c \<in> set hex. is_hex c) \<and> inner \<noteq> [] \<and> CHR '']'' \<notin> set inner \<and> time \<noteq> []
     \<and> (\<forall>c \<in> set time. \<not> is_space c) \<and> (\<forall>c \<in> set (inner @ msg). \<not> is_newline c) \<and> is_newline n \<longrightarrow>
     log_time (trial_log i (hex @ '' ['' @ inner @ ''] || '' @ time @ '' '' @ msg @ [n])) = Some time
     \<and> log_message (trial_log i (hex @ '' ['' @ inner @ ''] || '' @ time @ '' '' @ msg @ [n]))
        = hex @ '' ['' @ inner @ ''] '' @ msg)
 \<and> (defaultRegex line = Some (time, msg) \<longrightarrow>
     (\<exists>pre sp n post. line = pre @ ''['' @ time @ '']'' @ [sp] @ msg @ [n] @ post
       \<and> (pre = [] \<or> is_newline (last pre)) \<and> is_space sp \<and> is_newline n))"
proof (rule conjI [OF impI conjI [OF impI impI]])
  assume "time \<noteq> [] \<and> CHR '']'' \<notin> set time \<and> is_space sp \<and> is_newline n"
  then have "default_match (''['' @ time @ '']'' @ [sp] @ msg @ [n]) = Some (time, msg)"
    by (simp add: default_match_iff body_match_end)
  then have "defaultRegex (''['' @ time @ '']'' @ [sp] @ msg @ [n]) = Some (time, msg)"
    unfolding defaultRegex_def by (rule exec_lines_start)
  then show "log_time (trial_log i (''['' @ time @ '']'' @ [sp] @ msg @ [n])) = Some time
     \<and> log_message (trial_log i (''['' @ time @ '']'' @ [sp] @ msg @ [n])) = msg"
    by (simp add: trial_log_def)
next
  assume "hex \<noteq> [] \<and> (\<forall>c \<in> set hex. is_hex c) \<and> inner \<noteq> [] \<and> CHR '']'' \<notin> set inner \<and> time \<noteq> []
     \<and> (\<forall>c \<in> set time. \<not> is_space c) \<and> (\<forall>c \<in> set (inner @ msg). \<not> is_newline c) \<and> is_newline n"
  then have a: "hex \<noteq> []" "\<forall>c \<in> set hex. is_hex c" "inner \<noteq> []" "CHR '']'' \<notin> set inner" "time \<noteq> []"
    "\<forall>c \<in> set time. \<not> is_space c" "\<forall>c \<in> set (inner @ msg). \<not> is_newline c" "is_newline n"
    by simp_all
  let ?l = "hex @ '' ['' @ inner @ ''] || '' @ time @ '' '' @ msg @ [n]"
  have nl: "\<not> is_newline c" if "is_hex c \<or> \<not> is_space c" for c
    using that by (auto simp: is_hex_def hex_digit_def is_newline_def is_space_def to_lower_char_def is_upper_def)
  have "\<not> is_hex CHR ''[''" by (simp add: is_hex_def hex_digit_def to_lower_char_def is_upper_def)
  then have "hd ?l \<noteq> CHR ''[''" using a(1,2) by (cases hex) auto
  moreover have "butlast ?l = hex @ '' ['' @ inner @ ''] || '' @ time @ '' '' @ msg" by (simp add: butlast_append)
  moreover have "\<forall>c \<in> set (hex @ '' ['' @ inner @ ''] || '' @ time @ '' '' @ msg). \<not> is_newline c"
    using a nl by (auto simp: is_newline_def)
  moreover have "?l \<noteq> []" by simp
  ultimately have "defaultRegex ?l = None" using defaultRegex_single_line [of ?l] by metis
  moreover have "kubernetesRegex ?l = Some (hex, ''['' @ inner @ '']'', time, msg)"
    unfolding kubernetesRegex_def by (rule exec_lines_start, rule kubernetes_match_line) (use a in auto)
  ultimately show "log_time (trial_log i ?l) = Some time
     \<and> log_message (trial_log i ?l) = hex @ '' ['' @ inner @ ''] '' @ msg"
    by (simp add: trial_log_def)
next
  assume "defaultRegex line = Some (time, msg)"
  then have "exec_lines default_match True line = Some (time, msg)" by (simp add: defaultRegex_def)
  from exec_lines_Some [OF this] obtain pre s where l: "line = pre @ s" "pre = [] \<or> is_newline (last pre)"
    and "default_match s = Some (time, msg)" by blast
  then obtain sp r where s: "s = CHR ''['' # time @ CHR '']'' # sp # r" "is_space sp" "body_match r = Some msg"
    by (auto simp: default_match_iff)
  from body_match_Some [OF s(3)] obtain n b where "r = msg @ n # b" "is_newline n" by blast
  with l s show "\<exists>pre sp n post. line = pre @ ''['' @ time @ '']'' @ [sp] @ msg @ [n] @ post
       \<and> (pre = [] \<or> is_newline (last pre)) \<and> is_space sp \<and> is_newline n"
    by (intro exI [of _ pre] exI [of _ sp] exI [of _ n] exI [of _ b]) simp
qed

theorem trial_log_round_trip_witness:
  "log_message (trial_log 1 ''[2020] hello\<newline>'') = ''hello'' \<and> log_time (trial_log 1 ''[2020] hello\<newline>'') = Some ''2020''
   \<and> log_message (trial_log 1 ''0a [RUN] || 11:30 ok\<newline>'') = ''0a [RUN] ok''
   \<and> (\<exists>pre sp n post. ''[2020] hello\<newline>'' = pre @ ''['' @ ''2020'' @ '']'' @ [sp] @ ''hello'' @ [n] @ post
       \<and> (pre = [] \<or> is_newline (last pre)) \<and> is_space sp \<and> is_newline n)"
proof -
  have c: "is_space CHR '' ''" "is_newline CHR ''\<newline>''" "is_hex CHR ''0''" "is_hex CHR ''a''"
    by (simp_all add: is_space_def is_newline_def is_hex_def hex_digit_def to_lower_char_def is_upper_def)
  have "defaultRegex ''[2020] hello\<newline>'' = Some (''2020'', ''hello'')" by code_simp
  moreover note trial_log_round_trip [where time = "''2020''" and sp = "CHR '' ''" and n = "CHR ''\<newline>''" and i = 1
      and msg = "''hello''" and line = "''[2020] hello\<newline>''"]
    trial_log_round_trip [where hex = "''0a''" and inner = "''RUN''" and time = "''11:30''" and msg = "''ok''"
      and n = "CHR ''\<newline>''" and i = 1]
  ultimately show ?thesis
    by (simp add: c is_space_def is_newline_def)
qed

lemma wf_log_codecs: "wf_codec ioLog" "wf_codec ioLogs" "wf_codec ioTaskLog" "wf_codec ioTaskLogs"
  by (simp_all add: ioLog_def ioLogs_def ioTaskLog_def ioTaskLogs_def optional_def ioNullOrUndefined_def
      ioLogLevelType_def)

lemma exact_free_logs: "exact_free ioLog" "exact_free ioLogs" "exact_free ioTaskLogs"
  by (simp_all add: ioLog_def ioLogs_def ioTaskLog_def ioTaskLogs_def optional_def ioNullOrUndefined_def
      ioLogLevelType_def)

lemma returns_arr_of_integral:
  assumes "integral v" "conforms (CArray c) v" "\<And>x. integral x \<Longrightarrow> conforms c x \<Longrightarrow> returns (f x)"
  shows "returns (arr_of f v)"
  using assms by (cases v) (auto simp: arr_of_def typed_simps list_all_iff)

lemma mapM_exn_nth: "mapM_exn f xs = Inr ys \<Longrightarrow> i < length xs \<Longrightarrow> f (xs ! i) = Inr (ys ! i)"
  by (induction xs arbitrary: ys i) (auto simp: bind_exn_Inr_iff nth_Cons split: nat.splits)


lemma logs_safe:
  assumes "io_ts dec" "integral v"
  shows "safe_outcome (conforms ioLogs v) (jsonToLogs dec v)"
    "safe_outcome (conforms ioLogs v) (jsonToTrialLogs dec v)"
    "safe_outcome (conforms ioLog v) (jsonToTrialLog dec v)"
    "safe_outcome (conforms ioTaskLogs v) (jsonToTaskLogs dec v)"
proof -
  note safe = io_ts.decode_safe [OF assms(1)]
  show "safe_outcome (conforms ioLogs v) (jsonToLogs dec v)"
    "safe_outcome (conforms ioLogs v) (jsonToTrialLogs dec v)"
    unfolding jsonToLogs_def jsonToTrialLogs_def
    by (rule safe; simp only: strip_exact_free exact_free_logs,
        rule returns_arr_of_integral [OF assms(2), of ioLog], simp only: ioLogs_def, rule returns_log_of_io; assumption)+
  show "safe_outcome (conforms ioLog v) (jsonToTrialLog dec v)"
    unfolding jsonToTrialLog_def
    by (rule safe) (simp only: strip_exact_free exact_free_logs returns_log_of_io assms(2))
  show "safe_outcome (conforms ioTaskLogs v) (jsonToTaskLogs dec v)"
    unfolding jsonToTaskLogs_def
  proof (rule safe)
    assume ok: "conforms ioTaskLogs v"
    then obtain xs where v: "v = Arr xs" by (cases v) (auto simp: ioTaskLogs_def)
    have "returns (task_log x)" if "x \<in> set xs" for x
      using ok assms(2) that by (intro returns_task_log) (auto simp: v ioTaskLogs_def list_all_iff)
    then show "returns (bind_exn (as_arr (strip ioTaskLogs v))
        (\<lambda>logs. mapM_exn task_log (filter (\<lambda>entry. \<not> is_ready_event entry) logs)))"
      by (simp add: strip_exact_free exact_free_logs v returns_mapM)
  qed
qed

lemma task_log_fields:
  assumes "task_log (Obj ps) = Inr l"
  shows "as_int (own ps ''seq'') = Inr (log_id l)" "own ps ''time'' = Str (the (log_time l))" "log_time l \<noteq> None"
  using assms by (auto simp: task_log_def bind_exn_Inr_iff as_str_Inr)

text \<open>
  The log decoders return for every input that conforms to its codec and carries integer identifiers, and throw the
  \<open>apiBadResponse\<close> error otherwise; decoding keeps the order of the entries, and task logs leave out exactly the
  entries that only announce a ready service.
\<close>

theorem log_decoders:
  assumes "io_ts dec" "integral v"
  shows "safe_outcome (conforms ioLogs v) (jsonToLogs dec v)
    \<and> safe_outcome (conforms ioLogs v) (jsonToTrialLogs dec v)
    \<and> safe_outcome (conforms ioLog v) (jsonToTrialLog dec v)
    \<and> safe_outcome (conforms ioTaskLogs v) (jsonToTaskLogs dec v)
    \<and> (jsonToTaskLogs dec (Arr es) = Inr logs \<longrightarrow>
       map (\<lambda>l. Inr (log_id l)) logs
         = map (\<lambda>e. as_int (get_prop e ''seq'')) (filter (\<lambda>e. \<not> is_ready_event e) es))"
proof (intro conjI impI)
  show "safe_outcome (conforms ioLogs v) (jsonToLogs dec v)"
    "safe_outcome (conforms ioLogs v) (jsonToTrialLogs dec v)"
    "safe_outcome (conforms ioLog v) (jsonToTrialLog dec v)"
    "safe_outcome (conforms ioTaskLogs v) (jsonToTaskLogs dec v)"
    using logs_safe [OF assms] .
  assume r: "jsonToTaskLogs dec (Arr es) = Inr logs"
  then have ok: "conforms ioTaskLogs (Arr es)" "decode dec ioTaskLogs (Arr es) = Inr (Arr es)"
    using io_ts.decode_cases [OF assms(1), of ioTaskLogs "Arr es"]
    by (auto simp: jsonToTaskLogs_def decode_io_def strip_exact_free exact_free_logs bind_exn_Inr_iff simp del: conforms.simps)
  let ?es = "filter (\<lambda>e. \<not> is_ready_event e) es"
  have m: "mapM_exn task_log ?es = Inr logs"
    using r ok(2) by (simp add: jsonToTaskLogs_def decode_io_def)
  show "map (\<lambda>l. Inr (log_id l)) logs = map (\<lambda>e. as_int (get_prop e ''seq'')) ?es"
  proof (rule nth_equalityI)
    show "length (map (\<lambda>l. Inr (log_id l)) logs) = length (map (\<lambda>e. as_int (get_prop e ''seq'')) ?es)"
      using mapM_exn_length [OF m] by simp
  next
    fix i assume "i < length (map (\<lambda>l. Inr (log_id l)) logs)"
    then have i: "i < length logs" "i < length ?es" using mapM_exn_length [OF m] by simp_all
    have "?es ! i \<in> set es" using nth_mem [OF i(2)] by auto
    then have "conforms ioTaskLog (?es ! i)" using ok(1) by (auto simp: ioTaskLogs_def list_all_iff)
    then obtain ps where e: "?es ! i = Obj ps" unfolding ioTaskLog_def conforms_CType by blast
    have "task_log (Obj ps) = Inr (logs ! i)" using mapM_exn_nth [OF m i(2)] e by simp
    from task_log_fields(1) [OF this]
    show "map (\<lambda>l. Inr (log_id l)) logs ! i = map (\<lambda>e. as_int (get_prop e ''seq'')) ?es ! i"
      using i e by (simp add: get_prop_def own_def)
  qed
qed

theorem log_decoders_witness:
  "returns (jsonToTrialLogs io_decode (Arr [Obj [(''id'', Num (Fin 0)), (''message'', Str ''m'')]]))
   \<and> safe_outcome False (jsonToTaskLogs io_decode (Arr [Null]))"
  using log_decoders [OF io.io_ts_axioms, of "Arr [Obj [(''id'', Num (Fin 0)), (''message'', Str ''m'')]]"]
    log_decoders [OF io.io_ts_axioms, of "Arr [Null]"]
  by (simp add: safe_outcome_def ioLogs_def ioLog_def ioTaskLogs_def ioTaskLog_def own_def optional_def ioNullOrUndefined_def)

end
