(* ===== verification/Routes.thy ===== *)
theory Routes
  imports Error_Handler Types_Util
begin

text \<open>
  \<^verbatim>\<open>routes/\<close>: the route table, the addresses the WebUI builds and how it navigates; \<^verbatim>\<open>wait.ts\<close>: the addresses
  of the page that waits for a command.  The build-time settings and the location of the page are the record \<open>Env\<close>;
  navigation is recorded as a list of \<open>Nav\<close> events.  The browser's \<open>URL\<close> and the package \<open>path-to-regexp\<close> are
  arguments, with what their documentation promises as locales.
\<close>

section \<open>The environment\<close>

record Env =
  env_PUBLIC_URL :: string
  env_SERVER_ADDRESS :: string \<comment> \<open>empty when not set\<close>
  env_storedServer :: string \<comment> \<open>\<open>globalStorage.serverAddress\<close>\<close>
  env_protocol :: string \<comment> \<open>\<open>window.location.protocol\<close>\<close>
  env_host :: string \<comment> \<open>\<open>window.location.host\<close>\<close>
  env_location :: js \<comment> \<open>\<open>window.location\<close>\<close>

record Url =
  url_href :: string
  url_origin :: string
  url_pathname :: string

datatype Nav =
    OpenBlank string string \<comment> \<open>address and window features\<close>
  | Assign string
  | Push string js

section \<open>The route table\<close>

record RouteConfig =
  route_icon :: "string option"
  route_id :: string
  route_needAuth :: "bool option"
  route_path :: string
  route_redirect :: "string option"
  route_title :: "string option"

definition mk_route :: "string option \<Rightarrow> string \<Rightarrow> bool \<Rightarrow> string \<Rightarrow> string option \<Rightarrow> RouteConfig" where
  "mk_route icon i auth path title = \<lparr>route_icon = icon, route_id = i, route_needAuth = Some auth,
     route_path = path, route_redirect = None, route_title = title\<rparr>"

definition routes :: "RouteConfig list" where
  "routes = [
     mk_route None ''trialLogs'' True ''/experiments/:experimentId/trials/:trialId/logs'' (Some ''Trial Logs''),
     mk_route None ''trialLogs'' True ''/trials/:trialId/logs'' (Some ''Trial Logs''),
     mk_route None ''trialDetails'' True ''/experiments/:experimentId/trials/:trialId'' (Some ''Trial''),
     mk_route None ''trialDetails'' True ''/trials/:trialId'' (Some ''Trial''),
     mk_route None ''experimentDetailPage'' True ''/experiments/:experimentId/hp/:tab/:viz'' (Some ''Experiment''),
     mk_route None ''experimentDetailPage'' True ''/experiments/:experimentId/hp/:tab'' (Some ''Experiment''),
     mk_route None ''experimentDetailPage'' True ''/experiments/:experimentId/hp'' (Some ''Experiment''),
     mk_route None ''experimentDetails'' True ''/experiments/:experimentId'' (Some ''Experiment''),
     mk_route (Some ''logs'') ''taskLogs'' True ''/:taskType/:taskId/logs'' (Some ''Task Logs''),
     mk_route (Some ''tasks'') ''taskList'' True ''/tasks'' (Some ''Tasks''),
     mk_route (Some ''experiment'') ''experimentList'' True ''/experiments'' (Some ''Experiments''),
     mk_route (Some ''cluster'') ''cluster'' True ''/cluster'' (Some ''Cluster''),
     mk_route (Some ''cluster'') ''hgiCluster'' True ''/hgicluster'' (Some ''Cluster''),
     mk_route (Some ''logs'') ''masterLogs'' True ''/logs'' (Some ''Master Logs''),
     mk_route (Some ''user'') ''dashboard'' True ''/dashboard'' (Some ''Dashboard''),
     mk_route None ''wait'' True ''/wait/:taskType/:taskId'' None,
     mk_route None ''signIn'' False ''/login'' (Some ''Login''),
     mk_route None ''signOut'' False ''/logout'' (Some ''Logout'')]"

text \<open>The components are named by the module they come from.\<close>

definition routeComponentMap :: "(string \<times> string) list" where
  "routeComponentMap = [
     (''cluster'', ''Cluster''),
     (''dashboard'', ''Dashboard''),
     (''experimentDetailPage'', ''ExperimentDetailPage''),
     (''experimentDetails'', ''ExperimentDetails''),
     (''experimentList'', ''ExperimentList''),
     (''hgiCluster'', ''HGICluster''),
     (''masterLogs'', ''MasterLogs''),
     (''signIn'', ''SignIn''),
     (''signOut'', ''SignOut''),
     (''taskList'', ''TaskList''),
     (''taskLogs'', ''TaskLogs''),
     (''trialDetails'', ''TrialDetails''),
     (''trialLogs'', ''TrialLogs''),
     (''wait'', ''Wait'')]"

definition defaultRouteId :: string where
  "defaultRouteId = ''dashboard''"

record AppRoute = RouteConfig +
  route_component :: "string option"

definition with_component :: "RouteConfig \<Rightarrow> AppRoute result" where
  "with_component route = (case map_of routeComponentMap (route_id route) of
      None \<Rightarrow> Inl (JsError (''Missing route component for '' @ route_id route))
    | Some c \<Rightarrow> Inr (RouteConfig.extend route \<lparr>route_component = Some c\<rparr>))"

definition defaultRoute :: "AppRoute list \<Rightarrow> AppRoute option" where
  "defaultRoute rs = find (\<lambda>route. route_id route = defaultRouteId) rs"

definition appRoutes :: "AppRoute list result" where
  "appRoutes = bind_exn (mapM_exn with_component routes) (\<lambda>rs.
     case defaultRoute rs of
       None \<Rightarrow> Inl TypeError
     | Some d \<Rightarrow> Inr (rs @ [\<lparr>route_icon = None, route_id = ''catch-all'', route_needAuth = None,
         route_path = ''*'', route_redirect = Some (route_path d), route_title = None, route_component = None\<rparr>]))"

section \<open>Addresses\<close>

definition isFullPath :: "string \<Rightarrow> bool" where
  "isFullPath url = prefix ''http'' url"

definition isAbsolutePath :: "string \<Rightarrow> bool" where
  "isAbsolutePath url = prefix ''/'' url"

definition ensureAbsolutePath :: "string \<Rightarrow> string" where
  "ensureAbsolutePath url = (if isAbsolutePath url then url else ''/'' @ url)"

definition reactHostAddress :: "Env \<Rightarrow> string" where
  "reactHostAddress env = env_protocol env @ ''//'' @ env_host env"

definition serverAddress :: "Env \<Rightarrow> string \<Rightarrow> string" where
  "serverAddress env path =
     (if path \<noteq> [] \<and> isFullPath path then path
      else
        (let customServer = (if env_storedServer env \<noteq> [] then env_storedServer env else env_SERVER_ADDRESS env)
         in (if customServer \<noteq> [] then customServer else reactHostAddress env) @ path))"

text \<open>
  \<open>window.location.origin\<close> is the address of the host.  The absolute path that \<open>parseUrl\<close> computes first is
  overwritten by the next assignment.
\<close>

definition parseUrl :: "(string \<Rightarrow> Url result) \<Rightarrow> Env \<Rightarrow> string \<Rightarrow> Url result" where
  "parseUrl URL env url =
     (let cleanUrl = (if \<not> isFullPath url
        then (let _ = ensureAbsolutePath url in reactHostAddress env @ url) else url)
      in URL cleanUrl)"

definition locationToPath :: "js \<Rightarrow> string option" where
  "locationToPath location =
     (if \<not> truthy location \<or> \<not> truthy (get_prop location ''pathname'') then None
      else Some (js_str (get_prop location ''pathname'') @ js_str (get_prop location ''search'')
                 @ js_str (get_prop location ''hash'')))"

definition windowOpenFeatures :: "string list" where
  "windowOpenFeatures = [''noopener'', ''noreferrer'']"

definition openBlank :: "string \<Rightarrow> Nav list" where
  "openBlank url = [OpenBlank url (js_join '','' windowOpenFeatures)]"

definition linkPath :: "Env \<Rightarrow> string \<Rightarrow> bool \<Rightarrow> string" where
  "linkPath env aPath external =
     (if isFullPath aPath then aPath
      else if external then (if isAbsolutePath aPath then serverAddress env [] @ aPath else aPath)
      else env_PUBLIC_URL env @ aPath)"

definition trialDetails_path :: "int \<Rightarrow> int \<Rightarrow> string" where
  "trialDetails_path trialId experimentId =
     ''/experiments/'' @ show_int experimentId @ ''/trials/'' @ show_int trialId"

section \<open>Navigation\<close>

definition stripUrl :: "(string \<Rightarrow> Url result) \<Rightarrow> Env \<Rightarrow> string \<Rightarrow> string result" where
  "stripUrl URL env aUrl = bind_exn (parseUrl URL env aUrl) (\<lambda>url.
     let rest = replace_first (url_origin url) '''' (url_href url) in
     Inr (if prefix (env_PUBLIC_URL env) rest then replace_first (env_PUBLIC_URL env) '''' rest else rest))"

definition findReactRoute ::
  "(string \<Rightarrow> string \<Rightarrow> bool) \<Rightarrow> (string \<Rightarrow> Url result) \<Rightarrow> Env \<Rightarrow> string \<Rightarrow> RouteConfig option result" where
  "findReactRoute regexp_test URL env url =
     (if isFullPath url \<and> \<not> prefix (reactHostAddress env) url then Inr None
      else
        (let url = (if isFullPath url then replace_first (reactHostAddress env) '''' url else url) in
         bind_exn (parseUrl URL env url) (\<lambda>u.
           let pathname = replace_first (env_PUBLIC_URL env) '''' (url_pathname u) in
           Inr (find (\<lambda>route. regexp_test (route_path route) pathname)
                 (filter (\<lambda>route. route_path route \<noteq> ''*'') routes)))))"

definition routeToExternalUrl :: "string \<Rightarrow> Nav list" where
  "routeToExternalUrl path = [Assign path]"

definition routeAll ::
  "(string \<Rightarrow> string \<Rightarrow> bool) \<Rightarrow> (string \<Rightarrow> Url result) \<Rightarrow> Env \<Rightarrow> string \<Rightarrow> Nav list result" where
  "routeAll regexp_test URL env path = bind_exn (findReactRoute regexp_test URL env path) (\<lambda>r.
     case r of
       None \<Rightarrow> Inr (routeToExternalUrl path)
     | Some _ \<Rightarrow> bind_exn (stripUrl URL env path) (\<lambda>p.
         bind_exn (clone (env_location env) True) (\<lambda>l.
         Inr [Push p (Obj [(''loginRedirect'', l)])])))"

record ClickEvent =
  click_button :: int
  click_metaKey :: bool
  click_ctrlKey :: bool

record 'a PathOptions =
  po_external :: bool
  po_onClick :: "'a option" \<comment> \<open>what the given handler does\<close>
  po_path :: "string option"
  po_popout :: bool

text \<open>The events that a click handler adds are the result; a handler of the caller is its list of events.\<close>

definition handlePath ::
  "(string \<Rightarrow> string \<Rightarrow> bool) \<Rightarrow> (string \<Rightarrow> Url result) \<Rightarrow> Env \<Rightarrow> ClickEvent \<Rightarrow> Nav list PathOptions \<Rightarrow> Nav list result" where
  "handlePath regexp_test URL env event options =
     (let href = (case po_path options of
            Some p \<Rightarrow> if p \<noteq> [] then linkPath env p (po_external options) else []
          | None \<Rightarrow> [])
      in case po_onClick options of
           Some nav \<Rightarrow> Inr nav
         | None \<Rightarrow>
             if href \<noteq> [] then
               (if click_button event = 1 \<or> click_metaKey event \<or> click_ctrlKey event \<or> po_popout options
                then Inr (openBlank href) else routeAll regexp_test URL env href)
             else Inr [])"

section \<open>Waiting for a command\<close>

datatype AnyCommand = ACommand Command | ACommandTask CommandTask

fun wc_kind :: "AnyCommand \<Rightarrow> CommandType" where
  "wc_kind (ACommand c) = cmd_kind c"
| "wc_kind (ACommandTask t) = ct_type t"

fun wc_id :: "AnyCommand \<Rightarrow> string" where
  "wc_id (ACommand c) = cmd_id c"
| "wc_id (ACommandTask t) = task_id t"

fun wc_serviceAddress :: "AnyCommand \<Rightarrow> string option" where
  "wc_serviceAddress (ACommand c) = cmd_serviceAddress c"
| "wc_serviceAddress (ACommandTask t) = task_serviceAddress t"

text \<open>\<open>/^https?:\/\//i\<close> and \<open>s.replace(/^http/, 'ws')\<close>.\<close>

definition is_full_url :: "string \<Rightarrow> bool" where
  "is_full_url s = (prefix ''http://'' (toLowerCase s) \<or> prefix ''https://'' (toLowerCase s))"

definition http_to_ws :: "string \<Rightarrow> string" where
  "http_to_ws s = (if prefix ''http'' s then ''ws'' @ drop 4 s else s)"

definition createWsUrl :: "Env \<Rightarrow> string \<Rightarrow> string" where
  "createWsUrl env eventUrl =
     (if is_full_url eventUrl then http_to_ws eventUrl
      else
        (let eventUrl = (if prefix ''/'' eventUrl then drop 1 eventUrl else eventUrl)
         in http_to_ws (env_protocol env) @ ''//'' @ env_host env @ ''/'' @ eventUrl))"

definition commandToEventUrl :: "Env \<Rightarrow> AnyCommand \<Rightarrow> string" where
  "commandToEventUrl env command =
     (let path = (case wc_kind command of
            CommandType_Notebook \<Rightarrow> ''/notebooks/'' @ wc_id command @ ''/events''
          | CommandType_Tensorboard \<Rightarrow> ''/tensorboard/'' @ wc_id command @ ''/events?tail=1''
          | _ \<Rightarrow> [])
      in if path \<noteq> [] then serverAddress env [] @ path else path)"

definition waitPageUrl :: "Env \<Rightarrow> AnyCommand \<Rightarrow> string result" where
  "waitPageUrl env command =
     (let url = commandToEventUrl env command in
      case wc_serviceAddress command of
        None \<Rightarrow> Inl (JsError ''command cannot be opened'')
      | Some addr \<Rightarrow>
          if url = [] \<or> addr = [] then Inl (JsError ''command cannot be opened'')
          else Inr (env_PUBLIC_URL env @ ''/wait/'' @ toLowerCase (str_CommandType (wc_kind command)) @ ''/''
                    @ wc_id command @ ''?eventUrl='' @ url @ ''&serviceAddr='' @ addr))"

definition openCommand :: "Env \<Rightarrow> AnyCommand \<Rightarrow> Nav list result" where
  "openCommand env command = bind_exn (waitPageUrl env command) (\<lambda>u. Inr (openBlank u))"

section \<open>The browser and the route matcher\<close>

text \<open>Addresses that \<open>URL\<close> takes as they are: no character is encoded, no port dropped, no segment resolved.\<close>

definition plain_origin :: "string \<Rightarrow> bool" where
  "plain_origin s = (prefix ''http://'' s \<and> takeWhile is_lower (drop 7 s) \<noteq> []
     \<and> dropWhile is_lower (drop 7 s) \<in> {'''', '':3000'', '':8080''})"

definition plain_char :: "char \<Rightarrow> bool" where
  "plain_char c = (is_lower c \<or> is_upper c \<or> is_digit c \<or> c \<in> set ''/-_?=&'')"

definition plain_path :: "string \<Rightarrow> bool" where
  "plain_path p = (p \<noteq> [] \<and> hd p = CHR ''/'' \<and> list_all plain_char p)"

locale url_api =
  fixes URL :: "string \<Rightarrow> Url result"
  assumes URL_plain: "plain_origin orig \<Longrightarrow> plain_path p \<Longrightarrow>
    URL (orig @ p) = Inr \<lparr>url_href = orig @ p, url_origin = orig, url_pathname = takeWhile (\<lambda>c. c \<noteq> CHR ''?'') p\<rparr>"

text \<open>An \<open>URL\<close> for such addresses.\<close>

definition simple_URL :: "string \<Rightarrow> Url result" where
  "simple_URL s =
     (if prefix ''http://'' s then
        (let orig = ''http://'' @ takeWhile (\<lambda>c. c \<noteq> CHR ''/'') (drop 7 s);
             path = dropWhile (\<lambda>c. c \<noteq> CHR ''/'') (drop 7 s)
         in Inr \<lparr>url_href = s, url_origin = orig, url_pathname = takeWhile (\<lambda>c. c \<noteq> CHR ''?'') path\<rparr>)
      else Inl TypeError)"

lemma plain_origin_host: "plain_origin s \<Longrightarrow> \<exists>h. s = ''http://'' @ h \<and> CHR ''/'' \<notin> set h"
proof -
  assume a: "plain_origin s"
  then obtain h where s: "s = ''http://'' @ h" by (auto simp: plain_origin_def prefix_def)
  have low: "\<forall>c \<in> set (takeWhile is_lower h). c \<noteq> CHR ''/''"
    by (auto dest!: set_takeWhileD simp: is_lower_def)
  define port where "port = dropWhile is_lower h"
  with a have "port \<in> {'''', '':3000'', '':8080''}" by (simp add: s plain_origin_def)
  then have "CHR ''/'' \<notin> set (dropWhile is_lower h)" unfolding port_def [symmetric] by auto
  moreover have "set h = set (takeWhile is_lower h) \<union> set (dropWhile is_lower h)"
    by (metis set_append takeWhile_dropWhile_id)
  ultimately have "CHR ''/'' \<notin> set h" using low by blast
  with s show ?thesis by blast
qed

interpretation simple: url_api simple_URL
proof
  fix orig p
  assume "plain_origin orig" "plain_path p"
  from this(2) have "hd p = CHR ''/''" "p \<noteq> []" by (simp_all add: plain_path_def)
  then have p: "takeWhile (\<lambda>c. c \<noteq> CHR ''/'') p = []" "dropWhile (\<lambda>c. c \<noteq> CHR ''/'') p = p" by (cases p; simp)+
  obtain h where h: "orig = ''http://'' @ h" "\<forall>c \<in> set h. c \<noteq> CHR ''/''"
    using plain_origin_host [OF \<open>plain_origin orig\<close>] by blast
  from h(2) p have "takeWhile (\<lambda>c. c \<noteq> CHR ''/'') (h @ p) = h" "dropWhile (\<lambda>c. c \<noteq> CHR ''/'') (h @ p) = p"
    by (simp_all add: takeWhile_append2 dropWhile_append2)
  then show "simple_URL (orig @ p)
      = Inr \<lparr>url_href = orig @ p, url_origin = orig, url_pathname = takeWhile (\<lambda>c. c \<noteq> CHR ''?'') p\<rparr>"
    by (simp add: simple_URL_def h(1) Let_def)
qed

text \<open>
  Matching a pattern of literal segments and named parameters: segment by segment, ignoring case, with an optional
  final delimiter.
\<close>

fun seg_ok :: "string \<Rightarrow> string \<Rightarrow> bool" where
  "seg_ok p s = (if prefix '':'' p then s \<noteq> [] \<and> list_all (\<lambda>c. c \<notin> set ''#?'') s
                 else toLowerCase p = toLowerCase s)"

definition trim_end :: "string \<Rightarrow> string" where
  "trim_end s = (if s \<noteq> [] \<and> last s \<in> set ''/#?'' then butlast s else s)"

definition seg_match :: "string \<Rightarrow> string \<Rightarrow> bool" where
  "seg_match pat path = list_all2 seg_ok (js_split ''/'' pat) (js_split ''/'' (trim_end path))"

locale path_to_regexp =
  fixes regexp_test :: "string \<Rightarrow> string \<Rightarrow> bool"
  assumes test_route: "pat \<in> route_path ` set routes \<Longrightarrow> regexp_test pat path = seg_match pat path"

interpretation segs: path_to_regexp seg_match
  by unfold_locales simp

text \<open>The route that a pathname belongs to.\<close>

definition route_for :: "string \<Rightarrow> RouteConfig option" where
  "route_for pathname = find (\<lambda>r. seg_match (route_path r) pathname) routes"

locale navigation = url_api URL + path_to_regexp regexp_test
  for URL :: "string \<Rightarrow> Url result" and regexp_test :: "string \<Rightarrow> string \<Rightarrow> bool" +
  fixes env :: Env
  assumes host: "plain_origin (reactHostAddress env)" and base: "plain_path (env_PUBLIC_URL env)"
begin

lemma no_star: "filter (\<lambda>route. route_path route \<noteq> ''*'') routes = routes"
  by (simp add: routes_def mk_route_def)

lemma replace_prefix: "p \<noteq> [] \<Longrightarrow> replace_first p '''' (p @ s) = s"
  by (cases p) auto

lemma find_routes: "find (\<lambda>route. regexp_test (route_path route) pn) routes = route_for pn"
  unfolding route_for_def by (rule find_cong) (simp_all add: test_route)

lemma not_full: "plain_path p \<Longrightarrow> \<not> isFullPath p"
  by (cases p) (auto simp: plain_path_def isFullPath_def)

lemma plain_append: "plain_path p \<Longrightarrow> plain_path (env_PUBLIC_URL env @ p)"
  using base by (auto simp: plain_path_def)

lemma parse_link: "plain_path p \<Longrightarrow> parseUrl URL env p = Inr \<lparr>url_href = reactHostAddress env @ p,
    url_origin = reactHostAddress env, url_pathname = takeWhile (\<lambda>c. c \<noteq> CHR ''?'') p\<rparr>"
  using URL_plain [OF host] not_full by (simp add: parseUrl_def)

lemma strip_link: "plain_path p \<Longrightarrow> CHR ''?'' \<notin> set (env_PUBLIC_URL env) \<Longrightarrow>
    stripUrl URL env (linkPath env p False) = Inr p"
proof -
  assume p: "plain_path p"
  have "reactHostAddress env \<noteq> []" "env_PUBLIC_URL env \<noteq> []"
    using host base by (auto simp: plain_origin_def plain_path_def)
  then show ?thesis
    using parse_link [OF plain_append [OF p]] not_full [OF p]
    by (simp add: linkPath_def stripUrl_def replace_prefix)
qed

lemma find_link: "plain_path p \<Longrightarrow> CHR ''?'' \<notin> set (env_PUBLIC_URL env) \<Longrightarrow>
    findReactRoute regexp_test URL env (linkPath env p False) = Inr (route_for (takeWhile (\<lambda>c. c \<noteq> CHR ''?'') p))"
proof -
  assume p: "plain_path p" and q: "CHR ''?'' \<notin> set (env_PUBLIC_URL env)"
  have pn: "takeWhile (\<lambda>c. c \<noteq> CHR ''?'') (env_PUBLIC_URL env @ p)
      = env_PUBLIC_URL env @ takeWhile (\<lambda>c. c \<noteq> CHR ''?'') p"
    using q by (intro takeWhile_append2) auto
  have "env_PUBLIC_URL env \<noteq> []" using base by (auto simp: plain_path_def)
  then show ?thesis
    using parse_link [OF plain_append [OF p]] not_full [OF p] not_full [OF plain_append [OF p]] pn
    by (simp add: linkPath_def findReactRoute_def no_star find_routes replace_prefix)
qed

end

text \<open>The addresses of the development server.\<close>

definition dev_env :: Env where
  "dev_env = \<lparr>env_PUBLIC_URL = ''/det'', env_SERVER_ADDRESS = '''', env_storedServer = '''', env_protocol = ''http:'',
     env_host = ''localhost:3000'', env_location = Obj []\<rparr>"

interpretation dev: navigation simple_URL seg_match dev_env
proof
  show "plain_origin (reactHostAddress dev_env)" "plain_path (env_PUBLIC_URL dev_env)" by code_simp+
qed

section \<open>Properties\<close>

text \<open>
  A link of the WebUI leads where it says.  On a page served from a plain address, following the link made from a
  path pushes exactly that path onto the history when its pathname belongs to a route of the table, with the base path
  of the application and the host removed again, and otherwise loads the address from the server.
\<close>

theorem link_round_trip:
  assumes "url_api URL" "path_to_regexp test" and "plain_origin (reactHostAddress env)"
    and "plain_path (env_PUBLIC_URL env)" "CHR ''?'' \<notin> set (env_PUBLIC_URL env)" and "plain_path p"
  shows "routeAll test URL env (linkPath env p False) =
    (case route_for (takeWhile (\<lambda>c. c \<noteq> CHR ''?'') p) of
       Some _ \<Rightarrow> bind_exn (clone (env_location env) True) (\<lambda>l. Inr [Push p (Obj [(''loginRedirect'', l)])])
     | None \<Rightarrow> Inr [Assign (env_PUBLIC_URL env @ p)])"
proof -
  have n: "navigation URL test env" using assms(1-4) by (simp add: navigation_def navigation_axioms_def)
  show ?thesis
    using navigation.find_link [OF n assms(6,5)] navigation.strip_link [OF n assms(6,5)]
      navigation.not_full [OF n assms(6)]
    by (simp add: routeAll_def routeToExternalUrl_def linkPath_def split: option.splits)
qed

theorem link_round_trip_witness:
  "routeAll seg_match simple_URL dev_env (linkPath dev_env ''/experiments/3?tab=1'' False)
     = Inr [Push ''/experiments/3?tab=1'' (Obj [(''loginRedirect'', Obj [])])]"
proof -
  have c: "plain_origin (reactHostAddress dev_env)" "plain_path (env_PUBLIC_URL dev_env)"
    "plain_path ''/experiments/3?tab=1''" "CHR ''?'' \<notin> set (env_PUBLIC_URL dev_env)"
    by code_simp+
  have r: "\<exists>r. route_for (takeWhile (\<lambda>c. c \<noteq> CHR ''?'') ''/experiments/3?tab=1'') = Some r"
    by (intro exI [of _ "mk_route None ''experimentDetails'' True ''/experiments/:experimentId'' (Some ''Experiment'')"])
      code_simp
  have "clone (env_location dev_env) True = Inr (Obj [])" by code_simp
  with r show ?thesis
    using link_round_trip [OF simple.url_api_axioms segs.path_to_regexp_axioms c(1,2,4,3)] by auto
qed

text \<open>
  The application's routes are complete: every route of the table has a component, so building the routes does
  not throw; the last route catches every other address and redirects it to the dashboard, which exists; and only
  the pages that sign in and out can be seen without authentication.
\<close>

theorem app_routes_complete:
  "\<exists>rs. appRoutes = Inr rs \<and> length rs = Suc (length routes)
     \<and> route_path (last rs) = ''*'' \<and> route_redirect (last rs) = Some ''/dashboard''
     \<and> map route_path (butlast rs) = map route_path routes
     \<and> list_all (\<lambda>r. route_component r \<noteq> None) (butlast rs)
     \<and> filter (\<lambda>p. p \<in> set (map route_path (filter (\<lambda>r. route_needAuth r \<noteq> Some True) routes))) (map route_path routes)
        = [''/login'', ''/logout'']"
  by (simp add: appRoutes_def routes_def mk_route_def with_component_def routeComponentMap_def defaultRoute_def
      defaultRouteId_def RouteConfig.defs)

lemma js_split_slash: "CHR ''/'' \<notin> set s \<Longrightarrow> js_split ''/'' (s @ CHR ''/'' # r) = s # js_split ''/'' r"
  "CHR ''/'' \<notin> set s \<Longrightarrow> js_split ''/'' s = [s]"
  by (simp_all add: js_split_sep js_split_end)

lemma show_int_chars: "c \<in> set (show_int i) \<Longrightarrow> is_digit c \<or> c = CHR ''-''"
  using show_nat_digits by (auto simp: show_int_def split: if_splits)

lemma show_int_plain: "c \<in> set ''/#?'' \<Longrightarrow> c \<notin> set (show_int i)" "show_int i \<noteq> []"
proof -
  show "c \<in> set ''/#?'' \<Longrightarrow> c \<notin> set (show_int i)"
    using show_int_chars [of c i] by (auto simp: is_digit_def)
  show "show_int i \<noteq> []" using array_index_show_nat [of "nat i"] by (auto simp: show_int_def array_index_def)
qed

lemma split_trial_path:
  "js_split ''/'' (trim_end (trialDetails_path t e)) = ['''', ''experiments'', show_int e, ''trials'', show_int t]"
proof -
  have last: "last (trialDetails_path t e) \<notin> set ''/#?''"
  proof -
    have "last (trialDetails_path t e) = last (show_int t)"
      using show_int_plain(2) [of t] by (simp add: trialDetails_path_def)
    then show ?thesis using last_in_set [OF show_int_plain(2) [of t]] show_int_plain(1) by metis
  qed
  have no: "CHR ''/'' \<notin> set (show_int i)" for i using show_int_plain(1) [of "CHR ''/''" i] by simp
  have path: "trialDetails_path t e
      = '''' @ CHR ''/'' # (''experiments'' @ CHR ''/'' # (show_int e @ CHR ''/'' # (''trials'' @ CHR ''/'' # show_int t)))"
    by (simp add: trialDetails_path_def)
  have steps: "js_split ''/'' ('''' @ CHR ''/'' # r) = '''' # js_split ''/'' r"
    "js_split ''/'' (''experiments'' @ CHR ''/'' # r) = ''experiments'' # js_split ''/'' r"
    "js_split ''/'' (''trials'' @ CHR ''/'' # r) = ''trials'' # js_split ''/'' r"
    "js_split ''/'' (show_int i @ CHR ''/'' # r) = show_int i # js_split ''/'' r"
    "js_split ''/'' (show_int i) = [show_int i]" for r i
    by (rule js_split_slash(1), simp)+ (simp_all only: js_split_slash no not_False_eq_True)
  have "js_split ''/'' (trialDetails_path t e) = ['''', ''experiments'', show_int e, ''trials'', show_int t]"
    unfolding path steps ..
  with last show ?thesis by (simp add: trim_end_def)
qed

lemma seg_ok_int: "seg_ok '':experimentId'' (show_int i)" "seg_ok '':trialId'' (show_int i)"
  using show_int_plain(1) [of _ i] show_int_plain(2) [of i] by (auto simp: list_all_iff)

lemma split_routes: "map (\<lambda>r. js_split ''/'' (route_path r)) routes = [
    ['''', ''experiments'', '':experimentId'', ''trials'', '':trialId'', ''logs''],
    ['''', ''trials'', '':trialId'', ''logs''],
    ['''', ''experiments'', '':experimentId'', ''trials'', '':trialId''],
    ['''', ''trials'', '':trialId''],
    ['''', ''experiments'', '':experimentId'', ''hp'', '':tab'', '':viz''],
    ['''', ''experiments'', '':experimentId'', ''hp'', '':tab''],
    ['''', ''experiments'', '':experimentId'', ''hp''],
    ['''', ''experiments'', '':experimentId''],
    ['''', '':taskType'', '':taskId'', ''logs''],
    ['''', ''tasks''], ['''', ''experiments''], ['''', ''cluster''], ['''', ''hgicluster''], ['''', ''logs''],
    ['''', ''dashboard''], ['''', ''wait'', '':taskType'', '':taskId''], ['''', ''login''], ['''', ''logout'']]"
  by code_simp

lemma find_nth: "i < length xs \<Longrightarrow> P (xs ! i) \<Longrightarrow> \<forall>j < i. \<not> P (xs ! j) \<Longrightarrow> find P xs = Some (xs ! i)"
  by (simp add: find_Some_iff) blast

lemma seg_match_nth:
  "i < length routes \<Longrightarrow> seg_match (route_path (routes ! i)) path
     = list_all2 seg_ok (map (\<lambda>r. js_split ''/'' (route_path r)) routes ! i) (js_split ''/'' (trim_end path))"
  by (simp add: seg_match_def)

text \<open>
  The address of a trial's page belongs to the trial's page: for every trial and experiment the path that
  \<open>paths.trialDetails\<close> builds matches the route of the trial details and no earlier route of the table.
\<close>

theorem trial_path_route:
  "route_for (trialDetails_path trialId experimentId) = Some (routes ! 2) \<and> route_id (routes ! 2) = ''trialDetails''"
proof
  have len: "length routes = 18" by code_simp
  have m: "seg_match (route_path (routes ! 2)) (trialDetails_path trialId experimentId)"
    unfolding seg_match_nth [of 2, simplified len, simplified] split_routes split_trial_path
    by (simp add: seg_ok_int del: seg_ok.simps) simp
  have "\<not> seg_match (route_path (routes ! j)) (trialDetails_path trialId experimentId)" if "j < 2" for j
  proof -
    have "j = 0 \<or> j = 1" using that by auto
    then show ?thesis
      by (elim disjE) (simp_all add: seg_match_nth len split_routes split_trial_path)
  qed
  with m len show "route_for (trialDetails_path trialId experimentId) = Some (routes ! 2)"
    unfolding route_for_def by (intro find_nth) auto
  show "route_id (routes ! 2) = ''trialDetails''" by (simp add: routes_def mk_route_def)
qed

text \<open>
  A command can be opened exactly when it is a notebook or a tensorboard that has a service address; the page that
  waits for it is opened in a new window under the application's base path, with the address of the command's event
  stream on the configured server.  Every other command throws.
\<close>

theorem open_command:
  "openCommand env c =
     (if (wc_kind c = CommandType_Notebook \<or> wc_kind c = CommandType_Tensorboard)
          \<and> wc_serviceAddress c \<notin> {None, Some ''''}
      then Inr [OpenBlank (env_PUBLIC_URL env @ ''/wait/''
             @ (if wc_kind c = CommandType_Notebook then ''notebook'' else ''tensorboard'') @ ''/'' @ wc_id c
             @ ''?eventUrl='' @ serverAddress env ''''
             @ (if wc_kind c = CommandType_Notebook then ''/notebooks/'' @ wc_id c @ ''/events''
                else ''/tensorboard/'' @ wc_id c @ ''/events?tail=1'')
             @ ''&serviceAddr='' @ the (wc_serviceAddress c)) ''noopener,noreferrer'']
      else Inl (JsError ''command cannot be opened''))"
proof -
  have k: "toLowerCase (str_CommandType CommandType_Notebook) = ''notebook''"
    "toLowerCase (str_CommandType CommandType_Tensorboard) = ''tensorboard''" by code_simp+
  show ?thesis
    by (cases "wc_kind c"; cases "wc_serviceAddress c")
      (auto simp: openCommand_def waitPageUrl_def commandToEventUrl_def openBlank_def windowOpenFeatures_def k
        simp del: str_CommandType.simps)
qed

end
