(* ===== verification/Storage_Util.thy ===== *)
theory Storage_Util
  imports Js_Value
begin

text \<open>
  The persisted settings of the WebUI: \<^verbatim>\<open>utils/storage.ts\<close> (the \<open>Store\<close> interface, \<open>MemoryStore\<close>,
  \<open>Storage\<close>), \<^verbatim>\<open>globalStorage.ts\<close> and \<^verbatim>\<open>hooks/useStorage.ts\<close>.  A store is a state type with its four
  operations; \<open>window.localStorage\<close> is such a store and belongs to the browser, so the operations of
  \<open>Storage\<close> take the store's operations as an argument.
\<close>

section \<open>Stores\<close>

text \<open>
  An item is the text given to \<open>setItem\<close>; \<open>None\<close> is the value \<open>undefined\<close>, which
  \<open>JSON.stringify\<close> returns for a function.
\<close>

type_synonym item = "json_text option"

record 's Store =
  store_clear :: "'s \<Rightarrow> 's"
  store_getItem :: "'s \<Rightarrow> string \<Rightarrow> item option"
  store_removeItem :: "'s \<Rightarrow> string \<Rightarrow> 's"
  store_setItem :: "'s \<Rightarrow> string \<Rightarrow> item \<Rightarrow> 's"

text \<open>\<open>class MemoryStore\<close>: a plain object.\<close>

type_synonym memory_store = "(string \<times> item) list"

definition mem_new :: memory_store where
  "mem_new = []"

definition mem_clear :: "memory_store \<Rightarrow> memory_store" where
  "mem_clear s = []"

definition mem_getItem :: "memory_store \<Rightarrow> string \<Rightarrow> item option" where
  "mem_getItem s key = map_of s key"

definition mem_removeItem :: "memory_store \<Rightarrow> string \<Rightarrow> memory_store" where
  "mem_removeItem s key = obj_del key s"

definition mem_setItem :: "memory_store \<Rightarrow> string \<Rightarrow> item \<Rightarrow> memory_store" where
  "mem_setItem s key v = obj_set key v s"

definition MemoryStore :: "memory_store Store" where
  "MemoryStore = \<lparr>store_clear = mem_clear, store_getItem = mem_getItem,
     store_removeItem = mem_removeItem, store_setItem = mem_setItem\<rparr>"

section \<open>Storage\<close>

record StorageOptions =
  opt_basePath :: "string option"
  opt_delimiter :: "string option"

record Storage =
  delimiter :: string
  pathKeys :: "string list"

text \<open>\<open>x || d\<close> for an optional string: the empty string counts as missing.\<close>

definition str_or :: "string option \<Rightarrow> string \<Rightarrow> string" where
  "str_or x d = (case x of Some s \<Rightarrow> if s = [] then d else s | None \<Rightarrow> d)"

definition parsePath :: "string \<Rightarrow> string \<Rightarrow> string list" where
  "parsePath path d = filter (\<lambda>key. key \<noteq> []) (js_split d path)"

definition newStorage :: "StorageOptions \<Rightarrow> Storage" where
  "newStorage options =
     (let d = str_or (opt_delimiter options) ''/'' in
      \<lparr>delimiter = d, pathKeys = parsePath (str_or (opt_basePath options) []) d\<rparr>)"

definition computeKey :: "Storage \<Rightarrow> string \<Rightarrow> string" where
  "computeKey sg key = js_join (delimiter sg) (pathKeys sg @ [key])"

definition storage_clear :: "'s Store \<Rightarrow> 's \<Rightarrow> 's" where
  "storage_clear ops s = store_clear ops s"

definition storage_get :: "'s Store \<Rightarrow> Storage \<Rightarrow> 's \<Rightarrow> string \<Rightarrow> js result" where
  "storage_get ops sg s key =
     (case store_getItem ops s (computeKey sg key) of
        None \<Rightarrow> Inr Null
      | Some None \<Rightarrow> Inl SyntaxError
      | Some (Some t) \<Rightarrow> json_parse t)"

definition storage_getWithDefault ::
  "'s Store \<Rightarrow> Storage \<Rightarrow> 's \<Rightarrow> string \<Rightarrow> js \<Rightarrow> js result" where
  "storage_getWithDefault ops sg s key defaultValue =
     bind_exn (storage_get ops sg s key)
       (\<lambda>v. Inr (if v \<noteq> Null then v else defaultValue))"

definition storage_remove :: "'s Store \<Rightarrow> Storage \<Rightarrow> 's \<Rightarrow> string \<Rightarrow> 's" where
  "storage_remove ops sg s key = store_removeItem ops s (computeKey sg key)"

definition storage_set :: "'s Store \<Rightarrow> Storage \<Rightarrow> 's \<Rightarrow> string \<Rightarrow> js \<Rightarrow> 's result" where
  "storage_set ops sg s key v =
     (if is_nullish v then Inl (JsError ''Cannot set to a null or undefined value.'')
      else case v of
          SetV _ \<Rightarrow> Inl (JsError ''Convert the value to an Array before setting it.'')
        | _ \<Rightarrow> Inr (store_setItem ops s (computeKey sg key) (stringify v)))"

section \<open>Global storage\<close>

text \<open>
  \<open>globalStorage\<close>: the authentication token and the server address under the base path \<open>global\<close>.
\<close>

definition globalStorage :: Storage where
  "globalStorage = newStorage \<lparr>opt_basePath = Some ''global'', opt_delimiter = None\<rparr>"

definition key_authToken :: string where "key_authToken = ''auth-token''"
definition key_serverAddress :: string where "key_serverAddress = ''server-address''"

definition set_authToken :: "'s Store \<Rightarrow> 's \<Rightarrow> js \<Rightarrow> 's result" where
  "set_authToken ops s token = storage_set ops globalStorage s key_authToken token"

definition get_authToken :: "'s Store \<Rightarrow> 's \<Rightarrow> js result" where
  "get_authToken ops s =
     bind_exn (storage_get ops globalStorage s key_authToken) (\<lambda>v. Inr (js_or v (Str [])))"

definition removeAuthToken :: "'s Store \<Rightarrow> 's \<Rightarrow> 's" where
  "removeAuthToken ops s = storage_remove ops globalStorage s key_authToken"

definition set_serverAddress :: "'s Store \<Rightarrow> 's \<Rightarrow> js \<Rightarrow> 's result" where
  "set_serverAddress ops s address = storage_set ops globalStorage s key_serverAddress address"

definition get_serverAddress :: "'s Store \<Rightarrow> 's \<Rightarrow> js result" where
  "get_serverAddress ops s =
     bind_exn (storage_get ops globalStorage s key_serverAddress) (\<lambda>v. Inr (js_or v (Str [])))"

definition removeServerAddress :: "'s Store \<Rightarrow> 's \<Rightarrow> 's" where
  "removeServerAddress ops s = storage_remove ops globalStorage s key_serverAddress"

text \<open>\<open>useStorage\<close>: the settings of a page, under the signed-in user's namespace.\<close>

definition useStorage :: "string option \<Rightarrow> string \<Rightarrow> Storage" where
  "useStorage username basePath =
     (let userNamespace = (case username of Some u \<Rightarrow> ''u:'' @ u | None \<Rightarrow> []) in
      newStorage \<lparr>opt_basePath = Some (userNamespace @ ''/'' @ basePath), opt_delimiter = None\<rparr>)"

section \<open>The contract of a store and what it gives the client\<close>

locale store_laws =
  fixes ops :: "'s Store"
  assumes get_set: "store_getItem ops (store_setItem ops s k v) k' =
        (if k' = k then Some v else store_getItem ops s k')"
    and get_remove: "store_getItem ops (store_removeItem ops s k) k' =
        (if k' = k then None else store_getItem ops s k')"
    and get_clear: "store_getItem ops (store_clear ops s) k = None"
begin

lemma set_Inr:
  assumes "storage_set ops sg s key v = Inr s'"
  shows "s' = store_setItem ops s (computeKey sg key) (stringify v)"
    and "\<not> is_nullish v" and "\<And>xs. v \<noteq> SetV xs"
  using assms by (auto simp: storage_set_def split: if_splits js.splits)

lemma get_after_set:
  assumes "storage_set ops sg s key v = Inr s'" and "wf_js v" and "to_json v = Some j"
  shows "storage_get ops sg s' key = Inr (of_json j)"
  using set_Inr [OF assms(1)] assms(2,3) json_parse_stringify [OF assms(2)]
  by (simp add: storage_get_def get_set stringify_def)

lemma get_after_set_other:
  assumes "storage_set ops sg s key v = Inr s'" and "computeKey sg' key' \<noteq> computeKey sg key"
  shows "storage_get ops sg' s' key' = storage_get ops sg' s key'"
  using set_Inr [OF assms(1)] assms(2) by (simp add: storage_get_def get_set)

lemma get_after_remove: "storage_get ops sg (storage_remove ops sg s key) key = Inr Null"
  by (simp add: storage_get_def storage_remove_def get_remove)

lemma get_after_remove_other:
  "computeKey sg' key' \<noteq> computeKey sg key \<Longrightarrow>
   storage_get ops sg' (storage_remove ops sg s key) key' = storage_get ops sg' s key'"
  by (simp add: storage_get_def storage_remove_def get_remove)

lemma get_after_clear: "storage_get ops sg (storage_clear ops s) key = Inr Null"
  by (simp add: storage_get_def storage_clear_def get_clear)

end

interpretation mem: store_laws MemoryStore
  by unfold_locales
     (auto simp: MemoryStore_def mem_setItem_def mem_getItem_def mem_removeItem_def mem_clear_def)

section \<open>Keys\<close>

lemma computeKey_inj: "computeKey sg a = computeKey sg b \<longleftrightarrow> a = b"
  by (simp add: computeKey_def js_join_snoc_inj)

lemma parsePath_no_empty: "[] \<notin> set (parsePath p d)"
  by (simp add: parsePath_def)

lemma useStorage_pathKeys:
  assumes "CHR ''/'' \<notin> set u"
  shows "pathKeys (useStorage (Some u) p) = (''u:'' @ u) # parsePath p ''/''"
    and "delimiter (useStorage (Some u) p) = ''/''"
proof -
  have "js_split ''/'' ((''u:'' @ u) @ CHR ''/'' # p) = (''u:'' @ u) # js_split ''/'' p"
    using assms by (intro js_split_sep) simp
  then show "pathKeys (useStorage (Some u) p) = (''u:'' @ u) # parsePath p ''/''"
    by (simp add: useStorage_def newStorage_def str_or_def parsePath_def Let_def)
  show "delimiter (useStorage (Some u) p) = ''/''"
    by (simp add: useStorage_def newStorage_def str_or_def Let_def)
qed

lemma computeKey_useStorage:
  assumes "CHR ''/'' \<notin> set u"
  shows "computeKey (useStorage (Some u) p) key =
    (''u:'' @ u) @ CHR ''/'' # js_join ''/'' (parsePath p ''/'' @ [key])"
  using useStorage_pathKeys [OF assms, of p]
  by (simp add: computeKey_def js_join_Cons)

lemma computeKey_users_differ:
  assumes "CHR ''/'' \<notin> set u" and "CHR ''/'' \<notin> set u'" and "u \<noteq> u'"
  shows "computeKey (useStorage (Some u) p) key \<noteq> computeKey (useStorage (Some u') p') key'"
proof
  assume "computeKey (useStorage (Some u) p) key = computeKey (useStorage (Some u') p') key'"
  then have eq: "(''u:'' @ u) @ CHR ''/'' # js_join ''/'' (parsePath p ''/'' @ [key]) =
      (''u:'' @ u') @ CHR ''/'' # js_join ''/'' (parsePath p' ''/'' @ [key'])"
    unfolding computeKey_useStorage [OF assms(1)] computeKey_useStorage [OF assms(2)] .
  have "CHR ''/'' \<notin> set (''u:'' @ u)" "CHR ''/'' \<notin> set (''u:'' @ u')"
    using assms(1,2) by simp_all
  then have "''u:'' @ u = ''u:'' @ u'"
    using eq by (rule append_sep_inj)
  with assms(3) show False by simp
qed

lemma globalStorage_eq: "globalStorage = \<lparr>delimiter = ''/'', pathKeys = [''global'']\<rparr>"
  by code_simp

lemma computeKey_globalStorage: "computeKey globalStorage k = ''global/'' @ k"
  by (simp add: computeKey_def globalStorage_eq)

section \<open>Properties\<close>

text \<open>
  C17: Settings round trip: after a successful \<open>set(key, value)\<close> on any store that keeps the \<open>Store\<close>
  contract, \<open>get(key)\<close> returns exactly what JSON keeps of the value, and \<open>get\<close> of every other key of the
  same \<open>Storage\<close> is unchanged; after \<open>remove(key)\<close> it returns \<open>null\<close>.
\<close>

theorem storage_round_trip:
  assumes "store_laws ops" and "wf_js v" and "to_json v = Some j"
    and "storage_set ops sg s key v = Inr s'"
  shows "storage_get ops sg s' key = Inr (of_json j)
    \<and> (key' \<noteq> key \<longrightarrow> storage_get ops sg s' key' = storage_get ops sg s key')
    \<and> storage_get ops sg (storage_remove ops sg s' key) key = Inr Null"
  using store_laws.get_after_set [OF assms(1,4,2,3)]
    store_laws.get_after_set_other [OF assms(1,4)]
    store_laws.get_after_remove [OF assms(1)]
  by (simp add: computeKey_inj)

theorem storage_round_trip_witness:
  "\<exists>s'. storage_set MemoryStore globalStorage mem_new ''limit'' (Num (Fin 10)) = Inr s'
    \<and> storage_get MemoryStore globalStorage s' ''limit'' = Inr (Num (Fin 10))"
proof -
  let ?s = "mem_setItem mem_new (computeKey globalStorage ''limit'') (Some [TNum 10])"
  have "storage_set MemoryStore globalStorage mem_new ''limit'' (Num (Fin 10)) = Inr ?s"
    by (simp add: storage_set_def is_nullish_def MemoryStore_def stringify_def)
  moreover have "storage_get MemoryStore globalStorage ?s ''limit'' = Inr (of_json (JNum 10))"
    using storage_round_trip [OF mem.store_laws_axioms _ _ calculation, of "JNum 10"] by simp
  ultimately show ?thesis by auto
qed

text \<open>
  The settings of different users never collide: on any store that keeps the contract, writing or
  removing any key of one user's page storage leaves every \<open>get\<close> of another user unchanged, for all base
  paths and keys, as long as user names contain no slash.
\<close>

theorem storage_user_isolation:
  assumes "store_laws ops"
    and "CHR ''/'' \<notin> set u" and "CHR ''/'' \<notin> set u'" and "u \<noteq> u'"
  shows "(\<forall>s'. storage_set ops (useStorage (Some u) p) s key v = Inr s' \<longrightarrow>
        storage_get ops (useStorage (Some u') p') s' key' =
        storage_get ops (useStorage (Some u') p') s key')
    \<and> storage_get ops (useStorage (Some u') p') (storage_remove ops (useStorage (Some u) p) s key) key'
      = storage_get ops (useStorage (Some u') p') s key'"
proof -
  have "computeKey (useStorage (Some u') p') key' \<noteq> computeKey (useStorage (Some u) p) key"
    using computeKey_users_differ [OF assms(2-4)] by metis
  then show ?thesis
    using store_laws.get_after_set_other [OF assms(1)] store_laws.get_after_remove_other [OF assms(1)]
    by blast
qed

theorem storage_user_isolation_witness:
  "storage_get MemoryStore (useStorage (Some ''bob'') ''task-list'')
      (storage_remove MemoryStore (useStorage (Some ''eve'') ''task-list'') mem_new ''sorter'') ''sorter''
   = Inr Null"
proof -
  have "storage_get MemoryStore (useStorage (Some ''bob'') ''task-list'') mem_new ''sorter'' = Inr Null"
    by (simp add: storage_get_def MemoryStore_def mem_getItem_def mem_new_def)
  then show ?thesis
    using storage_user_isolation [OF mem.store_laws_axioms, of "''eve''" "''bob''"] by simp
qed

end
