(* ===== verification/Task_Util.thy ===== *)
theory Task_Util
  imports Types_Util String_Util
begin

text \<open>
  \<^verbatim>\<open>utils/task.ts\<close> (filters of the task list), \<^verbatim>\<open>utils/cluster.ts\<close> and \<^verbatim>\<open>contexts/ClusterOverview.tsx\<close>: which
  tasks are shown and can be opened, the states of the slots, and the resources of the cluster.
\<close>

section \<open>Tasks\<close>

text \<open>\<open>('archived' in task) && !('type' in task)\<close>: an experiment task has the first key only, a command task the second.\<close>

fun isExperimentTask :: "AnyTask \<Rightarrow> bool" where
  "isExperimentTask (ExperimentTask t) = True"
| "isExperimentTask (CommandTask t) = False"

fun canBeOpened :: "AnyTask \<Rightarrow> bool" where
  "canBeOpened (ExperimentTask t) = True"
| "canBeOpened (CommandTask t) =
     (if ct_state t \<in> terminalCommandStates then False
      else case task_serviceAddress t of None \<Rightarrow> False | Some a \<Rightarrow> a \<noteq> '''')"

fun any_id :: "AnyTask \<Rightarrow> string" where
  "any_id (ExperimentTask t) = task_id t"
| "any_id (CommandTask t) = task_id t"

fun any_name :: "AnyTask \<Rightarrow> string" where
  "any_name (ExperimentTask t) = task_name t"
| "any_name (CommandTask t) = task_name t"

fun any_state :: "AnyTask \<Rightarrow> State" where
  "any_state (ExperimentTask t) = RunS (et_state t)"
| "any_state (CommandTask t) = CommandS (ct_state t)"

fun any_username :: "AnyTask \<Rightarrow> string" where
  "any_username (ExperimentTask t) = et_username t"
| "any_username (CommandTask t) = ct_username t"

fun any_type :: "AnyTask \<Rightarrow> string" where
  "any_type (ExperimentTask t) = ''Experiment''"
| "any_type (CommandTask t) = str_CommandType (ct_type t)"

fun any_archived :: "AnyTask \<Rightarrow> bool" where
  "any_archived (ExperimentTask t) = et_archived t"
| "any_archived (CommandTask t) = False"

definition matchesSearch :: "AnyTask \<Rightarrow> string \<Rightarrow> bool" where
  "matchesSearch task search =
     (if search = '''' then True else contains search (any_id task) \<or> contains search (any_name task))"

definition matchesState :: "AnyTask \<Rightarrow> string list \<Rightarrow> bool" where
  "matchesState task states = (case states of
      [] \<Rightarrow> False
    | target # _ \<Rightarrow> if target = ALL_VALUE then True else target = str_State (any_state task))"

definition matchesUser :: "AnyTask \<Rightarrow> User list \<Rightarrow> string option \<Rightarrow> bool" where
  "matchesUser task users username = (case username of
      None \<Rightarrow> True
    | Some name \<Rightarrow>
        if name = '''' then True
        else find (\<lambda>u. user_username u = name) users \<noteq> None \<and> any_username task = name)"

definition filterTasks :: "AnyTask list \<Rightarrow> TaskFilters \<Rightarrow> User list \<Rightarrow> string \<Rightarrow> AnyTask list" where
  "filterTasks tasks filters users search =
     (let isAllTypes = (True \<notin> set (obj_values (tf_types filters)))
      in filter (\<lambda>task. matchesSearch task search)
           (filter (\<lambda>task.
              (isAllTypes \<or> map_of (tf_types filters) (any_type task) = Some True)
              \<and> matchesUser task users (tf_username filters)
              \<and> matchesState task (tf_states filters)
              \<and> matchesSearch task search
              \<and> (\<not> isExperimentTask task \<or> \<not> any_archived task)) tasks))"

section \<open>Slots\<close>

definition getSlotContainerStates :: "Agent list \<Rightarrow> string option \<Rightarrow> ResourceState option list" where
  "getSlotContainerStates agents resourcePoolName =
     map (\<lambda>res. cont_state (the (res_container res)))
       (filter (\<lambda>res. res_enabled res \<and> res_container res \<noteq> None)
         (foldl (\<lambda>acc cur. acc @ cur) [] (map agent_resources agents)))"

section \<open>Cluster overview\<close>

datatype ClusterOverviewAction = ClusterReset | ClusterSet ClusterOverview | ClusterSetAgents "Agent list"

definition noResource :: ClusterOverviewResource where
  "noResource = \<lparr>cor_available = 0, cor_total = 0\<rparr>"

definition defaultClusterOverview :: ClusterOverview where
  "defaultClusterOverview = \<lparr>ov_CPU = noResource, ov_GPU = noResource, ov_allocation = Fin 0,
     ov_totalResources = noResource\<rparr>"

definition add_resource :: "int \<Rightarrow> ClusterOverviewResource \<Rightarrow> ClusterOverviewResource" where
  "add_resource available r = \<lparr>cor_available = cor_available r + available, cor_total = cor_total r + 1\<rparr>"

text \<open>One round of the inner loop; \<open>overview[resource.type]\<close> is undefined for the unspecified and for an unknown type.\<close>

definition count_resource ::
  "ClusterOverview \<times> ClusterOverviewResource \<Rightarrow> Resource \<Rightarrow> (ClusterOverview \<times> ClusterOverviewResource) result" where
  "count_resource st resource = (case st of (overview, tally) \<Rightarrow>
      let availableResource = (if res_container resource = None then 1 else 0) in
      case res_type resource of
        Some ResourceType_CPU \<Rightarrow>
          Inr (overview\<lparr>ov_CPU := add_resource availableResource (ov_CPU overview)\<rparr>, add_resource availableResource tally)
      | Some ResourceType_GPU \<Rightarrow>
          Inr (overview\<lparr>ov_GPU := add_resource availableResource (ov_GPU overview)\<rparr>, add_resource availableResource tally)
      | _ \<Rightarrow> Inl TypeError)"

fun count_resources ::
  "Resource list \<Rightarrow> ClusterOverview \<times> ClusterOverviewResource \<Rightarrow> (ClusterOverview \<times> ClusterOverviewResource) result" where
  "count_resources [] st = Inr st"
| "count_resources (r # rs) st = bind_exn (count_resource st r) (count_resources rs)"

fun count_agents ::
  "Agent list \<Rightarrow> ClusterOverview \<times> ClusterOverviewResource \<Rightarrow> (ClusterOverview \<times> ClusterOverviewResource) result" where
  "count_agents [] st = Inr st"
| "count_agents (a # as) st =
     bind_exn (count_resources (filter res_enabled (agent_resources a)) st) (count_agents as)"

definition agentsToOverview :: "Agent list \<Rightarrow> ClusterOverview result" where
  "agentsToOverview agents = bind_exn (count_agents agents (defaultClusterOverview, noResource))
     (\<lambda>(overview, tally). Inr (overview\<lparr>ov_totalResources := tally,
        ov_allocation := (if cor_total tally \<noteq> 0
          then percent (num_div (Fin (of_int (cor_total tally - cor_available tally))) (Fin (of_int (cor_total tally)))) 1
          else Fin 0)\<rparr>))"

definition cluster_reducer :: "ClusterOverview \<Rightarrow> ClusterOverviewAction \<Rightarrow> ClusterOverview result" where
  "cluster_reducer state action = (case action of
      ClusterReset \<Rightarrow> Inr defaultClusterOverview
    | ClusterSet v \<Rightarrow> Inr v
    | ClusterSetAgents agents \<Rightarrow> agentsToOverview agents)"

section \<open>Lemmas\<close>

lemma foldl_append: "foldl (\<lambda>acc cur. acc @ cur) acc xss = acc @ concat xss"
  by (induction xss arbitrary: acc) auto

definition countable_type :: "Resource \<Rightarrow> bool" where
  "countable_type r = (res_type r = Some ResourceType_CPU \<or> res_type r = Some ResourceType_GPU)"

text \<open>The enabled resources of all agents, and the number of those with a property.\<close>

definition enabled_resources :: "Agent list \<Rightarrow> Resource list" where
  "enabled_resources agents = filter res_enabled (concat (map agent_resources agents))"

definition count_if :: "(Resource \<Rightarrow> bool) \<Rightarrow> Resource list \<Rightarrow> int" where
  "count_if P rs = int (length (filter P rs))"

lemma count_if_simps [simp]:
  "count_if P [] = 0"
  "count_if P (r # rs) = (if P r then 1 else 0) + count_if P rs"
  by (simp_all add: count_if_def)

lemma count_if_nonneg [simp]: "0 \<le> count_if P rs"
  by (simp add: count_if_def)

lemma count_if_mono: "(\<And>r. P r \<Longrightarrow> Q r) \<Longrightarrow> count_if P rs \<le> count_if Q rs"
  by (induction rs) auto

lemma percent_ex: "\<exists>p. percent n d = Fin p \<and> 0 \<le> p \<and> p \<le> 100"
  using percent_bounds [of n d] by blast

lemma count_resources_append:
  "count_resources (rs @ qs) st = bind_exn (count_resources rs st) (count_resources qs)"
  by (induction rs arbitrary: st) (auto simp: bind_exn_def split: sum.splits)

lemma count_agents_eq: "count_agents agents st = count_resources (enabled_resources agents) st"
proof (induction agents arbitrary: st)
  case (Cons a as)
  then have "count_agents as = count_resources (enabled_resources as)" by (rule ext)
  then show ?case by (simp add: enabled_resources_def count_resources_append)
qed (simp add: enabled_resources_def)

definition free :: "Resource \<Rightarrow> bool" where
  "free r = (res_container r = None)"

lemma resource_type_cases:
  obtains (cpu) "res_type r = Some ResourceType_CPU" "countable_type r"
  | (gpu) "res_type r = Some ResourceType_GPU" "countable_type r"
  | (other) "\<not> countable_type r" "\<And>st. count_resource st r = Inl TypeError"
  by (cases "res_type r"; cases "the (res_type r)")
     (auto simp: countable_type_def count_resource_def split: prod.splits)

lemma count_resources_spec:
  "\<forall>r \<in> set rs. countable_type r \<Longrightarrow>
   count_resources rs (ov, tally) = Inr
     (ov\<lparr>ov_CPU := \<lparr>cor_available = cor_available (ov_CPU ov) + count_if (\<lambda>r. res_type r = Some ResourceType_CPU \<and> free r) rs,
                   cor_total = cor_total (ov_CPU ov) + count_if (\<lambda>r. res_type r = Some ResourceType_CPU) rs\<rparr>,
        ov_GPU := \<lparr>cor_available = cor_available (ov_GPU ov) + count_if (\<lambda>r. res_type r = Some ResourceType_GPU \<and> free r) rs,
                   cor_total = cor_total (ov_GPU ov) + count_if (\<lambda>r. res_type r = Some ResourceType_GPU) rs\<rparr>\<rparr>,
      \<lparr>cor_available = cor_available tally + count_if free rs, cor_total = cor_total tally + count_if (\<lambda>r. True) rs\<rparr>)"
proof (induction rs arbitrary: ov tally)
  case Nil
  then show ?case by simp
next
  case (Cons r rs)
  then show ?case
    by (cases r rule: resource_type_cases) (auto simp: count_resource_def add_resource_def free_def)
qed

lemma count_resources_error:
  "\<exists>r \<in> set rs. \<not> countable_type r \<Longrightarrow> count_resources rs st = Inl TypeError"
proof (induction rs arbitrary: st)
  case (Cons r rs)
  then show ?case
    by (cases r rule: resource_type_cases) (auto simp: count_resource_def split: prod.splits)
qed simp

section \<open>Properties\<close>

text \<open>
  C20: the task list shows, in their order, exactly the tasks that pass every filter: a selected type (or no type
  is selected), the selected user if that user exists, the first selected state or \<open>all\<close>, and the search text
  in the identifier or the name.  Archived experiments are never shown.  Filtering the result again changes
  nothing.
\<close>

theorem filter_tasks:
  "filterTasks tasks filters users search = filter (\<lambda>task.
       ((\<forall>k v. (k, v) \<in> set (tf_types filters) \<longrightarrow> \<not> v) \<or> map_of (tf_types filters) (any_type task) = Some True)
       \<and> (case tf_username filters of None \<Rightarrow> True | Some n \<Rightarrow>
            n = '''' \<or> (\<exists>u \<in> set users. user_username u = n) \<and> any_username task = n)
       \<and> (case tf_states filters of [] \<Rightarrow> False | s # _ \<Rightarrow> s = ''all'' \<or> s = str_State (any_state task))
       \<and> ((\<exists>a b. any_id task = a @ search @ b) \<or> (\<exists>a b. any_name task = a @ search @ b))
       \<and> \<not> any_archived task) tasks
   \<and> filterTasks (filterTasks tasks filters users search) filters users search
       = filterTasks tasks filters users search"
proof -
  have "matchesSearch task s \<longleftrightarrow> (\<exists>a b. any_id task = a @ s @ b) \<or> (\<exists>a b. any_name task = a @ s @ b)" for task s
    by (auto simp: matchesSearch_def contains_iff)
  moreover have "matchesUser task users u \<longleftrightarrow> (case u of None \<Rightarrow> True | Some n \<Rightarrow>
      n = '''' \<or> (\<exists>u \<in> set users. user_username u = n) \<and> any_username task = n)" for task u
    by (auto simp: matchesUser_def find_None_iff split: option.splits)
  moreover have "matchesState task ss \<longleftrightarrow> (case ss of [] \<Rightarrow> False | s # _ \<Rightarrow>
      s = ''all'' \<or> s = str_State (any_state task))" for task ss
    by (auto simp: matchesState_def ALL_VALUE_def split: list.splits)
  moreover have "True \<notin> set (obj_values (tf_types filters)) \<longleftrightarrow>
      (\<forall>k v. (k, v) \<in> set (tf_types filters) \<longrightarrow> \<not> v)"
    by (force simp: obj_values_def)
  moreover have "\<not> isExperimentTask task \<or> \<not> any_archived task \<longleftrightarrow> \<not> any_archived task" for task
    by (cases task) auto
  ultimately have eq: "filterTasks ts filters users search = filter (\<lambda>task.
       ((\<forall>k v. (k, v) \<in> set (tf_types filters) \<longrightarrow> \<not> v) \<or> map_of (tf_types filters) (any_type task) = Some True)
       \<and> (case tf_username filters of None \<Rightarrow> True | Some n \<Rightarrow>
            n = '''' \<or> (\<exists>u \<in> set users. user_username u = n) \<and> any_username task = n)
       \<and> (case tf_states filters of [] \<Rightarrow> False | s # _ \<Rightarrow> s = ''all'' \<or> s = str_State (any_state task))
       \<and> ((\<exists>a b. any_id task = a @ search @ b) \<or> (\<exists>a b. any_name task = a @ search @ b))
       \<and> \<not> any_archived task) ts" for ts
    unfolding filterTasks_def Let_def filter_filter by (intro filter_cong) auto
  show ?thesis by (simp only: eq filter_filter conj_absorb)
qed

theorem filter_tasks_witness:
  "let t = CommandTask \<lparr>task_id = ''ab1'', task_name = ''pet'', task_serviceAddress = None, task_startTime = '''',
        task_url = None, ct_misc = None, ct_state = CommandState_Running, ct_type = CommandType_Shell,
        ct_username = ''u'', ct_lastEvent = \<lparr>ev_date = '''', ev_name = ''''\<rparr>\<rparr>
   in filterTasks [t] \<lparr>tf_limit = 25, tf_states = [''all''], tf_types = [(''SHELL'', True)], tf_username = None\<rparr> [] ''b''
        = [t]"
proof -
  have "\<exists>a b. ''ab1'' = a @ ''b'' @ b" by (intro exI [of _ "''a''"] exI [of _ "''1''"]) simp
  then show ?thesis by (simp add: Let_def filter_tasks)
qed

text \<open>
  the cluster overview counts every enabled slot once: for each type and in total, how many there are and how
  many have no container.  No number of available slots exceeds its total, and the allocation is a percentage
  between 0 and 100, zero for an empty cluster.  A slot of unspecified or unknown type makes the computation throw.
\<close>

theorem agents_to_overview:
  "((\<forall>r \<in> set (enabled_resources agents). countable_type r) \<longrightarrow>
     (\<exists>ov. agentsToOverview agents = Inr ov
       \<and> ov_CPU ov = \<lparr>cor_available = count_if (\<lambda>r. res_type r = Some ResourceType_CPU \<and> res_container r = None) (enabled_resources agents),
            cor_total = count_if (\<lambda>r. res_type r = Some ResourceType_CPU) (enabled_resources agents)\<rparr>
       \<and> ov_GPU ov = \<lparr>cor_available = count_if (\<lambda>r. res_type r = Some ResourceType_GPU \<and> res_container r = None) (enabled_resources agents),
            cor_total = count_if (\<lambda>r. res_type r = Some ResourceType_GPU) (enabled_resources agents)\<rparr>
       \<and> cor_total (ov_totalResources ov) = cor_total (ov_CPU ov) + cor_total (ov_GPU ov)
       \<and> cor_available (ov_totalResources ov) = cor_available (ov_CPU ov) + cor_available (ov_GPU ov)
       \<and> cor_available (ov_totalResources ov) \<le> cor_total (ov_totalResources ov)
       \<and> (\<exists>p. ov_allocation ov = Fin p \<and> 0 \<le> p \<and> p \<le> 100)))
   \<and> ((\<exists>r \<in> set (enabled_resources agents). \<not> countable_type r) \<longrightarrow>
       agentsToOverview agents = Inl TypeError)"
proof (intro conjI impI)
  let ?rs = "enabled_resources agents"
  assume types: "\<forall>r \<in> set ?rs. countable_type r"
  have "\<forall>r \<in> set rs. countable_type r \<Longrightarrow>
      count_if P rs = count_if (\<lambda>r. res_type r = Some ResourceType_CPU \<and> P r) rs
        + count_if (\<lambda>r. res_type r = Some ResourceType_GPU \<and> P r) rs" for P rs
  proof (induction rs)
    case (Cons r rs)
    then show ?case by (cases r rule: resource_type_cases) auto
  qed simp
  note split = this [OF types]
  have "count_if free ?rs \<le> count_if (\<lambda>r. True) ?rs" by (rule count_if_mono) simp
  then show "\<exists>ov. agentsToOverview agents = Inr ov
       \<and> ov_CPU ov = \<lparr>cor_available = count_if (\<lambda>r. res_type r = Some ResourceType_CPU \<and> res_container r = None) ?rs,
            cor_total = count_if (\<lambda>r. res_type r = Some ResourceType_CPU) ?rs\<rparr>
       \<and> ov_GPU ov = \<lparr>cor_available = count_if (\<lambda>r. res_type r = Some ResourceType_GPU \<and> res_container r = None) ?rs,
            cor_total = count_if (\<lambda>r. res_type r = Some ResourceType_GPU) ?rs\<rparr>
       \<and> cor_total (ov_totalResources ov) = cor_total (ov_CPU ov) + cor_total (ov_GPU ov)
       \<and> cor_available (ov_totalResources ov) = cor_available (ov_CPU ov) + cor_available (ov_GPU ov)
       \<and> cor_available (ov_totalResources ov) \<le> cor_total (ov_totalResources ov)
       \<and> (\<exists>p. ov_allocation ov = Fin p \<and> 0 \<le> p \<and> p \<le> 100)"
    using types split [of free] split [of "\<lambda>r. True"]
    by (simp add: agentsToOverview_def count_agents_eq count_resources_spec defaultClusterOverview_def noResource_def
        free_def percent_ex split: if_split)
next
  assume "\<exists>r \<in> set (enabled_resources agents). \<not> countable_type r"
  then show "agentsToOverview agents = Inl TypeError"
    by (simp add: agentsToOverview_def count_agents_eq count_resources_error)
qed

theorem agents_to_overview_witness:
  "let r = (\<lambda>t c. \<lparr>res_container = c, res_enabled = True, res_id = '''', res_name = None, res_type = Some t, res_uuid = None\<rparr>);
       a = (\<lambda>rs. \<lparr>agent_id = '''', agent_registeredTime = Fin 0, agent_resourcePool = '''', agent_resources = rs\<rparr>)
   in (\<exists>ov. agentsToOverview [a [r ResourceType_CPU None, r ResourceType_GPU (Some \<lparr>cont_id = '''', cont_state = Some ResourceState_Running\<rparr>)]] = Inr ov
        \<and> cor_total (ov_totalResources ov) = 2 \<and> cor_available (ov_totalResources ov) = 1)
      \<and> agentsToOverview [a [r ResourceType_UNSPECIFIED None]] = Inl TypeError"
proof -
  let ?r = "\<lambda>t c. \<lparr>res_container = c, res_enabled = True, res_id = '''', res_name = None, res_type = Some t, res_uuid = None\<rparr>"
  let ?a = "\<lambda>rs. \<lparr>agent_id = '''', agent_registeredTime = Fin 0, agent_resourcePool = '''', agent_resources = rs\<rparr>"
  let ?c = "Some \<lparr>cont_id = '''', cont_state = Some ResourceState_Running\<rparr>"
  show ?thesis
    using agents_to_overview [of "[?a [?r ResourceType_CPU None, ?r ResourceType_GPU ?c]]"]
      agents_to_overview [of "[?a [?r ResourceType_UNSPECIFIED None]]"]
    by (auto simp: Let_def enabled_resources_def countable_type_def)
qed

end
