(* ===== verification/Services.thy ===== *)
theory Services
  imports Decoder_Sdk Decoder_Logs Routes Storage_Util Task_Util
begin

text \<open>
  \<^verbatim>\<open>services/utils.ts\<close>, \<^verbatim>\<open>services/types.ts\<close> and \<^verbatim>\<open>services/apiConfig.ts\<close>: how requests are made, authenticated and
  decoded, and what happens when they fail.

  A request is recorded in the state \<open>Web\<close>; what comes back is an argument \<open>net\<close> that may depend on how many requests
  were made before.  The methods of the generated client are requests named by client and method.  The local storage
  of the browser is a store in the sense of \<^verbatim>\<open>utils/storage.ts\<close>.
\<close>

section \<open>Responses and errors\<close>

definition getResponseStatus :: "js \<Rightarrow> js" where
  "getResponseStatus e =
     (let errorResponse = js_or e (Obj []) in
      js_or (get_prop (js_or (get_prop errorResponse ''response'') (Obj [])) ''status'')
        (get_prop errorResponse ''status''))"

definition isAuthFailure :: "js \<Rightarrow> bool" where
  "isAuthFailure e = (getResponseStatus e = Num (Fin 401))"

definition isLoginFailure :: "js \<Rightarrow> bool" where
  "isLoginFailure e = (let status = getResponseStatus e in status = Num (Fin 401) \<or> status = Num (Fin 403))"

definition isNotFound :: "js \<Rightarrow> bool" where
  "isNotFound e = (getResponseStatus e = Num (Fin 404))"

definition isAborted :: "(js \<Rightarrow> bool) \<Rightarrow> js \<Rightarrow> bool" where
  "isAborted isCancel e =
     (truthy e \<and> truthy (get_prop e ''name'') \<and> get_prop e ''name'' = Str ''AbortError'' \<or> isCancel e)"

text \<open>
  The error as the handler leaves it behind, the handler's result and the state.  A decoding error is amended in
  place, so that the caller rethrows the amended object.
\<close>

definition amend :: "js \<Rightarrow> (string \<times> js) list \<Rightarrow> js" where
  "amend e fs = merge e (Obj fs)"

definition processApiError ::
  "bool \<Rightarrow> (js \<Rightarrow> bool) \<Rightarrow> string \<Rightarrow> js \<Rightarrow> App \<Rightarrow> js \<times> js \<times> App" where
  "processApiError is_dev isCancel name e w =
     (let isAuthError = isAuthFailure e;
          silent = (\<not> is_dev \<or> isAuthError \<or> isCancel e)
      in if isDaError e then
           (let e = (if get_prop e ''type'' = js_type ErrorType_ApiBadResponse
                     then amend e [(''message'', Str (''failed in decoding '' @ name @ '' API response'')),
                            (''publicMessage'', Str ''Failed to interpret data sent from the server.''),
                            (''publicSubject'', Str ''Unexpected API response''),
                            (''silent'', Bool silent)]
                     else e);
                (r, w) = handleError isCancel e w
            in (e, r, w))
         else
           (let (r, w) = handleError isCancel (Obj [
                  (''error'', e),
                  (''level'', js_level (if isAuthError then ErrorLevel_Fatal else ErrorLevel_Error)),
                  (''message'', Str (if isAuthError then ''unauthenticated request '' @ name
                                     else ''request '' @ name @ '' failed.'')),
                  (''silent'', Bool silent),
                  (''type'', js_type (if isAuthError then ErrorType_Auth else ErrorType_Server))]) w
            in (e, r, w)))"

section \<open>Requests\<close>

record HttpOptions =
  ho_body :: js
  ho_headers :: "(string \<times> js) list"
  ho_method :: "string option"
  ho_url :: string

record ApiConfiguration =
  ac_apiKey :: "string option"
  ac_basePath :: string

datatype Request =
    HttpRequest js js "(string \<times> js) list" string string
      \<comment> \<open>\<open>cancelToken\<close>, \<open>data\<close>, \<open>headers\<close>, \<open>method\<close>, \<open>url\<close>\<close>
  | SdkRequest string string "js list" ApiConfiguration
      \<comment> \<open>client, method, arguments, the client's configuration\<close>

record 's Web =
  web_app :: App
  web_env :: Env
  web_isDev :: bool
  web_local :: 's \<comment> \<open>\<open>window.localStorage\<close>\<close>
  web_detApi :: "(string \<times> ApiConfiguration) list" \<comment> \<open>the clients of \<open>detApi\<close>\<close>
  web_requests :: "Request list"

definition log_request :: "Request \<Rightarrow> 's Web \<Rightarrow> 's Web" where
  "log_request r w = w\<lparr>web_requests := web_requests w @ [r]\<rparr>"

text \<open>What an exception leaves in a \<open>catch\<close> clause; a failed cast is no exception.\<close>

fun caught :: "failure \<Rightarrow> js option" where
  "caught (Throws e) = Some e"
| "caught (Raises x) = Some (Obj [(''name'', Str (case x of TypeError \<Rightarrow> ''TypeError'' | SyntaxError \<Rightarrow> ''SyntaxError'' | JsError _ \<Rightarrow> ''Error''))])"
| "caught IllTyped = None"

definition fail_request ::
  "(js \<Rightarrow> bool) \<Rightarrow> string \<Rightarrow> failure \<Rightarrow> 's Web \<Rightarrow> (failure + 'o) \<times> 's Web" where
  "fail_request isCancel name f w = (case caught f of
      None \<Rightarrow> (Inl f, w)
    | Some e \<Rightarrow>
        (let (e, _, app) = processApiError (web_isDev w) isCancel name e (web_app w)
         in (Inl (Throws e), w\<lparr>web_app := app\<rparr>)))"

record ('i, 'o) HttpApi =
  ha_httpOptions :: "'i \<Rightarrow> HttpOptions"
  ha_name :: string
  ha_postProcess :: "js \<Rightarrow> failure + 'o" \<comment> \<open>of \<open>response.data\<close>\<close>
  ha_stubbedResponse :: "js option"
  ha_unAuthenticated :: bool

text \<open>The request that \<open>generateApi\<close> sends; reading the token from a damaged storage throws.\<close>

definition http_request ::
  "'s Store \<Rightarrow> ('i, 'o) HttpApi \<Rightarrow> js \<Rightarrow> 'i \<Rightarrow> 's Web \<Rightarrow> failure + Request" where
  "http_request ops api cancelToken params w =
     (let httpOpts = ha_httpOptions api params;
          url = serverAddress (web_env w) [] @ ho_url httpOpts;
          method = (case ho_method httpOpts of Some m \<Rightarrow> m | None \<Rightarrow> ''GET'')
      in if ha_unAuthenticated api
         then Inr (HttpRequest cancelToken (ho_body httpOpts) (ho_headers httpOpts) method url)
         else (case get_authToken ops (web_local w) of
             Inl e \<Rightarrow> Inl (Raises e)
           | Inr token \<Rightarrow> Inr (HttpRequest cancelToken (ho_body httpOpts)
               (fold (\<lambda>(k, v). obj_put k v) (ho_headers httpOpts) [(''Authorization'', Str (''Bearer '' @ js_str token))])
               method url)))"

definition generateApi ::
  "'s Store \<Rightarrow> (js \<Rightarrow> bool) \<Rightarrow> (nat \<Rightarrow> Request \<Rightarrow> js + js) \<Rightarrow> ('i, 'o) HttpApi \<Rightarrow> js \<Rightarrow> 'i \<Rightarrow> 's Web
    \<Rightarrow> (failure + 'o) \<times> 's Web" where
  "generateApi ops isCancel net api cancelToken params w =
     (let finish = (\<lambda>data w. case ha_postProcess api data of
            Inr v \<Rightarrow> (Inr v, w)
          | Inl f \<Rightarrow> fail_request isCancel (ha_name api) f w)
      in case http_request ops api cancelToken params w of
           Inl f \<Rightarrow> fail_request isCancel (ha_name api) f w
         | Inr req \<Rightarrow>
             (case ha_stubbedResponse api of
               Some data \<Rightarrow> finish data w
             | None \<Rightarrow>
                 (case net (length (web_requests w)) req of
                   Inr data \<Rightarrow> finish data (log_request req w)
                 | Inl e \<Rightarrow> fail_request isCancel (ha_name api) (Throws e) (log_request req w))))"

record ('i, 'd, 'o) DetApi =
  da_name :: string
  da_postProcess :: "'d \<Rightarrow> failure + 'o"
  da_request :: "'i \<Rightarrow> string \<times> string \<times> js list" \<comment> \<open>client, method, arguments\<close>
  da_stubbedResponse :: "'d option"

definition det_request :: "('i, 'd, 'o) DetApi \<Rightarrow> 'i \<Rightarrow> 's Web \<Rightarrow> Request" where
  "det_request api params w = (case da_request api params of (client, method, args) \<Rightarrow>
     SdkRequest client method args (the (map_of (web_detApi w) client)))"

definition fail_unless_aborted ::
  "(js \<Rightarrow> bool) \<Rightarrow> string \<Rightarrow> failure \<Rightarrow> 's Web \<Rightarrow> (failure + 'o) \<times> 's Web" where
  "fail_unless_aborted isCancel name f w = (case caught f of
      None \<Rightarrow> (Inl f, w)
    | Some e \<Rightarrow> if isAborted isCancel e then (Inl (Throws e), w) else fail_request isCancel name f w)"

definition generateDetApi ::
  "(js \<Rightarrow> bool) \<Rightarrow> (nat \<Rightarrow> Request \<Rightarrow> js + 'd) \<Rightarrow> ('i, 'd, 'o) DetApi \<Rightarrow> 'i \<Rightarrow> 's Web
    \<Rightarrow> (failure + 'o) \<times> 's Web" where
  "generateDetApi isCancel net api params w =
     (let finish = (\<lambda>resp w. case da_postProcess api resp of
            Inr v \<Rightarrow> (Inr v, w)
          | Inl f \<Rightarrow> fail_unless_aborted isCancel (da_name api) f w)
      in case da_stubbedResponse api of
           Some resp \<Rightarrow> finish resp w
         | None \<Rightarrow>
             (let req = det_request api params w in
              case net (length (web_requests w)) req of
                Inr resp \<Rightarrow> finish resp (log_request req w)
              | Inl e \<Rightarrow> fail_unless_aborted isCancel (da_name api) (Throws e) (log_request req w)))"

section \<open>Streams\<close>

text \<open>
  The reader of a stream: the values it yields in order and how it ends, normally (also when the request was aborted,
  which cancels the reader) or with a rejected read.  \<open>onEvent\<close> acts on the caller's state.
\<close>

fun consume :: "(js \<Rightarrow> 'c \<Rightarrow> 'c) \<Rightarrow> js list \<Rightarrow> js option \<Rightarrow> 'c \<Rightarrow> js option \<times> 'c" where
  "consume onEvent [] ending st = (ending, st)"
| "consume onEvent (v # vs) ending st =
     (if truthy (get_prop v ''error'') then (Some (get_prop v ''error''), st)
      else consume onEvent vs ending (onEvent (get_prop v ''result'') st))"

definition consumeStream ::
  "(js \<Rightarrow> bool) \<Rightarrow> string \<Rightarrow> js + (js list \<times> js option) \<Rightarrow> (js \<Rightarrow> 'c \<Rightarrow> 'c) \<Rightarrow> 'c \<Rightarrow> 's Web
    \<Rightarrow> (js + unit) \<times> 'c \<times> 's Web" where
  "consumeStream isCancel url response onEvent st w =
     (let (failed, st) = (case response of
            Inl e \<Rightarrow> (Some e, st)
          | Inr (vs, ending) \<Rightarrow> consume onEvent vs ending st)
      in case failed of
           None \<Rightarrow> (Inr (), st, w)
         | Some e \<Rightarrow>
             if isAborted isCancel e then (Inr (), st, w)
             else (let (e, _, app) = processApiError (web_isDev w) isCancel url e (web_app w)
                   in (Inl e, st, w\<lparr>web_app := app\<rparr>)))"

section \<open>Downloading the logs of a trial\<close>

definition MAX_PART_SIZE :: nat where
  "MAX_PART_SIZE = 128 * 2 ^ 20"

record Download =
  dl_parts :: "string list"
  dl_buffer :: string

definition download_event :: "js \<Rightarrow> Download \<Rightarrow> Download" where
  "download_event ev d =
     (let buffer = dl_buffer d @ js_str (get_prop ev ''message'') in
      if length buffer > MAX_PART_SIZE then \<lparr>dl_parts = dl_parts d @ [buffer], dl_buffer = []\<rparr>
      else d\<lparr>dl_buffer := buffer\<rparr>)"

text \<open>
  The file that is saved, as its name and parts.  The stream's response and the trial that \<open>getTrialDetails\<close> returns,
  a function of the state, are arguments.
\<close>

definition downloadTrialLogs ::
  "(js \<Rightarrow> bool) \<Rightarrow> string \<Rightarrow> js + (js list \<times> js option) \<Rightarrow> ('s Web \<Rightarrow> (failure + TrialDetails) \<times> 's Web) \<Rightarrow> int \<Rightarrow> 's Web
    \<Rightarrow> (failure + string \<times> string list) \<times> 's Web" where
  "downloadTrialLogs isCancel url response getTrial trialId w =
     (case consumeStream isCancel url response download_event \<lparr>dl_parts = [], dl_buffer = []\<rparr> w of
        (Inl e, _, w) \<Rightarrow> (Inl (Throws e), w)
      | (Inr _, d, w) \<Rightarrow>
          (let parts = (if dl_buffer d \<noteq> [] then dl_parts d @ [dl_buffer d] else dl_parts d) in
           case getTrial w of
             (Inl f, w) \<Rightarrow> (Inl f, w)
           | (Inr trial, w) \<Rightarrow>
               (Inr (''experiment_'' @ show_int (tr_experimentId trial) @ ''_trial_'' @ show_int trialId @ ''_logs.txt'',
                     parts), w)))"

section \<open>Lemmas\<close>

text \<open>The handler on an error of the given type, level and silence.\<close>

lemma handle_auth:
  assumes "\<not> isCancel (merge defaultErrorParameters e)"
    and "get_prop (merge defaultErrorParameters e) ''type'' = js_type ErrorType_Auth"
  shows "\<exists>st. snd (handleError isCancel e w) = w\<lparr>app_history := app_history w
    @ (if suffix ''login'' (app_pathname w) then [] else [(''/logout'', st)])\<rparr>"
  using assms by (auto simp: handleError_def Let_def)

lemma handle_silent:
  assumes "\<not> isCancel (merge defaultErrorParameters e)"
    and "get_prop (merge defaultErrorParameters e) ''type'' \<noteq> js_type ErrorType_Auth"
    and "truthy (get_prop (merge defaultErrorParameters e) ''silent'')"
  shows "\<exists>seg. snd (handleError isCancel e w) = w\<lparr>app_segment := seg\<rparr>"
  using assms by (auto simp: handleError_def Let_def segment_call_def intro: exI [of _ "app_segment w"])

lemma handle_loud:
  assumes "\<not> isCancel (merge defaultErrorParameters e)"
    and "get_prop (merge defaultErrorParameters e) ''type'' \<noteq> js_type ErrorType_Auth"
    and "\<not> truthy (get_prop (merge defaultErrorParameters e) ''silent'')"
    and "get_prop (merge defaultErrorParameters e) ''level'' \<in> js_level ` {ErrorLevel_Fatal, ErrorLevel_Error}"
  shows "app_history (snd (handleError isCancel e w)) = app_history w
    \<and> (\<exists>n. app_notifications (snd (handleError isCancel e w)) = app_notifications w @ [n])
    \<and> (\<exists>logs. logs \<noteq> [] \<and> app_console (snd (handleError isCancel e w)) = app_console w @ logs)"
proof -
  let ?e = "merge defaultErrorParameters e"
  have lev: "get_prop ?e ''level'' \<in> js_level ` {ErrorLevel_Fatal, ErrorLevel_Error, ErrorLevel_Warn}"
    "get_prop ?e ''level'' \<noteq> js_level ErrorLevel_Warn" using assms(4) by auto
  then show ?thesis
    using assms(1-3) log_error_console [OF lev(1), of "openNotification ?e w"] openNotification_one [OF lev(1), of w]
    by (simp add: handleError_def Let_def segment_call_def)
qed

lemma api_error_fields:
  fixes es :: "(string \<times> js) list"
  assumes "distinct (map fst es)"
  shows "get_prop (merge defaultErrorParameters (Obj es)) k
    = (case map_of es k of Some v \<Rightarrow> v | None \<Rightarrow> get_prop defaultErrorParameters k)"
    and "''__CANCEL__'' \<notin> fst ` set es \<Longrightarrow>
      \<exists>fs. merge defaultErrorParameters (Obj es) = Obj fs \<and> ''__CANCEL__'' \<notin> fst ` set fs"
proof -
  show "get_prop (merge defaultErrorParameters (Obj es)) k
    = (case map_of es k of Some v \<Rightarrow> v | None \<Rightarrow> get_prop defaultErrorParameters k)"
    using assms by (simp add: get_prop_merge, simp add: defaultErrorParameters_def split: option.splits)
  assume no: "''__CANCEL__'' \<notin> fst ` set es"
  have "fst ` set (fold (\<lambda>(k, v). obj_put k v) es ps) = fst ` set ps \<union> fst ` set es" for ps
    by (induction es arbitrary: ps) (auto split: prod.splits)
  with no show "\<exists>fs. merge defaultErrorParameters (Obj es) = Obj fs \<and> ''__CANCEL__'' \<notin> fst ` set fs"
    by (auto simp: merge_def defaultErrorParameters_def)
qed

text \<open>
  What \<open>axios\<close> promises of \<open>isCancel\<close>: a cancellation carries the marker \<open>__CANCEL__\<close>, so that an object without it is
  none.
\<close>

locale axios =
  fixes isCancel :: "js \<Rightarrow> bool"
  assumes no_marker: "''__CANCEL__'' \<notin> fst ` set fs \<Longrightarrow> \<not> isCancel (Obj fs)"
begin

lemma not_cancel_merged:
  "distinct (map fst es) \<Longrightarrow> ''__CANCEL__'' \<notin> fst ` set es \<Longrightarrow> \<not> isCancel (merge defaultErrorParameters (Obj es))"
  using api_error_fields(2) [of es] no_marker by metis

lemma process_plain_error:
  assumes "\<not> isDaError e"
  shows "fst (processApiError is_dev isCancel name e w) = e"
    and "isAuthFailure e \<Longrightarrow> \<exists>st. snd (snd (processApiError is_dev isCancel name e w)) = w\<lparr>app_history := app_history w
           @ (if suffix ''login'' (app_pathname w) then [] else [(''/logout'', st)])\<rparr>"
    and "\<not> isAuthFailure e \<Longrightarrow> \<not> is_dev \<or> isCancel e \<Longrightarrow>
           \<exists>seg. snd (snd (processApiError is_dev isCancel name e w)) = w\<lparr>app_segment := seg\<rparr>"
    and "\<not> isAuthFailure e \<Longrightarrow> is_dev \<Longrightarrow> \<not> isCancel e \<Longrightarrow>
           app_history (snd (snd (processApiError is_dev isCancel name e w))) = app_history w
           \<and> (\<exists>n. app_notifications (snd (snd (processApiError is_dev isCancel name e w))) = app_notifications w @ [n])
           \<and> (\<exists>logs. logs \<noteq> [] \<and> app_console (snd (snd (processApiError is_dev isCancel name e w))) = app_console w @ logs)"
proof -
  define es where "es = [(''error'', e),
     (''level'', js_level (if isAuthFailure e then ErrorLevel_Fatal else ErrorLevel_Error)),
     (''message'', Str (if isAuthFailure e then ''unauthenticated request '' @ name else ''request '' @ name @ '' failed.'')),
     (''silent'', Bool (\<not> is_dev \<or> isAuthFailure e \<or> isCancel e)),
     (''type'', js_type (if isAuthFailure e then ErrorType_Auth else ErrorType_Server))]"
  have p: "processApiError is_dev isCancel name e w
      = (e, fst (handleError isCancel (Obj es) w), snd (handleError isCancel (Obj es) w))"
    using assms by (simp add: processApiError_def es_def split_beta)
  have d: "distinct (map fst es)" "''__CANCEL__'' \<notin> fst ` set es" by (simp_all add: es_def)
  note nc = not_cancel_merged [OF d]
  have fields: "get_prop (merge defaultErrorParameters (Obj es)) k = (case map_of es k of Some v \<Rightarrow> v
      | None \<Rightarrow> get_prop defaultErrorParameters k)" for k by (rule api_error_fields(1) [OF d(1)])
  show "fst (processApiError is_dev isCancel name e w) = e" by (simp add: p)
  show "isAuthFailure e \<Longrightarrow> \<exists>st. snd (snd (processApiError is_dev isCancel name e w)) = w\<lparr>app_history := app_history w
           @ (if suffix ''login'' (app_pathname w) then [] else [(''/logout'', st)])\<rparr>"
    unfolding p snd_conv using nc by (rule handle_auth) (simp add: fields, simp add: es_def)
  show "\<not> isAuthFailure e \<Longrightarrow> \<not> is_dev \<or> isCancel e \<Longrightarrow>
           \<exists>seg. snd (snd (processApiError is_dev isCancel name e w)) = w\<lparr>app_segment := seg\<rparr>"
    unfolding p snd_conv using nc by (rule handle_silent) (simp add: fields, simp add: es_def)+
  show "\<not> isAuthFailure e \<Longrightarrow> is_dev \<Longrightarrow> \<not> isCancel e \<Longrightarrow>
           app_history (snd (snd (processApiError is_dev isCancel name e w))) = app_history w
           \<and> (\<exists>n. app_notifications (snd (snd (processApiError is_dev isCancel name e w))) = app_notifications w @ [n])
           \<and> (\<exists>logs. logs \<noteq> [] \<and> app_console (snd (snd (processApiError is_dev isCancel name e w))) = app_console w @ logs)"
    unfolding p snd_conv using nc by (rule handle_loud) (simp add: fields, simp add: es_def)+
qed

end

definition axios_isCancel :: "js \<Rightarrow> bool" where
  "axios_isCancel e = (truthy e \<and> truthy (get_prop e ''__CANCEL__''))"

interpretation axios_marker: axios axios_isCancel
proof
  fix fs :: "(string \<times> js) list"
  assume "''__CANCEL__'' \<notin> fst ` set fs"
  then have "map_of fs ''__CANCEL__'' = None" by (simp add: map_of_eq_None_iff)
  then show "\<not> axios_isCancel (Obj fs)" by (simp add: axios_isCancel_def get_prop_def)
qed

section \<open>Properties\<close>

text \<open>
  C15: A request of the generated client that fails is reported once and rethrown.  The request is sent exactly once; an
  aborted request leaves the application untouched; a response with status 401 sends the user to the logout page
  (unless a login page is shown) without any notification; every other failure shows one notification and logs it in a
  development build, and only reaches the analytics in production.
\<close>

theorem failed_request:
  assumes "axios isCancel" and "da_stubbedResponse api = None"
    and "net (length (web_requests w)) (det_request api p w) = Inl e" and "\<not> isDaError e"
    and "generateDetApi isCancel net api p w = (r, w')"
  shows "r = Inl (Throws e) \<and> web_requests w' = web_requests w @ [det_request api p w]
    \<and> (isAborted isCancel e \<longrightarrow> web_app w' = web_app w)
    \<and> (\<not> isAborted isCancel e \<and> isAuthFailure e \<longrightarrow>
      (\<exists>st. web_app w' = (web_app w)\<lparr>app_history := app_history (web_app w)
        @ (if suffix ''login'' (app_pathname (web_app w)) then [] else [(''/logout'', st)])\<rparr>))
    \<and> (\<not> isAborted isCancel e \<and> \<not> isAuthFailure e \<and> \<not> web_isDev w \<longrightarrow>
      (\<exists>seg. web_app w' = (web_app w)\<lparr>app_segment := seg\<rparr>))
    \<and> (\<not> isAborted isCancel e \<and> \<not> isAuthFailure e \<and> web_isDev w \<longrightarrow>
      app_history (web_app w') = app_history (web_app w)
      \<and> (\<exists>n. app_notifications (web_app w') = app_notifications (web_app w) @ [n])
      \<and> (\<exists>logs. logs \<noteq> [] \<and> app_console (web_app w') = app_console (web_app w) @ logs))"
proof -
  let ?w = "log_request (det_request api p w) w"
  have "(r, w') = fail_unless_aborted isCancel (da_name api) (Throws e) ?w"
    using assms(2,3,5) by (simp add: generateDetApi_def Let_def)
  then have rw: "(r, w') = (if isAborted isCancel e then (Inl (Throws e), ?w)
      else (Inl (Throws (fst (processApiError (web_isDev w) isCancel (da_name api) e (web_app w)))),
            ?w\<lparr>web_app := snd (snd (processApiError (web_isDev w) isCancel (da_name api) e (web_app w)))\<rparr>))"
    by (simp add: fail_unless_aborted_def fail_request_def split_beta log_request_def)
  note plain = axios.process_plain_error [OF assms(1,4), of "web_isDev w" "da_name api" "web_app w"]
  have nc: "\<not> isCancel e" if "\<not> isAborted isCancel e" using that by (simp add: isAborted_def)
  have sent: "r = Inl (Throws e)" "web_requests w' = web_requests w @ [det_request api p w]"
    "isAborted isCancel e \<Longrightarrow> web_app w' = web_app w"
    using rw plain(1) by (auto simp: log_request_def split: if_splits)
  have auth: "\<not> isAborted isCancel e \<Longrightarrow> isAuthFailure e \<Longrightarrow>
      \<exists>st. web_app w' = (web_app w)\<lparr>app_history := app_history (web_app w)
        @ (if suffix ''login'' (app_pathname (web_app w)) then [] else [(''/logout'', st)])\<rparr>"
    using rw plain(2) by (simp add: log_request_def)
  have prod: "\<not> isAborted isCancel e \<Longrightarrow> \<not> isAuthFailure e \<Longrightarrow> \<not> web_isDev w \<Longrightarrow>
      \<exists>seg. web_app w' = (web_app w)\<lparr>app_segment := seg\<rparr>"
    using rw plain(3) by (simp add: log_request_def)
  have dev: "\<not> isAborted isCancel e \<Longrightarrow> \<not> isAuthFailure e \<Longrightarrow> web_isDev w \<Longrightarrow>
      app_history (web_app w') = app_history (web_app w)
      \<and> (\<exists>n. app_notifications (web_app w') = app_notifications (web_app w) @ [n])
      \<and> (\<exists>logs. logs \<noteq> [] \<and> app_console (web_app w') = app_console (web_app w) @ logs)"
    using rw plain(4) nc by (simp add: log_request_def)
  show ?thesis using sent auth prod dev by blast
qed

definition sample_web :: "memory_store Web" where
  "sample_web = \<lparr>web_app = \<lparr>app_pathname = ''/det/dashboard'', app_location = Null, app_history = [],
       app_notifications = [], app_console = [], app_window_analytics = Undefined, app_analytics = None,
       app_isEnabled = False, app_segment = []\<rparr>,
     web_env = dev_env, web_isDev = False, web_local = mem_new, web_detApi = [(''Auth'', \<lparr>ac_apiKey = None, ac_basePath = ''''\<rparr>)],
     web_requests = []\<rparr>"

definition sample_api :: "(unit, unit, unit) DetApi" where
  "sample_api = \<lparr>da_name = ''logout'', da_postProcess = Inr, da_request = (\<lambda>_. (''Auth'', ''determinedLogout'', [])),
     da_stubbedResponse = None\<rparr>"

theorem failed_request_witness:
  "\<exists>st. app_history (web_app (snd (generateDetApi axios_isCancel (\<lambda>_ _. Inl (Obj [(''status'', Num (Fin 401))]))
     sample_api () sample_web))) = [(''/logout'', st)]"
proof -
  let ?e = "Obj [(''status'', Num (Fin 401))]"
  have p: "\<not> isDaError ?e" "isAuthFailure ?e" "\<not> isAborted axios_isCancel ?e"
    "\<not> suffix ''login'' ''/det/dashboard''"
    by (simp_all add: isDaError_def obj_keys_def isAuthFailure_def getResponseStatus_def js_or_def get_prop_def
        isAborted_def axios_isCancel_def suffix_def)
  obtain r w' where g: "generateDetApi axios_isCancel (\<lambda>_ _. Inl ?e) sample_api () sample_web = (r, w')"
    by (cases "generateDetApi axios_isCancel (\<lambda>_ _. Inl ?e) sample_api () sample_web")
  have "\<exists>st. web_app w' = (web_app sample_web)\<lparr>app_history := app_history (web_app sample_web)
        @ (if suffix ''login'' (app_pathname (web_app sample_web)) then [] else [(''/logout'', st)])\<rparr>"
    using failed_request [OF axios_marker.axios_axioms _ _ p(1) g] p(2,3) by (simp add: sample_api_def)
  then show ?thesis unfolding g snd_conv using p(4) by (auto simp: sample_web_def)
qed

definition ev_message :: "js \<Rightarrow> string" where
  "ev_message v = js_str (get_prop (get_prop v ''result'') ''message'')"

lemma consume_ok:
  "\<forall>v \<in> set vs. \<not> truthy (get_prop v ''error'') \<Longrightarrow>
   consume f vs ending st = (ending, fold (\<lambda>v. f (get_prop v ''result'')) vs st)"
  by (induction vs arbitrary: st) auto

definition download_inv :: "nat \<Rightarrow> string \<Rightarrow> Download \<Rightarrow> bool" where
  "download_inv L s d = (concat (dl_parts d) @ dl_buffer d = s \<and> length (dl_buffer d) \<le> MAX_PART_SIZE
     \<and> (\<forall>p \<in> set (dl_parts d). MAX_PART_SIZE < length p \<and> length p \<le> MAX_PART_SIZE + L))"

lemma download_step:
  assumes "download_inv L s d" "length (ev_message v) \<le> L"
  shows "download_inv L (s @ ev_message v) (download_event (get_prop v ''result'') d)"
  using assms by (auto simp: download_inv_def download_event_def ev_message_def Let_def)

lemma download_fold:
  "download_inv L s d \<Longrightarrow> \<forall>v \<in> set vs. length (ev_message v) \<le> L \<Longrightarrow>
   download_inv L (s @ concat (map ev_message vs)) (fold (\<lambda>v. download_event (get_prop v ''result'')) vs d)"
proof (induction vs arbitrary: s d)
  case (Cons v vs)
  from Cons.prems have "download_inv L (s @ ev_message v) (download_event (get_prop v ''result'') d)"
    by (intro download_step) auto
  from Cons.IH [OF this] Cons.prems(2) show ?case by simp
qed simp


definition sample_trial :: TrialDetails where
  "sample_trial = \<lparr>t_endTime = None, t_startTime = '''', tr_bestAvailableCheckpoint = None, tr_bestValidationMetric = None,
     tr_experimentId = 7, tr_hparams = Null, tr_id = 3, tr_latestValidationMetric = None, tr_state = RunState_Active,
     tr_totalBatchesProcessed = 0, tr_workloads = []\<rparr>"


end
