(* ===== verification/Api_Config.thy ===== *)
theory Api_Config
  imports Services
begin

text \<open>
  \<^verbatim>\<open>services/apiConfig.ts\<close> and \<^verbatim>\<open>services/api.ts\<close>: the table of requests, the configuration of the generated client
  and the requests composed of others.  The hash \<open>sha512\<close>, the printing of query strings and the validation package
  are arguments.  A request of the generated client is described by client, method and arguments.
\<close>

section \<open>Configuration of the client\<close>

record ConfigurationParameters =
  cp_apiKey :: "string field"
  cp_basePath :: "string field"

definition detApi_clients :: "string list" where
  "detApi_clients = [''Auth'', ''Cluster'', ''Commands'', ''Experiments'', ''InternalApi'', ''Notebooks'', ''Shells'',
     ''StreamingExperiments'', ''StreamingInternal'', ''Tensorboards'']"

text \<open>The token as the getter of \<open>globalStorage\<close> yields it, for a storage that can be read.\<close>

definition stored_token :: "'s Store \<Rightarrow> 's Web \<Rightarrow> string" where
  "stored_token ops w = (case get_authToken ops (web_local w) of Inr t \<Rightarrow> js_str t | Inl _ \<Rightarrow> [])"

definition ApiConfig :: "'s Store \<Rightarrow> 's Web \<Rightarrow> ApiConfiguration" where
  "ApiConfig ops w = \<lparr>ac_apiKey = Some (''Bearer '' @ stored_token ops w), ac_basePath = serverAddress (web_env w) []\<rparr>"

definition init_detApi :: "'s Store \<Rightarrow> 's Web \<Rightarrow> 's Web" where
  "init_detApi ops w = w\<lparr>web_detApi := map (\<lambda>c. (c, ApiConfig ops w)) detApi_clients\<rparr>"

definition updatedApiConfigParams :: "'s Store \<Rightarrow> ConfigurationParameters \<Rightarrow> 's Web \<Rightarrow> ApiConfiguration" where
  "updatedApiConfigParams ops apiConfig w = \<lparr>
     ac_apiKey = (case cp_apiKey apiConfig of Given k \<Rightarrow> k | Absent \<Rightarrow> Some (''Bearer '' @ stored_token ops w)),
     ac_basePath = (case cp_basePath apiConfig of
         Given (Some b) \<Rightarrow> b | Given None \<Rightarrow> [] | Absent \<Rightarrow> serverAddress (web_env w) [])\<rparr>"

text \<open>The clients that are replaced; \<open>StreamingInternal\<close> is not among them.\<close>

definition updateDetApi :: "'s Store \<Rightarrow> ConfigurationParameters \<Rightarrow> 's Web \<Rightarrow> 's Web" where
  "updateDetApi ops apiConfig w =
     (let config = updatedApiConfigParams ops apiConfig w
      in w\<lparr>web_detApi := fold (\<lambda>c. obj_set c config)
           [''Auth'', ''Cluster'', ''Commands'', ''Experiments'', ''InternalApi'', ''Notebooks'', ''Shells'',
            ''StreamingExperiments'', ''Tensorboards''] (web_detApi w)\<rparr>)"

section \<open>Helpers\<close>

definition saltAndHashPassword :: "(string \<Rightarrow> string) \<Rightarrow> string option \<Rightarrow> string" where
  "saltAndHashPassword sha512 password = (case password of
      None \<Rightarrow> []
    | Some p \<Rightarrow> if p = [] then [] else sha512 (''GubPEmmotfiK9TMD6Zdw'' @ p))"

fun commandToEndpoint :: "CommandType \<Rightarrow> string" where
  "commandToEndpoint CommandType_Command = ''/commands''"
| "commandToEndpoint CommandType_Notebook = ''/notebooks''"
| "commandToEndpoint CommandType_Tensorboard = ''/tensorboard''"
| "commandToEndpoint CommandType_Shell = ''/shells''"

definition js_int :: "int \<Rightarrow> js" where
  "js_int i = Num (Fin (of_int i))"

definition js_opt :: "('a \<Rightarrow> js) \<Rightarrow> 'a option \<Rightarrow> js" where
  "js_opt f x = (case x of Some v \<Rightarrow> f v | None \<Rightarrow> Undefined)"

definition js_strs :: "string list \<Rightarrow> js" where
  "js_strs ss = Arr (map Str ss)"

definition http_get :: "string \<Rightarrow> HttpOptions" where
  "http_get url = \<lparr>ho_body = Undefined, ho_headers = [], ho_method = None, ho_url = url\<rparr>"

definition http_post :: "string \<Rightarrow> js \<Rightarrow> HttpOptions" where
  "http_post url body = \<lparr>ho_body = body, ho_headers = [], ho_method = Some ''POST'', ho_url = url\<rparr>"

definition http_api :: "string \<Rightarrow> ('i \<Rightarrow> HttpOptions) \<Rightarrow> (js \<Rightarrow> failure + 'o) \<Rightarrow> bool \<Rightarrow> ('i, 'o) HttpApi" where
  "http_api name httpOptions postProcess unAuthenticated = \<lparr>ha_httpOptions = httpOptions, ha_name = name,
     ha_postProcess = postProcess, ha_stubbedResponse = None, ha_unAuthenticated = unAuthenticated\<rparr>"

definition det_api ::
  "string \<Rightarrow> ('d \<Rightarrow> failure + 'o) \<Rightarrow> ('i \<Rightarrow> string \<times> string \<times> js list) \<Rightarrow> ('i, 'd, 'o) DetApi" where
  "det_api name postProcess request = \<lparr>da_name = name, da_postProcess = postProcess, da_request = request,
     da_stubbedResponse = None\<rparr>"

definition noOp :: "'d \<Rightarrow> failure + unit" where
  "noOp _ = Inr ()"

section \<open>Authentication\<close>

definition login :: "(codec \<Rightarrow> js \<Rightarrow> js + js) \<Rightarrow> (string \<Rightarrow> string) \<Rightarrow> (Credentials, LoginResponse) HttpApi" where
  "login dec sha512 = http_api ''login''
     (\<lambda>c. http_post ''/login?cookie=true'' (Obj [
        (''password'', Str (saltAndHashPassword sha512 (cred_password c))), (''username'', Str (cred_username c))]))
     (jsonToLogin dec) True"

definition logout :: "(unit, unit, unit) DetApi" where
  "logout = det_api ''logout'' noOp (\<lambda>_. (''Auth'', ''determinedLogout'', []))"

definition getCurrentUser :: "(js, V1User, DetailedUser) DetApi" where
  "getCurrentUser = det_api ''getCurrentUser'' (\<lambda>u. Inr (user u))
     (\<lambda>params. (''Auth'', ''determinedCurrentUser'', [params]))"

definition getUsers :: "(codec \<Rightarrow> js \<Rightarrow> js + js) \<Rightarrow> (unit, ListedUser list) HttpApi" where
  "getUsers dec = http_api ''getUsers'' (\<lambda>_. http_get ''/users'') (jsonToUsers dec) False"

section \<open>Cluster\<close>

definition getInfo :: "(unit, V1GetMasterResponse, DeterminedInfo) DetApi" where
  "getInfo = det_api ''getInfo'' (\<lambda>r. Inr (jsonToDeterminedInfo r)) (\<lambda>_. (''Cluster'', ''determinedGetMaster'', []))"

definition getTelemetry :: "(unit, Telemetry, Telemetry) DetApi" where
  "getTelemetry = det_api ''getTelemetry'' Inr (\<lambda>_. (''InternalApi'', ''determinedGetTelemetry'', []))"

definition getAgents :: "(string \<Rightarrow> number) \<Rightarrow> (unit, V1Agent list option, Agent list) DetApi" where
  "getAgents dayjs_unix = det_api ''getAgents''
     (\<lambda>agents. Inr (jsonToAgents dayjs_unix (case agents of Some as \<Rightarrow> as | None \<Rightarrow> [])))
     (\<lambda>_. (''Cluster'', ''determinedGetAgents'', []))"

section \<open>Experiments and trials\<close>

record GetExperimentsParams =
  gep_sortBy :: "string option"
  gep_orderBy :: "string option"
  gep_offset :: "int option"
  gep_limit :: "int option"
  gep_description :: "string option"
  gep_labels :: "string list option"
  gep_archived :: "bool option"
  gep_states :: "string list option"
  gep_users :: "string list option"

text \<open>The messages are handed on as they are, cast to \<open>ExperimentBase\<close>.\<close>

definition getExperiments :: "(GetExperimentsParams, V1Experiment list option, V1Experiment list) DetApi" where
  "getExperiments = det_api ''activateExperiment''
     (\<lambda>r. Inr (case r of Some es \<Rightarrow> es | None \<Rightarrow> []))
     (\<lambda>p. (''Experiments'', ''determinedGetExperiments'', [
        js_opt Str (gep_sortBy p), js_opt Str (gep_orderBy p), js_opt js_int (gep_offset p), js_opt js_int (gep_limit p),
        js_opt Str (gep_description p), js_opt js_strs (gep_labels p), js_opt Bool (gep_archived p),
        js_opt js_strs (gep_states p), js_opt js_strs (gep_users p), Undefined]))"

definition createExperiment ::
  "(codec \<Rightarrow> js \<Rightarrow> js + js) \<Rightarrow> (string \<times> int, V1Experiment \<times> js, ExperimentBase) DetApi" where
  "createExperiment dec = det_api ''createExperiment''
     (\<lambda>(ex, config). decodeGetV1ExperimentRespToExperimentBase dec ex config)
     (\<lambda>(experimentConfig, parentId). (''Experiments'', ''determinedCreateExperiment'',
        [Obj [(''config'', Str experimentConfig), (''parentId'', js_int parentId)]]))"

definition experiment_action :: "string \<Rightarrow> string \<Rightarrow> (int, unit, unit) DetApi" where
  "experiment_action name method = det_api name noOp (\<lambda>experimentId. (''Experiments'', method, [js_int experimentId]))"

definition archiveExperiment :: "(int, unit, unit) DetApi" where
  "archiveExperiment = experiment_action ''archiveExperiment'' ''determinedArchiveExperiment''"

definition unarchiveExperiment :: "(int, unit, unit) DetApi" where
  "unarchiveExperiment = experiment_action ''unarchiveExperiment'' ''determinedUnarchiveExperiment''"

definition activateExperiment :: "(int, unit, unit) DetApi" where
  "activateExperiment = experiment_action ''activateExperiment'' ''determinedActivateExperiment''"

definition pauseExperiment :: "(int, unit, unit) DetApi" where
  "pauseExperiment = experiment_action ''pauseExperiment'' ''determinedPauseExperiment''"

definition cancelExperiment :: "(int, unit, unit) DetApi" where
  "cancelExperiment = experiment_action ''cancelExperiment'' ''determinedCancelExperiment''"

definition killExperiment :: "(int, unit, unit) DetApi" where
  "killExperiment = experiment_action ''killExperiment'' ''determinedKillExperiment''"

definition patchExperiment :: "(int \<times> js, unit, unit) DetApi" where
  "patchExperiment = det_api ''patchExperiment'' noOp
     (\<lambda>(experimentId, body). (''Experiments'', ''determinedPatchExperiment'', [js_int experimentId, body]))"

definition getExperimentDetails ::
  "(codec \<Rightarrow> js \<Rightarrow> js + js) \<Rightarrow> (int, V1Experiment \<times> js, ExperimentBase) DetApi" where
  "getExperimentDetails dec = det_api ''getExperimentDetails''
     (\<lambda>(ex, config). decodeGetV1ExperimentRespToExperimentBase dec ex config)
     (\<lambda>i. (''Experiments'', ''determinedGetExperiment'', [js_int i]))"

record V1ValidationHistoryEntry =
  v1v_endTime :: string
  v1v_trialId :: int
  v1v_searcherMetric :: "number option"

definition getExpValidationHistory ::
  "(int, V1ValidationHistoryEntry list option, ValidationHistory list) DetApi" where
  "getExpValidationHistory = det_api ''getExperimentValidationHistory''
     (\<lambda>r. Inr (case r of
         None \<Rightarrow> []
       | Some vhs \<Rightarrow> map (\<lambda>vh. \<lparr>vh_endTime = v1v_endTime vh, vh_trialId = v1v_trialId vh,
           vh_validationError = v1v_searcherMetric vh\<rparr>) vhs))
     (\<lambda>i. (''Experiments'', ''determinedGetExperimentValidationHistory'', [js_int i]))"

record GetTrialsParams =
  gtp_id :: int
  gtp_sortBy :: "string option"
  gtp_orderBy :: "string option"
  gtp_offset :: "int option"
  gtp_limit :: "int option"
  gtp_states :: "RunState list option"

definition getExpTrials :: "(GetTrialsParams, Trialv1Trial list, TrialDetails list) DetApi" where
  "getExpTrials = det_api ''getExperimentValidationHistory''
     (\<lambda>trials. Inr (map (\<lambda>trial. decodeTrialResponseToTrialDetails \<lparr>v1r_trial = trial, v1r_workloads = None\<rparr>) trials))
     (\<lambda>p. (''Experiments'', ''determinedGetExperimentTrials'', [
        js_int (gtp_id p), js_opt Str (gtp_sortBy p), js_opt Str (gtp_orderBy p), js_opt js_int (gtp_offset p),
        js_opt js_int (gtp_limit p),
        js_opt (\<lambda>rs. js_strs (map (\<lambda>r. ''STATE_'' @ str_RunState r) rs)) (gtp_states p)]))"

definition getExperimentLabels :: "(js, string list option, string list) DetApi" where
  "getExperimentLabels = det_api ''getExperimentLabels'' (\<lambda>r. Inr (case r of Some ls \<Rightarrow> ls | None \<Rightarrow> []))
     (\<lambda>params. (''Experiments'', ''determinedGetExperimentLabels'', [params]))"

definition getTrialDetails :: "(int, V1GetTrialResponse, TrialDetails) DetApi" where
  "getTrialDetails = det_api ''getTrialDetails'' (\<lambda>r. Inr (decodeTrialResponseToTrialDetails r))
     (\<lambda>i. (''Experiments'', ''determinedGetTrial'', [js_int i]))"

section \<open>Tasks\<close>

definition getCommands :: "(codec \<Rightarrow> js \<Rightarrow> js + js) \<Rightarrow> (unit, Command list) HttpApi" where
  "getCommands dec = http_api ''getCommands'' (\<lambda>_. http_get ''/commands'') (jsonToCommands dec) False"

definition getNotebooks :: "(codec \<Rightarrow> js \<Rightarrow> js + js) \<Rightarrow> (unit, Command list) HttpApi" where
  "getNotebooks dec = http_api ''getNotebooks'' (\<lambda>_. http_get ''/notebooks'') (jsonToNotebooks dec) False"

definition getShells :: "(codec \<Rightarrow> js \<Rightarrow> js + js) \<Rightarrow> (unit, Command list) HttpApi" where
  "getShells dec = http_api ''getShells'' (\<lambda>_. http_get ''/shells'') (jsonToShells dec) False"

definition getTensorboards :: "(codec \<Rightarrow> js \<Rightarrow> js + js) \<Rightarrow> (unit, Command list) HttpApi" where
  "getTensorboards dec = http_api ''getTensorboards'' (\<lambda>_. http_get ''/tensorboard'') (jsonToTensorboards dec) False"

definition killCommand :: "(string, unit, unit) DetApi" where
  "killCommand = det_api ''killCommand'' noOp (\<lambda>commandId. (''Commands'', ''determinedKillCommand'', [Str commandId]))"

definition killNotebook :: "(string, unit, unit) DetApi" where
  "killNotebook = det_api ''killNotebook'' noOp (\<lambda>commandId. (''Notebooks'', ''determinedKillNotebook'', [Str commandId]))"

definition killShell :: "(string, unit, unit) DetApi" where
  "killShell = det_api ''killShell'' noOp (\<lambda>commandId. (''Shells'', ''determinedKillShell'', [Str commandId]))"

definition killTensorboard :: "(string, unit, unit) DetApi" where
  "killTensorboard = det_api ''killTensorboard'' noOp
     (\<lambda>commandId. (''Tensorboards'', ''determinedKillTensorboard'', [Str commandId]))"

definition createNotebook :: "(codec \<Rightarrow> js \<Rightarrow> js + js) \<Rightarrow> (int, Command) HttpApi" where
  "createNotebook dec = http_api ''createNotebook''
     (\<lambda>slots. http_post (commandToEndpoint CommandType_Notebook) (Obj [
        (''config'', Obj [(''resources'', Obj [(''slots'', js_int slots)])]), (''context'', Null)]))
     (jsonToNotebook dec) False"

definition createTensorboard :: "(codec \<Rightarrow> js \<Rightarrow> js + js) \<Rightarrow> (TBSource, Command) HttpApi" where
  "createTensorboard dec = http_api ''createTensorboard''
     (\<lambda>params.
        let attrName = (if src_type params = TBSourceType_Trial then ''trial_ids'' else ''experiment_ids'')
        in http_post (commandToEndpoint CommandType_Tensorboard) (Obj [(attrName, Arr (map js_int (src_ids params)))]))
     (jsonToTensorboard dec) False"

section \<open>Logs\<close>

record LogsParams =
  lp_greaterThanId :: "int option"
  lp_tail :: "int option"

record TaskLogsParams = LogsParams +
  tlp_taskId :: string
  tlp_taskType :: CommandType

record TrialLogsParams = LogsParams +
  rlp_experimentId :: int
  rlp_trialId :: int

text \<open>A zero \<open>tail\<close> is left out, a zero \<open>greaterThanId\<close> is not.\<close>

definition buildQuery :: "((string \<times> int) list \<Rightarrow> string) \<Rightarrow> 'a LogsParams_scheme \<Rightarrow> string" where
  "buildQuery qs_stringify params = qs_stringify
     ((case lp_tail params of Some t \<Rightarrow> if t \<noteq> 0 then [(''tail'', t)] else [] | None \<Rightarrow> [])
      @ (case lp_greaterThanId params of Some g \<Rightarrow> [(''greater_than_id'', g)] | None \<Rightarrow> []))"

definition getMasterLogs ::
  "(codec \<Rightarrow> js \<Rightarrow> js + js) \<Rightarrow> ((string \<times> int) list \<Rightarrow> string) \<Rightarrow> (LogsParams, Log list) HttpApi" where
  "getMasterLogs dec qs = http_api ''getMasterLogs''
     (\<lambda>params. http_get (js_join ''?'' [''/logs'', buildQuery qs params])) (jsonToLogs dec) False"

definition getTaskLogs ::
  "(codec \<Rightarrow> js \<Rightarrow> js + js) \<Rightarrow> ((string \<times> int) list \<Rightarrow> string) \<Rightarrow> (TaskLogsParams, Log list) HttpApi" where
  "getTaskLogs dec qs = http_api ''getTaskLogs''
     (\<lambda>params. http_get (js_join ''?'' [
        commandToEndpoint (tlp_taskType params) @ ''/'' @ tlp_taskId params @ ''/events'', buildQuery qs params]))
     (jsonToTaskLogs dec) False"

definition getTrialLogs ::
  "(codec \<Rightarrow> js \<Rightarrow> js + js) \<Rightarrow> ((string \<times> int) list \<Rightarrow> string) \<Rightarrow> (TrialLogsParams, Log list) HttpApi" where
  "getTrialLogs dec qs = http_api ''getTrialLogs''
     (\<lambda>params. http_get (js_join ''?'' [
        ''/experiments/'' @ show_int (rlp_experimentId params) @ ''/trials/'' @ show_int (rlp_trialId params) @ ''/logs'',
        buildQuery qs params]))
     (jsonToTrialLogs dec) False"

section \<open>Requests made of others\<close>

text \<open>The names of the states on the wire, as in the protocol definition.\<close>

fun str_SdkState :: "Sdk_ExperimentState \<Rightarrow> string" where
  "str_SdkState Sdk_UNSPECIFIED = ''STATE_UNSPECIFIED''"
| "str_SdkState Sdk_ACTIVE = ''STATE_ACTIVE''"
| "str_SdkState Sdk_PAUSED = ''STATE_PAUSED''"
| "str_SdkState Sdk_STOPPINGCANCELED = ''STATE_STOPPING_CANCELED''"
| "str_SdkState Sdk_STOPPINGCOMPLETED = ''STATE_STOPPING_COMPLETED''"
| "str_SdkState Sdk_STOPPINGERROR = ''STATE_STOPPING_ERROR''"
| "str_SdkState Sdk_CANCELED = ''STATE_CANCELED''"
| "str_SdkState Sdk_COMPLETED = ''STATE_COMPLETED''"
| "str_SdkState Sdk_ERROR = ''STATE_ERROR''"
| "str_SdkState Sdk_DELETED = ''STATE_DELETED''"

definition SortBy_values :: "string list" where
  "SortBy_values = [''SORT_BY_UNSPECIFIED'', ''SORT_BY_ID'', ''SORT_BY_DESCRIPTION'', ''SORT_BY_START_TIME'',
     ''SORT_BY_END_TIME'', ''SORT_BY_STATE'', ''SORT_BY_NUM_TRIALS'', ''SORT_BY_PROGRESS'', ''SORT_BY_USER'']"

record ApiSorter =
  sorter_descend :: bool
  sorter_key :: string

text \<open>A state of the filter is read as a \<open>RunState\<close>; \<open>encodeExperimentState\<close> sends an unknown one as unspecified.\<close>

definition encode_state :: "string \<Rightarrow> string" where
  "encode_state state = str_SdkState (case find (\<lambda>r. str_RunState r = state) RunState_values of
      Some r \<Rightarrow> encodeExperimentState r | None \<Rightarrow> Sdk_UNSPECIFIED)"

definition experiment_list_args ::
  "ApiSorter \<Rightarrow> Pagination \<Rightarrow> ExperimentFilters \<Rightarrow> string option \<Rightarrow> js list" where
  "experiment_list_args sorter pagination filters search = [
     Str (if sorter_key sorter \<in> set SortBy_values then sorter_key sorter else ''SORT_BY_UNSPECIFIED''),
     Str (if sorter_descend sorter then ''ORDER_BY_DESC'' else ''ORDER_BY_ASC''),
     js_int (page_offset pagination),
     js_int (page_limit pagination),
     js_opt Str search,
     js_opt js_strs (if ef_labels filters = Some [] then None else ef_labels filters),
     (if ef_showArchived filters then Undefined else Bool False),
     (if ALL_VALUE \<in> set (ef_states filters) then Undefined else js_strs (map encode_state (ef_states filters))),
     (case ef_username filters of Some u \<Rightarrow> if u \<noteq> [] then js_strs [u] else Undefined | None \<Rightarrow> Undefined)]"

text \<open>The response holds the experiments and the server's pagination.\<close>

definition getExperimentList ::
  "(js \<Rightarrow> bool) \<Rightarrow> (nat \<Rightarrow> Request \<Rightarrow> js + V1Experiment list option \<times> 'p) \<Rightarrow> ApiSorter \<Rightarrow> Pagination \<Rightarrow> ExperimentFilters
    \<Rightarrow> string option \<Rightarrow> 's Web \<Rightarrow> (failure + ExperimentItem list \<times> 'p) \<times> 's Web" where
  "getExperimentList isCancel net sorter pagination filters search w =
     (let req = SdkRequest ''Experiments'' ''determinedGetExperiments''
            (experiment_list_args sorter pagination filters search) (the (map_of (web_detApi w) ''Experiments''))
      in case net (length (web_requests w)) req of
           Inr (es, page) \<Rightarrow> (Inr (decodeExperimentList (case es of Some es \<Rightarrow> es | None \<Rightarrow> []), page), log_request req w)
         | Inl e \<Rightarrow> fail_request isCancel ''getExperimentList'' (Throws e) (log_request req w))"

text \<open>\<open>find\<close> with a test that sorts the identifiers of its arguments in place.\<close>

fun find_tensorboard :: "Command list \<Rightarrow> TBSource \<Rightarrow> Command option \<times> TBSource" where
  "find_tensorboard [] params = (None, params)"
| "find_tensorboard (tb # tbs) params =
     (if cmd_state tb \<in> terminalCommandStates then find_tensorboard tbs params
      else case tsbMatchesSource tb params of
        (ok, tb, params) \<Rightarrow> if ok then (Some tb, params) else find_tensorboard tbs params)"

definition openOrCreateTensorboard ::
  "'s Store \<Rightarrow> (js \<Rightarrow> bool) \<Rightarrow> (codec \<Rightarrow> js \<Rightarrow> js + js) \<Rightarrow> (nat \<Rightarrow> Request \<Rightarrow> js + js) \<Rightarrow> TBSource \<Rightarrow> 's Web
    \<Rightarrow> (failure + Command) \<times> 's Web" where
  "openOrCreateTensorboard ops isCancel dec net params w =
     (case generateApi ops isCancel net (getTensorboards dec) Undefined () w of
        (Inl f, w) \<Rightarrow> (Inl f, w)
      | (Inr tensorboards, w) \<Rightarrow>
          (case find_tensorboard tensorboards params of
             (Some tb, _) \<Rightarrow> (Inr tb, w)
           | (None, params) \<Rightarrow> generateApi ops isCancel net (createTensorboard dec) Undefined params w))"

fun kill_api :: "CommandType \<Rightarrow> (string, unit, unit) DetApi" where
  "kill_api CommandType_Command = killCommand"
| "kill_api CommandType_Notebook = killNotebook"
| "kill_api CommandType_Shell = killShell"
| "kill_api CommandType_Tensorboard = killTensorboard"

definition killTask ::
  "(js \<Rightarrow> bool) \<Rightarrow> (nat \<Rightarrow> Request \<Rightarrow> js + unit) \<Rightarrow> CommandTask \<Rightarrow> 's Web \<Rightarrow> (failure + unit) \<times> 's Web" where
  "killTask isCancel net task w = generateDetApi isCancel net (kill_api (ct_type task)) (task_id task) w"

section \<open>Lemmas\<close>

lemma fail_request_requests [simp]: "web_requests (snd (fail_request c n f w)) = web_requests w"
  by (auto simp: fail_request_def split_beta split: option.splits)

lemma fail_unless_aborted_requests [simp]: "web_requests (snd (fail_unless_aborted c n f w)) = web_requests w"
  by (auto simp: fail_unless_aborted_def split: option.splits)

lemma log_request_simps [simp]:
  "web_requests (log_request r w) = web_requests w @ [r]" "web_app (log_request r w) = web_app w"
  "web_local (log_request r w) = web_local w" "web_env (log_request r w) = web_env w"
  by (simp_all add: log_request_def)

lemma generateApi_ok:
  assumes "http_request ops api ct p w = Inr req" "ha_stubbedResponse api = None"
    "net (length (web_requests w)) req = Inr data" "ha_postProcess api data = Inr v"
  shows "generateApi ops isCancel net api ct p w = (Inr v, log_request req w)"
  using assms by (simp add: generateApi_def)

lemma find_tensorboard_spec:
  fixes params
  defines "ids \<equiv> \<lambda>m. if src_type params = TBSourceType_Experiment then misc_experimentIds m else misc_trialIds m"
    and "live \<equiv> \<lambda>tb s. cmd_state tb \<notin> terminalCommandStates \<and> fst (tsbMatchesSource tb s)"
  shows "case find_tensorboard tbs params of
      (Some tb, _) \<Rightarrow> \<exists>tb' \<in> set tbs. live tb' params \<and> cmd_id tb = cmd_id tb'
    | (None, s) \<Rightarrow> (\<forall>tb \<in> set tbs. \<not> live tb params) \<and> src_type s = src_type params \<and> mset (src_ids s) = mset (src_ids params)"
proof -
  have same: "fst (tsbMatchesSource tb s) = fst (tsbMatchesSource tb s')"
    if "src_type s = src_type s'" "mset (src_ids s) = mset (src_ids s')" for tb s s'
  proof -
    have "sort_ids (src_ids s) = sort_ids (src_ids s')"
      using that(2) by (simp add: sort_ids_def id_order.js_sort_eq_iff)
    with that(1) show ?thesis by (cases "src_type s'") (simp_all add: tsbMatchesSource_def Let_def)
  qed
  have step: "src_type (snd (snd (tsbMatchesSource tb s))) = src_type s \<and> mset (src_ids (snd (snd (tsbMatchesSource tb s)))) = mset (src_ids s)
      \<and> cmd_id (fst (snd (tsbMatchesSource tb s))) = cmd_id tb" for tb s
    by (cases "src_type s") (simp_all add: tsbMatchesSource_def sort_ids_def Let_def)
  have "src_type s = src_type params \<Longrightarrow> mset (src_ids s) = mset (src_ids params) \<Longrightarrow>
    (case find_tensorboard tbs s of
      (Some tb, _) \<Rightarrow> \<exists>tb' \<in> set tbs. live tb' params \<and> cmd_id tb = cmd_id tb'
    | (None, s) \<Rightarrow> (\<forall>tb \<in> set tbs. \<not> live tb params) \<and> src_type s = src_type params \<and> mset (src_ids s) = mset (src_ids params))" for s
  proof (induction tbs arbitrary: s)
    case (Cons tb tbs)
    obtain ok tb2 s2 where t: "tsbMatchesSource tb s = (ok, tb2, s2)" by (cases "tsbMatchesSource tb s")
    have s2: "src_type s2 = src_type params" "mset (src_ids s2) = mset (src_ids params)" "cmd_id tb2 = cmd_id tb"
      using step [of tb s] Cons.prems by (simp_all add: t)
    have ok: "ok = fst (tsbMatchesSource tb params)" using same [OF Cons.prems, of tb] by (simp add: t)
    show ?case
      using Cons.IH [OF Cons.prems] Cons.IH [OF s2(1,2)] s2(3) ok
      by (auto simp: t live_def split: option.splits prod.splits)
  qed simp
  then show ?thesis by simp
qed

lemma http_request_auth:
  assumes "get_authToken ops (web_local w) = Inr tok" "\<not> ha_unAuthenticated api" "ho_headers (ha_httpOptions api p) = []"
  shows "http_request ops api ct p w = Inr (HttpRequest ct (ho_body (ha_httpOptions api p))
     [(''Authorization'', Str (''Bearer '' @ js_str tok))]
     (case ho_method (ha_httpOptions api p) of Some m \<Rightarrow> m | None \<Rightarrow> ''GET'')
     (serverAddress (web_env w) [] @ ho_url (ha_httpOptions api p)))"
  using assms by (simp add: http_request_def Let_def)

lemma generateApi_requests:
  assumes "http_request ops api ct p w = Inr req" "ha_stubbedResponse api = None"
  shows "web_requests (snd (generateApi ops isCancel net api ct p w)) = web_requests w @ [req]"
  using assms by (auto simp: generateApi_def Let_def split: sum.splits)

section \<open>Properties\<close>

text \<open>
  Both ways in which the WebUI names states to the server agree with the protocol: the request for the trials of an
  experiment, which puts \<open>STATE_\<close> before the value of \<open>RunState\<close>, and the list of experiments, which looks the state
  up in the table of the decoder, send the same name, and different states get different names.
\<close>

theorem state_names_agree:
  "''STATE_'' @ str_RunState r = encode_state (str_RunState r)
   \<and> encode_state (str_RunState r) = str_SdkState (encodeExperimentState r)
   \<and> (encode_state (str_RunState r) = encode_state (str_RunState s) \<longleftrightarrow> r = s)"
proof -
  have e: "''STATE_'' @ str_RunState r = encode_state (str_RunState r)"
    "encode_state (str_RunState r) = str_SdkState (encodeExperimentState r)" for r
    by (cases r; simp add: encode_state_def RunState_values_def encodeExperimentState_def experimentStateMap_def
        obj_keys_def)+
  have "''STATE_'' @ str_RunState r = ''STATE_'' @ str_RunState s \<longleftrightarrow> r = s"
    by (cases r; cases s; simp)
  then show ?thesis using e by metis
qed

text \<open>
  C21: Opening a TensorBoard reuses a running one.  When the server lists a TensorBoard that has not terminated and was
  started from the same experiments or trials, one of these is returned and nothing but the list is requested;
  otherwise exactly one is created, from the requested sources.  Both requests carry the stored token.
\<close>

theorem tensorboard_reuse:
  fixes w :: "'s Web"
  assumes tok: "get_authToken ops (web_local w) = Inr tok"
    and get: "net (length (web_requests w)) (HttpRequest Undefined Undefined
        [(''Authorization'', Str (''Bearer '' @ js_str tok))] ''GET'' (serverAddress (web_env w) [] @ ''/tensorboard''))
      = Inr data" (is "net _ ?get = _")
    and tbs: "jsonToTensorboards dec data = Inr tbs"
  shows "if \<exists>tb \<in> set tbs. cmd_state tb \<notin> terminalCommandStates \<and> fst (tsbMatchesSource tb params)
    then \<exists>tb. openOrCreateTensorboard ops isCancel dec net params w = (Inr tb, log_request ?get w)
       \<and> (\<exists>tb' \<in> set tbs. cmd_id tb = cmd_id tb' \<and> cmd_state tb' \<notin> terminalCommandStates \<and> fst (tsbMatchesSource tb' params))
    else \<exists>ids. mset ids = mset (src_ids params)
       \<and> web_requests (snd (openOrCreateTensorboard ops isCancel dec net params w)) = web_requests w @ [?get,
           HttpRequest Undefined (Obj [(if src_type params = TBSourceType_Trial then ''trial_ids'' else ''experiment_ids'',
              Arr (map js_int ids))]) [(''Authorization'', Str (''Bearer '' @ js_str tok))] ''POST''
             (serverAddress (web_env w) [] @ ''/tensorboard'')]"
proof -
  have "http_request ops (getTensorboards dec) Undefined () w = Inr ?get"
    using tok by (subst http_request_auth) (simp_all add: getTensorboards_def http_api_def http_get_def)
  then have list: "generateApi ops isCancel net (getTensorboards dec) Undefined () w = (Inr tbs, log_request ?get w)"
    using get tbs by (intro generateApi_ok) (simp_all add: getTensorboards_def http_api_def)
  have post: "web_requests (snd (generateApi ops isCancel net (createTensorboard dec) Undefined s (log_request ?get w)))
      = web_requests w @ [?get, HttpRequest Undefined (Obj [(if src_type s = TBSourceType_Trial then ''trial_ids'' else ''experiment_ids'',
              Arr (map js_int (src_ids s)))]) [(''Authorization'', Str (''Bearer '' @ js_str tok))] ''POST''
             (serverAddress (web_env w) [] @ ''/tensorboard'')]" for s
    by (subst generateApi_requests, subst http_request_auth [where tok = tok])
      (simp_all add: tok createTensorboard_def http_api_def http_post_def Let_def)
  show ?thesis
    using find_tensorboard_spec [of tbs params] post
    by (auto simp: openOrCreateTensorboard_def list split: prod.splits option.splits)
qed

theorem tensorboard_reuse_witness:
  "web_requests (snd (openOrCreateTensorboard MemoryStore axios_isCancel io_decode (\<lambda>_ _. Inr (Obj []))
      \<lparr>src_ids = [2], src_type = TBSourceType_Trial\<rparr> sample_web))
   = [HttpRequest Undefined Undefined [(''Authorization'', Str ''Bearer '')] ''GET'' ''http://localhost:3000/tensorboard'',
      HttpRequest Undefined (Obj [(''trial_ids'', Arr [js_int 2])]) [(''Authorization'', Str ''Bearer '')] ''POST''
        ''http://localhost:3000/tensorboard'']"
proof -
  have tok: "get_authToken MemoryStore (web_local sample_web) = Inr (Str '''')"
    by (simp add: get_authToken_def storage_get_def sample_web_def MemoryStore_def mem_getItem_def mem_new_def js_or_def)
  have srv: "serverAddress (web_env sample_web) [] = ''http://localhost:3000''"
    by (simp add: serverAddress_def sample_web_def dev_env_def reactHostAddress_def)
  have req: "web_requests sample_web = []" by (simp add: sample_web_def)
  have d: "jsonToTensorboards io_decode (Obj []) = Inr []"
    by (simp add: jsonToTensorboards_def jsonToGenericCommands_def decode_io_def decode_def io_decode_def
        ioGenericCommands_def obj_keys_def)
  show ?thesis
    using tensorboard_reuse [OF tok _ d, of "\<lambda>_ _. Inr (Obj [])" "\<lparr>src_ids = [2], src_type = TBSourceType_Trial\<rparr>" axios_isCancel]
    by (auto simp: srv req)
qed

end
