(* ===== verification/Contexts.thy ===== *)
theory Contexts
  imports Api_Config
begin

text \<open>
  \<^verbatim>\<open>contexts/\<close>: the reducers behind the shared state of the WebUI; \<^verbatim>\<open>hooks/useAuthCheck.ts\<close>: how a session is verified;
  \<open>getCookie\<close> of \<^verbatim>\<open>utils/browser.ts\<close>.

  The reducer of the authentication context also writes the browser's storage, the cookie and the configuration of
  the generated client.  A session is a state machine: the events are the dispatched actions and the start and the
  end of a check, between which other events may come.
\<close>

section \<open>The default reducer\<close>

datatype 'a ContextAction = CReset | CSet 'a

text \<open>\<open>clone\<close> of the values that the contexts hold gives the same value.\<close>

fun context_reducer :: "'a \<Rightarrow> 'a \<Rightarrow> 'a ContextAction \<Rightarrow> 'a" where
  "context_reducer initialState state CReset = initialState"
| "context_reducer initialState state (CSet v) = v"

section \<open>The chrome and the spinner\<close>

datatype UIAction = CollapseChrome | ExpandChrome | HideChrome | HideSpinner | ShowChrome | ShowSpinner

record UIState =
  ui_chromeCollapsed :: bool
  ui_showChrome :: bool
  ui_showSpinner :: bool

definition defaultUIState :: UIState where
  "defaultUIState = \<lparr>ui_chromeCollapsed = False, ui_showChrome = True, ui_showSpinner = False\<rparr>"

fun ui_reducer :: "UIState \<Rightarrow> UIAction \<Rightarrow> UIState" where
  "ui_reducer state CollapseChrome = state\<lparr>ui_chromeCollapsed := True\<rparr>"
| "ui_reducer state ExpandChrome = state\<lparr>ui_chromeCollapsed := False\<rparr>"
| "ui_reducer state HideChrome = state\<lparr>ui_showChrome := False\<rparr>"
| "ui_reducer state HideSpinner = (if \<not> ui_showSpinner state then state else state\<lparr>ui_showSpinner := False\<rparr>)"
| "ui_reducer state ShowChrome = state\<lparr>ui_showChrome := True\<rparr>"
| "ui_reducer state ShowSpinner = (if ui_showSpinner state then state else state\<lparr>ui_showSpinner := True\<rparr>)"

section \<open>Cookies\<close>

type_synonym cookies = "(string \<times> string) list"

definition document_cookie :: "cookies \<Rightarrow> string" where
  "document_cookie jar = js_join ''; '' (map (\<lambda>(n, v). n @ ''='' @ v) jar)"

text \<open>\<open>name\s*\=\s*([^;]*)\<close> at the start of a string: the group.\<close>

definition cookie_at :: "string \<Rightarrow> string \<Rightarrow> string option" where
  "cookie_at name s =
     (if prefix name s then
        (case dropWhile is_space (drop (length name) s) of
           c # r \<Rightarrow> if c = CHR ''='' then Some (takeWhile (\<lambda>c. c \<noteq> CHR '';'') (dropWhile is_space r)) else None
         | [] \<Rightarrow> None)
      else None)"

text \<open>\<open>.*;\s*\<close> before it: the last semicolon after which it matches.\<close>

fun cookie_last :: "string \<Rightarrow> string \<Rightarrow> string option" where
  "cookie_last name [] = None"
| "cookie_last name (c # cs) = (case cookie_last name cs of
      Some v \<Rightarrow> Some v
    | None \<Rightarrow> if c = CHR '';'' then cookie_at name (dropWhile is_space cs) else None)"

definition getCookie :: "string \<Rightarrow> string \<Rightarrow> string option" where
  "getCookie cookie name =
     (let v = (case cookie_at name cookie of
          Some v \<Rightarrow> v
        | None \<Rightarrow> (case cookie_last name cookie of Some v \<Rightarrow> v | None \<Rightarrow> []))
      in if v \<noteq> [] then Some v else None)"

section \<open>Authentication\<close>

definition AUTH_COOKIE_KEY :: string where
  "AUTH_COOKIE_KEY = ''auth''"

record AuthState = Auth +
  auth_checked :: bool

datatype AuthAction = MarkChecked | AuthReset | ResetChecked | AuthSet Auth

definition defaultAuth :: AuthState where
  "defaultAuth = \<lparr>auth_isAuthenticated = False, auth_token = None, auth_user = None, auth_checked = False\<rparr>"

record 's Session =
  ses_auth :: AuthState
  ses_cookies :: cookies
  ses_web :: "'s Web"

definition clearAuthCookie :: "'s Session \<Rightarrow> 's Session" where
  "clearAuthCookie s = s\<lparr>ses_cookies := obj_del AUTH_COOKIE_KEY (ses_cookies s)\<rparr>"

text \<open>\<open>globalStorage.authToken = token; updateDetApi({ apiKey: 'Bearer ' + token })\<close>.\<close>

definition use_token :: "'s Store \<Rightarrow> string \<Rightarrow> 's Session \<Rightarrow> 's Session" where
  "use_token ops token s =
     (let w = ses_web s;
          w = (case set_authToken ops (web_local w) (Str token) of Inr l \<Rightarrow> w\<lparr>web_local := l\<rparr> | Inl _ \<Rightarrow> w)
      in s\<lparr>ses_web := updateDetApi ops \<lparr>cp_apiKey = Given (Some (''Bearer '' @ token)), cp_basePath = Absent\<rparr> w\<rparr>)"

definition auth_reducer :: "'s Store \<Rightarrow> AuthAction \<Rightarrow> 's Session \<Rightarrow> 's Session" where
  "auth_reducer ops action s = (case action of
      MarkChecked \<Rightarrow> s\<lparr>ses_auth := (ses_auth s)\<lparr>auth_checked := True\<rparr>\<rparr>
    | AuthReset \<Rightarrow>
        (let s = clearAuthCookie s;
             w = ses_web s;
             w = w\<lparr>web_local := removeAuthToken ops (web_local w)\<rparr>
         in s\<lparr>ses_web := updateDetApi ops \<lparr>cp_apiKey = Given None, cp_basePath = Absent\<rparr> w, ses_auth := defaultAuth\<rparr>)
    | ResetChecked \<Rightarrow> s\<lparr>ses_auth := (ses_auth s)\<lparr>auth_checked := False\<rparr>\<rparr>
    | AuthSet value \<Rightarrow>
        (let s = (case auth_token value of
               Some t \<Rightarrow> if t \<noteq> [] then use_token ops t s else s
             | None \<Rightarrow> s)
         in s\<lparr>ses_auth := Auth.extend value \<lparr>auth_checked = True\<rparr>\<rparr>))"

section \<open>Checking a session\<close>

text \<open>
  \<open>checkAuth\<close> up to the request: the token to verify, or none, when the check is over.
\<close>

definition checkAuth_start :: "'s Store \<Rightarrow> 's Session \<Rightarrow> string option \<times> 's Session" where
  "checkAuth_start ops s =
     (let cookieToken = getCookie (document_cookie (ses_cookies s)) AUTH_COOKIE_KEY;
          s = (case cookieToken of Some t \<Rightarrow> use_token ops t s | None \<Rightarrow> s);
          authToken = stored_token ops (ses_web s)
      in if authToken = [] then (None, auth_reducer ops MarkChecked s) else (Some authToken, s))"

text \<open>\<open>checkAuth\<close> after the request: its outcome is the error or the user.\<close>

definition checkAuth_error :: "js \<Rightarrow> js" where
  "checkAuth_error e = Obj [(''error'', e), (''isUserTriggered'', Bool False), (''message'', get_prop e ''message''),
     (''publicMessage'', Str ''Unable to verify current user.''), (''publicSubject'', Str ''GET user failed''),
     (''silent'', Bool True), (''type'', js_type (if isAuthFailure e then ErrorType_Auth else ErrorType_Server))]"

definition checkAuth_finish ::
  "'s Store \<Rightarrow> (js \<Rightarrow> bool) \<Rightarrow> string \<Rightarrow> js + DetailedUser \<Rightarrow> 's Session \<Rightarrow> 's Session" where
  "checkAuth_finish ops isCancel authToken outcome s = (case outcome of
      Inr u \<Rightarrow> auth_reducer ops (AuthSet \<lparr>auth_isAuthenticated = True, auth_token = Some authToken,
                 auth_user = Some \<lparr>user_username = user_username u\<rparr>\<rparr>) s
    | Inl e \<Rightarrow>
        if isAborted isCancel e then s
        else
          (let w = ses_web s;
               s = s\<lparr>ses_web := w\<lparr>web_app := snd (handleError isCancel (checkAuth_error e) (web_app w))\<rparr>\<rparr>
           in if isAuthFailure e then auth_reducer ops MarkChecked (auth_reducer ops AuthReset s) else s))"

text \<open>The events of a session; a check in progress is remembered with the token it verifies.\<close>

inductive session_step ::
  "'s Store \<Rightarrow> (js \<Rightarrow> bool) \<Rightarrow> 's Session \<times> string list \<Rightarrow> 's Session \<times> string list \<Rightarrow> bool"
  for ops isCancel where
  dispatch: "session_step ops isCancel (s, cs) (auth_reducer ops a s, cs)"
| start: "checkAuth_start ops s = (Some t, s') \<Longrightarrow> session_step ops isCancel (s, cs) (s', t # cs)"
| no_token: "checkAuth_start ops s = (None, s') \<Longrightarrow> session_step ops isCancel (s, cs) (s', cs)"
| finish: "t \<in> set cs \<Longrightarrow> session_step ops isCancel (s, cs) (checkAuth_finish ops isCancel t outcome s, remove1 t cs)"
| cookie: "session_step ops isCancel (s, cs) (s\<lparr>ses_cookies := jar\<rparr>, cs)" \<comment> \<open>set by the server\<close>

inductive reachable ::
  "'s Store \<Rightarrow> (js \<Rightarrow> bool) \<Rightarrow> 's Session \<times> string list \<Rightarrow> 's Session \<times> string list \<Rightarrow> bool"
  for ops isCancel where
  reach_refl: "reachable ops isCancel c c"
| reach_step: "reachable ops isCancel a b \<Longrightarrow> session_step ops isCancel b c \<Longrightarrow> reachable ops isCancel a c"

inductive_cases session_stepE: "session_step ops isCancel c c'"

section \<open>Lemmas\<close>

lemma map_of_fold_set:
  "map_of (fold (\<lambda>c. obj_set c cfg) cs ps) k = (if k \<in> set cs then Some cfg else map_of ps k)"
  by (induction cs arbitrary: ps) auto

definition updated_clients :: "string list" where
  "updated_clients = [''Auth'', ''Cluster'', ''Commands'', ''Experiments'', ''InternalApi'', ''Notebooks'', ''Shells'',
     ''StreamingExperiments'', ''Tensorboards'']"

lemma map_of_updateDetApi:
  "map_of (web_detApi (updateDetApi ops ps w)) c =
     (if c \<in> set updated_clients then Some (updatedApiConfigParams ops ps w) else map_of (web_detApi w) c)"
proof -
  have "web_detApi (w\<lparr>web_detApi := x\<rparr>) = x" for x by simp
  then show ?thesis unfolding updateDetApi_def Let_def updated_clients_def by (simp only: map_of_fold_set)
qed

lemma updateDetApi_local [simp]:
  "web_local (updateDetApi ops ps w) = web_local w" "web_env (updateDetApi ops ps w) = web_env w"
  "web_requests (updateDetApi ops ps w) = web_requests w"
  by (simp_all add: updateDetApi_def Let_def)

lemma stored_token_updateDetApi [simp]: "stored_token ops (updateDetApi ops ps w) = stored_token ops w"
  by (simp add: stored_token_def)

text \<open>
  Every client of the generated API that is updated uses the stored token; without a stored token it sends none.
\<close>

definition api_synced :: "'s Store \<Rightarrow> 's Web \<Rightarrow> bool" where
  "api_synced ops w = (\<forall>c \<in> set updated_clients. case map_of (web_detApi w) c of
      None \<Rightarrow> False
    | Some cfg \<Rightarrow> if stored_token ops w = [] then ac_apiKey cfg \<in> {None, Some ''Bearer ''}
                  else ac_apiKey cfg = Some (''Bearer '' @ stored_token ops w))"

lemma synced_init: "api_synced ops (init_detApi ops w)"
proof -
  have t: "stored_token ops (init_detApi ops w) = stored_token ops w" by (simp add: init_detApi_def stored_token_def)
  have "map_of (web_detApi (init_detApi ops w)) c = Some (ApiConfig ops w)" if "c \<in> set updated_clients" for c
    using that by (auto simp: init_detApi_def detApi_clients_def updated_clients_def)
  then show ?thesis by (simp add: api_synced_def t ApiConfig_def)
qed

context store_laws
begin

lemma token_after_set:
  assumes "token \<noteq> []"
  shows "\<exists>l. set_authToken ops s (Str token) = Inr l \<and> get_authToken ops l = Inr (Str token)"
proof -
  obtain l where l: "storage_set ops globalStorage s key_authToken (Str token) = Inr l"
    by (simp add: storage_set_def is_nullish_def)
  have "storage_get ops globalStorage l key_authToken = Inr (Str token)"
    using get_after_set [OF l] by simp
  with l assms show ?thesis by (simp add: set_authToken_def get_authToken_def js_or_def)
qed

lemma token_after_remove: "get_authToken ops (removeAuthToken ops s) = Inr (Str [])"
  by (simp add: get_authToken_def removeAuthToken_def get_after_remove js_or_def)

lemma use_token_stored:
  assumes "token \<noteq> []"
  shows "stored_token ops (ses_web (use_token ops token s)) = token"
  using token_after_set [OF assms, of "web_local (ses_web s)"]
  by (auto simp: use_token_def Let_def stored_token_def)

lemma use_token_synced:
  assumes "token \<noteq> []"
  shows "api_synced ops (ses_web (use_token ops token s))"
proof -
  have "map_of (web_detApi (ses_web (use_token ops token s))) c
      = Some (updatedApiConfigParams ops \<lparr>cp_apiKey = Given (Some (''Bearer '' @ token)), cp_basePath = Absent\<rparr>
          (case set_authToken ops (web_local (ses_web s)) (Str token) of
             Inr l \<Rightarrow> (ses_web s)\<lparr>web_local := l\<rparr> | Inl _ \<Rightarrow> ses_web s))" if "c \<in> set updated_clients" for c
    using that by (simp add: use_token_def Let_def map_of_updateDetApi)
  then show ?thesis using use_token_stored [OF assms, of s] assms
    by (simp add: api_synced_def updatedApiConfigParams_def)
qed

lemma reset_stored: "stored_token ops (ses_web (auth_reducer ops AuthReset s)) = []"
  by (simp add: auth_reducer_def Let_def stored_token_def token_after_remove)

lemma reset_api:
  "c \<in> set updated_clients \<Longrightarrow>
   \<exists>cfg. map_of (web_detApi (ses_web (auth_reducer ops AuthReset s))) c = Some cfg \<and> ac_apiKey cfg = None"
  "c \<notin> set updated_clients \<Longrightarrow>
   map_of (web_detApi (ses_web (auth_reducer ops AuthReset s))) c = map_of (web_detApi (ses_web s)) c"
  by (simp_all add: auth_reducer_def Let_def map_of_updateDetApi updatedApiConfigParams_def clearAuthCookie_def)

lemma reducer_synced:
  assumes "api_synced ops (ses_web s)"
  shows "api_synced ops (ses_web (auth_reducer ops a s))"
proof (cases a)
  case AuthReset
  then show ?thesis using reset_stored [of s] reset_api(1) [of _ s]
    by (fastforce simp: api_synced_def split: option.splits)
next
  case (AuthSet v)
  then show ?thesis using assms use_token_synced
    by (auto simp: auth_reducer_def Let_def split: option.splits)
qed (use assms in \<open>simp_all add: auth_reducer_def\<close>)

lemma synced_app: "api_synced ops (w\<lparr>web_app := a\<rparr>) = api_synced ops w"
proof -
  have t: "stored_token ops (w\<lparr>web_app := a\<rparr>) = stored_token ops w" by (simp add: stored_token_def)
  show ?thesis unfolding api_synced_def t by simp
qed

lemma finish_synced:
  "api_synced ops (ses_web s) \<Longrightarrow> api_synced ops (ses_web (checkAuth_finish ops isCancel t outcome s))"
  by (auto simp: checkAuth_finish_def Let_def synced_app intro!: reducer_synced split: sum.splits)

lemma getCookie_ne: "getCookie c n = Some t \<Longrightarrow> t \<noteq> []"
  by (auto simp: getCookie_def Let_def split: if_splits)

lemma start_synced:
  assumes "api_synced ops (ses_web s)" "checkAuth_start ops s = (r, s')"
  shows "api_synced ops (ses_web s')"
proof -
  let ?c = "getCookie (document_cookie (ses_cookies s)) AUTH_COOKIE_KEY"
  have "api_synced ops (ses_web (case ?c of Some t \<Rightarrow> use_token ops t s | None \<Rightarrow> s))"
    using assms(1) use_token_synced getCookie_ne [of "document_cookie (ses_cookies s)" AUTH_COOKIE_KEY]
    by (auto split: option.splits)
  then show ?thesis using assms(2) reducer_synced by (auto simp: checkAuth_start_def Let_def split: if_splits)
qed

lemma step_synced:
  "session_step ops isCancel c c' \<Longrightarrow> api_synced ops (ses_web (fst c)) \<Longrightarrow> api_synced ops (ses_web (fst c'))"
  by (induction rule: session_step.induct) (auto intro: reducer_synced finish_synced start_synced)

lemma reachable_synced:
  "reachable ops isCancel c c' \<Longrightarrow> api_synced ops (ses_web (fst c)) \<Longrightarrow> api_synced ops (ses_web (fst c'))"
  by (induction rule: reachable.induct) (auto intro: step_synced)

end

subsection \<open>Cookies\<close>

definition plain_cookie :: "string \<Rightarrow> bool" where
  "plain_cookie s = list_all (\<lambda>c. c \<noteq> CHR '';'' \<and> c \<noteq> CHR ''='' \<and> \<not> is_space c) s"

definition plain_jar :: "cookies \<Rightarrow> bool" where
  "plain_jar jar = (distinct (map fst jar) \<and> list_all (\<lambda>(n, v). n \<noteq> [] \<and> plain_cookie n \<and> plain_cookie v) jar)"

lemma document_cookie_Cons:
  "document_cookie ((n, v) # jar) = n @ CHR ''='' # v @ (if jar = [] then [] else ''; '' @ document_cookie jar)"
  by (cases jar) (auto simp: document_cookie_def)

lemma cookie_at_pair:
  assumes "plain_cookie name" "plain_cookie n" "plain_cookie v" "r = [] \<or> hd r = CHR '';''"
  shows "cookie_at name (n @ CHR ''='' # v @ r) = (if n = name then Some v else None)"
proof (cases "prefix name (n @ CHR ''='' # v @ r)")
  case True
  have "CHR ''='' \<notin> set name" using assms(1) by (auto simp: plain_cookie_def list_all_iff)
  with True obtain m where m: "n = name @ m"
    by (auto simp: prefix_append prefix_Cons) (metis prefix_def)
  have v: "dropWhile is_space (v @ r) = v @ r" "takeWhile (\<lambda>c. c \<noteq> CHR '';'') (v @ r) = v"
  proof -
    have "\<not> is_space CHR '';''" by (simp add: is_space_def)
    with assms(3,4) show "dropWhile is_space (v @ r) = v @ r"
      by (cases v; cases r) (auto simp: plain_cookie_def)
    have "takeWhile (\<lambda>c. c \<noteq> CHR '';'') r = []" using assms(4) by (cases r) auto
    moreover have "\<forall>c \<in> set v. c \<noteq> CHR '';''" using assms(3) by (auto simp: plain_cookie_def list_all_iff)
    ultimately show "takeWhile (\<lambda>c. c \<noteq> CHR '';'') (v @ r) = v" by (simp add: takeWhile_append2)
  qed
  have "\<not> is_space CHR ''=''" by (simp add: is_space_def)
  moreover have "m \<noteq> [] \<Longrightarrow> \<not> is_space (hd m) \<and> hd m \<noteq> CHR ''=''"
    using assms(2) m by (cases m) (auto simp: plain_cookie_def)
  ultimately show ?thesis using True v by (cases m) (auto simp: cookie_at_def m)
next
  case False
  then show ?thesis by (auto simp: cookie_at_def)
qed

lemma cookie_last_skip:
  "\<forall>c \<in> set x. c \<noteq> CHR '';'' \<Longrightarrow> cookie_last name (x @ s) = cookie_last name s"
  by (induction x) (auto split: option.splits)

lemma cookie_last_sep:
  assumes "\<forall>c \<in> set x. c \<noteq> CHR '';''" "s \<noteq> []" "\<not> is_space (hd s)"
  shows "cookie_last name (x @ ''; '' @ s) = (case cookie_last name s of Some v \<Rightarrow> Some v | None \<Rightarrow> cookie_at name s)"
proof -
  have "is_space CHR '' ''" by (simp add: is_space_def)
  moreover have "dropWhile is_space s = s" using assms(2,3) by (cases s) auto
  ultimately have "cookie_last name (''; '' @ s) = (case cookie_last name s of Some v \<Rightarrow> Some v | None \<Rightarrow> cookie_at name s)"
    by (auto split: option.splits)
  then show ?thesis unfolding cookie_last_skip [OF assms(1)] .
qed

lemma cookie_lookup:
  assumes "plain_jar jar" "plain_cookie name"
  shows "getCookie (document_cookie jar) name = (case map_of jar name of
      Some v \<Rightarrow> if v = [] then None else Some v | None \<Rightarrow> None)"
proof -
  have head: "cookie_at name (document_cookie ((n, v) # jar)) = (if n = name then Some v else None)"
    if "plain_jar ((n, v) # jar)" for n v jar
    unfolding document_cookie_Cons by (rule cookie_at_pair) (use that assms(2) in \<open>auto simp: plain_jar_def\<close>)
  have rest: "cookie_last name (document_cookie (p # jar)) = map_of jar name" if "plain_jar (p # jar)" for p jar
    using that
  proof (induction jar arbitrary: p)
    case Nil
    obtain n v where p: "p = (n, v)" by (cases p)
    from Nil have "\<forall>c \<in> set (n @ CHR ''='' # v). c \<noteq> CHR '';''"
      by (auto simp: p plain_jar_def plain_cookie_def list_all_iff)
    from cookie_last_skip [OF this, of name "[]"] show ?case by (simp add: p document_cookie_Cons)
  next
    case (Cons q jar)
    obtain n v where p: "p = (n, v)" by (cases p)
    obtain n2 v2 where q: "q = (n2, v2)" by (cases q)
    have ok: "plain_jar (q # jar)" using Cons.prems by (auto simp: plain_jar_def)
    have no: "\<forall>c \<in> set (n @ CHR ''='' # v). c \<noteq> CHR '';''"
      using Cons.prems by (auto simp: p plain_jar_def plain_cookie_def list_all_iff)
    have hd: "document_cookie (q # jar) \<noteq> []" "\<not> is_space (hd (document_cookie (q # jar)))"
      using ok by (auto simp: q document_cookie_Cons plain_jar_def plain_cookie_def neq_Nil_conv)
    have "document_cookie (p # q # jar) = (n @ CHR ''='' # v) @ ''; '' @ document_cookie (q # jar)"
      by (simp add: p document_cookie_Cons [of n v])
    then have "cookie_last name (document_cookie (p # q # jar)) =
        (case map_of jar name of Some v \<Rightarrow> Some v | None \<Rightarrow> cookie_at name (document_cookie (q # jar)))"
      using cookie_last_sep [OF no hd, of name] Cons.IH [OF ok] by simp
    moreover have "map_of jar name = None" if "n2 = name"
      using ok that by (simp add: q plain_jar_def map_of_eq_None_iff)
    ultimately show ?case using head [of n2 v2 jar] ok by (auto simp: q split: option.splits)
  qed
  show ?thesis
  proof (cases jar)
    case Nil
    then show ?thesis by (cases name) (auto simp: getCookie_def document_cookie_def cookie_at_def)
  next
    case (Cons p js)
    obtain n v where p: "p = (n, v)" by (cases p)
    show ?thesis using head [of n v js] rest [of p js] assms(1)
      by (auto simp: Cons p getCookie_def split: option.splits)
  qed
qed

lemma plain_jar_del: "plain_jar jar \<Longrightarrow> plain_jar (obj_del k jar)"
  by (auto simp: plain_jar_def obj_del_def list_all_iff distinct_map_filter)

section \<open>Properties\<close>


definition sample_session :: "memory_store Session" where
  "sample_session = \<lparr>ses_auth = defaultAuth, ses_cookies = [], ses_web = init_detApi MemoryStore sample_web\<rparr>"

definition sample_auth :: Auth where
  "sample_auth = \<lparr>auth_isAuthenticated = True, auth_token = Some ''tok'', auth_user = None\<rparr>"


text \<open>
  C22: Signing out ends the session: afterwards no token is stored, the cookie is gone, the state is the initial one, no
  updated client has a key, and a check of the session marks it as checked without authenticating or sending any
  request.  But the client \<open>StreamingInternal\<close> keeps the key it had, and a check that was still waiting for its
  response when the user signed out signs the user in again.
\<close>

theorem sign_out:
  assumes "store_laws ops" and "s' = auth_reducer ops AuthReset s" "t \<noteq> []" "plain_jar (ses_cookies s)"
  shows "stored_token ops (ses_web s') = [] \<and> map_of (ses_cookies s') AUTH_COOKIE_KEY = None \<and> ses_auth s' = defaultAuth
      \<and> (\<forall>c \<in> set updated_clients. \<exists>cfg. map_of (web_detApi (ses_web s')) c = Some cfg \<and> ac_apiKey cfg = None)
    \<and> checkAuth_start ops s' = (None, s'\<lparr>ses_auth := defaultAuth\<lparr>auth_checked := True\<rparr>\<rparr>)
    \<and> map_of (web_detApi (ses_web s')) ''StreamingInternal'' = map_of (web_detApi (ses_web s)) ''StreamingInternal''
    \<and> stored_token ops (ses_web (checkAuth_finish ops isCancel t (Inr u) s')) = t
      \<and> auth_isAuthenticated (ses_auth (checkAuth_finish ops isCancel t (Inr u) s'))"
proof -
  have a: "ses_auth s' = defaultAuth" "ses_cookies s' = obj_del AUTH_COOKIE_KEY (ses_cookies s)"
    by (simp_all add: assms(2) auth_reducer_def Let_def clearAuthCookie_def)
  have "plain_cookie AUTH_COOKIE_KEY" by (simp add: plain_cookie_def AUTH_COOKIE_KEY_def is_space_def)
  from cookie_lookup [OF plain_jar_del [OF assms(4)] this, of AUTH_COOKIE_KEY]
  have none: "getCookie (document_cookie (ses_cookies s')) AUTH_COOKIE_KEY = None" by (simp add: a)
  note st = store_laws.reset_stored [OF assms(1), of s, folded assms(2)]
  note api = store_laws.reset_api [OF assms(1), of _ s, folded assms(2)]
  have reset: "stored_token ops (ses_web s') = [] \<and> map_of (ses_cookies s') AUTH_COOKIE_KEY = None \<and> ses_auth s' = defaultAuth
      \<and> (\<forall>c \<in> set updated_clients. \<exists>cfg. map_of (web_detApi (ses_web s')) c = Some cfg \<and> ac_apiKey cfg = None)"
    using st api(1) a by simp
  have start: "checkAuth_start ops s' = (None, s'\<lparr>ses_auth := defaultAuth\<lparr>auth_checked := True\<rparr>\<rparr>)"
    by (simp add: checkAuth_start_def Let_def none st a(1) auth_reducer_def)
  have kept: "map_of (web_detApi (ses_web s')) ''StreamingInternal'' = map_of (web_detApi (ses_web s)) ''StreamingInternal''"
    by (rule api(2)) (simp add: updated_clients_def)
  have late: "stored_token ops (ses_web (checkAuth_finish ops isCancel t (Inr u) s')) = t
      \<and> auth_isAuthenticated (ses_auth (checkAuth_finish ops isCancel t (Inr u) s'))"
    using store_laws.use_token_stored [OF assms(1,3), of s'] assms(3)
    by (simp add: checkAuth_finish_def auth_reducer_def Auth.defs)
  show ?thesis using reset start kept late by blast
qed

theorem sign_out_witness:
  "stored_token MemoryStore (ses_web (auth_reducer MemoryStore AuthReset sample_session)) = []"
  using sign_out [OF mem.store_laws_axioms refl, of "''x''" sample_session]
  by (simp add: sample_session_def plain_jar_def)

end
