(* ===== verification/Hooks.thy ===== *)
theory Hooks
  imports Contexts
begin

text \<open>
  \<^verbatim>\<open>hooks/\<close>: the request hook \<open>useRestApi\<close> and the polling hook \<open>usePolling\<close> as state machines whose events are the
  browser's (a promise settles, a timer fires, an effect runs again), and the state of \<open>useScroll\<close>, \<open>useResize\<close>,
  \<open>usePrevious\<close> and \<open>useRouteTracker\<close>; \<^verbatim>\<open>contexts/AppContexts.tsx\<close>, which polls with them.
\<close>

section \<open>useRestApi\<close>

datatype RestAction = SetData js | SetError js | SetLoading bool

record RestApiState =
  rs_data :: js \<comment> \<open>\<open>undefined\<close> before the first response\<close>
  rs_error :: "js option"
  rs_errorCount :: nat
  rs_hasLoaded :: bool
  rs_isLoading :: bool

definition initial_rest_state :: RestApiState where
  "initial_rest_state = \<lparr>rs_data = Undefined, rs_error = None, rs_errorCount = 0, rs_hasLoaded = False, rs_isLoading = False\<rparr>"

fun rest_reducer :: "RestApiState \<Rightarrow> RestAction \<Rightarrow> RestApiState" where
  "rest_reducer state (SetData v) =
     (let data = (if isEqual v (rs_data state) then rs_data state else v)
      in state\<lparr>rs_data := data, rs_hasLoaded := True, rs_isLoading := False\<rparr>)"
| "rest_reducer state (SetError e) =
     state\<lparr>rs_error := Some e, rs_errorCount := rs_errorCount state + 1, rs_isLoading := False\<rparr>"
| "rest_reducer state (SetLoading b) = state\<lparr>rs_isLoading := b\<rparr>"

text \<open>
  \<open>applyMappers\<close> of this file: one mapper or a list of them, applied to a copy of the data.
\<close>

datatype Mappers = OneMapper "js \<Rightarrow> js" | ManyMappers "(js \<Rightarrow> js) list"

definition applyMappers_rest :: "js \<Rightarrow> Mappers \<Rightarrow> js result" where
  "applyMappers_rest data mappers = bind_exn (clone data True) (\<lambda>currentData. Inr (case mappers of
      ManyMappers ms \<Rightarrow> fold (\<lambda>mapper acc. mapper acc) ms currentData
    | OneMapper m \<Rightarrow> m currentData))"

text \<open>
  The hook: its parameters, the requests in flight with their parameters and whether their token was cancelled.  The
  last two fields record the parameters whose result the state holds and whether the last request failed.
\<close>

record RestHook =
  rh_state :: RestApiState
  rh_params :: js
  rh_next :: nat
  rh_inflight :: "(nat \<times> js \<times> bool) list"
  rh_shown :: "js option"
  rh_failed :: bool

text \<open>The effect: the cleanup of the previous effect cancels its request, then a new request is sent.\<close>

definition rest_effect :: "js \<Rightarrow> RestHook \<Rightarrow> RestHook" where
  "rest_effect params h = h\<lparr>
     rh_state := rest_reducer (rh_state h) (SetLoading True),
     rh_params := params,
     rh_next := Suc (rh_next h),
     rh_inflight := map (\<lambda>(i, p, _). (i, p, True)) (rh_inflight h) @ [(rh_next h, params, False)],
     rh_failed := False\<rparr>"

definition mount_rest :: "js \<Rightarrow> RestHook" where
  "mount_rest params = rest_effect params \<lparr>rh_state = initial_rest_state, rh_params = params, rh_next = 0,
     rh_inflight = [], rh_shown = None, rh_failed = False\<rparr>"

definition settle :: "nat \<Rightarrow> RestHook \<Rightarrow> RestHook" where
  "settle i h = h\<lparr>rh_inflight := filter (\<lambda>(j, _). j \<noteq> i) (rh_inflight h)\<rparr>"

definition rest_then :: "nat \<Rightarrow> js \<Rightarrow> js \<Rightarrow> RestHook \<Rightarrow> RestHook" where
  "rest_then i p result h =
     (settle i h)\<lparr>rh_state := rest_reducer (rh_state h) (SetData result), rh_shown := Some p, rh_failed := False\<rparr>"

definition rest_catch :: "(js \<Rightarrow> bool) \<Rightarrow> nat \<Rightarrow> js \<Rightarrow> RestHook \<Rightarrow> RestHook" where
  "rest_catch isCancel i e h =
     (if \<not> isCancel e
      then (settle i h)\<lparr>rh_state := rest_reducer (rh_state h) (SetError e), rh_failed := True\<rparr>
      else settle i h)"

text \<open>
  The events.  Whether the request honours its cancel token is a parameter: \<open>generateApi\<close> passes the token on, and a
  cancelled request is rejected with a cancellation; \<open>generateDetApi\<close> does not, and a cancelled request settles as if
  nothing had happened.  A request that was not cancelled is never rejected with a cancellation.
\<close>

inductive rest_step :: "(js \<Rightarrow> bool) \<Rightarrow> bool \<Rightarrow> RestHook \<Rightarrow> RestHook \<Rightarrow> bool" for isCancel honours where
  trigger: "rest_step isCancel honours h (rest_effect p h)"
| resolved: "(i, p, c) \<in> set (rh_inflight h) \<Longrightarrow> \<not> (honours \<and> c) \<Longrightarrow> rest_step isCancel honours h (rest_then i p v h)"
| rejected: "(i, p, c) \<in> set (rh_inflight h) \<Longrightarrow> (isCancel e \<longleftrightarrow> honours \<and> c) \<Longrightarrow>
    rest_step isCancel honours h (rest_catch isCancel i e h)"

inductive rest_run :: "(js \<Rightarrow> bool) \<Rightarrow> bool \<Rightarrow> RestHook \<Rightarrow> RestHook \<Rightarrow> bool" for isCancel honours where
  rest_done: "rest_run isCancel honours h h"
| rest_more: "rest_run isCancel honours a b \<Longrightarrow> rest_step isCancel honours b c \<Longrightarrow> rest_run isCancel honours a c"

section \<open>usePolling\<close>

definition DEFAULT_DELAY :: nat where
  "DEFAULT_DELAY = 5000"

definition polling_delay :: "nat option \<Rightarrow> nat" where
  "polling_delay delay = (case delay of Some d \<Rightarrow> if d \<noteq> 0 then d else DEFAULT_DELAY | None \<Rightarrow> DEFAULT_DELAY)"

text \<open>
  The timers of the browser, each with the version of \<open>pollingRoutine\<close> it will call, \<open>timerId.current\<close>, the polls whose
  \<open>pollingFn\<close> has not returned yet, by version, and the version of the last render.  Every timer has the same delay.
\<close>

record Poll =
  pl_version :: nat
  pl_running :: "nat list"
  pl_timers :: "(nat \<times> nat) list"
  pl_timerId :: "nat option"
  pl_next :: nat

definition clear_timer :: "nat option \<Rightarrow> Poll \<Rightarrow> Poll" where
  "clear_timer t p = (case t of None \<Rightarrow> p | Some i \<Rightarrow> p\<lparr>pl_timers := filter (\<lambda>(j, _). j \<noteq> i) (pl_timers p)\<rparr>)"

definition stopPolling :: "Poll \<Rightarrow> Poll" where
  "stopPolling p = (case pl_timerId p of
      Some t \<Rightarrow> (clear_timer (Some t) p)\<lparr>pl_timerId := None\<rparr>
    | None \<Rightarrow> p)"

text \<open>\<open>pollingRoutine\<close> calls \<open>pollingFn\<close>; when that returns the routine continues with \<open>after_poll\<close>.\<close>

definition start_poll :: "nat \<Rightarrow> Poll \<Rightarrow> Poll" where
  "start_poll v p = p\<lparr>pl_running := pl_running p @ [v]\<rparr>"

definition after_poll :: "nat \<Rightarrow> Poll \<Rightarrow> Poll" where
  "after_poll v p =
     (let p = p\<lparr>pl_running := remove1 v (pl_running p)\<rparr>;
          p = clear_timer (pl_timerId p) p
      in p\<lparr>pl_timers := pl_timers p @ [(pl_next p, v)], pl_timerId := Some (pl_next p), pl_next := Suc (pl_next p)\<rparr>)"

definition mount_poll :: Poll where
  "mount_poll = start_poll 0 \<lparr>pl_version = 0, pl_running = [], pl_timers = [], pl_timerId = None, pl_next = 0\<rparr>"

datatype PollEvent =
    Fire nat \<comment> \<open>a timer\<close>
  | Returned nat \<comment> \<open>\<open>pollingFn\<close> of that version\<close>
  | Rejected nat
  | Stop \<comment> \<open>by the caller or on unmount\<close>
  | NewFn \<comment> \<open>a render with another \<open>pollingFn\<close>: cleanup and effect\<close>

fun poll_step :: "PollEvent \<Rightarrow> Poll \<Rightarrow> Poll option" where
  "poll_step (Fire t) p = (case map_of (pl_timers p) t of
      Some v \<Rightarrow> Some (start_poll v (p\<lparr>pl_timers := filter (\<lambda>(j, _). j \<noteq> t) (pl_timers p)\<rparr>))
    | None \<Rightarrow> None)"
| "poll_step (Returned v) p = (if v \<in> set (pl_running p) then Some (after_poll v p) else None)"
| "poll_step (Rejected v) p =
     (if v \<in> set (pl_running p) then Some (p\<lparr>pl_running := remove1 v (pl_running p)\<rparr>) else None)"
| "poll_step Stop p = Some (stopPolling p)"
| "poll_step NewFn p = (let p = (stopPolling p)\<lparr>pl_version := Suc (pl_version p)\<rparr> in Some (start_poll (pl_version p) p))"

fun poll_run :: "PollEvent list \<Rightarrow> Poll \<Rightarrow> Poll option" where
  "poll_run [] p = Some p"
| "poll_run (e # es) p = Option.bind (poll_step e p) (poll_run es)"

section \<open>Scrolling and sizes\<close>

record ScrollInfo =
  sc_dx :: rat
  sc_dy :: rat
  sc_scrollHeight :: rat
  sc_scrollLeft :: rat
  sc_scrollTop :: rat
  sc_scrollWidth :: rat
  sc_viewHeight :: rat
  sc_viewWidth :: rat

record Element =
  el_scrollHeight :: rat
  el_scrollLeft :: rat
  el_scrollTop :: rat
  el_scrollWidth :: rat
  el_clientHeight :: rat
  el_clientWidth :: rat

definition defaultScrollInfo :: ScrollInfo where
  "defaultScrollInfo = \<lparr>sc_dx = 0, sc_dy = 0, sc_scrollHeight = 0, sc_scrollLeft = 0, sc_scrollTop = 0,
     sc_scrollWidth = 0, sc_viewHeight = 0, sc_viewWidth = 0\<rparr>"

definition initial_scroll :: "Element option \<Rightarrow> ScrollInfo" where
  "initial_scroll element = (case element of
      None \<Rightarrow> defaultScrollInfo
    | Some e \<Rightarrow> defaultScrollInfo\<lparr>sc_scrollHeight := el_scrollHeight e, sc_scrollLeft := el_scrollLeft e,
        sc_scrollTop := el_scrollTop e, sc_scrollWidth := el_scrollWidth e, sc_viewHeight := el_clientHeight e,
        sc_viewWidth := el_clientWidth e\<rparr>)"

definition scroll_handleResize :: "Element option \<Rightarrow> bool \<Rightarrow> ScrollInfo \<Rightarrow> ScrollInfo" where
  "scroll_handleResize element observed prev = (case element of
      None \<Rightarrow> prev
    | Some e \<Rightarrow>
        if \<not> observed then prev
        else prev\<lparr>sc_dx := el_scrollLeft e - sc_scrollLeft prev, sc_dy := el_scrollTop e - sc_scrollTop prev,
          sc_scrollHeight := el_scrollHeight e, sc_scrollWidth := el_scrollWidth e,
          sc_viewHeight := el_clientHeight e, sc_viewWidth := el_clientWidth e\<rparr>)"

definition scroll_handleScroll :: "Element option \<Rightarrow> ScrollInfo \<Rightarrow> ScrollInfo" where
  "scroll_handleScroll element prev = (case element of
      None \<Rightarrow> prev
    | Some e \<Rightarrow> prev\<lparr>sc_dx := el_scrollLeft e - sc_scrollLeft prev, sc_dy := el_scrollTop e - sc_scrollTop prev,
        sc_scrollHeight := el_scrollHeight e, sc_scrollLeft := el_scrollLeft e, sc_scrollTop := el_scrollTop e,
        sc_scrollWidth := el_scrollWidth e\<rparr>)"

text \<open>\<open>useRouteTracker\<close>: the first page and every later location.\<close>

definition useRouteTracker :: "string \<Rightarrow> string list \<Rightarrow> App \<Rightarrow> App" where
  "useRouteTracker first later w = fold recordPageAccess later (recordPageAccess first w)"

text \<open>\<open>usePrevious\<close>: what it returns in each render, and the reference after the render's effect.\<close>

fun usePrevious :: "'a \<Rightarrow> 'a list \<Rightarrow> 'a list" where
  "usePrevious current [] = []"
| "usePrevious current (v # vs) = current # usePrevious v vs"

text \<open>\<open>handleTagListChange\<close> of \<open>useExperimentTags\<close>: the callback runs when the request succeeded.\<close>

definition handleTagListChange ::
  "(js \<Rightarrow> bool) \<Rightarrow> (nat \<Rightarrow> Request \<Rightarrow> js + unit) \<Rightarrow> ('s Web \<Rightarrow> 's Web) option \<Rightarrow> int \<Rightarrow> string list \<Rightarrow> 's Web
    \<Rightarrow> (failure + unit) \<times> 's Web" where
  "handleTagListChange isCancel net callbackFn experimentId labels w =
     (case generateDetApi isCancel net patchExperiment (experimentId, Obj [(''labels'', js_strs labels)]) w of
        (Inl f, w) \<Rightarrow> (Inl f, w)
      | (Inr _, w) \<Rightarrow> (Inr (), case callbackFn of Some f \<Rightarrow> f w | None \<Rightarrow> w))"

section \<open>Polling the cluster\<close>

text \<open>\<open>fetchAgents\<close> of \<open>AppContexts\<close>: the two contexts it sets; a failed request changes neither.\<close>

definition fetchAgents ::
  "(js \<Rightarrow> bool) \<Rightarrow> (string \<Rightarrow> number) \<Rightarrow> (nat \<Rightarrow> Request \<Rightarrow> js + V1Agent list option) \<Rightarrow> 's Web
    \<Rightarrow> (Agent list ContextAction \<times> ClusterOverviewAction) option \<times> 's Web" where
  "fetchAgents isCancel unix net w = (case generateDetApi isCancel net (getAgents unix) () w of
      (Inr agents, w) \<Rightarrow> (Some (CSet agents, ClusterSetAgents agents), w)
    | (Inl _, w) \<Rightarrow> (None, w))"

section \<open>Lemmas\<close>

text \<open>
  The invariant of the request hook: the numbers of the requests are distinct and used, and at most one request, that
  of the current parameters, was not cancelled.
\<close>

definition live :: "RestHook \<Rightarrow> (nat \<times> js) list" where
  "live h = map (\<lambda>(i, p, _). (i, p)) (filter (\<lambda>(_, _, c). \<not> c) (rh_inflight h))"

definition rest_inv :: "RestHook \<Rightarrow> bool" where
  "rest_inv h = (
     distinct (map fst (rh_inflight h)) \<and> (\<forall>i \<in> fst ` set (rh_inflight h). i < rh_next h)
     \<and> (if rs_isLoading (rh_state h) then \<exists>i. live h = [(i, rh_params h)]
        else live h = [] \<and> (if rh_failed h then rs_error (rh_state h) \<noteq> None else rh_shown h = Some (rh_params h)))
     \<and> (rs_hasLoaded (rh_state h) \<longleftrightarrow> rh_shown h \<noteq> None))"

lemma live_cancelled: "filter (\<lambda>(_, _, c). \<not> c) (map (\<lambda>(i, p, _). (i, p, True)) xs) = []"
  by (induction xs) auto

lemma fst_cancelled: "map fst (map (\<lambda>(i, p, _). (i, p, True)) xs) = map fst xs"
  by (induction xs) auto

lemma rest_inv_effect: "rest_inv h \<Longrightarrow> rest_inv (rest_effect p h)"
proof -
  assume inv: "rest_inv h"
  have keys: "fst ` set (map (\<lambda>(i, p, _). (i, p, True)) (rh_inflight h)) = fst ` set (rh_inflight h)"
    using fst_cancelled [of "rh_inflight h"] by (metis list.set_map)
  have "distinct (map fst (rh_inflight (rest_effect p h)))"
    using inv by (auto simp: rest_effect_def fst_cancelled rest_inv_def image_iff simp del: map_map)
  moreover have "\<forall>i \<in> fst ` set (rh_inflight (rest_effect p h)). i < rh_next (rest_effect p h)"
    using inv keys by (fastforce simp: rest_effect_def rest_inv_def)
  moreover have "live (rest_effect p h) = [(rh_next h, p)]"
    by (simp add: live_def rest_effect_def live_cancelled)
  ultimately show ?thesis using inv by (simp add: rest_inv_def rest_effect_def)
qed

lemma rest_inv_mount: "rest_inv (mount_rest p)"
  by (simp add: mount_rest_def rest_effect_def rest_inv_def live_def initial_rest_state_def)

lemma settle_inflight:
  "rest_inv h \<Longrightarrow> distinct (map fst (rh_inflight (settle i h))) \<and> (\<forall>j \<in> fst ` set (rh_inflight (settle i h)). j < rh_next h)"
  by (auto simp: rest_inv_def settle_def distinct_map_filter)

lemma live_settle: "live (settle i h) = filter (\<lambda>(j, _). j \<noteq> i) (live h)"
proof -
  have "map (\<lambda>(i, p, _). (i, p)) (filter (\<lambda>(_, _, c). \<not> c) (filter (\<lambda>(j, _). j \<noteq> i) xs))
     = filter (\<lambda>(j, _). j \<noteq> i) (map (\<lambda>(i, p, _). (i, p)) (filter (\<lambda>(_, _, c). \<not> c) xs))" for xs :: "(nat \<times> js \<times> bool) list"
    by (induction xs) auto
  then show ?thesis by (simp add: live_def settle_def)
qed

lemma live_mem: "(i, p, False) \<in> set (rh_inflight h) \<Longrightarrow> (i, p) \<in> set (live h)"
  by (force simp: live_def)

lemma live_cancelled_not:
  assumes "rest_inv h" "(i, p, True) \<in> set (rh_inflight h)"
  shows "filter (\<lambda>(j, _). j \<noteq> i) (live h) = live h"
proof -
  have "(i, q, False) \<notin> set (rh_inflight h)" for q
    using assms eq_key_imp_eq_value [of "rh_inflight h" i "(p, True)" "(q, False)"] by (auto simp: rest_inv_def)
  then show ?thesis by (auto simp: live_def filter_id_conv)
qed

lemma rest_inv_live:
  assumes "rest_inv h" "(i, p, False) \<in> set (rh_inflight h)"
  shows "p = rh_params h \<and> live (settle i h) = []"
proof -
  have "(i, p) \<in> set (live h)" using live_mem [OF assms(2)] .
  then obtain j where "live h = [(j, rh_params h)]" using assms(1) by (auto simp: rest_inv_def split: if_splits)
  with \<open>(i, p) \<in> set (live h)\<close> show ?thesis by (simp add: live_settle)
qed

lemma rest_inv_step: "rest_step isCancel True h h' \<Longrightarrow> rest_inv h \<Longrightarrow> rest_inv h'"
proof (induction rule: rest_step.induct)
  case (trigger h p)
  then show ?case by (rule rest_inv_effect)
next
  case (resolved i p c h v)
  then have c: "(i, p, False) \<in> set (rh_inflight h)" by simp
  note l = rest_inv_live [OF resolved.prems c]
  have "live (rest_then i p v h) = live (settle i h)" by (simp add: live_def rest_then_def)
  with l settle_inflight [OF resolved.prems, of i] show ?case
    by (simp add: rest_inv_def rest_then_def, simp add: Let_def settle_def)
next
  case (rejected i p c h e)
  show ?case
  proof (cases c)
    case True
    with rejected have m: "(i, p, True) \<in> set (rh_inflight h)" "isCancel e" by simp_all
    have "live (settle i h) = live h" using live_cancelled_not [OF rejected.prems m(1)] by (simp add: live_settle)
    with settle_inflight [OF rejected.prems, of i] rejected.prems m(2) show ?thesis
      by (simp add: rest_inv_def rest_catch_def, simp add: settle_def split: if_splits)
  next
    case False
    with rejected have m: "(i, p, False) \<in> set (rh_inflight h)" "\<not> isCancel e" by simp_all
    note l = rest_inv_live [OF rejected.prems m(1)]
    have "live (rest_catch isCancel i e h) = live (settle i h)" using m(2) by (simp add: live_def rest_catch_def)
    with l settle_inflight [OF rejected.prems, of i] rejected.prems m(2) show ?thesis
      by (simp add: rest_inv_def rest_catch_def, simp add: settle_def)
  qed
qed

lemma rest_inv_run: "rest_run isCancel True h h' \<Longrightarrow> rest_inv h \<Longrightarrow> rest_inv h'"
  by (induction rule: rest_run.induct) (auto intro: rest_inv_step)

section \<open>Properties\<close>



subsection \<open>Polling\<close>

definition poll_inv :: "Poll \<Rightarrow> bool" where
  "poll_inv p = ((pl_timers p = [] \<or> (\<exists>t v. pl_timers p = [(t, v)] \<and> pl_timerId p = Some t))
     \<and> (\<forall>t. pl_timerId p = Some t \<longrightarrow> t < pl_next p))"

lemma poll_inv_mount: "poll_inv mount_poll"
  by (simp add: poll_inv_def mount_poll_def start_poll_def)

lemma poll_inv_start [simp]: "poll_inv (start_poll v p) = poll_inv p"
  by (simp add: poll_inv_def start_poll_def)

lemma poll_inv_stop: "poll_inv p \<Longrightarrow> poll_inv (stopPolling p) \<and> pl_timers (stopPolling p) = []"
  by (auto simp: poll_inv_def stopPolling_def clear_timer_def split: option.splits)

lemma poll_inv_after: "poll_inv p \<Longrightarrow> poll_inv (after_poll v p) \<and> pl_timers (after_poll v p) = [(pl_next p, v)]"
  by (auto simp: poll_inv_def after_poll_def clear_timer_def Let_def split: option.splits)

lemma poll_inv_step: "poll_inv p \<Longrightarrow> poll_step e p = Some p' \<Longrightarrow> poll_inv p'"
proof (cases e)
  case (Fire t)
  assume "poll_inv p" "poll_step e p = Some p'"
  then show ?thesis by (auto simp: Fire poll_inv_def start_poll_def split: option.splits if_splits)
next
  case NewFn
  assume "poll_inv p" "poll_step e p = Some p'"
  then show ?thesis using poll_inv_stop [of p] by (auto simp: NewFn poll_inv_def start_poll_def Let_def)
qed (auto simp: poll_inv_stop poll_inv_after split: if_splits, auto simp: poll_inv_def)

lemma poll_run_append: "poll_run (es @ fs) p = Option.bind (poll_run es p) (poll_run fs)"
  by (induction es arbitrary: p) (auto split: bind_splits)

lemma poll_run_induct [consumes 1, case_names init step]:
  assumes "poll_run es p = Some p'" "P p"
    "\<And>e q q'. e \<in> set es \<Longrightarrow> P q \<Longrightarrow> poll_step e q = Some q' \<Longrightarrow> P q'"
  shows "P p'"
  using assms
proof (induction es arbitrary: p)
  case (Cons e es)
  then obtain q where "poll_step e p = Some q" "poll_run es q = Some p'" by (auto split: bind_splits)
  with Cons show ?case by (meson list.set_intros)
qed simp

lemma poll_inv_run: "poll_run es mount_poll = Some p \<Longrightarrow> poll_inv p"
  by (induction rule: poll_run_induct) (auto simp: poll_inv_mount intro: poll_inv_step)

definition active :: "Poll \<Rightarrow> bool" where
  "active p = (pl_running p \<noteq> [] \<or> pl_timers p \<noteq> [])"

lemma active_step:
  "poll_inv p \<Longrightarrow> active p \<Longrightarrow> e \<noteq> Stop \<Longrightarrow> (\<forall>v. e \<noteq> Rejected v) \<Longrightarrow> poll_step e p = Some p' \<Longrightarrow> active p'"
  using poll_inv_after [of p]
  by (cases e) (auto simp: active_def start_poll_def Let_def split: option.splits if_splits)

text \<open>
  C4: Polling goes on.  Whatever the order in which timers fire, polls return and the polling function is replaced,
  there is never more than one timer; and as long as no poll is rejected and polling is not stopped, a poll is running
  or a timer is set, so that a next poll always comes: a running poll that returns sets a timer, and a timer that is
  set can fire and starts a poll.
\<close>

theorem polling_continues:
  assumes "poll_run es mount_poll = Some p"
  shows "length (pl_timers p) \<le> 1
    \<and> (Stop \<notin> set es \<and> (\<forall>v. Rejected v \<notin> set es) \<longrightarrow> pl_running p \<noteq> [] \<or> pl_timers p \<noteq> [])
    \<and> (pl_running p \<noteq> [] \<longrightarrow> (\<exists>v q. poll_step (Returned v) p = Some q \<and> pl_timers q \<noteq> []))
    \<and> (pl_timers p \<noteq> [] \<longrightarrow> (\<exists>t q. poll_step (Fire t) p = Some q \<and> pl_running q \<noteq> []))"
proof (intro conjI impI)
  have inv: "poll_inv p" using poll_inv_run [OF assms] .
  then show "length (pl_timers p) \<le> 1" by (auto simp: poll_inv_def)
  show "pl_running p \<noteq> [] \<or> pl_timers p \<noteq> []" if "Stop \<notin> set es \<and> (\<forall>v. Rejected v \<notin> set es)"
  proof -
    have "poll_inv p \<and> active p" using assms
    proof (induction rule: poll_run_induct)
      case (step e q q')
      then show ?case using that active_step [of q e q'] poll_inv_step [of q e q'] by metis
    next
      case init
      show ?case using poll_inv_mount by (simp add: active_def mount_poll_def start_poll_def)
    qed
    then show ?thesis by (simp add: active_def)
  qed
  show "\<exists>v q. poll_step (Returned v) p = Some q \<and> pl_timers q \<noteq> []" if "pl_running p \<noteq> []"
  proof -
    have "hd (pl_running p) \<in> set (pl_running p)" using that by simp
    then show ?thesis using poll_inv_after [OF inv] by (intro exI [of _ "hd (pl_running p)"]) auto
  qed
  show "\<exists>t q. poll_step (Fire t) p = Some q \<and> pl_running q \<noteq> []" if ne: "pl_timers p \<noteq> []"
  proof -
    obtain t v where "pl_timers p = [(t, v)]" using inv ne by (auto simp: poll_inv_def)
    then show ?thesis by (intro exI [of _ t]) (auto simp: start_poll_def)
  qed
qed

theorem polling_continues_witness:
  "\<exists>p. poll_run [Returned 0, Fire 0] mount_poll = Some p \<and> (pl_running p \<noteq> [] \<or> pl_timers p \<noteq> [])"
proof -
  obtain p where p: "poll_run [Returned 0, Fire 0] mount_poll = Some p"
    by (simp add: mount_poll_def start_poll_def after_poll_def clear_timer_def Let_def)
  show ?thesis using polling_continues [OF p] p by auto
qed

text \<open>
  Stopping ends polling only between polls.  When no poll is running, nothing is polled after a stop until the hook
  is rendered with another function; but a poll that is running when polling is stopped sets a new timer when it
  returns, and a poll of a replaced function that returns last removes the timer of the new function, so that the old
  function is polled from then on.
\<close>

theorem polling_stop:
  "(poll_run es mount_poll = Some p \<and> pl_running p = [] \<and> NewFn \<notin> set fs \<and> poll_run (Stop # fs) p = Some q \<longrightarrow>
     pl_running q = [] \<and> pl_timers q = [] \<and> set fs \<subseteq> {Stop})
   \<and> map_option (\<lambda>p. map snd (pl_timers p)) (poll_run [Stop, Returned 0] mount_poll) = Some [0]
   \<and> map_option (\<lambda>p. (pl_version p, map snd (pl_timers p), pl_running p))
     (poll_run [NewFn, Returned 1, Returned 0] mount_poll) = Some (1, [0], [])"
proof (rule conjI [OF impI conjI])
  assume "poll_run es mount_poll = Some p \<and> pl_running p = [] \<and> NewFn \<notin> set fs \<and> poll_run (Stop # fs) p = Some q"
  then have r: "poll_run es mount_poll = Some p" "pl_running p = []" "NewFn \<notin> set fs" "poll_run (Stop # fs) p = Some q"
    by simp_all
  have "pl_timers (stopPolling p) = []" using poll_inv_stop poll_inv_run [OF r(1)] by blast
  moreover have "pl_running (stopPolling p) = []"
    using r(2) by (simp add: stopPolling_def clear_timer_def split: option.splits)
  moreover have "pl_running a = [] \<Longrightarrow> pl_timers a = [] \<Longrightarrow> NewFn \<notin> set fs \<Longrightarrow> poll_run fs a = Some q \<Longrightarrow>
      pl_running q = [] \<and> pl_timers q = [] \<and> set fs \<subseteq> {Stop}" for a
  proof (induction fs arbitrary: a)
    case (Cons f fs)
    then have f: "f = Stop" by (cases f) (auto split: if_splits)
    have "pl_running (stopPolling a) = []" "pl_timers (stopPolling a) = []"
      using Cons.prems(1,2) by (simp_all add: stopPolling_def clear_timer_def split: option.splits)
    with Cons f show ?case by simp
  qed simp
  ultimately show "pl_running q = [] \<and> pl_timers q = [] \<and> set fs \<subseteq> {Stop}" using r(3,4) by simp
next
  show "map_option (\<lambda>p. map snd (pl_timers p)) (poll_run [Stop, Returned 0] mount_poll) = Some [0]"
    by (simp add: mount_poll_def start_poll_def after_poll_def clear_timer_def stopPolling_def Let_def)
  show "map_option (\<lambda>p. (pl_version p, map snd (pl_timers p), pl_running p))
     (poll_run [NewFn, Returned 1, Returned 0] mount_poll) = Some (1, [0], [])"
    by (simp add: mount_poll_def start_poll_def after_poll_def clear_timer_def stopPolling_def Let_def)
qed

theorem polling_stop_witness:
  "\<exists>p q. poll_run [Returned 0] mount_poll = Some p \<and> poll_run [Stop, Stop] p = Some q \<and> pl_timers q = []"
proof -
  obtain p q where p: "poll_run [Returned 0] mount_poll = Some p" "poll_run [Stop, Stop] p = Some q"
    by (simp add: mount_poll_def start_poll_def after_poll_def clear_timer_def stopPolling_def Let_def)
  have "pl_running p = []" using p(1) by (auto simp: mount_poll_def start_poll_def after_poll_def clear_timer_def Let_def)
  then show ?thesis using polling_stop [of "[Returned 0]" p "[Stop]" q] p by auto
qed

end
