(* ===== verification/Log_Viewer.thy ===== *)
theory Log_Viewer
  imports Hooks
begin

text \<open>
  The log viewer (\<^verbatim>\<open>components/LogViewer.tsx\<close>) with the clipboard functions of \<^verbatim>\<open>utils/dom.ts\<close>: the entries it holds,
  their measured layout, the part of them that is rendered for a scroll position, and the effects that load older
  entries, follow the end of the log and restore the position.  Sizes are JavaScript numbers, since a viewer that is not
  laid out measures characters of width zero.  \<open>dayjs\<close> (behind \<open>formatDatetime\<close>) and \<open>sprintf\<close> are arguments; the
  bounding boxes of the two measuring elements are an input.
\<close>

section \<open>Constants and state\<close>

definition TAIL_SIZE :: int where "TAIL_SIZE = 1000"

definition BUFFER_FACTOR :: rat where "BUFFER_FACTOR = 1"

definition DATETIME_PREFIX :: string where "DATETIME_PREFIX = ''[''"

definition DATETIME_SUFFIX :: string where "DATETIME_SUFFIX = '']''"

definition DATETIME_FORMAT :: string where
  "DATETIME_FORMAT = ''['' @ DATETIME_PREFIX @ '']YYYY-MM-DD, HH:mm:ss'' @ DATETIME_SUFFIX"

definition MAX_DATETIME_LENGTH :: nat where "MAX_DATETIME_LENGTH = 23"

definition SCROLL_TOP_THRESHOLD :: rat where "SCROLL_TOP_THRESHOLD = 36"

definition SCROLL_BOTTOM_THRESHOLD :: rat where "SCROLL_BOTTOM_THRESHOLD = 36"

definition ICON_WIDTH :: rat where "ICON_WIDTH = 26"

definition MAX_SAFE_INTEGER :: int where "MAX_SAFE_INTEGER = 2 ^ 53 - 1"

definition MIN_SAFE_INTEGER :: int where "MIN_SAFE_INTEGER = - (2 ^ 53 - 1)"

record ViewerLog = Log +
  vl_formattedTime :: string

record MessageSize =
  ms_height :: number
  ms_top :: number

record LogConfig =
  lc_charHeight :: number
  lc_charWidth :: number
  lc_dateTimeWidth :: number
  lc_lineNumberWidth :: number
  lc_messageSizes :: "int \<rightharpoonup> MessageSize"
  lc_messageWidth :: number
  lc_totalContentHeight :: number

definition defaultLogConfig :: LogConfig where
  "defaultLogConfig = \<lparr>lc_charHeight = Fin 0, lc_charWidth = Fin 0, lc_dateTimeWidth = Fin 0, lc_lineNumberWidth = Fin 0,
     lc_messageSizes = Map.empty, lc_messageWidth = Fin 0, lc_totalContentHeight = Fin 0\<rparr>"

record LogIdRange =
  lr_max :: int
  lr_min :: int

definition noRange :: LogIdRange where
  "noRange = \<lparr>lr_max = MIN_SAFE_INTEGER, lr_min = MAX_SAFE_INTEGER\<rparr>"

record ScrollToInfo =
  st_isPrepend :: bool
  st_logId :: "int option"

record Viewer =
  vw_logs :: "ViewerLog list"
  vw_logIdRange :: LogIdRange
  vw_scrollToInfo :: ScrollToInfo
  vw_config :: LogConfig
  vw_isTailing :: bool

definition mount_viewer :: Viewer where
  "mount_viewer = \<lparr>vw_logs = [], vw_logIdRange = noRange, vw_scrollToInfo = \<lparr>st_isPrepend = False, st_logId = Some 0\<rparr>,
     vw_config = defaultLogConfig, vw_isTailing = True\<rparr>"

record ViewerProps =
  vp_disableLevel :: bool
  vp_disableLineNumber :: bool

text \<open>The boxes of the spacer and of a single character.\<close>

record Rects =
  rc_spacerWidth :: rat
  rc_charWidth :: rat
  rc_charHeight :: rat

section \<open>Measuring\<close>

fun math_floor :: "number \<Rightarrow> number" where
  "math_floor (Fin a) = Fin (of_int \<lfloor>a\<rfloor>)"
| "math_floor x = x"

fun math_ceil :: "number \<Rightarrow> number" where
  "math_ceil (Fin a) = Fin (of_int \<lceil>a\<rceil>)"
| "math_ceil x = x"

text \<open>\<open>Math.ceil(Math.log(n) / Math.log(10))\<close> of an integer.\<close>

fun ceil_log10_nat :: "nat \<Rightarrow> nat" where
  "ceil_log10_nat n = (if n \<le> 1 then 0 else Suc (ceil_log10_nat ((n + 9) div 10)))"

declare ceil_log10_nat.simps [simp del]

definition ceil_log10 :: "int \<Rightarrow> number" where
  "ceil_log10 n = (if n < 0 then NaN else if n = 0 then NInf else Fin (of_nat (ceil_log10_nat (nat n))))"

definition line_rows :: "number \<Rightarrow> string \<Rightarrow> number" where
  "line_rows messageCharCount line =
     (let len = Fin (of_nat (length line)) in
      if num_lt messageCharCount len then math_ceil (num_div len messageCharCount) else Fin 1)"

definition line_count :: "number \<Rightarrow> string \<Rightarrow> number" where
  "line_count messageCharCount message =
     foldl num_add (Fin 0) (map (line_rows messageCharCount) (js_split ''\<newline>'' message))"

text \<open>The loop over the entries: the sizes and the height so far.\<close>

fun measure_messages ::
  "number \<Rightarrow> number \<Rightarrow> 'a Log_scheme list \<Rightarrow> (int \<rightharpoonup> MessageSize) \<Rightarrow> number \<Rightarrow> (int \<rightharpoonup> MessageSize) \<times> number" where
  "measure_messages messageCharCount charHeight [] sizes h = (sizes, h)"
| "measure_messages messageCharCount charHeight (l # logs) sizes h =
     (let height = num_mul (line_count messageCharCount (log_message l)) charHeight in
      measure_messages messageCharCount charHeight logs
        (sizes(log_id l \<mapsto> \<lparr>ms_height = height, ms_top = h\<rparr>)) (num_add h height))"

definition line_number_width :: "ViewerProps \<Rightarrow> Rects \<Rightarrow> 'a Log_scheme list \<Rightarrow> number" where
  "line_number_width props r logs =
     (if vp_disableLineNumber props then Fin 0
      else
        let maxLineNumber = (if logs = [] then 1000 else log_id (last logs) + 1);
            lineDigits = num_add (ceil_log10 maxLineNumber) (Fin 1)
        in num_mul (Fin (rc_charWidth r)) lineDigits)"

definition measureLogs :: "ViewerProps \<Rightarrow> Rects option \<Rightarrow> 'a Log_scheme list \<Rightarrow> LogConfig result" where
  "measureLogs props rects logs = (case rects of
      None \<Rightarrow> Inl (JsError ''Missing log measuring elements.'')
    | Some r \<Rightarrow>
        (let lineNumberWidth = line_number_width props r logs;
             dateTimeWidth = num_mul (Fin (rc_charWidth r)) (Fin (of_nat MAX_DATETIME_LENGTH));
             iconWidth = (if vp_disableLevel props then 0 else ICON_WIDTH);
             messageWidth = math_floor (num_sub (num_sub (Fin (rc_spacerWidth r - iconWidth)) lineNumberWidth) dateTimeWidth);
             messageCharCount = math_floor (num_div messageWidth (Fin (rc_charWidth r)));
             (messageSizes, totalContentHeight) =
               measure_messages messageCharCount (Fin (rc_charHeight r)) logs Map.empty (Fin 0)
         in Inr \<lparr>lc_charHeight = Fin (rc_charHeight r), lc_charWidth = Fin (rc_charWidth r), lc_dateTimeWidth = dateTimeWidth,
              lc_lineNumberWidth = lineNumberWidth, lc_messageSizes = messageSizes, lc_messageWidth = messageWidth,
              lc_totalContentHeight = totalContentHeight\<rparr>))"

section \<open>Adding and clearing\<close>

definition viewer_log :: "(string \<Rightarrow> string \<Rightarrow> string) \<Rightarrow> Log \<Rightarrow> ViewerLog" where
  "viewer_log formatDatetime l = Log.extend l
     \<lparr>vl_formattedTime = (case log_time l of
        Some t \<Rightarrow> if t \<noteq> [] then formatDatetime t DATETIME_FORMAT else [] | None \<Rightarrow> [])\<rparr>"

text \<open>\<open>addLogs\<close> as the viewer of the current render provides it.\<close>

definition addLogs ::
  "(string \<Rightarrow> string \<Rightarrow> string) \<Rightarrow> ViewerProps \<Rightarrow> Rects option \<Rightarrow> Log list \<Rightarrow> bool \<Rightarrow> Viewer \<Rightarrow> Viewer result" where
  "addLogs formatDatetime props rects addedLogs prepend v =
     (let newLogs = map (viewer_log formatDatetime)
            (filter (\<lambda>log. log_id log < lr_min (vw_logIdRange v) \<or> log_id log > lr_max (vw_logIdRange v)) addedLogs)
      in if newLogs = [] then Inr v
         else
           let updatedLogs = (if prepend then newLogs @ vw_logs v else vw_logs v @ newLogs)
           in bind_exn (measureLogs props rects updatedLogs) (\<lambda>logConfig.
              Inr (v\<lparr>vw_config := logConfig,
                vw_scrollToInfo := \<lparr>st_isPrepend = prepend,
                  st_logId = (case vw_logs v of [] \<Rightarrow> None | l # _ \<Rightarrow> Some (log_id l))\<rparr>,
                vw_logs := updatedLogs,
                vw_logIdRange := \<lparr>lr_max = max (lr_max (vw_logIdRange v)) (log_id (last newLogs)),
                  lr_min = min (lr_min (vw_logIdRange v)) (log_id (hd newLogs))\<rparr>\<rparr>)))"

definition clearLogs :: "Viewer \<Rightarrow> Viewer" where
  "clearLogs v = v\<lparr>vw_config := defaultLogConfig, vw_scrollToInfo := \<lparr>st_isPrepend = False, st_logId = Some 0\<rparr>, vw_logs := [],
     vw_logIdRange := \<lparr>lr_max = MIN_SAFE_INTEGER, lr_min = MAX_SAFE_INTEGER\<rparr>, vw_isTailing := True\<rparr>"

section \<open>Rendering and scrolling\<close>

definition in_view :: "ScrollInfo \<Rightarrow> MessageSize \<Rightarrow> bool" where
  "in_view scroll sz =
     (let viewTop = Fin (sc_scrollTop scroll - sc_viewHeight scroll * BUFFER_FACTOR);
          viewBottom = Fin (sc_scrollTop scroll + sc_viewHeight scroll * (1 + BUFFER_FACTOR));
          top = ms_top sz;
          bottom = num_add (ms_top sz) (ms_height sz)
      in num_lt viewTop top \<and> num_lt top viewBottom \<or> num_lt viewTop bottom \<and> num_lt bottom viewBottom)"

definition visibleLogs :: "Viewer \<Rightarrow> ScrollInfo \<Rightarrow> ViewerLog list" where
  "visibleLogs v scroll =
     (if num_eq (lc_totalContentHeight (vw_config v)) (Fin 0) then vw_logs v
      else filter (\<lambda>log. case lc_messageSizes (vw_config v) (log_id log) of
               None \<Rightarrow> False
             | Some sz \<Rightarrow> in_view scroll sz) (vw_logs v))"

text \<open>The argument of the call of \<open>onScrollToTop\<close>, when the effect makes one.\<close>

definition scrollToTop_effect :: "bool \<Rightarrow> Viewer \<Rightarrow> ScrollInfo \<Rightarrow> ScrollInfo \<Rightarrow> int option" where
  "scrollToTop_effect hasCallback v previousScroll scroll =
     (case vw_logs v of
        [] \<Rightarrow> None
      | l # _ \<Rightarrow>
          if sc_scrollTop scroll > SCROLL_TOP_THRESHOLD then None
          else if sc_scrollTop previousScroll \<le> SCROLL_TOP_THRESHOLD then None
          else if \<not> hasCallback then None
          else Some (log_id l - 1))"

definition tailing_effect :: "ScrollInfo \<Rightarrow> Viewer \<Rightarrow> Viewer" where
  "tailing_effect scroll v =
     (if sc_scrollTop scroll < sc_scrollHeight scroll - sc_viewHeight scroll - SCROLL_BOTTOM_THRESHOLD
      then v\<lparr>vw_isTailing := False\<rparr> else v)"

definition resize_effect :: "ViewerProps \<Rightarrow> Rects option \<Rightarrow> Viewer \<Rightarrow> Viewer result" where
  "resize_effect props rects v =
     bind_exn (measureLogs props rects (vw_logs v)) (\<lambda>config. Inr (v\<lparr>vw_config := config\<rparr>))"

text \<open>Where the container is scrolled to: its end, or a position.\<close>

datatype ScrollTarget = ToEnd | ToPosition number

definition first_logs_effect :: "'a list \<Rightarrow> 'b list \<Rightarrow> ScrollTarget option" where
  "first_logs_effect previousLogs logs = (if previousLogs = [] \<and> logs \<noteq> [] then Some ToEnd else None)"

text \<open>The effect for new and older entries, with the timer it sets already expired.\<close>

definition position_effect :: "Viewer \<Rightarrow> (ScrollTarget option \<times> Viewer) result" where
  "position_effect v =
     (if vw_isTailing v then Inr (Some ToEnd, v)
      else if st_isPrepend (vw_scrollToInfo v) then
        (case st_logId (vw_scrollToInfo v) of
           None \<Rightarrow> Inr (None, v)
         | Some logId \<Rightarrow>
             if logId = 0 then Inr (None, v)
             else (case lc_messageSizes (vw_config v) logId of
                 None \<Rightarrow> Inl TypeError
               | Some sz \<Rightarrow> Inr (Some (ToPosition (ms_top sz)),
                   v\<lparr>vw_scrollToInfo := \<lparr>st_isPrepend = False, st_logId = Some 0\<rparr>\<rparr>)))
      else Inr (None, v))"

definition handleEnableTailing :: "Viewer \<Rightarrow> ScrollTarget option \<times> Viewer" where
  "handleEnableTailing v = (Some ToEnd, v\<lparr>vw_isTailing := True\<rparr>)"

section \<open>Copying\<close>

text \<open>A match of \<open><[level]>\<close> and a line break at the start of the text, in any case: the level and what follows.\<close>

definition level_match :: "string \<Rightarrow> (string \<times> string) option" where
  "level_match s =
     (if prefix ''<['' s then
        (let body = drop 2 s in
         case find (\<lambda>l. toLowerCase (take (length l) body) = l \<and> prefix '']>\<newline>'' (drop (length l) body))
             (map str_LogLevel [LogLevel_Debug, LogLevel_Error, LogLevel_Info, LogLevel_Warning]) of
           None \<Rightarrow> None
         | Some l \<Rightarrow> Some (take (length l) body, drop (length l + 3) body))
      else None)"

lemma level_match_shorter: "level_match s = Some (l, r) \<Longrightarrow> length r < length s"
  by (auto simp: level_match_def Let_def prefix_def split: if_splits option.splits)

function replace_levels :: "string \<Rightarrow> string" where
  "replace_levels [] = []"
| "replace_levels (c # cs) = (case level_match (c # cs) of
      Some (l, r) \<Rightarrow> ''<'' @ l @ ''> '' @ replace_levels r
    | None \<Rightarrow> c # replace_levels cs)"
  by pat_completeness auto
termination
  by (relation "measure length") (auto dest: level_match_shorter)

definition is_timestamp :: "string \<Rightarrow> bool" where
  "is_timestamp line \<longleftrightarrow> prefix ''['' line \<or> suffix '']'' line"

text \<open>How many lines at even and at odd positions look like a time.\<close>

definition stamps :: "nat \<Rightarrow> string list \<Rightarrow> nat" where
  "stamps parity ls = length (filter (\<lambda>i. is_timestamp (ls ! i) \<and> i mod 2 = parity) [0..<length ls])"

definition copy_lines :: "bool \<Rightarrow> string list \<Rightarrow> string" where
  "copy_lines isEven ls = concat (map (\<lambda>i.
     ls ! i @ (if isEven \<and> i mod 2 = 0 \<or> \<not> isEven \<and> i mod 2 = 1 then '' '' else ''\<newline>'')) [0..<length ls])"

text \<open>The text that \<open>handleCopy\<close> puts on the clipboard for the selected text.\<close>

definition handleCopy :: "string \<Rightarrow> string" where
  "handleCopy selected =
     (let selection = replace_levels selected;
          ls = js_split ''\<newline>'' selection
      in if length ls \<le> 1 then selection else copy_lines (stamps 0 ls > stamps 1 ls) ls)"

definition formatClipboardHeader ::
  "(string \<Rightarrow> string list \<Rightarrow> string) \<Rightarrow> (string \<Rightarrow> string \<Rightarrow> string) \<Rightarrow> bool \<Rightarrow> 'a Log_scheme \<Rightarrow> string" where
  "formatClipboardHeader sprintf formatDatetime disableLevel l =
     (let format = ''%'' @ show_nat (MAX_DATETIME_LENGTH - 1) @ ''s '';
          level = ''<'' @ (case log_level l of Some level \<Rightarrow> str_LogLevel level | None \<Rightarrow> []) @ ''>'';
          datetime = (case log_time l of
              Some t \<Rightarrow> if t \<noteq> [] then formatDatetime t DATETIME_FORMAT else [] | None \<Rightarrow> [])
      in if disableLevel then sprintf format [datetime] else sprintf (''%-9s '' @ format) [level, datetime])"

text \<open>What the browser offers: the clipboard interface (which may refuse), the old command, or nothing.\<close>

datatype Clipboard = NavigatorClipboard bool | ExecCommand | NoClipboard

definition copyToClipboard :: "Clipboard \<Rightarrow> string \<Rightarrow> string result" where
  "copyToClipboard browser content = (case browser of
      NavigatorClipboard ok \<Rightarrow> if ok then Inr content else Inl (JsError ''Unable to write to clipboard.'')
    | ExecCommand \<Rightarrow> Inr content
    | NoClipboard \<Rightarrow> Inl (JsError ''Unable to write to clipboard.''))"

definition readFromClipboard :: "Clipboard \<Rightarrow> string \<Rightarrow> string result" where
  "readFromClipboard browser clip = (case browser of
      NavigatorClipboard ok \<Rightarrow> if ok then Inr clip else Inl (JsError ''Unable to read from clipboard.'')
    | ExecCommand \<Rightarrow> Inr clip
    | NoClipboard \<Rightarrow> Inl (JsError ''Unable to read from clipboard.''))"

text \<open>The clipboard afterwards and the kind, description and title of the notification.\<close>

definition handleCopyToClipboard ::
  "(string \<Rightarrow> string list \<Rightarrow> string) \<Rightarrow> (string \<Rightarrow> string \<Rightarrow> string) \<Rightarrow> bool \<Rightarrow> string \<Rightarrow> Clipboard \<Rightarrow> Viewer
    \<Rightarrow> string option \<times> string \<times> string \<times> string" where
  "handleCopyToClipboard sprintf formatDatetime disableLevel title browser v =
     (let content = js_join ''\<newline>'' (map (\<lambda>log.
            formatClipboardHeader sprintf formatDatetime disableLevel log @ log_message log) (vw_logs v))
      in case copyToClipboard browser content of
           Inr clip \<Rightarrow>
             (Some clip, ''open'', show_nat (length (vw_logs v)) @ '' ''
                @ (if length (vw_logs v) = 1 then ''entry'' else ''entries'') @ '' copied to the clipboard.'',
              ''Available '' @ title @ '' Copied'')
         | Inl e \<Rightarrow> (None, ''warn'', (case e of JsError m \<Rightarrow> m | _ \<Rightarrow> []), ''Unable to Copy to Clipboard''))"

section \<open>The layout\<close>

text \<open>The rows of a message wrapped at \<open>k\<close> characters.\<close>

definition wrapped_rows :: "nat \<Rightarrow> string \<Rightarrow> nat" where
  "wrapped_rows k message = sum_list (map (\<lambda>line. max 1 ((length line + k - 1) div k)) (js_split ''\<newline>'' message))"

lemma ceiling_div: "0 < k \<Longrightarrow> \<lceil>(of_nat a :: rat) / of_nat k\<rceil> = int ((a + k - 1) div k)"
proof -
  assume k: "0 < k"
  have "a + k - 1 = (a + k - 1) div k * k + (a + k - 1) mod k" by simp
  moreover have "(a + k - 1) mod k < k" using k by simp
  ultimately have b: "a \<le> (a + k - 1) div k * k" "(a + k - 1) div k * k < a + k" using k by linarith+
  have "(of_nat a :: rat) \<le> of_nat ((a + k - 1) div k) * of_nat k"
    using b(1) by (metis of_nat_le_iff of_nat_mult)
  moreover have "of_nat ((a + k - 1) div k) * of_nat k < (of_nat a :: rat) + of_nat k"
    using b(2) by (metis of_nat_add of_nat_less_iff of_nat_mult)
  ultimately show ?thesis
    using k by (intro ceiling_unique) (simp_all add: field_simps)
qed

lemma line_rows_nat: "0 < k \<Longrightarrow> line_rows (Fin (of_nat k)) line = Fin (of_nat (max 1 ((length line + k - 1) div k)))"
proof -
  assume k: "0 < k"
  show ?thesis
  proof (cases "k < length line")
    case True
    then have "1 \<le> (length line + k - 1) div k" using k by (simp add: div_greater_zero_iff Suc_le_eq)
    moreover have "num_lt (Fin (of_nat k)) (Fin (of_nat (length line)))" using True by simp
    ultimately show ?thesis
      using k by (simp add: line_rows_def ceiling_div max_def)
  next
    case False
    then have "(length line + k - 1) div k \<le> 1"
      using k by (simp add: div_le_mono less_Suc_eq_le [symmetric] div_less_iff_less_mult)
    then show ?thesis using False by (simp add: line_rows_def)
  qed
qed

lemma foldl_num_add_Fin: "foldl num_add (Fin a) (map (\<lambda>x. Fin (f x)) xs) = Fin (a + sum_list (map f xs))"
  by (induction xs arbitrary: a) (simp_all add: ac_simps)

lemma of_nat_sum_list_map: "of_nat (sum_list (map f xs)) = sum_list (map (\<lambda>x. of_nat (f x)) xs)"
  by (induction xs) simp_all

lemma line_count_nat: "0 < k \<Longrightarrow> line_count (Fin (of_nat k)) msg = Fin (of_nat (wrapped_rows k msg))"
proof -
  assume "0 < k"
  then have "line_rows (Fin (of_nat k)) = (\<lambda>line. Fin (of_nat (max 1 ((length line + k - 1) div k))))"
    using line_rows_nat by blast
  then show ?thesis unfolding line_count_def wrapped_rows_def of_nat_sum_list_map by (simp only: foldl_num_add_Fin add_0)
qed

lemma js_split_nonempty: "js_split [d] s \<noteq> []"
proof -
  have "split_aux [d] acc s \<noteq> []" for acc by (induction s arbitrary: acc) auto
  then show ?thesis by (simp add: js_split_def)
qed

lemma wrapped_rows_pos: "1 \<le> wrapped_rows k msg"
  using js_split_nonempty [of "CHR ''\<newline>''" msg] by (cases "js_split ''\<newline>'' msg") (auto simp: wrapped_rows_def)

text \<open>Sizes of entries that are not among the measured ones stay; the measured ones are stacked.\<close>

lemma measure_other: "x \<notin> log_id ` set logs \<Longrightarrow> fst (measure_messages c h logs sizes t) x = sizes x"
  by (induction logs arbitrary: sizes t) (auto simp: Let_def)

lemma measure_stack:
  assumes "0 < k" "distinct (map log_id logs)"
  shows "snd (measure_messages (Fin (of_nat k)) (Fin ch) logs sizes (Fin t))
      = Fin (t + ch * of_nat (sum_list (map (wrapped_rows k \<circ> log_message) logs)))"
    and "i < length logs \<Longrightarrow> fst (measure_messages (Fin (of_nat k)) (Fin ch) logs sizes (Fin t)) (log_id (logs ! i))
      = Some \<lparr>ms_height = Fin (ch * of_nat (wrapped_rows k (log_message (logs ! i)))),
          ms_top = Fin (t + ch * of_nat (sum_list (map (wrapped_rows k \<circ> log_message) (take i logs))))\<rparr>"
  using assms(2)
proof (induction logs arbitrary: sizes t i)
  case (Cons l logs)
  {
    case 1
    then show ?case using Cons.IH(1) by (simp add: line_count_nat [OF assms(1)] Let_def algebra_simps)
  next
    case 2
    show ?case
    proof (cases i)
      case 0
      then show ?thesis using 2 by (simp add: line_count_nat [OF assms(1)] Let_def measure_other mult.commute)
    next
      case (Suc j)
      then show ?thesis using 2 Cons.IH(2) by (simp add: line_count_nat [OF assms(1)] Let_def algebra_simps)
    qed
  }
qed simp_all

lemma measureLogs_layout:
  assumes "measureLogs props (Some r) logs = Inr cfg" "distinct (map log_id logs)"
    and "0 < rc_charWidth r" "lc_messageWidth cfg = Fin w" "rc_charWidth r \<le> w" and k: "k = nat \<lfloor>w / rc_charWidth r\<rfloor>"
  shows "0 < k"
    and "lc_totalContentHeight cfg = Fin (rc_charHeight r * of_nat (sum_list (map (wrapped_rows k \<circ> log_message) logs)))"
    and "i < length logs \<Longrightarrow> lc_messageSizes cfg (log_id (logs ! i))
      = Some \<lparr>ms_height = Fin (rc_charHeight r * of_nat (wrapped_rows k (log_message (logs ! i)))),
          ms_top = Fin (rc_charHeight r * of_nat (sum_list (map (wrapped_rows k \<circ> log_message) (take i logs))))\<rparr>"
proof -
  have "1 \<le> w / rc_charWidth r" using assms(3,5) by simp
  then have fl: "1 \<le> \<lfloor>w / rc_charWidth r\<rfloor>" by simp
  then show "0 < k" using k by simp
  have "math_floor (num_div (Fin w) (Fin (rc_charWidth r))) = Fin (of_nat k)"
    using fl assms(3) by (simp add: k)
  then have cfg: "lc_messageSizes cfg = fst (measure_messages (Fin (of_nat k)) (Fin (rc_charHeight r)) logs Map.empty (Fin 0))"
    "lc_totalContentHeight cfg = snd (measure_messages (Fin (of_nat k)) (Fin (rc_charHeight r)) logs Map.empty (Fin 0))"
    using assms(1,4) by (auto simp: measureLogs_def Let_def split_beta)
  show "lc_totalContentHeight cfg = Fin (rc_charHeight r * of_nat (sum_list (map (wrapped_rows k \<circ> log_message) logs)))"
    using measure_stack(1) [OF \<open>0 < k\<close> assms(2)] by (simp add: cfg)
  show "i < length logs \<Longrightarrow> lc_messageSizes cfg (log_id (logs ! i))
      = Some \<lparr>ms_height = Fin (rc_charHeight r * of_nat (wrapped_rows k (log_message (logs ! i)))),
          ms_top = Fin (rc_charHeight r * of_nat (sum_list (map (wrapped_rows k \<circ> log_message) (take i logs))))\<rparr>"
    using measure_stack(2) [OF \<open>0 < k\<close> assms(2)] by (simp add: cfg)
qed

lemma in_view_finite:
  assumes "0 < sc_viewHeight s" "t < sc_scrollTop s + sc_viewHeight s" "sc_scrollTop s < t + h"
  shows "in_view s \<lparr>ms_height = Fin h, ms_top = Fin t\<rparr>
    \<longleftrightarrow> \<not> (t \<le> sc_scrollTop s - sc_viewHeight s \<and> sc_scrollTop s + 2 * sc_viewHeight s \<le> t + h)"
  using assms by (auto simp: in_view_def BUFFER_FACTOR_def)

lemma out_of_view:
  assumes "0 \<le> h" "t + h \<le> sc_scrollTop s - sc_viewHeight s \<or> sc_scrollTop s + 2 * sc_viewHeight s \<le> t"
  shows "\<not> in_view s \<lparr>ms_height = Fin h, ms_top = Fin t\<rparr>"
  using assms by (auto simp: in_view_def BUFFER_FACTOR_def)

section \<open>The entries\<close>

definition viewer_ok :: "Viewer \<Rightarrow> bool" where
  "viewer_ok v \<longleftrightarrow> sorted_wrt (<) (map log_id (vw_logs v))
     \<and> vw_logIdRange v = (if vw_logs v = [] then noRange
         else \<lparr>lr_max = log_id (last (vw_logs v)), lr_min = log_id (hd (vw_logs v))\<rparr>)"

text \<open>
  A batch as the server sends it: in ascending order, and when it is added to entries, on the side where it belongs.
\<close>

definition batch_ok :: "Viewer \<Rightarrow> bool \<Rightarrow> Log list \<Rightarrow> bool" where
  "batch_ok v prepend logs \<longleftrightarrow> sorted_wrt (<) (map log_id logs)
     \<and> (\<forall>l \<in> set logs. MIN_SAFE_INTEGER \<le> log_id l \<and> log_id l \<le> MAX_SAFE_INTEGER)
     \<and> (vw_logs v \<noteq> [] \<longrightarrow> (\<forall>l \<in> set logs.
          if prepend then log_id l \<le> lr_max (vw_logIdRange v) else lr_min (vw_logIdRange v) \<le> log_id l))"

definition new_logs :: "Viewer \<Rightarrow> Log list \<Rightarrow> Log list" where
  "new_logs v logs = filter (\<lambda>l. log_id l < lr_min (vw_logIdRange v) \<or> log_id l > lr_max (vw_logIdRange v)) logs"

lemma viewer_log_id [simp]: "log_id (viewer_log fmt l) = log_id l" "log_message (viewer_log fmt l) = log_message l"
  by (simp_all add: viewer_log_def Log.defs)

lemma measureLogs_some: "\<exists>cfg. measureLogs props (Some r) logs = Inr cfg"
  by (simp add: measureLogs_def Let_def split_beta)

lemma sorted_bounds:
  "sorted_wrt (<) (map log_id ls) \<Longrightarrow> l \<in> set ls \<Longrightarrow> log_id (hd ls) \<le> log_id l \<and> log_id l \<le> log_id (last ls)"
  for ls :: "'a Log_scheme list"
proof (induction ls)
  case (Cons x xs)
  have "log_id x < log_id (last xs)" if "xs \<noteq> []" using Cons.prems(1) last_in_set [OF that] by simp
  with Cons show ?case by (cases "xs = []") (auto simp: less_imp_le)
qed simp

lemma filter_sorted_ids: "sorted_wrt (<) (map log_id ls) \<Longrightarrow> sorted_wrt (<) (map log_id (filter P ls))"
  by (induction ls) auto

lemma map_viewer_log_ids: "map log_id (map (viewer_log fmt) ls) = map log_id ls"
  by (simp add: o_def)

text \<open>What a call does, in terms of the entries that are new.\<close>

lemma addLogs_new:
  assumes "new_logs v logs \<noteq> []"
  shows "\<exists>cfg. measureLogs props (Some r)
        (if prepend then map (viewer_log fmt) (new_logs v logs) @ vw_logs v else vw_logs v @ map (viewer_log fmt) (new_logs v logs)) = Inr cfg
     \<and> addLogs fmt props (Some r) logs prepend v = Inr (v\<lparr>vw_config := cfg,
         vw_scrollToInfo := \<lparr>st_isPrepend = prepend, st_logId = (case vw_logs v of [] \<Rightarrow> None | l # _ \<Rightarrow> Some (log_id l))\<rparr>,
         vw_logs := (if prepend then map (viewer_log fmt) (new_logs v logs) @ vw_logs v else vw_logs v @ map (viewer_log fmt) (new_logs v logs)),
         vw_logIdRange := \<lparr>lr_max = max (lr_max (vw_logIdRange v)) (log_id (last (new_logs v logs))),
           lr_min = min (lr_min (vw_logIdRange v)) (log_id (hd (new_logs v logs)))\<rparr>\<rparr>)"
proof -
  obtain cfg where "measureLogs props (Some r)
        (if prepend then map (viewer_log fmt) (new_logs v logs) @ vw_logs v else vw_logs v @ map (viewer_log fmt) (new_logs v logs)) = Inr cfg"
    using measureLogs_some by blast
  with assms show ?thesis
    by (intro exI [of _ cfg])
      (simp add: addLogs_def Let_def new_logs_def [symmetric] last_map hd_map)
qed

lemma addLogs_none: "new_logs v logs = [] \<Longrightarrow> addLogs fmt props rects logs prepend v = Inr v"
  by (simp add: addLogs_def new_logs_def)

text \<open>New entries of a batch lie on the side where they are added.\<close>

lemma new_logs_side:
  assumes ok: "viewer_ok v" "batch_ok v prepend logs" and ne: "vw_logs v \<noteq> []" and l: "l \<in> set (new_logs v logs)"
  shows "if prepend then log_id l < log_id (hd (vw_logs v)) else log_id (last (vw_logs v)) < log_id l"
proof -
  have "log_id (hd (vw_logs v)) \<le> log_id (last (vw_logs v))"
    using sorted_bounds [of "vw_logs v" "hd (vw_logs v)"] ok(1) ne by (simp add: viewer_ok_def)
  then show ?thesis using ok ne l by (force simp: viewer_ok_def batch_ok_def new_logs_def split: if_splits)
qed

lemma viewer_ok_append:
  assumes s: "sorted_wrt (<) (map log_id xs)" "sorted_wrt (<) (map log_id ys)"
    and side: "\<forall>x \<in> set xs. \<forall>y \<in> set ys. log_id x < log_id y" and ne: "xs \<noteq> []" "ys \<noteq> []"
    and v: "vw_logs v = xs @ ys" "vw_logIdRange v = \<lparr>lr_max = log_id (last ys), lr_min = log_id (hd xs)\<rparr>"
  shows "viewer_ok v"
  using s side ne by (auto simp: viewer_ok_def v sorted_wrt_append)

text \<open>Adding the new entries of a batch on its side keeps the viewer sorted.\<close>

lemma viewer_ok_added:
  assumes ok: "viewer_ok v" "batch_ok v prepend logs" and new: "new_logs v logs \<noteq> []"
    and v': "vw_logs v' = (if prepend then map (viewer_log fmt) (new_logs v logs) @ vw_logs v
        else vw_logs v @ map (viewer_log fmt) (new_logs v logs))"
      "vw_logIdRange v' = \<lparr>lr_max = max (lr_max (vw_logIdRange v)) (log_id (last (new_logs v logs))),
           lr_min = min (lr_min (vw_logIdRange v)) (log_id (hd (new_logs v logs)))\<rparr>"
  shows "viewer_ok v'"
proof -
  let ?n = "new_logs v logs"
  let ?m = "map (viewer_log fmt) ?n"
  have n: "sorted_wrt (<) (map log_id ?n)" "sorted_wrt (<) (map log_id ?m)"
    using ok(2) filter_sorted_ids [of logs] by (simp_all add: batch_ok_def new_logs_def map_viewer_log_ids del: map_map)
  have m: "?m \<noteq> []" "log_id (hd ?m) = log_id (hd ?n)" "log_id (last ?m) = log_id (last ?n)"
    using new by (simp_all add: hd_map last_map)
  have b: "log_id (hd ?n) \<le> log_id (last ?n)" using sorted_bounds [OF n(1) hd_in_set [OF new]] by simp
  show ?thesis
  proof (cases "vw_logs v = []")
    case True
    have "hd ?n \<in> set logs" "last ?n \<in> set logs"
      using hd_in_set [OF new] last_in_set [OF new] by (auto simp: new_logs_def)
    then have "MIN_SAFE_INTEGER \<le> log_id (last ?n)" "log_id (hd ?n) \<le> MAX_SAFE_INTEGER"
      using ok(2) by (auto simp: batch_ok_def)
    with True show ?thesis
      using ok(1) n(2) m v' by (auto simp: viewer_ok_def noRange_def)
  next
    case ne: False
    have o: "sorted_wrt (<) (map log_id (vw_logs v))" "lr_max (vw_logIdRange v) = log_id (last (vw_logs v))"
      "lr_min (vw_logIdRange v) = log_id (hd (vw_logs v))" using ok(1) ne by (simp_all add: viewer_ok_def)
    have ob: "log_id (hd (vw_logs v)) \<le> log_id l \<and> log_id l \<le> log_id (last (vw_logs v))" if "l \<in> set (vw_logs v)" for l
      using sorted_bounds [OF o(1) that] .
    have side: "if prepend then log_id l < log_id (hd (vw_logs v)) else log_id (last (vw_logs v)) < log_id l"
      if "l \<in> set ?n" for l using new_logs_side [OF ok ne that] .
    show ?thesis
    proof (cases prepend)
      case True
      then have "lr_max (vw_logIdRange v') = log_id (last (vw_logs v))" "lr_min (vw_logIdRange v') = log_id (hd ?m)"
        using v'(2) o side [OF hd_in_set [OF new]] side [OF last_in_set [OF new]] m ob [OF hd_in_set [OF ne]] by auto
      moreover have "\<forall>x \<in> set ?m. \<forall>y \<in> set (vw_logs v). log_id x < log_id y"
        using side True ob by (fastforce intro: less_le_trans)
      ultimately show ?thesis
        using True v'(1) by (intro viewer_ok_append [OF n(2) o(1) _ m(1) ne]) simp_all
    next
      case False
      then have "lr_max (vw_logIdRange v') = log_id (last ?m)" "lr_min (vw_logIdRange v') = log_id (hd (vw_logs v))"
        using v'(2) o side [OF hd_in_set [OF new]] side [OF last_in_set [OF new]] m ob [OF hd_in_set [OF ne]]
        by auto
      moreover have "\<forall>x \<in> set (vw_logs v). \<forall>y \<in> set ?m. log_id x < log_id y"
        using side False ob by (fastforce intro: le_less_trans)
      ultimately show ?thesis
        using False v'(1) by (intro viewer_ok_append [OF o(1) n(2) _ ne m(1)]) simp_all
    qed
  qed
qed

section \<open>Properties\<close>

text \<open>
  C23: The viewer never shows an entry twice or out of order.  When the entries it holds are in ascending order and a
  batch arrives in order on its side (older entries in front, newer ones at the end, overlaps allowed), adding the batch
  succeeds and keeps the order: the entries held before stay as they are, exactly the entries of the batch outside the
  range of the viewer are added, and the range is that of the entries held.  Clearing leaves a viewer as at the start.
\<close>

theorem viewer_stays_sorted:
  assumes "viewer_ok v" and "batch_ok v prepend logs"
  shows "\<exists>v'. addLogs fmt props (Some r) logs prepend v = Inr v' \<and> viewer_ok v'
      \<and> vw_logs v' = (if prepend then map (viewer_log fmt) (new_logs v logs) @ vw_logs v
                     else vw_logs v @ map (viewer_log fmt) (new_logs v logs))
      \<and> distinct (map log_id (vw_logs v'))
      \<and> viewer_ok (clearLogs v') \<and> vw_logs (clearLogs v') = []"
proof -
  let ?n = "new_logs v logs"
  let ?m = "map (viewer_log fmt) ?n"
  let ?logs = "if prepend then ?m @ vw_logs v else vw_logs v @ ?m"
  have "\<exists>v'. addLogs fmt props (Some r) logs prepend v = Inr v' \<and> viewer_ok v' \<and> vw_logs v' = ?logs"
  proof (cases "?n = []")
    case True
    then show ?thesis using assms(1) addLogs_none by simp
  next
    case False
    then obtain v' where v': "addLogs fmt props (Some r) logs prepend v = Inr v'" "vw_logs v' = ?logs"
      "vw_logIdRange v' = \<lparr>lr_max = max (lr_max (vw_logIdRange v)) (log_id (last ?n)),
           lr_min = min (lr_min (vw_logIdRange v)) (log_id (hd ?n))\<rparr>"
      using addLogs_new [of v logs props r prepend fmt] by force
    then have "viewer_ok v'" using viewer_ok_added [OF assms False v'(2,3)] by blast
    with v' show ?thesis by blast
  qed
  moreover have "distinct (map log_id (vw_logs u))" if "viewer_ok u" for u
    using that by (simp add: viewer_ok_def strict_sorted_iff)
  moreover have "viewer_ok (clearLogs u)" "vw_logs (clearLogs u) = []" for u
    by (simp_all add: viewer_ok_def clearLogs_def noRange_def)
  ultimately show ?thesis by blast
qed

definition sample_log :: "int \<Rightarrow> string \<Rightarrow> Log" where
  "sample_log i m = \<lparr>log_id = i, log_level = None, log_message = m, log_meta = None, log_time = None\<rparr>"

definition sample_rects :: Rects where
  "sample_rects = \<lparr>rc_spacerWidth = 500, rc_charWidth = 10, rc_charHeight = 20\<rparr>"

definition sample_props :: ViewerProps where
  "sample_props = \<lparr>vp_disableLevel = True, vp_disableLineNumber = True\<rparr>"

lemma mount_viewer_ok [simp]: "viewer_ok mount_viewer"
  by (simp add: viewer_ok_def mount_viewer_def)

theorem viewer_stays_sorted_witness:
  "\<exists>v'. addLogs (\<lambda>t _. t) sample_props (Some sample_rects) [sample_log 3 ''a'', sample_log 5 ''b''] False mount_viewer = Inr v'
     \<and> map log_id (vw_logs v') = [3, 5]"
proof -
  have b: "batch_ok mount_viewer False [sample_log 3 ''a'', sample_log 5 ''b'']"
    by (simp add: batch_ok_def sample_log_def mount_viewer_def MIN_SAFE_INTEGER_def MAX_SAFE_INTEGER_def)
  show ?thesis
    using viewer_stays_sorted [OF mount_viewer_ok b, of "\<lambda>t _. t" sample_props sample_rects]
    by (auto simp: new_logs_def mount_viewer_def noRange_def sample_log_def MIN_SAFE_INTEGER_def MAX_SAFE_INTEGER_def)
qed

text \<open>
  C25: Entries are stacked without gaps and an entry that is on the screen is rendered.  In a viewer that is laid out for
  its entries, each entry starts where the previous one ends and is as high as its wrapped lines.  An entry that
  overlaps the screen is rendered, whatever lies outside the buffer of one screen above and below is not; but an entry
  that covers the whole buffer, so at least three screens, is on the screen and yet not rendered.
\<close>

theorem rendered_logs:
  assumes "measureLogs props (Some r) (vw_logs v) = Inr (vw_config v)" and "viewer_ok v"
    and "0 < rc_charWidth r" "0 < rc_charHeight r" "lc_messageWidth (vw_config v) = Fin w" "rc_charWidth r \<le> w"
    and "i < length (vw_logs v)" "0 < sc_viewHeight s"
    and "rows = wrapped_rows (nat \<lfloor>w / rc_charWidth r\<rfloor>) \<circ> log_message"
    and "t = rc_charHeight r * of_nat (sum_list (map rows (take i (vw_logs v))))"
    and "h = rc_charHeight r * of_nat (rows (vw_logs v ! i))"
  shows "lc_messageSizes (vw_config v) (log_id (vw_logs v ! i)) = Some \<lparr>ms_height = Fin h, ms_top = Fin t\<rparr> \<and> 0 < h
    \<and> (t < sc_scrollTop s + sc_viewHeight s \<and> sc_scrollTop s < t + h \<longrightarrow>
        (vw_logs v ! i \<in> set (visibleLogs v s)
          \<longleftrightarrow> \<not> (t \<le> sc_scrollTop s - sc_viewHeight s \<and> sc_scrollTop s + 2 * sc_viewHeight s \<le> t + h)))
    \<and> (t + h \<le> sc_scrollTop s - sc_viewHeight s \<or> sc_scrollTop s + 2 * sc_viewHeight s \<le> t \<longrightarrow>
        vw_logs v ! i \<notin> set (visibleLogs v s))
    \<and> (t \<le> sc_scrollTop s - sc_viewHeight s \<and> sc_scrollTop s + 2 * sc_viewHeight s \<le> t + h \<longrightarrow> 3 * sc_viewHeight s \<le> h)"
proof -
  have "distinct (map log_id (vw_logs v))" using assms(2) by (simp add: viewer_ok_def strict_sorted_iff)
  note layout = measureLogs_layout [OF assms(1) this assms(3,5,6) refl]
  have sz: "lc_messageSizes (vw_config v) (log_id (vw_logs v ! i)) = Some \<lparr>ms_height = Fin h, ms_top = Fin t\<rparr>"
    using layout(3) [OF assms(7)] by (simp add: assms(9-11))
  have rows: "0 < rows l" for l using wrapped_rows_pos by (simp add: assms(9) Suc_le_lessD)
  then have h: "0 < h" using assms(4) by (simp add: assms(11))
  have "vw_logs v \<noteq> []" using assms(7) by auto
  then have "lc_totalContentHeight (vw_config v) \<noteq> Fin 0"
    using layout(2) assms(4) rows [of "hd (vw_logs v)"] hd_in_set by (auto simp: assms(9))
  then have vis: "vw_logs v ! i \<in> set (visibleLogs v s) \<longleftrightarrow> in_view s \<lparr>ms_height = Fin h, ms_top = Fin t\<rparr>"
    using sz assms(7) by (simp add: visibleLogs_def num_eq_def)
  show ?thesis
    using sz h vis in_view_finite [OF assms(8), of t h] out_of_view [of h t s] by auto
qed

abbreviation sample_batch :: "Log list" where
  "sample_batch \<equiv> [sample_log 3 ''a'', sample_log 5 ''b'']"

definition sample_viewer :: Viewer where
  "sample_viewer = (case addLogs (\<lambda>t _. t) sample_props (Some sample_rects) sample_batch False mount_viewer of
     Inr v \<Rightarrow> v | Inl _ \<Rightarrow> mount_viewer)"

lemma sample_viewer_measured:
  "measureLogs sample_props (Some sample_rects) (vw_logs sample_viewer) = Inr (vw_config sample_viewer)"
  "vw_logs sample_viewer = map (viewer_log (\<lambda>t _. t)) sample_batch" "viewer_ok sample_viewer"
  "lc_messageWidth (vw_config sample_viewer) = Fin 270"
proof -
  have n: "new_logs mount_viewer sample_batch = sample_batch"
    by (simp add: new_logs_def mount_viewer_def noRange_def sample_log_def MIN_SAFE_INTEGER_def MAX_SAFE_INTEGER_def)
  obtain cfg where cfg: "measureLogs sample_props (Some sample_rects) (map (viewer_log (\<lambda>t _. t)) sample_batch) = Inr cfg"
    and v: "sample_viewer = mount_viewer\<lparr>vw_config := cfg, vw_scrollToInfo := \<lparr>st_isPrepend = False, st_logId = None\<rparr>,
         vw_logs := map (viewer_log (\<lambda>t _. t)) sample_batch, vw_logIdRange := \<lparr>lr_max = 5, lr_min = 3\<rparr>\<rparr>"
    using addLogs_new [of mount_viewer sample_batch sample_props sample_rects False "\<lambda>t _. t"] unfolding n
    by (force simp: sample_viewer_def mount_viewer_def noRange_def sample_log_def MIN_SAFE_INTEGER_def MAX_SAFE_INTEGER_def)
  show "measureLogs sample_props (Some sample_rects) (vw_logs sample_viewer) = Inr (vw_config sample_viewer)"
    "vw_logs sample_viewer = map (viewer_log (\<lambda>t _. t)) sample_batch" "viewer_ok sample_viewer"
    using cfg unfolding v by (simp_all add: viewer_ok_def sample_log_def)
  have "lc_messageWidth cfg = Fin 270"
    using cfg by (auto simp: measureLogs_def Let_def split_beta sample_props_def sample_rects_def line_number_width_def
        num_sub_def MAX_DATETIME_LENGTH_def)
  then show "lc_messageWidth (vw_config sample_viewer) = Fin 270" by (simp add: v)
qed

theorem rendered_logs_witness:
  "vw_logs sample_viewer ! 1 \<in> set (visibleLogs sample_viewer (defaultScrollInfo\<lparr>sc_viewHeight := 100\<rparr>))"
proof -
  let ?s = "defaultScrollInfo\<lparr>sc_viewHeight := 100\<rparr>"
  have "wrapped_rows 27 ''a'' = 1" "wrapped_rows 27 ''b'' = 1" by code_simp+
  then have rows: "wrapped_rows 27 (log_message (vw_logs sample_viewer ! 0)) = 1"
    "wrapped_rows 27 (log_message (vw_logs sample_viewer ! 1)) = 1"
    by (simp_all add: sample_viewer_measured(2) sample_log_def)
  show ?thesis
    using rendered_logs [OF sample_viewer_measured(1,3) _ _ sample_viewer_measured(4), of 1 ?s, OF _ _ _ _ _ refl refl refl] rows
    by (simp add: sample_rects_def take_Suc_conv_app_nth defaultScrollInfo_def sample_viewer_measured(2))
qed

end
