(* ===== verification/Log_Buffer.thy ===== *)
theory Log_Buffer
  imports Prelude
begin

text \<open>
  The in-memory log of the master (\<^verbatim>\<open>master/pkg/logger/log_buffer.go\<close>), which answers the requests of the page of
  master logs: a ring buffer of entries numbered from zero, and the computation of the slice a request selects.  The
  mutex around the two operations makes them atomic; \<open>int\<close> is unbounded here, since a master never logs \<open>2^63\<close>
  entries.  The theorem of this theory relates the ring to the list of all entries ever written.
\<close>

section \<open>The buffer\<close>

record Entry =
  en_ID :: int
  en_Message :: string
  en_Time :: string
  en_Level :: int

record LogBuffer =
  lb_buffer :: "Entry option list"
  lb_totalEntries :: int

definition NewLogBuffer :: "nat \<Rightarrow> LogBuffer" where
  "NewLogBuffer capacity = \<lparr>lb_buffer = replicate capacity None, lb_totalEntries = 0\<rparr>"

text \<open>A buffer of no capacity panics: the index is computed modulo zero.\<close>

definition lb_write :: "Entry \<Rightarrow> LogBuffer \<Rightarrow> LogBuffer option" where
  "lb_write entry lb =
     (if lb_buffer lb = [] then None
      else Some (lb\<lparr>
        lb_buffer := (lb_buffer lb)
          [nat (lb_totalEntries lb mod int (length (lb_buffer lb))) := Some (entry\<lparr>en_ID := lb_totalEntries lb\<rparr>)],
        lb_totalEntries := lb_totalEntries lb + 1\<rparr>))"

definition computeSlice :: "int \<Rightarrow> int \<Rightarrow> int \<Rightarrow> int \<Rightarrow> int \<Rightarrow> int \<times> int" where
  "computeSlice startID endID limit totalEntries capacity =
     (if endID < - 1 \<or> startID < - 1 \<or> limit < - 1 then (0, 0)
      else
        let endID = (if endID = - 1 then totalEntries else endID);
            limit = (if limit = - 1 then capacity else limit);
            selectTail = (startID = - 1);
            startID = max startID (max 0 (totalEntries - capacity));
            endID = min endID totalEntries
        in if startID \<ge> endID then (0, 0)
           else
             let limit = min limit (endID - startID);
                 startID = (if selectTail then endID - limit else startID)
             in (startID mod capacity, limit))"

text \<open>The two calls of \<open>copy\<close> fill a slice of \<open>entryCount\<close> pointers, from the start index on and then from the front.\<close>

definition lb_Entries :: "int \<Rightarrow> int \<Rightarrow> int \<Rightarrow> LogBuffer \<Rightarrow> Entry option list" where
  "lb_Entries startID endID limit lb =
     (let (startIndex, entryCount) =
            computeSlice startID endID limit (lb_totalEntries lb) (int (length (lb_buffer lb)))
      in if entryCount \<le> 0 then []
         else
           let copied = take (nat entryCount) (drop (nat startIndex) (lb_buffer lb))
           in copied @ take (nat entryCount - length copied) (lb_buffer lb))"

text \<open>The handler of \<^verbatim>\<open>GET /logs\<close> in \<^verbatim>\<open>master/internal/core.go\<close>; a parameter that is not given is \<open>None\<close>.\<close>

definition getMasterLogs_handler :: "int option \<Rightarrow> int option \<Rightarrow> int option \<Rightarrow> LogBuffer \<Rightarrow> Entry option list" where
  "getMasterLogs_handler lessThanID greaterThanID tail lb =
     (let limit = (case tail of Some t \<Rightarrow> t | None \<Rightarrow> - 1);
          startID = (case greaterThanID of Some g \<Rightarrow> g + 1 | None \<Rightarrow> - 1);
          endID = (case lessThanID of Some l \<Rightarrow> l | None \<Rightarrow> - 1)
      in lb_Entries startID endID limit lb)"

section \<open>The ring and the list of all entries\<close>

text \<open>All entries ever written, with the numbers they were given.\<close>

fun lb_writes :: "Entry list \<Rightarrow> LogBuffer \<Rightarrow> LogBuffer option" where
  "lb_writes [] lb = Some lb"
| "lb_writes (e # es) lb = Option.bind (lb_write e lb) (lb_writes es)"

definition numbered :: "Entry list \<Rightarrow> nat \<Rightarrow> Entry" where
  "numbered es i = (es ! i)\<lparr>en_ID := int i\<rparr>"

definition ring_of :: "nat \<Rightarrow> Entry list \<Rightarrow> LogBuffer \<Rightarrow> bool" where
  "ring_of cap es lb \<longleftrightarrow> length (lb_buffer lb) = cap \<and> lb_totalEntries lb = int (length es)
     \<and> (\<forall>i < length es. length es \<le> i + cap \<longrightarrow> lb_buffer lb ! (i mod cap) = Some (numbered es i))"

lemma ring_of_new: "ring_of cap [] (NewLogBuffer cap)"
  by (simp add: ring_of_def NewLogBuffer_def)

lemma mod_apart: "i < n \<Longrightarrow> n < i + c \<Longrightarrow> i mod c \<noteq> n mod c" for i n c :: nat
proof
  assume a: "i < n" "n < i + c" "i mod c = n mod c"
  then have "c dvd n - i" by (metis mod_eq_dvd_iff_nat less_imp_le)
  with a show False by (auto dest!: dvd_imp_le)
qed

lemma ring_of_write:
  assumes "ring_of cap es lb" "0 < cap"
  shows "\<exists>lb'. lb_write e lb = Some lb' \<and> ring_of cap (es @ [e]) lb'"
proof -
  let ?n = "length es"
  let ?lb = "lb\<lparr>lb_buffer := (lb_buffer lb)[?n mod cap := Some (e\<lparr>en_ID := int ?n\<rparr>)], lb_totalEntries := int ?n + 1\<rparr>"
  have len: "length (lb_buffer lb) = cap" "lb_totalEntries lb = int ?n" "lb_buffer lb \<noteq> []"
    using assms by (auto simp: ring_of_def)
  have "nat (int ?n mod int cap) = ?n mod cap" by (metis nat_int zmod_int)
  then have w: "lb_write e lb = Some ?lb" using len by (simp add: lb_write_def)
  have "lb_buffer ?lb ! (i mod cap) = Some (numbered (es @ [e]) i)" if i: "i < Suc ?n" "Suc ?n \<le> i + cap" for i
  proof (cases "i = ?n")
    case True
    then show ?thesis using len assms(2) by (simp add: numbered_def)
  next
    case False
    then have "i < ?n" "?n < i + cap" using i by auto
    then show ?thesis using assms(1) mod_apart [of i ?n cap] by (simp add: ring_of_def numbered_def nth_append)
  qed
  then have "ring_of cap (es @ [e]) ?lb" using len by (simp add: ring_of_def)
  with w show ?thesis by blast
qed

lemma ring_of_writes:
  "ring_of cap es lb \<Longrightarrow> 0 < cap \<Longrightarrow> \<exists>lb'. lb_writes fs lb = Some lb' \<and> ring_of cap (es @ fs) lb'"
proof (induction fs arbitrary: es lb)
  case (Cons f fs)
  obtain lb' where "lb_write f lb = Some lb'" "ring_of cap (es @ [f]) lb'" using ring_of_write [OF Cons.prems] by blast
  then show ?case using Cons.IH [of "es @ [f]" lb'] Cons.prems(2) by simp
qed simp

text \<open>Reading \<open>n\<close> cells of a ring from cell \<open>s\<close> on.\<close>

lemma ring_read:
  assumes "n \<le> length buf" "0 < length buf"
  shows "take n (drop (s mod length buf) buf)
      @ take (n - length (take n (drop (s mod length buf) buf))) buf
      = map (\<lambda>k. buf ! ((s + k) mod length buf)) [0..<n]" (is "?l = ?r")
proof (rule nth_equalityI)
  let ?c = "length buf"
  let ?m = "s mod ?c"
  have m: "?m < ?c" using assms(2) by simp
  show len: "length ?l = length ?r" using assms(1) m by (simp add: min_def del: mod_less_divisor length_greater_0_conv) linarith
  fix k assume "k < length ?l"
  then have k: "k < n" unfolding len by simp
  have mod: "(s + k) mod ?c = (?m + k) mod ?c" by (simp add: mod_simps)
  show "?l ! k = ?r ! k"
  proof (cases "?m + k < ?c")
    case True
    then have "k < ?c - ?m" by linarith
    with True show ?thesis using k mod by (simp add: nth_append)
  next
    case False
    have "?c \<le> ?m + k" "?m + k - ?c < ?c" using False k m assms(1) by linarith+
    then have "(?m + k) mod ?c = ?m + k - ?c" by (metis le_mod_geq mod_less)
    moreover have "?c - ?m \<le> k" "k - (?c - ?m) = ?m + k - ?c" "?c - ?m \<le> n" using False k m by linarith+
    ultimately show ?thesis using k mod assms(1) by (simp add: nth_append)
  qed
qed

lemma lb_Entries_ring:
  assumes ring: "ring_of cap es lb" and cap: "0 < cap"
    and slice: "computeSlice startID endID limit (int (length es)) (int cap) = (int s mod int cap, int n)"
    and range: "n \<le> cap" "length es \<le> s + cap" "s + n \<le> length es"
  shows "lb_Entries startID endID limit lb = map (\<lambda>i. Some (numbered es i)) [s..<s + n]"
proof -
  have len: "length (lb_buffer lb) = cap" "lb_totalEntries lb = int (length es)" using ring by (auto simp: ring_of_def)
  have "nat (int s mod int cap) = s mod cap" by (metis nat_int zmod_int)
  then have "lb_Entries startID endID limit lb = (if n = 0 then [] else
      take n (drop (s mod cap) (lb_buffer lb)) @ take (n - length (take n (drop (s mod cap) (lb_buffer lb)))) (lb_buffer lb))"
    by (simp add: lb_Entries_def len slice)
  also have "\<dots> = map (\<lambda>k. lb_buffer lb ! ((s + k) mod cap)) [0..<n]"
    using ring_read [of n "lb_buffer lb" s] range(1) cap unfolding len by simp
  also have "\<dots> = map (\<lambda>k. Some (numbered es (s + k))) [0..<n]"
    using ring range by (simp add: ring_of_def)
  also have "\<dots> = map (\<lambda>i. Some (numbered es i)) [s..<s + n]"
    by (rule nth_equalityI) simp_all
  finally show ?thesis .
qed

section \<open>Which entries a request selects\<close>

text \<open>
  The numbers a request stands for: of the last \<open>cap\<close> entries those in the range, and of these the newest ones when no
  start is given, otherwise the oldest ones.
\<close>

definition selected_ids :: "nat \<Rightarrow> nat \<Rightarrow> int \<Rightarrow> int \<Rightarrow> int \<Rightarrow> nat list" where
  "selected_ids cap tot startID endID limit =
     (if endID < - 1 \<or> startID < - 1 \<or> limit < - 1 then []
      else
        let ids = filter (\<lambda>i. startID \<le> int i \<and> (endID = - 1 \<or> int i < endID)) [tot - cap..<tot];
            n = (if limit = - 1 then cap else nat limit)
        in if startID = - 1 then drop (length ids - n) ids else take n ids)"

lemma filter_upt: "filter (\<lambda>i. x \<le> int i \<and> int i < y) [a..<b] = [max a (nat x)..<min b (nat y)]"
proof (induction b)
  case (Suc b)
  show ?case
  proof (cases "a \<le> b \<and> x \<le> int b \<and> int b < y")
    case True
    then have "min (Suc b) (nat y) = Suc b" "min b (nat y) = b" "max a (nat x) \<le> b" by auto
    with True Suc show ?thesis by simp
  next
    case False
    then have "\<not> a \<le> b \<or> \<not> x \<le> int b \<or> y \<le> int b" by linarith
    then have "[max a (nat x)..<min b (nat y)] = [max a (nat x)..<min (Suc b) (nat y)]"
    proof (elim disjE)
      assume "y \<le> int b"
      then have "min b (nat y) = nat y" "min (Suc b) (nat y) = nat y" by auto
      then show ?thesis by (simp only:)
    qed auto
    with False Suc show ?thesis by (cases "a \<le> b") auto
  qed
qed simp

lemma computeSlice_selected:
  assumes "0 < cap"
  shows "\<exists>s n. computeSlice startID endID limit (int tot) (int cap) = (int s mod int cap, int n)
     \<and> selected_ids cap tot startID endID limit = [s..<s + n] \<and> n \<le> cap \<and> (0 < n \<longrightarrow> tot \<le> s + cap \<and> s + n \<le> tot)"
proof (cases "endID < - 1 \<or> startID < - 1 \<or> limit < - 1")
  case True
  then show ?thesis by (intro exI [of _ 0]) (auto simp: computeSlice_def selected_ids_def)
next
  case False
  define e where "e = (if endID = - 1 then int tot else endID)"
  define l where "l = (if limit = - 1 then cap else nat limit)"
  define lo where "lo = max (tot - cap) (nat startID)"
  define hi where "hi = min tot (nat e)"
  define n where "n = min l (hi - lo)"
  define s where "s = (if lo < hi then (if startID = - 1 then hi - n else lo) else 0)"
  have "filter (\<lambda>i. startID \<le> int i \<and> (endID = - 1 \<or> int i < endID)) [tot - cap..<tot]
      = filter (\<lambda>i. startID \<le> int i \<and> int i < e) [tot - cap..<tot]"
    by (rule filter_cong) (auto simp: e_def)
  then have ids: "filter (\<lambda>i. startID \<le> int i \<and> (endID = - 1 \<or> int i < endID)) [tot - cap..<tot] = [lo..<hi]"
    by (simp add: filter_upt lo_def hi_def)
  have sel: "selected_ids cap tot startID endID limit = [s..<s + n]"
    using False ids by (auto simp: selected_ids_def Let_def l_def [symmetric] s_def n_def take_upt min_def)
  have lo: "max startID (max 0 (int tot - int cap)) = int lo" using False by (auto simp: lo_def)
  have hi: "min e (int tot) = int hi" using False by (auto simp: hi_def e_def)
  have lim: "(if limit = - 1 then int cap else limit) = int l" using False by (simp add: l_def)
  have "computeSlice startID endID limit (int tot) (int cap) =
      (if int lo \<ge> int hi then (0, 0)
       else ((if startID = - 1 then int hi - min (int l) (int hi - int lo) else int lo) mod int cap,
             min (int l) (int hi - int lo)))"
    using False by (simp add: computeSlice_def Let_def lim lo hi flip: e_def)
  also have "\<dots> = (int s mod int cap, int n)"
  proof (cases "lo < hi")
    case True
    then have "min (int l) (int hi - int lo) = int n" "n \<le> hi" by (simp_all add: n_def of_nat_diff)
    with True show ?thesis by (simp add: s_def of_nat_diff)
  qed (simp add: s_def n_def)
  finally have slice: "computeSlice startID endID limit (int tot) (int cap) = (int s mod int cap, int n)" .
  have b: "tot - cap \<le> lo" "hi \<le> tot" "n \<le> hi - lo" by (simp_all add: lo_def hi_def n_def)
  have "lo \<le> s \<and> s + n \<le> hi" if "0 < n" using that b(3) by (auto simp: s_def)
  then have "n \<le> cap \<and> (0 < n \<longrightarrow> tot \<le> s + cap \<and> s + n \<le> tot)" using b by linarith
  with slice sel show ?thesis by blast
qed

lemma writes_succeed: "0 < cap \<Longrightarrow> \<exists>lb. lb_writes es (NewLogBuffer cap) = Some lb"
  using ring_of_writes [OF ring_of_new, of cap es] by auto

lemma lb_Entries_selected:
  assumes "0 < cap" "lb_writes es (NewLogBuffer cap) = Some lb"
  shows "lb_Entries s e l lb = map (\<lambda>i. Some (numbered es i)) (selected_ids cap (length es) s e l)"
proof -
  have ring: "ring_of cap es lb" using ring_of_writes [OF ring_of_new assms(1), of es] assms(2) by simp
  obtain a n where c: "computeSlice s e l (int (length es)) (int cap) = (int a mod int cap, int n)"
    "selected_ids cap (length es) s e l = [a..<a + n]" "n \<le> cap" "0 < n \<longrightarrow> length es \<le> a + cap \<and> a + n \<le> length es"
    using computeSlice_selected [OF assms(1)] by blast
  show ?thesis
  proof (cases "n = 0")
    case True
    have "lb_totalEntries lb = int (length es)" "length (lb_buffer lb) = cap" using ring by (auto simp: ring_of_def)
    with True c(1,2) show ?thesis by (simp add: lb_Entries_def)
  qed (use lb_Entries_ring [OF ring assms(1) c(1,3)] c(2,4) in simp)
qed

lemma selected_after:
  assumes "- 1 \<le> g" "0 \<le> t"
  shows "selected_ids cap n (g + 1) (- 1) t = take (nat t) [max (n - cap) (nat (g + 1))..<n]"
proof -
  have "filter (\<lambda>i. g + 1 \<le> int i) [n - cap..<n] = filter (\<lambda>i. g + 1 \<le> int i \<and> int i < int n) [n - cap..<n]"
    by (rule filter_cong) auto
  also have "\<dots> = [max (n - cap) (nat (g + 1))..<n]" by (simp only: filter_upt) simp
  finally show ?thesis using assms by (simp add: selected_ids_def)
qed

lemma selected_newest:
  assumes "0 \<le> t"
  shows "selected_ids cap n (- 1) (- 1) t = [max (n - cap) (n - nat t)..<n]"
proof -
  have "n - cap + (n - (n - cap + nat t)) = max (n - cap) (n - nat t)" by (simp add: max_def) linarith
  then show ?thesis using assms by (simp add: selected_ids_def)
qed

section \<open>Properties\<close>

text \<open>
  C24: The master's ring buffer is the log it stands for.  Whatever has been written, reading the buffer yields exactly
  the entries that a request selects among the last \<open>cap\<close> of all entries ever written, each complete, under the
  number it was given, and in the order of writing; the handler of the master's logs reads those after
  \<open>greater_than_id\<close>, the oldest \<open>tail\<close> of them, or the newest \<open>tail\<close> entries without a start.
\<close>

theorem log_buffer_refines:
  assumes "0 < cap"
  shows "\<exists>lb. lb_writes es (NewLogBuffer cap) = Some lb
    \<and> (\<forall>s e l. lb_Entries s e l lb = map (\<lambda>i. Some (numbered es i)) (selected_ids cap (length es) s e l))
    \<and> (\<forall>g t. - 1 \<le> g \<and> 0 \<le> t \<longrightarrow> getMasterLogs_handler None (Some g) (Some t) lb
        = map (\<lambda>i. Some (numbered es i)) (take (nat t) [max (length es - cap) (nat (g + 1))..<length es]))
    \<and> (\<forall>t \<ge> 0. getMasterLogs_handler None None (Some t) lb
        = map (\<lambda>i. Some (numbered es i)) [max (length es - cap) (length es - nat t)..<length es])"
  using writes_succeed [OF assms, of es]
  by (auto simp: lb_Entries_selected [OF assms] getMasterLogs_handler_def selected_after selected_newest)

definition sample_entry :: "string \<Rightarrow> Entry" where
  "sample_entry m = \<lparr>en_ID = 0, en_Message = m, en_Time = [], en_Level = 4\<rparr>"

theorem log_buffer_refines_witness:
  "\<exists>lb. lb_writes (map sample_entry [''a'', ''b'', ''c'']) (NewLogBuffer 2) = Some lb
     \<and> getMasterLogs_handler None None (Some 5) lb = [Some ((sample_entry ''b'')\<lparr>en_ID := 1\<rparr>), Some ((sample_entry ''c'')\<lparr>en_ID := 2\<rparr>)]"
  using log_buffer_refines [of 2 "map sample_entry [''a'', ''b'', ''c'']"]
  by (auto simp: numbered_def upt_rec)

end
