(* ===== verification/Log_Pages.thy ===== *)
theory Log_Pages
  imports Log_Viewer Log_Buffer
begin

text \<open>
  The pages that show logs (\<^verbatim>\<open>pages/MasterLogs.tsx\<close>, \<^verbatim>\<open>pages/TaskLogs.tsx\<close>, \<^verbatim>\<open>pages/TrialLogs.tsx\<close>).  The first two ask
  for older entries when the viewer is scrolled to its top and poll for newer ones; the page of a trial reads streams.
  The page of the master's logs is put together with the master's buffer, its handler, the decoder and the viewer, so
  that its theorems relate what the page shows to what the master has logged.
\<close>

section \<open>Master and task logs\<close>

record LogsPage =
  pg_oldestFetchedId :: int
  pg_logIdRange :: LogIdRange
  pg_viewer :: Viewer

definition mount_page :: LogsPage where
  "mount_page = \<lparr>pg_oldestFetchedId = MAX_SAFE_INTEGER, pg_logIdRange = noRange, pg_viewer = mount_viewer\<rparr>"

definition tail_params :: LogsParams where
  "tail_params = \<lparr>lp_greaterThanId = None, lp_tail = Some TAIL_SIZE\<rparr>"

text \<open>The request that is triggered, if any, and the page afterwards.\<close>

definition fetchOlderLogs :: "int \<Rightarrow> LogsPage \<Rightarrow> LogsParams option \<times> LogsPage" where
  "fetchOlderLogs oldestLogId pg =
     (let startLogId = max 0 (oldestLogId - TAIL_SIZE) in
      if startLogId \<ge> pg_oldestFetchedId pg then (None, pg)
      else (Some \<lparr>lp_greaterThanId = Some startLogId, lp_tail = Some TAIL_SIZE\<rparr>, pg\<lparr>pg_oldestFetchedId := startLogId\<rparr>))"

definition fetchNewerLogs :: "LogsPage \<Rightarrow> LogsParams option" where
  "fetchNewerLogs pg =
     (if lr_max (pg_logIdRange pg) < 0 then None
      else Some \<lparr>lp_greaterThanId = Some (lr_max (pg_logIdRange pg)), lp_tail = Some TAIL_SIZE\<rparr>)"

text \<open>The effects that pass the two responses on to the viewer.\<close>

definition older_effect ::
  "(string \<Rightarrow> string \<Rightarrow> string) \<Rightarrow> ViewerProps \<Rightarrow> Rects option \<Rightarrow> Log list \<Rightarrow> LogsPage \<Rightarrow> LogsPage result" where
  "older_effect formatDatetime props rects logs pg =
     (if logs = [] then Inr pg
      else
        let minLogId = log_id (hd logs);
            maxLogId = log_id (last logs);
            range = pg_logIdRange pg
        in if minLogId \<ge> lr_min range then Inr pg
           else bind_exn (addLogs formatDatetime props rects logs True (pg_viewer pg)) (\<lambda>v.
             Inr (pg\<lparr>pg_logIdRange := \<lparr>lr_max = max (lr_max range) maxLogId, lr_min = min (lr_min range) minLogId\<rparr>,
               pg_viewer := v\<rparr>)))"

definition newer_effect ::
  "(string \<Rightarrow> string \<Rightarrow> string) \<Rightarrow> ViewerProps \<Rightarrow> Rects option \<Rightarrow> Log list \<Rightarrow> LogsPage \<Rightarrow> LogsPage result" where
  "newer_effect formatDatetime props rects logs pg =
     (if logs = [] then Inr pg
      else
        let minLogId = log_id (hd logs);
            maxLogId = log_id (last logs);
            range = pg_logIdRange pg
        in if maxLogId \<le> lr_max range then Inr pg
           else bind_exn (addLogs formatDatetime props rects logs False (pg_viewer pg)) (\<lambda>v.
             Inr (pg\<lparr>pg_logIdRange := \<lparr>lr_max = max (lr_max range) maxLogId, lr_min = min (lr_min range) minLogId\<rparr>,
               pg_viewer := v\<rparr>)))"

text \<open>The page of a task's logs has the same effects and adds the task to its requests.\<close>

definition task_baseParams :: "string \<Rightarrow> CommandType \<Rightarrow> TaskLogsParams" where
  "task_baseParams taskId taskType =
     \<lparr>lp_greaterThanId = None, lp_tail = Some TAIL_SIZE, tlp_taskId = taskId, tlp_taskType = taskType\<rparr>"

definition task_fetchOlderLogs :: "TaskLogsParams \<Rightarrow> int \<Rightarrow> LogsPage \<Rightarrow> TaskLogsParams option \<times> LogsPage" where
  "task_fetchOlderLogs baseParams oldestLogId pg =
     (let startLogId = max 0 (oldestLogId - TAIL_SIZE) in
      if startLogId \<ge> pg_oldestFetchedId pg then (None, pg)
      else (Some (baseParams\<lparr>lp_greaterThanId := Some startLogId\<rparr>), pg\<lparr>pg_oldestFetchedId := startLogId\<rparr>))"

definition task_fetchNewerLogs :: "TaskLogsParams \<Rightarrow> LogsPage \<Rightarrow> TaskLogsParams option" where
  "task_fetchNewerLogs baseParams pg =
     (if lr_max (pg_logIdRange pg) < 0 then None
      else Some (baseParams\<lparr>lp_greaterThanId := Some (lr_max (pg_logIdRange pg))\<rparr>))"

definition task_title :: "string \<Rightarrow> string option \<Rightarrow> string" where
  "task_title taskType i = capitalize taskType @ '' Logs''
     @ (case i of Some s \<Rightarrow> if s \<noteq> [] then '' ('' @ s @ '')'' else [] | None \<Rightarrow> [])"

section \<open>Trial logs\<close>

text \<open>
  The stream of a trial's logs is consumed into a buffer.  For older entries the whole buffer is passed on when the
  stream has ended; for newer ones the buffer is passed on and emptied at most every half second.
\<close>

record TrialLogsPage =
  tp_offset :: int
  tp_oldestId :: int
  tp_oldestReached :: bool
  tp_isDownloading :: bool
  tp_isLoading :: bool
  tp_filter :: js
  tp_viewer :: Viewer

definition mount_trial_logs :: TrialLogsPage where
  "mount_trial_logs = \<lparr>tp_offset = - TAIL_SIZE, tp_oldestId = MAX_SAFE_INTEGER, tp_oldestReached = False,
     tp_isDownloading = False, tp_isLoading = True, tp_filter = Obj [], tp_viewer = mount_viewer\<rparr>"

text \<open>The offset and limit of the stream of older entries that is opened, if any.\<close>

definition trial_handleScrollToTop :: "TrialLogsPage \<Rightarrow> (int \<times> int) option" where
  "trial_handleScrollToTop pg = (if tp_oldestReached pg then None else Some (tp_offset pg - TAIL_SIZE, TAIL_SIZE))"

text \<open>The end of that stream, with the entries it sent.\<close>

definition trial_older_end ::
  "(string \<Rightarrow> string \<Rightarrow> string) \<Rightarrow> ViewerProps \<Rightarrow> Rects option \<Rightarrow> Log list \<Rightarrow> TrialLogsPage \<Rightarrow> TrialLogsPage result" where
  "trial_older_end formatDatetime props rects buffer pg =
     (if buffer = [] \<or> log_id (hd buffer) = tp_oldestId pg then Inr (pg\<lparr>tp_oldestReached := True\<rparr>)
      else bind_exn (addLogs formatDatetime props rects buffer True (tp_viewer pg)) (\<lambda>v.
        Inr (pg\<lparr>tp_viewer := v, tp_oldestId := log_id (hd buffer), tp_offset := tp_offset pg - TAIL_SIZE\<rparr>)))"

text \<open>The throttled function of the stream of newer entries, with its buffer.\<close>

definition trial_newer_flush ::
  "(string \<Rightarrow> string \<Rightarrow> string) \<Rightarrow> ViewerProps \<Rightarrow> Rects option \<Rightarrow> Log list \<Rightarrow> TrialLogsPage \<Rightarrow> (Log list \<times> TrialLogsPage) result" where
  "trial_newer_flush formatDatetime props rects buffer pg =
     bind_exn (addLogs formatDatetime props rects buffer False (tp_viewer pg)) (\<lambda>v.
       Inr ([], pg\<lparr>tp_viewer := v, tp_isLoading := False\<rparr>))"

definition onFilterChange :: "js \<Rightarrow> TrialLogsPage \<Rightarrow> TrialLogsPage" where
  "onFilterChange newFilters pg = pg\<lparr>tp_filter := newFilters, tp_viewer := clearLogs (tp_viewer pg)\<rparr>"

text \<open>The address the page is replaced with when the route lacks the experiment.\<close>

definition trial_logs_redirect :: "string option \<Rightarrow> int option \<Rightarrow> int \<Rightarrow> string option" where
  "trial_logs_redirect experimentIdParam experimentId trialId =
     (case experimentId of
        Some e \<Rightarrow> if experimentIdParam \<in> {None, Some []} \<and> e \<noteq> 0
          then Some (''/experiments/'' @ show_int e @ ''/trials/'' @ show_int trialId @ ''/logs'') else None
      | None \<Rightarrow> None)"

section \<open>The page of the master's logs and the master\<close>

definition logStoreSize :: nat where "logStoreSize = 25000"

text \<open>The encoding of an entry by the tags of its fields; the name of a level is what \<open>logrus\<close> makes of it.\<close>

definition entry_json :: "(int \<Rightarrow> string) \<Rightarrow> Entry \<Rightarrow> js" where
  "entry_json levelText e = Obj [(''id'', Num (Fin (of_int (en_ID e)))), (''message'', Str (en_Message e)),
     (''time'', Str (en_Time e)), (''level'', Str (levelText (en_Level e)))]"

definition entries_json :: "(int \<Rightarrow> string) \<Rightarrow> Entry option list \<Rightarrow> js" where
  "entries_json levelText es = Arr (map (\<lambda>e. case e of None \<Rightarrow> Null | Some e \<Rightarrow> entry_json levelText e) es)"

text \<open>The logs that a request with the given parameters yields when the master has logged \<open>es\<close>.\<close>

definition load_master_logs ::
  "(codec \<Rightarrow> js \<Rightarrow> js + js) \<Rightarrow> (int \<Rightarrow> string) \<Rightarrow> Entry list \<Rightarrow> LogsParams \<Rightarrow> failure + Log list" where
  "load_master_logs dec levelText es params = (case lb_writes es (NewLogBuffer logStoreSize) of
      None \<Rightarrow> Inl (Throws Null)
    | Some lb \<Rightarrow> jsonToLogs dec (entries_json levelText (getMasterLogs_handler None (lp_greaterThanId params) (lp_tail params) lb)))"

text \<open>
  The master's entries, the page, and the two requests that are under way.  The page is entered when both initial
  requests have been answered.
\<close>

record LogsWorld =
  lw_entries :: "Entry list"
  lw_page :: LogsPage
  lw_older :: "LogsParams option"
  lw_newer :: "LogsParams option"

definition open_logs ::
  "(codec \<Rightarrow> js \<Rightarrow> js + js) \<Rightarrow> (int \<Rightarrow> string) \<Rightarrow> (string \<Rightarrow> string \<Rightarrow> string) \<Rightarrow> ViewerProps \<Rightarrow> Rects \<Rightarrow> Entry list
    \<Rightarrow> LogsWorld option" where
  "open_logs dec levelText fmt props r es = (case load_master_logs dec levelText es tail_params of
      Inl _ \<Rightarrow> None
    | Inr logs \<Rightarrow> (case bind_exn (older_effect fmt props (Some r) logs mount_page) (newer_effect fmt props (Some r) logs) of
        Inl _ \<Rightarrow> None
      | Inr pg \<Rightarrow> Some \<lparr>lw_entries = es, lw_page = pg, lw_older = None, lw_newer = None\<rparr>))"

inductive logs_step ::
  "(codec \<Rightarrow> js \<Rightarrow> js + js) \<Rightarrow> (int \<Rightarrow> string) \<Rightarrow> (string \<Rightarrow> string \<Rightarrow> string) \<Rightarrow> ViewerProps \<Rightarrow> Rects
    \<Rightarrow> LogsWorld \<Rightarrow> LogsWorld \<Rightarrow> bool"
  for dec levelText fmt props r where
  logged: "length (lw_entries w) < logStoreSize \<Longrightarrow> levelText (en_Level e) \<in> str_LogLevel ` UNIV \<Longrightarrow>
    logs_step dec levelText fmt props r w (w\<lparr>lw_entries := lw_entries w @ [e]\<rparr>)"
| scrolled: "scrollToTop_effect True (pg_viewer (lw_page w)) previous scroll = Some oldestLogId \<Longrightarrow>
    fetchOlderLogs oldestLogId (lw_page w) = (request, pg) \<Longrightarrow>
    logs_step dec levelText fmt props r w
      (w\<lparr>lw_page := pg, lw_older := (case request of None \<Rightarrow> lw_older w | Some _ \<Rightarrow> request)\<rparr>)"
| polled: "logs_step dec levelText fmt props r w
      (w\<lparr>lw_newer := (case fetchNewerLogs (lw_page w) of None \<Rightarrow> lw_newer w | Some params \<Rightarrow> Some params)\<rparr>)"
| older_loaded: "lw_older w = Some params \<Longrightarrow> load_master_logs dec levelText (lw_entries w) params = Inr logs \<Longrightarrow>
    older_effect fmt props (Some r) logs (lw_page w) = Inr pg \<Longrightarrow>
    logs_step dec levelText fmt props r w (w\<lparr>lw_page := pg, lw_older := None\<rparr>)"
| newer_loaded: "lw_newer w = Some params \<Longrightarrow> load_master_logs dec levelText (lw_entries w) params = Inr logs \<Longrightarrow>
    newer_effect fmt props (Some r) logs (lw_page w) = Inr pg \<Longrightarrow>
    logs_step dec levelText fmt props r w (w\<lparr>lw_page := pg, lw_newer := None\<rparr>)"
| older_failed: "logs_step dec levelText fmt props r w (w\<lparr>lw_older := None\<rparr>)"
| newer_failed: "logs_step dec levelText fmt props r w (w\<lparr>lw_newer := None\<rparr>)"

inductive logs_run ::
  "(codec \<Rightarrow> js \<Rightarrow> js + js) \<Rightarrow> (int \<Rightarrow> string) \<Rightarrow> (string \<Rightarrow> string \<Rightarrow> string) \<Rightarrow> ViewerProps \<Rightarrow> Rects
    \<Rightarrow> LogsWorld \<Rightarrow> LogsWorld \<Rightarrow> bool"
  for dec levelText fmt props r w0 where
  logs_done: "logs_run dec levelText fmt props r w0 w0"
| logs_more: "logs_run dec levelText fmt props r w0 w \<Longrightarrow> logs_step dec levelText fmt props r w w' \<Longrightarrow>
    logs_run dec levelText fmt props r w0 w'"

section \<open>What the master answers\<close>

definition log_of_entry :: "(int \<Rightarrow> string) \<Rightarrow> Entry \<Rightarrow> Log" where
  "log_of_entry levelText e = \<lparr>log_id = en_ID e, log_level = map_of LogLevel_members (capitalize (levelText (en_Level e))),
     log_message = en_Message e, log_meta = None, log_time = (if en_Time e = [] then None else Some (en_Time e))\<rparr>"

definition levels_known :: "(int \<Rightarrow> string) \<Rightarrow> Entry list \<Rightarrow> bool" where
  "levels_known levelText es \<longleftrightarrow> (\<forall>e \<in> set es. levelText (en_Level e) \<in> str_LogLevel ` UNIV)"

lemma LogLevel_values_UNIV: "set (map str_LogLevel LogLevel_values) = str_LogLevel ` UNIV"
proof -
  have "set LogLevel_values = UNIV" using LogLevel.exhaust by (auto simp: LogLevel_values_def)
  then show ?thesis by (simp only: set_map)
qed

lemma entry_json_conforms: "levelText (en_Level e) \<in> str_LogLevel ` UNIV \<Longrightarrow> conforms ioLog (entry_json levelText e)"
  unfolding ioLog_def entry_json_def conforms_CType LogLevel_values_UNIV [symmetric]
  by (simp add: own_def optional_def ioLogLevelType_def)

lemma log_of_entry_json:
  "levelText (en_Level e) \<in> str_LogLevel ` UNIV \<Longrightarrow> log_of_io (entry_json levelText e) = Inr (log_of_entry levelText e)"
proof -
  assume "levelText (en_Level e) \<in> str_LogLevel ` UNIV"
  then obtain l where "levelText (en_Level e) = str_LogLevel l" by blast
  moreover have "str_LogLevel l \<noteq> []" by (cases l) simp_all
  ultimately show ?thesis by (simp add: log_of_io_def entry_json_def own_def opt_as_def log_of_entry_def)
qed

lemma mapM_exn_map: "(\<And>x. x \<in> set xs \<Longrightarrow> f (g x) = Inr (h x)) \<Longrightarrow> mapM_exn f (map g xs) = Inr (map h xs)"
  by (induction xs) simp_all

lemma selected_ids_less: "i \<in> set (selected_ids cap n s e l) \<Longrightarrow> i < n"
  by (auto simp: selected_ids_def Let_def dest!: in_set_dropD in_set_takeD split: if_splits)

lemma load_selected:
  assumes "io_ts dec" "levels_known levelText es"
  shows "load_master_logs dec levelText es params = Inr (map (\<lambda>i. log_of_entry levelText (numbered es i))
     (selected_ids logStoreSize (length es) (case lp_greaterThanId params of Some g \<Rightarrow> g + 1 | None \<Rightarrow> - 1) (- 1)
        (case lp_tail params of Some t \<Rightarrow> t | None \<Rightarrow> - 1)))" (is "_ = Inr (map _ ?ids)")
proof -
  have cap: "0 < logStoreSize" by (simp add: logStoreSize_def)
  obtain lb where lb: "lb_writes es (NewLogBuffer logStoreSize) = Some lb" using writes_succeed [OF cap] by blast
  have known: "levelText (en_Level (numbered es i)) \<in> str_LogLevel ` UNIV" if "i \<in> set ?ids" for i
    using selected_ids_less [OF that] assms(2) by (simp add: numbered_def levels_known_def)
  let ?v = "Arr (map (\<lambda>i. entry_json levelText (numbered es i)) ?ids)"
  have v: "entries_json levelText (getMasterLogs_handler None (lp_greaterThanId params) (lp_tail params) lb) = ?v"
    by (simp add: entries_json_def getMasterLogs_handler_def lb_Entries_selected [OF cap lb] o_def)
  have "conforms ioLogs ?v"
    using known by (auto simp: ioLogs_def list_all_iff intro!: entry_json_conforms)
  then have "decode_io dec ioLogs ?v = Inr ?v"
    by (simp add: io_ts.decode_ok [OF assms(1)] decode_io_def strip_exact_free exact_free_logs del: strip.simps)
  then have "jsonToLogs dec ?v = mapM_exn log_of_io (map (\<lambda>i. entry_json levelText (numbered es i)) ?ids)"
    by (simp add: jsonToLogs_def arr_of_def)
  also have "\<dots> = Inr (map (\<lambda>i. log_of_entry levelText (numbered es i)) ?ids)"
    using known by (intro mapM_exn_map log_of_entry_json)
  finally show ?thesis by (simp add: load_master_logs_def lb v)
qed

section \<open>The invariant of the page\<close>

text \<open>The viewer shows the entries with numbers from \<open>lo\<close> up to \<open>hi\<close>.\<close>

definition shown :: "(int \<Rightarrow> string) \<Rightarrow> (string \<Rightarrow> string \<Rightarrow> string) \<Rightarrow> Entry list \<Rightarrow> nat \<Rightarrow> nat \<Rightarrow> ViewerLog list" where
  "shown levelText fmt es lo hi = map (\<lambda>i. viewer_log fmt (log_of_entry levelText (numbered es i))) [lo..<hi]"

definition page_at ::
  "(int \<Rightarrow> string) \<Rightarrow> (string \<Rightarrow> string \<Rightarrow> string) \<Rightarrow> Entry list \<Rightarrow> nat \<Rightarrow> nat \<Rightarrow> LogsPage \<Rightarrow> bool" where
  "page_at levelText fmt es lo hi pg \<longleftrightarrow> lo < hi \<and> hi \<le> length es \<and> (0 < lo \<longrightarrow> lo + 1000 \<le> hi)
     \<and> vw_logs (pg_viewer pg) = shown levelText fmt es lo hi
     \<and> vw_logIdRange (pg_viewer pg) = \<lparr>lr_max = int hi - 1, lr_min = int lo\<rparr>
     \<and> pg_logIdRange pg = \<lparr>lr_max = int hi - 1, lr_min = int lo\<rparr>"

definition world_at :: "(int \<Rightarrow> string) \<Rightarrow> (string \<Rightarrow> string \<Rightarrow> string) \<Rightarrow> nat \<Rightarrow> nat \<Rightarrow> LogsWorld \<Rightarrow> bool" where
  "world_at levelText fmt lo hi w \<longleftrightarrow> levels_known levelText (lw_entries w) \<and> length (lw_entries w) \<le> logStoreSize
     \<and> page_at levelText fmt (lw_entries w) lo hi (lw_page w)
     \<and> (\<forall>p. lw_older w = Some p \<longrightarrow> p = \<lparr>lp_greaterThanId = Some (max 0 (int lo - 1001)), lp_tail = Some TAIL_SIZE\<rparr>)
     \<and> (\<forall>p. lw_newer w = Some p \<longrightarrow> p = \<lparr>lp_greaterThanId = Some (int hi - 1), lp_tail = Some TAIL_SIZE\<rparr>)"

lemma log_of_entry_id [simp]: "log_id (log_of_entry levelText (numbered es i)) = int i"
  by (simp add: log_of_entry_def numbered_def)

lemma shown_append: "lo \<le> mid \<Longrightarrow> mid \<le> hi \<Longrightarrow>
    shown levelText fmt es lo mid @ shown levelText fmt es mid hi = shown levelText fmt es lo hi"
proof -
  assume "lo \<le> mid" "mid \<le> hi"
  then have "[lo..<mid] @ [mid..<hi] = [lo..<hi]" using upt_add_eq_append [of lo mid "hi - mid"] by simp
  then show ?thesis unfolding shown_def by (simp only: flip: map_append)
qed

lemma shown_more: "hi \<le> length es \<Longrightarrow> shown levelText fmt (es @ fs) lo hi = shown levelText fmt es lo hi"
  by (simp add: shown_def numbered_def nth_append)

lemma shown_hd: "lo < hi \<Longrightarrow> log_id (hd (shown levelText fmt es lo hi)) = int lo"
  by (simp add: shown_def hd_map)

lemma page_at_more: "page_at levelText fmt es lo hi pg \<Longrightarrow> page_at levelText fmt (es @ fs) lo hi pg"
  by (auto simp: page_at_def shown_more)

text \<open>The entries of an answer, as logs.\<close>

abbreviation answered :: "(int \<Rightarrow> string) \<Rightarrow> Entry list \<Rightarrow> nat \<Rightarrow> nat \<Rightarrow> Log list" where
  "answered levelText es a b \<equiv> map (\<lambda>i. log_of_entry levelText (numbered es i)) [a..<b]"

lemma load_tail:
  assumes "io_ts dec" "levels_known levelText es" "length es \<le> logStoreSize"
  shows "load_master_logs dec levelText es tail_params = Inr (answered levelText es (length es - 1000) (length es))"
  using assms(3) by (simp add: load_selected [OF assms(1,2)] tail_params_def TAIL_SIZE_def selected_newest logStoreSize_def)

lemma load_after:
  assumes "io_ts dec" "levels_known levelText es" "length es \<le> logStoreSize" "- 1 \<le> g"
  shows "load_master_logs dec levelText es \<lparr>lp_greaterThanId = Some g, lp_tail = Some TAIL_SIZE\<rparr>
    = Inr (answered levelText es (nat (g + 1)) (min (length es) (nat (g + 1) + 1000)))"
proof -
  have "selected_ids logStoreSize (length es) (g + 1) (- 1) 1000 = take 1000 [nat (g + 1)..<length es]"
    using assms(3,4) selected_after [of g 1000 logStoreSize "length es"] by simp
  also have "\<dots> = [nat (g + 1)..<min (length es) (nat (g + 1) + 1000)]"
    by (cases "nat (g + 1) + 1000 \<le> length es") (simp_all add: take_upt min_def)
  finally show ?thesis by (simp add: load_selected [OF assms(1,2)] TAIL_SIZE_def)
qed

lemma filter_below: "lo \<le> mid \<Longrightarrow> mid \<le> hi \<Longrightarrow> filter (\<lambda>i. i < mid \<or> hi \<le> i) [lo..<hi] = [lo..<mid]" for lo mid hi :: nat
proof -
  assume "lo \<le> mid" "mid \<le> hi"
  then have "[lo..<hi] = [lo..<mid] @ [mid..<hi]" by (metis le_add_diff_inverse upt_add_eq_append)
  then show ?thesis by (simp add: filter_empty_conv)
qed

lemma new_logs_answered:
  assumes "vw_logIdRange v = \<lparr>lr_max = int hi - 1, lr_min = int lo\<rparr>"
  shows "new_logs v (answered levelText es a b)
    = map (\<lambda>i. log_of_entry levelText (numbered es i)) (filter (\<lambda>i. i < lo \<or> hi \<le> i) [a..<b])"
proof -
  have "int i < int lo \<or> int hi - 1 < int i \<longleftrightarrow> i < lo \<or> hi \<le> i" for i by linarith
  then show ?thesis by (simp add: new_logs_def assms filter_map o_def)
qed

lemma older_answer:
  assumes pg: "page_at levelText fmt es lo hi pg" and s: "1 \<le> s" "s < lo" "lo \<le> s + 1000" "s + 1000 \<le> hi"
  shows "\<exists>pg'. older_effect fmt props (Some r) (answered levelText es s (s + 1000)) pg = Inr pg'
      \<and> page_at levelText fmt es s hi pg' \<and> pg_oldestFetchedId pg' = pg_oldestFetchedId pg"
proof -
  let ?logs = "answered levelText es s (s + 1000)"
  let ?v = "pg_viewer pg"
  have range: "vw_logIdRange ?v = \<lparr>lr_max = int hi - 1, lr_min = int lo\<rparr>" using pg by (simp add: page_at_def)
  have "filter (\<lambda>i. i < lo \<or> hi \<le> i) [s..<s + 1000] = filter (\<lambda>i. i < lo \<or> s + 1000 \<le> i) [s..<s + 1000]"
    using s by (intro filter_cong) auto
  then have new: "new_logs ?v ?logs = answered levelText es s lo"
    using s filter_below [of s lo "s + 1000"] by (simp add: new_logs_answered [OF range])
  then have "new_logs ?v ?logs \<noteq> []" using s by simp
  from addLogs_new [OF this, of props r True fmt] obtain v' where v':
    "addLogs fmt props (Some r) ?logs True ?v = Inr v'" "vw_logs v' = shown levelText fmt es s lo @ vw_logs ?v"
    "vw_logIdRange v' = \<lparr>lr_max = int hi - 1, lr_min = int s\<rparr>"
    using s pg unfolding new by (force simp: range shown_def hd_map last_map page_at_def o_def)
  have "shown levelText fmt es s lo @ vw_logs ?v = shown levelText fmt es s hi"
    using pg s by (simp add: page_at_def shown_append)
  with v' show ?thesis
    using pg s by (auto simp: older_effect_def page_at_def hd_map last_map)
qed

lemma newer_answer:
  assumes pg: "page_at levelText fmt es lo hi pg" and s: "hi < e" "e \<le> length es"
  shows "\<exists>pg'. newer_effect fmt props (Some r) (answered levelText es hi e) pg = Inr pg' \<and> page_at levelText fmt es lo e pg'"
proof -
  let ?logs = "answered levelText es hi e"
  let ?v = "pg_viewer pg"
  have range: "vw_logIdRange ?v = \<lparr>lr_max = int hi - 1, lr_min = int lo\<rparr>" "lo < hi" using pg by (auto simp: page_at_def)
  have new: "new_logs ?v ?logs = ?logs" by (auto simp: new_logs_answered [OF range(1)] intro: filter_True)
  then have "new_logs ?v ?logs \<noteq> []" using s by simp
  from addLogs_new [OF this, of props r False fmt] obtain v' where v':
    "addLogs fmt props (Some r) ?logs False ?v = Inr v'" "vw_logs v' = vw_logs ?v @ shown levelText fmt es hi e"
    "vw_logIdRange v' = \<lparr>lr_max = int e - 1, lr_min = int lo\<rparr>"
    using s range unfolding new by (force simp: shown_def hd_map last_map o_def)
  have "vw_logs ?v @ shown levelText fmt es hi e = shown levelText fmt es lo e"
    using pg s by (simp add: page_at_def shown_append)
  with v' show ?thesis
    using pg s by (auto simp: newer_effect_def page_at_def hd_map last_map)
qed

lemma fetchOlder_keeps:
  assumes "fetchOlderLogs i pg = (request, pg')"
  shows "pg_viewer pg' = pg_viewer pg" "pg_logIdRange pg' = pg_logIdRange pg"
    and "request \<in> {None, Some \<lparr>lp_greaterThanId = Some (max 0 (i - 1000)), lp_tail = Some TAIL_SIZE\<rparr>}"
  using assms by (auto simp: fetchOlderLogs_def TAIL_SIZE_def Let_def split: if_splits)

lemma page_at_cong:
  "pg_viewer pg' = pg_viewer pg \<Longrightarrow> pg_logIdRange pg' = pg_logIdRange pg \<Longrightarrow>
    page_at levelText fmt es lo hi pg' = page_at levelText fmt es lo hi pg"
  by (simp add: page_at_def)

lemma scrolled_oldest:
  "page_at levelText fmt es lo hi pg \<Longrightarrow> scrollToTop_effect cb (pg_viewer pg) previous scroll = Some i \<Longrightarrow> i = int lo - 1"
  using shown_hd [of lo hi levelText fmt es]
  by (auto simp: page_at_def scrollToTop_effect_def split: list.splits if_splits)

lemma world_older_loaded:
  assumes "io_ts dec" and w: "world_at levelText fmt lo hi w"
    and pending: "lw_older w = Some params" and load: "load_master_logs dec levelText (lw_entries w) params = Inr logs"
    and eff: "older_effect fmt props (Some r) logs (lw_page w) = Inr pg'"
  shows "\<exists>lo' hi'. world_at levelText fmt lo' hi' (w\<lparr>lw_page := pg', lw_older := None\<rparr>)
      \<and> lo' \<le> lo \<and> hi \<le> hi' \<and> (1 \<le> lo \<longrightarrow> 1 \<le> lo')"
proof -
  have known: "levels_known levelText (lw_entries w)" and cap: "length (lw_entries w) \<le> logStoreSize"
    and pg: "page_at levelText fmt (lw_entries w) lo hi (lw_page w)" using w by (auto simp: world_at_def)
  note rng = pg [unfolded page_at_def]
  define s where "s = nat (max 0 (int lo - 1001) + 1)"
  have s: "1 \<le> s" "lo \<le> s + 1000" by (auto simp: s_def)
  have "params = \<lparr>lp_greaterThanId = Some (max 0 (int lo - 1001)), lp_tail = Some TAIL_SIZE\<rparr>"
    using w pending by (auto simp: world_at_def)
  then have logs: "logs = answered levelText (lw_entries w) s (min (length (lw_entries w)) (s + 1000))"
    using load_after [OF assms(1) known cap, of "max 0 (int lo - 1001)"] load by (simp add: s_def)
  show ?thesis
  proof (cases "s < lo")
    case True
    then have "s + 1000 \<le> hi" using rng by (auto simp: s_def)
    moreover from this have "min (length (lw_entries w)) (s + 1000) = s + 1000" using rng by auto
    ultimately have "page_at levelText fmt (lw_entries w) s hi pg'" "s + 1000 \<le> hi"
      using older_answer [OF pg s(1) True s(2), of props r] eff logs by auto
    then have "world_at levelText fmt s hi (w\<lparr>lw_page := pg', lw_older := None\<rparr>)" using w by (auto simp: world_at_def)
    then show ?thesis using True s(1) by (intro exI [of _ s] exI [of _ hi]) auto
  next
    case False
    have "pg' = lw_page w"
    proof (cases "logs = []")
      case True
      then show ?thesis using eff by (simp add: older_effect_def)
    next
      case False
      then have "s < min (length (lw_entries w)) (s + 1000)" unfolding logs map_is_Nil_conv upt_eq_Nil_conv by linarith
      then have "log_id (hd logs) = int s" by (simp add: logs hd_map hd_upt del: min_less_iff_conj)
      then show ?thesis using eff False rng \<open>\<not> s < lo\<close> by (simp add: older_effect_def)
    qed
    then have "world_at levelText fmt lo hi (w\<lparr>lw_page := pg', lw_older := None\<rparr>)" using w by (auto simp: world_at_def)
    then show ?thesis by blast
  qed
qed

lemma world_newer_loaded:
  assumes "io_ts dec" and w: "world_at levelText fmt lo hi w"
    and pending: "lw_newer w = Some params" and load: "load_master_logs dec levelText (lw_entries w) params = Inr logs"
    and eff: "newer_effect fmt props (Some r) logs (lw_page w) = Inr pg'"
  shows "\<exists>lo' hi'. world_at levelText fmt lo' hi' (w\<lparr>lw_page := pg', lw_newer := None\<rparr>)
      \<and> lo' \<le> lo \<and> hi \<le> hi' \<and> (1 \<le> lo \<longrightarrow> 1 \<le> lo')"
proof -
  have known: "levels_known levelText (lw_entries w)" and cap: "length (lw_entries w) \<le> logStoreSize"
    and pg: "page_at levelText fmt (lw_entries w) lo hi (lw_page w)" using w by (auto simp: world_at_def)
  note rng = pg [unfolded page_at_def]
  let ?e = "min (length (lw_entries w)) (hi + 1000)"
  have "params = \<lparr>lp_greaterThanId = Some (int hi - 1), lp_tail = Some TAIL_SIZE\<rparr>"
    using w pending by (auto simp: world_at_def)
  then have logs: "logs = answered levelText (lw_entries w) hi ?e"
    using load_after [OF assms(1) known cap, of "int hi - 1"] load by simp
  show ?thesis
  proof (cases "hi < ?e")
    case True
    then have "page_at levelText fmt (lw_entries w) lo ?e pg'"
      using newer_answer [OF pg True, of props r] eff logs by auto
    then have "world_at levelText fmt lo ?e (w\<lparr>lw_page := pg', lw_newer := None\<rparr>)" using w by (auto simp: world_at_def)
    then show ?thesis using True by (intro exI [of _ lo] exI [of _ ?e]) auto
  next
    case False
    then have "pg' = lw_page w" using eff logs by (simp add: newer_effect_def)
    then have "world_at levelText fmt lo hi (w\<lparr>lw_page := pg', lw_newer := None\<rparr>)" using w by (auto simp: world_at_def)
    then show ?thesis by blast
  qed
qed

lemma world_step:
  assumes "io_ts dec" and w: "world_at levelText fmt lo hi w" and "logs_step dec levelText fmt props r w w'"
  shows "\<exists>lo' hi'. world_at levelText fmt lo' hi' w' \<and> lo' \<le> lo \<and> hi \<le> hi' \<and> (1 \<le> lo \<longrightarrow> 1 \<le> lo')"
proof -
  have known: "levels_known levelText (lw_entries w)" and cap: "length (lw_entries w) \<le> logStoreSize"
    and pg: "page_at levelText fmt (lw_entries w) lo hi (lw_page w)" using w by (auto simp: world_at_def)
  note rng = pg [unfolded page_at_def]
  from assms(3) show ?thesis
  proof (cases rule: logs_step.cases)
    case (logged e)
    then have "world_at levelText fmt lo hi w'"
      using w page_at_more [OF pg, of "[e]"] by (auto simp: world_at_def levels_known_def)
    then show ?thesis by blast
  next
    case (scrolled previous scroll oldest request pg')
    then have "oldest = int lo - 1" using scrolled_oldest [OF pg] by blast
    then have f: "fetchOlderLogs (int lo - 1) (lw_page w) = (request, pg')" using scrolled(3) by simp
    then have "page_at levelText fmt (lw_entries w) lo hi pg'"
      using page_at_cong [OF fetchOlder_keeps(1,2) [OF f]] pg by blast
    then have "world_at levelText fmt lo hi w'"
      using w scrolled(1) fetchOlder_keeps(3) [OF f] by (auto simp: world_at_def)
    then show ?thesis by blast
  next
    case polled
    then have "world_at levelText fmt lo hi w'"
      using w rng by (auto simp: world_at_def fetchNewerLogs_def split: if_splits)
    then show ?thesis by blast
  next
    case (older_loaded params logs pg')
    then show ?thesis using world_older_loaded [OF assms(1) w older_loaded(2-4)] by simp
  next
    case (newer_loaded params logs pg')
    then show ?thesis using world_newer_loaded [OF assms(1) w newer_loaded(2-4)] by simp
  next
    case older_failed
    then have "world_at levelText fmt lo hi w'" using w by (auto simp: world_at_def)
    then show ?thesis by blast
  next
    case newer_failed
    then have "world_at levelText fmt lo hi w'" using w by (auto simp: world_at_def)
    then show ?thesis by blast
  qed
qed

lemma world_run:
  assumes "logs_run dec levelText fmt props r w w'" "io_ts dec" "world_at levelText fmt lo hi w"
  shows "\<exists>lo' hi'. world_at levelText fmt lo' hi' w' \<and> lo' \<le> lo \<and> hi \<le> hi' \<and> (1 \<le> lo \<longrightarrow> 1 \<le> lo')"
  using assms(1)
proof (induction rule: logs_run.induct)
  case logs_done
  show ?case using assms(3) by blast
next
  case (logs_more w1 w2)
  then obtain lo1 hi1 where 1: "world_at levelText fmt lo1 hi1 w1" "lo1 \<le> lo" "hi \<le> hi1" "1 \<le> lo \<longrightarrow> 1 \<le> lo1" by blast
  show ?case using world_step [OF assms(2) 1(1) logs_more.hyps(2)] 1(2-4) by (meson le_trans)
qed

lemma open_world:
  assumes "io_ts dec" "levels_known levelText es" "length es \<le> logStoreSize" "es \<noteq> []"
  shows "\<exists>w. open_logs dec levelText fmt props r es = Some w \<and> lw_entries w = es
    \<and> world_at levelText fmt (length es - 1000) (length es) w \<and> pg_oldestFetchedId (lw_page w) = MAX_SAFE_INTEGER"
proof -
  let ?n = "length es"
  let ?logs = "answered levelText es (?n - 1000) ?n"
  have n: "0 < ?n" "int ?n < MAX_SAFE_INTEGER" using assms(3,4) by (simp_all add: logStoreSize_def MAX_SAFE_INTEGER_def)
  have new: "new_logs mount_viewer ?logs = ?logs"
    using n by (auto simp: new_logs_def mount_viewer_def noRange_def MIN_SAFE_INTEGER_def MAX_SAFE_INTEGER_def intro!: filter_True)
  moreover have ne: "[?n - 1000..<?n] \<noteq> []" using n(1) by (simp only: upt_eq_Nil_conv) linarith
  ultimately have "new_logs mount_viewer ?logs \<noteq> []" by simp
  then obtain v where add: "addLogs fmt props (Some r) ?logs True mount_viewer = Inr v"
    and logs: "vw_logs v = map (viewer_log fmt) ?logs"
    and range: "vw_logIdRange v = \<lparr>lr_max = max (lr_max noRange) (log_id (last ?logs)), lr_min = min (lr_min noRange) (log_id (hd ?logs))\<rparr>"
    using addLogs_new [of mount_viewer ?logs props r True fmt] unfolding new by (force simp: mount_viewer_def)
  have ids: "log_id (hd ?logs) = int (?n - 1000)" "log_id (last ?logs) = int ?n - 1"
    using ne n(1) by (simp_all add: hd_map last_map of_nat_diff)
  have v: "addLogs fmt props (Some r) ?logs True mount_viewer = Inr v" "vw_logs v = shown levelText fmt es (?n - 1000) ?n"
    "vw_logIdRange v = \<lparr>lr_max = int ?n - 1, lr_min = int (?n - 1000)\<rparr>"
    using add logs range n unfolding ids by (simp_all add: shown_def o_def noRange_def MIN_SAFE_INTEGER_def MAX_SAFE_INTEGER_def)
  let ?pg = "mount_page\<lparr>pg_logIdRange := \<lparr>lr_max = int ?n - 1, lr_min = int (?n - 1000)\<rparr>, pg_viewer := v\<rparr>"
  have "\<not> ?n \<le> ?n - 1000" using n(1) by linarith
  then have "older_effect fmt props (Some r) ?logs mount_page = Inr ?pg"
    using n v(1) by (simp add: older_effect_def mount_page_def noRange_def hd_map last_map MIN_SAFE_INTEGER_def MAX_SAFE_INTEGER_def)
  moreover have "newer_effect fmt props (Some r) ?logs ?pg = Inr ?pg"
    using n by (simp add: newer_effect_def last_map)
  ultimately have "open_logs dec levelText fmt props r es
      = Some \<lparr>lw_entries = es, lw_page = ?pg, lw_older = None, lw_newer = None\<rparr>"
    by (simp add: open_logs_def load_tail [OF assms(1-3)])
  then show ?thesis
    using assms(2,3) n v by (auto simp: world_at_def page_at_def mount_page_def)
qed

lemma empty_step:
  assumes "logs_step dec levelText fmt props r w w'"
    and "vw_logs (pg_viewer (lw_page w)) = [] \<and> pg_logIdRange (lw_page w) = noRange \<and> lw_older w = None \<and> lw_newer w = None"
  shows "vw_logs (pg_viewer (lw_page w')) = [] \<and> pg_logIdRange (lw_page w') = noRange \<and> lw_older w' = None \<and> lw_newer w' = None"
  using assms by cases (simp_all add: scrollToTop_effect_def fetchNewerLogs_def noRange_def MIN_SAFE_INTEGER_def)

section \<open>Properties\<close>


definition sample_level :: "int \<Rightarrow> string" where
  "sample_level l = (if l = 2 then ''error'' else if l = 3 then ''warning'' else if l = 4 then ''info'' else ''debug'')"

lemma sample_known: "levels_known sample_level [sample_entry ''a'']"
  by (auto simp: levels_known_def sample_entry_def sample_level_def intro: image_eqI [of _ _ LogLevel_Info])


text \<open>
  A page of logs that was opened before the first entry stays empty.  Without an entry the page has no number to
  ask for newer ones from, so it never asks: whatever the master logs afterwards, nothing is shown and no request is
  under way.
\<close>

theorem master_logs_empty:
  assumes "io_ts dec"
  shows "\<exists>w0. open_logs dec levelText fmt props r [] = Some w0
    \<and> (\<forall>w. logs_run dec levelText fmt props r w0 w \<longrightarrow>
        vw_logs (pg_viewer (lw_page w)) = [] \<and> lw_older w = None \<and> lw_newer w = None)"
proof -
  let ?w0 = "\<lparr>lw_entries = [], lw_page = mount_page, lw_older = None, lw_newer = None\<rparr>"
  have "open_logs dec levelText fmt props r [] = Some ?w0"
    using load_tail [OF assms, of levelText "[]"]
    by (simp add: open_logs_def levels_known_def older_effect_def newer_effect_def)
  moreover have "vw_logs (pg_viewer (lw_page w)) = [] \<and> pg_logIdRange (lw_page w) = noRange \<and> lw_older w = None \<and> lw_newer w = None"
    if "logs_run dec levelText fmt props r ?w0 w" for w
    using that by (induction rule: logs_run.induct) (simp_all add: mount_page_def mount_viewer_def empty_step)
  ultimately show ?thesis by blast
qed

theorem master_logs_empty_witness:
  "\<exists>w0. open_logs io_decode sample_level (\<lambda>t _. t) sample_props sample_rects [] = Some w0
     \<and> vw_logs (pg_viewer (lw_page w0)) = []"
  using master_logs_empty [OF io.io_ts_axioms, of sample_level "\<lambda>t _. t" sample_props sample_rects] logs_run.logs_done by blast

text \<open>Scrolling to the top and waiting for the answer, \<open>n\<close> times.\<close>

fun load_older ::
  "(codec \<Rightarrow> js \<Rightarrow> js + js) \<Rightarrow> (int \<Rightarrow> string) \<Rightarrow> (string \<Rightarrow> string \<Rightarrow> string) \<Rightarrow> ViewerProps \<Rightarrow> Rects \<Rightarrow> nat
    \<Rightarrow> LogsWorld \<Rightarrow> LogsWorld option" where
  "load_older dec levelText fmt props r 0 w = Some w"
| "load_older dec levelText fmt props r (Suc n) w =
     (case vw_logs (pg_viewer (lw_page w)) of
        [] \<Rightarrow> None
      | l # _ \<Rightarrow> (case fetchOlderLogs (log_id l - 1) (lw_page w) of
          (None, _) \<Rightarrow> None
        | (Some params, pg) \<Rightarrow> (case load_master_logs dec levelText (lw_entries w) params of
            Inl _ \<Rightarrow> None
          | Inr logs \<Rightarrow> (case older_effect fmt props (Some r) logs pg of
              Inl _ \<Rightarrow> None
            | Inr pg \<Rightarrow> load_older dec levelText fmt props r n (w\<lparr>lw_page := pg\<rparr>)))))"

lemma load_older_once:
  assumes "io_ts dec" "world_at levelText fmt lo hi w" "1 < lo" "int lo - 1 \<le> pg_oldestFetchedId (lw_page w)" "lw_older w = None"
  shows "\<exists>w'. load_older dec levelText fmt props r (Suc n) w = load_older dec levelText fmt props r n w'
    \<and> world_at levelText fmt (max 1 (lo - 1000)) hi w' \<and> pg_oldestFetchedId (lw_page w') = int (max 1 (lo - 1000)) - 1
    \<and> lw_entries w' = lw_entries w \<and> lw_older w' = None"
proof -
  have known: "levels_known levelText (lw_entries w)" and cap: "length (lw_entries w) \<le> logStoreSize"
    and pg: "page_at levelText fmt (lw_entries w) lo hi (lw_page w)" using assms(2) by (auto simp: world_at_def)
  let ?s = "max 1 (lo - 1000)"
  let ?g = "max 0 (int lo - 1001)"
  have s: "nat (?g + 1) = ?s" "1 \<le> ?s" "?s < lo" "lo \<le> ?s + 1000" "?s + 1000 \<le> hi" "hi \<le> length (lw_entries w)" "int ?s - 1 = ?g"
    using assms(3) pg by (auto simp: page_at_def)
  obtain l ls where l: "vw_logs (pg_viewer (lw_page w)) = l # ls" "log_id l = int lo"
    using pg shown_hd [of lo hi levelText fmt "lw_entries w"]
    by (cases "vw_logs (pg_viewer (lw_page w))") (auto simp: page_at_def shown_def)
  let ?pg = "(lw_page w)\<lparr>pg_oldestFetchedId := ?g\<rparr>"
  have fetch: "fetchOlderLogs (log_id l - 1) (lw_page w) = (Some \<lparr>lp_greaterThanId = Some ?g, lp_tail = Some TAIL_SIZE\<rparr>, ?pg)"
  proof -
    have "\<not> pg_oldestFetchedId (lw_page w) \<le> ?g" using assms(3,4) by linarith
    moreover have "max 0 (log_id l - 1 - TAIL_SIZE) = ?g" by (simp add: l(2) TAIL_SIZE_def)
    ultimately show ?thesis by (simp only: fetchOlderLogs_def Let_def if_False)
  qed
  have load: "load_master_logs dec levelText (lw_entries w) \<lparr>lp_greaterThanId = Some ?g, lp_tail = Some TAIL_SIZE\<rparr>
      = Inr (answered levelText (lw_entries w) ?s (?s + 1000))"
    using load_after [OF assms(1) known cap, of ?g] s by (simp only: s(1)) simp
  have "page_at levelText fmt (lw_entries w) lo hi ?pg" using pg by (simp add: page_at_def)
  from older_answer [OF this s(2-5), of props r] obtain pg' where
    pg': "older_effect fmt props (Some r) (answered levelText (lw_entries w) ?s (?s + 1000)) ?pg = Inr pg'"
    "page_at levelText fmt (lw_entries w) ?s hi pg'" "pg_oldestFetchedId pg' = ?g" by auto
  have "load_older dec levelText fmt props r (Suc n) w = load_older dec levelText fmt props r n (w\<lparr>lw_page := pg'\<rparr>)"
    by (simp only: load_older.simps l(1) list.case fetch prod.case option.case load sum.case pg'(1))
  moreover have "world_at levelText fmt ?s hi (w\<lparr>lw_page := pg'\<rparr>)"
    using assms(2,5) pg'(2) by (simp add: world_at_def)
  ultimately show ?thesis
    using pg'(3) s(7) assms(5) by (intro exI [of _ "w\<lparr>lw_page := pg'\<rparr>"]) simp
qed

lemma load_older_all:
  assumes "io_ts dec"
  shows "world_at levelText fmt lo hi w \<Longrightarrow> 1 \<le> lo \<Longrightarrow> int lo - 1 \<le> pg_oldestFetchedId (lw_page w) \<Longrightarrow> lw_older w = None \<Longrightarrow>
    \<exists>w'. load_older dec levelText fmt props r ((lo + 998) div 1000) w = Some w' \<and> world_at levelText fmt 1 hi w'
      \<and> lw_entries w' = lw_entries w \<and> (1 < lo \<longrightarrow> pg_oldestFetchedId (lw_page w') = 0)"
proof (induction lo arbitrary: w rule: less_induct)
  case (less lo)
  show ?case
  proof (cases "lo = 1")
    case True
    then show ?thesis using less.prems(1) by simp
  next
    case False
    let ?s = "max 1 (lo - 1000)"
    have lo: "1 < lo" "?s < lo" "1 \<le> ?s" using False less.prems(2) by auto
    have n: "(lo + 998) div 1000 = Suc ((?s + 998) div 1000)"
    proof (cases "1001 < lo")
      case True
      then have "lo + 998 = ?s + 998 + 1000" by simp
      then show ?thesis by (simp only: div_add_self2)
    next
      case False
      then have "?s = 1" "1000 \<le> lo + 998" "lo + 998 < 2000" using lo by auto
      then show ?thesis by (simp add: div_nat_eqI)
    qed
    obtain w1 where w1: "load_older dec levelText fmt props r ((lo + 998) div 1000) w
        = load_older dec levelText fmt props r ((?s + 998) div 1000) w1"
      "world_at levelText fmt ?s hi w1" "pg_oldestFetchedId (lw_page w1) = int ?s - 1"
      "lw_entries w1 = lw_entries w" "lw_older w1 = None"
      using load_older_once [OF assms less.prems(1) lo(1) less.prems(3,4), of props r "(?s + 998) div 1000"] unfolding n by blast
    from less.IH [OF lo(2) w1(2) lo(3) _ w1(5)] w1(3) obtain w2 where w2:
      "load_older dec levelText fmt props r ((?s + 998) div 1000) w1 = Some w2" "world_at levelText fmt 1 hi w2"
      "lw_entries w2 = lw_entries w1" "1 < ?s \<longrightarrow> pg_oldestFetchedId (lw_page w2) = 0" by auto
    have "pg_oldestFetchedId (lw_page w2) = 0"
    proof (cases "1 < ?s")
      case False
      then have "?s = 1" using lo(3) by linarith
      then show ?thesis using w2(1) w1(3) by simp
    qed (use w2(4) in blast)
    with w1(1,4) w2 show ?thesis by auto
  qed
qed

text \<open>
  Scrolling to the top loads all older entries but the first, and a failed request for them is not repeated.  On
  the page as it was opened, a request answers with up to a thousand older entries, and after finitely many of them
  no older entry but the first is missing and no further request is made.  A request that failed is not made again by
  scrolling to the top again.
\<close>

theorem older_logs_progress:
  assumes "io_ts dec" and "levels_known levelText es" and "1000 < length es" "length es \<le> logStoreSize"
  shows "\<exists>w0 w. open_logs dec levelText fmt props r es = Some w0
    \<and> load_older dec levelText fmt props r ((length es - 2) div 1000) w0 = Some w
    \<and> vw_logs (pg_viewer (lw_page w)) = shown levelText fmt es 1 (length es)
    \<and> (1001 < length es \<longrightarrow> fetchOlderLogs 0 (lw_page w) = (None, lw_page w))
    \<and> (\<forall>i pg p pg'. fetchOlderLogs i pg = (Some p, pg') \<longrightarrow> fetchOlderLogs i pg' = (None, pg'))"
proof -
  have "es \<noteq> []" using assms(3) by auto
  then obtain w0 where w0: "open_logs dec levelText fmt props r es = Some w0" "lw_entries w0 = es"
    "world_at levelText fmt (length es - 1000) (length es) w0" "pg_oldestFetchedId (lw_page w0) = MAX_SAFE_INTEGER"
    using open_world [OF assms(1,2,4)] by blast
  have idle: "lw_older w0 = None" using w0(1) by (auto simp: open_logs_def split: sum.splits)
  have oldest: "int (length es - 1000) - 1 \<le> pg_oldestFetchedId (lw_page w0)"
    using assms(4) w0(4) by (simp add: logStoreSize_def MAX_SAFE_INTEGER_def)
  have "1 \<le> length es - 1000" using assms(3) by simp
  from load_older_all [OF assms(1) w0(3) this oldest idle, of props r, unfolded w0(2)] obtain w where
    w: "load_older dec levelText fmt props r ((length es - 1000 + 998) div 1000) w0 = Some w"
    "world_at levelText fmt 1 (length es) w" "lw_entries w = es" "1 < length es - 1000 \<longrightarrow> pg_oldestFetchedId (lw_page w) = 0"
    by blast
  have n: "length es - 1000 + 998 = length es - 2" using assms(3) by simp
  have all: "vw_logs (pg_viewer (lw_page w)) = shown levelText fmt es 1 (length es)"
    using w(2,3) by (simp add: world_at_def page_at_def)
  have stop: "fetchOlderLogs 0 (lw_page w) = (None, lw_page w)" if "1001 < length es"
    using that w(4) by (simp add: fetchOlderLogs_def TAIL_SIZE_def)
  have once: "fetchOlderLogs i pg' = (None, pg')" if "fetchOlderLogs i pg = (Some p, pg')" for i pg p pg'
    using that by (auto simp: fetchOlderLogs_def Let_def split: if_splits)
  show ?thesis
  proof (intro exI conjI allI impI)
    show "load_older dec levelText fmt props r ((length es - 2) div 1000) w0 = Some w" using w(1) unfolding n .
  qed (fact w0(1) all stop once)+
qed

theorem older_logs_progress_witness:
  "\<exists>w0 w. open_logs io_decode sample_level (\<lambda>t _. t) sample_props sample_rects (replicate 2500 (sample_entry ''a'')) = Some w0
    \<and> load_older io_decode sample_level (\<lambda>t _. t) sample_props sample_rects 2 w0 = Some w
    \<and> fetchOlderLogs 0 (lw_page w) = (None, lw_page w)"
proof -
  have k: "levels_known sample_level (replicate 2500 (sample_entry ''a''))"
    using sample_known by (simp add: levels_known_def)
  show ?thesis
    using older_logs_progress [OF io.io_ts_axioms k, of "\<lambda>t _. t" sample_props sample_rects]
    by (auto simp: logStoreSize_def)
qed

end
