(* ===== verification/Requests.thy ===== *)
theory Requests
  imports Contexts
begin

text \<open>
  Several requests at once: \<open>Promise.all\<close> over a list of calls, each of which sends exactly one request.  The locale
  \<open>request_call\<close> is the contract of such a call; the pages that act on many items interpret it.
\<close>

section \<open>Promise.all\<close>

text \<open>Every call is made; the first failure in the order of the list is the result.\<close>

fun promise_all :: "('a \<Rightarrow> 's Web \<Rightarrow> (failure + unit) \<times> 's Web) \<Rightarrow> 'a list \<Rightarrow> 's Web \<Rightarrow> failure option \<times> 's Web" where
  "promise_all call [] w = (None, w)"
| "promise_all call (x # xs) w = (case call x w of
     (r, w) \<Rightarrow> (case promise_all call xs w of
        (f, w) \<Rightarrow> (case r of Inl g \<Rightarrow> (Some g, w) | Inr _ \<Rightarrow> (f, w))))"

locale request_call =
  fixes call :: "'a \<Rightarrow> 's Web \<Rightarrow> (failure + unit) \<times> 's Web"
    and req :: "'a \<Rightarrow> 's Web \<Rightarrow> Request"
  assumes sends: "web_requests (snd (call x w)) = web_requests w @ [req x w]"
    and keeps_clients: "web_detApi (snd (call x w)) = web_detApi w"
    and req_clients: "web_detApi w = web_detApi w' \<Longrightarrow> req x w = req x w'"
begin

lemma all_keeps_clients: "web_detApi (snd (promise_all call xs w)) = web_detApi w"
  by (induction xs arbitrary: w) (auto simp: keeps_clients split_beta split: sum.splits)

lemma all_sends: "web_requests (snd (promise_all call xs w)) = web_requests w @ map (\<lambda>x. req x w) xs"
proof (induction xs arbitrary: w)
  case (Cons x xs)
  have "req y (snd (call x w)) = req y w" for y by (rule req_clients [OF keeps_clients])
  with Cons.IH [of "snd (call x w)"] show ?case by (simp add: split_beta sends split: sum.split)
qed simp

lemma all_ok: "fst (promise_all call xs w) = None \<Longrightarrow> x \<in> set xs \<Longrightarrow> \<exists>w'. fst (call x w') = Inr ()"
proof (induction xs arbitrary: w)
  case (Cons y ys)
  have y: "fst (call y w) = Inr ()" and ys: "fst (promise_all call ys (snd (call y w))) = None"
    using Cons.prems(1) by (auto simp: split_beta split: sum.splits)
  from Cons.prems(2) consider "x = y" | "x \<in> set ys" by auto
  then show ?case using y Cons.IH [OF ys] by cases auto
qed simp

end

lemma fail_unless_aborted_clients [simp]: "web_detApi (snd (fail_unless_aborted isCancel n f w)) = web_detApi w"
  by (auto simp: fail_unless_aborted_def fail_request_def split_beta split: option.splits)

text \<open>A call of the generated API that is not stubbed.\<close>

lemma det_call:
  assumes "\<And>x. da_stubbedResponse (api x) = None"
  shows "request_call (\<lambda>x. generateDetApi isCancel net (api x) (f x)) (\<lambda>x. det_request (api x) (f x))"
proof (unfold_locales, goal_cases)
  case (1 x w)
  then show ?case using assms [of x] by (auto simp: generateDetApi_def Let_def split: sum.splits)
next
  case (2 x w)
  then show ?case using assms [of x] by (auto simp: generateDetApi_def Let_def log_request_def split: sum.splits)
next
  case (3 w w' x)
  then show ?case by (simp add: det_request_def)
qed

text \<open>Killing tasks of any kind.\<close>

interpretation kill_call: request_call "killTask isCancel net" "\<lambda>t. det_request (kill_api (ct_type t)) (task_id t)"
proof -
  have "da_stubbedResponse (kill_api k) = None" for k
    by (cases k) (simp_all add: killCommand_def killNotebook_def killShell_def killTensorboard_def det_api_def)
  then show "request_call (killTask isCancel net) (\<lambda>t. det_request (kill_api (ct_type t)) (task_id t))"
    using det_call [of "\<lambda>t. kill_api (ct_type t)" isCancel net task_id] by (simp add: killTask_def [abs_def])
qed

end
