(* ===== verification/Experiment_List.thy ===== *)
theory Experiment_List
  imports Requests
begin

text \<open>
  The page that lists the experiments (\<^verbatim>\<open>pages/ExperimentList.tsx\<close>): its filters, sorting and pages with what of them
  is stored, the selection with the batch actions it allows, and the requests of a batch action and their failure.
  Rows are identified by the text of an experiment's number.  An entry of the selection that is not in the list is
  \<open>undefined\<close> in the code and \<open>None\<close> here.
\<close>

section \<open>State\<close>

datatype Action =
    Action_Activate | Action_Archive | Action_Cancel | Action_Kill | Action_Pause | Action_OpenTensorBoard | Action_Unarchive

fun str_Action :: "Action \<Rightarrow> string" where
  "str_Action Action_Activate = ''Activate''"
| "str_Action Action_Archive = ''Archive''"
| "str_Action Action_Cancel = ''Cancel''"
| "str_Action Action_Kill = ''Kill''"
| "str_Action Action_Pause = ''Pause''"
| "str_Action Action_OpenTensorBoard = ''OpenTensorboard''"
| "str_Action Action_Unarchive = ''Unarchive''"

definition defaultFilters :: ExperimentFilters where
  "defaultFilters = \<lparr>ef_labels = None, ef_showArchived = False, ef_states = [ALL_VALUE], ef_username = None\<rparr>"

definition defaultSorter :: ApiSorter where
  "defaultSorter = \<lparr>sorter_descend = True, sorter_key = ''SORT_BY_START_TIME''\<rparr>"

definition STORAGE_PATH :: string where "STORAGE_PATH = ''experiment-list''"

definition STORAGE_FILTERS_KEY :: string where "STORAGE_FILTERS_KEY = ''filters''"

definition STORAGE_LIMIT_KEY :: string where "STORAGE_LIMIT_KEY = ''limit''"

definition STORAGE_SORTER_KEY :: string where "STORAGE_SORTER_KEY = ''sorter''"

record ExperimentListPage =
  xl_pagination :: Pagination
  xl_total :: int
  xl_filters :: ExperimentFilters
  xl_sorter :: ApiSorter
  xl_search :: string
  xl_experiments :: "ExperimentItem list option"
  xl_selectedRowKeys :: "string list"

text \<open>The page as mounted with the limit, the filters and the sorter that the storage held, or their defaults.\<close>

definition mount_experiment_list :: "int \<Rightarrow> ExperimentFilters \<Rightarrow> ApiSorter \<Rightarrow> ExperimentListPage" where
  "mount_experiment_list initLimit initFilters initSorter =
     \<lparr>xl_pagination = \<lparr>page_limit = initLimit, page_offset = 0\<rparr>, xl_total = 0, xl_filters = initFilters,
      xl_sorter = initSorter, xl_search = [], xl_experiments = None, xl_selectedRowKeys = []\<rparr>"

text \<open>What the storage writes: a key whose value is \<open>undefined\<close> does not reach the text.\<close>

definition filters_json :: "ExperimentFilters \<Rightarrow> js" where
  "filters_json f = Obj ([(''labels'', js_opt js_strs (ef_labels f)), (''showArchived'', Bool (ef_showArchived f)),
     (''states'', js_strs (ef_states f)), (''username'', js_opt Str (ef_username f))])"

definition sorter_json :: "ApiSorter \<Rightarrow> js" where
  "sorter_json s = Obj [(''descend'', Bool (sorter_descend s)), (''key'', Str (sorter_key s))]"

section \<open>The selection\<close>

definition hasFiltersApplied :: "ExperimentFilters \<Rightarrow> bool" where
  "hasFiltersApplied filters \<longleftrightarrow> ef_showArchived filters \<or> ALL_VALUE \<notin> set (ef_states filters)
     \<or> ef_username filters \<notin> {None, Some []}"

definition experimentMap :: "ExperimentItem list option \<Rightarrow> (string \<times> ExperimentItem) list" where
  "experimentMap experiments = fold (\<lambda>experiment. obj_put (show_int (exp_id experiment)) experiment)
     (case experiments of None \<Rightarrow> [] | Some es \<Rightarrow> es) []"

definition selectedExperiments :: "ExperimentListPage \<Rightarrow> ExperimentItem option list" where
  "selectedExperiments pg = map (map_of (experimentMap (xl_experiments pg))) (xl_selectedRowKeys pg)"

record Tracker =
  hasActivatable :: bool
  hasArchivable :: bool
  hasCancelable :: bool
  hasKillable :: bool
  hasPausable :: bool
  hasUnarchivable :: bool

definition no_actions :: Tracker where
  "no_actions = \<lparr>hasActivatable = False, hasArchivable = False, hasCancelable = False, hasKillable = False,
     hasPausable = False, hasUnarchivable = False\<rparr>"

definition track :: "ExperimentItem \<Rightarrow> Tracker \<Rightarrow> Tracker" where
  "track experiment tracker =
     (let isArchivable = (\<not> exp_archived experiment \<and> exp_state experiment \<in> terminalRunStates);
          isCancelable = (exp_state experiment \<in> set cancellableRunStates);
          isKillable = isTaskKillable (RunS (exp_state experiment));
          isActivatable = (exp_state experiment = RunState_Paused);
          isPausable = (exp_state experiment = RunState_Active);
          t = tracker;
          t = (if \<not> hasArchivable t \<and> isArchivable then t\<lparr>hasArchivable := True\<rparr> else t);
          t = (if \<not> hasUnarchivable t \<and> exp_archived experiment then t\<lparr>hasUnarchivable := True\<rparr> else t);
          t = (if \<not> hasCancelable t \<and> isCancelable then t\<lparr>hasCancelable := True\<rparr> else t);
          t = (if \<not> hasKillable t \<and> isKillable then t\<lparr>hasKillable := True\<rparr> else t);
          t = (if \<not> hasActivatable t \<and> isActivatable then t\<lparr>hasActivatable := True\<rparr> else t)
      in if \<not> hasPausable t \<and> isPausable then t\<lparr>hasPausable := True\<rparr> else t)"

text \<open>The loop over the selection reads \<open>experiment.archived\<close> first, which throws for \<open>undefined\<close>.\<close>

fun track_all :: "ExperimentItem option list \<Rightarrow> Tracker \<Rightarrow> Tracker result" where
  "track_all [] tracker = Inr tracker"
| "track_all (None # es) tracker = Inl TypeError"
| "track_all (Some e # es) tracker = track_all es (track e tracker)"

text \<open>Rendering the page computes the tracker; an exception in it takes the page down.\<close>

definition render_tracker :: "ExperimentListPage \<Rightarrow> Tracker result" where
  "render_tracker pg = track_all (selectedExperiments pg) no_actions"

section \<open>Fetching\<close>

text \<open>What the server answers: the list and its total, actions on experiments, and the requests for TensorBoards.\<close>

record Server =
  srv_list :: "nat \<Rightarrow> Request \<Rightarrow> js + V1Experiment list option \<times> int option"
  srv_action :: "nat \<Rightarrow> Request \<Rightarrow> js + unit"
  srv_http :: "nat \<Rightarrow> Request \<Rightarrow> js + js"

definition run_handler :: "(js \<Rightarrow> bool) \<Rightarrow> js \<Rightarrow> 's Web \<Rightarrow> 's Web" where
  "run_handler isCancel e w = w\<lparr>web_app := snd (handleError isCancel e (web_app w))\<rparr>"

definition fetchExperiments ::
  "(js \<Rightarrow> bool) \<Rightarrow> Server \<Rightarrow> ExperimentListPage \<Rightarrow> 's Web \<Rightarrow> ExperimentListPage \<times> 's Web" where
  "fetchExperiments isCancel srv pg w =
     (case getExperimentList isCancel (srv_list srv) (xl_sorter pg) (xl_pagination pg) (xl_filters pg)
         (Some (xl_search pg)) w of
        (Inr (experiments, total'), w) \<Rightarrow>
          (pg\<lparr>xl_total := (case total' of Some t \<Rightarrow> t | None \<Rightarrow> 0), xl_experiments := Some experiments\<rparr>, w)
      | (Inl _, w) \<Rightarrow> (pg, run_handler isCancel (Obj [(''message'', Str ''Unable to fetch experiments.''),
          (''silent'', Bool True), (''type'', js_type ErrorType_Api)]) w))"

section \<open>Changing filters, pages and sorting\<close>

definition first_page :: "ExperimentListPage \<Rightarrow> ExperimentListPage" where
  "first_page pg = pg\<lparr>xl_pagination := (xl_pagination pg)\<lparr>page_offset := 0\<rparr>\<rparr>"

definition handleSearchChange :: "string \<Rightarrow> ExperimentListPage \<Rightarrow> ExperimentListPage" where
  "handleSearchChange value pg = first_page (pg\<lparr>xl_search := value\<rparr>)"

text \<open>Handlers that write to the storage return the page and the storage.\<close>

definition handleFilterChange ::
  "'s Store \<Rightarrow> Storage \<Rightarrow> ExperimentFilters \<Rightarrow> ExperimentListPage \<times> 's \<Rightarrow> (ExperimentListPage \<times> 's) result" where
  "handleFilterChange ops storage filters = (\<lambda>(pg, s).
     bind_exn (storage_set ops storage s STORAGE_FILTERS_KEY (filters_json filters)) (\<lambda>s.
     Inr (first_page (pg\<lparr>xl_filters := filters\<rparr>), s)))"

definition handleArchiveChange ::
  "'s Store \<Rightarrow> Storage \<Rightarrow> bool \<Rightarrow> ExperimentListPage \<times> 's \<Rightarrow> (ExperimentListPage \<times> 's) result" where
  "handleArchiveChange ops storage v pg =
     handleFilterChange ops storage ((xl_filters (fst pg))\<lparr>ef_showArchived := v\<rparr>) pg"

text \<open>A value that is not a string, as \<open>None\<close>, is ignored.\<close>

definition handleStateChange ::
  "'s Store \<Rightarrow> Storage \<Rightarrow> string option \<Rightarrow> ExperimentListPage \<times> 's \<Rightarrow> (ExperimentListPage \<times> 's) result" where
  "handleStateChange ops storage v pg = (case v of
      None \<Rightarrow> Inr pg
    | Some state \<Rightarrow> handleFilterChange ops storage ((xl_filters (fst pg))\<lparr>ef_states := [state]\<rparr>) pg)"

definition handleUserChange ::
  "'s Store \<Rightarrow> Storage \<Rightarrow> string \<Rightarrow> ExperimentListPage \<times> 's \<Rightarrow> (ExperimentListPage \<times> 's) result" where
  "handleUserChange ops storage v pg = handleFilterChange ops storage
     ((xl_filters (fst pg))\<lparr>ef_username := (if v = ALL_VALUE then None else Some v)\<rparr>) pg"

definition handleLabelsChange ::
  "'s Store \<Rightarrow> Storage \<Rightarrow> string list \<Rightarrow> ExperimentListPage \<times> 's \<Rightarrow> (ExperimentListPage \<times> 's) result" where
  "handleLabelsChange ops storage labels pg =
     handleFilterChange ops storage ((xl_filters (fst pg))\<lparr>ef_labels := Some labels\<rparr>) pg"

text \<open>The table reports its page size and current page, and the column and order it is sorted by.\<close>

definition handleTableChange ::
  "'s Store \<Rightarrow> Storage \<Rightarrow> string list \<Rightarrow> int \<Rightarrow> int \<Rightarrow> string option \<Rightarrow> string option
    \<Rightarrow> ExperimentListPage \<times> 's \<Rightarrow> (ExperimentListPage \<times> 's) result" where
  "handleTableChange ops storage columnKeys pageSize current columnKey order = (\<lambda>(pg, s). (case columnKey of
      None \<Rightarrow> Inr (pg, s)
    | Some key \<Rightarrow>
        if key = [] \<or> key \<notin> set columnKeys then Inr (pg, s)
        else
          let sorter = \<lparr>sorter_descend = (order = Some ''descend''), sorter_key = key\<rparr> in
          bind_exn (storage_set ops storage s STORAGE_SORTER_KEY (sorter_json sorter)) (\<lambda>s.
          bind_exn (storage_set ops storage s STORAGE_LIMIT_KEY (js_int pageSize)) (\<lambda>s.
          Inr (pg\<lparr>xl_sorter := sorter,
            xl_pagination := (xl_pagination pg)\<lparr>page_limit := pageSize, page_offset := (current - 1) * pageSize\<rparr>,
            xl_selectedRowKeys := []\<rparr>, s)))))"

definition handleTableRowSelect :: "string list \<Rightarrow> ExperimentListPage \<Rightarrow> ExperimentListPage" where
  "handleTableRowSelect rowKeys pg = pg\<lparr>xl_selectedRowKeys := rowKeys\<rparr>"

section \<open>Batch actions\<close>

fun action_api :: "Action \<Rightarrow> (int, unit, unit) DetApi option" where
  "action_api Action_Activate = Some activateExperiment"
| "action_api Action_Archive = Some archiveExperiment"
| "action_api Action_Cancel = Some cancelExperiment"
| "action_api Action_Kill = Some killExperiment"
| "action_api Action_Pause = Some pauseExperiment"
| "action_api Action_Unarchive = Some unarchiveExperiment"
| "action_api Action_OpenTensorBoard = None"

text \<open>
  \<open>Promise.all\<close>: every call is made, and the first failure is the result; which of several failures comes first in
  time is not modelled.  Reading the number of an \<open>undefined\<close> experiment throws before any further call; that is the
  result then, whatever becomes of the calls already made.
\<close>

fun act_on_all ::
  "(js \<Rightarrow> bool) \<Rightarrow> Server \<Rightarrow> (int, unit, unit) DetApi \<Rightarrow> ExperimentItem option list \<Rightarrow> 's Web \<Rightarrow> failure option \<times> 's Web" where
  "act_on_all isCancel srv api [] w = (None, w)"
| "act_on_all isCancel srv api (None # es) w = (Some (Raises TypeError), w)"
| "act_on_all isCancel srv api (Some e # es) w =
     (case generateDetApi isCancel (srv_action srv) api (exp_id e) w of
        (r, w) \<Rightarrow> (case act_on_all isCancel srv api es w of
            (f, w) \<Rightarrow> (case r of Inl g \<Rightarrow> (if None \<in> set es then f else Some g, w) | Inr _ \<Rightarrow> (f, w))))"

definition sendBatchActions ::
  "'s Store \<Rightarrow> (js \<Rightarrow> bool) \<Rightarrow> (codec \<Rightarrow> js \<Rightarrow> js + js) \<Rightarrow> Server \<Rightarrow> Action \<Rightarrow> ExperimentListPage \<Rightarrow> 's Web
    \<Rightarrow> (failure + Command option) \<times> 's Web" where
  "sendBatchActions ops isCancel dec srv action pg w = (case action_api action of
      None \<Rightarrow>
        if None \<in> set (selectedExperiments pg) then (Inl (Raises TypeError), w)
        else (case openOrCreateTensorboard ops isCancel dec (srv_http srv)
                \<lparr>src_ids = map (exp_id \<circ> the) (selectedExperiments pg), src_type = TBSourceType_Experiment\<rparr> w of
            (Inr tb, w) \<Rightarrow> (Inr (Some tb), w)
          | (Inl f, w) \<Rightarrow> (Inl f, w))
    | Some api \<Rightarrow> (case act_on_all isCancel srv api (selectedExperiments pg) w of
          (None, w) \<Rightarrow> (Inr None, w)
        | (Some f, w) \<Rightarrow> (Inl f, w)))"

definition batch_error :: "Action \<Rightarrow> js \<Rightarrow> js" where
  "batch_error action e = Obj [
     (''error'', e),
     (''level'', js_level ErrorLevel_Error),
     (''message'', get_prop e ''message''),
     (''publicMessage'', Str ''Please try again later.''),
     (''publicSubject'', Str (if action = Action_OpenTensorBoard
        then ''Unable to View TensorBoard for Selected Experiments''
        else ''Unable to '' @ str_Action action @ '' Selected Experiments'')),
     (''silent'', Bool False),
     (''type'', js_type ErrorType_Server)]"

text \<open>The windows that are opened, the page and the state of the browser; \<open>None\<close> when a cast has failed.\<close>

definition handleBatchAction ::
  "'s Store \<Rightarrow> (js \<Rightarrow> bool) \<Rightarrow> (codec \<Rightarrow> js \<Rightarrow> js + js) \<Rightarrow> Server \<Rightarrow> Action \<Rightarrow> ExperimentListPage \<Rightarrow> 's Web
    \<Rightarrow> (Nav list \<times> ExperimentListPage \<times> 's Web) option" where
  "handleBatchAction ops isCancel dec srv action pg w =
     (let fail = (\<lambda>f w. map_option (\<lambda>e. ([], pg, run_handler isCancel (batch_error action e) w)) (caught f))
      in case sendBatchActions ops isCancel dec srv action pg w of
           (Inl f, w) \<Rightarrow> fail f w
         | (Inr result, w) \<Rightarrow>
             (case (case result of Some c \<Rightarrow> openCommand (web_env w) (ACommand c) | None \<Rightarrow> Inr []) of
                Inl e \<Rightarrow> fail (Raises e) w
              | Inr navs \<Rightarrow>
                  (let (pg, w) = fetchExperiments isCancel srv (pg\<lparr>xl_selectedRowKeys := []\<rparr>) w
                   in Some (navs, pg, w))))"

section \<open>Lemmas\<close>

lemma find_snoc: "find P (xs @ [x]) = (case find P xs of Some y \<Rightarrow> Some y | None \<Rightarrow> if P x then Some x else None)"
  by (induction xs) auto

lemma map_of_experimentMap:
  "map_of (fold (\<lambda>e. obj_put (show_int (exp_id e)) e) es m) k
    = (case find (\<lambda>e. show_int (exp_id e) = k) (rev es) of Some e \<Rightarrow> Some e | None \<Rightarrow> map_of m k)"
proof (induction es arbitrary: m)
  case (Cons e es)
  show ?case by (simp add: Cons.IH find_snoc split: option.splits)
qed simp

lemma raise_flag:
  "(if \<not> hasArchivable t \<and> c then t\<lparr>hasArchivable := True\<rparr> else t) = t\<lparr>hasArchivable := hasArchivable t \<or> c\<rparr>"
  "(if \<not> hasUnarchivable t \<and> c then t\<lparr>hasUnarchivable := True\<rparr> else t) = t\<lparr>hasUnarchivable := hasUnarchivable t \<or> c\<rparr>"
  "(if \<not> hasCancelable t \<and> c then t\<lparr>hasCancelable := True\<rparr> else t) = t\<lparr>hasCancelable := hasCancelable t \<or> c\<rparr>"
  "(if \<not> hasKillable t \<and> c then t\<lparr>hasKillable := True\<rparr> else t) = t\<lparr>hasKillable := hasKillable t \<or> c\<rparr>"
  "(if \<not> hasActivatable t \<and> c then t\<lparr>hasActivatable := True\<rparr> else t) = t\<lparr>hasActivatable := hasActivatable t \<or> c\<rparr>"
  "(if \<not> hasPausable t \<and> c then t\<lparr>hasPausable := True\<rparr> else t) = t\<lparr>hasPausable := hasPausable t \<or> c\<rparr>"
  for t :: Tracker
  by (cases t; auto)+

lemma track_flags:
  "hasArchivable (track e t) \<longleftrightarrow> hasArchivable t \<or> \<not> exp_archived e \<and> exp_state e \<in> terminalRunStates"
  "hasUnarchivable (track e t) \<longleftrightarrow> hasUnarchivable t \<or> exp_archived e"
  "hasCancelable (track e t) \<longleftrightarrow> hasCancelable t \<or> exp_state e \<in> set cancellableRunStates"
  "hasKillable (track e t) \<longleftrightarrow> hasKillable t \<or> isTaskKillable (RunS (exp_state e))"
  "hasActivatable (track e t) \<longleftrightarrow> hasActivatable t \<or> exp_state e = RunState_Paused"
  "hasPausable (track e t) \<longleftrightarrow> hasPausable t \<or> exp_state e = RunState_Active"
  unfolding track_def Let_def raise_flag by simp_all

lemma track_all_error: "None \<in> set es \<Longrightarrow> track_all es t = Inl TypeError"
  by (induction es t rule: track_all.induct) auto

lemma track_all_ok: "\<exists>t'. track_all (map Some es) t = Inr t'
    \<and> (hasArchivable t' \<longleftrightarrow> hasArchivable t \<or> (\<exists>e \<in> set es. \<not> exp_archived e \<and> exp_state e \<in> terminalRunStates))
    \<and> (hasUnarchivable t' \<longleftrightarrow> hasUnarchivable t \<or> (\<exists>e \<in> set es. exp_archived e))
    \<and> (hasCancelable t' \<longleftrightarrow> hasCancelable t \<or> (\<exists>e \<in> set es. exp_state e \<in> set cancellableRunStates))
    \<and> (hasKillable t' \<longleftrightarrow> hasKillable t \<or> (\<exists>e \<in> set es. isTaskKillable (RunS (exp_state e))))
    \<and> (hasActivatable t' \<longleftrightarrow> hasActivatable t \<or> (\<exists>e \<in> set es. exp_state e = RunState_Paused))
    \<and> (hasPausable t' \<longleftrightarrow> hasPausable t \<or> (\<exists>e \<in> set es. exp_state e = RunState_Active))"
proof (induction es arbitrary: t)
  case (Cons e es)
  obtain t' where t': "track_all (map Some es) (track e t) = Inr t'"
    "hasArchivable t' \<longleftrightarrow> hasArchivable (track e t) \<or> (\<exists>e \<in> set es. \<not> exp_archived e \<and> exp_state e \<in> terminalRunStates)"
    "hasUnarchivable t' \<longleftrightarrow> hasUnarchivable (track e t) \<or> (\<exists>e \<in> set es. exp_archived e)"
    "hasCancelable t' \<longleftrightarrow> hasCancelable (track e t) \<or> (\<exists>e \<in> set es. exp_state e \<in> set cancellableRunStates)"
    "hasKillable t' \<longleftrightarrow> hasKillable (track e t) \<or> (\<exists>e \<in> set es. isTaskKillable (RunS (exp_state e)))"
    "hasActivatable t' \<longleftrightarrow> hasActivatable (track e t) \<or> (\<exists>e \<in> set es. exp_state e = RunState_Paused)"
    "hasPausable t' \<longleftrightarrow> hasPausable (track e t) \<or> (\<exists>e \<in> set es. exp_state e = RunState_Active)"
    using Cons.IH [of "track e t"] by blast
  show ?case by (intro exI [of _ t']) (simp only: t' track_flags list.map track_all.simps list.set bex_simps disj_assoc simp_thms)
qed simp

lemma action_not_stubbed: "action_api action = Some api \<Longrightarrow> da_stubbedResponse api = None"
  by (cases action) (auto simp: activateExperiment_def archiveExperiment_def cancelExperiment_def killExperiment_def
      pauseExperiment_def unarchiveExperiment_def experiment_action_def det_api_def)

lemma act_on_all_promise:
  "act_on_all isCancel srv api (map Some es) w
     = promise_all (\<lambda>e. generateDetApi isCancel (srv_action srv) api (exp_id e)) es w"
  by (induction es arbitrary: w) (auto split: prod.splits sum.splits)

lemma act_on_all_sends:
  assumes "da_stubbedResponse api = None"
  shows "web_requests (snd (act_on_all isCancel srv api (map Some es) w))
      = web_requests w @ map (\<lambda>e. det_request api (exp_id e) w) es"
  unfolding act_on_all_promise by (rule request_call.all_sends [OF det_call [where api = "\<lambda>_. api", OF assms]])

lemma find_mem: "find P xs = Some x \<Longrightarrow> x \<in> set xs \<and> P x"
  by (induction xs) (auto split: if_splits)

lemma selected_present:
  "(None \<in> set (selectedExperiments pg)) = (\<exists>k \<in> set (xl_selectedRowKeys pg).
     k \<notin> (\<lambda>e. show_int (exp_id e)) ` set (case xl_experiments pg of None \<Rightarrow> [] | Some es \<Rightarrow> es))"
proof -
  have "map_of (experimentMap (xl_experiments pg)) k = None \<longleftrightarrow>
      k \<notin> (\<lambda>e. show_int (exp_id e)) ` set (case xl_experiments pg of None \<Rightarrow> [] | Some es \<Rightarrow> es)" for k
    by (auto simp: experimentMap_def map_of_experimentMap find_None_iff image_iff split: option.splits dest!: find_mem)
  then show ?thesis unfolding selectedExperiments_def by (auto simp: image_iff) (metis option.exhaust)+
qed

lemma selected_Some: "None \<notin> set ys \<Longrightarrow> ys = map Some (map the ys)"
  by (induction ys) auto

lemma fetchExperiments_selection: "xl_selectedRowKeys (fst (fetchExperiments isCancel srv pg w)) = xl_selectedRowKeys pg"
  by (auto simp: fetchExperiments_def split: prod.splits sum.splits)

section \<open>Properties\<close>

text \<open>
  The buttons of a batch are the actions that some selected experiment allows, as long as every selected experiment
  is in the list.  Fetching the list does not change the selection; when an experiment that is selected has dropped out
  of the list meanwhile, computing the buttons throws and the page cannot be rendered.
\<close>

theorem batch_buttons:
  defines "present \<equiv> \<lambda>pg. \<forall>k \<in> set (xl_selectedRowKeys pg). k \<in> (\<lambda>e. show_int (exp_id e)) ` set (case xl_experiments pg of None \<Rightarrow> [] | Some es \<Rightarrow> es)"
  shows "(if present pg then \<exists>es t. selectedExperiments pg = map Some es \<and> render_tracker pg = Inr t
        \<and> (hasArchivable t \<longleftrightarrow> (\<exists>e \<in> set es. \<not> exp_archived e \<and> exp_state e \<in> terminalRunStates))
        \<and> (hasUnarchivable t \<longleftrightarrow> (\<exists>e \<in> set es. exp_archived e))
        \<and> (hasCancelable t \<longleftrightarrow> (\<exists>e \<in> set es. exp_state e \<in> set cancellableRunStates))
        \<and> (hasKillable t \<longleftrightarrow> (\<exists>e \<in> set es. isTaskKillable (RunS (exp_state e))))
        \<and> (hasActivatable t \<longleftrightarrow> (\<exists>e \<in> set es. exp_state e = RunState_Paused))
        \<and> (hasPausable t \<longleftrightarrow> (\<exists>e \<in> set es. exp_state e = RunState_Active))
      else render_tracker pg = Inl TypeError)
    \<and> xl_selectedRowKeys (fst (fetchExperiments isCancel srv pg w)) = xl_selectedRowKeys pg"
proof (rule conjI)
  show "xl_selectedRowKeys (fst (fetchExperiments isCancel srv pg w)) = xl_selectedRowKeys pg"
    by (rule fetchExperiments_selection)
  have p: "present pg \<longleftrightarrow> None \<notin> set (selectedExperiments pg)" unfolding present_def selected_present by blast
  show "if present pg then \<exists>es t. selectedExperiments pg = map Some es \<and> render_tracker pg = Inr t
        \<and> (hasArchivable t \<longleftrightarrow> (\<exists>e \<in> set es. \<not> exp_archived e \<and> exp_state e \<in> terminalRunStates))
        \<and> (hasUnarchivable t \<longleftrightarrow> (\<exists>e \<in> set es. exp_archived e))
        \<and> (hasCancelable t \<longleftrightarrow> (\<exists>e \<in> set es. exp_state e \<in> set cancellableRunStates))
        \<and> (hasKillable t \<longleftrightarrow> (\<exists>e \<in> set es. isTaskKillable (RunS (exp_state e))))
        \<and> (hasActivatable t \<longleftrightarrow> (\<exists>e \<in> set es. exp_state e = RunState_Paused))
        \<and> (hasPausable t \<longleftrightarrow> (\<exists>e \<in> set es. exp_state e = RunState_Active))
      else render_tracker pg = Inl TypeError"
  proof (cases "None \<in> set (selectedExperiments pg)")
    case True
    then show ?thesis by (simp add: p render_tracker_def track_all_error)
  next
    case False
    define es where "es = map the (selectedExperiments pg)"
    have es: "selectedExperiments pg = map Some es" unfolding es_def by (rule selected_Some [OF False])
    obtain t where "track_all (map Some es) no_actions = Inr t"
      "hasArchivable t \<longleftrightarrow> (\<exists>e \<in> set es. \<not> exp_archived e \<and> exp_state e \<in> terminalRunStates)"
      "hasUnarchivable t \<longleftrightarrow> (\<exists>e \<in> set es. exp_archived e)"
      "hasCancelable t \<longleftrightarrow> (\<exists>e \<in> set es. exp_state e \<in> set cancellableRunStates)"
      "hasKillable t \<longleftrightarrow> (\<exists>e \<in> set es. isTaskKillable (RunS (exp_state e)))"
      "hasActivatable t \<longleftrightarrow> (\<exists>e \<in> set es. exp_state e = RunState_Paused)"
      "hasPausable t \<longleftrightarrow> (\<exists>e \<in> set es. exp_state e = RunState_Active)"
      using track_all_ok [of es no_actions] by (auto simp: no_actions_def)
    with es False show ?thesis unfolding p render_tracker_def by auto
  qed
qed

definition sample_experiment :: "int \<Rightarrow> RunState \<Rightarrow> ExperimentItem" where
  "sample_experiment i s = \<lparr>exp_archived = False, exp_endTime = None, exp_id = i, exp_labels = [], exp_name = ''e'', exp_numTrials = 1,
     exp_progress = None, exp_startTime = ''t'', exp_state = s, exp_url = ''/experiments/1'', exp_username = ''ann''\<rparr>"

definition sample_page :: ExperimentListPage where
  "sample_page = (mount_experiment_list 10 defaultFilters defaultSorter)
     \<lparr>xl_experiments := Some [sample_experiment 1 RunState_Active, sample_experiment 2 RunState_Completed],
      xl_selectedRowKeys := [''2'', ''1'']\<rparr>"

definition sample_server :: Server where
  "sample_server = \<lparr>srv_list = (\<lambda>_ _. Inr (None, None)), srv_action = (\<lambda>_ _. Inr ()), srv_http = (\<lambda>_ _. Inr Null)\<rparr>"

theorem batch_buttons_witness:
  "\<exists>t. render_tracker sample_page = Inr t \<and> hasArchivable t \<and> hasPausable t \<and> \<not> hasActivatable t"
proof -
  have s: "show_int 1 = ''1''" "show_int 2 = ''2''" by code_simp+
  have sel: "selectedExperiments sample_page = map Some [sample_experiment 2 RunState_Completed, sample_experiment 1 RunState_Active]"
    by (simp add: selectedExperiments_def sample_page_def mount_experiment_list_def experimentMap_def sample_experiment_def s)
  have "\<forall>k \<in> set (xl_selectedRowKeys sample_page). k \<in> (\<lambda>e. show_int (exp_id e)) `
      set (case xl_experiments sample_page of None \<Rightarrow> [] | Some es \<Rightarrow> es)"
    by (simp add: sample_page_def sample_experiment_def s)
  then obtain es t where t: "selectedExperiments sample_page = map Some es" "render_tracker sample_page = Inr t"
    "hasArchivable t \<longleftrightarrow> (\<exists>e \<in> set es. \<not> exp_archived e \<and> exp_state e \<in> terminalRunStates)"
    "hasActivatable t \<longleftrightarrow> (\<exists>e \<in> set es. exp_state e = RunState_Paused)"
    "hasPausable t \<longleftrightarrow> (\<exists>e \<in> set es. exp_state e = RunState_Active)"
    using batch_buttons [of sample_page axios_isCancel sample_server sample_web] by auto
  have "es = [sample_experiment 2 RunState_Completed, sample_experiment 1 RunState_Active]"
    using t(1) unfolding sel by (simp only: inj_map_eq_map inj_Some)
  with t show ?thesis by (simp add: sample_experiment_def terminalRunStates_def)
qed

text \<open>
  C8: A batch action is requested for every selected experiment, whatever its state.  When all selected experiments are
  in the list, exactly one request per selected experiment is sent, in the order of the selection.  If all of them
  succeed the selection is emptied and the list is fetched again; if one fails the selection stays, the others have
  been sent nevertheless, and the user is told that the action failed.
\<close>

theorem batch_action:
  assumes "action_api action = Some api" and "selectedExperiments pg = map Some es"
    and "act_on_all isCancel srv api (map Some es) w = (f, w1)"
  shows "web_requests w1 = web_requests w @ map (\<lambda>e. det_request api (exp_id e) w) es
    \<and> (f = None \<longrightarrow> (\<exists>pg' w'. handleBatchAction ops isCancel dec srv action pg w = Some ([], pg', w')
          \<and> xl_selectedRowKeys pg' = [] \<and> length (web_requests w') = length (web_requests w1) + 1))
    \<and> (\<forall>e. f = Some (Throws e) \<longrightarrow> handleBatchAction ops isCancel dec srv action pg w
          = Some ([], pg, run_handler isCancel (batch_error action e) w1))"
proof (intro conjI impI allI)
  show "web_requests w1 = web_requests w @ map (\<lambda>e. det_request api (exp_id e) w) es"
    using act_on_all_sends [OF action_not_stubbed [OF assms(1)], of isCancel srv es w] assms(3) by simp
  have send: "sendBatchActions ops isCancel dec srv action pg w
      = (case f of None \<Rightarrow> (Inr None, w1) | Some f \<Rightarrow> (Inl f, w1))"
    by (auto simp: sendBatchActions_def assms split: option.splits)
  {
    assume "f = None"
    moreover obtain pg' w' where fe: "fetchExperiments isCancel srv (pg\<lparr>xl_selectedRowKeys := []\<rparr>) w1 = (pg', w')"
      by (cases "fetchExperiments isCancel srv (pg\<lparr>xl_selectedRowKeys := []\<rparr>) w1")
    moreover have "xl_selectedRowKeys pg' = []"
      using fetchExperiments_selection [of isCancel srv "pg\<lparr>xl_selectedRowKeys := []\<rparr>" w1] by (simp add: fe)
    moreover have "length (web_requests w') = length (web_requests w1) + 1"
      using fe by (auto simp: fetchExperiments_def getExperimentList_def Let_def run_handler_def fail_request_def split_beta
          split: sum.splits prod.splits option.splits)
    ultimately show "\<exists>pg' w'. handleBatchAction ops isCancel dec srv action pg w = Some ([], pg', w')
          \<and> xl_selectedRowKeys pg' = [] \<and> length (web_requests w') = length (web_requests w1) + 1"
      by (simp add: handleBatchAction_def send)
  next
    fix e
    assume "f = Some (Throws e)"
    then show "handleBatchAction ops isCancel dec srv action pg w
          = Some ([], pg, run_handler isCancel (batch_error action e) w1)"
      by (simp add: handleBatchAction_def send)
  }
qed

theorem batch_action_witness:
  "\<exists>pg' w'. handleBatchAction MemoryStore axios_isCancel io_decode sample_server Action_Kill sample_page sample_web
      = Some ([], pg', w') \<and> xl_selectedRowKeys pg' = [] \<and> length (web_requests w') = 3"
proof -
  have s: "show_int 1 = ''1''" "show_int 2 = ''2''" by code_simp+
  have sel: "selectedExperiments sample_page = map Some [sample_experiment 2 RunState_Completed, sample_experiment 1 RunState_Active]"
    by (simp add: selectedExperiments_def sample_page_def mount_experiment_list_def experimentMap_def sample_experiment_def s)
  obtain f w1 where act: "act_on_all axios_isCancel sample_server killExperiment
      (map Some [sample_experiment 2 RunState_Completed, sample_experiment 1 RunState_Active]) sample_web = (f, w1)"
    by (metis surj_pair)
  then have "f = None"
    by (auto simp: generateDetApi_def Let_def sample_server_def killExperiment_def experiment_action_def det_api_def noOp_def)
  with batch_action [OF action_api.simps(4) sel act, of MemoryStore io_decode]
  show ?thesis by (auto simp: sample_web_def)
qed

end
