(* ===== verification/Trial_Details.thy ===== *)
theory Trial_Details
  imports Contexts Trial_Util
begin

text \<open>
  The page of a trial (\<^verbatim>\<open>pages/TrialDetails.tsx\<close>) with the dialog that creates an experiment
  (\<^verbatim>\<open>components/CreateExperimentModal.tsx\<close>): the steps it lists and their filter, the choice of metrics, and the
  continuation of a trial, from the fresh configuration through the form and the editor to the request.
  YAML is read and written by \<^verbatim>\<open>js-yaml\<close>, a parameter; JSON text is a list of tokens, and \<open>render\<close> is its notation.
\<close>

section \<open>Configurations\<close>

datatype TrialInfoFilter = TrialInfoFilter_Checkpoint | TrialInfoFilter_Validation | TrialInfoFilter_CheckpointOrValidation

fun str_TrialInfoFilter :: "TrialInfoFilter \<Rightarrow> string" where
  "str_TrialInfoFilter TrialInfoFilter_Checkpoint = ''Has Checkpoint''"
| "str_TrialInfoFilter TrialInfoFilter_Validation = ''Has Validation''"
| "str_TrialInfoFilter TrialInfoFilter_CheckpointOrValidation = ''Has Checkpoint or Validation''"

text \<open>\<open>Object.entries\<close> of anything but \<open>null\<close> and \<open>undefined\<close>.\<close>

fun object_entries :: "js \<Rightarrow> (string \<times> js) list" where
  "object_entries (Str s) = zip (map show_nat [0..<length s]) (map (\<lambda>c. Str [c]) s)"
| "object_entries v = spread v"

text \<open>The unit and the value of the first entry of the maximal length; \<open>None\<close> without a configuration.\<close>

definition getTrialLength :: "js \<Rightarrow> (string \<times> js) option result" where
  "getTrialLength config =
     (if \<not> truthy config then Inr None
      else bind_exn (js_get config ''searcher'') (\<lambda>searcher.
           bind_exn (js_get searcher ''max_length'') (\<lambda>max_length.
           Inr (Some (case object_entries (js_or max_length (Obj [])) of
               [] \<Rightarrow> (''batches'', Num (Fin 100))
             | e # _ \<Rightarrow> e)))))"

definition setTrialLength :: "js \<Rightarrow> js \<Rightarrow> js result" where
  "setTrialLength experimentConfig len = bind_exn (getTrialLength experimentConfig) (\<lambda>trialLength.
     case trialLength of
       None \<Rightarrow> Inr experimentConfig
     | Some (u, _) \<Rightarrow>
         update_in experimentConfig [''searcher''] (\<lambda>searcher. js_set searcher ''max_length'' (Obj [(u, len)])))"

definition trialContinueConfig :: "js \<Rightarrow> js \<Rightarrow> int \<Rightarrow> js result" where
  "trialContinueConfig experimentConfig trialHparams trialId =
     bind_exn (js_get experimentConfig ''searcher'') (\<lambda>searcher.
     bind_exn (js_get searcher ''max_length'') (\<lambda>max_length.
     bind_exn (js_get searcher ''metric'') (\<lambda>metric.
     bind_exn (js_get searcher ''smaller_is_better'') (\<lambda>smaller_is_better.
     Inr (merge experimentConfig (Obj [
       (''hyperparameters'', Obj (trialHParamsToExperimentHParams (object_entries trialHparams))),
       (''searcher'', Obj [
          (''max_length'', max_length),
          (''metric'', metric),
          (''name'', Str ''single''),
          (''smaller_is_better'', smaller_is_better),
          (''source_trial_id'', js_int trialId)])]))))))"

section \<open>The page\<close>

definition TD_STORAGE_PATH :: string where "TD_STORAGE_PATH = ''trial-detail''"

definition TD_STORAGE_LIMIT_KEY :: string where "TD_STORAGE_LIMIT_KEY = ''limit''"

definition STORAGE_CHECKPOINT_VALIDATION_KEY :: string where
  "STORAGE_CHECKPOINT_VALIDATION_KEY = ''checkpoint-validation''"

definition STORAGE_CHART_METRICS_KEY :: string where "STORAGE_CHART_METRICS_KEY = ''metrics/chart''"

definition STORAGE_TABLE_METRICS_KEY :: string where "STORAGE_TABLE_METRICS_KEY = ''metrics/table''"

text \<open>
  The metrics are values, because the storage may return anything for them.  The number of the trial is that of the
  route; a route whose number does not parse shows a message only.
\<close>

record TrialPage =
  tp_trialId :: int
  tp_pageSize :: int
  tp_showFilter :: string
  tp_contModalVisible :: bool
  tp_contFormVisible :: bool
  tp_showCheckpoint :: bool
  tp_contModalConfig :: string
  tp_contMaxLength :: js
  tp_contDescription :: string
  tp_contError :: js
  tp_activeCheckpoint :: "CheckpointWorkload option"
  tp_metrics :: js
  tp_defaultMetrics :: js
  tp_experiment :: "ExperimentBase option"
  tp_trial :: "TrialDetails option"
  tp_error :: "js option"
  tp_isLoading :: bool

definition mount_trial_page :: "int \<Rightarrow> int \<Rightarrow> string \<Rightarrow> TrialPage" where
  "mount_trial_page trialId initLimit initFilter =
     \<lparr>tp_trialId = trialId, tp_pageSize = initLimit, tp_showFilter = initFilter, tp_contModalVisible = False,
      tp_contFormVisible = False, tp_showCheckpoint = False, tp_contModalConfig = ''Loading'', tp_contMaxLength = Undefined,
      tp_contDescription = ''Loading'', tp_contError = Undefined, tp_activeCheckpoint = None, tp_metrics = Arr [],
      tp_defaultMetrics = Arr [], tp_experiment = None, tp_trial = None, tp_error = None, tp_isLoading = True\<rparr>"

definition tp_hparams :: "TrialPage \<Rightarrow> js" where
  "tp_hparams pg = (case tp_trial pg of Some t \<Rightarrow> tr_hparams t | None \<Rightarrow> Undefined)"

definition tp_experimentId :: "TrialPage \<Rightarrow> int option" where
  "tp_experimentId pg = map_option tr_experimentId (tp_trial pg)"

definition storageMetricsKey :: "TrialPage \<Rightarrow> string \<Rightarrow> string option" where
  "storageMetricsKey pg key =
     map_option (\<lambda>e. ''experiments/'' @ show_int (eb_id e) @ ''/'' @ key) (tp_experiment pg)"

definition storageChartMetricsKey :: "TrialPage \<Rightarrow> string option" where
  "storageChartMetricsKey pg = storageMetricsKey pg STORAGE_CHART_METRICS_KEY"

definition storageTableMetricsKey :: "TrialPage \<Rightarrow> string option" where
  "storageTableMetricsKey pg = storageMetricsKey pg STORAGE_TABLE_METRICS_KEY"

definition trial_hasFiltersApplied :: "TrialPage \<Rightarrow> bool" where
  "trial_hasFiltersApplied pg \<longleftrightarrow>
     \<not> isEqual (tp_metrics pg) (tp_defaultMetrics pg) \<or> tp_showFilter pg \<noteq> ALL_VALUE"

definition trial_workloads :: "TrialPage \<Rightarrow> WorkloadWrapper list" where
  "trial_workloads pg = (case tp_trial pg of Some t \<Rightarrow> tr_workloads t | None \<Rightarrow> [])"

definition trial_metricNames :: "(string \<Rightarrow> string \<Rightarrow> int) \<Rightarrow> TrialPage \<Rightarrow> MetricName list" where
  "trial_metricNames lc pg = extractMetricNames lc (trial_workloads pg)"

text \<open>Computed while rendering: an exception takes the page down.\<close>

definition upgradedConfig :: "TrialPage \<Rightarrow> js result" where
  "upgradedConfig pg = (case tp_experiment pg of
      None \<Rightarrow> Inr Undefined
    | Some e \<Rightarrow> if \<not> truthy (eb_configRaw e) then Inr Undefined
        else bind_exn (clone (eb_configRaw e) True) upgradeConfig)"

definition page_trialLength :: "TrialPage \<Rightarrow> (string \<times> js) option result" where
  "page_trialLength pg = bind_exn (upgradedConfig pg) getTrialLength"

section \<open>The steps\<close>

definition step_shown :: "string \<Rightarrow> Step \<Rightarrow> bool" where
  "step_shown showFilter wlStep =
     (if showFilter = str_TrialInfoFilter TrialInfoFilter_Checkpoint then hasCheckpoint (WorkloadWrapper.truncate wlStep)
      else if showFilter = str_TrialInfoFilter TrialInfoFilter_Validation then ww_validation wlStep \<noteq> None
      else if showFilter = str_TrialInfoFilter TrialInfoFilter_CheckpointOrValidation
        then ww_checkpoint wlStep \<noteq> None \<or> ww_validation wlStep \<noteq> None
      else False)"

definition workloadSteps :: "TrialPage \<Rightarrow> Step list result" where
  "workloadSteps pg = bind_exn (workloadsToSteps (trial_workloads pg)) (\<lambda>steps.
     Inr (if tp_showFilter pg = ALL_VALUE then steps else filter (step_shown (tp_showFilter pg)) steps))"

text \<open>The batch of the checkpoint whose button a row shows, if it shows one.\<close>

definition checkpointRenderer :: "Step \<Rightarrow> int option" where
  "checkpointRenderer step = (case ww_checkpoint step of
      Some c \<Rightarrow> if hasCheckpointStep step then Some (wl_numBatches c + wl_priorBatchesProcessed c) else None
    | None \<Rightarrow> None)"

text \<open>The value that a metric's column shows, and the order its header sorts by.\<close>

definition metricRenderer :: "MetricName \<Rightarrow> Step \<Rightarrow> number option" where
  "metricRenderer metricName step = (case extractMetricValue (WorkloadWrapper.truncate step) metricName of
      Some v \<Rightarrow> if truthy (Num v) then Some v else None
    | None \<Rightarrow> None)"

definition metric_column_sorter :: "MetricName \<Rightarrow> Step \<Rightarrow> Step \<Rightarrow> number" where
  "metric_column_sorter metricName a b = numericSorter
     (extractMetricValue (WorkloadWrapper.truncate a) metricName)
     (extractMetricValue (WorkloadWrapper.truncate b) metricName) False"

text \<open>\<open>splice(stateIndex, 0, column)\<close>; the index is \<open>-1\<close> when there is no state column.\<close>

definition insert_column :: "'c \<Rightarrow> ('c \<Rightarrow> bool) \<Rightarrow> 'c list \<Rightarrow> 'c list" where
  "insert_column column is_state columns =
     (let stateIndex = (if \<exists>c \<in> set columns. is_state c then length (takeWhile (\<lambda>c. \<not> is_state c) columns)
                        else length columns - 1)
      in take stateIndex columns @ column # drop stateIndex columns)"

text \<open>The sorter of the default column \<open>State\<close>: it reads the state of the training workload of both rows.\<close>

definition state_column_sorter :: "Step \<Rightarrow> Step \<Rightarrow> int result" where
  "state_column_sorter a b = (case (ww_training a, ww_training b) of
      (Some s, Some t) \<Rightarrow> Inr (runStateSorter (mw_state s) (mw_state t))
    | _ \<Rightarrow> Inl TypeError)"

section \<open>Fetching\<close>

text \<open>What the server answers to the requests of the page.\<close>

record TrialServer =
  ts_trial :: "nat \<Rightarrow> Request \<Rightarrow> js + V1GetTrialResponse"
  ts_experiment :: "nat \<Rightarrow> Request \<Rightarrow> js + V1Experiment \<times> js"
  ts_create :: "nat \<Rightarrow> Request \<Rightarrow> js + V1Experiment \<times> js"

text \<open>Only the first error is kept, and none of a request that was aborted; an error does not end the loading.\<close>

definition fetchTrialDetails ::
  "(js \<Rightarrow> bool) \<Rightarrow> TrialServer \<Rightarrow> TrialPage \<Rightarrow> 's Web \<Rightarrow> TrialPage \<times> 's Web" where
  "fetchTrialDetails isCancel srv pg w =
     (case generateDetApi isCancel (ts_trial srv) getTrialDetails (tp_trialId pg) w of
        (Inr response, w) \<Rightarrow> (pg\<lparr>tp_trial := Some response, tp_isLoading := False\<rparr>, w)
      | (Inl f, w) \<Rightarrow> (case caught f of
            Some e \<Rightarrow> if tp_error pg = None \<and> \<not> isAborted isCancel e then (pg\<lparr>tp_error := Some e\<rparr>, w) else (pg, w)
          | None \<Rightarrow> (pg, w)))"

text \<open>The effect that stops the polling once the trial has ended.\<close>

definition stops_polling :: "TrialPage \<Rightarrow> bool" where
  "stops_polling pg = (case tp_trial pg of Some t \<Rightarrow> tr_state t \<in> terminalRunStates | None \<Rightarrow> False)"

definition metrics_json :: "MetricName list \<Rightarrow> js" where
  "metrics_json ms = Arr (map (\<lambda>m. Obj [(''name'', Str (mn_name m)), (''type'', Str (str_MetricType (mn_type m)))]) ms)"

text \<open>
  The experiment of the trial, and the metrics that are selected at first: those in the storage or the searcher's
  validation metric.  The storage is read with the key of the page as it was rendered, so the first time, when the page
  has no experiment yet, with the empty key.  The second result is the path that replaces one without the experiment.
\<close>

definition load_experiment_error :: "js \<Rightarrow> js" where
  "load_experiment_error e = Obj [
     (''error'', e),
     (''message'', Str ''Failed to load experiment details.''),
     (''publicMessage'', Str ''Failed to load experiment details.''),
     (''publicSubject'', Str ''Unable to fetch Trial Experiment Detail''),
     (''silent'', Bool False),
     (''type'', js_type ErrorType_Api)]"

definition trial_default_metrics :: "(string \<Rightarrow> string \<Rightarrow> int) \<Rightarrow> ExperimentBase \<Rightarrow> TrialPage \<Rightarrow> js" where
  "trial_default_metrics lc e pg = metrics_json
     (case find (\<lambda>m. mn_name m = conf_metric (eb_config e) \<and> mn_type m = MetricType_Validation) (trial_metricNames lc pg) of
        Some m \<Rightarrow> [m] | None \<Rightarrow> [])"

definition fetchExperimentDetails ::
  "'s Store \<Rightarrow> Storage \<Rightarrow> (js \<Rightarrow> bool) \<Rightarrow> (codec \<Rightarrow> js \<Rightarrow> js + js) \<Rightarrow> (string \<Rightarrow> string \<Rightarrow> int) \<Rightarrow> TrialServer \<Rightarrow> bool
    \<Rightarrow> TrialPage \<Rightarrow> 's Web \<Rightarrow> (TrialPage \<times> string option) \<times> 's Web" where
  "fetchExperimentDetails ops storage isCancel dec lc srv experimentIdParam pg w =
     (let fail = (\<lambda>f pg path w. ((pg, path), (case caught f of
            Some e \<Rightarrow> if isCancel e then w
              else w\<lparr>web_app := snd (handleError isCancel (load_experiment_error e) (web_app w))\<rparr>
          | None \<Rightarrow> w)))
      in case tp_experimentId pg of
           None \<Rightarrow> ((pg, None), w)
         | Some experimentId \<Rightarrow>
             (case generateDetApi isCancel (ts_experiment srv) (getExperimentDetails dec) experimentId w of
                (Inl f, w) \<Rightarrow> fail f pg None w
              | (Inr response, w) \<Rightarrow>
                  (let path = (if experimentIdParam then None else Some (''/experiments/'' @ show_int experimentId
                         @ ''/trials/'' @ show_int (tp_trialId pg)));
                       default = trial_default_metrics lc response pg;
                       key = (case storageTableMetricsKey pg of Some k \<Rightarrow> k | None \<Rightarrow> []);
                       pg = pg\<lparr>tp_experiment := Some response, tp_defaultMetrics := default\<rparr>
                   in case storage_getWithDefault ops storage (web_local w) key default of
                        Inl e \<Rightarrow> fail (Raises e) pg path w
                      | Inr initMetrics \<Rightarrow> ((pg\<lparr>tp_metrics := initMetrics\<rparr>, path), w))))"

section \<open>Continuing the trial\<close>

record Yaml =
  safeDump :: "js \<Rightarrow> js + string"
  safeLoad :: "string \<Rightarrow> js + js"

definition lift_exn :: "'a result \<Rightarrow> failure + 'a" where
  "lift_exn r = (case r of Inl e \<Rightarrow> Inl (Raises e) | Inr x \<Rightarrow> Inr x)"

definition lift_throw :: "js + 'a \<Rightarrow> failure + 'a" where
  "lift_throw r = (case r of Inl e \<Rightarrow> Inl (Throws e) | Inr x \<Rightarrow> Inr x)"

text \<open>
  The configuration of the continuation as the page proposes it, unless one of the two dialogs is open.  The result is
  the page with what has been set before an exception, and the exception.
\<close>

definition continuation_description :: "TrialPage \<Rightarrow> js \<Rightarrow> string" where
  "continuation_description pg config = ''Continuation of trial '' @ show_int (tp_trialId pg) @ '', experiment''
     @ '' '' @ (case tp_experimentId pg of Some i \<Rightarrow> show_int i | None \<Rightarrow> ''undefined'')
     @ '' ('' @ js_str (get_prop config ''description'') @ '')''"

definition setFreshContinueConfig :: "Yaml \<Rightarrow> TrialPage \<Rightarrow> failure option \<times> TrialPage" where
  "setFreshContinueConfig yaml pg = (case upgradedConfig pg of
      Inl e \<Rightarrow> (Some (Raises e), pg)
    | Inr upgraded \<Rightarrow>
        if \<not> truthy upgraded \<or> \<not> truthy (tp_hparams pg) then (None, pg)
        else if tp_contModalVisible pg \<or> tp_contFormVisible pg then (None, pg)
        else case clone upgraded True of
          Inl e \<Rightarrow> (Some (Raises e), pg)
        | Inr config \<Rightarrow>
            (let newDescription = continuation_description pg config;
                 maxLength = (case page_trialLength pg of Inr (Some (_, n)) \<Rightarrow> n | _ \<Rightarrow> Undefined);
                 pg = pg\<lparr>tp_contDescription := newDescription\<rparr>;
                 pg = (if maxLength \<noteq> Undefined then pg\<lparr>tp_contMaxLength := maxLength\<rparr> else pg)
             in case bind_exn (lift_exn (bind_exn (js_set config ''description'' (Str newDescription))
                         (\<lambda>config. bind_exn (if truthy maxLength then setTrialLength config maxLength else Inr config)
                         (\<lambda>config. trialContinueConfig config (tp_hparams pg) (tp_trialId pg)))))
                       (\<lambda>newConfig. lift_throw (safeDump yaml newConfig)) of
                  Inl f \<Rightarrow> (Some f, pg)
                | Inr t \<Rightarrow> (None, pg\<lparr>tp_contModalConfig := t\<rparr>)))"

text \<open>The effect that runs whenever the function has changed, so after every change of what it reads.\<close>

definition fresh_effect :: "(js \<Rightarrow> bool) \<Rightarrow> Yaml \<Rightarrow> TrialPage \<times> 's Web \<Rightarrow> TrialPage \<times> 's Web" where
  "fresh_effect isCancel yaml = (\<lambda>(pg, w). (case setFreshContinueConfig yaml pg of
      (None, pg) \<Rightarrow> (pg, w)
    | (Some f, pg) \<Rightarrow> (case caught f of
          None \<Rightarrow> (pg, w)
        | Some e \<Rightarrow>
            (pg\<lparr>tp_contModalConfig := ''failed to load experiment config''\<rparr>,
             w\<lparr>web_app := snd (handleError isCancel (Obj [
                (''error'', e),
                (''message'', Str ''failed to load experiment config''),
                (''type'', js_type ErrorType_ApiBadResponse)]) (web_app w))\<rparr>))))"

definition handleContinueClick :: "TrialPage \<Rightarrow> TrialPage" where
  "handleContinueClick pg = pg\<lparr>tp_contFormVisible := True\<rparr>"

text \<open>The handlers call the function of the page as it was rendered, with the dialog still open.\<close>

definition handleContFormCancel :: "Yaml \<Rightarrow> TrialPage \<Rightarrow> failure option \<times> TrialPage" where
  "handleContFormCancel yaml pg =
     (case setFreshContinueConfig yaml pg of (f, pg') \<Rightarrow> (f, pg'\<lparr>tp_contFormVisible := False\<rparr>))"

definition handleContModalCancel :: "Yaml \<Rightarrow> TrialPage \<Rightarrow> failure option \<times> TrialPage" where
  "handleContModalCancel yaml pg =
     (case setFreshContinueConfig yaml pg of (f, pg') \<Rightarrow> (f, pg'\<lparr>tp_contModalVisible := False\<rparr>))"

record FormValues =
  form_description :: js
  form_maxLength :: js

definition parse_config_error :: "js \<Rightarrow> js" where
  "parse_config_error e = Obj [
     (''error'', e),
     (''message'', Str ''Failed to parse experiment config''),
     (''publicMessage'', Str ''Please check the experiment config. If the problem persists please contact support.''),
     (''publicSubject'', Str ''Failed to parse experiment config''),
     (''silent'', Bool False),
     (''type'', js_type ErrorType_Api)]"

text \<open>The configuration with the values of the form, \<open>undefined\<close> after an error.\<close>

definition updated_config :: "Yaml \<Rightarrow> FormValues \<Rightarrow> TrialPage \<Rightarrow> failure + js" where
  "updated_config yaml fv pg = bind_exn (lift_throw (safeLoad yaml (tp_contModalConfig pg)))
     (\<lambda>expConfig. lift_exn (
       bind_exn (js_set expConfig ''description'' (form_description fv)) (\<lambda>expConfig.
       bind_exn (setTrialLength expConfig (Num (parseInt (js_str (form_maxLength fv))))) (\<lambda>expConfig.
       trialContinueConfig expConfig (tp_hparams pg) (tp_trialId pg)))))"

definition updateStatesFromForm ::
  "(js \<Rightarrow> bool) \<Rightarrow> Yaml \<Rightarrow> FormValues \<Rightarrow> TrialPage \<times> 's Web \<Rightarrow> js \<times> TrialPage \<times> 's Web" where
  "updateStatesFromForm isCancel yaml fv = (\<lambda>(pg, w).
     (if \<not> truthy (tp_hparams pg) \<or> tp_trialId pg = 0 then (Undefined, pg, w)
      else case bind_exn (updated_config yaml fv pg) (\<lambda>updateConfig.
              bind_exn (lift_throw (safeDump yaml updateConfig)) (\<lambda>t. Inr (updateConfig, t))) of
        Inr (updateConfig, t) \<Rightarrow> (updateConfig, pg\<lparr>tp_contModalConfig := t\<rparr>, w)
      | Inl f \<Rightarrow> (Undefined, pg, case caught f of
            Some e \<Rightarrow> w\<lparr>web_app := snd (handleError isCancel (parse_config_error e) (web_app w))\<rparr>
          | None \<Rightarrow> w)))"

text \<open>
  The request that creates an experiment, with the text of its configuration; the text is \<open>undefined\<close> when there is no
  configuration.  \<open>createExperiment\<close> takes a string, so this is its call with a value that need not be one.
\<close>

definition createExperiment_any ::
  "(codec \<Rightarrow> js \<Rightarrow> js + js) \<Rightarrow> (js \<times> int, V1Experiment \<times> js, ExperimentBase) DetApi" where
  "createExperiment_any dec = det_api ''createExperiment''
     (\<lambda>(ex, config). decodeGetV1ExperimentRespToExperimentBase dec ex config)
     (\<lambda>(experimentConfig, parentId). (''Experiments'', ''determinedCreateExperiment'',
        [Obj [(''config'', experimentConfig), (''parentId'', js_int parentId)]]))"

lemma createExperiment_any_string:
  "da_request (createExperiment_any dec) (Str t, i) = da_request (createExperiment dec) (t, i)"
  by (simp add: createExperiment_any_def createExperiment_def det_api_def)

definition continue_error :: "js \<Rightarrow> js" where
  "continue_error e = Obj [
     (''error'', e),
     (''message'', Str ''Failed to continue trial''),
     (''publicMessage'', Str ''Check the experiment config. If the problem persists please contact support.''),
     (''publicSubject'', Str ''Failed to continue trial''),
     (''silent'', Bool False),
     (''type'', js_type ErrorType_Api)]"

definition response_message :: "js \<Rightarrow> js" where
  "response_message e = get_prop (get_prop (get_prop e ''response'') ''data'') ''message''"

text \<open>\<open>Some\<close> of the windows and the state, \<open>None\<close> when a cast has failed.  \<open>route\<close> is \<open>routeAll\<close>.\<close>

definition handleFormCreate ::
  "(json_text \<Rightarrow> string) \<Rightarrow> (string \<Rightarrow> Nav list result) \<Rightarrow> (js \<Rightarrow> bool) \<Rightarrow> (codec \<Rightarrow> js \<Rightarrow> js + js) \<Rightarrow> Yaml \<Rightarrow> TrialServer
    \<Rightarrow> FormValues \<Rightarrow> TrialPage \<times> 's Web \<Rightarrow> (Nav list \<times> TrialPage \<times> 's Web) option" where
  "handleFormCreate render route isCancel dec yaml srv fv = (\<lambda>(pg, w).
     (case tp_experimentId pg of
        None \<Rightarrow> Some ([], pg, w)
      | Some experimentId \<Rightarrow>
          if experimentId = 0 then Some ([], pg, w)
          else case updateStatesFromForm isCancel yaml fv (pg, w) of (updatedConfig, pg, w) \<Rightarrow>
            (let body = (case stringify updatedConfig of Some t \<Rightarrow> Str (render t) | None \<Rightarrow> Undefined);
                 hide = (\<lambda>pg. pg\<lparr>tp_contFormVisible := False\<rparr>);
                 fail = (\<lambda>f w. map_option (\<lambda>e. ([],
                    hide (pg\<lparr>tp_contError := js_or (response_message e) (get_prop e ''message''), tp_contModalVisible := True\<rparr>),
                    w\<lparr>web_app := snd (handleError isCancel (continue_error e) (web_app w))\<rparr>)) (caught f))
             in case generateDetApi isCancel (ts_create srv) (createExperiment_any dec) (body, experimentId) w of
                  (Inl f, w) \<Rightarrow> fail f w
                | (Inr ex, w) \<Rightarrow> (case route (''/experiments/'' @ show_int (eb_id ex)) of
                      Inl e \<Rightarrow> fail (Raises e) w
                    | Inr navs \<Rightarrow> Some (navs, hide pg, w)))))"

section \<open>The other handlers\<close>

definition handleConfigChange :: "string \<Rightarrow> TrialPage \<Rightarrow> TrialPage" where
  "handleConfigChange config pg = pg\<lparr>tp_contModalConfig := config, tp_contError := Undefined\<rparr>"

definition handleCheckpointShow :: "CheckpointWorkload \<Rightarrow> TrialPage \<Rightarrow> TrialPage" where
  "handleCheckpointShow checkpoint pg = pg\<lparr>tp_activeCheckpoint := Some checkpoint, tp_showCheckpoint := True\<rparr>"

definition handleCheckpointDismiss :: "TrialPage \<Rightarrow> TrialPage" where
  "handleCheckpointDismiss pg = pg\<lparr>tp_showCheckpoint := False\<rparr>"

definition handleHasCheckpointOrValidationSelect ::
  "'s Store \<Rightarrow> Storage \<Rightarrow> string \<Rightarrow> TrialPage \<times> 's \<Rightarrow> (TrialPage \<times> 's) result" where
  "handleHasCheckpointOrValidationSelect ops storage value = (\<lambda>(pg, s).
     (if value \<noteq> ALL_VALUE \<and> value \<notin> set (map str_TrialInfoFilter
          [TrialInfoFilter_Checkpoint, TrialInfoFilter_Validation, TrialInfoFilter_CheckpointOrValidation])
      then Inr (pg, s)
      else bind_exn (storage_set ops storage s STORAGE_CHECKPOINT_VALIDATION_KEY (Str value))
        (\<lambda>s. Inr (pg\<lparr>tp_showFilter := value\<rparr>, s))))"

definition trial_handleMetricChange ::
  "'s Store \<Rightarrow> Storage \<Rightarrow> MetricName list \<Rightarrow> TrialPage \<times> 's \<Rightarrow> (TrialPage \<times> 's) result" where
  "trial_handleMetricChange ops storage value = (\<lambda>(pg, s).
     (let pg' = pg\<lparr>tp_metrics := metrics_json value\<rparr>
      in case storageTableMetricsKey pg of
           None \<Rightarrow> Inr (pg', s)
         | Some key \<Rightarrow> bind_exn (storage_set ops storage s key (metrics_json value)) (\<lambda>s. Inr (pg', s))))"

definition handleEditContConfig ::
  "(js \<Rightarrow> bool) \<Rightarrow> Yaml \<Rightarrow> FormValues \<Rightarrow> TrialPage \<times> 's Web \<Rightarrow> TrialPage \<times> 's Web" where
  "handleEditContConfig isCancel yaml fv pw = (case updateStatesFromForm isCancel yaml fv pw of
     (_, pg, w) \<Rightarrow> (pg\<lparr>tp_contFormVisible := False, tp_contModalVisible := True\<rparr>, w))"

definition trial_handleTableChange ::
  "'s Store \<Rightarrow> Storage \<Rightarrow> int \<Rightarrow> TrialPage \<times> 's \<Rightarrow> (TrialPage \<times> 's) result" where
  "trial_handleTableChange ops storage pageSize = (\<lambda>(pg, s).
     bind_exn (storage_set ops storage s TD_STORAGE_LIMIT_KEY (js_int pageSize))
       (\<lambda>s. Inr (pg\<lparr>tp_pageSize := pageSize\<rparr>, s)))"

section \<open>The dialog with the editor\<close>

text \<open>
  \<open>handleOk\<close> of the dialog: the text of the editor is sent as it is when it is YAML.  The result is the error that is
  shown, whether the dialog is closed, and the windows; \<open>None\<close> when a cast has failed.
\<close>

definition modal_error :: "js \<Rightarrow> js" where
  "modal_error e =
     (if get_prop e ''name'' = Str ''YAMLException'' then get_prop e ''message''
      else if truthy (response_message e) then response_message e
      else Str ''Failed to config using the provided config.'')"

definition modal_handleOk ::
  "(string \<Rightarrow> Nav list result) \<Rightarrow> (js \<Rightarrow> bool) \<Rightarrow> (codec \<Rightarrow> js \<Rightarrow> js + js) \<Rightarrow> Yaml \<Rightarrow> TrialServer \<Rightarrow> int \<Rightarrow> string \<Rightarrow> 's Web
    \<Rightarrow> (js option \<times> bool \<times> Nav list \<times> 's Web) option" where
  "modal_handleOk route isCancel dec yaml srv parentId config w =
     (let fail = (\<lambda>f hidden w. map_option (\<lambda>e. (Some (modal_error e), hidden, [], w)) (caught f))
      in case safeLoad yaml config of
           Inl e \<Rightarrow> fail (Throws e) False w
         | Inr _ \<Rightarrow>
             (case generateDetApi isCancel (ts_create srv) (createExperiment dec) (config, parentId) w of
                (Inl f, w) \<Rightarrow> fail f False w
              | (Inr ex, w) \<Rightarrow> (case route (''/experiments/'' @ show_int (eb_id ex)) of
                    Inl e \<Rightarrow> fail (Raises e) True w
                  | Inr navs \<Rightarrow> Some (None, True, navs, w))))"

definition modal_handleCancel :: "Yaml \<Rightarrow> TrialPage \<Rightarrow> failure option \<times> TrialPage" where
  "modal_handleCancel yaml pg =
     (case handleContModalCancel yaml pg of (f, pg') \<Rightarrow> (f, pg'\<lparr>tp_contModalVisible := False\<rparr>))"

section \<open>Lemmas\<close>

lemma map_of_consts: "distinct (map fst hp) \<Longrightarrow> map_of (trialHParamsToExperimentHParams hp) k
    = map_option (\<lambda>v. Obj [(''type'', Str ''const''), (''val'', v)]) (map_of hp k)"
proof -
  have "distinct (map fst hp) \<Longrightarrow>
      map_of (fold (\<lambda>(param, value). obj_put param (Obj [(''type'', Str ''const''), (''val'', value)])) hp qs) k
      = (case map_of hp k of Some v \<Rightarrow> Some (Obj [(''type'', Str ''const''), (''val'', v)]) | None \<Rightarrow> map_of qs k)" for qs
    by (induction hp arbitrary: qs) (force simp: map_of_eq_None_iff split: option.splits)+
  then show "distinct (map fst hp) \<Longrightarrow> ?thesis"
    unfolding trialHParamsToExperimentHParams_def by (auto split: option.splits)
qed

lemma setTrialLength_ok:
  assumes "cs \<noteq> []" "map_of cs ''searcher'' = Some (Obj ss)" "map_of ss ''max_length'' = Some (Obj ((u, n) # es))"
  shows "\<exists>cs'. setTrialLength (Obj cs) len = Inr (Obj cs')
    \<and> map_of cs' = (map_of cs)(''searcher'' \<mapsto> Obj (obj_put ''max_length'' (Obj [(u, len)]) ss))"
proof -
  have "getTrialLength (Obj cs) = Inr (Some (u, n))"
    using assms by (simp add: getTrialLength_def js_or_def)
  then have "setTrialLength (Obj cs) len
      = (if Obj (obj_put ''max_length'' (Obj [(u, len)]) ss) = Obj ss then Inr (Obj cs)
         else Inr (Obj (obj_put ''searcher'' (Obj (obj_put ''max_length'' (Obj [(u, len)]) ss)) cs)))"
    using assms by (simp add: setTrialLength_def)
  then show ?thesis using assms(2) by (auto simp: fun_eq_iff)
qed

lemma trialContinueConfig_ok:
  assumes "map_of cs ''searcher'' = Some (Obj ss)"
  shows "\<exists>c. trialContinueConfig (Obj cs) hparams i = Inr (Obj c)
    \<and> map_of c = (map_of cs)(''hyperparameters'' \<mapsto> Obj (trialHParamsToExperimentHParams (object_entries hparams)),
        ''searcher'' \<mapsto> Obj [(''max_length'', get_prop (Obj ss) ''max_length''), (''metric'', get_prop (Obj ss) ''metric''),
          (''name'', Str ''single''), (''smaller_is_better'', get_prop (Obj ss) ''smaller_is_better''),
          (''source_trial_id'', js_int i)])"
  using assms by (auto simp: trialContinueConfig_def merge_def get_prop_def)

lemma bind_exn_assoc_cases: "bind_exn (bind_exn m f) g = bind_exn m (\<lambda>x. bind_exn (f x) g)"
  by (cases m) simp_all

text \<open>The configuration that a form makes of the text in the page.\<close>

lemma updated_config_ok:
  assumes "safeLoad yaml (tp_contModalConfig pg) = Inr (Obj cs)" "map_of cs ''searcher'' = Some (Obj ss)"
    "map_of ss ''max_length'' = Some (Obj ((u, n) # es))"
  shows "\<exists>c. updated_config yaml fv pg = Inr (Obj c)
    \<and> map_of c = (map_of cs)(''description'' \<mapsto> form_description fv,
        ''hyperparameters'' \<mapsto> Obj (trialHParamsToExperimentHParams (object_entries (tp_hparams pg))),
        ''searcher'' \<mapsto> Obj [(''max_length'', Obj [(u, Num (parseInt (js_str (form_maxLength fv))))]),
          (''metric'', get_prop (Obj ss) ''metric''), (''name'', Str ''single''),
          (''smaller_is_better'', get_prop (Obj ss) ''smaller_is_better''), (''source_trial_id'', js_int (tp_trialId pg))])"
proof -
  let ?len = "Num (parseInt (js_str (form_maxLength fv)))"
  define c1 where "c1 = obj_put ''description'' (form_description fv) cs"
  have c1: "js_set (Obj cs) ''description'' (form_description fv) = Inr (Obj c1)" by (simp add: c1_def)
  have s1: "c1 \<noteq> []" "map_of c1 ''searcher'' = Some (Obj ss)"
    using assms(2) by (auto simp: c1_def dest: arg_cong [where f = map_of])
  obtain c2 where c2: "setTrialLength (Obj c1) ?len = Inr (Obj c2)"
    "map_of c2 = (map_of c1)(''searcher'' \<mapsto> Obj (obj_put ''max_length'' (Obj [(u, ?len)]) ss))"
    using setTrialLength_ok [OF s1 assms(3)] by blast
  have s2: "map_of c2 ''searcher'' = Some (Obj (obj_put ''max_length'' (Obj [(u, ?len)]) ss))" by (simp add: c2(2))
  obtain c3 where c3: "trialContinueConfig (Obj c2) (tp_hparams pg) (tp_trialId pg) = Inr (Obj c3)"
    "map_of c3 = (map_of c2)(''hyperparameters'' \<mapsto> Obj (trialHParamsToExperimentHParams (object_entries (tp_hparams pg))),
        ''searcher'' \<mapsto> Obj [(''max_length'', get_prop (Obj (obj_put ''max_length'' (Obj [(u, ?len)]) ss)) ''max_length''),
          (''metric'', get_prop (Obj (obj_put ''max_length'' (Obj [(u, ?len)]) ss)) ''metric''), (''name'', Str ''single''),
          (''smaller_is_better'', get_prop (Obj (obj_put ''max_length'' (Obj [(u, ?len)]) ss)) ''smaller_is_better''),
          (''source_trial_id'', js_int (tp_trialId pg))])"
    using trialContinueConfig_ok [OF s2] by blast
  have "updated_config yaml fv pg = Inr (Obj c3)"
    by (simp add: updated_config_def assms(1) lift_throw_def lift_exn_def c1 c2(1) c3(1) del: js_set_Obj)
  moreover have "map_of c3 = (map_of cs)(''description'' \<mapsto> form_description fv,
        ''hyperparameters'' \<mapsto> Obj (trialHParamsToExperimentHParams (object_entries (tp_hparams pg))),
        ''searcher'' \<mapsto> Obj [(''max_length'', Obj [(u, ?len)]),
          (''metric'', get_prop (Obj ss) ''metric''), (''name'', Str ''single''),
          (''smaller_is_better'', get_prop (Obj ss) ''smaller_is_better''), (''source_trial_id'', js_int (tp_trialId pg))])"
    by (simp add: c3(2) c2(2) c1_def get_prop_def fun_eq_iff)
  ultimately show ?thesis by blast
qed

lemma fetch_keeps:
  "(\<lambda>p. (tp_experiment p, tp_contModalVisible p, tp_contFormVisible p, tp_contModalConfig p, tp_contDescription p, tp_contMaxLength p))
     (fst (fetchTrialDetails isCancel srv pg w))
   = (tp_experiment pg, tp_contModalVisible pg, tp_contFormVisible pg, tp_contModalConfig pg, tp_contDescription pg, tp_contMaxLength pg)"
  by (auto simp: fetchTrialDetails_def split: prod.splits sum.splits option.splits)

lemma fresh_effect_open:
  assumes "tp_contModalVisible pg \<or> tp_contFormVisible pg" "upgradedConfig pg = Inr u"
  shows "fresh_effect isCancel yaml (pg, w) = (pg, w)"
  using assms by (auto simp: fresh_effect_def setFreshContinueConfig_def)

lemma create_sends:
  "web_requests (snd (generateDetApi isCancel net (createExperiment_any dec) p w))
     = web_requests w @ [det_request (createExperiment_any dec) p w]"
proof -
  have "web_requests (snd (fail_unless_aborted isCancel n f w')) = web_requests w'" for n f and w' :: "'a Web"
    by (auto simp: fail_unless_aborted_def fail_request_def split_beta split: option.splits)
  then show ?thesis
    by (auto simp: generateDetApi_def createExperiment_any_def det_api_def Let_def log_request_def split: sum.splits)
qed

text \<open>Whatever the form makes of the configuration, submitting it sends one request with the text of the result.\<close>

lemma form_create_sends:
  assumes "tp_experimentId pg = Some i" "i \<noteq> 0"
    and "updateStatesFromForm isCancel yaml fv (pg, w) = (c, pg1, w1)"
    and "handleFormCreate render route isCancel dec yaml srv fv (pg, w) = Some (navs, pg', w')"
  shows "web_requests w' = web_requests w1 @ [det_request (createExperiment_any dec)
      (case stringify c of Some t \<Rightarrow> Str (render t) | None \<Rightarrow> Undefined, i) w1] \<and> \<not> tp_contFormVisible pg'
    \<and> tp_contModalConfig pg' = tp_contModalConfig pg1"
proof -
  let ?p = "(case stringify c of Some t \<Rightarrow> Str (render t) | None \<Rightarrow> Undefined, i)"
  have s: "web_requests (snd (generateDetApi isCancel (ts_create srv) (createExperiment_any dec) ?p w1))
      = web_requests w1 @ [det_request (createExperiment_any dec) ?p w1]" by (rule create_sends)
  show ?thesis using assms(4) s
    by (auto simp: handleFormCreate_def assms(1-3) Let_def split: prod.splits sum.splits)
qed

lemma parse_failure_keeps:
  assumes "safeLoad yaml (tp_contModalConfig pg) = Inl e" "truthy (tp_hparams pg)" "tp_trialId pg \<noteq> 0"
  shows "updateStatesFromForm isCancel yaml fv (pg, w)
    = (Undefined, pg, w\<lparr>web_app := snd (handleError isCancel (parse_config_error e) (web_app w))\<rparr>)"
  using assms by (simp add: updateStatesFromForm_def updated_config_def lift_throw_def)

section \<open>Properties\<close>

text \<open>
  C13: Continuing a trial.  When the text in the page is a configuration with a searcher and a maximal length, submitting
  the form sends one request for one experiment, whose configuration is that of the text except for the description of
  the form, the trial's hyperparameters as constants, and a searcher that runs the single trial from the source trial for
  the length of the form in the unit of the text, with the metric of the text.  The form is closed afterwards.
\<close>

theorem continue_trial:
  assumes "tp_experimentId pg = Some i" "i \<noteq> 0" "tp_trialId pg \<noteq> 0" "tp_hparams pg = Obj hp" "distinct (map fst hp)"
    and "safeLoad yaml (tp_contModalConfig pg) = Inr (Obj cs)" "map_of cs ''searcher'' = Some (Obj ss)"
    and "map_of ss ''max_length'' = Some (Obj ((u, n) # es))"
  shows "\<exists>c hs. updated_config yaml fv pg = Inr (Obj c)
    \<and> map_of c = (map_of cs)(''description'' \<mapsto> form_description fv, ''hyperparameters'' \<mapsto> Obj hs,
        ''searcher'' \<mapsto> Obj [(''max_length'', Obj [(u, Num (parseInt (js_str (form_maxLength fv))))]),
          (''metric'', get_prop (Obj ss) ''metric''), (''name'', Str ''single''),
          (''smaller_is_better'', get_prop (Obj ss) ''smaller_is_better''), (''source_trial_id'', js_int (tp_trialId pg))])
    \<and> map_of hs = map_option (\<lambda>v. Obj [(''type'', Str ''const''), (''val'', v)]) \<circ> map_of hp
    \<and> (\<forall>t navs pg' w'. safeDump yaml (Obj c) = Inr t \<longrightarrow>
        handleFormCreate render route isCancel dec yaml srv fv (pg, w) = Some (navs, pg', w') \<longrightarrow>
          web_requests w' = web_requests w @ [det_request (createExperiment_any dec)
            (Str (render (the (stringify (Obj c)))), i) w] \<and> tp_contModalConfig pg' = t \<and> \<not> tp_contFormVisible pg')"
proof -
  obtain c where c: "updated_config yaml fv pg = Inr (Obj c)"
    "map_of c = (map_of cs)(''description'' \<mapsto> form_description fv,
        ''hyperparameters'' \<mapsto> Obj (trialHParamsToExperimentHParams (object_entries (tp_hparams pg))),
        ''searcher'' \<mapsto> Obj [(''max_length'', Obj [(u, Num (parseInt (js_str (form_maxLength fv))))]),
          (''metric'', get_prop (Obj ss) ''metric''), (''name'', Str ''single''),
          (''smaller_is_better'', get_prop (Obj ss) ''smaller_is_better''), (''source_trial_id'', js_int (tp_trialId pg))])"
    using updated_config_ok [OF assms(6-8)] by blast
  have hs: "map_of (trialHParamsToExperimentHParams hp) = map_option (\<lambda>v. Obj [(''type'', Str ''const''), (''val'', v)]) \<circ> map_of hp"
    by (rule ext) (simp add: map_of_consts [OF assms(5)])
  have sent: "web_requests w' = web_requests w @ [det_request (createExperiment_any dec)
            (Str (render (the (stringify (Obj c)))), i) w] \<and> tp_contModalConfig pg' = t \<and> \<not> tp_contFormVisible pg'"
    if "safeDump yaml (Obj c) = Inr t"
      and "handleFormCreate render route isCancel dec yaml srv fv (pg, w) = Some (navs, pg', w')" for t navs pg' w'
  proof -
    have "updateStatesFromForm isCancel yaml fv (pg, w) = (Obj c, pg\<lparr>tp_contModalConfig := t\<rparr>, w)"
      using that(1) assms(3,4) c(1) by (simp add: updateStatesFromForm_def lift_throw_def)
    from form_create_sends [OF assms(1,2) this that(2)] show ?thesis by (simp add: stringify_def)
  qed
  have oe: "object_entries (tp_hparams pg) = hp" by (simp add: assms(4))
  show ?thesis
    by (rule exI [of _ c], rule exI [of _ "trialHParamsToExperimentHParams hp"], intro conjI allI impI)
      (fact c(1), fact c(2) [unfolded oe], fact hs, (drule (1) sent, elim conjE, assumption)+)
qed

definition sample_config :: "(string \<times> js) list" where
  "sample_config = [(''description'', Str ''d''), (''searcher'', Obj [(''name'', Str ''random''),
     (''metric'', Str ''loss''), (''max_length'', Obj [(''epochs'', Num (Fin 4))])]), (''labels'', Arr [])]"

definition sample_trial_page :: TrialPage where
  "sample_trial_page = (mount_trial_page 7 10 ALL_VALUE)\<lparr>tp_contFormVisible := True, tp_contModalConfig := ''text'',
     tp_trial := Some (sample_trial\<lparr>tr_experimentId := 3, tr_hparams := Obj [(''lr'', Num (Fin 1))]\<rparr>)\<rparr>"

definition sample_yaml :: Yaml where
  "sample_yaml = \<lparr>safeDump = (\<lambda>_. Inr ''dumped''), safeLoad = (\<lambda>_. Inr (Obj sample_config))\<rparr>"

definition sample_trial_server :: TrialServer where
  "sample_trial_server = \<lparr>ts_trial = (\<lambda>_ _. Inl Null), ts_experiment = (\<lambda>_ _. Inl Null),
     ts_create = (\<lambda>_ _. Inl (Obj [(''message'', Str ''no'')]))\<rparr>"

lemma sample_form_page:
  "tp_experimentId sample_trial_page = Some 3" "tp_trialId sample_trial_page = 7"
  "tp_hparams sample_trial_page = Obj [(''lr'', Num (Fin 1))]"
  by (simp_all add: sample_trial_page_def mount_trial_page_def tp_experimentId_def tp_hparams_def)

theorem continue_trial_witness:
  "\<exists>c navs pg' w'. updated_config sample_yaml \<lparr>form_description = Str ''again'', form_maxLength = Str ''12''\<rparr> sample_trial_page
        = Inr (Obj c)
    \<and> map_of c ''labels'' = Some (Arr []) \<and> map_of c ''description'' = Some (Str ''again'')
    \<and> handleFormCreate (\<lambda>t. show_nat (length t)) (\<lambda>_. Inr []) axios_isCancel io_decode sample_yaml sample_trial_server
        \<lparr>form_description = Str ''again'', form_maxLength = Str ''12''\<rparr> (sample_trial_page, sample_web) = Some (navs, pg', w')
    \<and> length (web_requests w') = 1 \<and> tp_contModalConfig pg' = ''dumped'' \<and> \<not> tp_contFormVisible pg'"
proof -
  let ?fv = "\<lparr>form_description = Str ''again'', form_maxLength = Str ''12''\<rparr>"
  let ?h = "handleFormCreate (\<lambda>t. show_nat (length t)) (\<lambda>_. Inr []) axios_isCancel io_decode sample_yaml sample_trial_server
        ?fv (sample_trial_page, sample_web)"
  have load: "safeLoad sample_yaml (tp_contModalConfig sample_trial_page) = Inr (Obj sample_config)"
    "safeDump sample_yaml v = Inr ''dumped''" for v by (simp_all add: sample_yaml_def)
  have cfg: "map_of sample_config ''searcher'' = Some (Obj [(''name'', Str ''random''), (''metric'', Str ''loss''),
      (''max_length'', Obj [(''epochs'', Num (Fin 4))])])" by (simp add: sample_config_def)
  have nz: "(3::int) \<noteq> 0" "tp_trialId sample_trial_page \<noteq> 0" "distinct (map fst [(''lr'', Num (Fin 1))])"
    by (simp_all add: sample_form_page)
  have ml: "map_of [(''name'', Str ''random''), (''metric'', Str ''loss''), (''max_length'', Obj [(''epochs'', Num (Fin 4))])]
      ''max_length'' = Some (Obj [(''epochs'', Num (Fin 4))])" by simp
  note t = continue_trial [OF sample_form_page(1) nz(1,2) sample_form_page(3) nz(3) load(1) cfg ml, of ?fv
      "\<lambda>t. show_nat (length t)" "\<lambda>_. Inr []" axios_isCancel io_decode sample_trial_server sample_web]
  obtain c where c: "updated_config sample_yaml ?fv sample_trial_page = Inr (Obj c)"
    "map_of c ''labels'' = Some (Arr [])" "map_of c ''description'' = Some (Str ''again'')"
    "\<forall>t navs pg' w'. safeDump sample_yaml (Obj c) = Inr t \<longrightarrow> ?h = Some (navs, pg', w') \<longrightarrow>
        web_requests w' = web_requests sample_web @ [det_request (createExperiment_any io_decode)
            (Str (show_nat (length (the (stringify (Obj c))))), 3) sample_web] \<and> tp_contModalConfig pg' = t \<and> \<not> tp_contFormVisible pg'"
    using t by (elim exE conjE) (rule that, assumption, simp (no_asm_simp) add: sample_config_def, simp (no_asm_simp), assumption)
  have up: "updateStatesFromForm axios_isCancel sample_yaml ?fv (sample_trial_page, sample_web)
      = (Obj c, sample_trial_page\<lparr>tp_contModalConfig := ''dumped''\<rparr>, sample_web)"
    by (simp add: updateStatesFromForm_def sample_form_page c(1) lift_throw_def load(2))
  have "\<exists>navs pg' w'. ?h = Some (navs, pg', w')"
    by (auto simp: handleFormCreate_def sample_form_page up Let_def generateDetApi_def createExperiment_any_def det_api_def
        sample_trial_server_def fail_unless_aborted_def fail_request_def split_beta split: option.splits)
  then obtain navs pg' w' where h: "?h = Some (navs, pg', w')" by blast
  have "length (web_requests w') = 1 \<and> tp_contModalConfig pg' = ''dumped'' \<and> \<not> tp_contFormVisible pg'"
    using c(4) [rule_format, OF load(2) h] by (simp add: sample_web_def)
  with c(1-3) h show ?thesis by blast
qed

text \<open>
  What the form does not check.  When the text in the page does not parse as YAML the user is told so, but the
  request to create an experiment is sent nevertheless, without a configuration; and a length that is not a number
  becomes \<open>null\<close> in the configuration that is sent, because the rule that the length is required is not enforced.
\<close>

theorem continue_unchecked:
  assumes "tp_experimentId pg = Some i" "i \<noteq> 0" "tp_trialId pg \<noteq> 0" "truthy (tp_hparams pg)"
  shows "(\<forall>e navs pg' w'. safeLoad yaml (tp_contModalConfig pg) = Inl e \<longrightarrow>
        handleFormCreate render route isCancel dec yaml srv fv (pg, w) = Some (navs, pg', w') \<longrightarrow>
          web_requests w' = web_requests w @ [det_request (createExperiment_any dec) (Undefined, i) w]
          \<and> \<not> tp_contFormVisible pg' \<and> tp_contModalConfig pg' = tp_contModalConfig pg)
    \<and> (\<forall>cs ss u n es. safeLoad yaml (tp_contModalConfig pg) = Inr (Obj cs) \<longrightarrow> map_of cs ''searcher'' = Some (Obj ss) \<longrightarrow>
        map_of ss ''max_length'' = Some (Obj ((u, n) # es)) \<longrightarrow> form_maxLength fv = Str [] \<longrightarrow>
          (\<exists>c s. updated_config yaml fv pg = Inr (Obj c) \<and> map_of c ''searcher'' = Some (Obj s)
            \<and> to_json (get_prop (Obj s) ''max_length'') = Some (JObj [(u, JNull)])))"
proof (intro conjI allI impI)
  fix e navs pg' w'
  assume e: "safeLoad yaml (tp_contModalConfig pg) = Inl e"
    and h: "handleFormCreate render route isCancel dec yaml srv fv (pg, w) = Some (navs, pg', w')"
  have r: "det_request (createExperiment_any dec) p (w\<lparr>web_app := a\<rparr>) = det_request (createExperiment_any dec) p w" for p a
    by (simp add: det_request_def)
  note s = form_create_sends [OF assms(1,2) parse_failure_keeps [OF e assms(4,3)] h]
  show "web_requests w' = web_requests w @ [det_request (createExperiment_any dec) (Undefined, i) w]"
    using s by (simp add: stringify_def r)
  show "\<not> tp_contFormVisible pg'" "tp_contModalConfig pg' = tp_contModalConfig pg" using s by simp_all
next
  fix cs ss u n es
  assume a: "safeLoad yaml (tp_contModalConfig pg) = Inr (Obj cs)" "map_of cs ''searcher'' = Some (Obj ss)"
    "map_of ss ''max_length'' = Some (Obj ((u, n) # es))" "form_maxLength fv = Str []"
  have "parseInt [] = NaN" by (simp add: parseInt_def)
  with updated_config_ok [OF a(1-3), of fv] a(4)
  show "\<exists>c s. updated_config yaml fv pg = Inr (Obj c) \<and> map_of c ''searcher'' = Some (Obj s)
            \<and> to_json (get_prop (Obj s) ''max_length'') = Some (JObj [(u, JNull)])"
    by (auto simp: get_prop_def)
qed

theorem continue_unchecked_witness:
  "\<exists>c s. updated_config sample_yaml \<lparr>form_description = Str ''again'', form_maxLength = Str ''''\<rparr> sample_trial_page = Inr (Obj c)
     \<and> map_of c ''searcher'' = Some (Obj s) \<and> to_json (get_prop (Obj s) ''max_length'') = Some (JObj [(''epochs'', JNull)])"
proof -
  have load: "safeLoad sample_yaml (tp_contModalConfig sample_trial_page) = Inr (Obj sample_config)"
    by (simp add: sample_yaml_def)
  have "map_of sample_config ''searcher'' = Some (Obj [(''name'', Str ''random''),
     (''metric'', Str ''loss''), (''max_length'', Obj [(''epochs'', Num (Fin 4))])])" by (simp add: sample_config_def)
  moreover have "map_of [(''name'', Str ''random''), (''metric'', Str ''loss''), (''max_length'', Obj [(''epochs'', Num (Fin 4))])]
      ''max_length'' = Some (Obj [(''epochs'', Num (Fin 4))])" by simp
  ultimately show ?thesis
    using continue_unchecked [of sample_trial_page 3 sample_yaml "\<lambda>_. []" "\<lambda>_. Inr []" axios_isCancel io_decode
        sample_trial_server "\<lparr>form_description = Str ''again'', form_maxLength = Str ''''\<rparr>" sample_web] load
    by (simp add: sample_form_page)
qed

text \<open>One round of polling: the trial is fetched, and the effect runs on what has changed.\<close>

definition poll_trial :: "(js \<Rightarrow> bool) \<Rightarrow> Yaml \<Rightarrow> TrialServer \<Rightarrow> TrialPage \<times> 's Web \<Rightarrow> TrialPage \<times> 's Web" where
  "poll_trial isCancel yaml srv = (\<lambda>(pg, w). fresh_effect isCancel yaml (fetchTrialDetails isCancel srv pg w))"

lemma upgradedConfig_cong: "tp_experiment pg = tp_experiment pg' \<Longrightarrow> upgradedConfig pg = upgradedConfig pg'"
  by (simp add: upgradedConfig_def)

definition dialog_state :: "TrialPage \<Rightarrow> ExperimentBase option \<times> bool \<times> bool \<times> string \<times> string \<times> js" where
  "dialog_state p = (tp_experiment p, tp_contModalVisible p, tp_contFormVisible p, tp_contModalConfig p, tp_contDescription p,
     tp_contMaxLength p)"

lemma dialog_stateD:
  assumes "dialog_state p = dialog_state q"
  shows "tp_contModalVisible p = tp_contModalVisible q" "tp_contFormVisible p = tp_contFormVisible q"
    "upgradedConfig p = upgradedConfig q"
  using assms upgradedConfig_cong [of p q] by (simp_all add: dialog_state_def)

lemma poll_trial_open:
  assumes "tp_contModalVisible pg \<or> tp_contFormVisible pg" "upgradedConfig pg = Inr u"
  shows "dialog_state (fst (poll_trial isCancel yaml srv (pg, w))) = dialog_state pg"
proof -
  obtain pg1 w1 where f: "fetchTrialDetails isCancel srv pg w = (pg1, w1)"
    by (cases "fetchTrialDetails isCancel srv pg w")
  then have d: "dialog_state pg1 = dialog_state pg"
    using fetch_keeps [of isCancel srv pg w] by (simp add: dialog_state_def)
  have "fresh_effect isCancel yaml (pg1, w1) = (pg1, w1)"
    using assms by (intro fresh_effect_open [where u = u]) (simp_all add: dialog_stateD [OF d])
  with d show ?thesis by (simp add: poll_trial_def f)
qed

lemma polls_open:
  assumes "tp_contModalVisible pg \<or> tp_contFormVisible pg" "upgradedConfig pg = Inr u"
  shows "dialog_state (fst (fold (poll_trial isCancel yaml) srvs (pg, w))) = dialog_state pg"
  using assms
proof (induction srvs arbitrary: pg w)
  case (Cons srv srvs)
  obtain pg1 w1 where p: "poll_trial isCancel yaml srv (pg, w) = (pg1, w1)"
    by (cases "poll_trial isCancel yaml srv (pg, w)")
  then have d: "dialog_state pg1 = dialog_state pg"
    using poll_trial_open [OF Cons.prems, of isCancel yaml srv w] by simp
  with Cons.IH [of pg1 w1] Cons.prems p show ?case by (simp add: dialog_stateD [OF d])
qed simp

lemma fresh_effect_text:
  assumes "upgradedConfig pg = Inr u" "truthy u" "truthy (tp_hparams pg)"
  shows "fst (fresh_effect isCancel yaml (pg\<lparr>tp_contFormVisible := False, tp_contModalVisible := False, tp_contModalConfig := t\<rparr>, w))
       = fst (fresh_effect isCancel yaml (pg\<lparr>tp_contFormVisible := False, tp_contModalVisible := False, tp_contModalConfig := t'\<rparr>, w))"
proof -
  define closed where "closed = (\<lambda>t. pg\<lparr>tp_contFormVisible := False, tp_contModalVisible := False, tp_contModalConfig := t\<rparr>)"
  have c: "upgradedConfig (closed t) = Inr u" "tp_hparams (closed t) = tp_hparams pg" "tp_trialId (closed t) = tp_trialId pg"
    "\<not> tp_contModalVisible (closed t)" "\<not> tp_contFormVisible (closed t)"
    "continuation_description (closed t) = continuation_description pg" "page_trialLength (closed t) = page_trialLength pg"
    "(closed t)\<lparr>tp_contModalConfig := x\<rparr> = closed x"
    "(closed t)\<lparr>tp_contDescription := d, tp_contModalConfig := x\<rparr> = (closed x)\<lparr>tp_contDescription := d\<rparr>"
    "(closed t)\<lparr>tp_contDescription := d, tp_contMaxLength := l, tp_contModalConfig := x\<rparr>
      = (closed x)\<lparr>tp_contDescription := d, tp_contMaxLength := l\<rparr>" for t x d l
    using assms(1) by (simp_all add: closed_def upgradedConfig_def tp_hparams_def continuation_description_def tp_experimentId_def
        page_trialLength_def fun_eq_iff)
  have h: "tp_hparams (p\<lparr>tp_contDescription := d\<rparr>) = tp_hparams p" "tp_hparams (p\<lparr>tp_contMaxLength := l\<rparr>) = tp_hparams p" for p d l
    by (simp_all add: tp_hparams_def)
  have "fst (fresh_effect isCancel yaml (closed t, w)) = fst (fresh_effect isCancel yaml (closed t', w))"
    by (simp add: fresh_effect_def setFreshContinueConfig_def c h assms(2,3) Let_def lift_exn_def lift_throw_def split: sum.splits)
  then show ?thesis by (simp only: closed_def)
qed



text \<open>
  The table of a trial's steps.  Each filter shows the steps it names, in their order, but a step whose only
  checkpoint has been deleted has no checkpoint for the filter \<open>Has Checkpoint\<close> and one for \<open>Has Checkpoint or
  Validation\<close>; an unknown filter shows nothing.  A metric of value zero is shown as a missing one.  Sorting by state
  throws when it compares a step without a training workload, and sorting by a metric does not order a missing value
  against a later one as it does the other way round.
\<close>

theorem step_table:
  assumes "workloadsToSteps (trial_workloads pg) = Inr steps"
  shows "(tp_showFilter pg = ALL_VALUE \<longrightarrow> workloadSteps pg = Inr steps)
    \<and> (tp_showFilter pg = ''Has Checkpoint'' \<longrightarrow> workloadSteps pg
        = Inr (filter (\<lambda>s. \<exists>c. ww_checkpoint s = Some c \<and> cw_state c \<noteq> CheckpointState_Deleted) steps))
    \<and> (tp_showFilter pg = ''Has Checkpoint or Validation'' \<longrightarrow> workloadSteps pg
        = Inr (filter (\<lambda>s. (\<exists>c. ww_checkpoint s = Some c) \<or> (\<exists>v. ww_validation s = Some v)) steps))
    \<and> (tp_showFilter pg \<notin> {ALL_VALUE, ''Has Checkpoint'', ''Has Validation'', ''Has Checkpoint or Validation''} \<longrightarrow>
        workloadSteps pg = Inr [])
    \<and> (\<forall>m s. metricRenderer m s \<noteq> Some (Fin 0))
    \<and> (\<forall>a b. ww_training a = None \<longrightarrow> state_column_sorter a b = Inl TypeError \<and> state_column_sorter b a = Inl TypeError)
    \<and> (\<forall>m a b x. extractMetricValue (WorkloadWrapper.truncate a) m = None \<longrightarrow>
        extractMetricValue (WorkloadWrapper.truncate b) m = Some x \<longrightarrow>
          metric_column_sorter m a b = Fin 0 \<and> metric_column_sorter m b a = Fin 1)"
proof (intro conjI allI impI)
  have all: "ALL_VALUE \<noteq> ''Has Checkpoint''" "ALL_VALUE \<noteq> ''Has Checkpoint or Validation''" by (simp_all add: ALL_VALUE_def)
  have hc: "hasCheckpoint (WorkloadWrapper.truncate s) = (\<exists>c. ww_checkpoint s = Some c \<and> cw_state c \<noteq> CheckpointState_Deleted)"
    for s :: Step by (auto simp: hasCheckpoint_def WorkloadWrapper.truncate_def split: option.splits)
  {
    assume "tp_showFilter pg = ALL_VALUE"
    then show "workloadSteps pg = Inr steps" by (simp add: workloadSteps_def assms)
  next
    assume "tp_showFilter pg = ''Has Checkpoint''"
    then show "workloadSteps pg = Inr (filter (\<lambda>s. \<exists>c. ww_checkpoint s = Some c \<and> cw_state c \<noteq> CheckpointState_Deleted) steps)"
      using all by (simp add: workloadSteps_def assms step_shown_def [abs_def] hc)
  next
    assume "tp_showFilter pg = ''Has Checkpoint or Validation''"
    then show "workloadSteps pg = Inr (filter (\<lambda>s. (\<exists>c. ww_checkpoint s = Some c) \<or> (\<exists>v. ww_validation s = Some v)) steps)"
      using all by (simp add: workloadSteps_def assms step_shown_def [abs_def])
  next
    assume "tp_showFilter pg \<notin> {ALL_VALUE, ''Has Checkpoint'', ''Has Validation'', ''Has Checkpoint or Validation''}"
    then show "workloadSteps pg = Inr []" by (simp add: workloadSteps_def assms step_shown_def [abs_def])
  next
    show "metricRenderer m s \<noteq> Some (Fin 0)" for m s by (auto simp: metricRenderer_def split: option.splits)
  next
    fix a b :: Step
    assume "ww_training a = None"
    then show "state_column_sorter a b = Inl TypeError" "state_column_sorter b a = Inl TypeError"
      by (auto simp: state_column_sorter_def split: option.splits)
  next
    fix m and a b :: Step and x
    assume "extractMetricValue (WorkloadWrapper.truncate a) m = None" "extractMetricValue (WorkloadWrapper.truncate b) m = Some x"
    then show "metric_column_sorter m a b = Fin 0" "metric_column_sorter m b a = Fin 1"
      by (simp_all add: metric_column_sorter_def numericSorter_def)
  }
qed

theorem step_table_witness:
  "workloadSteps (sample_trial_page\<lparr>tp_showFilter := ''Has Checkpoint''\<rparr>) = Inr []"
proof -
  have "workloadsToSteps (trial_workloads (sample_trial_page\<lparr>tp_showFilter := ''Has Checkpoint''\<rparr>)) = Inr []"
    by (simp add: workloadsToSteps_def trial_workloads_def sample_trial_page_def mount_trial_page_def sample_trial_def obj_values_def)
  from step_table [OF this] show ?thesis by simp
qed

end
