(* ===== verification/Task_List.thy ===== *)
theory Task_List
  imports Requests Hooks
begin

text \<open>
  The page that lists the tasks (\<^verbatim>\<open>pages/TaskList.tsx\<close>): the tasks of the four contexts, the selection, the sources
  of a TensorBoard, the batch that kills tasks, and the timer that waits for the lists to be fetched again.
\<close>

section \<open>State\<close>

datatype TensorBoardSourceType = TensorBoardSourceType_Experiment | TensorBoardSourceType_Trial

fun str_TensorBoardSourceType :: "TensorBoardSourceType \<Rightarrow> string" where
  "str_TensorBoardSourceType TensorBoardSourceType_Experiment = ''Experiment''"
| "str_TensorBoardSourceType TensorBoardSourceType_Trial = ''Trial''"

record TensorBoardSource =
  tbs_id :: int
  tbs_path :: string
  tbs_type :: TensorBoardSourceType

record SourceInfo =
  si_path :: string
  si_plural :: string
  si_sources :: "TensorBoardSource list"

definition defaultTaskFilters :: TaskFilters where
  "defaultTaskFilters = \<lparr>tf_limit = 10, tf_states = [ALL_VALUE],
     tf_types = map (\<lambda>t. (str_CommandType t, False))
       [CommandType_Command, CommandType_Notebook, CommandType_Shell, CommandType_Tensorboard],
     tf_username = None\<rparr>"

definition defaultTaskSorter :: ApiSorter where
  "defaultTaskSorter = \<lparr>sorter_descend = True, sorter_key = ''startTime''\<rparr>"

definition TL_STORAGE_PATH :: string where "TL_STORAGE_PATH = ''task-list''"

definition TL_STORAGE_FILTERS_KEY :: string where "TL_STORAGE_FILTERS_KEY = ''filters''"

definition TL_STORAGE_SORTER_KEY :: string where "TL_STORAGE_SORTER_KEY = ''sorter''"

text \<open>
  The page and the four hooks it requests the lists with, for commands, notebooks, shells and TensorBoards.  Their
  results are not read: the list comes from the contexts.
\<close>

record TaskListPage =
  tl_filters :: TaskFilters
  tl_sorter :: ApiSorter
  tl_search :: string
  tl_sourcesModal :: "SourceInfo option"
  tl_selectedRowKeys :: "string list"
  tl_hooks :: "RestHook list"

definition mount_task_list :: "TaskFilters \<Rightarrow> ApiSorter \<Rightarrow> TaskListPage" where
  "mount_task_list initFilters initSorter = \<lparr>tl_filters = initFilters, tl_sorter = initSorter, tl_search = [],
     tl_sourcesModal = None, tl_selectedRowKeys = [], tl_hooks = replicate 4 (mount_rest (Obj []))\<rparr>"

text \<open>A context: its data, when it has some, and whether it has loaded.\<close>

record CommandSource =
  cs_data :: "Command list option"
  cs_hasLoaded :: bool

definition loadedTasks :: "CommandSource list \<Rightarrow> CommandTask list" where
  "loadedTasks sources = map commandToTask
     (foldl (\<lambda>acc cur. acc @ cur) [] (map (\<lambda>src. the (cs_data src)) (filter (\<lambda>src. cs_data src \<noteq> None) sources)))"

definition tasks_hasLoaded :: "CommandSource list \<Rightarrow> CommandSource option" where
  "tasks_hasLoaded sources = find cs_hasLoaded sources"

definition filteredTasks :: "CommandSource list \<Rightarrow> User list option \<Rightarrow> TaskListPage \<Rightarrow> AnyTask list" where
  "filteredTasks sources users pg = filterTasks (map CommandTask (loadedTasks sources)) (tl_filters pg)
     (case users of Some us \<Rightarrow> us | None \<Rightarrow> []) (tl_search pg)"

definition taskMap :: "CommandTask list \<Rightarrow> (string \<times> CommandTask) list" where
  "taskMap tasks = fold (\<lambda>task. obj_put (task_id task) task) tasks []"

definition selectedTasks :: "CommandSource list \<Rightarrow> TaskListPage \<Rightarrow> CommandTask option list" where
  "selectedTasks sources pg = map (map_of (taskMap (loadedTasks sources))) (tl_selectedRowKeys pg)"

text \<open>The loop ends at the first killable task; a selected task that is not in the list is \<open>undefined\<close> and throws.\<close>

definition task_killable :: "CommandTask \<Rightarrow> bool" where
  "task_killable t = isTaskKillable (CommandS (ct_state t))"

fun any_killable :: "CommandTask option list \<Rightarrow> bool result" where
  "any_killable [] = Inr False"
| "any_killable (None # ts) = Inl TypeError"
| "any_killable (Some t # ts) = (if task_killable t then Inr True else any_killable ts)"

definition hasKillable :: "CommandSource list \<Rightarrow> TaskListPage \<Rightarrow> bool result" where
  "hasKillable sources pg = any_killable (selectedTasks sources pg)"

text \<open>\<open>triggerRequest({})\<close> of each hook: the parameters are a new object, so its effect runs.\<close>

definition fetchTasks :: "TaskListPage \<Rightarrow> TaskListPage" where
  "fetchTasks pg = pg\<lparr>tl_hooks := map (rest_effect (Obj [])) (tl_hooks pg)\<rparr>"

section \<open>Sources of a TensorBoard\<close>

text \<open>\<open>None\<close> when the row shows the name only.  The identifiers are never undefined.\<close>

definition source_cmp :: "(string \<Rightarrow> string \<Rightarrow> int) \<Rightarrow> TensorBoardSource \<Rightarrow> TensorBoardSource \<Rightarrow> int" where
  "source_cmp lc a b =
     (if tbs_type a \<noteq> tbs_type b
      then alphanumericSorter lc (str_TensorBoardSourceType (tbs_type a)) (str_TensorBoardSourceType (tbs_type b))
      else num_sgn (numericSorter (Some (Fin (of_int (tbs_id a)))) (Some (Fin (of_int (tbs_id b)))) False))"

definition misc_sources :: "CommandMisc \<Rightarrow> TensorBoardSource list" where
  "misc_sources misc =
     map (\<lambda>i. \<lparr>tbs_id = i, tbs_path = ''/experiments/'' @ show_int i, tbs_type = TensorBoardSourceType_Experiment\<rparr>)
       (misc_experimentIds misc)
   @ map (\<lambda>i. \<lparr>tbs_id = i, tbs_path = ''/trials/'' @ show_int i, tbs_type = TensorBoardSourceType_Trial\<rparr>)
       (misc_trialIds misc)"

definition nameRenderer :: "(string \<Rightarrow> string \<Rightarrow> int) \<Rightarrow> CommandTask \<Rightarrow> SourceInfo option" where
  "nameRenderer lc task = (if ct_type task \<noteq> CommandType_Tensorboard then None
     else case ct_misc task of
       None \<Rightarrow> None
     | Some misc \<Rightarrow>
         Some \<lparr>si_path = [], si_plural = (if length (misc_sources misc) > 1 then ''s'' else []),
           si_sources = js_sort (source_cmp lc) (misc_sources misc)\<rparr>)"

definition handleSourceShow :: "SourceInfo \<Rightarrow> TaskListPage \<Rightarrow> TaskListPage" where
  "handleSourceShow info pg = pg\<lparr>tl_sourcesModal := Some info\<rparr>"

definition handleSourceDismiss :: "TaskListPage \<Rightarrow> TaskListPage" where
  "handleSourceDismiss pg = pg\<lparr>tl_sourcesModal := None\<rparr>"

section \<open>Waiting for the lists\<close>

text \<open>
  The promise of \<open>checkForTaskListUpdate\<close> with its interval timer.  \<open>loading\<close> says whether some request was loading in
  the render whose function is called; the function keeps that value for all its ticks.  A promise that is settled
  ignores later calls of \<open>resolve\<close> and \<open>reject\<close>.
\<close>

datatype Promise = Pending | Resolved | Rejected

record CheckTimer =
  ck_counter :: nat
  ck_running :: bool
  ck_promise :: Promise

definition start_check :: CheckTimer where
  "start_check = \<lparr>ck_counter = 0, ck_running = True, ck_promise = Pending\<rparr>"

fun settle_promise :: "Promise \<Rightarrow> Promise \<Rightarrow> Promise" where
  "settle_promise p Pending = p"
| "settle_promise p q = q"

definition check_tick :: "bool \<Rightarrow> CheckTimer \<Rightarrow> CheckTimer" where
  "check_tick loading t =
     (if \<not> ck_running t then t
      else
        (let t = (if \<not> loading then t\<lparr>ck_running := False, ck_promise := settle_promise Resolved (ck_promise t)\<rparr>
                  else if ck_counter t > 10 then t\<lparr>ck_promise := settle_promise Rejected (ck_promise t)\<rparr>
                  else t)
         in t\<lparr>ck_counter := ck_counter t + 1\<rparr>))"

definition check_ticks :: "bool \<Rightarrow> nat \<Rightarrow> CheckTimer" where
  "check_ticks loading n = (check_tick loading ^^ n) start_check"

definition some_loading :: "TaskListPage \<Rightarrow> bool" where
  "some_loading pg = (\<exists>h \<in> set (tl_hooks pg). rs_isLoading (rh_state h))"

section \<open>Handlers\<close>

definition tl_handleSearchChange :: "string \<Rightarrow> TaskListPage \<Rightarrow> TaskListPage" where
  "tl_handleSearchChange value pg = pg\<lparr>tl_search := value\<rparr>"

definition task_filters_json :: "TaskFilters \<Rightarrow> js" where
  "task_filters_json f = Obj [(''limit'', js_int (tf_limit f)), (''states'', js_strs (tf_states f)),
     (''types'', Obj (map (\<lambda>(k, b). (k, Bool b)) (tf_types f))), (''username'', js_opt Str (tf_username f))]"

definition task_sorter_json :: "ApiSorter \<Rightarrow> js" where
  "task_sorter_json s = Obj [(''descend'', Bool (sorter_descend s)), (''key'', Str (sorter_key s))]"

definition tl_handleFilterChange ::
  "'s Store \<Rightarrow> Storage \<Rightarrow> TaskFilters \<Rightarrow> TaskListPage \<times> 's \<Rightarrow> (TaskListPage \<times> 's) result" where
  "tl_handleFilterChange ops storage filters = (\<lambda>(pg, s).
     bind_exn (storage_set ops storage s TL_STORAGE_FILTERS_KEY (task_filters_json filters)) (\<lambda>s.
     Inr (pg\<lparr>tl_filters := filters\<rparr>, s)))"

text \<open>The page size that the table reports is stored but does not become part of the page's filters.\<close>

definition tl_handleTableChange ::
  "'s Store \<Rightarrow> Storage \<Rightarrow> string list \<Rightarrow> int \<Rightarrow> string option \<Rightarrow> string option
    \<Rightarrow> TaskListPage \<times> 's \<Rightarrow> (TaskListPage \<times> 's) result" where
  "tl_handleTableChange ops storage columnKeys pageSize columnKey order = (\<lambda>(pg, s). (case columnKey of
      None \<Rightarrow> Inr (pg, s)
    | Some key \<Rightarrow>
        if key = [] \<or> key \<notin> set columnKeys then Inr (pg, s)
        else
          let sorter = \<lparr>sorter_descend = (order = Some ''descend''), sorter_key = key\<rparr> in
          bind_exn (storage_set ops storage s TL_STORAGE_SORTER_KEY (task_sorter_json sorter)) (\<lambda>s.
          bind_exn (storage_set ops storage s TL_STORAGE_FILTERS_KEY
              (task_filters_json ((tl_filters pg)\<lparr>tf_limit := pageSize\<rparr>))) (\<lambda>s.
          Inr (pg\<lparr>tl_sorter := sorter\<rparr>, s)))))"

definition tl_handleTableRowSelect :: "string list \<Rightarrow> TaskListPage \<Rightarrow> TaskListPage" where
  "tl_handleTableRowSelect rowKeys pg = pg\<lparr>tl_selectedRowKeys := rowKeys\<rparr>"

definition handleTableRow :: "Env \<Rightarrow> bool \<Rightarrow> CommandTask \<Rightarrow> Nav list result" where
  "handleTableRow env isAlternativeAction record =
     (if isAlternativeAction \<or> \<not> canBeOpened (CommandTask record) then Inr []
      else openCommand env (ACommandTask record))"

section \<open>Killing the selected tasks\<close>

definition kill_error :: "js \<Rightarrow> js" where
  "kill_error e = Obj [
     (''error'', e),
     (''level'', js_level ErrorLevel_Error),
     (''message'', get_prop e ''message''),
     (''publicMessage'', Str ''Please try again later.''),
     (''publicSubject'', Str ''Unable to Kill Selected Tasks''),
     (''silent'', Bool False),
     (''type'', js_type ErrorType_Server)]"

text \<open>\<open>filter\<close> calls \<open>isTaskKillable\<close> on every selected task before anything is sent.\<close>

definition killable_tasks :: "CommandTask option list \<Rightarrow> CommandTask list result" where
  "killable_tasks ts = bind_exn (mapM_exn (\<lambda>t. case t of None \<Rightarrow> Inl TypeError | Some t \<Rightarrow> Inr t) ts)
     (\<lambda>ts. Inr (filter task_killable ts))"

text \<open>
  \<open>handleBatchKill\<close> up to its last \<open>await\<close>: the page, the browser's state and, when the kills have succeeded, what the
  timer it then waits for checks.  The whole is \<open>None\<close> when a cast has failed.
\<close>

definition handleBatchKill ::
  "(js \<Rightarrow> bool) \<Rightarrow> (nat \<Rightarrow> Request \<Rightarrow> js + unit) \<Rightarrow> CommandSource list \<Rightarrow> TaskListPage \<Rightarrow> 's Web
    \<Rightarrow> (TaskListPage \<times> 's Web \<times> bool option) option" where
  "handleBatchKill isCancel net sources pg w =
     (let fail = (\<lambda>f w. map_option (\<lambda>e. (pg, w\<lparr>web_app := snd (handleError isCancel (kill_error e) (web_app w))\<rparr>, None))
            (caught f))
      in case killable_tasks (selectedTasks sources pg) of
           Inl e \<Rightarrow> fail (Raises e) w
         | Inr ts \<Rightarrow> (case promise_all (killTask isCancel net) ts w of
               (Some f, w) \<Rightarrow> fail f w
             | (None, w) \<Rightarrow> Some (fetchTasks (pg\<lparr>tl_selectedRowKeys := []\<rparr>), w, Some (some_loading pg))))"

text \<open>
  What becomes of the last \<open>await\<close>: \<open>reject()\<close> rejects with \<open>undefined\<close>, and the \<open>catch\<close> clause reads its \<open>message\<close>.
  \<open>None\<close> while the promise is pending.
\<close>

definition after_check :: "bool \<Rightarrow> nat \<Rightarrow> unit result option" where
  "after_check loading n = (case ck_promise (check_ticks loading n) of
      Pending \<Rightarrow> None
    | Resolved \<Rightarrow> Some (Inr ())
    | Rejected \<Rightarrow> Some (bind_exn (js_get Undefined ''message'') (\<lambda>_. Inr ())))"

section \<open>Lemmas\<close>

lemma check_ticks_Suc: "check_ticks loading (Suc n) = check_tick loading (check_ticks loading n)"
  by (simp add: check_ticks_def)

lemma check_ticks_loading:
  "check_ticks True n = \<lparr>ck_counter = n, ck_running = True, ck_promise = (if n < 12 then Pending else Rejected)\<rparr>"
proof (induction n)
  case 0
  then show ?case by (simp add: check_ticks_def start_check_def)
next
  case (Suc n)
  then show ?case by (auto simp: check_ticks_Suc check_tick_def Let_def)
qed

lemma check_ticks_loaded:
  "0 < n \<Longrightarrow> check_ticks False n = \<lparr>ck_counter = 1, ck_running = False, ck_promise = Resolved\<rparr>"
proof (induction n)
  case (Suc n)
  then show ?case
    by (cases "n = 0") (simp_all add: check_ticks_Suc check_tick_def, simp add: check_ticks_def start_check_def)
qed simp

lemma mapM_present: "mapM_exn (\<lambda>t. case t of None \<Rightarrow> Inl TypeError | Some t \<Rightarrow> Inr t) (map Some ts) = Inr ts"
  by (induction ts) simp_all

lemma mapM_missing: "None \<in> set ts \<Longrightarrow> mapM_exn (\<lambda>t. case t of None \<Rightarrow> Inl TypeError | Some t \<Rightarrow> Inr t) ts = Inl TypeError"
  by (induction ts) (auto split: option.splits)

lemma any_killable_present: "any_killable (map Some ts) = Inr (filter task_killable ts \<noteq> [])"
  by (induction ts) auto

section \<open>Properties\<close>

text \<open>
  C30: The wait for the lists ends within twelve ticks of its timer, whatever it finds.  When no request was loading in
  the render that started it, it resolves at the first tick and the timer ends, although the requests it should wait for
  have just been sent.  When one was loading, it is rejected at the twelfth tick even if all requests have ended, the
  timer goes on for ever, and the handler of the rejection throws instead of telling the user.
\<close>

theorem check_settles:
  "(\<forall>loading n. 12 \<le> n \<longrightarrow> ck_promise (check_ticks loading n) \<noteq> Pending)
   \<and> (\<forall>n. 0 < n \<longrightarrow> \<not> ck_running (check_ticks False n) \<and> after_check False n = Some (Inr ()))
   \<and> (\<forall>n. ck_running (check_ticks True n) \<and> after_check True n = (if n < 12 then None else Some (Inl TypeError)))
   \<and> (\<forall>pg. tl_hooks pg \<noteq> [] \<longrightarrow> some_loading (fetchTasks pg))"
proof (intro conjI allI impI)
  fix loading and n :: nat
  assume "12 \<le> n"
  then show "ck_promise (check_ticks loading n) \<noteq> Pending"
    by (cases loading) (simp_all add: check_ticks_loading check_ticks_loaded)
next
  fix n :: nat
  assume "0 < n"
  then show "\<not> ck_running (check_ticks False n)" "after_check False n = Some (Inr ())"
    by (simp_all add: check_ticks_loaded after_check_def)
next
  fix n :: nat
  show "ck_running (check_ticks True n)" "after_check True n = (if n < 12 then None else Some (Inl TypeError))"
    by (simp_all add: check_ticks_loading after_check_def)
next
  fix pg :: TaskListPage
  assume "tl_hooks pg \<noteq> []"
  then show "some_loading (fetchTasks pg)"
    by (cases "tl_hooks pg") (auto simp: some_loading_def fetchTasks_def rest_effect_def)
qed

theorem check_settles_witness:
  "after_check True 11 = None \<and> after_check True 12 = Some (Inl TypeError)"
  using check_settles by simp

text \<open>
  C31: Killing the selected tasks.  When all of them are in the list, one request is sent for each that can be killed, in
  the order of the selection, and none for the others; then the selection is emptied and the four lists are requested
  again, or the first failure is reported and the selection kept.  When a selected task is no longer in the list nothing
  is sent and the user is told that the tasks could not be killed.
\<close>

theorem batch_kill:
  assumes "selectedTasks sources pg = map Some ts"
    and "promise_all (killTask isCancel net) (filter task_killable ts) w = (f, w1)"
  shows "web_requests w1 = web_requests w
        @ map (\<lambda>t. det_request (kill_api (ct_type t)) (task_id t) w) (filter task_killable ts)
    \<and> hasKillable sources pg = Inr (\<exists>t \<in> set ts. task_killable t)
    \<and> (f = None \<longrightarrow> handleBatchKill isCancel net sources pg w
          = Some (fetchTasks (pg\<lparr>tl_selectedRowKeys := []\<rparr>), w1, Some (some_loading pg)))
    \<and> (\<forall>e. f = Some (Throws e) \<longrightarrow> handleBatchKill isCancel net sources pg w
          = Some (pg, w1\<lparr>web_app := snd (handleError isCancel (kill_error e) (web_app w1))\<rparr>, None))
    \<and> (\<forall>pg'. None \<in> set (selectedTasks sources pg') \<longrightarrow>
          (\<exists>e. handleBatchKill isCancel net sources pg' w
            = Some (pg', w\<lparr>web_app := snd (handleError isCancel (kill_error e) (web_app w))\<rparr>, None)))"
proof (intro conjI impI allI)
  show "web_requests w1 = web_requests w
        @ map (\<lambda>t. det_request (kill_api (ct_type t)) (task_id t) w) (filter task_killable ts)"
    using kill_call.all_sends [of isCancel net "filter task_killable ts" w] by (simp add: assms(2))
  show "hasKillable sources pg = Inr (\<exists>t \<in> set ts. task_killable t)"
    by (simp add: hasKillable_def assms(1) any_killable_present filter_empty_conv)
  have k: "killable_tasks (map Some ts) = Inr (filter task_killable ts)"
    by (simp add: killable_tasks_def mapM_present)
  show "f = None \<Longrightarrow> handleBatchKill isCancel net sources pg w
          = Some (fetchTasks (pg\<lparr>tl_selectedRowKeys := []\<rparr>), w1, Some (some_loading pg))"
    "f = Some (Throws e) \<Longrightarrow> handleBatchKill isCancel net sources pg w
          = Some (pg, w1\<lparr>web_app := snd (handleError isCancel (kill_error e) (web_app w1))\<rparr>, None)" for e
    by (simp_all add: handleBatchKill_def assms k)
  fix pg'
  assume "None \<in> set (selectedTasks sources pg')"
  then have "killable_tasks (selectedTasks sources pg') = Inl TypeError" by (simp add: killable_tasks_def mapM_missing)
  then show "\<exists>e. handleBatchKill isCancel net sources pg' w
            = Some (pg', w\<lparr>web_app := snd (handleError isCancel (kill_error e) (web_app w))\<rparr>, None)"
    by (simp add: handleBatchKill_def) blast
qed


definition sample_command :: "string \<Rightarrow> CommandState \<Rightarrow> Command" where
  "sample_command i s = \<lparr>cmd_config = \<lparr>cc_description = ''Shell (a-b)''\<rparr>, cmd_exitStatus = None, cmd_id = i,
     cmd_kind = CommandType_Shell, cmd_misc = None, cmd_registeredTime = ''t'', cmd_serviceAddress = None, cmd_state = s,
     cmd_user = \<lparr>user_username = ''ann''\<rparr>\<rparr>"

definition sample_task_page :: TaskListPage where
  "sample_task_page = (mount_task_list defaultTaskFilters defaultTaskSorter)\<lparr>tl_selectedRowKeys := [''b'', ''a'']\<rparr>"

definition sample_sources :: "CommandSource list" where
  "sample_sources = [\<lparr>cs_data = None, cs_hasLoaded = False\<rparr>,
     \<lparr>cs_data = Some [sample_command ''a'' CommandState_Terminated, sample_command ''b'' CommandState_Running], cs_hasLoaded = True\<rparr>]"

theorem batch_kill_witness:
  "\<exists>pg w1. handleBatchKill axios_isCancel (\<lambda>_ _. Inr ()) sample_sources sample_task_page sample_web = Some (pg, w1, Some True)
    \<and> length (web_requests w1) = 1 \<and> tl_selectedRowKeys pg = []"
proof -
  define ts where "ts = map commandToTask [sample_command ''b'' CommandState_Running, sample_command ''a'' CommandState_Terminated]"
  have sel: "selectedTasks sample_sources sample_task_page = map Some ts"
    by (simp add: selectedTasks_def sample_task_page_def taskMap_def loadedTasks_def sample_sources_def ts_def
        commandToTask_def sample_command_def)
  have k: "filter task_killable ts = [commandToTask (sample_command ''b'' CommandState_Running)]"
    by (simp add: ts_def task_killable_def commandToTask_def sample_command_def isTaskKillable_def killableRunStates_def
        killableCmdStates_def)
  obtain f w1 where p: "promise_all (killTask axios_isCancel (\<lambda>_ _. Inr ())) (filter task_killable ts) sample_web = (f, w1)"
    by (metis surj_pair)
  then have "f = None"
    by (auto simp: k killTask_def commandToTask_def sample_command_def generateDetApi_def Let_def killShell_def det_api_def noOp_def)
  moreover have "some_loading sample_task_page"
    by (simp add: some_loading_def sample_task_page_def mount_task_list_def mount_rest_def rest_effect_def numeral_eq_Suc)
  ultimately show ?thesis
    using batch_kill [OF sel p] by (auto simp: k fetchTasks_def sample_web_def)
qed

end
