(* ===== verification/Actions.thy ===== *)
theory Actions
  imports Experiment_List
begin

text \<open>
  Actions on one task, experiment or trial: the menu of a task (\<^verbatim>\<open>components/TaskActionDropdown.tsx\<close>), the buttons of
  an experiment and of a trial (\<^verbatim>\<open>pages/ExperimentDetails/ExperimentActions.tsx\<close>,
  \<^verbatim>\<open>pages/TrialDetails/TrialActions.tsx\<close>), and \<open>launchNotebook\<close> of \<^verbatim>\<open>utils/task.ts\<close>.
\<close>

section \<open>The menu of a task\<close>

datatype MenuAction = Menu_Activate | Menu_Archive | Menu_Cancel | Menu_Kill | Menu_Pause | Menu_Tensorboard | Menu_Unarchive

fun str_MenuAction :: "MenuAction \<Rightarrow> string" where
  "str_MenuAction Menu_Activate = ''activate''"
| "str_MenuAction Menu_Archive = ''archive''"
| "str_MenuAction Menu_Cancel = ''cancel''"
| "str_MenuAction Menu_Kill = ''kill''"
| "str_MenuAction Menu_Pause = ''pause''"
| "str_MenuAction Menu_Tensorboard = ''tensorboard''"
| "str_MenuAction Menu_Unarchive = ''unarchive''"

definition taskPath :: "CommandTask \<Rightarrow> string" where
  "taskPath task = ''/'' @ toLowerCase (str_CommandType (ct_type task)) @ ''/'' @ task_id task @ ''/logs?id='' @ task_name task"

text \<open>The keys of the menu's items; a command's last item is the link to its logs.\<close>

definition menuItems :: "AnyTask \<Rightarrow> string list" where
  "menuItems task =
     (let isExperiment = isExperimentTask task;
          in_run_states = (\<lambda>P. case any_state task of RunS s \<Rightarrow> P s | CommandS s \<Rightarrow> False);
          isExperimentTerminal = in_run_states (\<lambda>s. s \<in> terminalRunStates);
          isArchivable = (isExperiment \<and> isExperimentTerminal \<and> \<not> any_archived task);
          isUnarchivable = (isExperiment \<and> isExperimentTerminal \<and> any_archived task);
          isKillable = isTaskKillable (any_state task);
          isPausable = (isExperiment \<and> in_run_states (\<lambda>s. s = RunState_Active));
          isResumable = (isExperiment \<and> in_run_states (\<lambda>s. s = RunState_Paused));
          isCancelable = (isExperiment \<and> in_run_states (\<lambda>s. s \<in> set cancellableRunStates))
      in (if isResumable then [str_MenuAction Menu_Activate] else [])
       @ (if isPausable then [str_MenuAction Menu_Pause] else [])
       @ (if isArchivable then [str_MenuAction Menu_Archive] else [])
       @ (if isUnarchivable then [str_MenuAction Menu_Unarchive] else [])
       @ (if isCancelable then [str_MenuAction Menu_Cancel] else [])
       @ (if isKillable then [str_MenuAction Menu_Kill] else [])
       @ (if isExperiment then [str_MenuAction Menu_Tensorboard] else [''viewLogs'']))"

fun menu_api :: "MenuAction \<Rightarrow> (int, unit, unit) DetApi option" where
  "menu_api Menu_Activate = Some activateExperiment"
| "menu_api Menu_Archive = Some archiveExperiment"
| "menu_api Menu_Cancel = Some cancelExperiment"
| "menu_api Menu_Kill = Some killExperiment"
| "menu_api Menu_Pause = Some pauseExperiment"
| "menu_api Menu_Unarchive = Some unarchiveExperiment"
| "menu_api Menu_Tensorboard = None"

definition menu_error :: "MenuAction \<Rightarrow> AnyTask \<Rightarrow> js \<Rightarrow> js" where
  "menu_error action task e = Obj [
     (''error'', e),
     (''level'', js_level ErrorLevel_Error),
     (''message'', get_prop e ''message''),
     (''publicMessage'', Str (''Unable to '' @ str_MenuAction action @ '' task '' @ any_id task @ ''.'')),
     (''publicSubject'', Str (capitalize (str_MenuAction action) @ '' failed.'')),
     (''silent'', Bool False),
     (''type'', js_type ErrorType_Server)]"

text \<open>
  The call of an action in the menu of the task, with the windows it opens.  \<open>id\<close> is the number of an experiment task,
  whose identifier is the text of a number; an action with such a number on another task is not in its menu.
\<close>

definition menu_call ::
  "'s Store \<Rightarrow> (js \<Rightarrow> bool) \<Rightarrow> (codec \<Rightarrow> js \<Rightarrow> js + js) \<Rightarrow> Server \<Rightarrow> (MenuAction \<Rightarrow> 's Web \<Rightarrow> 's Web) option \<Rightarrow> MenuAction
    \<Rightarrow> AnyTask \<Rightarrow> int \<Rightarrow> 's Web \<Rightarrow> (failure + Nav list) \<times> 's Web" where
  "menu_call ops isCancel dec srv onComplete action task i w =
     (let complete = (\<lambda>w. case onComplete of Some f \<Rightarrow> f action w | None \<Rightarrow> w);
          request = (\<lambda>api w. case generateDetApi isCancel (srv_action srv) api i w of
             (Inl f, w) \<Rightarrow> (Inl f, w) | (Inr _, w) \<Rightarrow> (Inr [], complete w))
      in case menu_api action of
           None \<Rightarrow>
             (case openOrCreateTensorboard ops isCancel dec (srv_http srv)
                 \<lparr>src_ids = [i], src_type = TBSourceType_Experiment\<rparr> w of
                (Inl f, w) \<Rightarrow> (Inl f, w)
              | (Inr tensorboard, w) \<Rightarrow> (case openCommand (web_env w) (ACommand tensorboard) of
                    Inl e \<Rightarrow> (Inl (Raises e), w) | Inr navs \<Rightarrow> (Inr navs, w)))
         | Some api \<Rightarrow>
             (if action \<in> {Menu_Archive, Menu_Unarchive} \<and> \<not> isExperimentTask task then (Inr [], w)
              else if action = Menu_Kill then
                (case task of
                   ExperimentTask t \<Rightarrow> request api w
                 | CommandTask t \<Rightarrow> (case killTask isCancel (srv_action srv) t w of
                       (Inl f, w) \<Rightarrow> (Inl f, w) | (Inr _, w) \<Rightarrow> (Inr [], w)))
              else request api w))"

definition task_number :: "AnyTask \<Rightarrow> int" where
  "task_number task = (case parseInt (any_id task) of Fin q \<Rightarrow> \<lfloor>q\<rfloor> | _ \<Rightarrow> 0)"

text \<open>\<open>None\<close> when a cast has failed.\<close>

definition handleMenuClick ::
  "'s Store \<Rightarrow> (js \<Rightarrow> bool) \<Rightarrow> (codec \<Rightarrow> js \<Rightarrow> js + js) \<Rightarrow> Server \<Rightarrow> (MenuAction \<Rightarrow> 's Web \<Rightarrow> 's Web) option \<Rightarrow> MenuAction
    \<Rightarrow> AnyTask \<Rightarrow> 's Web \<Rightarrow> (Nav list \<times> 's Web) option" where
  "handleMenuClick ops isCancel dec srv onComplete action task w =
     (case menu_call ops isCancel dec srv onComplete action task (task_number task) w of
        (Inr navs, w) \<Rightarrow> Some (navs, w)
      | (Inl f, w) \<Rightarrow> map_option (\<lambda>e. ([], run_handler isCancel (menu_error action task e) w)) (caught f))"

section \<open>The buttons of an experiment\<close>

text \<open>Which buttons are loading, by the action's text.\<close>

type_synonym ButtonStates = "(string \<times> bool) list"

definition exp_button_states :: ButtonStates where
  "exp_button_states = map (\<lambda>a. (a, False))
     [''Activate'', ''Archive'', ''Cancel'', ''Fork'', ''Kill'', ''Pause'', ''Tensorboard'', ''Unarchive'']"

definition experimentWillNeverHaveData :: "ExperimentBase \<Rightarrow> TrialItem list \<Rightarrow> bool" where
  "experimentWillNeverHaveData experiment trials =
     (eb_state experiment \<in> terminalRunStates
      \<and> length (filter (\<lambda>trial. tr_totalBatchesProcessed trial > 0) trials) = 0)"

text \<open>\<open>try ... finally\<close>: the button is loading while the body runs and not afterwards, whatever its result.\<close>

definition with_loading ::
  "string \<Rightarrow> ('s Web \<Rightarrow> (failure + Nav list) \<times> 's Web) \<Rightarrow> ButtonStates \<times> 's Web
    \<Rightarrow> (failure + Nav list) \<times> ButtonStates \<times> 's Web" where
  "with_loading action body = (\<lambda>(btn, w).
     (let btn = obj_put action True btn; (r, w) = body w in (r, obj_put action False btn, w)))"

definition request_then ::
  "(js \<Rightarrow> bool) \<Rightarrow> Server \<Rightarrow> (int, unit, unit) DetApi \<Rightarrow> int \<Rightarrow> ('s Web \<Rightarrow> 's Web) \<Rightarrow> 's Web \<Rightarrow> (failure + Nav list) \<times> 's Web" where
  "request_then isCancel srv api i done w = (case generateDetApi isCancel (srv_action srv) api i w of
      (Inl f, w) \<Rightarrow> (Inl f, w) | (Inr _, w) \<Rightarrow> (Inr [], done w))"

definition handleArchive ::
  "(js \<Rightarrow> bool) \<Rightarrow> Server \<Rightarrow> ('s Web \<Rightarrow> 's Web) \<Rightarrow> int \<Rightarrow> ButtonStates \<times> 's Web \<Rightarrow> (failure + Nav list) \<times> ButtonStates \<times> 's Web" where
  "handleArchive isCancel srv onSettled i = with_loading ''Archive'' (request_then isCancel srv archiveExperiment i onSettled)"

definition handleUnarchive ::
  "(js \<Rightarrow> bool) \<Rightarrow> Server \<Rightarrow> ('s Web \<Rightarrow> 's Web) \<Rightarrow> int \<Rightarrow> ButtonStates \<times> 's Web \<Rightarrow> (failure + Nav list) \<times> ButtonStates \<times> 's Web" where
  "handleUnarchive isCancel srv onSettled i =
     with_loading ''Unarchive'' (request_then isCancel srv unarchiveExperiment i onSettled)"

definition handleKill ::
  "(js \<Rightarrow> bool) \<Rightarrow> Server \<Rightarrow> ('s Web \<Rightarrow> 's Web) \<Rightarrow> int \<Rightarrow> ButtonStates \<times> 's Web \<Rightarrow> (failure + Nav list) \<times> ButtonStates \<times> 's Web" where
  "handleKill isCancel srv onSettled i = with_loading ''Kill'' (request_then isCancel srv killExperiment i onSettled)"

definition open_tensorboard ::
  "'s Store \<Rightarrow> (js \<Rightarrow> bool) \<Rightarrow> (codec \<Rightarrow> js \<Rightarrow> js + js) \<Rightarrow> Server \<Rightarrow> TBSource \<Rightarrow> ('s Web \<Rightarrow> 's Web) \<Rightarrow> 's Web
    \<Rightarrow> (failure + Nav list) \<times> 's Web" where
  "open_tensorboard ops isCancel dec srv source onSettled w =
     (case openOrCreateTensorboard ops isCancel dec (srv_http srv) source w of
        (Inl f, w) \<Rightarrow> (Inl f, w)
      | (Inr tensorboard, w) \<Rightarrow> (case openCommand (web_env w) (ACommand tensorboard) of
            Inl e \<Rightarrow> (Inl (Raises e), w) | Inr navs \<Rightarrow> (Inr navs, onSettled w)))"

definition exp_handleCreateTensorboard ::
  "'s Store \<Rightarrow> (js \<Rightarrow> bool) \<Rightarrow> (codec \<Rightarrow> js \<Rightarrow> js + js) \<Rightarrow> Server \<Rightarrow> ('s Web \<Rightarrow> 's Web) \<Rightarrow> int
    \<Rightarrow> ButtonStates \<times> 's Web \<Rightarrow> (failure + Nav list) \<times> ButtonStates \<times> 's Web" where
  "exp_handleCreateTensorboard ops isCancel dec srv onSettled i = with_loading ''Tensorboard''
     (open_tensorboard ops isCancel dec srv \<lparr>src_ids = [i], src_type = TBSourceType_Experiment\<rparr> onSettled)"

text \<open>The action of a target state; the requests of three of them are returned from, before \<open>onSettled\<close>.\<close>

fun state_action :: "RunState \<Rightarrow> string option" where
  "state_action RunState_Active = Some ''Activate''"
| "state_action RunState_Paused = Some ''Pause''"
| "state_action RunState_Canceled = Some ''Cancel''"
| "state_action RunState_StoppingCanceled = Some ''Cancel''"
| "state_action _ = None"

fun state_api :: "RunState \<Rightarrow> (int, unit, unit) DetApi option" where
  "state_api RunState_StoppingCanceled = Some cancelExperiment"
| "state_api RunState_Paused = Some pauseExperiment"
| "state_api RunState_Active = Some activateExperiment"
| "state_api _ = None"

definition exp_handleStateChange ::
  "(js \<Rightarrow> bool) \<Rightarrow> Server \<Rightarrow> ('s Web \<Rightarrow> 's Web) \<Rightarrow> int \<Rightarrow> RunState \<Rightarrow> ButtonStates \<times> 's Web
    \<Rightarrow> (failure + Nav list) \<times> ButtonStates \<times> 's Web" where
  "exp_handleStateChange isCancel srv onSettled i targetState = (case state_action targetState of
      None \<Rightarrow> (\<lambda>(btn, w). (Inr [], btn, w))
    | Some action \<Rightarrow> with_loading action (\<lambda>w. case state_api targetState of
          Some api \<Rightarrow> request_then isCancel srv api i (\<lambda>w. w) w
        | None \<Rightarrow> (Inr [], onSettled w)))"

definition exp_actionButtons :: "ExperimentBase \<Rightarrow> TrialItem list \<Rightarrow> string list" where
  "exp_actionButtons e trials =
     (if eb_state e \<in> set killableRunStates then [''kill''] else [])
   @ (if eb_state e \<in> set cancellableRunStates then [''cancel''] else [])
   @ (if eb_state e = RunState_Active then [''pause''] else [])
   @ (if eb_state e = RunState_Paused then [''activate''] else [])
   @ [''fork'']
   @ (if \<not> experimentWillNeverHaveData e trials then [''tensorboard''] else [])
   @ (if eb_state e \<in> terminalRunStates \<and> \<not> eb_archived e then [''archive''] else [])
   @ (if eb_state e \<in> terminalRunStates \<and> eb_archived e then [''unarchive''] else [])"

section \<open>The buttons of a trial\<close>

definition trial_button_states :: ButtonStates where
  "trial_button_states = map (\<lambda>a. (a, False)) [''Continue'', ''Logs'', ''Tensorboard'']"

text \<open>\<open>in\<close> throws on the workload of an empty wrapper, which is \<open>undefined\<close>.\<close>

definition trialWillNeverHaveData :: "TrialDetails \<Rightarrow> bool result" where
  "trialWillNeverHaveData trial =
     (let ws = map getWorkload (tr_workloads trial) in
      if None \<in> set ws then Inl TypeError
      else Inr (tr_state trial \<in> terminalRunStates
        \<and> filter (\<lambda>w. case w of MetricsW m \<Rightarrow> field_value (mw_metrics m) \<noteq> None \<and> mw_state m = RunState_Completed | _ \<Rightarrow> False)
            (filter isMetricsWorkload (map the ws)) = []))"

text \<open>The key that is set is \<open>tensorboard\<close>, not that of the button, and it stays set when the request fails.\<close>

definition trial_handleCreateTensorboard ::
  "'s Store \<Rightarrow> (js \<Rightarrow> bool) \<Rightarrow> (codec \<Rightarrow> js \<Rightarrow> js + js) \<Rightarrow> Server \<Rightarrow> ('s Web \<Rightarrow> 's Web) \<Rightarrow> int
    \<Rightarrow> ButtonStates \<times> 's Web \<Rightarrow> (failure + Nav list) \<times> ButtonStates \<times> 's Web" where
  "trial_handleCreateTensorboard ops isCancel dec srv onSettled i = (\<lambda>(btn, w).
     (let btn = obj_put ''tensorboard'' True btn in
      case open_tensorboard ops isCancel dec srv \<lparr>src_ids = [i], src_type = TBSourceType_Trial\<rparr> onSettled w of
        (Inl f, w) \<Rightarrow> (Inl f, btn, w)
      | (Inr navs, w) \<Rightarrow> (Inr navs, obj_put ''tensorboard'' False btn, w)))"

definition trial_actionButtons :: "TrialDetails \<Rightarrow> string list result" where
  "trial_actionButtons trial = bind_exn (trialWillNeverHaveData trial) (\<lambda>never.
     Inr ([''Continue''] @ (if \<not> never then [''Tensorboard''] else []) @ [''Logs'']))"

section \<open>Launching a notebook\<close>

definition notebook_error :: "js \<Rightarrow> js" where
  "notebook_error e = Obj [
     (''error'', e),
     (''level'', js_level ErrorLevel_Error),
     (''message'', get_prop e ''message''),
     (''publicMessage'', Str ''Please try again later.''),
     (''publicSubject'', Str ''Unable to Launch Notebook''),
     (''silent'', Bool False),
     (''type'', js_type ErrorType_Server)]"

definition launchNotebook ::
  "'s Store \<Rightarrow> (js \<Rightarrow> bool) \<Rightarrow> (codec \<Rightarrow> js \<Rightarrow> js + js) \<Rightarrow> Server \<Rightarrow> int \<Rightarrow> 's Web \<Rightarrow> (Nav list \<times> 's Web) option" where
  "launchNotebook ops isCancel dec srv slots w =
     (let fail = (\<lambda>f w. map_option (\<lambda>e. ([], run_handler isCancel (notebook_error e) w)) (caught f))
      in case generateApi ops isCancel (srv_http srv) (createNotebook dec) Undefined slots w of
           (Inl f, w) \<Rightarrow> fail f w
         | (Inr notebook, w) \<Rightarrow> (case openCommand (web_env w) (ACommand notebook) of
               Inl e \<Rightarrow> fail (Raises e) w | Inr navs \<Rightarrow> Some (navs, w)))"

section \<open>Lemmas\<close>

lemma menu_api_not_stubbed: "menu_api action = Some api \<Longrightarrow> da_stubbedResponse api = None"
  by (cases action) (auto intro: action_not_stubbed [of Action_Activate] action_not_stubbed [of Action_Archive]
      action_not_stubbed [of Action_Cancel] action_not_stubbed [of Action_Kill] action_not_stubbed [of Action_Pause]
      action_not_stubbed [of Action_Unarchive])

lemma state_api_not_stubbed: "state_api s = Some api \<Longrightarrow> da_stubbedResponse api = None"
  by (cases s) (auto intro: action_not_stubbed [of Action_Activate] action_not_stubbed [of Action_Cancel]
      action_not_stubbed [of Action_Pause])

lemma task_number_experiment: "task_number (ExperimentTask (experimentToTask e)) = exp_id e"
  by (simp add: task_number_def experimentToTask_def Let_def)

lemma request_then_sends:
  assumes "da_stubbedResponse api = None"
  shows "web_requests (snd (request_then isCancel srv api i (\<lambda>w. w) w)) = web_requests w @ [det_request api i w]"
proof -
  have call: "request_call (\<lambda>i. generateDetApi isCancel (srv_action srv) api i) (\<lambda>i. det_request api i)"
    by (rule det_call [where api = "\<lambda>_. api" and f = "\<lambda>i. i", OF assms])
  from request_call.sends [OF call, of i w] show ?thesis by (auto simp: request_then_def split: prod.splits sum.splits)
qed

lemma request_then_notifies:
  assumes "da_stubbedResponse api = None"
  shows "\<exists>w1. web_requests w1 = web_requests w @ [det_request api i w]
    \<and> snd (request_then isCancel srv api i notify w) = (if fst (request_then isCancel srv api i notify w) = Inr [] then notify w1 else w1)"
proof -
  obtain r w1 where g: "generateDetApi isCancel (srv_action srv) api i w = (r, w1)" by (metis surj_pair)
  have call: "request_call (\<lambda>i. generateDetApi isCancel (srv_action srv) api i) (\<lambda>i. det_request api i)"
    by (rule det_call [where api = "\<lambda>_. api" and f = "\<lambda>i. i", OF assms])
  have "web_requests w1 = web_requests w @ [det_request api i w]" using request_call.sends [OF call, of i w] by (simp add: g)
  then show ?thesis by (cases r) (auto simp: request_then_def g)
qed

lemma with_loading_flag: "map_of (fst (snd (with_loading action body (btn, w)))) k
    = (if k = action then Some False else map_of btn k)"
  by (simp add: with_loading_def split_beta)

lemma with_loading_body: "snd (snd (with_loading action body (btn, w))) = snd (body w)"
  "fst (with_loading action body (btn, w)) = fst (body w)"
  by (simp_all add: with_loading_def split_beta)

section \<open>Properties\<close>





end
