(* ===== verification/Experiment_Details.thy ===== *)
theory Experiment_Details
  imports Trial_Details Actions
begin

text \<open>
  The page of an experiment (\<^verbatim>\<open>pages/ExperimentDetails.tsx\<close>): what it fetches, the best checkpoint and validation, the
  table of trials, and the configuration that a fork of the experiment starts from.
\<close>

section \<open>State\<close>

definition ED_STORAGE_PATH :: string where "ED_STORAGE_PATH = ''experiment-detail''"

definition ED_STORAGE_LIMIT_KEY :: string where "ED_STORAGE_LIMIT_KEY = ''limit''"

definition ED_STORAGE_SORTER_KEY :: string where "ED_STORAGE_SORTER_KEY = ''sorter''"

record TopWorkloads =
  bestCheckpoint :: "CheckpointDetail option"
  bestValidation :: "number option"

record ExperimentPage =
  ep_id :: int
  ep_activeCheckpoint :: "CheckpointWorkloadExtended option"
  ep_showCheckpoint :: bool
  ep_forkModalVisible :: bool
  ep_forkModalConfig :: string
  ep_pageSize :: int
  ep_sorter :: "ApiSorter option"
  ep_experiment :: "ExperimentBase option"
  ep_error :: "js option"
  ep_isLoading :: bool
  ep_trials :: "TrialDetails list"
  ep_valHistory :: "ValidationHistory list"
  ep_bestWorkloads :: "TopWorkloads option"

definition mount_experiment_page :: "int \<Rightarrow> int \<Rightarrow> ApiSorter option \<Rightarrow> ExperimentPage" where
  "mount_experiment_page i initLimit initSorter =
     \<lparr>ep_id = i, ep_activeCheckpoint = None, ep_showCheckpoint = False, ep_forkModalVisible = False,
      ep_forkModalConfig = ''Loading'', ep_pageSize = initLimit, ep_sorter = initSorter, ep_experiment = None,
      ep_error = None, ep_isLoading = True, ep_trials = [], ep_valHistory = [], ep_bestWorkloads = None\<rparr>"

section \<open>Fetching\<close>

record ExperimentServer =
  es_experiment :: "nat \<Rightarrow> Request \<Rightarrow> js + V1Experiment \<times> js"
  es_trials :: "nat \<Rightarrow> Request \<Rightarrow> js + Trialv1Trial list"
  es_history :: "nat \<Rightarrow> Request \<Rightarrow> js + V1ValidationHistoryEntry list option"
  es_checkpoints :: "nat \<Rightarrow> Request \<Rightarrow> js + V1Checkpoint list option"

definition all_trials :: "int \<Rightarrow> GetTrialsParams" where
  "all_trials i = \<lparr>gtp_id = i, gtp_sortBy = None, gtp_orderBy = None, gtp_offset = None, gtp_limit = None, gtp_states = None\<rparr>"

text \<open>The three requests, one after the other; the first failure is the result.\<close>

definition fetch_parts ::
  "(js \<Rightarrow> bool) \<Rightarrow> (codec \<Rightarrow> js \<Rightarrow> js + js) \<Rightarrow> ExperimentServer \<Rightarrow> int \<Rightarrow> 's Web
    \<Rightarrow> (failure + ExperimentBase \<times> TrialDetails list \<times> ValidationHistory list) \<times> 's Web" where
  "fetch_parts isCancel dec srv i w =
     (case generateDetApi isCancel (es_experiment srv) (getExperimentDetails dec) i w of
        (Inl f, w) \<Rightarrow> (Inl f, w)
      | (Inr experiment, w) \<Rightarrow>
     (case generateDetApi isCancel (es_trials srv) getExpTrials (all_trials i) w of
        (Inl f, w) \<Rightarrow> (Inl f, w)
      | (Inr trials, w) \<Rightarrow>
     (case generateDetApi isCancel (es_history srv) getExpValidationHistory i w of
        (Inl f, w) \<Rightarrow> (Inl f, w)
      | (Inr validationHistory, w) \<Rightarrow> (Inr (experiment, trials, validationHistory), w))))"

definition ed_fetchExperimentDetails ::
  "(js \<Rightarrow> bool) \<Rightarrow> (codec \<Rightarrow> js \<Rightarrow> js + js) \<Rightarrow> ExperimentServer \<Rightarrow> ExperimentPage \<Rightarrow> 's Web \<Rightarrow> ExperimentPage \<times> 's Web" where
  "ed_fetchExperimentDetails isCancel dec srv pg w = (case fetch_parts isCancel dec srv (ep_id pg) w of
      (Inr (experiment, trials, validationHistory), w) \<Rightarrow>
        (pg\<lparr>ep_experiment := Some experiment, ep_isLoading := False, ep_trials := trials, ep_valHistory := validationHistory\<rparr>, w)
    | (Inl f, w) \<Rightarrow> (case caught f of
          Some e \<Rightarrow> if ep_error pg = None \<and> \<not> isAborted isCancel e then (pg\<lparr>ep_error := Some e\<rparr>, w) else (pg, w)
        | None \<Rightarrow> (pg, w)))"

text \<open>
  The effect that fetches the best checkpoint, without the error handling of the request table: a failure is not caught
  and the page keeps what it had.
\<close>

definition checkpoints_request :: "ExperimentPage \<Rightarrow> 's Web \<Rightarrow> Request" where
  "checkpoints_request pg w = SdkRequest ''Experiments'' ''determinedGetExperimentCheckpoints''
     [js_int (ep_id pg), Str ''SORT_BY_SEARCHER_METRIC'',
      Str (case ep_experiment pg of
          Some e \<Rightarrow> if conf_smallerIsBetter (eb_config e) then ''ORDER_BY_ASC'' else ''ORDER_BY_DESC''
        | None \<Rightarrow> ''ORDER_BY_DESC''),
      Undefined, js_int 1, js_strs [''STATE_COMPLETED''], js_strs [''STATE_COMPLETED'']]
     (the (map_of (web_detApi w) ''Experiments''))"

definition best_workloads_effect :: "ExperimentServer \<Rightarrow> ExperimentPage \<Rightarrow> 's Web \<Rightarrow> ExperimentPage \<times> 's Web" where
  "best_workloads_effect srv pg w =
     (let req = checkpoints_request pg w in
      case es_checkpoints srv (length (web_requests w)) req of
        Inl e \<Rightarrow> (pg, log_request req w)
      | Inr resp \<Rightarrow>
          (let checkpoints = map_option (map decodeCheckpoint) resp;
               best = (case checkpoints of Some (c # _) \<Rightarrow> Some c | _ \<Rightarrow> None);
               validation = (if length (ep_valHistory pg) > 1
                 then vh_validationError (ep_valHistory pg ! (length (ep_valHistory pg) - 1)) else None)
           in (pg\<lparr>ep_bestWorkloads := Some \<lparr>bestCheckpoint = best, bestValidation = validation\<rparr>\<rparr>, log_request req w)))"

definition ed_stops_polling :: "ExperimentPage \<Rightarrow> bool" where
  "ed_stops_polling pg = (case ep_experiment pg of Some e \<Rightarrow> eb_state e \<in> terminalRunStates | None \<Rightarrow> False)"

section \<open>The table of trials\<close>

definition ed_metric :: "ExperimentPage \<Rightarrow> string option" where
  "ed_metric pg = map_option (\<lambda>e. conf_metric (eb_config e)) (ep_experiment pg)"

definition ed_smallerIsBetter :: "ExperimentPage \<Rightarrow> bool" where
  "ed_smallerIsBetter pg = (case ep_experiment pg of Some e \<Rightarrow> conf_smallerIsBetter (eb_config e) | None \<Rightarrow> False)"

definition latest_metric :: "ExperimentPage \<Rightarrow> 'a TrialItem_scheme \<Rightarrow> number option" where
  "latest_metric pg trial = getMetricValue (map_option MetricsW (tr_latestValidationMetric trial)) (ed_metric pg)"

definition latestValidationSorter :: "ExperimentPage \<Rightarrow> 'a TrialItem_scheme \<Rightarrow> 'b TrialItem_scheme \<Rightarrow> number" where
  "latestValidationSorter pg a b = (case ed_metric pg of
      None \<Rightarrow> Fin 0
    | Some m \<Rightarrow> if m = [] then Fin 0 else numericSorter (latest_metric pg a) (latest_metric pg b) False)"

definition ed_checkpointRenderer :: "ExperimentPage \<Rightarrow> 'a TrialItem_scheme \<Rightarrow> CheckpointWorkloadExtended option" where
  "ed_checkpointRenderer pg trial =
     map_option (\<lambda>c. CheckpointWorkload.extend c \<lparr>cwe_experimentId = ep_id pg, cwe_trialId = tr_id trial\<rparr>)
       (tr_bestAvailableCheckpoint trial)"

definition column_order :: "ExperimentPage \<Rightarrow> string \<Rightarrow> string option" where
  "column_order pg key = (case ep_sorter pg of
      None \<Rightarrow> if key = ''bestValidation'' then Some (if ed_smallerIsBetter pg then ''ascend'' else ''descend'') else None
    | Some s \<Rightarrow> if key = sorter_key s then Some (if sorter_descend s then ''descend'' else ''ascend'') else None)"

definition ed_handleTableChange ::
  "'s Store \<Rightarrow> Storage \<Rightarrow> string list \<Rightarrow> int \<Rightarrow> string option \<Rightarrow> string option
    \<Rightarrow> ExperimentPage \<times> 's \<Rightarrow> (ExperimentPage \<times> 's) result" where
  "ed_handleTableChange ops storage columnKeys pageSize columnKey order = (\<lambda>(pg, s). (case columnKey of
      None \<Rightarrow> Inr (pg, s)
    | Some key \<Rightarrow>
        if key = [] \<or> key \<notin> set columnKeys then Inr (pg, s)
        else
          let sorter = \<lparr>sorter_descend = (order = Some ''descend''), sorter_key = key\<rparr> in
          bind_exn (storage_set ops storage s ED_STORAGE_SORTER_KEY (sorter_json sorter)) (\<lambda>s.
          bind_exn (storage_set ops storage s ED_STORAGE_LIMIT_KEY (js_int pageSize)) (\<lambda>s.
          Inr (pg\<lparr>ep_sorter := Some sorter, ep_pageSize := pageSize\<rparr>, s)))))"

definition ed_handleCheckpointShow :: "CheckpointWorkloadExtended \<Rightarrow> ExperimentPage \<Rightarrow> ExperimentPage" where
  "ed_handleCheckpointShow checkpoint pg = pg\<lparr>ep_activeCheckpoint := Some checkpoint, ep_showCheckpoint := True\<rparr>"

definition ed_handleCheckpointDismiss :: "ExperimentPage \<Rightarrow> ExperimentPage" where
  "ed_handleCheckpointDismiss pg = pg\<lparr>ep_showCheckpoint := False\<rparr>"

section \<open>Forking\<close>

definition setFreshForkConfig :: "Yaml \<Rightarrow> ExperimentPage \<Rightarrow> failure option \<times> ExperimentPage" where
  "setFreshForkConfig yaml pg = (case ep_experiment pg of
      None \<Rightarrow> (None, pg)
    | Some experiment \<Rightarrow>
        if \<not> truthy (eb_configRaw experiment) then (None, pg)
        else if ep_forkModalVisible pg then (None, pg)
        else case bind_exn (lift_exn (bind_exn (clone (eb_configRaw experiment) True) (\<lambda>rawConfig.
               bind_exn (js_get rawConfig ''description'') (\<lambda>d.
               bind_exn (js_set rawConfig ''description'' (Str (''Fork of '' @ js_str d))) upgradeConfig))))
             (\<lambda>rawConfig. lift_throw (safeDump yaml rawConfig)) of
            Inl f \<Rightarrow> (Some f, pg)
          | Inr t \<Rightarrow> (None, pg\<lparr>ep_forkModalConfig := t\<rparr>))"

definition handleForkModalCancel :: "Yaml \<Rightarrow> ExperimentPage \<Rightarrow> failure option \<times> ExperimentPage" where
  "handleForkModalCancel yaml pg =
     (case setFreshForkConfig yaml pg of (f, pg') \<Rightarrow> (f, pg'\<lparr>ep_forkModalVisible := False\<rparr>))"

definition showForkModal :: "ExperimentPage \<Rightarrow> ExperimentPage" where
  "showForkModal pg = pg\<lparr>ep_forkModalVisible := True\<rparr>"

definition fork_effect :: "(js \<Rightarrow> bool) \<Rightarrow> Yaml \<Rightarrow> ExperimentPage \<times> 's Web \<Rightarrow> ExperimentPage \<times> 's Web" where
  "fork_effect isCancel yaml = (\<lambda>(pg, w). (case setFreshForkConfig yaml pg of
      (None, pg) \<Rightarrow> (pg, w)
    | (Some f, pg) \<Rightarrow> (case caught f of
          None \<Rightarrow> (pg, w)
        | Some e \<Rightarrow>
            (pg\<lparr>ep_forkModalConfig := ''failed to load experiment config''\<rparr>,
             run_handler isCancel (Obj [
                (''error'', e),
                (''message'', Str ''failed to load experiment config''),
                (''type'', js_type ErrorType_ApiBadResponse)]) w))))"

section \<open>Lemmas\<close>

lemma clone_pure:
  assumes "wf_js data" "pure_json data"
  shows "clone data True = Inr data"
  using assms json_parse_stringify [of data] of_to_json [of data]
  by (cases data) (auto simp: clone_def stringify_def split: option.splits)

lemma js_set_description_ok: "config_ok cs \<Longrightarrow> config_ok (obj_put ''description'' d cs)"
  by (auto simp: config_ok_def split: option.splits)

lemma good_description: "good_path [''description'']"
  by (simp add: good_path_def)

lemma getPathList_put:
  "good_path [k] \<Longrightarrow> getPathList (Obj (obj_put j v cs)) [k] = (if k = j then Inr v else getPathList (Obj cs) [k])"
  by (simp add: getPathList_good)

text \<open>The requests of \<open>fetch_parts\<close>: each is sent when those before it have succeeded.\<close>

lemma det_sends:
  assumes "da_stubbedResponse api = None"
  shows "web_requests (snd (generateDetApi isCancel net api p w)) = web_requests w @ [det_request api p w]"
  using assms by (auto simp: generateDetApi_def Let_def split: sum.splits)

lemma details_not_stubbed:
  "da_stubbedResponse (getExperimentDetails dec) = None" "da_stubbedResponse getExpTrials = None"
  "da_stubbedResponse getExpValidationHistory = None"
  by (simp_all add: getExperimentDetails_def getExpTrials_def getExpValidationHistory_def det_api_def)

lemma fetch_parts_requests:
  assumes "fetch_parts isCancel dec srv i w = (r, w')"
  shows "\<exists>n \<in> {1, 2, 3}. \<exists>reqs. length reqs = n \<and> web_requests w' = web_requests w @ reqs \<and> ((\<exists>v. r = Inr v) \<longrightarrow> n = 3)"
proof -
  obtain r1 w1 where 1: "generateDetApi isCancel (es_experiment srv) (getExperimentDetails dec) i w = (r1, w1)" by (metis surj_pair)
  obtain r2 w2 where 2: "generateDetApi isCancel (es_trials srv) getExpTrials (all_trials i) w1 = (r2, w2)" by (metis surj_pair)
  obtain r3 w3 where 3: "generateDetApi isCancel (es_history srv) getExpValidationHistory i w2 = (r3, w3)" by (metis surj_pair)
  obtain q1 q2 q3 where q: "web_requests w1 = web_requests w @ [q1]" "web_requests w2 = web_requests w1 @ [q2]"
    "web_requests w3 = web_requests w2 @ [q3]"
    using det_sends [OF details_not_stubbed(1), of isCancel "es_experiment srv" dec i w]
      det_sends [OF details_not_stubbed(2), of isCancel "es_trials srv" "all_trials i" w1]
      det_sends [OF details_not_stubbed(3), of isCancel "es_history srv" i w2] by (simp add: 1 2 3)
  consider f where "r1 = Inl f" "r = Inl f" "w' = w1" | f v where "r1 = Inr v" "r2 = Inl f" "r = Inl f" "w' = w2"
    | v u where "r1 = Inr v" "r2 = Inr u" "w' = w3"
    using assms by (cases r1; cases r2; cases r3) (auto simp: fetch_parts_def 1 2 3)
  then show ?thesis
  proof cases
    case 1
    then show ?thesis using q by (intro bexI [of _ 1] exI [of _ "[q1]"]) auto
  next
    case 2
    then show ?thesis using q by (intro bexI [of _ 2] exI [of _ "[q1, q2]"]) auto
  next
    case 3
    then show ?thesis using q by (intro bexI [of _ 3] exI [of _ "[q1, q2, q3]"]) auto
  qed
qed

section \<open>Properties\<close>



definition sample_fork_page :: ExperimentPage where
  "sample_fork_page = (mount_experiment_page 3 10 None)\<lparr>ep_experiment := Some \<lparr>eb_archived = False,
     eb_config = \<lparr>conf_checkpointPolicy = ''best'', conf_checkpointStorage = None, conf_dataLayer = None, conf_description = ''d'',
       conf_hyperparameters = [], conf_labels = None, conf_maxSlots = None, conf_metric = ''loss'', conf_smallerIsBetter = True\<rparr>,
     eb_configRaw = Obj [(''description'', Str ''mnist''), (''labels'', Arr []), (''min_checkpoint_period'', Num (Fin 2))],
     eb_endTime = None, eb_id = 3, eb_progress = None, eb_startTime = ''t'', eb_state = RunState_Active, eb_username = ''ann''\<rparr>\<rparr>"


definition sample_experiment_server :: ExperimentServer where
  "sample_experiment_server = \<lparr>es_experiment = (\<lambda>_ _. Inl Null), es_trials = (\<lambda>_ _. Inl Null), es_history = (\<lambda>_ _. Inl Null),
     es_checkpoints = (\<lambda>_ _. Inr None)\<rparr>"


end
