(* ===== verification/Metric_Filter.thy ===== *)
theory Metric_Filter
  imports Trial_Util Services
begin

text \<open>
  The choice of metrics (\<^verbatim>\<open>components/MetricSelectFilter.tsx\<close>) and the chart of a trial's metrics
  (\<^verbatim>\<open>pages/TrialDetails/TrialChart.tsx\<close>) with the colours it gives to them.
\<close>

section \<open>The filter\<close>

definition allOptionId :: string where "allOptionId = ''ALL_RESULTS''"

definition resetOptionId :: string where "resetOptionId = ''RESET_RESULTS''"

text \<open>The value: none, a single metric or a list; and what \<open>onChange\<close> is called with.\<close>

datatype MetricValue = NoMetric | OneMetric MetricName | ManyMetrics "MetricName list"

record MetricFilter =
  mf_default :: "MetricName list"
  mf_names :: "MetricName list"
  mf_multiple :: bool
  mf_value :: MetricValue
  mf_search :: string \<comment> \<open>\<open>filterString\<close>\<close>

definition filterFn :: "string \<Rightarrow> string \<Rightarrow> bool" where
  "filterFn search metricName = contains (toLowerCase search) (toLowerCase metricName)"

definition metricValues :: "MetricFilter \<Rightarrow> string list option" where
  "metricValues f = (case mf_value f of
      ManyMetrics ms \<Rightarrow> if mf_multiple f then Some (map metricNameToValue ms) else None
    | OneMetric m \<Rightarrow> if \<not> mf_multiple f then Some [metricNameToValue m] else None
    | NoMetric \<Rightarrow> None)"

definition trainingMetricNames :: "MetricFilter \<Rightarrow> MetricName list" where
  "trainingMetricNames f = filter (\<lambda>m. mn_type m = MetricType_Training) (mf_names f)"

definition validationMetricNames :: "MetricFilter \<Rightarrow> MetricName list" where
  "validationMetricNames f = filter (\<lambda>m. mn_type m = MetricType_Validation) (mf_names f)"

definition visibleMetrics :: "MetricFilter \<Rightarrow> MetricName list" where
  "visibleMetrics f = filter (\<lambda>m. filterFn (mf_search f) (mn_name m)) (mf_names f)"

text \<open>
  A value of the options as a metric.  The two types are the only ones that stand before the bar of an option's value;
  any other text would be cast to a type it is not, and counts as no metric here.
\<close>

definition option_metric :: "string \<Rightarrow> MetricName option" where
  "option_metric v = (case valueToMetricName v of
      None \<Rightarrow> None
    | Some (name, t) \<Rightarrow>
        if t = str_MetricType MetricType_Training then Some \<lparr>mn_name = name, mn_type = MetricType_Training\<rparr>
        else if t = str_MetricType MetricType_Validation then Some \<lparr>mn_name = name, mn_type = MetricType_Validation\<rparr>
        else None)"

text \<open>
  What the handlers call \<open>onChange\<close> with; \<open>None\<close> when they do not call it.  \<open>valueToMetricName\<close> makes a new object, which
  is identical to none of the selected ones, so \<open>indexOf\<close> never finds it.
\<close>

definition handleMetricSelect :: "(string \<Rightarrow> string \<Rightarrow> int) \<Rightarrow> string \<Rightarrow> MetricFilter \<Rightarrow> MetricValue option" where
  "handleMetricSelect lc newValue f =
     (if newValue = allOptionId then Some (ManyMetrics (js_sort (metricNameSorter lc) (visibleMetrics f)))
      else if newValue = resetOptionId then Some (ManyMetrics (js_sort (metricNameSorter lc) (mf_default f)))
      else case option_metric newValue of
          None \<Rightarrow> None
        | Some metricName \<Rightarrow>
            if mf_multiple f then
              (let newMetric = (case mf_value f of ManyMetrics ms \<Rightarrow> ms | _ \<Rightarrow> []) @ [metricName]
               in Some (ManyMetrics (js_sort (metricNameSorter lc) newMetric)))
            else Some (OneMetric metricName))"

fun remove_first :: "('a \<Rightarrow> bool) \<Rightarrow> 'a list \<Rightarrow> 'a list" where
  "remove_first P [] = []"
| "remove_first P (x # xs) = (if P x then xs else x # remove_first P xs)"

definition handleMetricDeselect :: "(string \<Rightarrow> string \<Rightarrow> int) \<Rightarrow> string \<Rightarrow> MetricFilter \<Rightarrow> MetricValue option" where
  "handleMetricDeselect lc newValue f =
     (if \<not> mf_multiple f then None
      else case mf_value f of
          ManyMetrics ms \<Rightarrow>
            if length ms \<le> 1 then None
            else Some (ManyMetrics (js_sort (metricNameSorter lc) (remove_first (\<lambda>m. metricNameToValue m = newValue) ms)))
        | _ \<Rightarrow> None)"

text \<open>An option by its key and its value, which groups lack.\<close>

definition handleFiltering ::
  "(js \<Rightarrow> bool) \<Rightarrow> bool \<Rightarrow> string \<Rightarrow> string \<Rightarrow> string option \<Rightarrow> App \<Rightarrow> bool \<times> App" where
  "handleFiltering isCancel isDev search key value w =
     (if key = allOptionId \<or> key = resetOptionId then (True, w)
      else case value of
          None \<Rightarrow> (False, w)
        | Some v \<Rightarrow> if v = [] then (False, w)
            else (case metricNameFromValue isCancel isDev v w of
                (None, w) \<Rightarrow> (False, w) | (Some m, w) \<Rightarrow> (filterFn search (mn_name m), w)))"

definition handleSearchInputChange :: "string \<Rightarrow> MetricFilter \<Rightarrow> MetricFilter" where
  "handleSearchInputChange searchInput f = f\<lparr>mf_search := searchInput\<rparr>"

definition handleBlur :: "MetricFilter \<Rightarrow> MetricFilter" where
  "handleBlur f = f\<lparr>mf_search := []\<rparr>"

definition allOptionLabel :: "MetricFilter \<Rightarrow> string" where
  "allOptionLabel f = (let n = length (visibleMetrics f) in
     if n = length (mf_names f) then ''All'' else ''All '' @ show_nat n @ '' results'')"

text \<open>For a single metric the length is that of its value's text.\<close>

definition selector_placeholder :: "MetricFilter \<Rightarrow> int \<times> string" where
  "selector_placeholder f = (case metricValues f of
      None \<Rightarrow> (0, [])
    | Some vs \<Rightarrow>
        (let n = (if mf_multiple f then length vs else length (hd vs)); all = length (mf_names f) in
         if n = 0 then (- 1, ''None selected'')
         else if n = all then (0, ''All '' @ show_nat all @ '' selected'')
         else (0, show_nat n @ '' of '' @ show_nat all @ '' selected'')))"

section \<open>The chart\<close>

definition chartColorList :: "string list" where
  "chartColorList = [''#1f77b4'', ''#ff7f0e'', ''#2ca02c'', ''#d62728'', ''#9467bd'', ''#8c564b'', ''#e377c2'', ''#7f7f7f'',
     ''#bcbd22'', ''#17becf'']"

text \<open>\<open>metricColorByKey\<close> is shared by all charts of the session.\<close>

definition getMetricColorByKey :: "string \<Rightarrow> (string \<times> string) list \<Rightarrow> string \<times> (string \<times> string) list" where
  "getMetricColorByKey metricKey colors = (case map_of colors metricKey of
      Some c \<Rightarrow> (c, colors)
    | None \<Rightarrow>
        (let c = chartColorList ! (length colors mod length chartColorList)
         in (c, obj_put metricKey c colors)))"

definition metricKey :: "MetricName \<Rightarrow> string" where
  "metricKey m = str_MetricType (mn_type m) @ ''_'' @ mn_name m"

text \<open>A trace: its name, its colour and its points; the texts shown at the points are made of their coordinates.\<close>

record Trace =
  trc_name :: string
  trc_color :: string
  trc_points :: "(int \<times> number) list"

text \<open>The point of a workload: none without a completed workload, a batch number and a value that are not zero.\<close>

definition chart_point :: "MetricName \<Rightarrow> WorkloadWrapper \<Rightarrow> (int \<times> number) option" where
  "chart_point metric wlWrapper =
     (case (if mn_type metric = MetricType_Training then ww_training wlWrapper else ww_validation wlWrapper) of
        None \<Rightarrow> None
      | Some wl \<Rightarrow>
          if mw_state wl \<noteq> RunState_Completed then None
          else
            (let source = (case field_value (mw_metrics wl) of Some ms \<Rightarrow> ms | None \<Rightarrow> []);
                 x = wl_numBatches wl + wl_priorBatchesProcessed wl
             in case map_of source (mn_name metric) of
                  None \<Rightarrow> None
                | Some y \<Rightarrow> if x \<noteq> 0 \<and> truthy (Num y) then Some (x, y) else None))"

definition chart_add ::
  "WorkloadWrapper \<times> MetricName \<Rightarrow> (string \<times> Trace) list \<times> (string \<times> string) list
    \<Rightarrow> (string \<times> Trace) list \<times> (string \<times> string) list" where
  "chart_add = (\<lambda>(wlWrapper, metric) (dataMap, colors). (case chart_point metric wlWrapper of
      None \<Rightarrow> (dataMap, colors)
    | Some p \<Rightarrow> (case map_of dataMap (metricKey metric) of
          None \<Rightarrow> (case getMetricColorByKey (metricKey metric) colors of
            (c, colors) \<Rightarrow> (obj_put (metricKey metric)
              \<lparr>trc_name = mn_name metric @ '' ('' @ str_MetricType (mn_type metric) @ '')'', trc_color = c, trc_points = [p]\<rparr> dataMap, colors))
        | Some t \<Rightarrow> (obj_put (metricKey metric) (t\<lparr>trc_points := trc_points t @ [p]\<rparr>) dataMap, colors))))"

text \<open>The loop over the workloads and, for each, over the metrics.\<close>

definition chart_pairs :: "MetricName list \<Rightarrow> WorkloadWrapper list \<Rightarrow> (WorkloadWrapper \<times> MetricName) list" where
  "chart_pairs metrics workloads = concat (map (\<lambda>wl. map (\<lambda>m. (wl, m)) metrics) workloads)"

definition chart_data ::
  "MetricName list \<Rightarrow> WorkloadWrapper list \<Rightarrow> (string \<times> string) list \<Rightarrow> Trace list \<times> (string \<times> string) list" where
  "chart_data metrics workloads colors =
     (case fold chart_add (chart_pairs metrics workloads) ([], colors) of (dataMap, colors) \<Rightarrow> (obj_values dataMap, colors))"

definition init_metric :: "MetricName list \<Rightarrow> string option \<Rightarrow> MetricName option" where
  "init_metric metricNames validationMetric =
     (case find (\<lambda>m. Some (mn_name m) = validationMetric \<and> mn_type m = MetricType_Validation) metricNames of
        Some m \<Rightarrow> Some m
      | None \<Rightarrow> (case metricNames of [] \<Rightarrow> None | m # _ \<Rightarrow> Some m))"

section \<open>Lemmas\<close>

lemma option_value_split:
  "js_split ''|'' (metricNameToValue m) = str_MetricType (mn_type m) # js_split ''|'' (mn_name m)"
proof -
  have "CHR ''|'' \<notin> set (str_MetricType t)" for t by (cases t) simp_all
  from js_split_sep [OF this, of "mn_type m" "mn_name m"] show ?thesis by (simp add: metricNameToValue_def)
qed

lemma option_metric_value: "CHR ''|'' \<notin> set (mn_name m) \<Longrightarrow> option_metric (metricNameToValue m) = Some m"
  by (cases m; cases "mn_type m")
    (simp_all add: option_metric_def valueToMetricName_def option_value_split js_split_end)

lemma option_metric_bar:
  assumes "CHR ''|'' \<in> set (mn_name m)"
  shows "option_metric (metricNameToValue m) = None"
proof -
  obtain a b where ab: "mn_name m = a @ CHR ''|'' # b" "CHR ''|'' \<notin> set a" using assms by (meson split_list_first)
  have "split_aux d acc s \<noteq> []" for d acc s by (induction d acc s rule: split_aux.induct) auto
  then have "js_split ''|'' b \<noteq> []" by (simp add: js_split_def)
  then have "length (js_split ''|'' (metricNameToValue m)) \<noteq> 2"
    using js_split_sep [OF ab(2), of b] by (simp add: option_value_split ab(1))
  then show ?thesis by (simp add: option_metric_def valueToMetricName_def)
qed

lemma value_has_bar: "CHR ''|'' \<in> set (metricNameToValue m)"
  by (simp add: metricNameToValue_def)

lemma value_no_id: "metricNameToValue m \<noteq> allOptionId" "metricNameToValue m \<noteq> resetOptionId"
proof -
  have "CHR ''|'' \<notin> set allOptionId" "CHR ''|'' \<notin> set resetOptionId" by (simp_all add: allOptionId_def resetOptionId_def)
  then show "metricNameToValue m \<noteq> allOptionId" "metricNameToValue m \<noteq> resetOptionId" using value_has_bar by metis+
qed

lemma metricNameToValue_inj: "metricNameToValue m = metricNameToValue m' \<longleftrightarrow> m = m'"
  by (cases m; cases m'; cases "mn_type m"; cases "mn_type m'") (simp_all add: metricNameToValue_def)

lemma mset_remove_first: "x \<in> set xs \<Longrightarrow> mset (remove_first (\<lambda>y. y = x) xs) = mset xs - {#x#}"
  by (induction xs) auto

lemma length_remove_first: "length xs \<le> Suc (length (remove_first P xs))"
  by (induction xs) auto

lemma metricKey_inj: "metricKey m = metricKey m' \<longleftrightarrow> m = m'"
  by (cases m; cases m'; cases "mn_type m"; cases "mn_type m'") (simp_all add: metricKey_def)

lemma color_kept: "map_of colors k = Some c \<Longrightarrow> map_of (snd (getMetricColorByKey j colors)) k = Some c"
  by (auto simp: getMetricColorByKey_def Let_def split: option.splits)

lemma color_given: "map_of (snd (getMetricColorByKey k colors)) k = Some (fst (getMetricColorByKey k colors))"
  by (auto simp: getMetricColorByKey_def Let_def split: option.splits)

text \<open>The traces after some pairs: the points of a metric are those of its pairs, in order, and its colour is the shared one.\<close>

definition chart_inv ::
  "(WorkloadWrapper \<times> MetricName) list \<Rightarrow> (string \<times> string) list \<Rightarrow> (string \<times> Trace) list \<times> (string \<times> string) list \<Rightarrow> bool" where
  "chart_inv ps colors0 = (\<lambda>(dataMap, colors).
     (\<forall>m. (case map_of dataMap (metricKey m) of None \<Rightarrow> [] | Some t \<Rightarrow> trc_points t)
        = List.map_filter (\<lambda>(wl, m'). if m' = m then chart_point m wl else None) ps)
   \<and> (\<forall>m t. map_of dataMap (metricKey m) = Some t \<longrightarrow> trc_points t \<noteq> [] \<and> map_of colors (metricKey m) = Some (trc_color t))
   \<and> (\<forall>k c. map_of colors0 k = Some c \<longrightarrow> map_of colors k = Some c))"

lemma map_filter_snoc: "List.map_filter f (xs @ [x]) = List.map_filter f xs @ (case f x of None \<Rightarrow> [] | Some y \<Rightarrow> [y])"
  by (auto simp: List.map_filter_def split: option.splits)

lemma chart_inv_step:
  assumes "chart_inv ps colors0 st"
  shows "chart_inv (ps @ [(wl, m)]) colors0 (chart_add (wl, m) st)"
proof (cases "chart_point m wl")
  case None
  then show ?thesis using assms by (cases st) (auto simp: chart_inv_def chart_add_def map_filter_snoc)
next
  case (Some p)
  obtain dataMap colors where st: "st = (dataMap, colors)" by (cases st)
  obtain c colors' where g: "getMetricColorByKey (metricKey m) colors = (c, colors')"
    by (cases "getMetricColorByKey (metricKey m) colors")
  have kept: "map_of colors k = Some d \<Longrightarrow> map_of colors' k = Some d" for k d
    using color_kept [of colors k d "metricKey m"] by (simp add: g)
  have given: "map_of colors' (metricKey m) = Some c" using color_given [of "metricKey m" colors] by (simp add: g)
  show ?thesis
  proof (cases "map_of dataMap (metricKey m)")
    case None
    have "(case map_of dataMap (metricKey m) of None \<Rightarrow> [] | Some t \<Rightarrow> trc_points t)
        = List.map_filter (\<lambda>(wl, m'). if m' = m then chart_point m wl else None) ps"
      using assms by (simp add: st chart_inv_def)
    then have "List.map_filter (\<lambda>(wl, m'). if m' = m then chart_point m wl else None) ps = []" by (simp add: None)
    then show ?thesis
      using None assms Some kept given
      by (auto simp: st chart_inv_def chart_add_def map_filter_snoc g metricKey_inj split: option.splits)
  next
    case (Some t)
    then show ?thesis
      using assms \<open>chart_point m wl = Some p\<close>
      by (auto simp: st chart_inv_def chart_add_def map_filter_snoc metricKey_inj split: option.splits)
  qed
qed

lemma chart_inv_fold: "chart_inv ps colors (fold chart_add ps ([], colors))"
proof (induction ps rule: rev_induct)
  case Nil
  then show ?case by (simp add: chart_inv_def List.map_filter_def)
next
  case (snoc p ps)
  then show ?case using chart_inv_step [of ps colors _ "fst p" "snd p"] by simp
qed

lemma map_filter_append: "List.map_filter f (xs @ ys) = List.map_filter f xs @ List.map_filter f ys"
  by (simp add: List.map_filter_def)

lemma map_filter_pairs:
  assumes "distinct ms"
  shows "List.map_filter (\<lambda>(wl, m'). if m' = m then f m wl else None) (map (\<lambda>m. (wl, m)) ms)
    = (if m \<in> set ms then (case f m wl of None \<Rightarrow> [] | Some p \<Rightarrow> [p]) else [])"
  using assms by (induction ms) (auto simp: List.map_filter_def split: option.splits)

lemma chart_pairs_points:
  assumes "distinct ms" "m \<in> set ms"
  shows "List.map_filter (\<lambda>(wl, m'). if m' = m then chart_point m wl else None) (chart_pairs ms wls) = List.map_filter (chart_point m) wls"
proof (induction wls)
  case Nil
  then show ?case by (simp add: chart_pairs_def List.map_filter_def)
next
  case (Cons wl wls)
  have "chart_pairs ms (wl # wls) = map (\<lambda>m. (wl, m)) ms @ chart_pairs ms wls" by (simp add: chart_pairs_def)
  then show ?case
    by (simp only: map_filter_append map_filter_pairs [OF assms(1)] assms(2) if_True Cons.IH)
      (simp add: List.map_filter_simps split: option.split)
qed

section \<open>Properties\<close>

text \<open>
  Choosing several metrics.  Selecting an option whose name has no bar adds it to the metrics, even when it is already
  among them, and an option whose name has a bar cannot be selected.  Deselecting takes back exactly what selecting a
  new metric has added, and never leaves the choice empty.  Selecting all chooses exactly the metrics that the search
  leaves visible, whatever was chosen before.
\<close>

theorem metric_selection:
  assumes "mf_multiple f" "mf_value f = ManyMetrics ms"
  shows "(CHR ''|'' \<notin> set (mn_name m) \<longrightarrow> (\<exists>ns. handleMetricSelect lc (metricNameToValue m) f = Some (ManyMetrics ns)
          \<and> mset ns = add_mset m (mset ms)
          \<and> (m \<notin> set ms \<longrightarrow> ms \<noteq> [] \<longrightarrow>
              (\<exists>os. handleMetricDeselect lc (metricNameToValue m) (f\<lparr>mf_value := ManyMetrics ns\<rparr>) = Some (ManyMetrics os)
                \<and> mset os = mset ms))))
    \<and> (CHR ''|'' \<in> set (mn_name m) \<longrightarrow> handleMetricSelect lc (metricNameToValue m) f = None)
    \<and> (\<forall>v os. handleMetricDeselect lc v f = Some (ManyMetrics os) \<longrightarrow> os \<noteq> [])
    \<and> (\<exists>all. handleMetricSelect lc allOptionId f = Some (ManyMetrics all)
          \<and> set all = {m \<in> set (mf_names f). filterFn (mf_search f) (mn_name m)})"
proof (intro conjI impI allI)
  assume "CHR ''|'' \<notin> set (mn_name m)"
  then have sel: "handleMetricSelect lc (metricNameToValue m) f = Some (ManyMetrics (js_sort (metricNameSorter lc) (ms @ [m])))"
    using assms by (simp add: handleMetricSelect_def value_no_id option_metric_value)
  let ?ns = "js_sort (metricNameSorter lc) (ms @ [m])"
  have "\<exists>os. handleMetricDeselect lc (metricNameToValue m) (f\<lparr>mf_value := ManyMetrics ?ns\<rparr>) = Some (ManyMetrics os) \<and> mset os = mset ms"
    if "ms \<noteq> []"
    using assms that by (auto simp: handleMetricDeselect_def metricNameToValue_inj mset_remove_first)
  with sel show "\<exists>ns. handleMetricSelect lc (metricNameToValue m) f = Some (ManyMetrics ns)
          \<and> mset ns = add_mset m (mset ms)
          \<and> (m \<notin> set ms \<longrightarrow> ms \<noteq> [] \<longrightarrow>
              (\<exists>os. handleMetricDeselect lc (metricNameToValue m) (f\<lparr>mf_value := ManyMetrics ns\<rparr>) = Some (ManyMetrics os)
                \<and> mset os = mset ms))"
    by (intro exI [of _ ?ns]) simp
next
  assume "CHR ''|'' \<in> set (mn_name m)"
  then show "handleMetricSelect lc (metricNameToValue m) f = None"
    by (simp add: handleMetricSelect_def value_no_id option_metric_bar)
next
  fix v os
  assume d: "handleMetricDeselect lc v f = Some (ManyMetrics os)"
  then have "\<not> length ms \<le> 1" "length os = length (remove_first (\<lambda>m. metricNameToValue m = v) ms)"
    using assms by (auto simp: handleMetricDeselect_def split: if_splits)
  with length_remove_first [of ms "\<lambda>m. metricNameToValue m = v"] show "os \<noteq> []" by auto
next
  show "\<exists>all. handleMetricSelect lc allOptionId f = Some (ManyMetrics all)
          \<and> set all = {m \<in> set (mf_names f). filterFn (mf_search f) (mn_name m)}"
    by (auto simp: handleMetricSelect_def visibleMetrics_def)
qed

definition sample_filter :: MetricFilter where
  "sample_filter = \<lparr>mf_default = [], mf_names = [\<lparr>mn_name = ''loss'', mn_type = MetricType_Training\<rparr>,
     \<lparr>mn_name = ''acc'', mn_type = MetricType_Validation\<rparr>], mf_multiple = True,
     mf_value = ManyMetrics [\<lparr>mn_name = ''acc'', mn_type = MetricType_Validation\<rparr>], mf_search = ''LO''\<rparr>"

theorem metric_selection_witness:
  "(\<exists>ns. handleMetricSelect (\<lambda>_ _. 0) ''training|loss'' sample_filter = Some (ManyMetrics ns) \<and> length ns = 2)
   \<and> (\<exists>all. handleMetricSelect (\<lambda>_ _. 0) allOptionId sample_filter = Some (ManyMetrics all)
        \<and> set all = {\<lparr>mn_name = ''loss'', mn_type = MetricType_Training\<rparr>})"
proof -
  let ?m = "\<lparr>mn_name = ''loss'', mn_type = MetricType_Training\<rparr>"
  have v: "metricNameToValue ?m = ''training|loss''" by (simp add: metricNameToValue_def)
  have s: "mf_multiple sample_filter" "mf_value sample_filter = ManyMetrics [\<lparr>mn_name = ''acc'', mn_type = MetricType_Validation\<rparr>]"
    by (simp_all add: sample_filter_def)
  have lower: "contains (toLowerCase ''LO'') (toLowerCase ''loss'')" "\<not> contains (toLowerCase ''LO'') (toLowerCase ''acc'')"
    by code_simp+
  have f: "{m \<in> set (mf_names sample_filter). filterFn (mf_search sample_filter) (mn_name m)} = {?m}"
    using lower by (auto simp: sample_filter_def filterFn_def)
  note t = metric_selection [OF s, of ?m "\<lambda>_ _. 0"]
  have nb: "CHR ''|'' \<notin> set (mn_name ?m)" by simp
  have "\<exists>ns. handleMetricSelect (\<lambda>_ _. 0) ''training|loss'' sample_filter = Some (ManyMetrics ns)
      \<and> mset ns = add_mset ?m (mset [\<lparr>mn_name = ''acc'', mn_type = MetricType_Validation\<rparr>])"
    using t [THEN conjunct1, rule_format, OF nb] unfolding v by (elim exE conjE) (intro exI conjI)
  then obtain ns where ns: "handleMetricSelect (\<lambda>_ _. 0) ''training|loss'' sample_filter = Some (ManyMetrics ns)"
    "mset ns = add_mset ?m (mset [\<lparr>mn_name = ''acc'', mn_type = MetricType_Validation\<rparr>])" by (elim exE conjE)
  from arg_cong [OF ns(2), of size] have "length ns = 2" by simp
  with ns(1) have one: "\<exists>ns. handleMetricSelect (\<lambda>_ _. 0) ''training|loss'' sample_filter = Some (ManyMetrics ns) \<and> length ns = 2"
    by (intro exI conjI)
  show ?thesis using one t [THEN conjunct2, THEN conjunct2, THEN conjunct2, unfolded f] by (rule conjI)
qed

text \<open>
  The chart of a trial shows, for each chosen metric, exactly the points of the completed workloads whose value and
  batch number are not zero, in the order of the workloads, in one trace when there is a point and in none otherwise.
  Each trace has the colour that its metric has in every chart, and a metric that has a colour keeps it.
\<close>

theorem chart_traces:
  assumes "distinct ms" and "chart_data ms wls colors = (traces, colors')" and "m \<in> set ms"
  shows "(\<exists>dataMap. traces = obj_values dataMap
        \<and> map_option trc_points (map_of dataMap (metricKey m))
          = (let ps = List.map_filter (chart_point m) wls in if ps = [] then None else Some ps)
        \<and> (\<forall>t. map_of dataMap (metricKey m) = Some t \<longrightarrow> map_of colors' (metricKey m) = Some (trc_color t)))
    \<and> (\<forall>k c. map_of colors k = Some c \<longrightarrow> map_of colors' k = Some c)
    \<and> (\<forall>wl x y. chart_point m wl = Some (x, y) \<longrightarrow> x \<noteq> 0 \<and> y \<noteq> Fin 0)"
proof -
  obtain dataMap where d: "fold chart_add (chart_pairs ms wls) ([], colors) = (dataMap, colors')" "traces = obj_values dataMap"
    using assms(2) by (auto simp: chart_data_def split: prod.splits)
  have inv: "chart_inv (chart_pairs ms wls) colors (dataMap, colors')" using chart_inv_fold [of "chart_pairs ms wls" colors] d(1) by simp
  have pts: "(case map_of dataMap (metricKey m) of None \<Rightarrow> [] | Some t \<Rightarrow> trc_points t) = List.map_filter (chart_point m) wls"
    using inv chart_pairs_points [OF assms(1,3), of wls] by (simp add: chart_inv_def)
  have ne: "map_of dataMap (metricKey m) = Some t \<Longrightarrow> trc_points t \<noteq> [] \<and> map_of colors' (metricKey m) = Some (trc_color t)" for t
    using inv by (simp add: chart_inv_def)
  have "map_option trc_points (map_of dataMap (metricKey m))
          = (let ps = List.map_filter (chart_point m) wls in if ps = [] then None else Some ps)"
    using pts ne by (cases "map_of dataMap (metricKey m)") auto
  moreover have "\<forall>k c. map_of colors k = Some c \<longrightarrow> map_of colors' k = Some c" using inv by (simp add: chart_inv_def)
  moreover have "chart_point m wl = Some (x, y) \<Longrightarrow> x \<noteq> 0 \<and> y \<noteq> Fin 0" for wl x y
    by (auto simp: chart_point_def Let_def split: option.splits if_splits)
  ultimately show ?thesis using d(2) ne by blast
qed

definition sample_training :: WorkloadWrapper where
  "sample_training = \<lparr>ww_checkpoint = None, ww_training = Some \<lparr>t_endTime = None, t_startTime = [],
     wl_numBatches = 100, wl_priorBatchesProcessed = 0, mw_metrics = Given (Some [(''loss'', Fin 2)]),
     mw_numInputs = Absent, mw_state = RunState_Completed\<rparr>, ww_validation = None\<rparr>"

theorem chart_traces_witness:
  "\<exists>dataMap t. fst (chart_data [\<lparr>mn_name = ''loss'', mn_type = MetricType_Training\<rparr>] [sample_training] [(''training_loss'', ''#1f77b4'')])
      = obj_values dataMap \<and> map_of dataMap ''training_loss'' = Some t
      \<and> trc_points t = [(100, Fin 2)] \<and> trc_color t = ''#1f77b4''"
proof -
  let ?m = "\<lparr>mn_name = ''loss'', mn_type = MetricType_Training\<rparr>"
  let ?d = "chart_data [?m] [sample_training] [(''training_loss'', ''#1f77b4'')]"
  have p: "chart_point ?m sample_training = Some (100, Fin 2)"
    by (simp add: chart_point_def sample_training_def)
  then have ps: "List.map_filter (chart_point ?m) [sample_training] = [(100, Fin 2)]" by (simp add: List.map_filter_def)
  have k: "metricKey ?m = ''training_loss''" by (simp add: metricKey_def)
  have h: "distinct [?m]" "?d = (fst ?d, snd ?d)" "?m \<in> set [?m]" by simp_all
  note t = chart_traces [OF h, unfolded ps k Let_def]
  have "map_of (snd ?d) ''training_loss'' = Some ''#1f77b4''"
    using t [THEN conjunct2, THEN conjunct1, rule_format, of "''training_loss''"] by simp
  moreover from t [THEN conjunct1] obtain dataMap where "fst ?d = obj_values dataMap"
    "map_option trc_points (map_of dataMap ''training_loss'') = Some [(100, Fin 2)]"
    "\<forall>t. map_of dataMap ''training_loss'' = Some t \<longrightarrow> map_of (snd ?d) ''training_loss'' = Some (trc_color t)"
    by (elim exE conjE) simp
  moreover from this(2) obtain t where "map_of dataMap ''training_loss'' = Some t" "trc_points t = [(100, Fin 2)]" by auto
  ultimately have "fst ?d = obj_values dataMap \<and> map_of dataMap ''training_loss'' = Some t
      \<and> trc_points t = [(100, Fin 2)] \<and> trc_color t = ''#1f77b4''" by simp
  then show ?thesis by (intro exI)
qed

end
