(* ===== verification/Learning_Curve.thy ===== *)
theory Learning_Curve
  imports Services Data_Util String_Util Types_Util
begin

text \<open>
  The learning curves of an experiment's trials: the state that the stream of samples builds up
  (\<^verbatim>\<open>pages/ExperimentDetails/ExperimentVisualization/LearningCurve.tsx\<close>) and the search for the point under
  the cursor (\<^verbatim>\<open>components/LearningCurveChart.tsx\<close>).
\<close>

section \<open>The stream of samples\<close>

text \<open>
  The events as the page reads them; the generated client that sends them is not part of the sources.  Missing
  \<open>hparams\<close> and lists are empty ones.
\<close>

record SampleTrial =
  st_trialId :: int
  st_hparams :: "(string \<times> js) list"
  st_data :: "(int \<times> number) list" \<comment> \<open>\<open>batches\<close> and \<open>value\<close>\<close>

record SampleEvent =
  se_promoted :: "int list"
  se_demoted :: "int list"
  se_trials :: "SampleTrial list"

record TrialHParams =
  th_hparams :: "(string \<times> js) list"
  th_id :: int
  th_metric :: "number option" \<comment> \<open>\<open>null\<close> before the first data point\<close>
  th_url :: string

text \<open>The dictionaries of the effect; \<open>trialDataMap\<close> is filled with empty lists and never read.\<close>

record SampleMaps =
  sm_trialIds :: "(string \<times> int) list"
  sm_hps :: "(string \<times> TrialHParams) list"
  sm_batches :: "(string \<times> int) list"
  sm_metrics :: "(string \<times> (string \<times> number) list) list"

definition empty_maps :: SampleMaps where
  "empty_maps = \<lparr>sm_trialIds = [], sm_hps = [], sm_batches = [], sm_metrics = []\<rparr>"

record LearningCurve =
  lc_trialIds :: "int list"
  lc_batches :: "int list"
  lc_chartData :: "number option list list"
  lc_trialHps :: "TrialHParams list"
  lc_pageSize :: int
  lc_chartTrialId :: "int option"
  lc_tableTrialId :: "int option"
  lc_maxTrials :: int
  lc_hasLoaded :: bool
  lc_pageError :: "js option"

definition DEFAULT_MAX_TRIALS :: int where "DEFAULT_MAX_TRIALS = 100"

definition MAX_DATAPOINTS :: int where "MAX_DATAPOINTS = 5000"

definition TOP_TRIALS_OPTIONS :: "int list" where "TOP_TRIALS_OPTIONS = [1, 10, 20, 50, 100, 200, 500]"

definition initial_curve :: "int \<Rightarrow> LearningCurve" where
  "initial_curve minPageSize = \<lparr>lc_trialIds = [], lc_batches = [], lc_chartData = [], lc_trialHps = [],
     lc_pageSize = minPageSize, lc_chartTrialId = None, lc_tableTrialId = None, lc_maxTrials = DEFAULT_MAX_TRIALS,
     lc_hasLoaded = False, lc_pageError = None\<rparr>"

text \<open>The arguments of the request.\<close>

definition sample_args :: "int \<Rightarrow> MetricName \<Rightarrow> int \<Rightarrow> js list" where
  "sample_args experimentId selectedMetric maxTrials =
     [Num (Fin (of_int experimentId)), Str (mn_name selectedMetric),
      (case map_of metricTypeParamMap (str_MetricType (mn_type selectedMetric)) of Some t \<Rightarrow> Str t | None \<Rightarrow> Undefined),
      Num (Fin (of_int maxTrials)), Num (Fin (of_int MAX_DATAPOINTS)), Undefined, Undefined, Undefined]"

definition put_id :: "int \<Rightarrow> (string \<times> int) list \<Rightarrow> (string \<times> int) list" where
  "put_id i d = obj_put (show_int i) i d"

definition put_ids :: "SampleEvent \<Rightarrow> (string \<times> int) list \<Rightarrow> (string \<times> int) list" where
  "put_ids e d = fold (\<lambda>i. obj_del (show_int i)) (se_demoted e) (fold put_id (se_promoted e) d)"

text \<open>A data point of a trial; the trial's record of hyperparameters may be missing when its metric is set.\<close>

definition put_point :: "int \<Rightarrow> int \<times> number \<Rightarrow> SampleMaps \<Rightarrow> exn option \<times> SampleMaps" where
  "put_point i = (\<lambda>(b, v) m.
     (let key = show_int i;
          ms = (case map_of (sm_metrics m) key of Some ms \<Rightarrow> ms | None \<Rightarrow> []);
          m = m\<lparr>sm_batches := put_id b (sm_batches m), sm_metrics := obj_put key (obj_put (show_int b) v ms) (sm_metrics m)\<rparr>
      in case map_of (sm_hps m) key of
           None \<Rightarrow> (Some TypeError, m)
         | Some hp \<Rightarrow> (None, m\<lparr>sm_hps := obj_put key (hp\<lparr>th_metric := Some v\<rparr>) (sm_hps m)\<rparr>)))"

text \<open>\<open>forEach\<close> with a callback that may throw: what was done before stays done.\<close>

fun for_each :: "('a \<Rightarrow> 'm \<Rightarrow> 'e option \<times> 'm) \<Rightarrow> 'a list \<Rightarrow> 'm \<Rightarrow> 'e option \<times> 'm" where
  "for_each f [] m = (None, m)"
| "for_each f (x # xs) m = (case f x m of (Some e, m) \<Rightarrow> (Some e, m) | (None, m) \<Rightarrow> for_each f xs m)"

definition init_trial :: "int \<Rightarrow> SampleTrial \<Rightarrow> SampleMaps \<Rightarrow> SampleMaps" where
  "init_trial experimentId t m =
     (let i = st_trialId t; key = show_int i;
          m = (if st_hparams t \<noteq> [] \<and> map_of (sm_hps m) key = None
               then m\<lparr>sm_hps := obj_put key \<lparr>th_hparams = st_hparams t, th_id = i, th_metric = None,
                 th_url = ''/experiments/'' @ show_int experimentId @ ''/trials/'' @ show_int i\<rparr> (sm_hps m)\<rparr>
               else m)
      in if map_of (sm_metrics m) key = None then m\<lparr>sm_metrics := obj_put key [] (sm_metrics m)\<rparr> else m)"

definition put_trial :: "int \<Rightarrow> SampleTrial \<Rightarrow> SampleMaps \<Rightarrow> exn option \<times> SampleMaps" where
  "put_trial experimentId t m = for_each (put_point (st_trialId t)) (st_data t) (init_trial experimentId t m)"

text \<open>The cells of the chart, a row for each trial; a trial without a dictionary of values throws at its first batch.\<close>

definition chart_cell :: "(string \<times> (string \<times> number) list) list \<Rightarrow> int \<Rightarrow> int \<Rightarrow> number option result" where
  "chart_cell metrics i b = (case map_of metrics (show_int i) of
      None \<Rightarrow> Inl TypeError | Some ms \<Rightarrow> Inr (map_of ms (show_int b)))"

definition chart_rows ::
  "(string \<times> (string \<times> number) list) list \<Rightarrow> int list \<Rightarrow> int list \<Rightarrow> number option list list result" where
  "chart_rows metrics ids batches = mapM_exn (\<lambda>i. mapM_exn (chart_cell metrics i) batches) ids"

text \<open>The rows of the table, sorted by the trials' numbers as texts; each sorted number is a key of the dictionary.\<close>

definition table_rows :: "(string \<Rightarrow> string \<Rightarrow> int) \<Rightarrow> (string \<times> TrialHParams) list \<Rightarrow> TrialHParams list" where
  "table_rows lc hps =
     List.map_filter (\<lambda>i. map_of hps (show_int i))
       (js_sort (\<lambda>a b. alphanumericSorter lc (show_int a) (show_int b)) (map th_id (obj_values hps)))"

text \<open>An event, \<open>None\<close> when it has no list of trials: what it throws, the dictionaries and the page.\<close>

definition sample_event ::
  "(string \<Rightarrow> string \<Rightarrow> int) \<Rightarrow> int \<Rightarrow> SampleEvent option \<Rightarrow> SampleMaps \<times> LearningCurve
    \<Rightarrow> exn option \<times> SampleMaps \<times> LearningCurve" where
  "sample_event lc experimentId event = (\<lambda>(m, s). (case event of
      None \<Rightarrow> (None, m, s)
    | Some e \<Rightarrow>
        (let m = m\<lparr>sm_trialIds := put_ids e (sm_trialIds m)\<rparr>;
             newTrialIds = obj_values (sm_trialIds m);
             s = s\<lparr>lc_trialIds := newTrialIds\<rparr>
         in case for_each (put_trial experimentId) (se_trials e) m of
              (Some x, m) \<Rightarrow> (Some x, m, s)
            | (None, m) \<Rightarrow>
                (let newBatches = obj_values (sm_batches m);
                     s = s\<lparr>lc_trialHps := table_rows lc (sm_hps m), lc_batches := newBatches\<rparr>
                 in case chart_rows (sm_metrics m) newTrialIds newBatches of
                      Inl x \<Rightarrow> (Some x, m, s)
                    | Inr rows \<Rightarrow> (None, m, s\<lparr>lc_chartData := rows, lc_hasLoaded := True\<rparr>)))))"

text \<open>
  The stream: its values are errors of the server or events; its first failure is caught by \<open>consumeStream\<close>, and what
  that throws is the page's error.
\<close>

fun read_events ::
  "('e \<Rightarrow> 'c \<Rightarrow> exn option \<times> 'c) \<Rightarrow> (js + 'e) list \<Rightarrow> js option \<Rightarrow> 'c \<Rightarrow> js option \<times> 'c" where
  "read_events onEvent [] ending st = (ending, st)"
| "read_events onEvent (Inl e # vs) ending st = (Some e, st)"
| "read_events onEvent (Inr v # vs) ending st = (case onEvent v st of
      (Some x, st) \<Rightarrow> (caught (Raises x), st)
    | (None, st) \<Rightarrow> read_events onEvent vs ending st)"

definition curve_effect ::
  "(js \<Rightarrow> bool) \<Rightarrow> (string \<Rightarrow> string \<Rightarrow> int) \<Rightarrow> string \<Rightarrow> int \<Rightarrow> js + ((js + SampleEvent option) list \<times> js option)
    \<Rightarrow> LearningCurve \<times> 's Web \<Rightarrow> LearningCurve \<times> 's Web" where
  "curve_effect isCancel lc url experimentId response = (\<lambda>(s, w).
     (let (failed, _, s) = (case response of
            Inl e \<Rightarrow> (Some e, empty_maps, s)
          | Inr (vs, ending) \<Rightarrow> read_events (sample_event lc experimentId) vs ending (empty_maps, s))
      in case consumeStream isCancel url (case failed of None \<Rightarrow> Inr ([], None) | Some e \<Rightarrow> Inl e) (\<lambda>_ u. u) () w of
           (Inl e, _, w) \<Rightarrow> (s\<lparr>lc_pageError := Some e\<rparr>, w)
         | (Inr _, _, w) \<Rightarrow> (s, w)))"

section \<open>The page\<close>

definition resetData :: "LearningCurve \<Rightarrow> LearningCurve" where
  "resetData s = s\<lparr>lc_chartData := [], lc_trialHps := [], lc_trialIds := [], lc_hasLoaded := False\<rparr>"

definition handleTopTrialsChange :: "int \<Rightarrow> LearningCurve \<Rightarrow> LearningCurve" where
  "handleTopTrialsChange n s = (resetData s)\<lparr>lc_maxTrials := n\<rparr>"

text \<open>\<open>onMetricChange\<close> acts on the state of the page around the curves.\<close>

definition lc_handleMetricChange :: "(MetricName \<Rightarrow> 'p \<Rightarrow> 'p) option \<Rightarrow> MetricName \<Rightarrow> LearningCurve \<times> 'p \<Rightarrow> LearningCurve \<times> 'p" where
  "lc_handleMetricChange onMetricChange metric = (\<lambda>(s, p). (case onMetricChange of
      None \<Rightarrow> (s, p) | Some f \<Rightarrow> (resetData s, f metric p)))"

definition trial_path :: "int \<Rightarrow> int \<Rightarrow> string" where
  "trial_path experimentId trialId = ''/experiments/'' @ show_int experimentId @ ''/trials/'' @ show_int trialId"

definition handleTrialFocus :: "int option \<Rightarrow> LearningCurve \<Rightarrow> LearningCurve" where
  "handleTrialFocus trialId s = s\<lparr>lc_chartTrialId := trialId\<rparr>"

definition lc_handleTableChange :: "int \<Rightarrow> LearningCurve \<Rightarrow> LearningCurve" where
  "lc_handleTableChange pageSize s = s\<lparr>lc_pageSize := pageSize\<rparr>"

definition row_enter :: "TrialHParams \<Rightarrow> LearningCurve \<Rightarrow> LearningCurve" where
  "row_enter r s = s\<lparr>lc_tableTrialId := Some (th_id r)\<rparr>"

definition row_leave :: "LearningCurve \<Rightarrow> LearningCurve" where
  "row_leave s = s\<lparr>lc_tableTrialId := None\<rparr>"

definition row_highlighted :: "LearningCurve \<Rightarrow> TrialHParams \<Rightarrow> bool" where
  "row_highlighted s r = (lc_chartTrialId s = Some (th_id r))"
text \<open>What is shown; \<open>includes\<close> is tested on the error's message.\<close>

datatype CurveView =
    SingleTrialAlert | ErrorView js | LoadingView | NoDataView | WaitingView | CurvesView

definition curve_view :: "RunState \<Rightarrow> LearningCurve \<Rightarrow> CurveView" where
  "curve_view state s = (case lc_pageError s of
      Some e \<Rightarrow> if contains ''single-trial experiments are not supported'' (js_str (get_prop e ''message''))
        then SingleTrialAlert else ErrorView (get_prop e ''message'')
    | None \<Rightarrow>
        if \<not> lc_hasLoaded s then LoadingView
        else if lc_trialHps s = [] then (if state \<in> terminalRunStates then NoDataView else WaitingView)
        else CurvesView)"

text \<open>The table: the colour of a trial, the cells and the sorters of the columns.\<close>

definition id_color :: "int list \<Rightarrow> int \<Rightarrow> string result" where
  "id_color trialIds i = (if i \<in> set trialIds
     then glasbeyColor (length (takeWhile (\<lambda>j. j \<noteq> i) trialIds)) else Inr ''rgba(0, 0, 0, 1.0)'')"

definition idSorter :: "(string \<Rightarrow> string \<Rightarrow> int) \<Rightarrow> TrialHParams \<Rightarrow> TrialHParams \<Rightarrow> int" where
  "idSorter lc a b = alphanumericSorter lc (show_int (th_id a)) (show_int (th_id b))"

datatype Cell = FloatCell number | PlainCell js | NoCell

definition nonzero :: "number option \<Rightarrow> number option" where
  "nonzero v = (case v of Some n \<Rightarrow> if truthy (Num n) then v else None | None \<Rightarrow> None)"

definition metricRenderer :: "TrialHParams \<Rightarrow> Cell" where
  "metricRenderer r = (case nonzero (th_metric r) of Some n \<Rightarrow> FloatCell n | None \<Rightarrow> NoCell)"

definition metricSorter :: "TrialHParams \<Rightarrow> TrialHParams \<Rightarrow> number" where
  "metricSorter a b = numericSorter (nonzero (th_metric a)) (nonzero (th_metric b)) False"

definition hparam :: "TrialHParams \<Rightarrow> string \<Rightarrow> js" where
  "hparam r key = (case map_of (th_hparams r) key of Some v \<Rightarrow> v | None \<Rightarrow> Undefined)"

text \<open>The columns are made of the keys of the configuration.\<close>

definition hpRenderer :: "(string \<times> ExperimentHyperParam) list \<Rightarrow> string \<Rightarrow> TrialHParams \<Rightarrow> Cell result" where
  "hpRenderer hps key r = (case map_of hps key of
      None \<Rightarrow> Inl TypeError
    | Some hp \<Rightarrow> (case hparam r key of
          Num n \<Rightarrow> Inr (if hp_type hp \<in> {''const'', ''double'', ''float'', ''log''} then FloatCell n else PlainCell (Num n))
        | v \<Rightarrow> Inr (PlainCell v)))"

definition hpColumnSorter ::
  "(string \<Rightarrow> string \<Rightarrow> int) \<Rightarrow> (number \<Rightarrow> string) \<Rightarrow> string \<Rightarrow> TrialHParams \<Rightarrow> TrialHParams \<Rightarrow> int" where
  "hpColumnSorter lc num_str key a b = hpSorter lc num_str (hparam a key) (hparam b key)"

definition curve_columns :: "MetricName \<Rightarrow> (string \<times> ExperimentHyperParam) list \<Rightarrow> (string \<times> string) list" where
  "curve_columns metric hps = (''id'', ''Trial ID'') # (''metric'', mn_name metric) # map (\<lambda>k. (k, k)) (obj_keys hps)"

section \<open>What the stream has said\<close>

text \<open>The trials and the data points of the events in the order in which they arrive, and the promoted trials.\<close>

definition trials_of :: "SampleEvent option list \<Rightarrow> SampleTrial list" where
  "trials_of es = concat (map (\<lambda>e. case e of None \<Rightarrow> [] | Some e \<Rightarrow> se_trials e) es)"

definition trial_points :: "SampleTrial \<Rightarrow> (int \<times> int \<times> number) list" where
  "trial_points t = map (\<lambda>(b, v). (st_trialId t, b, v)) (st_data t)"

definition points_of :: "SampleTrial list \<Rightarrow> (int \<times> int \<times> number) list" where
  "points_of ts = concat (map trial_points ts)"

definition promoted :: "SampleEvent option list \<Rightarrow> int set" where
  "promoted es = fold (\<lambda>e T. case e of None \<Rightarrow> T | Some e \<Rightarrow> T \<union> set (se_promoted e) - set (se_demoted e)) es {}"

text \<open>The last value of a trial at a batch, the last value of a trial, and its first hyperparameters.\<close>

definition last_value :: "(int \<times> int \<times> number) list \<Rightarrow> int \<Rightarrow> int \<Rightarrow> number option" where
  "last_value ps i b = map_of (rev (map (\<lambda>(i, b, v). ((i, b), v)) ps)) (i, b)"

definition last_metric :: "(int \<times> int \<times> number) list \<Rightarrow> int \<Rightarrow> number option" where
  "last_metric ps i = map_of (rev (map (\<lambda>(i, b, v). (i, v)) ps)) i"

definition first_hparams :: "SampleTrial list \<Rightarrow> int \<Rightarrow> (string \<times> js) list option" where
  "first_hparams ts i = map_option st_hparams (find (\<lambda>t. st_hparams t \<noteq> [] \<and> st_trialId t = i) ts)"

definition natural_event :: "SampleEvent \<Rightarrow> bool" where
  "natural_event e = ((\<forall>i \<in> set (se_promoted e). 0 \<le> i)
     \<and> (\<forall>t \<in> set (se_trials e). 0 \<le> st_trialId t \<and> (\<forall>(b, v) \<in> set (st_data t). 0 \<le> b)))"

section \<open>Lemmas\<close>

text \<open>A dictionary that sends the texts of natural numbers to themselves, in ascending order.\<close>

definition keyed :: "(string \<times> int) list \<Rightarrow> bool" where
  "keyed d = ((\<forall>(k, i) \<in> set d. 0 \<le> i \<and> k = show_int i) \<and> sorted_wrt (<) (map snd d))"

lemma keyed_keys: "keyed d \<Longrightarrow> show_int i \<in> fst ` set d \<longleftrightarrow> i \<in> snd ` set d"
  by (force simp: keyed_def image_iff)

lemma keyed_insert:
  "keyed d \<Longrightarrow> 0 \<le> i \<Longrightarrow> i \<notin> snd ` set d \<Longrightarrow> keyed (obj_insert (show_int i) i d)"
proof (induction d)
  case Nil
  then show ?case by (simp add: keyed_def)
next
  case (Cons p d)
  obtain k j where p: "p = (k, j)" by (cases p)
  with Cons.prems have j: "k = show_int j" "0 \<le> j" "i \<noteq> j" "keyed d" "\<forall>x \<in> snd ` set d. j < x" by (auto simp: keyed_def)
  have IH: "keyed (obj_insert (show_int i) i d)" using Cons j by simp
  show ?case
  proof (cases "i < j")
    case True
    with j Cons.prems show ?thesis by (auto simp: p array_index_show_int keyed_def)
  next
    case False
    have "obj_insert (show_int i) i (p # d) = p # obj_insert (show_int i) i d"
      using False j(1,2) Cons.prems(2) by (simp add: p array_index_show_int)
    moreover have "\<forall>x \<in> snd ` set (obj_insert (show_int i) i d). j < x" using j(3,5) False by (auto simp: set_obj_insert)
    ultimately show ?thesis using IH j(1,2) by (auto simp: keyed_def p)
  qed
qed

lemma keyed_present: "keyed d \<Longrightarrow> i \<in> snd ` set d \<Longrightarrow> obj_set (show_int i) i d = d"
  by (induction d) (force simp: keyed_def image_iff)+

lemma keyed_put_id:
  assumes "keyed d" "0 \<le> i"
  shows "keyed (put_id i d)" "snd ` set (put_id i d) = insert i (snd ` set d)"
  using assms keyed_insert [OF assms] keyed_present [OF assms(1), of i]
  by (auto simp: put_id_def obj_put_def keyed_keys set_obj_insert)

lemma keyed_del:
  assumes "keyed d"
  shows "keyed (obj_del (show_int i) d)" "snd ` set (obj_del (show_int i) d) = snd ` set d - {i}"
proof -
  have "map snd (obj_del (show_int i) d) = filter (\<lambda>j. j \<noteq> i) (map snd d)"
    using assms by (induction d) (auto simp: keyed_def obj_del_def)
  then show "keyed (obj_del (show_int i) d)" using assms by (auto simp: keyed_def obj_del_def sorted_wrt_filter)
  show "snd ` set (obj_del (show_int i) d) = snd ` set d - {i}"
    using assms by (force simp: keyed_def obj_del_def)
qed

lemma keyed_put_ids:
  assumes "keyed d" "\<forall>i \<in> set (se_promoted e). 0 \<le> i"
  shows "keyed (put_ids e d) \<and> snd ` set (put_ids e d) = snd ` set d \<union> set (se_promoted e) - set (se_demoted e)"
proof -
  have p: "\<forall>i \<in> set is. 0 \<le> i \<Longrightarrow> keyed d \<Longrightarrow>
      keyed (fold put_id is d) \<and> snd ` set (fold put_id is d) = snd ` set d \<union> set is" for "is" d
    by (induction "is" arbitrary: d) (auto simp: keyed_put_id)
  have "keyed d \<Longrightarrow> keyed (fold (\<lambda>i. obj_del (show_int i)) is d)
      \<and> snd ` set (fold (\<lambda>i. obj_del (show_int i)) is d) = snd ` set d - set is" for "is" d
    by (induction "is" arbitrary: d) (auto simp: keyed_del)
  with p [OF assms(2,1)] show ?thesis by (simp add: put_ids_def)
qed

lemma keyed_values: "keyed d \<Longrightarrow> obj_values d = sorted_list_of_set (snd ` set d)"
  using sorted_list_of_set.idem_if_sorted_distinct [of "map snd d"]
  by (auto simp: keyed_def obj_values_def strict_sorted_iff)

lemma for_each_snoc:
  "for_each f (xs @ [x]) m = (case for_each f xs m of (Some e, m) \<Rightarrow> (Some e, m) | (None, m) \<Rightarrow> f x m)"
  by (induction xs arbitrary: m) (auto split: prod.splits option.splits)

lemma for_each_snoc_None:
  "for_each f (xs @ [x]) m = (None, m') \<longleftrightarrow> (\<exists>m1. for_each f xs m = (None, m1) \<and> f x m1 = (None, m'))"
  by (auto simp: for_each_snoc split: prod.splits option.splits)

text \<open>A relation between what was said and the state that every step keeps holds at the end.\<close>

lemma for_each_inv:
  assumes "for_each f xs m = (None, m')" and "R [] m"
    and "\<And>ys x n n'. R ys n \<Longrightarrow> x \<in> set xs \<Longrightarrow> f x n = (None, n') \<Longrightarrow> R (ys @ [x]) n'"
  shows "R xs m'"
proof -
  have "for_each f ys m = (None, m') \<Longrightarrow> set ys \<subseteq> set xs \<Longrightarrow> R ys m'" for ys m'
    by (induction ys arbitrary: m' rule: rev_induct) (auto simp: for_each_snoc_None assms)
  with assms(1) show ?thesis by blast
qed

text \<open>The dictionaries after some trials and points.\<close>

definition maps_inv :: "int \<Rightarrow> SampleTrial list \<Rightarrow> (int \<times> int \<times> number) list \<Rightarrow> SampleMaps \<Rightarrow> bool" where
  "maps_inv eid ts ps m \<longleftrightarrow>
     keyed (sm_batches m) \<and> snd ` set (sm_batches m) = (\<lambda>(i, b, v). b) ` set ps
   \<and> (\<forall>i b. (case map_of (sm_metrics m) (show_int i) of None \<Rightarrow> None | Some ms \<Rightarrow> map_of ms (show_int b)) = last_value ps i b)
   \<and> distinct (map fst (sm_hps m)) \<and> (\<forall>(k, h) \<in> set (sm_hps m). k = show_int (th_id h))
   \<and> (\<forall>i. map_of (sm_hps m) (show_int i) = map_option (\<lambda>h. \<lparr>th_hparams = h, th_id = i, th_metric = last_metric ps i,
       th_url = ''/experiments/'' @ show_int eid @ ''/trials/'' @ show_int i\<rparr>) (first_hparams ts i))
   \<and> (\<forall>i. last_metric ps i \<noteq> None \<longrightarrow> first_hparams ts i \<noteq> None)"

lemma last_value_snoc: "last_value (ps @ [(j, c, v)]) i b = (if i = j \<and> b = c then Some v else last_value ps i b)"
  by (auto simp: last_value_def)

lemma last_metric_snoc: "last_metric (ps @ [(j, c, v)]) i = (if i = j then Some v else last_metric ps i)"
  by (simp add: last_metric_def)

lemma first_hparams_snoc:
  "first_hparams (ts @ [t]) i = (case first_hparams ts i of
      Some h \<Rightarrow> Some h | None \<Rightarrow> if st_hparams t \<noteq> [] \<and> st_trialId t = i then Some (st_hparams t) else None)"
  by (induction ts) (auto simp: first_hparams_def)

lemma set_obj_put: "q \<in> set (obj_put k v ps) \<Longrightarrow> q = (k, v) \<or> q \<in> set ps"
  by (auto simp: obj_put_def set_obj_insert dest: set_obj_set split: if_splits)

lemma maps_inv_point:
  assumes "maps_inv eid ts ps m" and "put_point i (b, v) m = (None, m')" and "0 \<le> b"
  shows "maps_inv eid ts (ps @ [(i, b, v)]) m'"
proof -
  from assms(2) obtain hp where hp: "map_of (sm_hps m) (show_int i) = Some hp"
    and m': "m' = m\<lparr>sm_batches := put_id b (sm_batches m),
        sm_metrics := obj_put (show_int i) (obj_put (show_int b) v
          (case map_of (sm_metrics m) (show_int i) of Some ms \<Rightarrow> ms | None \<Rightarrow> [])) (sm_metrics m),
        sm_hps := obj_put (show_int i) (hp\<lparr>th_metric := Some v\<rparr>) (sm_hps m)\<rparr>"
    by (auto simp: put_point_def Let_def split: option.splits)
  from hp assms(1) obtain h where h: "first_hparams ts i = Some h" "th_id hp = i"
    "hp = \<lparr>th_hparams = h, th_id = i, th_metric = last_metric ps i,
       th_url = ''/experiments/'' @ show_int eid @ ''/trials/'' @ show_int i\<rparr>" by (auto simp: maps_inv_def)
  have vals: "(case map_of (sm_metrics m') (show_int j) of None \<Rightarrow> None | Some ms \<Rightarrow> map_of ms (show_int c))
      = last_value (ps @ [(i, b, v)]) j c" for j c
  proof -
    have "(case map_of (sm_metrics m) (show_int j) of None \<Rightarrow> None | Some ms \<Rightarrow> map_of ms (show_int c)) = last_value ps j c"
      using assms(1) by (simp add: maps_inv_def)
    then show ?thesis by (auto simp: m' last_value_snoc split: option.splits)
  qed
  show ?thesis
    unfolding maps_inv_def
  proof (intro conjI allI)
    show "keyed (sm_batches m')" "snd ` set (sm_batches m') = (\<lambda>(i, b, v). b) ` set (ps @ [(i, b, v)])"
      using assms(1,3) by (simp_all add: m' maps_inv_def keyed_put_id)
    show "distinct (map fst (sm_hps m'))" using assms(1) by (simp add: m' maps_inv_def)
    show "\<forall>(k, h) \<in> set (sm_hps m'). k = show_int (th_id h)"
      using assms(1) h(2) by (auto simp: m' maps_inv_def dest!: set_obj_put)
    show "map_of (sm_hps m') (show_int j) = map_option (\<lambda>h. \<lparr>th_hparams = h, th_id = j,
        th_metric = last_metric (ps @ [(i, b, v)]) j,
        th_url = ''/experiments/'' @ show_int eid @ ''/trials/'' @ show_int j\<rparr>) (first_hparams ts j)" for j
      using assms(1) h by (auto simp: m' maps_inv_def last_metric_snoc)
    show "last_metric (ps @ [(i, b, v)]) j \<noteq> None \<longrightarrow> first_hparams ts j \<noteq> None" for j
      using assms(1) h(1) by (simp add: maps_inv_def last_metric_snoc)
  qed (rule vals)
qed

lemma maps_inv_init:
  assumes "maps_inv eid ts ps m"
  shows "maps_inv eid (ts @ [t]) ps (init_trial eid t m)"
proof -
  let ?m = "init_trial eid t m"
  have vals: "(case map_of (sm_metrics ?m) (show_int j) of None \<Rightarrow> None | Some ms \<Rightarrow> map_of ms (show_int c)) = last_value ps j c" for j c
  proof -
    have "(case map_of (sm_metrics m) (show_int j) of None \<Rightarrow> None | Some ms \<Rightarrow> map_of ms (show_int c)) = last_value ps j c"
      using assms by (simp add: maps_inv_def)
    then show ?thesis by (auto simp: init_trial_def Let_def)
  qed
  have hps: "sm_hps ?m = (if st_hparams t \<noteq> [] \<and> first_hparams ts (st_trialId t) = None
      then obj_put (show_int (st_trialId t)) \<lparr>th_hparams = st_hparams t, th_id = st_trialId t, th_metric = None,
        th_url = ''/experiments/'' @ show_int eid @ ''/trials/'' @ show_int (st_trialId t)\<rparr> (sm_hps m)
      else sm_hps m)" and b: "sm_batches ?m = sm_batches m"
    using assms by (auto simp: init_trial_def Let_def maps_inv_def)
  show ?thesis
    unfolding maps_inv_def
  proof (intro conjI allI)
    show "keyed (sm_batches ?m)" "snd ` set (sm_batches ?m) = (\<lambda>(i, b, v). b) ` set ps"
      using assms by (simp_all add: b maps_inv_def)
    show "distinct (map fst (sm_hps ?m))" using assms by (simp add: hps maps_inv_def)
    show "\<forall>(k, h) \<in> set (sm_hps ?m). k = show_int (th_id h)"
      using assms by (auto simp: hps maps_inv_def dest!: set_obj_put split: if_splits)
    have none: "first_hparams ts i = None \<Longrightarrow> last_metric ps i = None" for i using assms by (auto simp: maps_inv_def)
    have old: "map_of (sm_hps m) (show_int j) = map_option (\<lambda>h. \<lparr>th_hparams = h, th_id = j, th_metric = last_metric ps j,
        th_url = ''/experiments/'' @ show_int eid @ ''/trials/'' @ show_int j\<rparr>) (first_hparams ts j)" for j
      using assms by (simp add: maps_inv_def)
    show "map_of (sm_hps ?m) (show_int j) = map_option (\<lambda>h. \<lparr>th_hparams = h, th_id = j, th_metric = last_metric ps j,
        th_url = ''/experiments/'' @ show_int eid @ ''/trials/'' @ show_int j\<rparr>) (first_hparams (ts @ [t]) j)" for j
      by (cases "first_hparams ts j") (auto simp: hps old none first_hparams_snoc)
    show "last_metric ps j \<noteq> None \<longrightarrow> first_hparams (ts @ [t]) j \<noteq> None" for j
      using none [of j] by (auto simp: first_hparams_snoc split: option.splits)
  qed (rule vals)
qed

lemma maps_inv_trial:
  assumes "maps_inv eid ts ps m" and "put_trial eid t m = (None, m')" and "\<forall>(b, v) \<in> set (st_data t). 0 \<le> b"
  shows "maps_inv eid (ts @ [t]) (ps @ trial_points t) m'"
proof -
  have "maps_inv eid (ts @ [t]) (ps @ map (\<lambda>(b, v). (st_trialId t, b, v)) (st_data t)) m'"
  proof (rule for_each_inv [where R = "\<lambda>ds m. maps_inv eid (ts @ [t]) (ps @ map (\<lambda>(b, v). (st_trialId t, b, v)) ds) m"])
    show "for_each (put_point (st_trialId t)) (st_data t) (init_trial eid t m) = (None, m')"
      using assms(2) by (simp add: put_trial_def)
    show "maps_inv eid (ts @ [t]) (ps @ map (\<lambda>(b, v). (st_trialId t, b, v)) []) (init_trial eid t m)"
      using maps_inv_init [OF assms(1)] by simp
  next
    fix ds d n n'
    assume h: "maps_inv eid (ts @ [t]) (ps @ map (\<lambda>(b, v). (st_trialId t, b, v)) ds) n" "d \<in> set (st_data t)"
      "put_point (st_trialId t) d n = (None, n')"
    obtain b v where d: "d = (b, v)" by (cases d)
    with h(2) assms(3) have "0 \<le> b" by auto
    from maps_inv_point [OF h(1) h(3) [unfolded d] this]
    show "maps_inv eid (ts @ [t]) (ps @ map (\<lambda>(b, v). (st_trialId t, b, v)) (ds @ [d])) n'" by (simp add: d)
  qed
  then show ?thesis by (simp add: trial_points_def)
qed

lemma maps_inv_trials:
  assumes "maps_inv eid ts (points_of ts) m" and "for_each (put_trial eid) us m = (None, m')"
    and "\<forall>t \<in> set us. \<forall>(b, v) \<in> set (st_data t). 0 \<le> b"
  shows "maps_inv eid (ts @ us) (points_of (ts @ us)) m'"
proof (rule for_each_inv [OF assms(2), where R = "\<lambda>us m. maps_inv eid (ts @ us) (points_of (ts @ us)) m"])
  show "maps_inv eid (ts @ []) (points_of (ts @ [])) m" using assms(1) by simp
  fix vs t n n'
  assume h: "maps_inv eid (ts @ vs) (points_of (ts @ vs)) n" "t \<in> set us" "put_trial eid t n = (None, n')"
  from maps_inv_trial [OF h(1,3)] h(2) assms(3)
  show "maps_inv eid (ts @ vs @ [t]) (points_of (ts @ vs @ [t])) n'" by (simp add: points_of_def)
qed

text \<open>The page that an event without failure leaves shows the dictionaries.\<close>

definition page_shows :: "(string \<Rightarrow> string \<Rightarrow> int) \<Rightarrow> SampleMaps \<Rightarrow> LearningCurve \<Rightarrow> bool" where
  "page_shows lc m s \<longleftrightarrow> lc_trialIds s = obj_values (sm_trialIds m) \<and> lc_batches s = obj_values (sm_batches m)
     \<and> chart_rows (sm_metrics m) (lc_trialIds s) (lc_batches s) = Inr (lc_chartData s)
     \<and> lc_trialHps s = table_rows lc (sm_hps m) \<and> lc_hasLoaded s"

lemma trials_keep_ids: "for_each (put_trial eid) ts n = (x, n') \<Longrightarrow> sm_trialIds n' = sm_trialIds n"
proof -
  have ids: "for_each (put_point i) ds n = (x, n') \<Longrightarrow> sm_trialIds n' = sm_trialIds n" for i ds n n' x
    by (induction ds arbitrary: n)
      (auto simp: put_point_def Let_def split: prod.splits option.splits)
  have "sm_trialIds (init_trial eid t n) = sm_trialIds n" for t n by (simp add: init_trial_def Let_def)
  with ids have "put_trial eid t n = (x, n') \<Longrightarrow> sm_trialIds n' = sm_trialIds n" for t n n' x
    by (metis put_trial_def)
  then show "for_each (put_trial eid) ts n = (x, n') \<Longrightarrow> sm_trialIds n' = sm_trialIds n"
    by (induction ts arbitrary: n) (auto split: prod.splits option.splits)
qed

lemma sample_event_Some:
  assumes "sample_event lc eid (Some e) (m, s) = (None, m', s')"
  shows "for_each (put_trial eid) (se_trials e) (m\<lparr>sm_trialIds := put_ids e (sm_trialIds m)\<rparr>) = (None, m') \<and> page_shows lc m' s'
     \<and> sm_trialIds m' = put_ids e (sm_trialIds m)"
  using assms trials_keep_ids
  by (fastforce simp: sample_event_def Let_def page_shows_def split: prod.splits option.splits sum.splits)

definition events_inv :: "(string \<Rightarrow> string \<Rightarrow> int) \<Rightarrow> int \<Rightarrow> SampleEvent option list \<Rightarrow> SampleMaps \<times> LearningCurve \<Rightarrow> bool" where
  "events_inv lc eid es = (\<lambda>(m, s). maps_inv eid (trials_of es) (points_of (trials_of es)) m
     \<and> keyed (sm_trialIds m) \<and> snd ` set (sm_trialIds m) = promoted es
     \<and> ((\<exists>e. Some e \<in> set es) \<longrightarrow> page_shows lc m s))"

lemma events_inv_run:
  assumes "for_each (sample_event lc eid) es (empty_maps, s) = (None, st)" and "\<forall>e. Some e \<in> set es \<longrightarrow> natural_event e"
  shows "events_inv lc eid es st"
proof (rule for_each_inv [OF assms(1), where R = "events_inv lc eid"])
  show "events_inv lc eid [] (empty_maps, s)"
    by (simp add: events_inv_def maps_inv_def empty_maps_def keyed_def trials_of_def points_of_def last_value_def
        last_metric_def first_hparams_def promoted_def)
next
  fix ds x n n'
  assume inv: "events_inv lc eid ds n" and x: "x \<in> set es" and step: "sample_event lc eid x n = (None, n')"
  show "events_inv lc eid (ds @ [x]) n'"
  proof (cases x)
    case None
    with step inv show ?thesis by (auto simp: sample_event_def events_inv_def trials_of_def promoted_def)
  next
    case (Some e)
    obtain m s m' s' where n: "n = (m, s)" "n' = (m', s')" by (metis surj_pair)
    note st = sample_event_Some [OF step [unfolded n Some]]
    have e: "natural_event e" using assms(2) x Some by simp
    have maps: "maps_inv eid (trials_of ds) (points_of (trials_of ds)) (m\<lparr>sm_trialIds := put_ids e (sm_trialIds m)\<rparr>)"
      using inv by (simp add: events_inv_def n maps_inv_def)
    have "\<forall>t \<in> set (se_trials e). \<forall>(b, v) \<in> set (st_data t). 0 \<le> b" using e by (simp add: natural_event_def)
    from maps_inv_trials [OF maps _ this] st
    have "maps_inv eid (trials_of (ds @ [x])) (points_of (trials_of (ds @ [x]))) m'"
      by (simp add: trials_of_def Some)
    moreover have "keyed (sm_trialIds m') \<and> snd ` set (sm_trialIds m') = promoted (ds @ [x])"
      using keyed_put_ids [of "sm_trialIds m" e] inv e st by (simp add: events_inv_def n natural_event_def promoted_def Some)
    ultimately show ?thesis using st by (simp add: events_inv_def n)
  qed
qed

lemma chart_cell_value:
  assumes "maps_inv eid ts ps m" "chart_cell (sm_metrics m) i b = Inr c"
  shows "c = last_value ps i b"
proof -
  have "(case map_of (sm_metrics m) (show_int i) of None \<Rightarrow> None | Some ms \<Rightarrow> map_of ms (show_int b)) = last_value ps i b"
    using assms(1) by (simp add: maps_inv_def)
  with assms(2) show ?thesis by (auto simp: chart_cell_def split: option.splits)
qed

lemma mapM_exn_total: "mapM_exn f xs = Inr ys \<Longrightarrow> (\<And>x y. f x = Inr y \<Longrightarrow> y = g x) \<Longrightarrow> ys = map g xs"
  by (induction xs arbitrary: ys) (auto simp: bind_exn_Inr_iff)

lemma chart_rows_values:
  assumes "maps_inv eid ts ps m" "chart_rows (sm_metrics m) ids batches = Inr rows"
  shows "rows = map (\<lambda>i. map (last_value ps i) batches) ids"
proof -
  have "mapM_exn (chart_cell (sm_metrics m) i) batches = Inr row \<Longrightarrow> row = map (last_value ps i) batches" for i row
    by (erule mapM_exn_total) (rule chart_cell_value [OF assms(1)])
  with assms(2) show ?thesis unfolding chart_rows_def by (rule mapM_exn_total)
qed

lemma table_rows_map:
  assumes "maps_inv eid ts ps m"
  shows "map th_id (table_rows lc (sm_hps m))
      = js_sort (\<lambda>a b. alphanumericSorter lc (show_int a) (show_int b)) (map th_id (obj_values (sm_hps m)))"
    and "r \<in> set (table_rows lc (sm_hps m)) \<longleftrightarrow> map_of (sm_hps m) (show_int (th_id r)) = Some r"
proof -
  let ?ids = "js_sort (\<lambda>a b. alphanumericSorter lc (show_int a) (show_int b)) (map th_id (obj_values (sm_hps m)))"
  have k: "\<forall>(k, h) \<in> set (sm_hps m). k = show_int (th_id h)" "distinct (map fst (sm_hps m))" using assms by (auto simp: maps_inv_def)
  have set_ids: "i \<in> set ?ids \<longleftrightarrow> map_of (sm_hps m) (show_int i) \<noteq> None" for i
  proof -
    have "fst ` set (sm_hps m) = (\<lambda>p. show_int (th_id (snd p))) ` set (sm_hps m)" by (rule image_cong) (use k(1) in auto)
    then have "show_int i \<in> fst ` set (sm_hps m) \<longleftrightarrow> i \<in> th_id ` snd ` set (sm_hps m)" by (auto simp: image_image image_iff)
    then show ?thesis by (simp add: map_of_eq_None_iff obj_values_def image_image)
  qed
  have id: "map_of (sm_hps m) (show_int i) = Some h \<Longrightarrow> th_id h = i" for i h
    using k(1) by (auto dest!: map_of_SomeD)
  have "\<forall>i \<in> set is. map_of (sm_hps m) (show_int i) \<noteq> None \<Longrightarrow>
      map th_id (List.map_filter (\<lambda>i. map_of (sm_hps m) (show_int i)) is) = is" for "is"
    using id by (induction "is") (auto simp: List.map_filter_simps)
  then show "map th_id (table_rows lc (sm_hps m)) = ?ids" using set_ids by (simp add: table_rows_def)
  show "r \<in> set (table_rows lc (sm_hps m)) \<longleftrightarrow> map_of (sm_hps m) (show_int (th_id r)) = Some r"
    using set_ids id by (force simp: table_rows_def List.map_filter_def)
qed

section \<open>Properties\<close>


definition sample_samples :: "SampleEvent option list" where
  "sample_samples = [
     Some \<lparr>se_promoted = [7, 3], se_demoted = [], se_trials = [
       \<lparr>st_trialId = 7, st_hparams = [(''lr'', Num (Fin 1))], st_data = [(200, Fin 5), (100, Fin 6)]\<rparr>,
       \<lparr>st_trialId = 3, st_hparams = [(''lr'', Num (Fin 2))], st_data = [(100, Fin 9)]\<rparr>]\<rparr>,
     None,
     Some \<lparr>se_promoted = [], se_demoted = [], se_trials = [\<lparr>st_trialId = 3, st_hparams = [], st_data = [(100, Fin 8)]\<rparr>]\<rparr>]"


lemma put_point_error: "put_point i d m = (Some x, m') \<Longrightarrow> x = TypeError \<and> map_of (sm_hps m) (show_int i) = None"
  by (auto simp: put_point_def Let_def split: prod.splits option.splits)

lemma hps_grow_point:
  assumes "put_point i d m = (x, m')"
  shows "fst ` set (sm_hps m') = fst ` set (sm_hps m)"
proof (cases "map_of (sm_hps m) (show_int i)")
  case None
  then show ?thesis using assms by (cases d) (auto simp: put_point_def Let_def)
next
  case (Some hp)
  then have "show_int i \<in> fst ` set (sm_hps m)" by (metis domI dom_map_of_conv_image_fst)
  moreover have "sm_hps m' = obj_put (show_int i) (hp\<lparr>th_metric := Some (snd d)\<rparr>) (sm_hps m)"
    using assms Some by (cases d) (auto simp: put_point_def Let_def)
  ultimately show ?thesis by (simp only: keys_obj_put insert_absorb)
qed

lemma for_each_error:
  assumes "for_each f xs m = (Some x, m')"
  obtains ys y zs n where "xs = ys @ y # zs" "for_each f ys m = (None, n)" "f y n = (Some x, m')"
proof -
  have "\<exists>ys y zs n. xs = ys @ y # zs \<and> for_each f ys m = (None, n) \<and> f y n = (Some x, m')" using assms
  proof (induction xs arbitrary: m)
    case (Cons a xs)
    show ?case
    proof (cases "f a m")
      case (Pair r n)
      show ?thesis
      proof (cases r)
        case None
        with Cons.prems Pair have "for_each f xs n = (Some x, m')" by simp
        from Cons.IH [OF this] obtain ys y zs n' where "xs = ys @ y # zs" "for_each f ys n = (None, n')" "f y n' = (Some x, m')" by blast
        with None Pair show ?thesis by (intro exI [of _ "a # ys"] exI [of _ y] exI [of _ zs] exI [of _ n']) simp
      next
        case (Some e)
        with Cons.prems Pair have "f a m = (Some x, m')" by simp
        then show ?thesis by (intro exI [of _ "[]"] exI [of _ a] exI [of _ xs] exI [of _ m]) simp
      qed
    qed
  qed simp
  then show thesis using that by blast
qed

lemma put_trial_error:
  assumes "put_trial eid t m = (Some x, m')"
  shows "x = TypeError \<and> st_data t \<noteq> [] \<and> st_hparams t = [] \<and> map_of (sm_hps m) (show_int (st_trialId t)) = None"
proof -
  let ?m = "init_trial eid t m" and ?i = "st_trialId t"
  from assms obtain ys y zs n where h: "st_data t = ys @ y # zs" "for_each (put_point ?i) ys ?m = (None, n)" "put_point ?i y n = (Some x, m')"
    unfolding put_trial_def by (rule for_each_error)
  have "for_each (put_point ?i) ds k = (r, k') \<Longrightarrow> fst ` set (sm_hps k') = fst ` set (sm_hps k)" for ds k r k'
  proof (induction ds arbitrary: k)
    case (Cons d ds)
    obtain q l where q: "put_point ?i d k = (q, l)" by (metis surj_pair)
    with Cons hps_grow_point [OF q] show ?case by (cases q) auto
  qed simp
  with h(2) have "fst ` set (sm_hps n) = fst ` set (sm_hps ?m)" by blast
  with put_point_error [OF h(3)] have x: "x = TypeError" "map_of (sm_hps ?m) (show_int ?i) = None"
    by (simp_all add: map_of_eq_None_iff)
  then show ?thesis using h(1) by (auto simp: init_trial_def Let_def split: if_splits)
qed

lemma mapM_exn_error: "mapM_exn f xs = Inl e \<Longrightarrow> \<exists>x \<in> set xs. f x = Inl e"
  by (induction xs) (auto simp: bind_exn_def split: sum.splits)

lemma sample_event_error:
  assumes "lc_pageError s = e" "sample_event lc eid ev (m, s) = (x, m', s')"
  shows "lc_pageError s' = e"
  using assms by (auto simp: sample_event_def Let_def split: option.splits prod.splits sum.splits)

lemma read_events_keep:
  assumes "read_events f vs ending st = (r, st')" and "P st" and step: "\<And>v st x st'. P st \<Longrightarrow> f v st = (x, st') \<Longrightarrow> P st'"
  shows "P st'"
  using assms(1,2)
proof (induction vs arbitrary: st)
  case (Cons v vs)
  show ?case
  proof (cases v)
    case (Inr ev)
    obtain x st1 where x: "f ev st = (x, st1)" by (metis surj_pair)
    with step [OF Cons.prems(2)] have "P st1" by blast
    with Cons x Inr show ?thesis by (cases x) auto
  qed (use Cons in auto)
qed auto

lemma curve_effect_error:
  assumes "lc_pageError s \<noteq> None"
  shows "lc_pageError (fst (curve_effect isCancel lc url eid response (s, w))) \<noteq> None"
proof -
  obtain failed m1 s1 where r: "(case response of Inl e \<Rightarrow> (Some e, empty_maps, s)
      | Inr (vs, ending) \<Rightarrow> read_events (sample_event lc eid) vs ending (empty_maps, s)) = (failed, m1, s1)" by (metis surj_pair)
  have "lc_pageError s1 \<noteq> None"
  proof (cases response)
    case (Inl e)
    with r assms show ?thesis by simp
  next
    case (Inr p)
    with r have run: "read_events (sample_event lc eid) (fst p) (snd p) (empty_maps, s) = (failed, m1, s1)" by (simp add: split_beta)
    have "case (m1, s1) of (m, s) \<Rightarrow> lc_pageError s \<noteq> None"
      by (rule read_events_keep [OF run]) (use assms in \<open>auto dest!: sample_event_error [OF refl]\<close>)
    then show ?thesis by simp
  qed
  then show ?thesis unfolding curve_effect_def prod.case r Let_def by (simp split: prod.split sum.split)
qed

text \<open>
  The stream of samples fails in two ways only, with a \<open>TypeError\<close>: on a data point of a trial whose hyperparameters
  have not arrived, and on a promoted trial of which nothing has arrived while there are batches.  The error stays: after
  it the page shows the error whatever the user chooses and whatever another stream sends.
\<close>

theorem curve_failure:
  "(sample_event lc eid (Some ev) (m, s) = (Some x, m', s') \<longrightarrow> x = TypeError
      \<and> ((\<exists>t \<in> set (se_trials ev). st_data t \<noteq> [] \<and> st_hparams t = [])
         \<or> (\<exists>i \<in> set (obj_values (sm_trialIds m')). map_of (sm_metrics m') (show_int i) = None \<and> sm_batches m' \<noteq> [])))
   \<and> (lc_pageError s \<noteq> None \<longrightarrow>
       (\<exists>e. curve_view state (fst (curve_effect isCancel lc url eid response (handleTopTrialsChange n s, w)))
          \<in> {SingleTrialAlert, ErrorView e}))"
proof (intro conjI impI)
  assume ev: "sample_event lc eid (Some ev) (m, s) = (Some x, m', s')"
  let ?m = "m\<lparr>sm_trialIds := put_ids ev (sm_trialIds m)\<rparr>"
  obtain r n where n: "for_each (put_trial eid) (se_trials ev) ?m = (r, n)" by (metis surj_pair)
  have trial: "x = TypeError \<and> (\<exists>t \<in> set (se_trials ev). st_data t \<noteq> [] \<and> st_hparams t = [])" if "r = Some x"
  proof -
    from n [unfolded that] obtain ys t zs k where "se_trials ev = ys @ t # zs" "put_trial eid t k = (Some x, n)" by (rule for_each_error)
    then show ?thesis using put_trial_error [of eid t k x n] by auto
  qed
  have rows: "x = TypeError \<and> (\<exists>i \<in> set ids. map_of metrics (show_int i) = None \<and> bs \<noteq> [])"
    if "chart_rows metrics ids bs = Inl x" for metrics ids bs
  proof -
    from mapM_exn_error [OF that [unfolded chart_rows_def]]
    obtain i where i: "i \<in> set ids" "mapM_exn (chart_cell metrics i) bs = Inl x" by (elim bexE)
    from mapM_exn_error [OF i(2)] obtain b where "b \<in> set bs" "chart_cell metrics i b = Inl x" by (elim bexE)
    with i(1) show ?thesis by (auto simp: chart_cell_def split: option.splits)
  qed
  have "x = TypeError \<and> ((\<exists>t \<in> set (se_trials ev). st_data t \<noteq> [] \<and> st_hparams t = [])
         \<or> (\<exists>i \<in> set (obj_values (sm_trialIds m')). map_of (sm_metrics m') (show_int i) = None \<and> sm_batches m' \<noteq> []))"
  proof (cases r)
    case None
    have ids: "sm_trialIds n = sm_trialIds ?m" by (rule trials_keep_ids [OF n])
    with None n ev have "chart_rows (sm_metrics n) (obj_values (sm_trialIds n)) (obj_values (sm_batches n)) = Inl x" "m' = n"
      by (auto simp: sample_event_def Let_def split: sum.splits)
    from rows [OF this(1)] this(2) show ?thesis by (auto simp: obj_values_def)
  next
    case (Some y)
    with n ev have "y = x" by (simp add: sample_event_def Let_def)
    with trial Some show ?thesis by simp
  qed
  then show "x = TypeError" "(\<exists>t \<in> set (se_trials ev). st_data t \<noteq> [] \<and> st_hparams t = [])
         \<or> (\<exists>i \<in> set (obj_values (sm_trialIds m')). map_of (sm_metrics m') (show_int i) = None \<and> sm_batches m' \<noteq> [])"
    by simp_all
next
  assume "lc_pageError s \<noteq> None"
  then have "lc_pageError (handleTopTrialsChange n s) \<noteq> None" by (simp add: handleTopTrialsChange_def resetData_def)
  from curve_effect_error [OF this] obtain e where
    "lc_pageError (fst (curve_effect isCancel lc url eid response (handleTopTrialsChange n s, w))) = Some e" by blast
  then show "\<exists>e. curve_view state (fst (curve_effect isCancel lc url eid response (handleTopTrialsChange n s, w))) \<in> {SingleTrialAlert, ErrorView e}"
    by (auto simp: curve_view_def)
qed

definition lost_trial :: SampleEvent where
  "lost_trial = \<lparr>se_promoted = [], se_demoted = [], se_trials = [\<lparr>st_trialId = 3, st_hparams = [], st_data = [(100, Fin 8)]\<rparr>]\<rparr>"

theorem curve_failure_witness:
  "\<exists>x m' s'. sample_event (\<lambda>_ _. 0) 1 (Some lost_trial) (empty_maps, initial_curve 10) = (Some x, m', s') \<and> x = TypeError"
proof -
  have "fst (sample_event (\<lambda>_ _. 0) 1 (Some lost_trial) (empty_maps, initial_curve 10)) = Some TypeError" by code_simp
  then obtain m' s' where r: "sample_event (\<lambda>_ _. 0) 1 (Some lost_trial) (empty_maps, initial_curve 10) = (Some TypeError, m', s')"
    by (metis prod.exhaust_sel)
  from r curve_failure [THEN conjunct1, THEN mp, OF r] show ?thesis by blast
qed

end
