(* ===== verification/Learning_Chart.thy ===== *)
theory Learning_Chart
  imports Learning_Curve
begin

text \<open>
  The chart of the learning curves (\<^verbatim>\<open>components/LearningCurveChart.tsx\<close>): the search for the point under the
  cursor, what hovering, clicking and focusing do, and the listener for scroll events.  Positions are real numbers of
  pixels.  uPlot is a parameter: the record of what the handlers ask of it and the series it focuses.
\<close>

section \<open>The closest point\<close>

definition distance :: "real \<Rightarrow> real \<Rightarrow> real \<Rightarrow> real \<Rightarrow> real" where
  "distance x0 y0 x1 y1 = sqrt ((x1 - x0) ^ 2 + (y1 - y0) ^ 2)"

definition FOCUS_MIN_DISTANCE :: real where "FOCUS_MIN_DISTANCE = 30"

text \<open>A point that was found: its distance, series, value and place.  \<open>{ distance: Number.MAX_VALUE }\<close> is no point.\<close>

record Point =
  cp_distance :: real
  cp_seriesIdx :: nat
  cp_value :: number
  cp_x :: real
  cp_xValue :: int
  cp_y :: real

definition point_distance :: "Point option \<Rightarrow> real" where
  "point_distance p = (case p of Some q \<Rightarrow> cp_distance q | None \<Rightarrow> (2 - 1 / 2 ^ 52) * 2 ^ 1023)"

record SharedData =
  sd_mouseLeft :: real
  sd_mouseTop :: real
  sd_posX :: "int \<Rightarrow> real" \<comment> \<open>\<open>plot.valToPos(_, 'x')\<close>\<close>
  sd_posY :: "number \<Rightarrow> real" \<comment> \<open>\<open>plot.valToPos(_, 'metric')\<close>\<close>
  sd_series :: "number option list"
  sd_seriesIdx :: nat
  sd_startIdx :: int
  sd_xValues :: "int list"

definition sd_dist :: "SharedData \<Rightarrow> int \<Rightarrow> number \<Rightarrow> real" where
  "sd_dist sd xValue v = distance (sd_posX sd xValue) (sd_posY sd v) (sd_mouseLeft sd) (sd_mouseTop sd)"

text \<open>A series shorter than the x values reads as \<open>undefined\<close>, which counts as no value.\<close>

definition value_at :: "SharedData \<Rightarrow> int \<Rightarrow> number option" where
  "value_at sd idx = (if nat idx < length (sd_series sd) then sd_series sd ! nat idx else None)"

text \<open>One look: whether the search goes on, and with which point.\<close>

definition look_at :: "SharedData \<Rightarrow> int \<Rightarrow> Point option \<Rightarrow> bool \<times> Point option" where
  "look_at sd idx p =
     (let xValue = sd_xValues sd ! nat idx in
      case value_at sd idx of
        None \<Rightarrow> (True, p)
      | Some v \<Rightarrow>
          (let dist = sd_dist sd xValue v in
           if dist > FOCUS_MIN_DISTANCE then (False, p)
           else (True,
             if dist < point_distance p
             then Some \<lparr>cp_distance = dist, cp_seriesIdx = sd_seriesIdx sd, cp_value = v, cp_x = sd_posX sd xValue,
               cp_xValue = xValue, cp_y = sd_posY sd v\<rparr>
             else p)))"

text \<open>From the index under the cursor the search goes to the left as far as it can, then to the right.\<close>

function findClosestPoint :: "SharedData \<Rightarrow> Point option \<Rightarrow> int \<Rightarrow> Point option" where
  "findClosestPoint sd p off =
     (let idx = sd_startIdx sd + off in
      if idx < 0 \<or> int (length (sd_xValues sd)) \<le> idx then p
      else case look_at sd idx p of
          (False, _) \<Rightarrow> p
        | (True, q) \<Rightarrow>
            if off = 0 then findClosestPoint sd (findClosestPoint sd q (- 1)) 1
            else findClosestPoint sd q (off + (if off < 0 then - 1 else 1)))"
  by pat_completeness auto

termination
  by (relation "measures [\<lambda>(sd, p, off). if off = 0 then 1 else 0,
      \<lambda>(sd, p, off). nat (if off < 0 then sd_startIdx sd + off + 1 else int (length (sd_xValues sd)) - sd_startIdx sd - off)]")
    auto

declare findClosestPoint.simps [simp del]

section \<open>Hovering, clicking and focusing\<close>

record Plot =
  pl_xValues :: "int list"
  pl_series :: "number option list list"
  pl_posToIdx :: "real \<Rightarrow> int"
  pl_posX :: "int \<Rightarrow> real"
  pl_posY :: "number \<Rightarrow> real"
  pl_left :: real
  pl_top :: real
  pl_width :: real
  pl_height :: real

text \<open>\<open>setSeries\<close> with a series, counted from one, or none.\<close>

definition closest_in_plot :: "Plot \<Rightarrow> real \<Rightarrow> real \<Rightarrow> Point option" where
  "closest_in_plot plot mouseLeft mouseTop =
     fold (\<lambda>(i, series) p. findClosestPoint
         \<lparr>sd_mouseLeft = mouseLeft, sd_mouseTop = mouseTop, sd_posX = pl_posX plot, sd_posY = pl_posY plot,
          sd_series = series, sd_seriesIdx = i, sd_startIdx = pl_posToIdx plot mouseLeft, sd_xValues = pl_xValues plot\<rparr> p 0)
       (enumerate 0 (pl_series plot)) None"

record Tooltip =
  tip_display :: bool
  tip_left :: real
  tip_top :: real
  tip_above :: bool \<comment> \<open>the class \<open>css.top\<close>\<close>
  tip_before :: bool \<comment> \<open>the class \<open>css.left\<close>\<close>
  tip_color :: string
  tip_trialId :: int
  tip_batches :: int
  tip_value :: number

record ChartState =
  ch_focusedPoint :: "Point option"
  ch_focusedSeries :: "nat option"
  ch_tooltip :: Tooltip
  ch_trialFocus :: "int option list" \<comment> \<open>the calls of \<open>onTrialFocus\<close>\<close>

text \<open>
  The trial of a series; \<open>undefined\<close> when the list of trials is shorter, which counts as none for \<open>onTrialFocus\<close> and
  throws when its text is asked for.  \<open>scale\<close> is \<open>window.devicePixelRatio\<close>.
\<close>

definition trial_at :: "int list \<Rightarrow> nat \<Rightarrow> int option" where
  "trial_at trialIds i = (if i < length trialIds then Some (trialIds ! i) else None)"

definition tooltip_of :: "real \<Rightarrow> Plot \<Rightarrow> int list \<Rightarrow> Point \<Rightarrow> Tooltip \<Rightarrow> exn option \<times> Tooltip" where
  "tooltip_of scale plot trialIds p t =
     (let x = cp_x p + pl_left plot / scale; y = cp_y p + pl_top plot / scale;
          t = t\<lparr>tip_display := True, tip_left := x, tip_top := y, tip_above := (y > pl_height plot / 2 / scale),
                tip_before := (x > pl_width plot / 2 / scale)\<rparr>
      in case glasbeyColor (cp_seriesIdx p) of
           Inl e \<Rightarrow> (Some e, t)
         | Inr color \<Rightarrow>
             (let t = t\<lparr>tip_color := color\<rparr> in
              case trial_at trialIds (cp_seriesIdx p) of
                None \<Rightarrow> (Some TypeError, t)
              | Some i \<Rightarrow> (None, t\<lparr>tip_trialId := i, tip_batches := cp_xValue p, tip_value := cp_value p\<rparr>)))"

definition hide_tooltip :: "ChartState \<Rightarrow> ChartState" where
  "hide_tooltip s = s\<lparr>ch_tooltip := (ch_tooltip s)\<lparr>tip_display := False\<rparr>\<rparr>"

definition handleCursorMove ::
  "real \<Rightarrow> Plot \<Rightarrow> int list \<Rightarrow> real \<Rightarrow> real \<Rightarrow> ChartState \<Rightarrow> exn option \<times> ChartState" where
  "handleCursorMove scale plot trialIds mouseLeft mouseTop s =
     (if mouseLeft < 0 \<and> mouseTop < 0 then (None, s)
      else
        (let closest = closest_in_plot plot mouseLeft mouseTop; s = s\<lparr>ch_focusedPoint := closest\<rparr> in
         case closest of
           None \<Rightarrow> (None, hide_tooltip (s\<lparr>ch_focusedSeries := None, ch_trialFocus := ch_trialFocus s @ [None]\<rparr>))
         | Some p \<Rightarrow>
             (let s = s\<lparr>ch_focusedSeries := Some (Suc (cp_seriesIdx p)),
                        ch_trialFocus := ch_trialFocus s @ [trial_at trialIds (cp_seriesIdx p)]\<rparr>
              in case tooltip_of scale plot trialIds p (ch_tooltip s) of (e, t) \<Rightarrow> (e, s\<lparr>ch_tooltip := t\<rparr>))))"

definition focusOnTrial :: "int list \<Rightarrow> int option \<Rightarrow> ChartState \<Rightarrow> ChartState" where
  "focusOnTrial trialIds focusedTrialId s = s\<lparr>ch_focusedSeries :=
     (case focusedTrialId of
        Some t \<Rightarrow> if t \<noteq> 0 \<and> t \<in> set trialIds then Some (Suc (length (takeWhile (\<lambda>j. j \<noteq> t) trialIds))) else None
      | None \<Rightarrow> None)\<rparr>"

text \<open>The trial that \<open>onTrialClick\<close> is called with, when there is one.\<close>

definition handleClick :: "int list \<Rightarrow> ChartState \<Rightarrow> int option option" where
  "handleClick trialIds s = (case ch_focusedPoint s of None \<Rightarrow> None | Some p \<Rightarrow> Some (trial_at trialIds (cp_seriesIdx p)))"

definition handleMouseLeave :: "int list \<Rightarrow> int option \<Rightarrow> ChartState \<Rightarrow> ChartState" where
  "handleMouseLeave trialIds focusedTrialId s = focusOnTrial trialIds focusedTrialId s"

text \<open>A tenth of a second later.\<close>

definition mouse_left :: "ChartState \<Rightarrow> ChartState" where
  "mouse_left s = hide_tooltip (s\<lparr>ch_trialFocus := ch_trialFocus s @ [None]\<rparr>)"

definition longest_value :: "string list \<Rightarrow> string" where
  "longest_value values = foldl (\<lambda>acc v. if length v > length acc then v else acc) [] values"

section \<open>Making the chart\<close>

definition MAX_METRIC_LABEL_SIZE :: nat where "MAX_METRIC_LABEL_SIZE = 30"

definition metric_label :: "MetricName \<Rightarrow> string" where
  "metric_label m =
     ''['' @ (if mn_type m = MetricType_Training then ''T'' else ''V'') @ ''] ''
     @ (if length (mn_name m) > MAX_METRIC_LABEL_SIZE then take MAX_METRIC_LABEL_SIZE (mn_name m) @ ''...'' else mn_name m)"

text \<open>The options of the series: label and colour; a series without a colour throws.\<close>

definition chart_series :: "int list \<Rightarrow> (string \<times> string) list result" where
  "chart_series trialIds =
     mapM_exn (\<lambda>(i, t). bind_exn (glasbeyColor i) (\<lambda>c. Inr (''trial '' @ show_int t, c))) (enumerate 0 trialIds)"

text \<open>The zoom that the next chart starts with.\<close>

definition setScale :: "string \<Rightarrow> (real option \<times> real option) \<Rightarrow> (real \<times> real) option \<Rightarrow> (real \<times> real) option" where
  "setScale scaleKey = (\<lambda>(max, min) xScale. if scaleKey \<noteq> ''x'' then xScale
     else case (max, min) of (Some a, Some b) \<Rightarrow> Some (a, b) | _ \<Rightarrow> None)"

text \<open>
  The listeners of the document for \<open>scroll\<close>: the effect's number and whether they capture.  Removing one asks for the
  same flag; the effect adds with \<open>true\<close> and removes with the default.
\<close>

type_synonym listeners = "(nat \<times> bool) list"

definition addEventListener :: "nat \<times> bool \<Rightarrow> listeners \<Rightarrow> listeners" where
  "addEventListener l ls = (if l \<in> set ls then ls else ls @ [l])"

definition removeEventListener :: "nat \<times> bool \<Rightarrow> listeners \<Rightarrow> listeners" where
  "removeEventListener l ls = filter (\<lambda>l'. l' \<noteq> l) ls"

definition scroll_effect :: "nat \<Rightarrow> listeners \<Rightarrow> listeners" where
  "scroll_effect n ls = addEventListener (n, True) ls"

definition scroll_cleanup :: "nat \<Rightarrow> listeners \<Rightarrow> listeners" where
  "scroll_cleanup n ls = removeEventListener (n, False) ls"

text \<open>The listeners after \<open>n\<close> changes of the chart: each runs the last cleanup and the effect again.\<close>

fun scroll_run :: "nat \<Rightarrow> listeners" where
  "scroll_run 0 = scroll_effect 0 []"
| "scroll_run (Suc n) = scroll_effect (Suc n) (scroll_cleanup n (scroll_run n))"

section \<open>Lemmas\<close>

text \<open>The indices the search reaches from an index in one direction: up to the end or a point that is too far.\<close>

definition near :: "SharedData \<Rightarrow> int \<Rightarrow> bool" where
  "near sd idx \<longleftrightarrow> 0 \<le> idx \<and> idx < int (length (sd_xValues sd))
     \<and> (case value_at sd idx of None \<Rightarrow> True | Some v \<Rightarrow> sd_dist sd (sd_xValues sd ! nat idx) v \<le> FOCUS_MIN_DISTANCE)"

text \<open>A point of the series at an index.\<close>

definition point_of :: "SharedData \<Rightarrow> int \<Rightarrow> number \<Rightarrow> Point" where
  "point_of sd idx v = (let x = sd_xValues sd ! nat idx in
     \<lparr>cp_distance = sd_dist sd x v, cp_seriesIdx = sd_seriesIdx sd, cp_value = v, cp_x = sd_posX sd x, cp_xValue = x,
      cp_y = sd_posY sd v\<rparr>)"

text \<open>What a search may return that starts with a point: that point, or a nearer one of the series.\<close>

definition found :: "SharedData \<Rightarrow> Point option \<Rightarrow> Point option \<Rightarrow> bool" where
  "found sd p r \<longleftrightarrow> r = p \<or> point_distance r < point_distance p \<and>
     (\<exists>idx v. near sd idx \<and> value_at sd idx = Some v \<and> r = Some (point_of sd idx v))"

lemma found_refl: "found sd p p" by (simp add: found_def)

lemma found_trans: "found sd p q \<Longrightarrow> found sd q r \<Longrightarrow> found sd p r"
  by (auto simp: found_def)

lemma found_le: "found sd p r \<Longrightarrow> point_distance r \<le> point_distance p"
  by (auto simp: found_def)

lemma look_near:
  assumes "near sd idx"
  shows "fst (look_at sd idx p)" "found sd p (snd (look_at sd idx p))"
    "value_at sd idx = Some v \<Longrightarrow> point_distance (snd (look_at sd idx p)) \<le> sd_dist sd (sd_xValues sd ! nat idx) v"
  using assms by (auto simp: look_at_def near_def Let_def found_def point_of_def point_distance_def split: option.splits)

lemma look_far:
  "0 \<le> idx \<Longrightarrow> idx < int (length (sd_xValues sd)) \<Longrightarrow> \<not> near sd idx \<Longrightarrow> \<not> fst (look_at sd idx p)"
  by (auto simp: look_at_def near_def Let_def split: option.splits)

lemma closest_step:
  "findClosestPoint sd p off =
     (if \<not> near sd (sd_startIdx sd + off) then p
      else let q = snd (look_at sd (sd_startIdx sd + off) p) in
        if off = 0 then findClosestPoint sd (findClosestPoint sd q (- 1)) 1
        else findClosestPoint sd q (off + (if off < 0 then - 1 else 1)))"
proof (cases "near sd (sd_startIdx sd + off)")
  case True
  then have "0 \<le> sd_startIdx sd + off" "sd_startIdx sd + off < int (length (sd_xValues sd))" by (auto simp: near_def)
  then show ?thesis using look_near(1) [OF True, of p] True
    by (subst findClosestPoint.simps) (auto simp: Let_def split: prod.splits bool.splits)
next
  case False
  show ?thesis
  proof (cases "0 \<le> sd_startIdx sd + off \<and> sd_startIdx sd + off < int (length (sd_xValues sd))")
    case True
    then show ?thesis using look_far [of "sd_startIdx sd + off" sd p] False
      by (subst findClosestPoint.simps) (auto simp: Let_def split: prod.splits bool.splits)
  next
    case out: False
    then show ?thesis using False by (subst findClosestPoint.simps) (auto simp: Let_def)
  qed
qed

lemma closest_found: "found sd p (findClosestPoint sd p off)"
proof (induction sd p off rule: findClosestPoint.induct)
  case (1 sd p off)
  show ?case
  proof (cases "near sd (sd_startIdx sd + off)")
    case False
    then show ?thesis by (simp add: closest_step [of sd p off] found_refl)
  next
    case True
    let ?q = "snd (look_at sd (sd_startIdx sd + off) p)"
    have n: "\<not> (sd_startIdx sd + off < 0 \<or> int (length (sd_xValues sd)) \<le> sd_startIdx sd + off)"
      using True by (auto simp: near_def)
    have l: "look_at sd (sd_startIdx sd + off) p = (True, ?q)" using look_near(1) [OF True, of p] by (cases "look_at sd (sd_startIdx sd + off) p") simp
    note IH = "1.IH" [OF refl n l [symmetric] refl]
    note q = look_near(2) [OF True, of p]
    show ?thesis
    proof (cases "off = 0")
      case True
      have "found sd ?q (findClosestPoint sd ?q (- 1))" by (rule IH(1) [OF True])
      moreover have "found sd (findClosestPoint sd ?q (- 1)) (findClosestPoint sd (findClosestPoint sd ?q (- 1)) 1)"
        by (rule IH(2) [OF True])
      moreover have "findClosestPoint sd p off = findClosestPoint sd (findClosestPoint sd ?q (- 1)) 1"
        using True \<open>near sd (sd_startIdx sd + off)\<close> by (simp add: closest_step [of sd p 0] Let_def)
      ultimately show ?thesis using q by (metis found_trans)
    next
      case False
      have "found sd ?q (findClosestPoint sd ?q (off + (if off < 0 then - 1 else 1)))" by (rule IH(3) [OF False])
      moreover have "findClosestPoint sd p off = findClosestPoint sd ?q (off + (if off < 0 then - 1 else 1))"
        using False True by (simp add: closest_step [of sd p off] Let_def)
      ultimately show ?thesis using q by (metis found_trans)
    qed
  qed
qed

lemma closest_side:
  assumes "off \<noteq> 0" and "value_at sd i = Some v"
    and "if off < 0 then i \<le> sd_startIdx sd + off else sd_startIdx sd + off \<le> i"
    and "\<And>j. (if off < 0 then i \<le> j \<and> j \<le> sd_startIdx sd + off else sd_startIdx sd + off \<le> j \<and> j \<le> i) \<Longrightarrow> near sd j"
  shows "point_distance (findClosestPoint sd p off) \<le> sd_dist sd (sd_xValues sd ! nat i) v"
  using assms
proof (induction "nat \<bar>i - (sd_startIdx sd + off)\<bar>" arbitrary: p off)
  case 0
  then have i: "i = sd_startIdx sd + off" by simp
  with "0.prems" have n: "near sd i" by (auto split: if_splits)
  let ?q = "snd (look_at sd i p)"
  have "findClosestPoint sd p off = findClosestPoint sd ?q (off + (if off < 0 then - 1 else 1))"
    using n i "0.prems"(1) by (simp add: closest_step [of sd p off] Let_def)
  with look_near(3) [OF n "0.prems"(2), of p] found_le [OF closest_found, of sd ?q "off + (if off < 0 then - 1 else 1)"]
  show ?case by simp
next
  case (Suc n)
  let ?i = "sd_startIdx sd + off" and ?off = "off + (if off < 0 then - 1 else 1)"
  have ne: "near sd ?i" using Suc.prems(3) by (intro Suc.prems(4)) (auto split: if_splits)
  have "findClosestPoint sd p off = findClosestPoint sd (snd (look_at sd ?i p)) ?off"
    using ne Suc.prems(1) by (simp add: closest_step [of sd p off] Let_def)
  moreover have "point_distance (findClosestPoint sd (snd (look_at sd ?i p)) ?off) \<le> sd_dist sd (sd_xValues sd ! nat i) v"
  proof (rule Suc.hyps(1))
    show "n = nat \<bar>i - (sd_startIdx sd + ?off)\<bar>" using Suc.hyps(2) Suc.prems(1,3) by (auto split: if_splits)
    show "?off \<noteq> 0" using Suc.prems(1) by auto
    show "value_at sd i = Some v" by (rule Suc.prems(2))
    show "if ?off < 0 then i \<le> sd_startIdx sd + ?off else sd_startIdx sd + ?off \<le> i"
      using Suc.hyps(2) Suc.prems(1,3) by (auto split: if_splits)
    show "near sd j" if "if ?off < 0 then i \<le> j \<and> j \<le> sd_startIdx sd + ?off else sd_startIdx sd + ?off \<le> j \<and> j \<le> i" for j
      using that Suc.prems(1) by (intro Suc.prems(4)) (auto split: if_splits)
  qed
  ultimately show ?case by simp
qed

text \<open>The indices from the cursor's to the given one, on either side.\<close>

definition reached :: "SharedData \<Rightarrow> int \<Rightarrow> bool" where
  "reached sd i \<longleftrightarrow> (\<forall>j. min i (sd_startIdx sd) \<le> j \<and> j \<le> max i (sd_startIdx sd) \<longrightarrow> near sd j)"

lemma closest_reached:
  assumes r: "reached sd i" and v: "value_at sd i = Some v"
  shows "point_distance (findClosestPoint sd p 0) \<le> sd_dist sd (sd_xValues sd ! nat i) v"
proof -
  let ?s = "sd_startIdx sd"
  let ?q = "snd (look_at sd ?s p)"
  have n: "near sd ?s" using r by (auto simp: reached_def)
  have c: "findClosestPoint sd p 0 = findClosestPoint sd (findClosestPoint sd ?q (- 1)) 1"
    using n by (simp add: closest_step [of sd p 0] Let_def)
  have left: "point_distance (findClosestPoint sd p 0) \<le> point_distance (findClosestPoint sd ?q (- 1))"
    unfolding c by (rule found_le [OF closest_found])
  consider "i = ?s" | "i < ?s" | "?s < i" by linarith
  then show ?thesis
  proof cases
    case 1
    have "point_distance (findClosestPoint sd ?q (- 1)) \<le> point_distance ?q" by (rule found_le [OF closest_found])
    also have "\<dots> \<le> sd_dist sd (sd_xValues sd ! nat i) v" using look_near(3) [OF n, of v p] v 1 by simp
    finally show ?thesis using left by simp
  next
    case 2
    have "point_distance (findClosestPoint sd ?q (- 1)) \<le> sd_dist sd (sd_xValues sd ! nat i) v"
      by (rule closest_side) (use 2 r v in \<open>auto simp: reached_def\<close>)
    with left show ?thesis by simp
  next
    case 3
    show ?thesis unfolding c by (rule closest_side) (use 3 r v in \<open>auto simp: reached_def\<close>)
  qed
qed

lemma closest_far: "\<not> near sd (sd_startIdx sd) \<Longrightarrow> findClosestPoint sd p 0 = p"
  by (simp add: closest_step [of sd p 0])

text \<open>The data that a series of the plot is searched with.\<close>

definition shared :: "Plot \<Rightarrow> real \<Rightarrow> real \<Rightarrow> nat \<Rightarrow> SharedData" where
  "shared plot x y i = \<lparr>sd_mouseLeft = x, sd_mouseTop = y, sd_posX = pl_posX plot, sd_posY = pl_posY plot,
     sd_series = pl_series plot ! i, sd_seriesIdx = i, sd_startIdx = pl_posToIdx plot x, sd_xValues = pl_xValues plot\<rparr>"

lemma enumerate_nth: "enumerate n xs = map (\<lambda>i. (n + i, xs ! i)) [0..<length xs]"
  by (rule nth_equalityI) (simp_all add: nth_enumerate_eq)

lemma closest_in_plot_fold:
  "closest_in_plot plot x y = fold (\<lambda>i p. findClosestPoint (shared plot x y i) p 0) [0..<length (pl_series plot)] None"
  by (simp add: closest_in_plot_def enumerate_nth fold_map comp_def shared_def)

lemma fold_closest:
  "(case fold (\<lambda>i p. findClosestPoint (shared plot x y i) p 0) [0..<n] None of
      None \<Rightarrow> True
    | Some q \<Rightarrow> \<exists>i idx v. i < n \<and> near (shared plot x y i) idx \<and> value_at (shared plot x y i) idx = Some v
        \<and> q = point_of (shared plot x y i) idx v)
   \<and> (\<forall>i < n. \<forall>idx v. reached (shared plot x y i) idx \<longrightarrow> value_at (shared plot x y i) idx = Some v \<longrightarrow>
        point_distance (fold (\<lambda>i p. findClosestPoint (shared plot x y i) p 0) [0..<n] None)
          \<le> sd_dist (shared plot x y i) (pl_xValues plot ! nat idx) v)"
proof (induction n)
  case (Suc n)
  let ?p = "fold (\<lambda>i p. findClosestPoint (shared plot x y i) p 0) [0..<n] None"
  let ?r = "findClosestPoint (shared plot x y n) ?p 0"
  have f: "found (shared plot x y n) ?p ?r" by (rule closest_found)
  have "case ?r of None \<Rightarrow> True | Some q \<Rightarrow> \<exists>i idx v. i < Suc n \<and> near (shared plot x y i) idx
      \<and> value_at (shared plot x y i) idx = Some v \<and> q = point_of (shared plot x y i) idx v"
  proof (cases "?r = ?p")
    case True
    with Suc.IH [THEN conjunct1] show ?thesis by (cases ?p) (auto intro: less_SucI)
  next
    case False
    with f obtain idx v where "near (shared plot x y n) idx" "value_at (shared plot x y n) idx = Some v"
      "?r = Some (point_of (shared plot x y n) idx v)" by (auto simp: found_def)
    then show ?thesis by (simp only: option.case) (intro exI [of _ n] exI [of _ idx] exI [of _ v], simp)
  qed
  moreover have "point_distance ?r \<le> sd_dist (shared plot x y i) (pl_xValues plot ! nat idx) v"
    if "i < Suc n" "reached (shared plot x y i) idx" "value_at (shared plot x y i) idx = Some v" for i idx v
  proof (cases "i = n")
    case True
    then show ?thesis using closest_reached [of "shared plot x y n" idx v ?p] that by (simp add: shared_def)
  next
    case False
    then have "point_distance ?p \<le> sd_dist (shared plot x y i) (pl_xValues plot ! nat idx) v"
      using Suc.IH [THEN conjunct2, rule_format, of i idx v] that by simp
    with found_le [OF f] show ?thesis by simp
  qed
  ultimately show ?case by simp
qed simp

lemma length_GLASBEY: "length GLASBEY = 156"
  by (simp add: GLASBEY_def)

lemma glasbeyColor_iff: "glasbeyColor i = Inl e \<longleftrightarrow> e = TypeError \<and> \<not> i < length GLASBEY"
  by (auto simp: glasbeyColor_def split: prod.splits)

lemma mapM_exn_Ex: "(\<exists>ys. mapM_exn f xs = Inr ys) \<longleftrightarrow> (\<forall>x \<in> set xs. \<exists>y. f x = Inr y)"
  by (induction xs) (auto simp: bind_exn_Inr_iff)

lemma mapM_exn_Inl: "mapM_exn f xs = Inl e \<Longrightarrow> \<exists>x \<in> set xs. f x = Inl e"
  by (induction xs) (auto simp: bind_exn_def split: sum.splits)

lemma mapM_exn_project: "mapM_exn f xs = Inr ys \<Longrightarrow> (\<And>x y. f x = Inr y \<Longrightarrow> g y = h x) \<Longrightarrow> map g ys = map h xs"
  by (induction xs arbitrary: ys) (auto simp: bind_exn_Inr_iff)

definition series_option :: "nat \<times> int \<Rightarrow> (string \<times> string) result" where
  "series_option = (\<lambda>(i, t). bind_exn (glasbeyColor i) (\<lambda>c. Inr (''trial '' @ show_int t, c)))"

lemma glasbey_some: "i < 156 \<Longrightarrow> \<exists>c. glasbeyColor i = Inr c"
  by (cases "GLASBEY ! i") (simp add: glasbeyColor_def length_GLASBEY)

lemma glasbey_none: "\<not> i < 156 \<Longrightarrow> glasbeyColor i = Inl TypeError"
  by (simp add: glasbeyColor_def length_GLASBEY)

lemma series_option_iff: "(\<exists>s. series_option p = Inr s) \<longleftrightarrow> fst p < 156"
proof (cases "fst p < 156")
  case True
  with glasbey_some obtain c where "glasbeyColor (fst p) = Inr c" by blast
  with True show ?thesis by (simp add: series_option_def split_beta)
next
  case False
  then show ?thesis by (simp add: series_option_def split_beta glasbey_none)
qed

lemma series_option_error: "series_option p = Inl e \<Longrightarrow> e = TypeError"
  using series_option_iff [of p] by (cases "fst p < 156") (auto simp: series_option_def split_beta glasbey_none)

lemma series_option_label: "series_option p = Inr s \<Longrightarrow> fst s = ''trial '' @ show_int (snd p)"
  by (cases p) (auto simp: series_option_def bind_exn_Inr_iff)

section \<open>Properties\<close>

text \<open>
  C12: The search under the cursor always ends.  The point it finds is one of a series, at most 30 pixels away, and no
  point is nearer that lies in some series between the index under the cursor and itself with nothing farther than 30
  pixels in between.  When in every series the value at the index under the cursor is farther away than that, nothing
  is found, however near its neighbours are.
\<close>

theorem closest_point:
  assumes "0 \<le> pl_posToIdx plot x" and "pl_posToIdx plot x < int (length (pl_xValues plot))"
  shows "(case closest_in_plot plot x y of
      None \<Rightarrow> True
    | Some q \<Rightarrow> cp_seriesIdx q < length (pl_series plot) \<and> cp_distance q \<le> FOCUS_MIN_DISTANCE
        \<and> (\<exists>idx < length (pl_xValues plot). cp_xValue q = pl_xValues plot ! idx
            \<and> value_at (shared plot x y (cp_seriesIdx q)) (int idx) = Some (cp_value q))
        \<and> cp_distance q = distance (pl_posX plot (cp_xValue q)) (pl_posY plot (cp_value q)) x y)
   \<and> (\<forall>i < length (pl_series plot). \<forall>idx v. reached (shared plot x y i) idx \<longrightarrow> value_at (shared plot x y i) idx = Some v \<longrightarrow>
        point_distance (closest_in_plot plot x y) \<le> distance (pl_posX plot (pl_xValues plot ! nat idx)) (pl_posY plot v) x y)
   \<and> ((\<forall>i < length (pl_series plot). \<exists>v. value_at (shared plot x y i) (pl_posToIdx plot x) = Some v
        \<and> FOCUS_MIN_DISTANCE < distance (pl_posX plot (pl_xValues plot ! nat (pl_posToIdx plot x))) (pl_posY plot v) x y)
      \<longrightarrow> closest_in_plot plot x y = None)"
proof (intro conjI impI allI)
  note fold = fold_closest [where plot = plot and x = x and y = y and n = "length (pl_series plot)", folded closest_in_plot_fold]
  show "case closest_in_plot plot x y of
      None \<Rightarrow> True
    | Some q \<Rightarrow> cp_seriesIdx q < length (pl_series plot) \<and> cp_distance q \<le> FOCUS_MIN_DISTANCE
        \<and> (\<exists>idx < length (pl_xValues plot). cp_xValue q = pl_xValues plot ! idx
            \<and> value_at (shared plot x y (cp_seriesIdx q)) (int idx) = Some (cp_value q))
        \<and> cp_distance q = distance (pl_posX plot (cp_xValue q)) (pl_posY plot (cp_value q)) x y"
  proof (cases "closest_in_plot plot x y")
    case (Some q)
    with fold [THEN conjunct1] obtain i idx v where h: "i < length (pl_series plot)" "near (shared plot x y i) idx"
      "value_at (shared plot x y i) idx = Some v" "q = point_of (shared plot x y i) idx v" by auto
    from h(2) have "nat idx < length (pl_xValues plot)" "int (nat idx) = idx" by (auto simp: near_def shared_def)
    moreover have dist: "cp_seriesIdx q = i" "cp_value q = v" "cp_xValue q = pl_xValues plot ! nat idx"
      "cp_distance q = distance (pl_posX plot (cp_xValue q)) (pl_posY plot (cp_value q)) x y"
      "cp_distance q \<le> FOCUS_MIN_DISTANCE"
      using h by (simp_all add: point_of_def shared_def sd_dist_def near_def Let_def)
    ultimately have "\<exists>idx < length (pl_xValues plot). cp_xValue q = pl_xValues plot ! idx
            \<and> value_at (shared plot x y (cp_seriesIdx q)) (int idx) = Some (cp_value q)"
      using h(3) by (intro exI [of _ "nat idx"]) simp
    with Some h(1) dist show ?thesis by simp
  qed simp
  show "point_distance (closest_in_plot plot x y) \<le> distance (pl_posX plot (pl_xValues plot ! nat idx)) (pl_posY plot v) x y"
    if "i < length (pl_series plot)" "reached (shared plot x y i) idx" "value_at (shared plot x y i) idx = Some v" for i idx v
    using fold [THEN conjunct2] that by (simp add: sd_dist_def shared_def)
  show "closest_in_plot plot x y = None"
    if far: "\<forall>i < length (pl_series plot). \<exists>v. value_at (shared plot x y i) (pl_posToIdx plot x) = Some v
        \<and> FOCUS_MIN_DISTANCE < distance (pl_posX plot (pl_xValues plot ! nat (pl_posToIdx plot x))) (pl_posY plot v) x y"
  proof -
    have "\<not> near (shared plot x y i) (sd_startIdx (shared plot x y i))" if "i < length (pl_series plot)" for i
      using far that by (fastforce simp: near_def shared_def sd_dist_def)
    then have "n \<le> length (pl_series plot) \<Longrightarrow> fold (\<lambda>i p. findClosestPoint (shared plot x y i) p 0) [0..<n] None = None" for n
      by (induction n) (simp_all add: closest_far)
    then show ?thesis by (simp add: closest_in_plot_fold)
  qed
qed

text \<open>A series whose value under the cursor is 40 pixels away, with a neighbour 10 pixels away.\<close>

definition sample_plot :: Plot where
  "sample_plot = \<lparr>pl_xValues = [100, 200], pl_series = [[Some (Fin 1), Some (Fin 2)]], pl_posToIdx = (\<lambda>_. 0),
     pl_posX = (\<lambda>b. of_int b / 10), pl_posY = (\<lambda>v. if v = Fin 1 then 40 else 0),
     pl_left = 0, pl_top = 0, pl_width = 100, pl_height = 100\<rparr>"

theorem closest_point_witness:
  "closest_in_plot sample_plot 10 0 = None \<and> distance (pl_posX sample_plot 200) (pl_posY sample_plot (Fin 2)) 10 0 = 10"
proof -
  have h: "0 \<le> pl_posToIdx sample_plot 10" "pl_posToIdx sample_plot 10 < int (length (pl_xValues sample_plot))"
    by (simp_all add: sample_plot_def)
  have d: "distance (pl_posX sample_plot (pl_xValues sample_plot ! nat (pl_posToIdx sample_plot 10))) (pl_posY sample_plot (Fin 1)) 10 0 = 40"
    by (simp add: distance_def sample_plot_def)
  have "\<forall>i < length (pl_series sample_plot). \<exists>v. value_at (shared sample_plot 10 0 i) (pl_posToIdx sample_plot 10) = Some v
        \<and> FOCUS_MIN_DISTANCE < distance (pl_posX sample_plot (pl_xValues sample_plot ! nat (pl_posToIdx sample_plot 10))) (pl_posY sample_plot v) 10 0"
  proof (intro allI impI exI conjI)
    fix i assume "i < length (pl_series sample_plot)"
    then show "value_at (shared sample_plot 10 0 i) (pl_posToIdx sample_plot 10) = Some (Fin 1)"
      by (simp add: value_at_def shared_def sample_plot_def)
    show "FOCUS_MIN_DISTANCE < distance (pl_posX sample_plot (pl_xValues sample_plot ! nat (pl_posToIdx sample_plot 10))) (pl_posY sample_plot (Fin 1)) 10 0"
      by (simp add: d FOCUS_MIN_DISTANCE_def)
  qed
  from closest_point [OF h, of 0, THEN conjunct2, THEN conjunct2, THEN mp, OF this]
  show ?thesis by (simp add: distance_def sample_plot_def)
qed

text \<open>
  A chart has a colour for 156 trials: the series of more trials cannot be made, and their chart throws, although
  the page offers 200 and 500 trials to choose from.  Up to 156 trials each series has its own label, in order.
\<close>

theorem chart_colours:
  "((\<exists>ss. chart_series trialIds = Inr ss) \<longleftrightarrow> length trialIds \<le> 156)
   \<and> (156 < length trialIds \<longrightarrow> chart_series trialIds = Inl TypeError)
   \<and> (\<forall>ss. chart_series trialIds = Inr ss \<longrightarrow> map fst ss = map (\<lambda>t. ''trial '' @ show_int t) trialIds)
   \<and> {n \<in> set TOP_TRIALS_OPTIONS. 156 < n} = {200, 500}"
proof (intro conjI impI allI)
  have def: "chart_series trialIds = mapM_exn series_option (enumerate 0 trialIds)"
    by (simp add: chart_series_def series_option_def)
  have "(\<forall>p \<in> set (enumerate 0 trialIds). fst p < 156) \<longleftrightarrow> length trialIds \<le> 156"
    by (auto simp: enumerate_nth)
  then show ok: "(\<exists>ss. chart_series trialIds = Inr ss) \<longleftrightarrow> length trialIds \<le> 156"
    unfolding def mapM_exn_Ex series_option_iff .
  show "chart_series trialIds = Inl TypeError" if "156 < length trialIds"
  proof (cases "chart_series trialIds")
    case (Inl e)
    then show ?thesis using mapM_exn_Inl [of series_option "enumerate 0 trialIds" e] series_option_error by (auto simp: def)
  next
    case (Inr ss)
    with ok that show ?thesis by auto
  qed
  show "map fst ss = map (\<lambda>t. ''trial '' @ show_int t) trialIds" if "chart_series trialIds = Inr ss" for ss
  proof -
    have "map fst ss = map (\<lambda>p. ''trial '' @ show_int (snd p)) (enumerate 0 trialIds)"
      by (rule mapM_exn_project [OF that [unfolded def] series_option_label])
    also have "\<dots> = map (\<lambda>t. ''trial '' @ show_int t) (map snd (enumerate 0 trialIds))" unfolding map_map comp_def ..
    finally show ?thesis by simp
  qed
  show "{n \<in> set TOP_TRIALS_OPTIONS. 156 < n} = {200, 500}" by (auto simp: TOP_TRIALS_OPTIONS_def)
qed

theorem chart_colours_witness: "chart_series (map int [0..<200]) = Inl TypeError"
  using chart_colours [of "map int [0..<200]"] by simp

text \<open>The document keeps a listener for each chart that was made.\<close>

lemma scroll_listeners_stay: "scroll_run n = map (\<lambda>i. (i, True)) [0..<Suc n]"
proof (induction n)
  case 0
  then show ?case by (simp add: scroll_effect_def addEventListener_def)
next
  case (Suc n)
  have "scroll_cleanup n (scroll_run n) = scroll_run n"
    unfolding Suc.IH scroll_cleanup_def removeEventListener_def by (auto simp: filter_id_conv)
  moreover have "(Suc n, True) \<notin> set (scroll_run n)" unfolding Suc.IH by auto
  ultimately show ?case by (simp add: scroll_effect_def addEventListener_def Suc.IH)
qed

end
