(* ===== verification/Visualization.thy ===== *)
theory Visualization
  imports Learning_Curve Trial_Details
begin

text \<open>
  The page around the visualizations of an experiment
  (\<^verbatim>\<open>pages/ExperimentDetails/ExperimentVisualization.tsx\<close>): the metrics and batches that two streams report, the
  metric of interest and the kind of chart.
\<close>

datatype VisualizationType = HpParallelCoord | HpImportance | LearningCurveType | ScatterPlots

fun str_VisualizationType :: "VisualizationType \<Rightarrow> string" where
  "str_VisualizationType HpParallelCoord = ''hp-parallel-coord''"
| "str_VisualizationType HpImportance = ''hp-importance''"
| "str_VisualizationType LearningCurveType = ''learning-curve''"
| "str_VisualizationType ScatterPlots = ''scatter-plots''"

definition VIS_STORAGE_PATH :: string where "VIS_STORAGE_PATH = ''experiment-visualization''"

definition STORAGE_METRIC_KEY :: string where "STORAGE_METRIC_KEY = ''metric''"

definition TYPE_KEYS :: "string list" where
  "TYPE_KEYS = map str_VisualizationType [HpParallelCoord, HpImportance, LearningCurveType, ScatterPlots]"

definition DEFAULT_TYPE_KEY :: string where "DEFAULT_TYPE_KEY = str_VisualizationType LearningCurveType"

definition VIS_MENU :: "(string \<times> VisualizationType) list" where
  "VIS_MENU = [(''Learning Curve'', LearningCurveType), (''HP Parallel Coordinates'', HpParallelCoord),
     (''HP Importance'', HpImportance), (''Scatter Plots'', ScatterPlots)]"

text \<open>The selected metric is a value of the storage or of the page; \<open>undefined\<close> when there is none.\<close>

record VisPage =
  vs_typeKey :: string
  vs_trainingMetrics :: "string list"
  vs_validationMetrics :: "string list"
  vs_selectedMetric :: js
  vs_searcherMetric :: "string option"
  vs_batches :: "int list"

definition metric_json :: "string \<Rightarrow> MetricType \<Rightarrow> js" where
  "metric_json name t = Obj [(''name'', Str name), (''type'', Str (str_MetricType t))]"

definition defaultTypeKey :: "string option \<Rightarrow> string" where
  "defaultTypeKey t = (case t of Some t \<Rightarrow> if t \<in> set TYPE_KEYS then t else DEFAULT_TYPE_KEY | None \<Rightarrow> DEFAULT_TYPE_KEY)"

text \<open>The page as it is mounted; reading a damaged storage throws.\<close>

definition mount_vis :: "'s Store \<Rightarrow> Storage \<Rightarrow> string option \<Rightarrow> 's \<Rightarrow> VisPage result" where
  "mount_vis ops storage t s = bind_exn (storage_get ops storage s STORAGE_METRIC_KEY) (\<lambda>v.
     Inr \<lparr>vs_typeKey = defaultTypeKey t, vs_trainingMetrics = [], vs_validationMetrics = [],
       vs_selectedMetric = js_or v Undefined, vs_searcherMetric = None, vs_batches = []\<rparr>)"

definition vis_metrics :: "VisPage \<Rightarrow> MetricName list" where
  "vis_metrics p = map (\<lambda>n. \<lparr>mn_name = n, mn_type = MetricType_Validation\<rparr>) (vs_validationMetrics p)
     @ map (\<lambda>n. \<lparr>mn_name = n, mn_type = MetricType_Training\<rparr>) (vs_trainingMetrics p)"

definition vis_handleMetricChange ::
  "'s Store \<Rightarrow> Storage \<Rightarrow> MetricName \<Rightarrow> VisPage \<times> 's \<Rightarrow> (VisPage \<times> 's) result" where
  "vis_handleMetricChange ops storage m = (\<lambda>(p, s).
     bind_exn (storage_set ops storage s STORAGE_METRIC_KEY (metric_json (mn_name m) (mn_type m))) (\<lambda>s.
     Inr (p\<lparr>vs_selectedMetric := metric_json (mn_name m) (mn_type m)\<rparr>, s)))"

definition handleChartTypeChange :: "string \<Rightarrow> VisPage \<Rightarrow> VisPage" where
  "handleChartTypeChange t p = p\<lparr>vs_typeKey := t\<rparr>"

text \<open>The path that replaces the one of an unknown or the default type.\<close>

definition default_route :: "string \<Rightarrow> string option \<Rightarrow> string option" where
  "default_route basePath t = (case t of
      Some t \<Rightarrow> if t \<noteq> [] \<and> (t \<notin> set TYPE_KEYS \<or> t = DEFAULT_TYPE_KEY) then Some basePath else None
    | None \<Rightarrow> None)"

section \<open>The streams\<close>

text \<open>An event of the names of metrics; missing lists are empty ones and a missing name is the empty one.\<close>

record NamesEvent =
  ne_training :: "string list"
  ne_validation :: "string list"
  ne_searcher :: string

type_synonym NameMaps = "(string \<times> bool) list \<times> (string \<times> bool) list"

definition add_names :: "string list \<Rightarrow> (string \<times> bool) list \<Rightarrow> (string \<times> bool) list" where
  "add_names ns m = fold (\<lambda>n. obj_put n True) ns m"

definition sorted_names :: "(string \<Rightarrow> string \<Rightarrow> int) \<Rightarrow> (string \<times> bool) list \<Rightarrow> string list" where
  "sorted_names lc m = js_sort (alphanumericSorter lc) (obj_keys m)"

definition names_event ::
  "(string \<Rightarrow> string \<Rightarrow> int) \<Rightarrow> NamesEvent option \<Rightarrow> NameMaps \<times> VisPage \<Rightarrow> exn option \<times> NameMaps \<times> VisPage" where
  "names_event lc event = (\<lambda>((training, validation), p). (case event of
      None \<Rightarrow> (None, (training, validation), p)
    | Some e \<Rightarrow>
        (let training = add_names (ne_training e) training;
             validation = add_names (ne_validation e) validation;
             p = p\<lparr>vs_trainingMetrics := sorted_names lc training, vs_validationMetrics := sorted_names lc validation\<rparr>
         in (None, (training, validation), if ne_searcher e \<noteq> [] then p\<lparr>vs_searcherMetric := Some (ne_searcher e)\<rparr> else p))))"

definition batches_args :: "int \<Rightarrow> VisPage \<Rightarrow> js list option" where
  "batches_args experimentId p =
     (if truthy (vs_selectedMetric p)
      then Some [js_int experimentId, get_prop (vs_selectedMetric p) ''name'',
        Str (if get_prop (vs_selectedMetric p) ''type'' = Str (str_MetricType MetricType_Training)
             then ''METRIC_TYPE_TRAINING'' else ''METRIC_TYPE_VALIDATION''), Undefined]
      else None)"

definition batches_event ::
  "(string \<Rightarrow> string \<Rightarrow> int) \<Rightarrow> int list option \<Rightarrow> (string \<times> int) list \<times> VisPage \<Rightarrow> exn option \<times> (string \<times> int) list \<times> VisPage" where
  "batches_event lc event = (\<lambda>(m, p). (case event of
      None \<Rightarrow> (None, m, p)
    | Some bs \<Rightarrow>
        (let m = fold put_id bs m
         in (None, m, p\<lparr>vs_batches := js_sort (\<lambda>a b. alphanumericSorter lc (show_int a) (show_int b)) (obj_values m)\<rparr>))))"

text \<open>The default metric of interest.\<close>

definition default_metric :: "VisPage \<Rightarrow> VisPage" where
  "default_metric p = (if truthy (vs_selectedMetric p) then p
     else case vs_searcherMetric p of
         Some n \<Rightarrow> if n \<noteq> [] then p\<lparr>vs_selectedMetric := metric_json n MetricType_Validation\<rparr> else p
       | None \<Rightarrow> p)"

definition shows_curve :: "VisPage \<Rightarrow> bool" where
  "shows_curve p = (truthy (vs_selectedMetric p) \<and> vs_typeKey p = str_VisualizationType LearningCurveType)"

section \<open>Lemmas\<close>

lemma keys_add_names: "set (obj_keys (add_names ns m)) = set (obj_keys m) \<union> set ns"
  by (induction ns arbitrary: m) (auto simp: add_names_def obj_keys_def)

lemma distinct_add_names: "distinct (obj_keys m) \<Longrightarrow> distinct (obj_keys (add_names ns m))"
  by (induction ns arbitrary: m) (auto simp: add_names_def obj_keys_def)

text \<open>The names that the events have had so far.\<close>

definition seen :: "(NamesEvent \<Rightarrow> string list) \<Rightarrow> NamesEvent option list \<Rightarrow> string set" where
  "seen names es = (\<Union>x \<in> set es. case x of None \<Rightarrow> {} | Some e \<Rightarrow> set (names e))"

lemma seen_snoc: "seen names (es @ [x]) = seen names es \<union> (case x of None \<Rightarrow> {} | Some e \<Rightarrow> set (names e))"
  by (simp add: seen_def Un_commute)

definition names_inv :: "(string \<Rightarrow> string \<Rightarrow> int) \<Rightarrow> NamesEvent option list \<Rightarrow> NameMaps \<times> VisPage \<Rightarrow> bool" where
  "names_inv lc es = (\<lambda>((t, v), p).
     distinct (obj_keys t) \<and> set (obj_keys t) = seen ne_training es
   \<and> distinct (obj_keys v) \<and> set (obj_keys v) = seen ne_validation es
   \<and> vs_trainingMetrics p = sorted_names lc t \<and> vs_validationMetrics p = sorted_names lc v)"

lemma names_inv_run:
  assumes "for_each (names_event lc) es (([], []), p) = (r, st)" and "vs_trainingMetrics p = []" "vs_validationMetrics p = []"
  shows "r = None \<and> names_inv lc es st"
proof -
  have total: "\<exists>st. for_each (names_event lc) es st0 = (None, st)" for es st0
    by (induction es arbitrary: st0) (auto simp: names_event_def Let_def split: prod.splits option.splits)
  with assms(1) have "r = None" by (metis prod.inject)
  moreover have "names_inv lc es st"
  proof (rule for_each_inv [where R = "names_inv lc"])
    show "for_each (names_event lc) es (([], []), p) = (None, st)" using assms(1) \<open>r = None\<close> by simp
    show "names_inv lc [] (([], []), p)"
      using assms(2,3) by (simp add: names_inv_def seen_def obj_keys_def sorted_names_def js_sort_def)
  next
    fix ds x n n'
    assume "names_inv lc ds n" "names_event lc x n = (None, n')"
    then show "names_inv lc (ds @ [x]) n'"
      by (cases x) (auto simp: names_inv_def names_event_def seen_snoc Let_def keys_add_names distinct_add_names)
  qed
  ultimately show ?thesis ..
qed

section \<open>Properties\<close>

text \<open>
  Whatever the stream of metric names sends, empty lists included, no name that was seen is lost: after each event the
  lists of training and of validation metrics hold exactly the names of all events so far, each once, in the order of the
  comparison of names.
\<close>

theorem seen_metrics_stay:
  assumes "mount_vis ops storage t s = Inr p" and "comparator (alphanumericSorter lc)"
    and "for_each (names_event lc) es (([], []), p) = (r, maps, p')"
  shows "r = None \<and> set (vs_trainingMetrics p') = seen ne_training es \<and> set (vs_validationMetrics p') = seen ne_validation es
    \<and> distinct (vis_metrics p')
    \<and> sorted_wrt (\<lambda>a b. alphanumericSorter lc a b \<le> 0) (vs_trainingMetrics p')
    \<and> sorted_wrt (\<lambda>a b. alphanumericSorter lc a b \<le> 0) (vs_validationMetrics p')"
proof -
  have "vs_trainingMetrics p = []" "vs_validationMetrics p = []" using assms(1) by (auto simp: mount_vis_def bind_exn_Inr_iff)
  from names_inv_run [OF assms(3) this] have r: "r = None" and inv: "names_inv lc es (maps, p')" by simp_all
  obtain t v where "maps = (t, v)" by (cases maps)
  with inv have i: "distinct (obj_keys t)" "set (obj_keys t) = seen ne_training es" "distinct (obj_keys v)"
    "set (obj_keys v) = seen ne_validation es" "vs_trainingMetrics p' = sorted_names lc t" "vs_validationMetrics p' = sorted_names lc v"
    by (simp_all add: names_inv_def)
  have "distinct (map (\<lambda>n. \<lparr>mn_name = n, mn_type = ty\<rparr>) ns) = distinct ns" for ty ns
    by (simp add: distinct_map inj_on_def)
  then have "distinct (vis_metrics p')" using i by (auto simp: vis_metrics_def sorted_names_def)
  with r i comparator.sorted_js_sort [OF assms(2)] show ?thesis by (simp add: sorted_names_def)
qed

definition sample_names :: "NamesEvent option list" where
  "sample_names = [Some \<lparr>ne_training = [''loss''], ne_validation = [''acc''], ne_searcher = ''acc''\<rparr>,
     Some \<lparr>ne_training = [], ne_validation = [], ne_searcher = []\<rparr>]"

theorem seen_metrics_stay_witness:
  "\<exists>p maps p'. mount_vis MemoryStore globalStorage None mem_new = Inr p
     \<and> for_each (names_event (\<lambda>a b. int (length a) - int (length b))) sample_names (([], []), p) = (None, maps, p')
     \<and> set (vs_trainingMetrics p') = {''loss''}"
proof -
  let ?lc = "\<lambda>a b :: string. int (length a) - int (length b)"
  obtain p where p: "mount_vis MemoryStore globalStorage None mem_new = Inr p"
    by (simp add: mount_vis_def storage_get_def MemoryStore_def mem_getItem_def mem_new_def)
  obtain r maps p' where run: "for_each (names_event ?lc) sample_names (([], []), p) = (r, maps, p')" by (metis surj_pair)
  have "comparator (alphanumericSorter ?lc)" using comparator_rank [of "\<lambda>s. int (length s)"] by (simp add: alphanumericSorter_def [abs_def])
  note t = seen_metrics_stay [OF p this run]
  have "seen ne_training sample_names = {''loss''}" by (simp add: seen_def sample_names_def)
  with t have "r = None" "set (vs_trainingMetrics p') = {''loss''}" by simp_all
  with p run show ?thesis by (intro exI conjI) simp_all
qed

text \<open>
  The metric that the user chooses is remembered: on any store that keeps its contract, a page that is mounted later
  with the same storage starts with this metric, whatever the type in its route, and the default metric of the searcher
  does not replace it.
\<close>

theorem metric_remembered:
  assumes "store_laws ops" and "vis_handleMetricChange ops storage m (p, s) = Inr (p', s')"
  shows "\<exists>q. mount_vis ops storage t s' = Inr q \<and> vs_selectedMetric q = vs_selectedMetric p'
    \<and> default_metric (q\<lparr>vs_searcherMetric := sm\<rparr>) = q\<lparr>vs_searcherMetric := sm\<rparr>
    \<and> vs_typeKey q \<in> set TYPE_KEYS"
proof -
  let ?j = "metric_json (mn_name m) (mn_type m)"
  from assms(2) have set: "storage_set ops storage s STORAGE_METRIC_KEY ?j = Inr s'" and p': "vs_selectedMetric p' = ?j"
    by (auto simp: vis_handleMetricChange_def bind_exn_Inr_iff)
  have "wf_js ?j" "to_json ?j = Some (JObj [(''name'', JStr (mn_name m)), (''type'', JStr (str_MetricType (mn_type m)))])"
    by (simp_all add: metric_json_def)
  from store_laws.get_after_set [OF assms(1) set this] have get: "storage_get ops storage s' STORAGE_METRIC_KEY = Inr ?j"
    by (simp add: metric_json_def)
  have "defaultTypeKey t \<in> set TYPE_KEYS" by (simp add: defaultTypeKey_def TYPE_KEYS_def DEFAULT_TYPE_KEY_def split: option.split)
  then show ?thesis using get p' by (simp add: mount_vis_def js_or_def metric_json_def default_metric_def)
qed

theorem metric_remembered_witness:
  "\<exists>p' s' q. vis_handleMetricChange MemoryStore globalStorage \<lparr>mn_name = ''acc'', mn_type = MetricType_Validation\<rparr>
       (\<lparr>vs_typeKey = ''learning-curve'', vs_trainingMetrics = [], vs_validationMetrics = [''acc''], vs_selectedMetric = Undefined,
         vs_searcherMetric = None, vs_batches = []\<rparr>, mem_new) = Inr (p', s')
     \<and> mount_vis MemoryStore globalStorage None s' = Inr q \<and> shows_curve q = truthy (vs_selectedMetric q)"
proof -
  let ?m = "\<lparr>mn_name = ''acc'', mn_type = MetricType_Validation\<rparr>"
  let ?p = "\<lparr>vs_typeKey = ''learning-curve'', vs_trainingMetrics = [], vs_validationMetrics = [''acc''], vs_selectedMetric = Undefined,
         vs_searcherMetric = None, vs_batches = []\<rparr> :: VisPage"
  obtain s' where "storage_set MemoryStore globalStorage mem_new STORAGE_METRIC_KEY (metric_json ''acc'' MetricType_Validation) = Inr s'"
    by (simp add: storage_set_def metric_json_def is_nullish_def)
  then have h: "vis_handleMetricChange MemoryStore globalStorage ?m (?p, mem_new)
      = Inr (?p\<lparr>vs_selectedMetric := metric_json ''acc'' MetricType_Validation\<rparr>, s')"
    by (simp add: vis_handleMetricChange_def)
  from metric_remembered [OF mem.store_laws_axioms h, of None None] obtain q where q: "mount_vis MemoryStore globalStorage None s' = Inr q" by blast
  then have "vs_typeKey q = ''learning-curve''" by (auto simp: mount_vis_def bind_exn_Inr_iff defaultTypeKey_def DEFAULT_TYPE_KEY_def)
  with h q show ?thesis by (intro exI conjI) (assumption | simp add: shows_curve_def)+
qed

end
