(* ===== verification/Auth_Pages.thy ===== *)
theory Auth_Pages
  imports Requests
begin

text \<open>
  Signing in and out as pages do it: the form (\<^verbatim>\<open>components/DeterminedAuth.tsx\<close>), the page around it
  (\<^verbatim>\<open>pages/SignIn.tsx\<close>), \<^verbatim>\<open>pages/SignOut.tsx\<close>, the guard of the routes (\<^verbatim>\<open>components/Router.tsx\<close>) and the
  page that waits for a service (\<^verbatim>\<open>pages/Wait.tsx\<close>).
\<close>

section \<open>The sign-in form\<close>

definition form_storage :: Storage where
  "form_storage = newStorage \<lparr>opt_basePath = Some ''/DeterminedAuth'', opt_delimiter = None\<rparr>"

definition STORAGE_KEY_LAST_USERNAME :: string where "STORAGE_KEY_LAST_USERNAME = ''lastUsername''"

record 's LoginPage =
  lp_isBadCredentials :: bool
  lp_canSubmit :: bool
  lp_ui :: UIState
  lp_session :: "'s Session"

text \<open>What the server answers to the requests of these pages, by the number of the request.\<close>

record LoginServer =
  ls_login :: "nat \<Rightarrow> Request \<Rightarrow> js + js"
  ls_user :: "nat \<Rightarrow> Request \<Rightarrow> js + V1User"
  ls_logout :: "nat \<Rightarrow> Request \<Rightarrow> js + unit"

definition mount_form :: "'s Store \<Rightarrow> UIState \<Rightarrow> 's Session \<Rightarrow> 's LoginPage result" where
  "mount_form ops ui s =
     bind_exn (storage_get ops form_storage (web_local (ses_web s)) STORAGE_KEY_LAST_USERNAME) (\<lambda>v.
     Inr \<lparr>lp_isBadCredentials = False, lp_canSubmit = truthy v, lp_ui = ui, lp_session = s\<rparr>)"

definition login_error :: "bool \<Rightarrow> js \<Rightarrow> js" where
  "login_error isBad e = Obj [(''error'', e), (''isUserTriggered'', Bool True), (''message'', get_prop e ''message''),
     (''publicMessage'', Str (''Failed to login. Please ''
        @ (if isBad then ''check your username and password.'' else ''retry.''))),
     (''publicSubject'', Str ''Login failed''), (''silent'', Bool True),
     (''type'', js_type (if isBad then ErrorType_Input else ErrorType_Server))]"

text \<open>The \<open>catch\<close> clause.\<close>

definition login_failed :: "'s Store \<Rightarrow> (js \<Rightarrow> bool) \<Rightarrow> js \<Rightarrow> 's LoginPage \<Rightarrow> 's LoginPage" where
  "login_failed ops isCancel e p =
     (let isBad = isLoginFailure e; s = lp_session p; w = ses_web s;
          w = (if isBad then w\<lparr>web_local := storage_remove ops form_storage (web_local w) STORAGE_KEY_LAST_USERNAME\<rparr> else w);
          w = w\<lparr>web_app := snd (handleError isCancel (login_error isBad e) (web_app w))\<rparr>
      in p\<lparr>lp_isBadCredentials := isBad, lp_ui := ui_reducer (lp_ui p) HideSpinner, lp_session := s\<lparr>ses_web := w\<rparr>\<rparr>)"

text \<open>The form after it was sent; \<open>None\<close> when a cast has failed in a decoder.\<close>

definition onFinish ::
  "'s Store \<Rightarrow> (js \<Rightarrow> bool) \<Rightarrow> (codec \<Rightarrow> js \<Rightarrow> js + js) \<Rightarrow> (string \<Rightarrow> string) \<Rightarrow> LoginServer \<Rightarrow> Credentials
    \<Rightarrow> 's LoginPage \<Rightarrow> 's LoginPage option" where
  "onFinish ops isCancel dec sha512 srv creds p =
     (let p = p\<lparr>lp_ui := ui_reducer (lp_ui p) ShowSpinner, lp_canSubmit := False\<rparr>;
          with = (\<lambda>w. p\<lparr>lp_session := (lp_session p)\<lparr>ses_web := w\<rparr>\<rparr>);
          finally = (\<lambda>p. Some (p\<lparr>lp_canSubmit := True\<rparr>));
          fail = (\<lambda>f p. case caught f of None \<Rightarrow> None | Some e \<Rightarrow> finally (login_failed ops isCancel e p))
      in case generateApi ops isCancel (ls_login srv) (login dec sha512) Undefined creds (ses_web (lp_session p)) of
           (Inl f, w) \<Rightarrow> fail f (with w)
         | (Inr r, w) \<Rightarrow>
             (let w = updateDetApi ops \<lparr>cp_apiKey = Given (Some (''Bearer '' @ login_token r)), cp_basePath = Absent\<rparr> w in
              case generateDetApi isCancel (ls_user srv) getCurrentUser (Obj []) w of
                (Inl f, w) \<Rightarrow> fail f (with w)
              | (Inr u, w) \<Rightarrow>
                  (let s = auth_reducer ops (AuthSet \<lparr>auth_isAuthenticated = True, auth_token = Some (login_token r),
                         auth_user = Some \<lparr>user_username = user_username u\<rparr>\<rparr>) (lp_session (with w));
                       p = p\<lparr>lp_session := s\<rparr>
                   in case storage_set ops form_storage (web_local (ses_web s)) STORAGE_KEY_LAST_USERNAME (Str (cred_username creds)) of
                        Inl x \<Rightarrow> fail (Raises x) p
                      | Inr l \<Rightarrow> finally (p\<lparr>lp_session := s\<lparr>ses_web := (ses_web s)\<lparr>web_local := l\<rparr>\<rparr>\<rparr>))))"

definition onValuesChange :: "string option \<Rightarrow> 's LoginPage \<Rightarrow> 's LoginPage" where
  "onValuesChange username p = p\<lparr>lp_isBadCredentials := False, lp_canSubmit := (username \<noteq> None \<and> username \<noteq> Some [])\<rparr>"

section \<open>The sign-in page\<close>

text \<open>The effect of the page: the state of the interface, whether the token is shown, and where the user is sent.\<close>

definition sign_in_redirect :: "string option \<Rightarrow> js \<Rightarrow> AppRoute list \<Rightarrow> string result" where
  "sign_in_redirect redirect location rs = bind_exn (getPath location ''state.loginRedirect'') (\<lambda>l.
     case (if redirect \<noteq> None \<and> redirect \<noteq> Some [] then redirect else locationToPath l) of
       Some p \<Rightarrow> if p \<noteq> [] then Inr p
         else (case defaultRoute rs of Some d \<Rightarrow> Inr (route_path d) | None \<Rightarrow> Inl TypeError)
     | None \<Rightarrow> (case defaultRoute rs of Some d \<Rightarrow> Inr (route_path d) | None \<Rightarrow> Inl TypeError))"

definition sign_in_effect ::
  "(string \<Rightarrow> string \<Rightarrow> bool) \<Rightarrow> (string \<Rightarrow> Url result) \<Rightarrow> Env \<Rightarrow> AppRoute list \<Rightarrow> js \<Rightarrow> string option \<Rightarrow> string option
    \<Rightarrow> AuthState \<Rightarrow> UIState \<Rightarrow> UIState \<times> bool \<times> Nav list result" where
  "sign_in_effect regexp_test URL env rs location cli redirect auth ui =
     (if auth_isAuthenticated auth then
        (ui_reducer ui HideSpinner, cli \<noteq> None \<and> cli \<noteq> Some [],
         bind_exn (sign_in_redirect redirect location rs) (routeAll regexp_test URL env))
      else if auth_checked auth then (ui_reducer ui HideSpinner, False, Inr [])
      else (ui, False, Inr []))"

section \<open>Signing out\<close>

definition sign_out_error :: "js \<Rightarrow> js" where
  "sign_out_error e = Obj [(''error'', e), (''isUserTriggered'', Bool False), (''level'', js_level ErrorLevel_Warn),
     (''message'', get_prop e ''message''), (''silent'', Bool True), (''type'', js_type ErrorType_Server)]"

text \<open>The effect of the page and its flag \<open>isSigningOut\<close>; a failed cast cannot happen, the response is not read.\<close>

definition sign_out_effect ::
  "'s Store \<Rightarrow> (js \<Rightarrow> bool) \<Rightarrow> LoginServer \<Rightarrow> js \<Rightarrow> bool \<times> 's Session \<Rightarrow> bool \<times> 's Session" where
  "sign_out_effect ops isCancel srv state = (\<lambda>(isSigningOut, s).
     (if isSigningOut then (isSigningOut, s)
      else
        (let (r, w) = generateDetApi isCancel (ls_logout srv) logout () (ses_web s);
             w = (case r of
                 Inr _ \<Rightarrow> w
               | Inl f \<Rightarrow> (case caught f of
                     None \<Rightarrow> w
                   | Some e \<Rightarrow> w\<lparr>web_app := snd (handleError isCancel (sign_out_error e) (web_app w))\<rparr>));
             s = auth_reducer ops AuthReset (s\<lparr>ses_web := w\<rparr>);
             w = ses_web s; app = web_app w
         in (True, s\<lparr>ses_web := w\<lparr>web_app := app\<lparr>app_history := app_history app @ [(''/login'', state)]\<rparr>\<rparr>\<rparr>))))"

section \<open>The guard of the routes\<close>

datatype Element =
    Nothing \<comment> \<open>a route without a component\<close>
  | ToLogin js \<comment> \<open>with the location that was asked for\<close>
  | ToPath string
  | Mount "string option"

definition route_element :: "AuthState \<Rightarrow> js \<Rightarrow> AppRoute \<Rightarrow> Element" where
  "route_element auth location route =
     (if route_needAuth route = Some True \<and> \<not> auth_isAuthenticated auth then
        (if \<not> auth_checked auth then Nothing
         else ToLogin (case clone location True of Inr l \<Rightarrow> l | Inl _ \<Rightarrow> Undefined))
      else case route_redirect route of
          Some p \<Rightarrow> if p \<noteq> [] then ToPath p else Mount (route_component route)
        | None \<Rightarrow> Mount (route_component route))"

text \<open>\<open>Switch\<close> shows the first route that matches; matching is what \<open>react-router\<close> does.\<close>

definition router :: "(string \<Rightarrow> string \<Rightarrow> bool) \<Rightarrow> AuthState \<Rightarrow> js \<Rightarrow> string \<Rightarrow> AppRoute list \<Rightarrow> Element option" where
  "router matches auth location path rs =
     map_option (route_element auth location) (find (\<lambda>route. matches (route_path route) path) rs)"

definition router_effect :: "AuthState \<Rightarrow> UIState \<Rightarrow> UIState" where
  "router_effect auth ui = (if auth_isAuthenticated auth then ui_reducer ui HideSpinner else ui)"

section \<open>Waiting for a service\<close>

record WaitPage =
  wp_status :: "(bool \<times> js) option" \<comment> \<open>\<open>isReady\<close> and \<open>state\<close>\<close>
  wp_closed :: bool
  wp_nav :: "Nav list"

definition is_terminal :: "js \<Rightarrow> bool" where
  "is_terminal state = (\<exists>c \<in> terminalCommandStates. state = Str (str_CommandState c))"

text \<open>A message: no string, or a text.  What the handler throws goes to the socket's library.\<close>

definition wait_message :: "Env \<Rightarrow> string \<Rightarrow> json_text option \<Rightarrow> WaitPage \<Rightarrow> WaitPage result" where
  "wait_message env serviceAddr data p = (case data of
      None \<Rightarrow> Inr p
    | Some text \<Rightarrow>
        bind_exn (json_parse text) (\<lambda>msg.
        bind_exn (js_get msg ''snapshot'') (\<lambda>snapshot.
        if truthy snapshot then
          (let state = get_prop snapshot ''state'';
               p = (if state = Str ''RUNNING'' \<and> truthy (get_prop snapshot ''is_ready'')
                    then p\<lparr>wp_closed := True, wp_nav := wp_nav p @ [Assign (serverAddress env serviceAddr)]\<rparr>
                    else if is_terminal state then p\<lparr>wp_closed := True\<rparr> else p)
           in Inr (p\<lparr>wp_status := Some (False, state)\<rparr>))
        else Inr p)))"

definition wait_text :: "string \<Rightarrow> string option \<Rightarrow> string option \<Rightarrow> WaitPage \<Rightarrow> string" where
  "wait_text taskType eventUrl serviceAddr p =
     (if (case wp_status p of Some (_, state) \<Rightarrow> is_terminal state | None \<Rightarrow> False)
      then capitalize taskType @ '' has been terminated.''
      else if eventUrl = None \<or> eventUrl = Some [] \<or> serviceAddr = None \<or> serviceAddr = Some []
      then ''Missing required parameters.''
      else ''Waiting for '' @ capitalize taskType @ '' ...'')"

definition wait_connects :: "Env \<Rightarrow> string option \<Rightarrow> string option \<Rightarrow> string option" where
  "wait_connects env eventUrl serviceAddr = (case (eventUrl, serviceAddr) of
      (Some e, Some a) \<Rightarrow> if e \<noteq> [] \<and> a \<noteq> [] then Some (createWsUrl env e) else None
    | _ \<Rightarrow> None)"

section \<open>Lemmas\<close>

lemma form_key: "computeKey form_storage STORAGE_KEY_LAST_USERNAME = ''DeterminedAuth/lastUsername''"
  by code_simp

lemma token_key: "computeKey globalStorage key_authToken = ''global/auth-token''"
  by code_simp

text \<open>The last user name and the token are different items of the local storage.\<close>

lemma stored_token_after_set:
  assumes "store_laws ops" "storage_set ops form_storage (web_local w) STORAGE_KEY_LAST_USERNAME v = Inr l"
  shows "stored_token ops (w\<lparr>web_local := l\<rparr>) = stored_token ops w"
  using store_laws.get_after_set_other [OF assms(1,2), of globalStorage key_authToken]
  by (simp add: stored_token_def get_authToken_def form_key token_key)

lemma stored_token_after_remove:
  assumes "store_laws ops"
  shows "stored_token ops (w\<lparr>web_local := storage_remove ops form_storage (web_local w) STORAGE_KEY_LAST_USERNAME\<rparr>) = stored_token ops w"
  using store_laws.get_after_remove_other [OF assms, of globalStorage key_authToken form_storage STORAGE_KEY_LAST_USERNAME "web_local w"]
  by (simp add: stored_token_def get_authToken_def form_key token_key)

lemma stored_token_app [simp]: "stored_token ops (w\<lparr>web_app := a\<rparr>) = stored_token ops w"
  by (simp add: stored_token_def)

lemma set_username: "\<exists>l. storage_set ops form_storage s STORAGE_KEY_LAST_USERNAME (Str u) = Inr l"
  by (simp add: storage_set_def is_nullish_def)

lemma login_failed_fields:
  "lp_isBadCredentials (login_failed ops isCancel e p) = isLoginFailure e"
  "ui_showSpinner (lp_ui (login_failed ops isCancel e p)) = False"
  "ses_auth (lp_session (login_failed ops isCancel e p)) = ses_auth (lp_session p)"
  "web_detApi (ses_web (lp_session (login_failed ops isCancel e p))) = web_detApi (ses_web (lp_session p))"
  "web_local (ses_web (lp_session (login_failed ops isCancel e p)))
     = (if isLoginFailure e then storage_remove ops form_storage (web_local (ses_web (lp_session p))) STORAGE_KEY_LAST_USERNAME
        else web_local (ses_web (lp_session p)))"
  by (simp_all add: login_failed_def Let_def)

lemma login_failed_token:
  assumes "store_laws ops"
  shows "stored_token ops (ses_web (lp_session (login_failed ops isCancel e p))) = stored_token ops (ses_web (lp_session p))"
  using stored_token_after_remove [OF assms, of "ses_web (lp_session p)"]
  by (simp add: stored_token_def login_failed_fields split: if_splits)

text \<open>Requests change neither the local storage nor the clients.\<close>

lemma fail_request_state [simp]:
  "web_local (snd (fail_request isCancel n f w)) = web_local w" "web_detApi (snd (fail_request isCancel n f w)) = web_detApi w"
  by (auto simp: fail_request_def split_beta split: option.splits)

lemma fail_unless_aborted_state [simp]:
  "web_local (snd (fail_unless_aborted isCancel n f w)) = web_local w"
  "web_detApi (snd (fail_unless_aborted isCancel n f w)) = web_detApi w"
  by (auto simp: fail_unless_aborted_def split: option.splits)

lemma generateApi_state:
  "web_local (snd (generateApi ops isCancel net api ct ps w)) = web_local w"
  "web_detApi (snd (generateApi ops isCancel net api ct ps w)) = web_detApi w"
  by (auto simp: generateApi_def Let_def log_request_def split: sum.splits option.splits)

lemma generateDetApi_state:
  "web_local (snd (generateDetApi isCancel net api ps w)) = web_local w"
  "web_detApi (snd (generateDetApi isCancel net api ps w)) = web_detApi w"
  by (auto simp: generateDetApi_def Let_def log_request_def split: sum.splits option.splits)

lemma synced_local:
  "stored_token ops (w\<lparr>web_local := l\<rparr>) = stored_token ops w \<Longrightarrow> api_synced ops (w\<lparr>web_local := l\<rparr>) = api_synced ops w"
  unfolding api_synced_def by (simp (no_asm_simp) cong: option.case_cong)

lemma stored_token_cong: "web_local w = web_local w' \<Longrightarrow> stored_token ops w = stored_token ops w'"
  by (simp add: stored_token_def)

section \<open>Properties\<close>

text \<open>
  C10: Sending the form.  When both requests succeed the user is authenticated with the token of the response: it is
  stored, every updated client of the API sends it, and the user name is what the form is filled with next time.  When
  one of them fails the form can be sent again without a spinner, nobody is authenticated and the stored token is the
  old one; wrong credentials are shown as such and the remembered name is forgotten.  But when only the request for the
  user fails, the updated clients go on with the new token, which is stored nowhere.
\<close>

theorem login_form:
  assumes "store_laws ops" and "token \<noteq> []"
    and login: "generateApi ops isCancel (ls_login srv) (login dec sha512) Undefined creds (ses_web (lp_session p)) = (r1, w1)"
    and user: "generateDetApi isCancel (ls_user srv) getCurrentUser (Obj [])
       (updateDetApi ops \<lparr>cp_apiKey = Given (Some (''Bearer '' @ token)), cp_basePath = Absent\<rparr> w1) = (r2, w2)"
  shows "(r1 = Inr \<lparr>login_token = token\<rparr> \<longrightarrow> (\<forall>u. r2 = Inr u \<longrightarrow>
        (\<exists>q. onFinish ops isCancel dec sha512 srv creds p = Some q \<and> lp_canSubmit q
          \<and> auth_isAuthenticated (ses_auth (lp_session q)) \<and> stored_token ops (ses_web (lp_session q)) = token
          \<and> api_synced ops (ses_web (lp_session q))
          \<and> storage_get ops form_storage (web_local (ses_web (lp_session q))) STORAGE_KEY_LAST_USERNAME = Inr (Str (cred_username creds)))))
   \<and> (\<forall>e. r1 = Inl (Throws e) \<longrightarrow>
        (\<exists>q. onFinish ops isCancel dec sha512 srv creds p = Some q \<and> lp_canSubmit q \<and> \<not> ui_showSpinner (lp_ui q)
          \<and> ses_auth (lp_session q) = ses_auth (lp_session p)
          \<and> stored_token ops (ses_web (lp_session q)) = stored_token ops (ses_web (lp_session p))
          \<and> lp_isBadCredentials q = isLoginFailure e
          \<and> (isLoginFailure e \<longrightarrow>
               storage_get ops form_storage (web_local (ses_web (lp_session q))) STORAGE_KEY_LAST_USERNAME = Inr Null)))
   \<and> (r1 = Inr \<lparr>login_token = token\<rparr> \<longrightarrow> (\<forall>e. r2 = Inl (Throws e) \<longrightarrow>
        (\<exists>q. onFinish ops isCancel dec sha512 srv creds p = Some q \<and> lp_canSubmit q \<and> \<not> ui_showSpinner (lp_ui q)
          \<and> ses_auth (lp_session q) = ses_auth (lp_session p)
          \<and> stored_token ops (ses_web (lp_session q)) = stored_token ops (ses_web (lp_session p))
          \<and> (\<forall>c \<in> set updated_clients. \<exists>cfg. map_of (web_detApi (ses_web (lp_session q))) c = Some cfg
               \<and> ac_apiKey cfg = Some (''Bearer '' @ token)))))"
proof (intro conjI impI allI)
  let ?w = "ses_web (lp_session p)"
  let ?ps = "\<lparr>cp_apiKey = Given (Some (''Bearer '' @ token)), cp_basePath = Absent\<rparr>"
  have w1: "web_local w1 = web_local ?w" using generateApi_state(1) [of ops isCancel "ls_login srv" "login dec sha512" Undefined creds ?w] login by simp
  have w2: "web_local w2 = web_local ?w" "web_detApi w2 = web_detApi (updateDetApi ops ?ps w1)"
    using generateDetApi_state [of isCancel "ls_user srv" getCurrentUser "Obj []" "updateDetApi ops ?ps w1"] user w1 by simp_all
  let ?p = "\<lambda>w. p\<lparr>lp_ui := ui_reducer (lp_ui p) ShowSpinner, lp_canSubmit := False, lp_session := (lp_session p)\<lparr>ses_web := w\<rparr>\<rparr>"
  note run = onFinish_def Let_def login user [simplified]
  show "\<exists>q. onFinish ops isCancel dec sha512 srv creds p = Some q \<and> lp_canSubmit q
          \<and> auth_isAuthenticated (ses_auth (lp_session q)) \<and> stored_token ops (ses_web (lp_session q)) = token
          \<and> api_synced ops (ses_web (lp_session q))
          \<and> storage_get ops form_storage (web_local (ses_web (lp_session q))) STORAGE_KEY_LAST_USERNAME = Inr (Str (cred_username creds))"
    if r1: "r1 = Inr \<lparr>login_token = token\<rparr>" and r2: "r2 = Inr u" for u
  proof -
    let ?v = "\<lparr>auth_isAuthenticated = True, auth_token = Some token, auth_user = Some \<lparr>user_username = user_username u\<rparr>\<rparr>"
    define s where "s = auth_reducer ops (AuthSet ?v) ((lp_session p)\<lparr>ses_web := w2\<rparr>)"
    obtain l where l: "storage_set ops form_storage (web_local (ses_web s)) STORAGE_KEY_LAST_USERNAME (Str (cred_username creds)) = Inr l"
      using set_username [of ops "web_local (ses_web s)" "cred_username creds"] by (elim exE)
    let ?q = "(?p w2) \<lparr>lp_session := s\<lparr>ses_web := (ses_web s)\<lparr>web_local := l\<rparr>\<rparr>, lp_canSubmit := True\<rparr>"
    have s: "ses_web s = ses_web (use_token ops token ((lp_session p)\<lparr>ses_web := w2\<rparr>))" "auth_isAuthenticated (ses_auth s)"
      using assms(2) by (simp_all add: s_def auth_reducer_def Auth.defs)
    have t: "stored_token ops ((ses_web s)\<lparr>web_local := l\<rparr>) = token"
      using stored_token_after_set [OF assms(1) l] store_laws.use_token_stored [OF assms(1,2)] by (simp add: s(1))
    have "onFinish ops isCancel dec sha512 srv creds p = Some ?q"
      using l by (simp add: run r1 r2 s_def [symmetric] del: ui_reducer.simps)
    moreover have "api_synced ops ((ses_web s)\<lparr>web_local := l\<rparr>)"
      using store_laws.use_token_synced [OF assms(1,2)] synced_local [OF stored_token_after_set [OF assms(1) l]] by (simp add: s(1))
    moreover have "storage_get ops form_storage l STORAGE_KEY_LAST_USERNAME = Inr (Str (cred_username creds))"
      using store_laws.get_after_set [OF assms(1) l] by simp
    ultimately show ?thesis using t s(2) by (intro exI [of _ ?q]) simp
  qed
  show "\<exists>q. onFinish ops isCancel dec sha512 srv creds p = Some q \<and> lp_canSubmit q \<and> \<not> ui_showSpinner (lp_ui q)
          \<and> ses_auth (lp_session q) = ses_auth (lp_session p)
          \<and> stored_token ops (ses_web (lp_session q)) = stored_token ops (ses_web (lp_session p))
          \<and> lp_isBadCredentials q = isLoginFailure e
          \<and> (isLoginFailure e \<longrightarrow>
               storage_get ops form_storage (web_local (ses_web (lp_session q))) STORAGE_KEY_LAST_USERNAME = Inr Null)"
    if r1: "r1 = Inl (Throws e)" for e
  proof -
    let ?q = "(login_failed ops isCancel e (?p w1))\<lparr>lp_canSubmit := True\<rparr>"
    have "onFinish ops isCancel dec sha512 srv creds p = Some ?q" by (simp add: run r1 del: ui_reducer.simps)
    moreover have "stored_token ops (ses_web (lp_session ?q)) = stored_token ops ?w"
      using login_failed_token [OF assms(1), of isCancel e "?p w1"] stored_token_cong [OF w1] by simp
    moreover have "isLoginFailure e \<longrightarrow>
        storage_get ops form_storage (web_local (ses_web (lp_session ?q))) STORAGE_KEY_LAST_USERNAME = Inr Null"
      by (simp add: login_failed_fields store_laws.get_after_remove [OF assms(1)])
    ultimately show ?thesis by (intro exI [of _ ?q]) (simp add: login_failed_fields)
  qed
  show "\<exists>q. onFinish ops isCancel dec sha512 srv creds p = Some q \<and> lp_canSubmit q \<and> \<not> ui_showSpinner (lp_ui q)
          \<and> ses_auth (lp_session q) = ses_auth (lp_session p)
          \<and> stored_token ops (ses_web (lp_session q)) = stored_token ops (ses_web (lp_session p))
          \<and> (\<forall>c \<in> set updated_clients. \<exists>cfg. map_of (web_detApi (ses_web (lp_session q))) c = Some cfg
               \<and> ac_apiKey cfg = Some (''Bearer '' @ token))"
    if r1: "r1 = Inr \<lparr>login_token = token\<rparr>" and r2: "r2 = Inl (Throws e)" for e
  proof -
    let ?q = "(login_failed ops isCancel e (?p w2))\<lparr>lp_canSubmit := True\<rparr>"
    have "onFinish ops isCancel dec sha512 srv creds p = Some ?q" by (simp add: run r1 r2 del: ui_reducer.simps)
    moreover have "stored_token ops (ses_web (lp_session ?q)) = stored_token ops ?w"
      using login_failed_token [OF assms(1), of isCancel e "?p w2"] stored_token_cong [OF w2(1)] by simp
    moreover have "\<forall>c \<in> set updated_clients. \<exists>cfg. map_of (web_detApi (ses_web (lp_session ?q))) c = Some cfg
        \<and> ac_apiKey cfg = Some (''Bearer '' @ token)"
      by (simp add: login_failed_fields w2(2) map_of_updateDetApi updatedApiConfigParams_def)
    ultimately show ?thesis by (intro exI [of _ ?q]) (simp add: login_failed_fields)
  qed
qed

text \<open>A server that accepts, one that knows no such user, and one that fails when the user is asked for.\<close>

definition sample_form :: "memory_store LoginPage" where
  "sample_form = \<lparr>lp_isBadCredentials = False, lp_canSubmit = True, lp_ui = defaultUIState, lp_session = sample_session\<rparr>"

definition sample_server :: LoginServer where
  "sample_server = \<lparr>ls_login = (\<lambda>_ _. Inl (Obj [(''status'', Num (Fin 403))])), ls_user = (\<lambda>_ _. Inl Null), ls_logout = (\<lambda>_ _. Inr ())\<rparr>"

theorem login_form_witness:
  "\<exists>q. onFinish MemoryStore axios_isCancel io_decode (\<lambda>s. s) sample_server \<lparr>cred_password = None, cred_username = ''eve''\<rparr> sample_form = Some q
     \<and> lp_isBadCredentials q \<and> lp_canSubmit q"
proof -
  let ?c = "\<lparr>cred_password = None, cred_username = ''eve''\<rparr> :: Credentials"
  let ?e = "Obj [(''status'', Num (Fin 403))]"
  obtain r1 w1 where login: "generateApi MemoryStore axios_isCancel (ls_login sample_server) (login io_decode (\<lambda>s. s)) Undefined ?c
      (ses_web (lp_session sample_form)) = (r1, w1)" by (metis surj_pair)
  obtain r2 w2 where user: "generateDetApi axios_isCancel (ls_user sample_server) getCurrentUser (Obj [])
       (updateDetApi MemoryStore \<lparr>cp_apiKey = Given (Some (''Bearer '' @ ''t'')), cp_basePath = Absent\<rparr> w1) = (r2, w2)" by (metis surj_pair)
  have "fst (generateApi MemoryStore axios_isCancel (ls_login sample_server) (login io_decode (\<lambda>s. s)) Undefined ?c
      (ses_web (lp_session sample_form))) = Inl (Throws ?e)" by code_simp
  with login have "r1 = Inl (Throws ?e)" by simp
  moreover have "isLoginFailure ?e" by code_simp
  ultimately have "\<exists>e. r1 = Inl (Throws e) \<and> isLoginFailure e" by blast
  then obtain e where "r1 = Inl (Throws e)" "isLoginFailure e" by blast
  with login_form [OF mem.store_laws_axioms _ login user, THEN conjunct2, THEN conjunct1] show ?thesis by fastforce
qed

text \<open>
  The page that signs out works whatever the server answers: the token is gone, the state is the initial one, the
  user is sent to the sign-in page with the location's state, exactly one request has been sent, and running the effect
  again does nothing.
\<close>

theorem sign_out_page:
  assumes "store_laws ops" and "sign_out_effect ops isCancel srv state (False, s) = (flag, s')"
  shows "flag \<and> ses_auth s' = defaultAuth \<and> stored_token ops (ses_web s') = []
    \<and> app_history (web_app (ses_web s')) \<noteq> [] \<and> last (app_history (web_app (ses_web s'))) = (''/login'', state)
    \<and> web_requests (ses_web s') = web_requests (ses_web s) @ [det_request logout () (ses_web s)]
    \<and> sign_out_effect ops isCancel srv state (flag, s') = (flag, s')"
proof -
  obtain r w where g: "generateDetApi isCancel (ls_logout srv) logout () (ses_web s) = (r, w)" by (metis surj_pair)
  define w' where "w' = (case r of Inr _ \<Rightarrow> w | Inl f \<Rightarrow> (case caught f of None \<Rightarrow> w
      | Some e \<Rightarrow> w\<lparr>web_app := snd (handleError isCancel (sign_out_error e) (web_app w))\<rparr>))"
  define t where "t = auth_reducer ops AuthReset (s\<lparr>ses_web := w'\<rparr>)"
  have s': "flag" "s' = t\<lparr>ses_web := (ses_web t)\<lparr>web_app := (web_app (ses_web t))\<lparr>app_history :=
      app_history (web_app (ses_web t)) @ [(''/login'', state)]\<rparr>\<rparr>\<rparr>"
    using assms(2) by (auto simp: sign_out_effect_def Let_def g w'_def t_def)
  have "request_call (\<lambda>x. generateDetApi isCancel (ls_logout srv) logout x) (\<lambda>x. det_request logout x)"
    by (rule det_call) (simp add: logout_def det_api_def)
  from request_call.sends [OF this, of "()" "ses_web s"]
  have "web_requests w = web_requests (ses_web s) @ [det_request logout () (ses_web s)]" by (simp add: g)
  moreover have "web_requests w' = web_requests w" by (simp add: w'_def split: sum.split option.split)
  moreover have "web_requests (ses_web t) = web_requests w'" by (simp add: t_def auth_reducer_def Let_def clearAuthCookie_def)
  moreover have "ses_auth t = defaultAuth" by (simp add: t_def auth_reducer_def Let_def)
  moreover have "stored_token ops (ses_web t) = []" unfolding t_def by (rule store_laws.reset_stored [OF assms(1)])
  ultimately show ?thesis using s' by (simp add: sign_out_effect_def)
qed

theorem sign_out_page_witness:
  "\<exists>s'. sign_out_effect MemoryStore axios_isCancel sample_server Null (False, sample_session) = (True, s') \<and> ses_auth s' = defaultAuth"
proof -
  obtain flag s' where r: "sign_out_effect MemoryStore axios_isCancel sample_server Null (False, sample_session) = (flag, s')" by (metis surj_pair)
  from sign_out_page [OF mem.store_laws_axioms r] r show ?thesis by auto
qed

text \<open>
  C9: The guard of the routes: without an authenticated user the router mounts the sign-in and the sign-out page and no
  other, whatever is asked for and however paths are matched; a page that needs one shows nothing until the session is
  checked and then sends to the sign-in page with the location that was asked for.  With one it never sends there.
\<close>

theorem guarded_routes:
  assumes "appRoutes = Inr rs"
  shows "(\<not> auth_isAuthenticated auth \<longrightarrow> (\<forall>c. router matches auth location path rs = Some (Mount c) \<longrightarrow> c \<in> {Some ''SignIn'', Some ''SignOut''})
        \<and> (\<forall>r \<in> set rs. route_needAuth r = Some True \<longrightarrow> route_element auth location r
              = (if auth_checked auth then ToLogin (case clone location True of Inr l \<Rightarrow> l | Inl _ \<Rightarrow> Undefined) else Nothing)))
    \<and> (auth_isAuthenticated auth \<longrightarrow> (\<forall>l. router matches auth location path rs \<noteq> Some (ToLogin l)) \<and> router matches auth location path rs \<noteq> Some Nothing)"
proof -
  have rs: "\<forall>r \<in> set rs. route_needAuth r = Some True \<or> route_component r \<in> {Some ''SignIn'', Some ''SignOut''} \<or> route_redirect r = Some ''/dashboard''"
    using assms
    by (auto simp: appRoutes_def routes_def mk_route_def with_component_def routeComponentMap_def defaultRoute_def
      defaultRouteId_def RouteConfig.defs)
  have f: "router matches auth location path rs = Some e \<Longrightarrow> \<exists>r \<in> set rs. e = route_element auth location r" for e
    by (auto simp: router_def find_Some_iff)
  show ?thesis
  proof (intro conjI impI allI ballI)
    fix c
    assume a: "\<not> auth_isAuthenticated auth" "router matches auth location path rs = Some (Mount c)"
    from f [OF a(2)] obtain r where r: "r \<in> set rs" "Mount c = route_element auth location r" by blast
    with rs a(1) show "c \<in> {Some ''SignIn'', Some ''SignOut''}"
      by (auto simp: route_element_def split: if_splits option.splits)
  next
    fix r assume "\<not> auth_isAuthenticated auth" "r \<in> set rs" "route_needAuth r = Some True"
    then show "route_element auth location r
        = (if auth_checked auth then ToLogin (case clone location True of Inr l \<Rightarrow> l | Inl _ \<Rightarrow> Undefined) else Nothing)"
      by (simp add: route_element_def)
  next
    fix l assume a: "auth_isAuthenticated auth"
    show "router matches auth location path rs \<noteq> Some (ToLogin l)"
      using f a by (fastforce simp: route_element_def split: if_splits option.splits)
    show "router matches auth location path rs \<noteq> Some Nothing"
      using f a by (fastforce simp: route_element_def split: if_splits option.splits)
  qed
qed

theorem guarded_routes_witness:
  "\<exists>rs. appRoutes = Inr rs
     \<and> (\<forall>c. router (\<lambda>p q. p = q) defaultAuth Null ''/tasks'' rs = Some (Mount c) \<longrightarrow> c \<in> {Some ''SignIn'', Some ''SignOut''})"
proof -
  obtain rs where rs: "appRoutes = Inr rs"
    by (simp add: appRoutes_def routes_def mk_route_def with_component_def routeComponentMap_def defaultRoute_def
      defaultRouteId_def RouteConfig.defs)
  have "\<not> auth_isAuthenticated defaultAuth" by (simp add: defaultAuth_def)
  with guarded_routes [OF rs, of defaultAuth "\<lambda>p q. p = q" Null "''/tasks''"] rs show ?thesis by blast
qed

text \<open>
  An authenticated user is sent from the sign-in page to the address in the query, when there is one, else to the page
  that was asked for before signing in, else to the dashboard, and the spinner stops.  The address in the query is not
  checked: a complete address of another host is opened as it is.
\<close>

theorem signed_in_redirect:
  assumes "appRoutes = Inr rs" and "auth_isAuthenticated auth"
    and "getPath location ''state.loginRedirect'' = Inr l"
    and "sign_in_effect regexp_test URL env rs location cli redirect auth ui = (ui', shown, nav)"
  shows "\<not> ui_showSpinner ui'
    \<and> (\<forall>p. redirect = Some p \<longrightarrow> p \<noteq> [] \<longrightarrow> nav = routeAll regexp_test URL env p)
    \<and> (\<forall>p. redirect = Some p \<longrightarrow> isFullPath p \<longrightarrow> \<not> prefix (reactHostAddress env) p \<longrightarrow> nav = Inr [Assign p])
    \<and> (redirect = None \<longrightarrow> locationToPath l = None \<longrightarrow> nav = routeAll regexp_test URL env ''/dashboard'')
    \<and> (\<forall>p. redirect = None \<longrightarrow> locationToPath l = Some p \<longrightarrow> p \<noteq> [] \<longrightarrow> nav = routeAll regexp_test URL env p)"
proof -
  have d: "\<exists>d. defaultRoute rs = Some d \<and> route_path d = ''/dashboard''"
    using assms(1)
    by (auto simp: appRoutes_def routes_def mk_route_def with_component_def routeComponentMap_def defaultRoute_def
      defaultRouteId_def RouteConfig.defs)
  have nav: "nav = bind_exn (sign_in_redirect redirect location rs) (routeAll regexp_test URL env)" "\<not> ui_showSpinner ui'"
    using assms(2,4) by (simp_all add: sign_in_effect_def) (auto split: if_splits)
  have out: "isFullPath p \<Longrightarrow> \<not> prefix (reactHostAddress env) p \<Longrightarrow> routeAll regexp_test URL env p = Inr [Assign p]" for p
    by (simp add: routeAll_def findReactRoute_def routeToExternalUrl_def)
  have "isFullPath p \<Longrightarrow> p \<noteq> []" for p by (auto simp: isFullPath_def)
  with nav d out assms(3) show ?thesis by (auto simp: sign_in_redirect_def)
qed

definition sample_env :: Env where
  "sample_env = \<lparr>env_PUBLIC_URL = ''/det'', env_SERVER_ADDRESS = [], env_storedServer = [], env_protocol = ''http:'',
     env_host = ''master'', env_location = Null\<rparr>"

theorem signed_in_redirect_witness:
  "\<exists>rs ui shown. appRoutes = Inr rs
     \<and> sign_in_effect (\<lambda>_ _. False) simple_URL sample_env rs (Obj []) None (Some ''https://evil'') (defaultAuth\<lparr>auth_isAuthenticated := True\<rparr>)
         defaultUIState = (ui, shown, Inr [Assign ''https://evil''])"
proof -
  obtain rs where rs: "appRoutes = Inr rs"
    by (simp add: appRoutes_def routes_def mk_route_def with_component_def routeComponentMap_def defaultRoute_def
      defaultRouteId_def RouteConfig.defs)
  let ?a = "defaultAuth\<lparr>auth_isAuthenticated := True\<rparr>"
  obtain ui shown nav where e: "sign_in_effect (\<lambda>_ _. False) simple_URL sample_env rs (Obj []) None (Some ''https://evil'') ?a defaultUIState
      = (ui, shown, nav)" by (metis surj_pair)
  have "getPath (Obj []) ''state.loginRedirect'' = Inr Undefined" by code_simp
  note t = signed_in_redirect [OF rs _ this e]
  have "isFullPath ''https://evil''" "\<not> prefix (reactHostAddress sample_env) ''https://evil''" by code_simp+
  with t [THEN conjunct2, THEN conjunct2, THEN conjunct1, rule_format, OF _ refl] have "nav = Inr [Assign ''https://evil'']" by simp
  with rs e show ?thesis by blast
qed

text \<open>
  The page that waits for a service leaves for it on the first message that says that it runs and is ready, and
  closes the socket; a message that says that it ends closes the socket without leaving, and the page says so; any other
  snapshot only shows its state.  Whatever comes, the page never claims to be ready, since the last status it sets is the
  one that is not.
\<close>

theorem wait_service:
  assumes "wait_message env addr (Some text) p = Inr q" and "json_parse text = Inr (Obj [(''snapshot'', Obj ss)])"
  shows "(map_of ss ''state'' = Some (Str ''RUNNING'') \<and> map_of ss ''is_ready'' = Some (Bool True) \<longrightarrow>
        wp_closed q \<and> wp_nav q = wp_nav p @ [Assign (serverAddress env addr)])
    \<and> (\<forall>c \<in> terminalCommandStates. map_of ss ''state'' = Some (Str (str_CommandState c)) \<longrightarrow>
        wp_closed q \<and> wp_nav q = wp_nav p \<and> wait_text t e a q = capitalize t @ '' has been terminated.'')
    \<and> (\<exists>state. wp_status q = Some (False, state))
    \<and> (wp_nav q \<noteq> wp_nav p \<longrightarrow> wp_closed q)"
proof -
  have q: "q = (let state = get_prop (Obj ss) ''state''; p' = (if state = Str ''RUNNING'' \<and> truthy (get_prop (Obj ss) ''is_ready'')
                    then p\<lparr>wp_closed := True, wp_nav := wp_nav p @ [Assign (serverAddress env addr)]\<rparr>
                    else if is_terminal state then p\<lparr>wp_closed := True\<rparr> else p)
           in p'\<lparr>wp_status := Some (False, state)\<rparr>)"
    using assms by (simp add: wait_message_def Let_def)
  have t: "str_CommandState c \<noteq> ''RUNNING''" if "c \<in> terminalCommandStates" for c
    using that by (auto simp: terminalCommandStates_def)
  show ?thesis
    using t by (auto simp: q Let_def get_prop_def wait_text_def is_terminal_def)
qed

definition ready_text :: json_text where
  "ready_text = print_json (JObj [(''snapshot'', JObj [(''state'', JStr ''RUNNING''), (''is_ready'', JBool True)])])"

theorem wait_service_witness:
  "\<exists>q. wait_message sample_env ''/proxy/1'' (Some ready_text) \<lparr>wp_status = None, wp_closed = False, wp_nav = []\<rparr> = Inr q
     \<and> wp_closed q \<and> wp_nav q = [Assign ''http://master/proxy/1'']"
proof -
  let ?p = "\<lparr>wp_status = None, wp_closed = False, wp_nav = []\<rparr> :: WaitPage"
  let ?ss = "[(''state'', Str ''RUNNING''), (''is_ready'', Bool True)]"
  have parse: "json_parse ready_text = Inr (Obj [(''snapshot'', Obj ?ss)])"
  proof -
    have wf: "wf_json (JObj [(''snapshot'', JObj [(''state'', JStr ''RUNNING''), (''is_ready'', JBool True)])])" by simp
    show ?thesis unfolding ready_text_def json_parse_def parse_print_json [OF wf] by simp
  qed
  then obtain q where q: "wait_message sample_env ''/proxy/1'' (Some ready_text) ?p = Inr q"
    by (auto simp: wait_message_def Let_def)
  have "serverAddress sample_env ''/proxy/1'' = ''http://master/proxy/1''" by code_simp
  with wait_service [OF q parse, THEN conjunct1] q show ?thesis by simp
qed

end
