(* ===== verification/Filters.thy ===== *)
theory Filters
  imports Experiment_List Task_Util String_Util Services
begin

text \<open>
  The controls that narrow lists: the editor of tags (\<^verbatim>\<open>components/TagList.tsx\<close>), selects with several values
  (\<^verbatim>\<open>components/MultiSelect.tsx\<close>, \<^verbatim>\<open>components/SelectFilter.tsx\<close>), the filters by state, user and label, the filter
  of tasks (\<^verbatim>\<open>components/TaskFilter.tsx\<close>) and of a trial's logs (\<^verbatim>\<open>pages/TrialLogs/TrialLogFilters.tsx\<close>).
\<close>

section \<open>The editor of tags\<close>

text \<open>\<open>String.prototype.trim\<close>.\<close>

definition js_trim :: "string \<Rightarrow> string" where
  "js_trim s = rev (dropWhile is_space (rev (dropWhile is_space s)))"

definition TAG_MAX_LENGTH :: int where
  "TAG_MAX_LENGTH = 20"

record TagState =
  editInputIndex :: int
  editInputValue :: string
  editOldInputValue :: string
  inputValue :: string
  inputVisible :: bool
  inputWidth :: rat

definition tag_initialState :: TagState where
  "tag_initialState = \<lparr>editInputIndex = - 1, editInputValue = [], editOldInputValue = [], inputValue = [],
     inputVisible = False, inputWidth = 82\<rparr>"

text \<open>
  A handler returns the new state and the list given to \<open>onChange\<close>, if any.  The first argument says whether the
  parent listens.  \<open>tags\<close> is the array of the last render, which the render itself has sorted in place.
\<close>

definition handleClose :: "bool \<Rightarrow> string list \<Rightarrow> string \<Rightarrow> TagState \<Rightarrow> TagState \<times> string list option" where
  "handleClose listens tags removedTag st =
     (st, if listens then Some (filter (\<lambda>tag. tag \<noteq> removedTag) tags) else None)"

definition handleTagPlus :: "TagState \<Rightarrow> TagState" where
  "handleTagPlus st = st\<lparr>inputVisible := True\<rparr>"

definition handleInputChange :: "string \<Rightarrow> TagState \<Rightarrow> TagState" where
  "handleInputChange v st = st\<lparr>inputValue := v\<rparr>"

definition handleInputConfirm :: "bool \<Rightarrow> string list \<Rightarrow> TagState \<Rightarrow> TagState \<times> string list option" where
  "handleInputConfirm listens tags st =
     (let newTag = js_trim (inputValue st)
      in (st\<lparr>inputValue := [], inputVisible := False\<rparr>,
          if listens \<and> newTag \<noteq> [] \<and> newTag \<notin> set tags then Some (newTag # tags) else None))"

definition handleEditInputFocus :: "string \<Rightarrow> TagState \<Rightarrow> TagState" where
  "handleEditInputFocus v st = st\<lparr>editOldInputValue := v\<rparr>"

definition handleEditInputChange :: "string \<Rightarrow> TagState \<Rightarrow> TagState" where
  "handleEditInputChange v st = st\<lparr>editInputValue := v\<rparr>"

definition handleEditInputConfirm :: "bool \<Rightarrow> string list \<Rightarrow> TagState \<Rightarrow> TagState \<times> string list option" where
  "handleEditInputConfirm listens tags st =
     (let oldTag = js_trim (editOldInputValue st); newTag = js_trim (editInputValue st)
      in (st\<lparr>editInputIndex := - 1, editInputValue := [], editOldInputValue := []\<rparr>,
          if listens \<and> oldTag \<noteq> [] \<and> newTag \<noteq> []
          then let updatedTags = filter (\<lambda>tag. tag \<noteq> oldTag) tags
               in Some (if newTag \<notin> set updatedTags then updatedTags @ [newTag] else updatedTags)
          else None))"

text \<open>A click on a tag: \<open>rect\<close> is the width of its element, if the document has it.\<close>

definition startEdit :: "int \<Rightarrow> string \<Rightarrow> rat option \<Rightarrow> TagState \<Rightarrow> TagState" where
  "startEdit index tag rect st = st\<lparr>editInputIndex := index, editInputValue := tag,
     inputWidth := (case rect of Some w \<Rightarrow> if w = 0 then inputWidth st else w | None \<Rightarrow> inputWidth st)\<rparr>"

text \<open>What is rendered, in the order of \<open>alphanumericSorter\<close>: the tag being edited as an input.\<close>

datatype TagItem =
    TagInput string
  | TagElement string string "string option"  \<comment> \<open>id, text and tooltip\<close>

definition tag_item :: "TagState \<Rightarrow> int \<Rightarrow> string \<Rightarrow> TagItem" where
  "tag_item st index tag =
     (if editInputIndex st = index then TagInput (editInputValue st)
      else let isLongTag = int (length tag) > TAG_MAX_LENGTH
           in TagElement (toHtmlId tag) (if isLongTag then truncate_str tag TAG_MAX_LENGTH else tag)
                (if isLongTag then Some tag else None))"

definition sorted_tags :: "(string \<Rightarrow> string \<Rightarrow> int) \<Rightarrow> string list \<Rightarrow> string list" where
  "sorted_tags lc tags = js_sort (alphanumericSorter lc) tags"

definition tag_items :: "(string \<Rightarrow> string \<Rightarrow> int) \<Rightarrow> string list \<Rightarrow> TagState \<Rightarrow> TagItem list" where
  "tag_items lc tags st =
     map (\<lambda>i. tag_item st (int i) (sorted_tags lc tags ! i)) [0..<length (sorted_tags lc tags)]"

text \<open>
  The events of the editor between two renders with new tags.  The input of an edited tag gets the focus from the
  effect on \<open>editInputIndex\<close>, with the value it shows.
\<close>

datatype TagEvent =
    TagClose string
  | TagPlus
  | TagType string
  | TagConfirm
  | TagClick nat "rat option"
  | TagEditType string
  | TagEditConfirm

fun tag_event :: "bool \<Rightarrow> (string \<Rightarrow> string \<Rightarrow> int) \<Rightarrow> string list \<Rightarrow> TagEvent \<Rightarrow> TagState
    \<Rightarrow> TagState \<times> string list option" where
  "tag_event listens lc tags (TagClose t) st = handleClose listens (sorted_tags lc tags) t st"
| "tag_event listens lc tags TagPlus st = (handleTagPlus st, None)"
| "tag_event listens lc tags (TagType v) st = (handleInputChange v st, None)"
| "tag_event listens lc tags TagConfirm st = handleInputConfirm listens (sorted_tags lc tags) st"
| "tag_event listens lc tags (TagClick i rect) st =
     (let st' = startEdit (int i) (sorted_tags lc tags ! i) rect st
      in (if editInputIndex st' = editInputIndex st then st'
          else handleEditInputFocus (editInputValue st') st', None))"
| "tag_event listens lc tags (TagEditType v) st = (handleEditInputChange v st, None)"
| "tag_event listens lc tags TagEditConfirm st = handleEditInputConfirm listens (sorted_tags lc tags) st"

text \<open>A sequence of events while the parent's tags stay the same: the lists given to \<open>onChange\<close> in order.\<close>

fun tag_events :: "bool \<Rightarrow> (string \<Rightarrow> string \<Rightarrow> int) \<Rightarrow> string list \<Rightarrow> TagEvent list \<Rightarrow> TagState
    \<Rightarrow> TagState \<times> string list list" where
  "tag_events listens lc tags [] st = (st, [])"
| "tag_events listens lc tags (e # es) st =
     (let (st, call) = tag_event listens lc tags e st; (st, calls) = tag_events listens lc tags es st
      in (st, (case call of Some l \<Rightarrow> l # calls | None \<Rightarrow> calls)))"

lemma js_trim_ends:
  assumes "js_trim s \<noteq> []"
  shows "\<not> is_space (hd (js_trim s))" and "\<not> is_space (last (js_trim s))"
proof -
  define t where "t = dropWhile is_space s"
  define u where "u = dropWhile is_space (rev t)"
  have trim: "js_trim s = rev u" by (simp add: js_trim_def t_def u_def)
  then have u: "u \<noteq> []" using assms by simp
  then show "\<not> is_space (last (js_trim s))"
    using hd_dropWhile [of is_space "rev t"] by (simp add: trim last_rev u_def)
  have "rev (takeWhile is_space (rev t) @ u) = t" by (simp add: u_def del: rev_append)
  then have t: "t = rev u @ rev (takeWhile is_space (rev t))" by simp
  have "hd t = hd (rev u)" by (subst t) (simp add: u)
  moreover have "t \<noteq> []" using u by (auto simp: u_def)
  ultimately show "\<not> is_space (hd (js_trim s))"
    using hd_dropWhile [of is_space s] by (simp add: trim t_def)
qed

lemma dropWhile_hd: "(xs \<noteq> [] \<Longrightarrow> \<not> P (hd xs)) \<Longrightarrow> dropWhile P xs = xs"
  by (cases xs) auto

lemma js_trim_trim [simp]: "js_trim (js_trim s) = js_trim s"
proof (cases "js_trim s = []")
  case True
  show ?thesis unfolding True by (simp add: js_trim_def)
next
  case False
  note ends = js_trim_ends [OF this]
  have "dropWhile is_space (js_trim s) = js_trim s"
    using ends by (simp add: dropWhile_hd)
  moreover have "dropWhile is_space (rev (js_trim s)) = rev (js_trim s)"
    using ends False by (simp add: dropWhile_hd hd_rev)
  ultimately show ?thesis by (subst js_trim_def) simp
qed

lemma set_sorted_tags [simp]: "set (sorted_tags lc tags) = set tags"
  and distinct_sorted_tags [simp]: "distinct (sorted_tags lc tags) = distinct tags"
  and length_sorted_tags [simp]: "length (sorted_tags lc tags) = length tags"
  by (simp_all add: sorted_tags_def)

lemma nth_sorted_tags: "i < length tags \<Longrightarrow> sorted_tags lc tags ! i \<in> set tags"
  by (metis length_sorted_tags nth_mem set_sorted_tags)

text \<open>Tags that the editor can produce: no two the same, none empty and none with space around it.\<close>

definition clean_tags :: "string list \<Rightarrow> bool" where
  "clean_tags tags = (distinct tags \<and> (\<forall>t \<in> set tags. js_trim t = t \<and> t \<noteq> []))"

lemma clean_sorted_tags [simp]: "clean_tags (sorted_tags lc tags) = clean_tags tags"
  by (simp add: clean_tags_def)

lemma clean_filter: "clean_tags tags \<Longrightarrow> clean_tags (filter P tags)"
  by (simp add: clean_tags_def)

lemma clean_insert: "clean_tags tags \<Longrightarrow> js_trim t \<noteq> [] \<Longrightarrow> js_trim t \<notin> set tags \<Longrightarrow> clean_tags (js_trim t # tags)"
  by (simp add: clean_tags_def)

lemma clean_append: "clean_tags tags \<Longrightarrow> js_trim t \<noteq> [] \<Longrightarrow> js_trim t \<notin> set tags \<Longrightarrow> clean_tags (tags @ [js_trim t])"
  by (auto simp: clean_tags_def)

lemma handlers_clean:
  assumes "clean_tags tags"
  shows "snd (handleClose listens tags t st) = Some l \<Longrightarrow> clean_tags l"
    and "snd (handleInputConfirm listens tags st) = Some l \<Longrightarrow> clean_tags l"
    and "snd (handleEditInputConfirm listens tags st) = Some l \<Longrightarrow> clean_tags l"
proof -
  show "snd (handleClose listens tags t st) = Some l \<Longrightarrow> clean_tags l"
    by (auto simp: handleClose_def clean_filter [OF assms] split: if_split_asm)
  show "snd (handleInputConfirm listens tags st) = Some l \<Longrightarrow> clean_tags l"
    by (auto simp: handleInputConfirm_def Let_def clean_insert [OF assms] split: if_split_asm)
  show "snd (handleEditInputConfirm listens tags st) = Some l \<Longrightarrow> clean_tags l"
    by (auto simp: handleEditInputConfirm_def Let_def clean_filter [OF assms] clean_append [OF clean_filter [OF assms]]
        split: if_split_asm)
qed

lemma tag_event_clean:
  assumes "clean_tags tags" and "tag_event listens lc tags e st = (st', Some tags')"
  shows "clean_tags tags'"
proof -
  have "clean_tags (sorted_tags lc tags)" using assms(1) by simp
  note clean = handlers_clean [OF this, of listens]
  show ?thesis
    using assms(2) clean by (cases e) (simp_all add: Let_def, (metis snd_conv)+)
qed

lemma tag_events_append:
  "tag_events listens lc tags (es @ es') st =
     (let (st, calls) = tag_events listens lc tags es st; (st, calls') = tag_events listens lc tags es' st
      in (st, calls @ calls'))"
  by (induction es arbitrary: st) (auto simp: Let_def split_beta split: option.splits)



text \<open>
  The list sent is computed from the tags of the last render: a tag added before the parent has fetched the
  answer of the first request is sent without the first one, and the server loses it.
\<close>

lemma tag_added_twice:
  "snd (tag_events True str_cmp [] [TagType ''a'', TagConfirm, TagType ''b'', TagConfirm] st) = [[''a''], [''b'']]"
  by (simp add: handleInputConfirm_def handleInputChange_def Let_def sorted_tags_def js_sort_def js_trim_def
      is_space_def)

text \<open>A tag with white space around it, which other clients can make, is kept when it is renamed.\<close>

lemma spaced_tag_kept:
  "snd (tag_events True str_cmp ['' a''] [TagClick 0 None, TagEditType ''b'', TagEditConfirm] tag_initialState)
     = [['' a'', ''b'']]"
  by code_simp

section \<open>Choosing from a list\<close>

text \<open>
  What an editor of a list of choices promises: a choice that can be made is put in when it is missing and taken out
  when it is there, and no choice is there twice.  Then any sequence of clicks changes the side of exactly the choices
  clicked an odd number of times.
\<close>

locale choice_set =
  fixes put remove :: "'a \<Rightarrow> 'a list \<Rightarrow> 'a list" and ok :: "'a \<Rightarrow> bool"
  assumes put: "ok x \<Longrightarrow> distinct vs \<Longrightarrow> x \<notin> set vs \<Longrightarrow> distinct (put x vs) \<and> set (put x vs) = insert x (set vs)"
    and remove: "ok x \<Longrightarrow> distinct vs \<Longrightarrow> x \<in> set vs \<Longrightarrow> distinct (remove x vs) \<and> set (remove x vs) = set vs - {x}"
begin

lemma toggles:
  assumes "\<forall>x \<in> set xs. ok x" and "distinct vs"
  shows "distinct (fold (\<lambda>x vs. if x \<in> set vs then remove x vs else put x vs) xs vs)
    \<and> set (fold (\<lambda>x vs. if x \<in> set vs then remove x vs else put x vs) xs vs)
        = {v. (v \<in> set vs) \<noteq> odd (count_list xs v)}"
  using assms
proof (induction xs arbitrary: vs)
  case Nil
  then show ?case by simp
next
  case (Cons a xs)
  define ws where "ws = (if a \<in> set vs then remove a vs else put a vs)"
  have ws: "distinct ws" "set ws = (if a \<in> set vs then set vs - {a} else insert a (set vs))"
    using Cons.prems put [of a vs] remove [of a vs] by (auto simp: ws_def)
  have "{v. (v \<in> set ws) \<noteq> odd (count_list xs v)} = {v. (v \<in> set vs) \<noteq> odd (count_list (a # xs) v)}"
    by (auto simp: ws(2))
  then show ?case using Cons.IH [OF _ ws(1)] Cons.prems by (simp flip: ws_def)
qed

end

text \<open>The tags are such a list, with the texts that trimming leaves as they are.\<close>

interpretation tags: choice_set
  "\<lambda>t tags. the (snd (handleInputConfirm True tags (handleInputChange t tag_initialState)))"
  "\<lambda>t tags. the (snd (handleClose True tags t tag_initialState))"
  "\<lambda>t. js_trim t = t \<and> t \<noteq> []"
  by unfold_locales (auto simp: handleInputConfirm_def handleInputChange_def handleClose_def Let_def)

section \<open>Selects\<close>

text \<open>
  React nodes as far as the selects look into them: an option, a group with its children, any other element (a fragment), an array,
  a text, and \<open>null\<close> or \<open>undefined\<close>.
\<close>

datatype node =
    NNull
  | NText string
  | NList "node list"
  | NOption string string
  | NOptGroup string "node option"
  | NElement "node list"

text \<open>Reading \<open>type\<close> of \<open>null\<close> or \<open>undefined\<close> throws.\<close>

fun countOptions :: "node \<Rightarrow> nat result" and countList :: "node list \<Rightarrow> nat result" where
  "countOptions NNull = Inl TypeError"
| "countOptions (NText s) = Inr 0"
| "countOptions (NList cs) = countList cs"
| "countOptions (NOption v l) = Inr 1"
| "countOptions (NOptGroup l None) = Inr 0"
| "countOptions (NOptGroup l (Some c)) = countOptions c"
| "countOptions (NElement cs) = Inr 0"
| "countList [] = Inr 0"
| "countList (c # cs) = bind_exn (countOptions c) (\<lambda>n. bind_exn (countList cs) (\<lambda>m. Inr (n + m)))"

text \<open>The values of a select: \<open>SelectValue\<close>.\<close>

datatype SelectValue = NoValue | OneValue string | ManyValues "string list"

definition value_count :: "SelectValue \<Rightarrow> nat" where
  "value_count v = (case v of NoValue \<Rightarrow> 0 | OneValue s \<Rightarrow> (if s = [] then 0 else 1) | ManyValues vs \<Rightarrow> length vs)"

text \<open>\<open>maxTagCount\<close> and \<open>maxTagPlaceholder\<close>.\<close>

definition maxTags :: "bool \<Rightarrow> bool \<Rightarrow> nat \<Rightarrow> SelectValue \<Rightarrow> string option \<Rightarrow> nat option \<times> string option" where
  "maxTags disableTags isOpen optionsCount v maxTagPlaceholder =
     (if \<not> disableTags then (None, maxTagPlaceholder)
      else let count = value_count v;
               placeholder = (if count = optionsCount then ''All'' else show_nat count @ '' selected'')
           in if isOpen then (Some 0, Some []) else (Some 0, Some placeholder))"

text \<open>
  The children of an option as the search sees them: none, texts, an element with a label, one text, or something
  else, such as a number.
\<close>

datatype OptionChildren =
    NoChildren
  | TextChildren "string list"
  | LabelledChild string
  | TextChild string
  | OtherChild

definition option_label :: "OptionChildren \<Rightarrow> string option" where
  "option_label children = (case children of
      NoChildren \<Rightarrow> None
    | TextChildren ss \<Rightarrow> Some (js_join '' '' ss)
    | LabelledChild l \<Rightarrow> if l = [] then None else Some l
    | TextChild s \<Rightarrow> if s = [] then None else Some s
    | OtherChild \<Rightarrow> None)"

definition sf_handleFilter :: "string \<Rightarrow> OptionChildren \<Rightarrow> bool" where
  "sf_handleFilter search children = (case option_label children of
      None \<Rightarrow> False
    | Some label \<Rightarrow> label \<noteq> [] \<and> contains (toLowerCase search) (toLowerCase label))"

subsection \<open>Several values\<close>

definition MULTI_ALL :: string where
  "MULTI_ALL = ''All''"

text \<open>What a select reports: the value itself or, with labels, an object that holds it.\<close>

datatype Picked = Plain string | Labeled string

text \<open>The list given to \<open>onChange\<close>, if the parent listens, and whether the focus is taken away.\<close>

definition ms_handleSelect :: "bool \<Rightarrow> SelectValue \<Rightarrow> Picked \<Rightarrow> string list option \<times> bool" where
  "ms_handleSelect listens v picked =
     (if \<not> listens then (None, False)
      else if picked = Plain MULTI_ALL then (Some [], True)
      else let newValue = (case v of ManyValues vs \<Rightarrow> vs | _ \<Rightarrow> []);
               item = (case picked of Plain s \<Rightarrow> s | Labeled s \<Rightarrow> s)
           in (Some (if item \<notin> set newValue then newValue @ [item] else newValue), False))"

definition ms_handleDeselect :: "bool \<Rightarrow> SelectValue \<Rightarrow> Picked \<Rightarrow> string list option" where
  "ms_handleDeselect listens v picked =
     (if \<not> listens then None
      else let newValue = (case v of ManyValues vs \<Rightarrow> vs | _ \<Rightarrow> []);
               item = (case picked of Plain s \<Rightarrow> s | Labeled s \<Rightarrow> s)
           in Some (filter (\<lambda>x. x \<noteq> item) newValue))"

definition ms_children :: "node \<Rightarrow> node" where
  "ms_children children = NList [NOption MULTI_ALL MULTI_ALL, children]"

text \<open>
  The select with its owner, who keeps what \<open>onChange\<close> reports: a choice that is set is taken out, another is
  put in.
\<close>

definition ms_toggle :: "string \<Rightarrow> string list \<Rightarrow> string list" where
  "ms_toggle item vs =
     (if item \<in> set vs then the (ms_handleDeselect True (ManyValues vs) (Plain item))
      else the (fst (ms_handleSelect True (ManyValues vs) (Plain item))))"

definition options_of :: "string list \<Rightarrow> node" where
  "options_of vs = NList (map (\<lambda>v. NOption v v) vs)"

lemma countList_options: "countList (map (\<lambda>v. NOption v v) vs) = Inr (length vs)"
  by (induction vs) auto

lemma multi_options_count: "countOptions (ms_children (options_of vs)) = Inr (Suc (length vs))"
  by (simp add: ms_children_def options_of_def countList_options)

text \<open>The select is such a list, with every value but its own All.\<close>

interpretation multi: choice_set
  "\<lambda>v vs. the (fst (ms_handleSelect True (ManyValues vs) (Plain v)))"
  "\<lambda>v vs. the (ms_handleDeselect True (ManyValues vs) (Plain v))"
  "\<lambda>v. v \<noteq> MULTI_ALL"
  by unfold_locales (auto simp: ms_handleSelect_def ms_handleDeselect_def Let_def)

lemma ms_toggles_set:
  assumes "MULTI_ALL \<notin> set items" and "distinct vs"
  shows "distinct (fold ms_toggle items vs)
    \<and> set (fold ms_toggle items vs) = {v. (v \<in> set vs) \<noteq> odd (count_list items v)}"
  using multi.toggles [of items vs] assms unfolding ms_toggle_def [abs_def] by fastforce

lemma show_nat_selected: "show_nat n @ '' selected'' \<noteq> ''All''"
proof
  assume "show_nat n @ '' selected'' = ''All''"
  then have "length (show_nat n @ '' selected'') = 3" by simp
  then show False by simp
qed

text \<open>
  A select with several values.  After any sequence of clicks on its options exactly the values clicked
  an odd number of times have changed sides, and none is there twice; the option All empties the selection, so a value
  that is itself called All can never be chosen.  The select never says All when everything is chosen: it counts its
  option All among the options.
\<close>

theorem multi_select:
  assumes vs: "distinct vs" and items: "MULTI_ALL \<notin> set items"
  shows "distinct (fold ms_toggle items vs)
    \<and> set (fold ms_toggle items vs) = {v. (v \<in> set vs) \<noteq> odd (count_list items v)}
    \<and> ms_handleSelect True (ManyValues vs) (Plain MULTI_ALL) = (Some [], True)
    \<and> MULTI_ALL \<notin> set (the (fst (ms_handleSelect True (ManyValues (filter (\<lambda>v. v \<noteq> MULTI_ALL) vs)) (Plain item))))
    \<and> (\<forall>chosen n. set chosen \<subseteq> set vs \<longrightarrow> distinct chosen
         \<longrightarrow> countOptions (ms_children (options_of vs)) = Inr n
         \<longrightarrow> maxTags True False n (ManyValues chosen) p = (Some 0, Some (show_nat (length chosen) @ '' selected''))
           \<and> snd (maxTags True False n (ManyValues chosen) p) \<noteq> Some ''All'')"
proof -
  have no_all: "length chosen \<noteq> Suc (length vs)" if "set chosen \<subseteq> set vs" "distinct chosen" for chosen
  proof -
    have "length chosen \<le> length vs"
      using that vs by (metis List.finite_set card_mono distinct_card)
    then show ?thesis by simp
  qed
  have "\<forall>chosen n. set chosen \<subseteq> set vs \<longrightarrow> distinct chosen
       \<longrightarrow> countOptions (ms_children (options_of vs)) = Inr n
       \<longrightarrow> maxTags True False n (ManyValues chosen) p = (Some 0, Some (show_nat (length chosen) @ '' selected''))
         \<and> snd (maxTags True False n (ManyValues chosen) p) \<noteq> Some ''All''"
    using show_nat_selected
    by (auto simp: maxTags_def value_count_def multi_options_count Let_def dest: no_all)
  moreover have "MULTI_ALL \<notin> set (the (fst (ms_handleSelect True
      (ManyValues (filter (\<lambda>v. v \<noteq> MULTI_ALL) vs)) (Plain item))))"
    by (auto simp: ms_handleSelect_def Let_def)
  ultimately show ?thesis
    using ms_toggles_set [OF items vs] by (auto simp: ms_handleSelect_def)
qed

theorem multi_select_witness:
  "set (fold ms_toggle [''a'', ''b'', ''a''] [''c'']) = {''b'', ''c''}"
proof -
  have "set (fold ms_toggle [''a'', ''b'', ''a''] [''c''])
      = {v. (v \<in> set [''c'']) \<noteq> odd (count_list [''a'', ''b'', ''a''] v)}"
    by (rule multi_select [THEN conjunct2, THEN conjunct1]) (simp_all add: MULTI_ALL_def)
  also have "\<dots> = {''b'', ''c''}" by auto
  finally show ?thesis .
qed

subsection \<open>The filter by state\<close>

text \<open>What a select offers: the options under arrays, groups and fragments, in order.\<close>

fun offered :: "node \<Rightarrow> string list" and offered_list :: "node list \<Rightarrow> string list" where
  "offered NNull = []"
| "offered (NText s) = []"
| "offered (NList cs) = offered_list cs"
| "offered (NOption v l) = [v]"
| "offered (NOptGroup l None) = []"
| "offered (NOptGroup l (Some c)) = offered c"
| "offered (NElement cs) = offered_list cs"
| "offered_list [] = []"
| "offered_list (c # cs) = offered c @ offered_list cs"

definition state_option :: "(string \<times> string) list \<Rightarrow> string \<Rightarrow> node" where
  "state_option labels v = NOption v (case map_of labels v of Some l \<Rightarrow> l | None \<Rightarrow> [])"

definition commandOptions :: node where
  "commandOptions = NList (map (\<lambda>s. state_option commandStateToLabel (str_CommandState s)) CommandState_values)"

definition experimentOptions :: node where
  "experimentOptions = NList (map (\<lambda>s. state_option runStateToLabel (str_RunState s)) RunState_values)"

definition state_options :: "bool \<Rightarrow> bool \<Rightarrow> node" where
  "state_options showExperimentStates showCommandStates =
     (if showExperimentStates \<and> showCommandStates
      then NElement [NOptGroup ''Experiment States'' (Some experimentOptions),
             NOptGroup ''Command States'' (Some commandOptions)]
      else if showExperimentStates then experimentOptions
      else if showCommandStates then commandOptions
      else NNull)"

definition state_children :: "bool \<Rightarrow> bool \<Rightarrow> node" where
  "state_children showExperimentStates showCommandStates =
     NList [NOption ALL_VALUE ''All'', state_options showExperimentStates showCommandStates]"

text \<open>The handler of the filters by state and by user: the first of several values.\<close>

definition single_value :: "SelectValue \<Rightarrow> string option" where
  "single_value v = (case v of NoValue \<Rightarrow> None | OneValue s \<Rightarrow> Some s
     | ManyValues vs \<Rightarrow> (case vs of [] \<Rightarrow> None | s # _ \<Rightarrow> Some s))"

subsection \<open>The filters by user and by label\<close>

definition userToSelectOption :: "User \<Rightarrow> node" where
  "userToSelectOption u = NOption (user_username u) (user_username u)"

text \<open>\<open>lc\<close> is \<open>localeCompare\<close> for English.\<close>

definition user_options :: "(string \<Rightarrow> string \<Rightarrow> int) \<Rightarrow> User option \<Rightarrow> User list option \<Rightarrow> node list" where
  "user_options lc authUser users =
     [NOption ALL_VALUE ''All'']
     @ (case authUser of Some u \<Rightarrow> [userToSelectOption u] | None \<Rightarrow> [])
     @ (case users of None \<Rightarrow> [] | Some us \<Rightarrow>
          map userToSelectOption (js_sort (\<lambda>a b. lc (user_username a) (user_username b))
            (filter (\<lambda>x. case authUser of None \<Rightarrow> True | Some u \<Rightarrow> user_username x \<noteq> user_username u) us)))"

definition user_value :: "string option \<Rightarrow> string" where
  "user_value v = (case v of Some s \<Rightarrow> if s = [] then ALL_VALUE else s | None \<Rightarrow> ALL_VALUE)"

text \<open>The labels of the filter by label after its request; a failure is swallowed.\<close>

definition fetch_labels :: "(string \<Rightarrow> string \<Rightarrow> int) \<Rightarrow> failure + string list \<Rightarrow> string list \<Rightarrow> string list" where
  "fetch_labels lc answer labels = (case answer of
      Inl _ \<Rightarrow> labels
    | Inr ls \<Rightarrow> js_sort (alphanumericSorter lc) ls)"

definition label_children :: "string list \<Rightarrow> node" where
  "label_children labels = ms_children (options_of labels)"

section \<open>The filter of tasks\<close>

definition allTypesOff :: "(string \<times> bool) list \<Rightarrow> bool" where
  "allTypesOff types = (\<not> foldl (\<lambda>acc type. acc \<or> type) False (obj_values types))"

definition type_on :: "(string \<times> bool) list \<Rightarrow> string \<Rightarrow> bool" where
  "type_on types k = (map_of types k = Some True)"

definition showCommandStates :: "TaskFilters \<Rightarrow> bool" where
  "showCommandStates filters = (allTypesOff (tf_types filters)
     \<or> type_on (tf_types filters) (str_CommandType CommandType_Command)
     \<or> type_on (tf_types filters) (str_CommandType CommandType_Notebook)
     \<or> type_on (tf_types filters) (str_CommandType CommandType_Shell)
     \<or> type_on (tf_types filters) (str_CommandType CommandType_Tensorboard))"

definition showExperimentStates :: "bool \<Rightarrow> TaskFilters \<Rightarrow> bool" where
  "showExperimentStates showExperiments filters =
     (showExperiments \<and> (allTypesOff (tf_types filters) \<or> type_on (tf_types filters) ''Experiment''))"

text \<open>Each handler computes the filters it passes to \<open>onChange\<close>; \<open>None\<close> when it returns before.\<close>

definition handleTypeClick :: "string \<Rightarrow> TaskFilters \<Rightarrow> TaskFilters" where
  "handleTypeClick i filters = filters\<lparr>tf_types := obj_set i (\<not> type_on (tf_types filters) i) (tf_types filters)\<rparr>"

definition tf_handleStateChange :: "string option \<Rightarrow> TaskFilters \<Rightarrow> TaskFilters option" where
  "tf_handleStateChange v filters = (case v of None \<Rightarrow> None | Some s \<Rightarrow> Some (filters\<lparr>tf_states := [s]\<rparr>))"

definition tf_handleUserChange :: "string option \<Rightarrow> TaskFilters \<Rightarrow> TaskFilters" where
  "tf_handleUserChange v filters = filters\<lparr>tf_username := (if v = Some ALL_VALUE then None else v)\<rparr>"

definition tf_handleLimitSelect :: "int \<Rightarrow> TaskFilters \<Rightarrow> TaskFilters" where
  "tf_handleLimitSelect limit filters = filters\<lparr>tf_limit := limit\<rparr>"

definition limitOptions :: "int list" where
  "limitOptions = [10, 25, 50]"

record FilterButton =
  fb_active :: bool
  fb_icon :: string
  fb_id :: string
  fb_label :: string

definition commandConfig :: "string list" where
  "commandConfig = map str_CommandType
     [CommandType_Notebook, CommandType_Tensorboard, CommandType_Shell, CommandType_Command]"

definition experimentConfig :: "string list" where
  "experimentConfig = [''Experiment'']"

definition filterTypeConfig :: "bool \<Rightarrow> TaskFilters \<Rightarrow> FilterButton list" where
  "filterTypeConfig showExperiments filters =
     map (\<lambda>i. \<lparr>fb_active = type_on (tf_types filters) i, fb_icon = toLowerCase i, fb_id = i, fb_label = capitalize i\<rparr>)
       ((if showExperiments then experimentConfig else []) @ commandConfig)"

definition task_state_children :: "bool \<Rightarrow> TaskFilters \<Rightarrow> node" where
  "task_state_children showExperiments filters =
     state_children (showExperimentStates showExperiments filters) (showCommandStates filters)"

lemma offered_list_map [simp]: "offered_list (map (\<lambda>s. state_option ls (f s)) xs) = map f xs"
  by (induction xs) (auto simp: state_option_def)

lemma countList_map [simp]: "countList (map (\<lambda>s. state_option ls (f s)) xs) = Inr (length xs)"
  by (induction xs) (auto simp: state_option_def)

lemma RunState_values_UNIV: "set RunState_values = UNIV"
  by (auto simp: RunState_values_def intro: RunState.exhaust)

lemma CommandState_values_UNIV: "set CommandState_values = UNIV"
  by (auto simp: CommandState_values_def intro: CommandState.exhaust)

lemma offered_state_children:
  "set (offered (state_children e c)) =
     insert ALL_VALUE ((if e then range str_RunState else {}) \<union> (if c then range str_CommandState else {}))"
  by (auto simp: state_children_def state_options_def experimentOptions_def commandOptions_def
      RunState_values_UNIV CommandState_values_UNIV)

lemma countOptions_state_children:
  "countOptions (state_children e c) =
     (if e \<and> c then Inr 1 else if e then Inr 11 else if c then Inr 8 else Inl TypeError)"
  by (simp add: state_children_def state_options_def experimentOptions_def commandOptions_def
      RunState_values_def CommandState_values_def state_option_def)

lemma allTypesOff_iff: "allTypesOff types \<longleftrightarrow> True \<notin> set (obj_values types)"
proof -
  have "foldl (\<lambda>acc type. acc \<or> type) b xs \<longleftrightarrow> b \<or> True \<in> set xs" for b xs
    by (induction xs arbitrary: b) auto
  then show ?thesis by (simp add: allTypesOff_def)
qed

lemma str_State_not_all: "str_State s \<noteq> ALL_VALUE"
proof (cases s)
  case (CommandS c)
  then show ?thesis by (cases c) (simp_all add: ALL_VALUE_def)
next
  case (RunS r)
  then show ?thesis by (cases r) (simp_all add: ALL_VALUE_def)
qed

lemma handleTypeClick_twice:
  "map_of (tf_types filters) i \<noteq> None \<Longrightarrow>
    map_of (tf_types (handleTypeClick i (handleTypeClick i filters))) = map_of (tf_types filters)"
  by (auto simp: handleTypeClick_def type_on_def fun_eq_iff)

text \<open>
  C35: The filter of tasks and the list it filters agree.  For every task in the list the select offers the
  task's state, with every combination of types switched on, and choosing it leaves in the list exactly the tasks of
  that state, this one among them; choosing All shows again every task that passes the other filters.  Where experiments
  are not shown, the same holds of the other tasks.
\<close>

theorem task_filter:
  assumes listed: "task \<in> set (filterTasks tasks filters users search)"
    and shown: "showExperiments \<or> \<not> isExperimentTask task"
  shows "str_State (any_state task) \<in> set (offered (task_state_children showExperiments filters))
    \<and> (\<exists>f. tf_handleStateChange (Some (str_State (any_state task))) filters = Some f
        \<and> task \<in> set (filterTasks tasks f users search)
        \<and> filterTasks tasks f users search =
             filter (\<lambda>t. str_State (any_state t) = str_State (any_state task))
               (filterTasks tasks (the (tf_handleStateChange (Some ALL_VALUE) filters)) users search))
    \<and> set (filterTasks tasks filters users search)
        \<subseteq> set (filterTasks tasks (the (tf_handleStateChange (Some ALL_VALUE) filters)) users search)"
proof (intro conjI)
  have off: "allTypesOff (tf_types filters) \<or> type_on (tf_types filters) (any_type task)"
    using listed by (auto simp: filterTasks_def Let_def allTypesOff_iff type_on_def)
  show "str_State (any_state task) \<in> set (offered (task_state_children showExperiments filters))"
  proof (cases task)
    case (CommandTask t)
    then have "showCommandStates filters"
      using off by (cases "ct_type t") (auto simp: showCommandStates_def)
    then show ?thesis
      using CommandTask by (auto simp: task_state_children_def offered_state_children)
  next
    case (ExperimentTask t)
    then have "showExperimentStates showExperiments filters"
      using off shown by (auto simp: showExperimentStates_def)
    then show ?thesis
      using ExperimentTask by (auto simp: task_state_children_def offered_state_children)
  qed
  define s where "s = str_State (any_state task)"
  have mem: "task \<in> set (filterTasks tasks (filters\<lparr>tf_states := [s]\<rparr>) users search)"
    using listed by (auto simp: filterTasks_def Let_def matchesState_def s_def)
  have eq: "filterTasks tasks (filters\<lparr>tf_states := [s]\<rparr>) users search =
      filter (\<lambda>t. str_State (any_state t) = s) (filterTasks tasks (filters\<lparr>tf_states := [ALL_VALUE]\<rparr>) users search)"
    using str_State_not_all [of "any_state task"] unfolding filterTasks_def Let_def filter_filter
    by (intro filter_cong refl) (auto simp: matchesState_def s_def)
  show "\<exists>f. tf_handleStateChange (Some (str_State (any_state task))) filters = Some f
        \<and> task \<in> set (filterTasks tasks f users search)
        \<and> filterTasks tasks f users search =
             filter (\<lambda>t. str_State (any_state t) = str_State (any_state task))
               (filterTasks tasks (the (tf_handleStateChange (Some ALL_VALUE) filters)) users search)"
    using mem eq by (simp add: tf_handleStateChange_def flip: s_def)
  show "set (filterTasks tasks filters users search)
        \<subseteq> set (filterTasks tasks (the (tf_handleStateChange (Some ALL_VALUE) filters)) users search)"
    by (auto simp: filterTasks_def Let_def tf_handleStateChange_def matchesState_def)
qed

theorem task_filter_witness:
  "let t = CommandTask \<lparr>task_id = ''ab1'', task_name = ''pet'', task_serviceAddress = None, task_startTime = '''',
        task_url = None, ct_misc = None, ct_state = CommandState_Running, ct_type = CommandType_Shell,
        ct_username = ''u'', ct_lastEvent = \<lparr>ev_date = '''', ev_name = ''''\<rparr>\<rparr>;
       f = \<lparr>tf_limit = 25, tf_states = [''all''], tf_types = [(''SHELL'', True)], tf_username = None\<rparr>
   in ''RUNNING'' \<in> set (offered (task_state_children False f))"
proof -
  define t where "t = CommandTask \<lparr>task_id = ''ab1'', task_name = ''pet'', task_serviceAddress = None, task_startTime = '''',
        task_url = None, ct_misc = None, ct_state = CommandState_Running, ct_type = CommandType_Shell,
        ct_username = ''u'', ct_lastEvent = \<lparr>ev_date = '''', ev_name = ''''\<rparr>\<rparr>"
  define f where "f = \<lparr>tf_limit = 25, tf_states = [''all''], tf_types = [(''SHELL'', True)], tf_username = None\<rparr>"
  have "t \<in> set (filterTasks [t] f [] ''b'')"
    by (simp add: filterTasks_def obj_values_def t_def f_def matchesUser_def matchesState_def matchesSearch_def ALL_VALUE_def)
  then have "str_State (any_state t) \<in> set (offered (task_state_children False f))"
    by (rule task_filter [THEN conjunct1]) (simp add: t_def)
  then show ?thesis by (simp add: t_def f_def)
qed

text \<open>With experiments hidden and only their type switched on the select would have an undefined child, and throw.\<close>

lemma no_states_throws:
  "countOptions (task_state_children False (f\<lparr>tf_types := [(''Experiment'', True)]\<rparr>)) = Inl TypeError"
  by (simp add: task_state_children_def countOptions_state_children showExperimentStates_def showCommandStates_def
      type_on_def allTypesOff_iff obj_values_def)

section \<open>The filters of a trial's logs\<close>

datatype LogLevelFromApi =
    LogLevelFromApi_Unspecified | LogLevelFromApi_Trace | LogLevelFromApi_Debug | LogLevelFromApi_Info
  | LogLevelFromApi_Warning | LogLevelFromApi_Error | LogLevelFromApi_Critical

definition LogLevelFromApi_entries :: "(string \<times> string) list" where
  "LogLevelFromApi_entries = [(''Unspecified'', ''LOG_LEVEL_UNSPECIFIED''), (''Trace'', ''LOG_LEVEL_TRACE''),
     (''Debug'', ''LOG_LEVEL_DEBUG''), (''Info'', ''LOG_LEVEL_INFO''), (''Warning'', ''LOG_LEVEL_WARNING''),
     (''Error'', ''LOG_LEVEL_ERROR''), (''Critical'', ''LOG_LEVEL_CRITICAL'')]"

definition logLevelList :: "(string \<times> string) list" where
  "logLevelList = filter (\<lambda>(key, _). key \<noteq> ''Unspecified'') LogLevelFromApi_entries"

text \<open>
  The filter; \<open>'d\<close> is a moment of the date package.  A date is absent, cleared (\<open>null\<close>) or set.
\<close>

record 'd TrialLogFilter =
  tl_agentIds :: "string list option"
  tl_containerIds :: "string list option"
  tl_levels :: "string list option"
  tl_rankIds :: "number list option"
  tl_sources :: "string list option"
  tl_stdtypes :: "string list option"
  tl_timestampAfter :: "'d option option"
  tl_timestampBefore :: "'d option option"

definition onClear :: "'d TrialLogFilter" where
  "onClear = \<lparr>tl_agentIds = None, tl_containerIds = None, tl_levels = None, tl_rankIds = None, tl_sources = None,
     tl_stdtypes = None, tl_timestampAfter = None, tl_timestampBefore = None\<rparr>"

definition onAgentChange :: "string list \<Rightarrow> 'd TrialLogFilter \<Rightarrow> 'd TrialLogFilter" where
  "onAgentChange v f = f\<lparr>tl_agentIds := Some v\<rparr>"

definition onContainerChange :: "string list \<Rightarrow> 'd TrialLogFilter \<Rightarrow> 'd TrialLogFilter" where
  "onContainerChange v f = f\<lparr>tl_containerIds := Some v\<rparr>"

text \<open>\<open>num\<close> is \<open>Number\<close> on strings.\<close>

definition onRankChange :: "(string \<Rightarrow> number) \<Rightarrow> string list \<Rightarrow> 'd TrialLogFilter \<Rightarrow> 'd TrialLogFilter" where
  "onRankChange num v f = f\<lparr>tl_rankIds := Some (map num v)\<rparr>"

definition onLevelChange :: "string list \<Rightarrow> 'd TrialLogFilter \<Rightarrow> 'd TrialLogFilter" where
  "onLevelChange v f = f\<lparr>tl_levels := Some v\<rparr>"

text \<open>The date and time chosen are read again as universal time; \<open>format\<close> and \<open>utc\<close> are the date package's.\<close>

definition date_utc :: "('d \<Rightarrow> string) \<Rightarrow> (string \<Rightarrow> 'd) \<Rightarrow> 'd option \<Rightarrow> 'd option" where
  "date_utc format utc date = map_option (\<lambda>d. utc (take 19 (format d))) date"

definition onAfterDateChange ::
  "('d \<Rightarrow> string) \<Rightarrow> (string \<Rightarrow> 'd) \<Rightarrow> 'd option \<Rightarrow> 'd TrialLogFilter \<Rightarrow> 'd TrialLogFilter" where
  "onAfterDateChange format utc date f = f\<lparr>tl_timestampAfter := Some (date_utc format utc date)\<rparr>"

definition onBeforeDateChange ::
  "('d \<Rightarrow> string) \<Rightarrow> (string \<Rightarrow> 'd) \<Rightarrow> 'd option \<Rightarrow> 'd TrialLogFilter \<Rightarrow> 'd TrialLogFilter" where
  "onBeforeDateChange format utc date f = f\<lparr>tl_timestampBefore := Some (date_utc format utc date)\<rparr>"

text \<open>The event of the stream of fields; ranks are compared by their texts.\<close>

record LogFields =
  lf_agentIds :: "string list option"
  lf_containerIds :: "string list option"
  lf_rankIds :: "int list option"

definition fields_event :: "(string \<Rightarrow> string \<Rightarrow> int) \<Rightarrow> LogFields \<Rightarrow> LogFields" where
  "fields_event lc event = \<lparr>
     lf_agentIds = map_option (js_sort (alphanumericSorter lc)) (lf_agentIds event),
     lf_containerIds = map_option (js_sort (alphanumericSorter lc)) (lf_containerIds event),
     lf_rankIds = map_option (js_sort (\<lambda>a b. alphanumericSorter lc (show_int a) (show_int b))) (lf_rankIds event)\<rparr>"

definition availableFilters :: "(string \<Rightarrow> string \<Rightarrow> int) \<Rightarrow> LogFields list \<Rightarrow> LogFields option" where
  "availableFilters lc events = foldl (\<lambda>_ e. Some (fields_event lc e)) None events"

definition filters_hidden :: "LogFields option \<Rightarrow> bool" where
  "filters_hidden a = (case a of None \<Rightarrow> False
     | Some f \<Rightarrow> (lf_agentIds f = None \<or> lf_agentIds f = Some []) \<and> (lf_containerIds f = None \<or> lf_containerIds f = Some [])
         \<and> (lf_rankIds f = None \<or> lf_rankIds f = Some []))"

text \<open>The options of the selects for agents, containers, ranks and levels, as value and children.\<close>

definition agent_options :: "LogFields option \<Rightarrow> (string \<times> OptionChildren) list" where
  "agent_options a = map (\<lambda>i. (i, TextChild i)) (case a of None \<Rightarrow> []
     | Some f \<Rightarrow> (case lf_agentIds f of None \<Rightarrow> [] | Some is \<Rightarrow> is))"

definition container_options :: "LogFields option \<Rightarrow> (string \<times> OptionChildren) list" where
  "container_options a = map (\<lambda>i. (i, TextChild i)) (case a of None \<Rightarrow> []
     | Some f \<Rightarrow> (case lf_containerIds f of None \<Rightarrow> [] | Some is \<Rightarrow> is))"

definition rank_options :: "LogFields option \<Rightarrow> (int \<times> OptionChildren) list" where
  "rank_options a = map (\<lambda>i. (i, OtherChild)) (case a of None \<Rightarrow> []
     | Some f \<Rightarrow> (case lf_rankIds f of None \<Rightarrow> [] | Some is \<Rightarrow> is))"

definition level_options :: "(string \<times> OptionChildren) list" where
  "level_options = map (\<lambda>(label, v). (v, TextChild label)) logLevelList"

text \<open>The options left by a search.\<close>

definition searched :: "string \<Rightarrow> ('v \<times> OptionChildren) list \<Rightarrow> 'v list" where
  "searched search options = map fst (filter (\<lambda>(_, c). sf_handleFilter search c) options)"

lemma contains_Nil [simp]: "contains [] s"
  by (cases s) auto

lemma availableFilters_last:
  "availableFilters lc events = (if events = [] then None else Some (fields_event lc (last events)))"
  by (induction events rule: rev_induct) (simp_all add: availableFilters_def)

lemma searched_agents:
  "searched s (agent_options a) = filter (\<lambda>i. i \<noteq> [] \<and> contains (toLowerCase s) (toLowerCase i)) (map fst (agent_options a))"
  by (simp add: searched_def agent_options_def filter_map o_def sf_handleFilter_def option_label_def)
     (intro arg_cong [where f = "\<lambda>p. filter p _"] ext, auto)

lemma str_comparator: "comparator str_cmp"
  by unfold_locales (rule str_cmp_antisym, rule str_cmp_trans)

lemma comparator_on: "comparator lc \<Longrightarrow> comparator (\<lambda>a b. lc (f a) (f b))"
  unfolding comparator_def by blast

lemma toLowerCase_Nil [simp]: "toLowerCase [] = []"
  by (simp add: toLowerCase_def)

text \<open>
  The options of the filters of a trial's logs.  The last event of the stream decides them, each list sorted.
  A search for agents, with the empty text too, leaves those whose name contains the text in any case; the levels are
  all but the unspecified one; but a search for ranks leaves none, whatever the text, since their options hold numbers.
  The filters disappear when the last event lists nothing.
\<close>

theorem log_filter_options:
  assumes "comparator lc"
  shows "(availableFilters lc (es @ [e]) = Some (fields_event lc e))
    \<and> mset (map fst (agent_options (availableFilters lc (es @ [e])))) = mset (concat (case lf_agentIds e of None \<Rightarrow> [] | Some l \<Rightarrow> [l]))
    \<and> sorted_wrt (\<lambda>a b. lc a b \<le> 0) (map fst (agent_options (availableFilters lc (es @ [e]))))
    \<and> sorted_wrt (\<lambda>a b. lc a b \<le> 0) (map fst (container_options (availableFilters lc (es @ [e]))))
    \<and> sorted_wrt (\<lambda>a b. lc (show_int a) (show_int b) \<le> 0) (map fst (rank_options (availableFilters lc (es @ [e]))))
    \<and> searched s (agent_options a)
        = filter (\<lambda>i. i \<noteq> [] \<and> contains (toLowerCase s) (toLowerCase i)) (map fst (agent_options a))
    \<and> searched s (rank_options a) = []
    \<and> map fst level_options = remove1 ''LOG_LEVEL_UNSPECIFIED'' (map snd LogLevelFromApi_entries)
    \<and> (filters_hidden (availableFilters lc (es @ [e])) \<longleftrightarrow>
         lf_agentIds e \<in> {None, Some []} \<and> lf_containerIds e \<in> {None, Some []} \<and> lf_rankIds e \<in> {None, Some []})"
proof -
  define f where "f = fields_event lc e"
  have f: "availableFilters lc (es @ [e]) = Some f" by (simp add: availableFilters_last f_def)
  have sorted: "sorted_wrt (\<lambda>a b. lc (g a) (g b) \<le> 0) (js_sort (\<lambda>a b. alphanumericSorter lc (g a) (g b)) xs)"
    for g :: "'b \<Rightarrow> string" and xs
    using comparator.sorted_js_sort [OF comparator_on [OF assms], of g xs] by (simp add: alphanumericSorter_def)
  have names: "sorted_wrt (\<lambda>a b. lc a b \<le> 0) (js_sort (alphanumericSorter lc) xs)" for xs
    using comparator.sorted_js_sort [OF assms, of xs] by (simp add: alphanumericSorter_def [abs_def])
  have levels: "map fst level_options = remove1 ''LOG_LEVEL_UNSPECIFIED'' (map snd LogLevelFromApi_entries)"
    by (simp add: level_options_def logLevelList_def LogLevelFromApi_entries_def)
  have js_sort_Nil: "js_sort cmp xs = [] \<longleftrightarrow> xs = []" for cmp and xs :: "'c list"
    by (metis length_0_conv length_js_sort)
  have hidden: "filters_hidden (Some f) \<longleftrightarrow>
      lf_agentIds e \<in> {None, Some []} \<and> lf_containerIds e \<in> {None, Some []} \<and> lf_rankIds e \<in> {None, Some []}"
    by (cases "lf_agentIds e"; cases "lf_containerIds e"; cases "lf_rankIds e")
      (simp_all add: filters_hidden_def f_def fields_event_def flip: length_0_conv)
  have agents: "map fst (agent_options (Some f)) = (case lf_agentIds e of None \<Rightarrow> [] | Some l \<Rightarrow> js_sort (alphanumericSorter lc) l)"
    by (simp add: agent_options_def f_def fields_event_def o_def split: option.split)
  have containers: "map fst (container_options (Some f)) =
      (case lf_containerIds e of None \<Rightarrow> [] | Some l \<Rightarrow> js_sort (alphanumericSorter lc) l)"
    by (simp add: container_options_def f_def fields_event_def o_def split: option.split)
  have ranks: "map fst (rank_options (Some f)) = (case lf_rankIds e of None \<Rightarrow> []
      | Some l \<Rightarrow> js_sort (\<lambda>a b. alphanumericSorter lc (show_int a) (show_int b)) l)"
    by (simp add: rank_options_def f_def fields_event_def o_def split: option.split)
  have no_rank: "searched s (rank_options a) = []"
    by (auto simp: searched_def rank_options_def sf_handleFilter_def option_label_def filter_empty_conv)
  show ?thesis
    unfolding f hidden agents containers ranks
    using names sorted [of show_int] levels no_rank searched_agents f_def
    by (simp split: option.split)
qed

theorem log_filter_options_witness:
  "map fst (agent_options (availableFilters str_cmp [\<lparr>lf_agentIds = Some [''b'', ''a''], lf_containerIds = None, lf_rankIds = Some [0]\<rparr>]))
     = [''a'', ''b'']
   \<and> searched ''0'' (rank_options (availableFilters str_cmp [\<lparr>lf_agentIds = None, lf_containerIds = None, lf_rankIds = Some [0]\<rparr>]))
     = []"
proof
  define e where "e = \<lparr>lf_agentIds = Some [''b'', ''a''], lf_containerIds = None, lf_rankIds = Some [0 :: int]\<rparr>"
  have "availableFilters str_cmp ([] @ [e]) = Some (fields_event str_cmp e)"
    by (rule log_filter_options [THEN conjunct1]) (rule str_comparator)
  then have "availableFilters str_cmp [e] = Some (fields_event str_cmp e)" by simp
  moreover have "map fst (agent_options (Some (fields_event str_cmp e))) = [''a'', ''b'']"
    unfolding e_def by code_simp
  ultimately show "map fst (agent_options (availableFilters str_cmp [e])) = [''a'', ''b'']" by simp
  show "searched ''0'' (rank_options (availableFilters str_cmp [\<lparr>lf_agentIds = None, lf_containerIds = None, lf_rankIds = Some [0]\<rparr>])) = []"
    by code_simp
qed

section \<open>Collapsing, buttons and batches\<close>

text \<open>\<open>ResponsiveFilters\<close>: the effect on the height of the container.\<close>

record ResponsiveState =
  rf_isCollapsed :: bool
  rf_initVisible :: bool

definition rf_initial :: ResponsiveState where
  "rf_initial = \<lparr>rf_isCollapsed = False, rf_initVisible = True\<rparr>"

definition rf_effect :: "int \<Rightarrow> ResponsiveState \<Rightarrow> ResponsiveState" where
  "rf_effect height st =
     (if \<not> rf_isCollapsed st \<and> height > 48 then \<lparr>rf_isCollapsed = True, rf_initVisible = False\<rparr> else st)"

text \<open>The classes of the container, the styles of the module under their own names.\<close>

definition rf_classes :: "bool \<Rightarrow> ResponsiveState \<Rightarrow> string list" where
  "rf_classes applied st = [''base'']
     @ (if applied then [''filtersApplied''] else [])
     @ (if rf_isCollapsed st then [''responsive-filters-collapsed'', ''collapsed''] else [])"

definition button_classes :: "FilterButton \<Rightarrow> string list" where
  "button_classes b = [''button''] @ (if fb_active b then [''active''] else [])"

text \<open>\<open>TableBatch\<close>: the message and whether it shows.\<close>

definition batch_message :: "nat option \<Rightarrow> string" where
  "batch_message selectedRowCount =
     (let n = (case selectedRowCount of Some n \<Rightarrow> n | None \<Rightarrow> 0)
      in ''Apply batch operations to '' @ show_nat n @ '' item'' @ (if n = 1 then [] else ''s''))"

definition batch_shown :: "nat option \<Rightarrow> bool" where
  "batch_shown selectedRowCount = ((case selectedRowCount of Some n \<Rightarrow> n | None \<Rightarrow> 0) > 0)"

text \<open>Once collapsed the filters stay collapsed; they collapse as soon as they were ever higher than 48.\<close>

lemma rf_collapsed:
  "rf_isCollapsed (fold rf_effect heights st) \<longleftrightarrow> rf_isCollapsed st \<or> (\<exists>h \<in> set heights. h > 48)"
  by (induction heights arbitrary: st) (auto simp: rf_effect_def)

end
