(* ===== verification/Theme.thy ===== *)
theory Theme
  imports Data_Util
begin

text \<open>
  \<^verbatim>\<open>themes.ts\<close> and \<^verbatim>\<open>hooks/useTheme.ts\<close>: the theme as a nested object, its flattening to the variables of the style
  sheets, and the effect that sets them on the root of the document.
\<close>

section \<open>The theme\<close>

definition lightTheme :: js where
  "lightTheme = Obj [
      (''animationCurve'', Str ''0.2s cubic-bezier(0.785, 0.135, 0.15, 0.86)''),
      (''colors'', Obj [
        (''action'', Obj [
          (''dark'', Str ''#0088cc''), (''light'', Str ''#00b2ff''), (''normal'', Str ''#009bde'')]),
        (''base'', Arr [
          Str ''#0d1e2b'', Str ''#132231'', Str ''#1f2d3c'', Str ''#273847'', Str ''#334251'',
          Str ''#3d4c5a'', Str ''#4A5764'', Str ''#55626e'', Str ''#616c78'', Str ''#6B7681'',
          Str ''#77818b'', Str ''#828c95'', Str ''#8d959e'']),
        (''brand'', Obj [
          (''dark'', Str ''#ee6600''), (''light'', Str ''#ff9933''), (''normal'', Str ''#f77b21'')]),
        (''core'', Obj [(''background'', Str ''#f7f7f7''), (''secondary'', Str ''#234B65'')]),
        (''danger'', Obj [
          (''dark'', Str ''#aa0000''), (''light'', Str ''#ee0000''), (''normal'', Str ''#cc0000'')]),
        (''monochrome'', Arr [
          Str ''#000000'', Str ''#080808'', Str ''#141414'', Str ''#1d1d1d'', Str ''#2b2b2b'',
          Str ''#333333'', Str ''#444444'', Str ''#666666'', Str ''#888888'', Str ''#aaaaaa'',
          Str ''#bbbbbb'', Str ''#cccccc'', Str ''#dddddd'', Str ''#ececec'', Str ''#f2f2f2'',
          Str ''#f7f7f7'', Str ''#fafafa'', Str ''#ffffff'']),
        (''overlay'', Str ''rgba(255, 255, 255, 0.75)''),
        (''states'', Obj [
          (''active'', Str ''#009bde''), (''failed'', Str ''#cc0000''), (''free'', Str ''#f7f7f7''),
          (''inactive'', Str ''#666666''), (''pending'', Str ''#6666cc''), (''success'', Str ''#009900''),
          (''suspended'', Str ''#cc9900'')])]),
      (''focus'', Obj [(''shadow'', Str ''0 0 0 0.2rem rgba(0, 155, 222, 0.25)'')]),
      (''font'', Obj [(''family'', Str ''Objektiv Mk3'')]),
      (''outline'', Str ''0 0 0.4rem 0 #009bde''),
      (''shadow'', Str ''0.2rem 0.2rem 0.4rem 0 rgba(0, 0, 0, 0.25)''),
      (''sizes'', Obj [
        (''border'', Obj [(''radius'', Str ''0.4rem''), (''width'', Str ''0.1rem'')]),
        (''font'', Obj [
          (''micro'', Str ''1.0rem''), (''tiny'', Str ''1.1rem''), (''small'', Str ''1.2rem''),
          (''medium'', Str ''1.4rem''), (''large'', Str ''1.6rem''), (''big'', Str ''1.8rem''),
          (''great'', Str ''2.0rem''), (''huge'', Str ''2.2rem''), (''enormous'', Str ''2.4rem''),
          (''giant'', Str ''2.8rem''), (''jumbo'', Str ''3.6rem''), (''mega'', Str ''4rem'')]),
        (''icon'', Obj [
          (''tiny'', Str ''1.2rem''), (''small'', Str ''1.6rem''), (''medium'', Str ''2rem''),
          (''large'', Str ''2.4rem'')]),
        (''layout'', Obj [
          (''micro'', Str ''0.2rem''), (''tiny'', Str ''0.4rem''), (''small'', Str ''0.6rem''),
          (''medium'', Str ''0.8rem''), (''large'', Str ''1.2rem''), (''big'', Str ''1.6rem''),
          (''great'', Str ''1.8rem''), (''huge'', Str ''2rem''), (''enormous'', Str ''2.4rem''),
          (''giant'', Str ''3.2rem''), (''jumbo'', Str ''3.6rem''), (''mega'', Str ''4rem'')]),
        (''navigation'', Obj [
          (''maxWidth'', Str ''24rem''), (''minWidth'', Str ''5.6rem''),
          (''toolbarHeight'', Str ''5.6rem''), (''topbarHeight'', Str ''5.6rem'')])])]"

datatype ThemeId = ThemeId_Light | ThemeId_Dark

definition defaultThemeId :: ThemeId where
  "defaultThemeId = ThemeId_Light"

fun themes :: "ThemeId \<Rightarrow> js" where
  "themes ThemeId_Dark = lightTheme"
| "themes ThemeId_Light = lightTheme"

section \<open>Flattening\<close>

text \<open>
  \<open>isObject\<close> holds of arrays too, so the first branch of the code handles them with their positions as keys, which is what
  its second branch would do.  \<open>{ ...acc, ...sub }\<close>:
\<close>

definition spread_onto :: "(string \<times> 'v) list \<Rightarrow> (string \<times> 'v) list \<Rightarrow> (string \<times> 'v) list" where
  "spread_onto acc sub = foldl (\<lambda>o' (k, v). obj_set k v o') acc sub"

fun flattenTheme :: "js \<Rightarrow> string \<Rightarrow> (string \<times> js) list"
  and flatten_entries :: "(string \<times> js) list \<Rightarrow> string \<Rightarrow> (string \<times> js) list list"
  and flatten_items :: "js list \<Rightarrow> string \<Rightarrow> nat \<Rightarrow> (string \<times> js) list list" where
  "flattenTheme (Obj ps) basePath = foldl spread_onto [] (flatten_entries ps basePath)"
| "flattenTheme (Arr vs) basePath = foldl spread_onto [] (flatten_items vs basePath 0)"
| "flattenTheme (MapV m) basePath = []"
| "flattenTheme (SetV m) basePath = []"
| "flattenTheme v basePath = [(basePath, v)]"
| "flatten_entries [] basePath = []"
| "flatten_entries ((k, v) # ps) basePath = flattenTheme v (basePath @ ''-'' @ k) # flatten_entries ps basePath"
| "flatten_items [] basePath i = []"
| "flatten_items (v # vs) basePath i = flattenTheme v (basePath @ ''-'' @ show_nat i) # flatten_items vs basePath (Suc i)"

text \<open>The effect: every variable of the theme is set on the root element, which may hold others.\<close>

definition theme_effect :: "ThemeId \<Rightarrow> (string \<times> js) list \<Rightarrow> (string \<times> js) list" where
  "theme_effect themeId el =
     foldl (\<lambda>o' (key, v). obj_set (''--'' @ key) v o') el (flattenTheme (themes themeId) ''theme'')"

text \<open>\<open>var(--x)\<close> in a style: the value of the variable on the root element.\<close>

definition css_var :: "(string \<times> js) list \<Rightarrow> string \<Rightarrow> js option" where
  "css_var el expr = (case find (\<lambda>(n, _). expr = ''var('' @ n @ '')'') el of
      Some (_, v) \<Rightarrow> Some v | None \<Rightarrow> None)"

section \<open>Lemmas\<close>

lemma map_of_foldl_obj_set:
  "map_of (foldl (\<lambda>o' (k, v). obj_set (f k) v o') acc sub) x =
     (case map_of (rev (map (\<lambda>(k, v). (f k, v)) sub)) x of Some v \<Rightarrow> Some v | None \<Rightarrow> map_of acc x)"
  by (induction sub arbitrary: acc) (auto simp: map_add_def split: option.splits)

lemma map_of_spread_onto:
  "map_of (spread_onto acc sub) x = (case map_of (rev sub) x of Some v \<Rightarrow> Some v | None \<Rightarrow> map_of acc x)"
  using map_of_foldl_obj_set [of "\<lambda>x. x" acc sub x] by (simp add: spread_onto_def)

lemma distinct_spread_onto: "distinct (map fst acc) \<Longrightarrow> distinct (map fst (spread_onto acc sub))"
  unfolding spread_onto_def by (induction sub arbitrary: acc) auto

lemma distinct_foldl_spread: "distinct (map fst acc) \<Longrightarrow> distinct (map fst (foldl spread_onto acc subs))"
  by (induction subs arbitrary: acc) (auto simp: distinct_spread_onto)

text \<open>No variable is given twice.\<close>

lemma flattenTheme_distinct: "distinct (map fst (flattenTheme v p))"
  by (cases v) (simp_all add: distinct_foldl_spread)

lemma css_var_map_of: "css_var el (''var('' @ n @ '')'') = map_of el n"
proof -
  have "find (\<lambda>(m, _). ''var('' @ n @ '')'' = ''var('' @ m @ '')'') el = find (\<lambda>(m, _). m = n) el"
    by (intro arg_cong2 [where f = find] refl ext) auto
  moreover have "(case find (\<lambda>(m, _). m = n) el of Some (_, v) \<Rightarrow> Some v | None \<Rightarrow> None) = map_of el n"
    by (induction el) auto
  ultimately show ?thesis by (simp add: css_var_def)
qed

lemma map_of_rev_distinct: "distinct (map fst xs) \<Longrightarrow> map_of (rev xs) x = map_of xs x"
proof (cases "map_of xs x")
  case None
  then have "map_of (rev xs) x = None" by (simp add: map_of_eq_None_iff)
  then show ?thesis using None by simp
next
  case (Some v)
  assume d: "distinct (map fst xs)"
  then have "distinct (map fst (rev xs))" by (simp flip: rev_map)
  moreover have "(x, v) \<in> set (rev xs)" using map_of_SomeD [OF Some] by simp
  ultimately show ?thesis using Some map_of_is_SomeI [of "rev xs" x v] by simp
qed

lemma theme_effect_var:
  "css_var (theme_effect t el) (''var(--'' @ n @ '')'') =
     (case map_of (flattenTheme (themes t) ''theme'') n of
        Some v \<Rightarrow> Some v | None \<Rightarrow> css_var el (''var(--'' @ n @ '')''))"
proof -
  define ps where "ps = flattenTheme (themes t) ''theme''"
  define qs where "qs = map (\<lambda>(k, v). (''--'' @ k, v)) ps"
  have d: "distinct (map fst ps)" by (simp add: ps_def flattenTheme_distinct)
  moreover have "map fst qs = map (\<lambda>k. ''--'' @ k) (map fst ps)" by (simp add: qs_def case_prod_unfold)
  ultimately have "distinct (map fst qs)" by (simp add: distinct_map inj_on_def)
  moreover have "map_of qs (''--'' @ n) = map_of ps n" unfolding qs_def by (induction ps) auto
  ultimately have "map_of (rev (map (\<lambda>(k, v). (''--'' @ k, v)) ps)) (''--'' @ n) = map_of ps n"
    using map_of_rev_distinct [of qs "''--'' @ n"] by (simp add: qs_def)
  then have b: "map_of (theme_effect t el) (''--'' @ n) =
      (case map_of ps n of Some v \<Rightarrow> Some v | None \<Rightarrow> map_of el (''--'' @ n))"
    unfolding theme_effect_def ps_def [symmetric] map_of_foldl_obj_set by (simp only:)
  have a: "css_var r (''var(--'' @ n @ '')'') = map_of r (''--'' @ n)" for r
    using css_var_map_of [of r "''--'' @ n"] by simp
  show ?thesis unfolding a b ps_def ..
qed

definition theme_states :: "(string \<times> string) list" where
  "theme_states = [(''active'', ''#009bde''), (''failed'', ''#cc0000''), (''free'', ''#f7f7f7''),
     (''inactive'', ''#666666''), (''pending'', ''#6666cc''), (''success'', ''#009900''), (''suspended'', ''#cc9900'')]"

text \<open>Looking a variable up without building the list of all.\<close>

fun lookups :: "(string \<times> js) list list \<Rightarrow> string \<Rightarrow> js option" where
  "lookups [] x = None"
| "lookups (sub # subs) x = (case lookups subs x of Some v \<Rightarrow> Some v | None \<Rightarrow> map_of sub x)"

lemma map_of_spread_all:
  "\<forall>sub \<in> set subs. distinct (map fst sub) \<Longrightarrow>
    map_of (foldl spread_onto acc subs) x = (case lookups subs x of Some v \<Rightarrow> Some v | None \<Rightarrow> map_of acc x)"
  by (induction subs arbitrary: acc) (auto simp: map_of_spread_onto map_of_rev_distinct split: option.split)

lemma flatten_entries_distinct: "sub \<in> set (flatten_entries ps p) \<Longrightarrow> distinct (map fst sub)"
  by (induction ps) (auto simp: flattenTheme_distinct)

lemma flatten_items_distinct: "sub \<in> set (flatten_items vs p i) \<Longrightarrow> distinct (map fst sub)"
  by (induction vs arbitrary: i) (auto simp: flattenTheme_distinct)

lemma lookup_Obj: "map_of (flattenTheme (Obj ps) p) x = lookups (flatten_entries ps p) x"
  using map_of_spread_all [of "flatten_entries ps p" "[]" x] flatten_entries_distinct by (auto split: option.split)

lemma lookup_Arr: "map_of (flattenTheme (Arr vs) p) x = lookups (flatten_items vs p 0) x"
  using map_of_spread_all [of "flatten_items vs p 0" "[]" x] flatten_items_distinct by (auto split: option.split)

lemma theme_states_flat:
  "list_all (\<lambda>(n, c). map_of (flattenTheme lightTheme ''theme'') (''theme-colors-states-'' @ n) = Some (Str c)) theme_states"
  by (simp add: lightTheme_def theme_states_def lookup_Obj lookup_Arr
      del: flattenTheme.simps(1,2))

end
