(* ===== verification/Widgets.thy ===== *)
theory Widgets
  imports Theme Experiment_List String_Util Md5 Task_Util Trial_Util Contexts
begin

text \<open>
  Small components: the colours of states (\<^verbatim>\<open>themes.ts\<close>), badges, bars, the bar of slots, the chart of resources,
  avatars, numbers for people, the renderers and helpers of tables, dropdowns and the navigation
  (\<^verbatim>\<open>components/\<close>).  Style names of a module stand for themselves.
\<close>

section \<open>Colours of states\<close>

text \<open>An object literal with computed keys: a key that comes twice keeps its place and takes the later value.\<close>

definition literal :: "(string \<times> 'v) list \<Rightarrow> (string \<times> 'v) list" where
  "literal ps = foldl (\<lambda>o' (k, v). obj_set k v o') [] ps"

definition stateColorMapping :: "(string \<times> string) list" where
  "stateColorMapping = literal [
     (str_RunState RunState_Active, ''active''),
     (str_RunState RunState_Canceled, ''inactive''),
     (str_RunState RunState_Completed, ''success''),
     (str_RunState RunState_Deleted, ''failed''),
     (str_RunState RunState_Errored, ''failed''),
     (str_RunState RunState_Paused, ''suspended''),
     (str_RunState RunState_StoppingCanceled, ''inactive''),
     (str_RunState RunState_StoppingCompleted, ''success''),
     (str_RunState RunState_StoppingError, ''failed''),
     (str_RunState RunState_Unspecified, ''inactive''),
     (str_CommandState CommandState_Pending, ''suspended''),
     (str_CommandState CommandState_Assigned, ''suspended''),
     (str_CommandState CommandState_Pulling, ''active''),
     (str_CommandState CommandState_Starting, ''active''),
     (str_CommandState CommandState_Running, ''active''),
     (str_CommandState CommandState_Terminating, ''inactive''),
     (str_CommandState CommandState_Terminated, ''inactive''),
     (str_ResourceState ResourceState_Unspecified, ''inactive''),
     (str_SlotState SlotState_Free, ''free''),
     (str_SlotState SlotState_Pending, ''pending''),
     (str_SlotState SlotState_Running, ''active'')]"

text \<open>A state is the string it stands for; \<open>None\<close> for \<open>undefined\<close>, as is a missing entry when it is printed.\<close>

definition getStateColorCssVar :: "string option \<Rightarrow> string" where
  "getStateColorCssVar state =
     (let name = (case state of
            Some s \<Rightarrow> if s = [] then ''active'' else (case map_of stateColorMapping s of Some n \<Rightarrow> n | None \<Rightarrow> ''undefined'')
          | None \<Rightarrow> ''active'')
      in ''var(--theme-colors-states-'' @ name @ '')'')"

text \<open>\<open>getPropertyValue\<close> is the browser's reading of the computed style of the body.\<close>

definition getStateColor :: "(string \<Rightarrow> string) \<Rightarrow> string option \<Rightarrow> string" where
  "getStateColor getPropertyValue state = getPropertyValue (getStateColorCssVar state)"

section \<open>Badges and bars\<close>

datatype BadgeType = Badge_Default | Badge_Header | Badge_Id | Badge_State

text \<open>A badge: its classes, background and text colour, and its content; \<open>children\<close> are given as text, if any.\<close>

record BadgeView =
  bv_classes :: "string list"
  bv_backgroundColor :: "string option"
  bv_color :: "string option"
  bv_content :: "string option"

definition badge_view :: "string \<Rightarrow> BadgeType \<Rightarrow> string option \<Rightarrow> BadgeView" where
  "badge_view state type children = \<lparr>
     bv_classes = [''base''] @ (case type of
         Badge_State \<Rightarrow> [''state''] | Badge_Id \<Rightarrow> [''id''] | Badge_Header \<Rightarrow> [''header''] | Badge_Default \<Rightarrow> []),
     bv_backgroundColor = (if type = Badge_State then Some (getStateColorCssVar (Some state)) else None),
     bv_color = (if type = Badge_State \<and> state = str_SlotState SlotState_Free then Some ''#234b65'' else None),
     bv_content = (case children of
         Some c \<Rightarrow> if c \<noteq> [] then Some c
                   else if type = Badge_State \<and> state \<noteq> [] then stateToLabel state else None
       | None \<Rightarrow> if type = Badge_State \<and> state \<noteq> [] then stateToLabel state else None)\<rparr>"

record BarPart =
  bp_color :: string
  bp_label :: "string option"
  bp_percent :: number

definition partStyle :: "BarPart \<Rightarrow> string \<times> string" where
  "partStyle part = (bp_color part, floatToPercent (bp_percent part) 0)"

definition bar_parts :: "BarPart list \<Rightarrow> BarPart list" where
  "bar_parts parts = filter (\<lambda>part. bp_percent part \<noteq> Fin 0 \<and> bp_percent part \<noteq> NaN) parts"

definition bar_height :: "string option \<Rightarrow> string" where
  "bar_height sz = ''var(--theme-sizes-layout-'' @ (case sz of
      Some s \<Rightarrow> if s = [] then ''tiny'' else s | None \<Rightarrow> ''tiny'') @ '')''"

text \<open>\<open>num_str\<close> is the notation of numbers.\<close>

definition progress_parts :: "(number \<Rightarrow> string) \<Rightarrow> number \<Rightarrow> string \<Rightarrow> BarPart list" where
  "progress_parts num_str pc state = [\<lparr>
     bp_color = getStateColorCssVar (Some state),
     bp_label = Some (num_str pc @ ''%''),
     bp_percent = num_div pc (Fin 100)\<rparr>]"

section \<open>The bar of slots\<close>

text \<open>An undefined state, which the decoder may leave, gets a property of its own (\<open>NaN\<close>) that the bar does not read.\<close>

definition stateTallies :: "ResourceState option list \<Rightarrow> ResourceState \<Rightarrow> nat" where
  "stateTallies states = foldl (\<lambda>tally state. case state of
       Some s \<Rightarrow> tally(s := tally s + 1) | None \<Rightarrow> tally) (\<lambda>_. 0) states"

definition freeSlots :: "ResourceState option list \<Rightarrow> int \<Rightarrow> int" where
  "freeSlots states totalSlots = totalSlots - int (length states)"

definition pendingSlots :: "ResourceState option list \<Rightarrow> int" where
  "pendingSlots states = int (length states) - int (stateTallies states ResourceState_Running)"

definition slot_ratio :: "int \<Rightarrow> int \<Rightarrow> number" where
  "slot_ratio n totalSlots = num_div (Fin (of_int n)) (Fin (of_int totalSlots))"

definition slot_parts :: "ResourceState option list \<Rightarrow> int \<Rightarrow> BarPart list" where
  "slot_parts states totalSlots = [
     \<lparr>bp_color = getStateColorCssVar (Some (str_SlotState SlotState_Running)), bp_label = None,
      bp_percent = slot_ratio (int (stateTallies states ResourceState_Running)) totalSlots\<rparr>,
     \<lparr>bp_color = getStateColorCssVar (Some (str_SlotState SlotState_Pending)), bp_label = None,
      bp_percent = slot_ratio (pendingSlots states) totalSlots\<rparr>,
     \<lparr>bp_color = getStateColorCssVar (Some (str_SlotState SlotState_Free)), bp_label = None,
      bp_percent = slot_ratio (freeSlots states totalSlots) totalSlots\<rparr>]"

definition slot_header :: "ResourceState option list \<Rightarrow> int \<Rightarrow> string" where
  "slot_header states totalSlots =
     (if totalSlots = 0 then ''0/0''
      else show_nat (length states) @ ''/'' @ show_int totalSlots
        @ (if totalSlots > 0 then '' ('' @ floatToPercent (slot_ratio (int (length states)) totalSlots) 0 @ '')'' else []))"

text \<open>The legends: the overall ones, and those of single states that a popover shows, as count, colour and label.\<close>

definition legend_text :: "int \<Rightarrow> int \<Rightarrow> bool \<Rightarrow> string" where
  "legend_text n totalSlots showPercentage = show_int n @ '' ''
     @ (if showPercentage then ''('' @ floatToPercent (slot_ratio n totalSlots) 0 @ '')'' else [])"

definition detail_states :: "ResourceState list" where
  "detail_states = [ResourceState_Assigned, ResourceState_Pulling, ResourceState_Starting, ResourceState_Running]"

definition slot_details :: "ResourceState option list \<Rightarrow> (int \<times> string \<times> string option) list" where
  "slot_details states = map (\<lambda>s. (int (stateTallies states s),
      str_SlotState (if s = ResourceState_Running then SlotState_Running else SlotState_Pending),
      map_of resourceStateToLabel (str_ResourceState s))) detail_states"

definition overall_legends :: "ResourceState option list \<Rightarrow> int \<Rightarrow> (int \<times> SlotState) list" where
  "overall_legends states totalSlots =
     [(int (stateTallies states ResourceState_Running), SlotState_Running), (pendingSlots states, SlotState_Pending),
      (freeSlots states totalSlots, SlotState_Free)]"

section \<open>The chart of resources\<close>

record PlotInfo =
  pi_labels :: "string list"
  pi_values :: "number list"
  pi_colors :: "string list"
  pi_textinfo :: string
  pi_text :: string

definition resource_states :: "Resource list \<Rightarrow> ResourceState option list" where
  "resource_states resources = map (\<lambda>r. case res_container r of
      Some c \<Rightarrow> cont_state c | None \<Rightarrow> Some ResourceState_Unspecified) resources"

text \<open>The entries of the tally in its order, an undefined state last with the value \<open>NaN\<close>.\<close>

definition tally_entries :: "Resource list \<Rightarrow> (string \<times> number) list" where
  "tally_entries resources =
     map (\<lambda>s. (str_ResourceState s, Fin (of_nat (stateTallies (resource_states resources) s)))) resourceStates
     @ (if None \<in> set (resource_states resources) then [(''undefined'', NaN)] else [])"

definition genPlotInfo :: "(string \<Rightarrow> string) \<Rightarrow> string \<Rightarrow> Resource list \<Rightarrow> PlotInfo" where
  "genPlotInfo getPropertyValue title resources =
     (let entries = filter (\<lambda>(_, n). n \<noteq> Fin 0) (tally_entries resources);
          pie = \<lparr>pi_labels = map (\<lambda>(s, _). if s = str_ResourceState ResourceState_Unspecified then ''FREE'' else s) entries,
             pi_values = map snd entries,
             pi_colors = map (\<lambda>(s, _). getStateColor getPropertyValue (Some s)) entries,
             pi_textinfo = ''label+value'',
             pi_text = title @ '' ('' @ show_nat (length resources) @ '')''\<rparr>
      in if filter (\<lambda>v. v \<noteq> Fin 0) (pi_values pie) = []
         then pie\<lparr>pi_labels := [''no '' @ title @ '' available''], pi_values := [Fin 1],
                  pi_colors := [''#ececec''], pi_textinfo := ''label''\<rparr>
         else pie)"

text \<open>\<open>SlotChart\<close>: the plot of the last render is kept as long as it is the same.\<close>

definition plot_of_render :: "(string \<Rightarrow> string) \<Rightarrow> string \<Rightarrow> Resource list option \<Rightarrow> PlotInfo \<Rightarrow> PlotInfo \<times> PlotInfo" where
  "plot_of_render getPropertyValue title resources oldPlotInfo =
     (let new = genPlotInfo getPropertyValue title (case resources of Some rs \<Rightarrow> rs | None \<Rightarrow> [])
      in if new = oldPlotInfo then (oldPlotInfo, oldPlotInfo) else (new, new))"

section \<open>Slots and resources: lemmas\<close>

lemma stateTallies_count: "stateTallies states s = count_list states (Some s)"
proof -
  have "foldl (\<lambda>tally state. case state of Some s \<Rightarrow> tally(s := tally s + 1) | None \<Rightarrow> tally) t states s
      = t s + count_list states (Some s)" for t
    by (induction states arbitrary: t) (auto split: option.split)
  then show ?thesis by (simp add: stateTallies_def)
qed

lemma length_by_state:
  "length states = count_list states None + (\<Sum>s \<leftarrow> resourceStates. count_list states (Some s))"
  for states :: "ResourceState option list"
proof (induction states)
  case Nil
  then show ?case by (simp add: resourceStates_def)
next
  case (Cons a states)
  show ?case
  proof (cases a)
    case None
    then show ?thesis using Cons.IH by (simp add: resourceStates_def)
  next
    case (Some s)
    then show ?thesis using Cons.IH by (cases s) (simp_all add: resourceStates_def)
  qed
qed

lemma slot_counts:
  "pendingSlots states = int (length (filter (\<lambda>s. s \<noteq> Some ResourceState_Running) states))"
proof -
  have "count_list states x + length (filter (\<lambda>s. s \<noteq> x) states) = length states" for x :: "ResourceState option"
    by (induction states) auto
  from this [of "Some ResourceState_Running"] show ?thesis
    by (simp add: pendingSlots_def stateTallies_count)
qed

definition num_rat :: "number \<Rightarrow> rat" where
  "num_rat x = (case x of Fin a \<Rightarrow> a | _ \<Rightarrow> 0)"

text \<open>
  The bar of slots.  Its three parts, running, pending and free, account for every slot: with no more
  allocations than slots each is a share between 0 and 1 and together they are 1, a part of no slots is not drawn, and
  the bar of an empty pool is empty.  Pending counts every allocation that does not run, also one that has ended or
  whose state is unknown; the popover lists the states one by one and misses just these, so its numbers add up to
  fewer than the allocated slots when there are any.
\<close>

theorem slot_bar:
  shows "map fst (overall_legends states totalSlots) = [int (count_list states (Some ResourceState_Running)),
        int (length (filter (\<lambda>s. s \<noteq> Some ResourceState_Running) states)), totalSlots - int (length states)]
    \<and> sum_list (map fst (overall_legends states totalSlots)) = totalSlots
    \<and> (int (length states) \<le> totalSlots \<and> 0 < totalSlots \<longrightarrow>
         (\<forall>p \<in> set (slot_parts states totalSlots). \<exists>x. bp_percent p = Fin x \<and> 0 \<le> x \<and> x \<le> 1)
         \<and> (\<Sum>p \<leftarrow> bar_parts (slot_parts states totalSlots). num_rat (bp_percent p)) = 1)
    \<and> bar_parts (slot_parts [] 0) = []
    \<and> sum_list (map fst (slot_details states)) + int (count_list states None)
        + int (count_list states (Some ResourceState_Terminated))
        + int (count_list states (Some ResourceState_Unspecified)) = int (length states)"
proof (intro conjI impI)
  define r where "r = int (count_list states (Some ResourceState_Running))"
  define p where "p = pendingSlots states"
  define f where "f = freeSlots states totalSlots"
  have rpf: "r + p + f = totalSlots"
    by (simp add: r_def p_def f_def pendingSlots_def freeSlots_def stateTallies_count)
  have tally: "int (stateTallies states ResourceState_Running) = r"
    by (simp add: r_def stateTallies_count)
  show "map fst (overall_legends states totalSlots) = [int (count_list states (Some ResourceState_Running)),
        int (length (filter (\<lambda>s. s \<noteq> Some ResourceState_Running) states)), totalSlots - int (length states)]"
    by (simp add: overall_legends_def stateTallies_count freeSlots_def slot_counts)
  show "sum_list (map fst (overall_legends states totalSlots)) = totalSlots"
    using rpf by (simp add: overall_legends_def tally p_def f_def)
  show "bar_parts (slot_parts [] 0) = []"
    by (simp add: bar_parts_def slot_parts_def slot_ratio_def pendingSlots_def freeSlots_def stateTallies_def signed_inf_def)
  show "sum_list (map fst (slot_details states)) + int (count_list states None)
        + int (count_list states (Some ResourceState_Terminated))
        + int (count_list states (Some ResourceState_Unspecified)) = int (length states)"
    using length_by_state [of states]
    by (simp add: slot_details_def detail_states_def resourceStates_def stateTallies_count)
  assume total: "int (length states) \<le> totalSlots \<and> 0 < totalSlots"
  have pos: "0 \<le> r" "0 \<le> p" "0 \<le> f"
    using total by (simp_all add: r_def p_def f_def slot_counts freeSlots_def)
  have percent: "map bp_percent (slot_parts states totalSlots)
      = [Fin (of_int r / of_int totalSlots), Fin (of_int p / of_int totalSlots), Fin (of_int f / of_int totalSlots)]"
    using total by (simp add: slot_parts_def slot_ratio_def tally p_def f_def)
  have "\<exists>x. b = Fin x \<and> 0 \<le> x \<and> x \<le> 1" if "b \<in> set (map bp_percent (slot_parts states totalSlots))" for b
    using that pos rpf total unfolding percent by (auto simp: field_simps)
  then show "\<forall>p \<in> set (slot_parts states totalSlots). \<exists>x. bp_percent p = Fin x \<and> 0 \<le> x \<and> x \<le> 1"
    by simp
  have shown: "(\<Sum>p \<leftarrow> bar_parts ps. num_rat (bp_percent p)) = sum_list (map num_rat (map bp_percent ps))" for ps
    by (induction ps) (auto simp: bar_parts_def num_rat_def)
  have "(of_int r + of_int p + of_int f :: rat) = of_int totalSlots"
    using rpf by (metis of_int_add)
  then show "(\<Sum>p \<leftarrow> bar_parts (slot_parts states totalSlots). num_rat (bp_percent p)) = 1"
    unfolding shown percent using total by (simp add: num_rat_def add.assoc flip: add_divide_distrib)
qed

theorem slot_bar_witness:
  "(\<Sum>p \<leftarrow> bar_parts (slot_parts [Some ResourceState_Running, Some ResourceState_Terminated] 4). num_rat (bp_percent p)) = 1"
  using slot_bar [of "[Some ResourceState_Running, Some ResourceState_Terminated]" 4]
  by (elim conjE) simp

text \<open>A chart of resources counts each of them once; a container whose state is unspecified counts as free.\<close>

lemma resource_chart_total:
  assumes "\<forall>r \<in> set resources. \<forall>c. res_container r = Some c \<longrightarrow> cont_state c \<noteq> None" and "resources \<noteq> []"
  shows "(\<Sum>v \<leftarrow> pi_values (genPlotInfo gp title resources). num_rat v) = of_nat (length resources)"
proof -
  define states where "states = resource_states resources"
  have no: "None \<notin> set states"
    using assms(1) by (auto simp: states_def resource_states_def split: option.splits)
  define vs where "vs = filter (\<lambda>v. v \<noteq> Fin 0) (map snd (tally_entries resources))"
  have entries: "map snd (tally_entries resources) = map (\<lambda>s. Fin (of_nat (count_list states (Some s)))) resourceStates"
    using no by (simp add: tally_entries_def states_def stateTallies_count o_def)
  have drop: "(\<Sum>v \<leftarrow> filter (\<lambda>v. v \<noteq> Fin 0) xs. num_rat v) = sum_list (map num_rat xs)" for xs
    by (induction xs) (auto simp: num_rat_def)
  have "sum_list (map num_rat vs) = (\<Sum>s \<leftarrow> resourceStates. of_nat (count_list states (Some s)))"
    unfolding vs_def drop entries by (simp add: num_rat_def o_def)
  also have "\<dots> = of_nat (length states)"
    using length_by_state [of states] no by (simp add: count_notin resourceStates_def)
  finally have total: "sum_list (map num_rat vs) = of_nat (length resources)"
    by (simp add: states_def resource_states_def)
  then have "vs \<noteq> []" using assms(2) by auto
  moreover have "filter (\<lambda>v. v \<noteq> Fin 0) vs = vs" by (simp add: vs_def)
  moreover have "map snd (filter (\<lambda>(_, n). n \<noteq> Fin 0) (tally_entries resources)) = vs"
    by (simp add: vs_def filter_map o_def case_prod_unfold)
  ultimately show ?thesis
    using total by (simp add: genPlotInfo_def Let_def)
qed

section \<open>Avatars\<close>

text \<open>\<open>split(/\s+/)\<close>: runs of white space separate.\<close>

function split_ws :: "string \<Rightarrow> string \<Rightarrow> string list" where
  "split_ws acc [] = [rev acc]"
| "split_ws acc (c # cs) =
     (if is_space c then rev acc # split_ws [] (dropWhile is_space cs) else split_ws (c # acc) cs)"
  by pat_completeness auto
termination
  by (relation "measure (\<lambda>(acc, s). length s)") (auto simp: length_dropWhile_le le_imp_less_Suc)

definition getInitials :: "string \<Rightarrow> string" where
  "getInitials name =
     (let initials = concat (map (\<lambda>n. toUpperCase (charAt n 0)) (split_ws [] name))
      in if length initials > 2 then [hd initials, last initials] else initials)"

text \<open>\<open>random\<close> is what \<open>Math.random\<close> yields if the colour is asked for a digest that is no hexadecimal number.\<close>

definition getColor :: "rat \<Rightarrow> string \<Rightarrow> string" where
  "getColor random name = hsl2str ((hex2hsl random (take 6 (md5 name)))\<lparr>hsl_l := 50\<rparr>)"

section \<open>Numbers for people\<close>

fun digits :: "nat \<Rightarrow> nat" where
  "digits n = (if n < 10 then 1 else Suc (digits (n div 10)))"

declare digits.simps [simp del]

definition pow10 :: "int \<Rightarrow> rat" where
  "pow10 k = 10 powi k"

text \<open>The exponent of the leading digit of a positive number.\<close>

definition exp10 :: "rat \<Rightarrow> int" where
  "exp10 x = (let (p, q) = quotient_of x in
     if p \<ge> q then int (digits (nat (p div q))) - 1 else - int (digits (nat ((q - 1) div p))))"

text \<open>\<open>toExponential(f)\<close> of a positive number: the digits as a whole number, and the exponent.\<close>

definition sci_parts :: "nat \<Rightarrow> rat \<Rightarrow> nat \<times> int" where
  "sci_parts f x = (let e = exp10 x; n = nat \<lfloor>x * pow10 (int f - e) + 1 / 2\<rfloor>
     in if n = 10 ^ (f + 1) then (10 ^ f, e + 1) else (n, e))"

definition show_sci :: "nat \<Rightarrow> nat \<times> int \<Rightarrow> string" where
  "show_sci f = (\<lambda>(n, e). let ds = pad_left (f + 1) (show_nat n) in
     take 1 ds @ (if f = 0 then [] else ''.'' @ drop 1 ds)
     @ ''e'' @ (if e < 0 then ''-'' else ''+'') @ show_nat (nat \<bar>e\<bar>))"

fun toExponential :: "nat \<Rightarrow> number \<Rightarrow> string" where
  "toExponential f (Fin x) =
     (if x = 0 then show_sci f (0, 0)
      else if x < 0 then ''-'' @ show_sci f (sci_parts f (- x)) else show_sci f (sci_parts f x))"
| "toExponential f NaN = ''NaN''"
| "toExponential f PInf = ''Infinity''"
| "toExponential f NInf = ''-Infinity''"

definition humanReadableFloat :: "number \<Rightarrow> nat \<Rightarrow> string" where
  "humanReadableFloat num precision =
     (if num_lt num (Fin (1 / 100)) \<or> num_lt (Fin 999) num then toExponential precision num
      else toFixed precision num)"

lemma digits_bounds: "0 < n \<Longrightarrow> 10 ^ (digits n - 1) \<le> n \<and> n < 10 ^ digits n"
proof (induction n rule: digits.induct)
  case (1 n)
  show ?case
  proof (cases "n < 10")
    case True
    then show ?thesis using 1 by (simp add: digits.simps [of n])
  next
    case False
    have pos: "0 < digits (n div 10)" by (subst digits.simps) simp
    have IH: "10 ^ (digits (n div 10) - 1) \<le> n div 10" "n div 10 < 10 ^ digits (n div 10)"
      using 1 False by auto
    have "10 * 10 ^ (digits (n div 10) - 1) \<le> n" using IH(1) by linarith
    then have "10 ^ digits (n div 10) \<le> n"
      using pos by (metis power_minus_mult mult.commute)
    moreover have "n < 10 * 10 ^ digits (n div 10)" using IH(2) by linarith
    ultimately show ?thesis using False by (simp add: digits.simps [of n])
  qed
qed

lemma digits_pos [simp]: "0 < digits n"
  by (subst digits.simps) simp

lemma pow10_pos [simp]: "0 < pow10 k"
  by (simp add: pow10_def)

lemma pow10_add: "pow10 (a + b) = pow10 a * pow10 b"
  by (simp add: pow10_def power_int_add)

lemma pow10_nat: "pow10 (int k) = 10 ^ k"
  by (simp add: pow10_def)

lemma pow10_minus: "pow10 (- int k) = 1 / 10 ^ k"
  by (simp add: pow10_def power_int_minus divide_inverse)

lemma digits_quotient:
  fixes p q :: int
  assumes "0 < q" and "0 < p div q"
  shows "10 ^ (digits (nat (p div q)) - 1) * q \<le> p" and "p < 10 ^ digits (nat (p div q)) * q"
proof -
  define d where "d = p div q"
  have "p = q * d + p mod q" "0 \<le> p mod q" "p mod q < q" using assms by (simp_all add: d_def)
  then have p: "d * q \<le> p" "p < (d + 1) * q" by (simp_all add: algebra_simps)
  have nd: "0 < nat d" using assms by (simp add: d_def)
  have "10 ^ (digits (nat d) - 1) \<le> d" "d + 1 \<le> 10 ^ digits (nat d)"
    using digits_bounds [OF nd] nd by (simp_all add: nat_le_iff le_nat_iff nat_less_iff)
  then have "10 ^ (digits (nat d) - 1) * q \<le> d * q" "(d + 1) * q \<le> 10 ^ digits (nat d) * q"
    using assms(1) by (auto intro!: mult_right_mono)
  then show "10 ^ (digits (nat (p div q)) - 1) * q \<le> p" "p < 10 ^ digits (nat (p div q)) * q"
    using p unfolding d_def [symmetric] by linarith+
qed

lemma exp10_bounds:
  assumes "0 < x"
  shows "pow10 (exp10 x) \<le> x \<and> x < pow10 (exp10 x + 1)"
proof -
  obtain p q where pq: "quotient_of x = (p, q)" by (cases "quotient_of x")
  have q: "0 < q" using quotient_of_denom_pos [OF pq] .
  have x: "x = of_int p / of_int q" using quotient_of_div [OF pq] .
  have p: "0 < p" using assms q unfolding x by (simp add: zero_less_divide_iff)
  show ?thesis
  proof (cases "p \<ge> q")
    case True
    define k where "k = digits (nat (p div q))"
    have "0 < p div q" using True q by (simp add: pos_imp_zdiv_pos_iff)
    then have b: "10 ^ (k - 1) * q \<le> p" "p < 10 ^ k * q"
      using digits_quotient [OF q, of p] by (simp_all add: k_def)
    have k: "0 < k" by (simp add: k_def)
    have e: "exp10 x = int (k - 1)" "exp10 x + 1 = int k"
      using True k by (simp_all add: exp10_def pq k_def Let_def of_nat_diff Suc_leI)
    have "of_int (10 ^ (k - 1) * q) \<le> (of_int p :: rat)" "of_int p < (of_int (10 ^ k * q) :: rat)"
      using b by (simp_all only: of_int_le_iff of_int_less_iff)
    then show ?thesis
      unfolding e(2) unfolding e(1) pow10_nat using q
      by (simp add: x pos_le_divide_eq pos_divide_less_eq)
  next
    case False
    define k where "k = digits (nat ((q - 1) div p))"
    have "0 < (q - 1) div p" using False p by (simp add: pos_imp_zdiv_pos_iff)
    then have b: "10 ^ (k - 1) * p \<le> q - 1" "q - 1 < 10 ^ k * p"
      using digits_quotient [OF p, of "q - 1"] by (simp_all add: k_def)
    have k: "0 < k" by (simp add: k_def)
    have e: "exp10 x = - int k" "exp10 x + 1 = - int (k - 1)"
      using False k by (simp_all add: exp10_def pq k_def Let_def of_nat_diff Suc_leI)
    have "10 ^ (k - 1) * p < q" "q \<le> 10 ^ k * p" using b by linarith+
    then have "of_int (10 ^ (k - 1) * p) < (of_int q :: rat)" "of_int q \<le> (of_int (10 ^ k * p) :: rat)"
      by (simp_all only: of_int_le_iff of_int_less_iff)
    then show ?thesis
      unfolding e(2) unfolding e(1) pow10_minus using q
      by (simp add: x field_simps)
  qed
qed

text \<open>The digits of the exponential notation: exactly one before the point, the nearest such number.\<close>

lemma sci_parts_nearest:
  assumes "0 < x"
  shows "10 ^ f \<le> fst (sci_parts f x) \<and> fst (sci_parts f x) < 10 ^ (f + 1)
    \<and> \<bar>of_nat (fst (sci_parts f x)) * pow10 (snd (sci_parts f x) - int f) - x\<bar>
        \<le> pow10 (snd (sci_parts f x) - int f) / 2"
proof -
  define e where "e = exp10 x"
  define u where "u = pow10 (e - int f)"
  define y where "y = x * pow10 (int f - e)"
  define n where "n = nat \<lfloor>y + 1 / 2\<rfloor>"
  have u: "0 < u" by (simp add: u_def)
  have "pow10 (int f - e) * u = 1"
    unfolding u_def using pow10_add [of "int f - e" "e - int f"] by (simp add: pow10_def)
  then have x: "x = y * u" by (simp add: y_def mult.assoc)
  have "pow10 e * pow10 (int f - e) = 10 ^ f" "pow10 (e + 1) * pow10 (int f - e) = 10 ^ (f + 1)"
    using pow10_nat [of "f + 1"] by (simp_all add: pow10_nat algebra_simps flip: pow10_add)
  then have y: "10 ^ f \<le> y" "y < 10 ^ (f + 1)"
    using exp10_bounds [OF assms] mult_right_mono [of "pow10 e" x "pow10 (int f - e)"]
      mult_strict_right_mono [of x "pow10 (e + 1)" "pow10 (int f - e)"]
    by (simp_all add: y_def e_def less_imp_le)
  have "0 \<le> y" using order_trans [OF zero_le_power y(1)] by simp
  then have "0 \<le> \<lfloor>y + 1 / 2\<rfloor>" by simp
  then have n: "of_nat n = (of_int \<lfloor>y + 1 / 2\<rfloor> :: rat)" by (simp add: n_def)
  have near: "\<bar>of_nat n - y\<bar> \<le> 1 / 2" unfolding n by linarith
  have "(10 ^ f :: rat) \<le> of_nat n"
    using y(1) unfolding n by (metis (no_types, opaque_lifting) add_increasing2 of_int_le_iff of_int_numeral of_int_power
        le_floor_iff zero_le_divide_1_iff zero_le_numeral)
  then have lo: "10 ^ f \<le> n" by (metis of_nat_le_iff of_nat_numeral of_nat_power)
  have "\<lfloor>y + 1 / 2\<rfloor> < 10 ^ (f + 1) + 1"
    unfolding floor_less_iff using y(2) by simp
  then have hi: "n \<le> 10 ^ (f + 1)" by (simp add: n_def nat_le_iff)
  have err: "\<bar>of_nat n * u - x\<bar> \<le> u / 2"
    using mult_right_mono [OF near, of u] u by (simp add: x abs_mult flip: left_diff_distrib)
  show ?thesis
  proof (cases "n = 10 ^ (f + 1)")
    case True
    have u': "pow10 (e + 1 - int f) = 10 * u"
      using pow10_add [of "e - int f" 1] by (simp add: u_def pow10_def algebra_simps)
    have "sci_parts f x = (10 ^ f, e + 1)"
      using True by (simp add: sci_parts_def Let_def e_def n_def y_def)
    moreover have eq: "10 ^ f * (10 * u) = of_nat n * u" by (simp add: True)
    have "\<bar>10 ^ f * (10 * u) - x\<bar> \<le> 10 * u / 2" unfolding eq using err u by linarith
    ultimately show ?thesis by (simp add: u')
  next
    case False
    then have "sci_parts f x = (n, e)"
      by (simp add: sci_parts_def Let_def e_def n_def y_def)
    then show ?thesis using lo hi False err by (simp add: u_def)
  qed
qed

text \<open>
  A number in a table.  Between 0.01 and 999 it is written with the given number of decimals; any other
  number, so also zero and every negative number, in exponential notation, whose digits form a whole number with one digit
  before the point and the given number behind it.  Either way the number written is the nearest one with so many digits.
\<close>

theorem readable_float:
  assumes x: "0 < x"
  shows "humanReadableFloat (Fin x) f =
      (if 1 / 100 \<le> x \<and> x \<le> 999 then show_fixed f x else show_sci f (sci_parts f x))
    \<and> humanReadableFloat (Fin (- x)) f = ''-'' @ show_sci f (sci_parts f x)
    \<and> humanReadableFloat (Fin 0) f = show_sci f (0, 0)
    \<and> 10 ^ f \<le> fst (sci_parts f x) \<and> fst (sci_parts f x) < 10 ^ (f + 1)
    \<and> \<bar>of_nat (fst (sci_parts f x)) * pow10 (snd (sci_parts f x) - int f) - x\<bar> \<le> pow10 (snd (sci_parts f x) - int f) / 2
    \<and> \<bar>of_nat (nat \<lfloor>\<bar>x\<bar> * 10 ^ f + 1 / 2\<rfloor>) / 10 ^ f - x\<bar> \<le> 1 / (2 * 10 ^ f)"
proof -
  have "0 \<le> x * 10 ^ f" using x by simp
  then have n: "of_nat (nat \<lfloor>\<bar>x\<bar> * 10 ^ f + 1 / 2\<rfloor>) = (of_int \<lfloor>x * 10 ^ f + 1 / 2\<rfloor> :: rat)"
    using x by simp
  have "\<bar>of_int \<lfloor>x * 10 ^ f + 1 / 2\<rfloor> - x * 10 ^ f\<bar> \<le> (1 / 2 :: rat)" by linarith
  then have "\<bar>(of_int \<lfloor>x * 10 ^ f + 1 / 2\<rfloor> - x * 10 ^ f) / 10 ^ f\<bar> \<le> 1 / (2 * 10 ^ f)"
    by (simp add: divide_le_eq)
  then have "\<bar>of_nat (nat \<lfloor>\<bar>x\<bar> * 10 ^ f + 1 / 2\<rfloor>) / 10 ^ f - x\<bar> \<le> 1 / (2 * 10 ^ f)"
    unfolding n by (simp add: diff_divide_distrib)
  then show ?thesis
    using sci_parts_nearest [OF x, of f] x by (auto simp: humanReadableFloat_def)
qed

theorem readable_float_witness:
  "humanReadableFloat (Fin 2500) 1 = ''2.5e+3'' \<and> humanReadableFloat (Fin 0) 2 = ''0.00e+0''"
proof
  have "humanReadableFloat (Fin 2500) 1 =
      (if 1 / 100 \<le> (2500 :: rat) \<and> (2500 :: rat) \<le> 999 then show_fixed 1 2500 else show_sci 1 (sci_parts 1 2500))"
    by (rule readable_float [THEN conjunct1]) simp
  moreover have "exp10 2500 = 3"
    by (simp add: exp10_def digits.simps)
  moreover have "show_sci 1 (25, 3) = ''2.5e+3''" by code_simp
  moreover have "\<lfloor>51 / 2 :: rat\<rfloor> = 25" by (simp add: floor_eq_iff)
  ultimately show "humanReadableFloat (Fin 2500) 1 = ''2.5e+3''"
    by (simp add: sci_parts_def pow10_def power_int_minus Let_def)
  show "humanReadableFloat (Fin 0) 2 = ''0.00e+0''" by code_simp
qed

lemma md5_length: "length (md5 s) = 32"
  by (simp add: md5_def md5_hex_def rhex_def split: prod.split)

lemma rhex_hex: "c \<in> set (rhex n) \<Longrightarrow> c \<in> set hex_chr"
proof -
  have "hex_chr ! unat (w AND 0x0F) \<in> set hex_chr" for w :: u32
  proof -
    have "unat (w AND 0x0F) < length hex_chr"
      using word_and_le1 [of w "0x0F"] by (simp add: hex_chr_def word_le_nat_alt)
    then show ?thesis by (rule nth_mem)
  qed
  then show "c \<in> set (rhex n) \<Longrightarrow> c \<in> set hex_chr"
    by (auto simp: rhex_def)
qed

lemma md5_hex_chr: "set (md5 s) \<subseteq> set hex_chr"
  by (auto simp: md5_def md5_hex_def dest: rhex_hex split: prod.splits)

lemma hex_chr_digit: "c \<in> set hex_chr \<Longrightarrow> \<exists>n. hex_digit c = Some n \<and> c \<noteq> CHR ''#''"
  by (auto simp: hex_chr_def hex_digit_def to_lower_char_def is_upper_def)

text \<open>
  An avatar.  Its initials are the first character of a name of one word, the first characters of two
  words, and the first and the last of them for more, so never more than two; the colour is the same for every rendering
  of the name: the digest always starts with a hexadecimal number, so nothing is left to chance.
\<close>

theorem avatar:
  shows "length (getInitials name) \<le> 2
    \<and> (\<not> is_space a \<longrightarrow> getInitials [a] = [to_upper_char a])
    \<and> getColor r name = getColor r' name
    \<and> (\<exists>red green blue. parse_hex (take 6 (md5 name)) = Some (red, green, blue)
         \<and> (\<exists>h s. getColor r name = ''hsl('' @ show_int h @ '', '' @ show_int s @ ''%, 50%)''))"
proof (intro conjI impI)
  show "length (getInitials name) \<le> 2" by (simp add: getInitials_def Let_def)
  show "\<not> is_space a \<Longrightarrow> getInitials [a] = [to_upper_char a]"
    by (simp add: getInitials_def Let_def charAt_def toUpperCase_def)
  define t where "t = take 6 (md5 name)"
  have len: "length t = Suc (Suc (Suc (Suc (Suc (Suc 0)))))" by (simp add: md5_length t_def)
  then obtain c0 c1 c2 c3 c4 c5 where t: "t = [c0, c1, c2, c3, c4, c5]"
    by (auto simp: length_Suc_conv)
  then have cs: "take 6 (md5 name) = [c0, c1, c2, c3, c4, c5]" by (simp add: t_def)
  have "set (take 6 (md5 name)) \<subseteq> set hex_chr"
    using md5_hex_chr set_take_subset by fastforce
  then have "\<exists>n. hex_digit c = Some n \<and> c \<noteq> CHR ''#''" if "c \<in> {c0, c1, c2, c3, c4, c5}" for c
    using that hex_chr_digit unfolding cs by auto
  then obtain n0 n1 n2 n3 n4 n5 where ns: "hex_digit c0 = Some n0" "hex_digit c1 = Some n1" "hex_digit c2 = Some n2"
      "hex_digit c3 = Some n3" "hex_digit c4 = Some n4" "hex_digit c5 = Some n5" and no: "c0 \<noteq> CHR ''#''"
    by (meson insertI1 insertI2)
  then have p: "parse_hex (take 6 (md5 name)) = Some (16 * n0 + n1, 16 * n2 + n3, 16 * n4 + n5)"
    by (simp add: parse_hex_def cs)
  then have random: "hex2hsl r (take 6 (md5 name)) = hex2hsl r' (take 6 (md5 name))" for r r'
    by (simp add: hex2hsl_def)
  show "getColor r name = getColor r' name"
    unfolding getColor_def using random by metis
  show "\<exists>red green blue. parse_hex (take 6 (md5 name)) = Some (red, green, blue)
         \<and> (\<exists>h s. getColor r name = ''hsl('' @ show_int h @ '', '' @ show_int s @ ''%, 50%)'')"
  proof (intro exI conjI)
    show "parse_hex (take 6 (md5 name)) = Some (16 * n0 + n1, 16 * n2 + n3, 16 * n4 + n5)" by (rule p)
    have "show_int 50 = ''50''" by code_simp
    then show "getColor r name = ''hsl('' @ show_int (hsl_h (hex2hsl r (take 6 (md5 name)))) @ '', ''
        @ show_int (hsl_s (hex2hsl r (take 6 (md5 name)))) @ ''%, 50%)''"
      by (simp add: getColor_def hsl2str_def)
  qed
qed

theorem avatar_witness: "getInitials ''x'' = ''X''"
proof -
  have "\<not> is_space (CHR ''x'') \<longrightarrow> getInitials [CHR ''x''] = [to_upper_char (CHR ''x'')]"
    by (rule avatar [THEN conjunct2, THEN conjunct1])
  moreover have "to_upper_char (CHR ''x'') = CHR ''X''" "\<not> is_space (CHR ''x'')" by code_simp+
  ultimately show ?thesis by simp
qed

section \<open>Tables\<close>

definition MINIMUM_PAGE_SIZE :: int where
  "MINIMUM_PAGE_SIZE = 10"

text \<open>
  What a table shows for a row; durations and moments are formatted by packages.  A click is an alternative action
  when the class name of its target says so; the class name of an SVG element is no string (\<open>None\<close>).
\<close>

definition stateRenderer :: "string \<Rightarrow> BadgeView" where
  "stateRenderer state = badge_view state Badge_State None"

definition taskIdRenderer :: "string \<Rightarrow> BadgeView" where
  "taskIdRenderer i = badge_view (str_RunState RunState_Active) Badge_Id (Some (hd (js_split ''-'' i)))"

definition taskTypeRenderer :: "CommandType \<Rightarrow> string \<times> string" where
  "taskTypeRenderer type = (commandTypeToLabel type, toLowerCase (str_CommandType type))"

definition experimentDescriptionRenderer :: "string option \<Rightarrow> string \<times> string list" where
  "experimentDescriptionRenderer name =
     ((case name of Some n \<Rightarrow> n | None \<Rightarrow> []), [''object detection'', ''pytorch''])"

text \<open>\<open>humanize\<close> is the package's reading of a number of milliseconds, \<open>time_of\<close> the date's.\<close>

definition durationRenderer :: "(number \<Rightarrow> string) \<Rightarrow> (string \<Rightarrow> number) \<Rightarrow> number \<Rightarrow> string option \<Rightarrow> string \<Rightarrow> string" where
  "durationRenderer humanize time_of now endTime startTime = humanize (getDuration time_of now endTime startTime)"

definition experimentProgressRenderer :: "(number \<Rightarrow> string) \<Rightarrow> number option \<Rightarrow> string \<Rightarrow> BarPart list option" where
  "experimentProgressRenderer num_str progress state = (case progress of
      None \<Rightarrow> None
    | Some p \<Rightarrow> if p = Fin 0 \<or> p = NaN then None
                else Some (progress_parts num_str (num_mul p (Fin 100)) state))"

definition experimentArchivedRenderer :: "bool \<Rightarrow> string option" where
  "experimentArchivedRenderer archived = (if archived then Some ''checkmark'' else None)"

definition isAlternativeAction :: "string option \<Rightarrow> bool result" where
  "isAlternativeAction className = (case className of
      None \<Rightarrow> Inl TypeError
    | Some c \<Rightarrow> Inr (contains ''ant-checkbox-wrapper'' c \<or> contains ''ignoreTableRowClick'' c))"

definition defaultRowClassName :: "bool \<Rightarrow> bool \<Rightarrow> string" where
  "defaultRowClassName clickable highlighted =
     js_join '' '' ((if clickable then [''clickable''] else []) @ (if highlighted then [''highlighted''] else []))"

record TablePagination =
  tp_current :: "number option"
  tp_defaultPageSize :: int
  tp_hideOnSinglePage :: bool
  tp_pageSize :: "int option"
  tp_showSizeChanger :: bool
  tp_total :: "int option"

definition defaultPaginationConfig :: TablePagination where
  "defaultPaginationConfig = \<lparr>tp_current = Some (Fin 1), tp_defaultPageSize = MINIMUM_PAGE_SIZE,
     tp_hideOnSinglePage = False, tp_pageSize = Some MINIMUM_PAGE_SIZE, tp_showSizeChanger = True, tp_total = None\<rparr>"

definition getPaginationConfig :: "int \<Rightarrow> int option \<Rightarrow> TablePagination" where
  "getPaginationConfig n pageSize = \<lparr>tp_current = None, tp_defaultPageSize = MINIMUM_PAGE_SIZE,
     tp_hideOnSinglePage = (n < MINIMUM_PAGE_SIZE), tp_pageSize = pageSize, tp_showSizeChanger = True, tp_total = None\<rparr>"

fun math_floor :: "number \<Rightarrow> number" where
  "math_floor (Fin a) = Fin (of_int \<lfloor>a\<rfloor>)"
| "math_floor x = x"

definition getFullPaginationConfig :: "Pagination \<Rightarrow> int \<Rightarrow> TablePagination" where
  "getFullPaginationConfig pagination n = \<lparr>
     tp_current = Some (num_add (math_floor (num_div (Fin (of_int (page_offset pagination)))
        (Fin (of_int (page_limit pagination))))) (Fin 1)),
     tp_defaultPageSize = MINIMUM_PAGE_SIZE,
     tp_hideOnSinglePage = (n < MINIMUM_PAGE_SIZE),
     tp_pageSize = Some (page_limit pagination),
     tp_showSizeChanger = True,
     tp_total = Some n\<rparr>"

text \<open>
  Pages of the table of experiments.  The page that the table asks for is the page it is told to be on
  after the change, whatever page size comes with it, and the offsets of the pages of one size are consecutive: page by page
  they cover the positions of all experiments, each once.  Changing a filter goes back to the first page, whatever its
  size.
\<close>

theorem table_pages:
  assumes "handleTableChange ops storage columnKeys n p (Some key) order (pg, s) = Inr (pg', s')"
    and "key \<in> set columnKeys" "key \<noteq> []" and n: "0 < n"
  shows "tp_current (getFullPaginationConfig (xl_pagination pg') m) = Some (Fin (of_int p))
    \<and> tp_pageSize (getFullPaginationConfig (xl_pagination pg') m) = Some n
    \<and> page_offset (xl_pagination pg') = (p - 1) * n
    \<and> (\<forall>i. 0 \<le> i \<longrightarrow> (\<exists>!q. (q - 1) * n \<le> i \<and> i < (q - 1) * n + n))
    \<and> tp_current (getFullPaginationConfig (xl_pagination (first_page pg')) m) = Some (Fin 1)"
proof -
  have pg': "xl_pagination pg' = (xl_pagination pg)\<lparr>page_limit := n, page_offset := (p - 1) * n\<rparr>"
    using assms by (auto simp: handleTableChange_def Let_def bind_exn_def split: sum.splits)
  have "\<exists>!q. (q - 1) * n \<le> i \<and> i < (q - 1) * n + n" for i
  proof
    show "(i div n + 1 - 1) * n \<le> i \<and> i < (i div n + 1 - 1) * n + n"
    proof -
      define r where "r = i mod n"
      have "n * (i div n) + r = i" by (simp add: r_def)
      moreover have "0 \<le> r" "r < n" using n by (simp_all add: r_def)
      ultimately show ?thesis by (simp only: add_diff_cancel_right' mult.commute [of _ n]) linarith
    qed
    show "q = i div n + 1" if q: "(q - 1) * n \<le> i \<and> i < (q - 1) * n + n" for q
      using q int_div_pos_eq [of i n "q - 1" "i - (q - 1) * n"] by (simp add: mult.commute)
  qed
  then show ?thesis
    using n by (simp add: getFullPaginationConfig_def pg' first_page_def flip: of_int_diff)
qed

section \<open>Every state has a colour and a label\<close>

text \<open>The colour a badge gets: the variable its style names, on a root that \<open>useTheme\<close> has set.\<close>

definition theme_color :: "ThemeId \<Rightarrow> (string \<times> js) list \<Rightarrow> string \<Rightarrow> js option" where
  "theme_color t el state = css_var (theme_effect t el) (getStateColorCssVar (Some state))"

lemma theme_color_state:
  assumes "map_of stateColorMapping s = Some n" and "map_of theme_states n = Some c" and "s \<noteq> []"
  shows "theme_color t el s = Some (Str c)"
proof -
  have "(n, c) \<in> set theme_states" using assms(2) by (rule map_of_SomeD)
  then have flat: "map_of (flattenTheme (themes t) ''theme'') (''theme-colors-states-'' @ n) = Some (Str c)"
    using theme_states_flat by (cases t) (auto simp: list_all_iff)
  have "css_var (theme_effect t el) (''var(--'' @ (''theme-colors-states-'' @ n) @ '')'') = Some (Str c)"
    unfolding theme_effect_var flat by simp
  then show ?thesis using assms by (simp add: theme_color_def getStateColorCssVar_def)
qed

definition all_states :: "string list" where
  "all_states = map str_RunState RunState_values
     @ map str_CommandState [CommandState_Pending, CommandState_Assigned, CommandState_Pulling, CommandState_Starting,
         CommandState_Running, CommandState_Terminating, CommandState_Terminated]
     @ map str_ResourceState resourceStates
     @ map str_CheckpointState [CheckpointState_Active, CheckpointState_Completed, CheckpointState_Error,
         CheckpointState_Deleted, CheckpointState_Unspecified]
     @ map str_SlotState [SlotState_Running, SlotState_Free, SlotState_Pending]"

lemma stateColorMapping_eval:
  "stateColorMapping = [
     (''ACTIVE'', ''active''), (''CANCELED'', ''inactive''), (''COMPLETED'', ''success''), (''DELETED'', ''failed''),
     (''ERROR'', ''failed''), (''PAUSED'', ''suspended''), (''STOPPING_CANCELED'', ''inactive''),
     (''STOPPING_COMPLETED'', ''success''), (''STOPPING_ERROR'', ''failed''), (''UNSPECIFIED'', ''inactive''),
     (''PENDING'', ''pending''), (''ASSIGNED'', ''suspended''), (''PULLING'', ''active''), (''STARTING'', ''active''),
     (''RUNNING'', ''active''), (''TERMINATING'', ''inactive''), (''TERMINATED'', ''inactive''), (''FREE'', ''free'')]"
  by (simp add: stateColorMapping_def literal_def)

text \<open>The name of the state's colour in the theme.\<close>

definition color_name :: "string \<Rightarrow> string" where
  "color_name s = the (map_of stateColorMapping s)"

definition state_shown :: "string \<Rightarrow> bool" where
  "state_shown s = (s \<noteq> [] \<and> map_of stateColorMapping s \<noteq> None \<and> map_of theme_states (color_name s) \<noteq> None
     \<and> bv_content (stateRenderer s) \<noteq> None \<and> bv_content (stateRenderer s) \<noteq> Some [])"

lemma all_states_shown: "list_all state_shown all_states"
  by (simp add: all_states_def RunState_values_def resourceStates_def state_shown_def color_name_def
      theme_states_def stateColorMapping_eval stateRenderer_def badge_view_def stateToLabel_def
      runStateToLabel_def commandStateToLabel_def resourceStateToLabel_def checkpointStateToLabel_def
      slotStateToLabel_def Types_Util.str_or_def)

lemma all_states_complete:
  "str_RunState r \<in> set all_states" "str_CommandState c \<in> set all_states" "str_ResourceState e \<in> set all_states"
  "str_CheckpointState k \<in> set all_states" "str_SlotState l \<in> set all_states"
proof -
  show "str_RunState r \<in> set all_states" by (cases r; simp add: all_states_def RunState_values_def)
  show "str_CommandState c \<in> set all_states" by (cases c; simp add: all_states_def)
  show "str_ResourceState e \<in> set all_states" by (cases e; simp add: all_states_def resourceStates_def)
  show "str_CheckpointState k \<in> set all_states" by (cases k; simp add: all_states_def)
  show "str_SlotState l \<in> set all_states" by (cases l; simp add: all_states_def)
qed

text \<open>A badge in the colour that the theme lists for the state, with a label.\<close>

definition badge_ok :: "ThemeId \<Rightarrow> (string \<times> js) list \<Rightarrow> string \<Rightarrow> bool" where
  "badge_ok t el s =
     (\<exists>c l. map_of theme_states (color_name s) = Some c
        \<and> bv_backgroundColor (stateRenderer s) = Some (getStateColorCssVar (Some s))
        \<and> css_var (theme_effect t el) (getStateColorCssVar (Some s)) = Some (Str c)
        \<and> bv_content (stateRenderer s) = Some l \<and> l \<noteq> [])"

lemma badge_ok_all: "s \<in> set all_states \<Longrightarrow> badge_ok t el s"
proof -
  assume s: "s \<in> set all_states"
  have shown: "state_shown s" using all_states_shown s by (simp add: list_all_iff)
  then obtain l where l: "bv_content (stateRenderer s) = Some l" "l \<noteq> []" by (auto simp: state_shown_def)
  from shown obtain n c where n: "map_of stateColorMapping s = Some n" "map_of theme_states n = Some c" "s \<noteq> []"
    by (auto simp: state_shown_def color_name_def)
  then show "badge_ok t el s"
    using theme_color_state [OF n, of t el] l
    by (simp add: badge_ok_def color_name_def theme_color_def) (simp add: stateRenderer_def badge_view_def)
qed

text \<open>
  The badge of a state.  Every state of an experiment, a task, a resource, a checkpoint and a slot is shown
  with a label that is not empty, in the colour that the theme lists under the name the state is mapped to: the variable
  named in the badge's style is one that the theme sets, in both themes and whatever the root held before.  States of
  different kinds share their strings: a pending task gets the colour of a pending slot and not the one listed for it.
\<close>

theorem state_badges:
  "(\<forall>s. badge_ok t el (str_RunState s)) \<and> (\<forall>s. badge_ok t el (str_CommandState s))
    \<and> (\<forall>s. badge_ok t el (str_ResourceState s)) \<and> (\<forall>s. badge_ok t el (str_CheckpointState s))
    \<and> (\<forall>s. badge_ok t el (str_SlotState s))
    \<and> color_name (str_CommandState CommandState_Pending) = ''pending''
    \<and> color_name (str_CommandState CommandState_Assigned) = ''suspended''"
  by (intro conjI allI badge_ok_all all_states_complete) (simp_all add: color_name_def stateColorMapping_eval)

end
