(* ===== verification/Metric_Chart.thy ===== *)
theory Metric_Chart
  imports Metric_Filter Filters
begin

text \<open>
  The chart of metrics over batches or time (\<^verbatim>\<open>components/MetricChart.tsx\<close>): the range it shows, which follows the data
  until the user zooms, and the chart of an experiment's best metric (\<^verbatim>\<open>pages/ExperimentDetails/ExperimentChart.tsx\<close>).
  Plotly draws; the logarithm is an argument.
\<close>

section \<open>Ranges\<close>

datatype Scale = Scale_Linear | Scale_Log

fun str_Scale :: "Scale \<Rightarrow> string" where
  "str_Scale Scale_Linear = ''linear''"
| "str_Scale Scale_Log = ''log''"

text \<open>The bounds of a range; \<open>clone\<close> goes through JSON text and turns what is not finite into \<open>null\<close> (\<open>None\<close>).\<close>

record Range =
  rg_xlo :: "number option"
  rg_xhi :: "number option"
  rg_ylo :: "number option"
  rg_yhi :: "number option"

definition range_js :: "Range \<Rightarrow> js" where
  "range_js r = (let b = (\<lambda>x. case x of Some n \<Rightarrow> Num n | None \<Rightarrow> Null) in
     Obj [(''xaxis'', Arr [b (rg_xlo r), b (rg_xhi r)]), (''yaxis'', Arr [b (rg_ylo r), b (rg_yhi r)])])"

definition clone_bound :: "number option \<Rightarrow> number option" where
  "clone_bound b = (case b of Some (Fin x) \<Rightarrow> Some (Fin x) | _ \<Rightarrow> None)"

definition clone_range :: "Range \<Rightarrow> Range" where
  "clone_range r = \<lparr>rg_xlo = clone_bound (rg_xlo r), rg_xhi = clone_bound (rg_xhi r),
     rg_ylo = clone_bound (rg_ylo r), rg_yhi = clone_bound (rg_yhi r)\<rparr>"

text \<open>The series of a chart, as far as the range depends on them.\<close>

record Series =
  se_x :: "number list option"
  se_y :: "number list option"

definition PADDING_PERCENT :: number where
  "PADDING_PERCENT = Fin (1 / 10)"

text \<open>The smallest and largest value seen so far, comparisons with \<open>NaN\<close> being false.\<close>

definition widen :: "number \<times> number \<Rightarrow> number \<Rightarrow> number \<times> number" where
  "widen = (\<lambda>(mn, mx) v. (if num_lt v mn then v else mn, if num_lt mx v then v else mx))"

definition extent :: "number list \<Rightarrow> number \<times> number" where
  "extent vs = foldl widen (PInf, NInf) vs"

definition field_values :: "number list option \<Rightarrow> number list" where
  "field_values vs = (case vs of Some l \<Rightarrow> l | None \<Rightarrow> [])"

text \<open>\<open>Math.max(0, a)\<close>.\<close>

definition max0 :: "number \<Rightarrow> number" where
  "max0 a = (if a = NaN then NaN else if num_lt (Fin 0) a then a else Fin 0)"

definition newMaxRange :: "(number \<Rightarrow> number) \<Rightarrow> Scale \<Rightarrow> Series list \<Rightarrow> Range" where
  "newMaxRange log10 scale dat =
     (let (xMin, xMax) = extent (concat (map (\<lambda>d. field_values (se_x d)) dat));
          (yMin, yMax) = extent (concat (map (\<lambda>d. field_values (se_y d)) dat));
          (yMin, yMax) = (if scale = Scale_Log then (log10 yMin, log10 yMax) else (yMin, yMax));
          xPad = num_mul (num_sub xMax xMin) PADDING_PERCENT;
          yPad = num_mul (num_sub yMax yMin) PADDING_PERCENT;
          xMinEdge = num_sub xMin xPad; xMaxEdge = num_add xMax xPad;
          yMinEdge = num_sub yMin yPad; yMaxEdge = num_add yMax yPad
      in \<lparr>rg_xlo = Some (max0 xMinEdge), rg_xhi = Some xMaxEdge,
          rg_ylo = Some (if num_lt yMinEdge (Fin 0) then yMinEdge else max0 yMinEdge), rg_yhi = Some yMaxEdge\<rparr>)"

section \<open>The chart\<close>

record MetricChart =
  mc_scale :: Scale
  mc_range :: "Range option"
  mc_maxRange :: "Range option"
  mc_isRendered :: bool
  mc_isZoomed :: bool
  mc_data :: "Series list" \<comment> \<open>the property of the last render\<close>

definition hasFiltersApplied :: "bool \<Rightarrow> MetricChart \<Rightarrow> bool" where
  "hasFiltersApplied metricsSelected st = (metricsSelected \<or> mc_scale st \<noteq> Scale_Linear)"

definition handleDoubleClick :: "MetricChart \<Rightarrow> MetricChart" where
  "handleDoubleClick st = st\<lparr>mc_range := map_option clone_range (mc_maxRange st), mc_isZoomed := False\<rparr>"

text \<open>\<open>event[k] || bound\<close>: a bound of zero counts as missing.\<close>

definition event_bound :: "(string \<times> number) list \<Rightarrow> string \<Rightarrow> number option \<Rightarrow> number option" where
  "event_bound event k b = (case map_of event k of
      Some n \<Rightarrow> if n \<noteq> Fin 0 \<and> n \<noteq> NaN then Some n else b | None \<Rightarrow> b)"

definition handleRelayout :: "(string \<times> number) list \<Rightarrow> MetricChart \<Rightarrow> MetricChart" where
  "handleRelayout event st = (case mc_range st of
      None \<Rightarrow> st
    | Some r \<Rightarrow> st\<lparr>mc_range := Some \<lparr>
          rg_xlo = event_bound event ''xaxis.range[0]'' (rg_xlo r),
          rg_xhi = event_bound event ''xaxis.range[1]'' (rg_xhi r),
          rg_ylo = event_bound event ''yaxis.range[0]'' (rg_ylo r),
          rg_yhi = event_bound event ''yaxis.range[1]'' (rg_yhi r)\<rparr>,
        mc_isZoomed := True\<rparr>)"

definition handleScaleSelect :: "Scale \<Rightarrow> MetricChart \<Rightarrow> MetricChart" where
  "handleScaleSelect s st = st\<lparr>mc_scale := s, mc_isZoomed := False\<rparr>"

definition range_effect :: "(number \<Rightarrow> number) \<Rightarrow> MetricChart \<Rightarrow> MetricChart" where
  "range_effect log10 st =
     (let r = newMaxRange log10 (mc_scale st) (mc_data st)
      in st\<lparr>mc_maxRange := Some r, mc_range := (if \<not> mc_isZoomed st then Some (clone_range r) else mc_range st)\<rparr>)"

text \<open>What the plot is given: its scale and the ranges of its axes, and whether the plot is made or updated.\<close>

definition layout_range :: "MetricChart \<Rightarrow> Range option" where
  "layout_range st = (case mc_range st of Some r \<Rightarrow> Some r | None \<Rightarrow> map_option clone_range (mc_maxRange st))"

datatype PlotCall = NewPlot Scale "Range option" | React Scale "Range option"

definition renderPlot :: "MetricChart \<Rightarrow> MetricChart \<times> PlotCall" where
  "renderPlot st =
     (if mc_isRendered st then (st, React (mc_scale st) (layout_range st))
      else (st\<lparr>mc_isRendered := True\<rparr>, NewPlot (mc_scale st) (layout_range st)))"

definition scale_options :: "(string \<times> string) list" where
  "scale_options = map (\<lambda>s. (str_Scale s, capitalize (str_Scale s))) [Scale_Linear, Scale_Log]"

text \<open>
  Events: new data from the parent, a zoom or pan, a double click and a choice of the scale.  After each the effect
  on zoom, data and scale runs if one of them has changed; every new array of data is a change.
\<close>

datatype ChartEvent = ChartData "Series list" | ChartRelayout "(string \<times> number) list" | ChartDoubleClick | ChartScale Scale

fun chart_handler :: "ChartEvent \<Rightarrow> MetricChart \<Rightarrow> MetricChart" where
  "chart_handler (ChartData d) st = st\<lparr>mc_data := d\<rparr>"
| "chart_handler (ChartRelayout e) st = handleRelayout e st"
| "chart_handler ChartDoubleClick st = handleDoubleClick st"
| "chart_handler (ChartScale s) st = handleScaleSelect s st"

fun new_data :: "ChartEvent \<Rightarrow> bool" where
  "new_data (ChartData d) = True"
| "new_data _ = False"

definition chart_event :: "(number \<Rightarrow> number) \<Rightarrow> ChartEvent \<Rightarrow> MetricChart \<Rightarrow> MetricChart" where
  "chart_event log10 e st =
     (let st' = chart_handler e st
      in fst (renderPlot (if new_data e \<or> mc_isZoomed st' \<noteq> mc_isZoomed st \<or> mc_scale st' \<noteq> mc_scale st
          then range_effect log10 st' else st')))"

text \<open>The first render has no range yet: the plot is made without one while the effect on the data sets both ranges.\<close>

definition mount_chart :: "(number \<Rightarrow> number) \<Rightarrow> Series list \<Rightarrow> MetricChart" where
  "mount_chart log10 dat = fst (renderPlot (range_effect log10 (fst (renderPlot
     \<lparr>mc_scale = Scale_Linear, mc_range = None, mc_maxRange = None, mc_isRendered = False, mc_isZoomed = False,
      mc_data = dat\<rparr>))))"

section \<open>The best metric of an experiment\<close>

text \<open>
  \<open>time_of\<close> reads a date, \<open>num_str\<close> is the notation of numbers.  A validation without error or with error zero, or at
  the very start, is not shown.
\<close>

definition chart_title :: "string option \<Rightarrow> string" where
  "chart_title validationMetric = ''Best Validation Metric''
     @ (case validationMetric of Some m \<Rightarrow> if m = [] then [] else '' ('' @ m @ '')'' | None \<Rightarrow> [])"

definition history_point :: "(string \<Rightarrow> number) \<Rightarrow> (number \<Rightarrow> string) \<Rightarrow> number \<Rightarrow> ValidationHistory \<Rightarrow> (number \<times> number \<times> string) option" where
  "history_point time_of num_str start v =
     (let x = num_div (num_sub (time_of (vh_endTime v)) start) (Fin 1000)
      in case vh_validationError v of
           None \<Rightarrow> None
         | Some y \<Rightarrow>
             if x \<noteq> Fin 0 \<and> x \<noteq> NaN \<and> y \<noteq> Fin 0 \<and> y \<noteq> NaN
             then Some (x, y, js_join ''<br>'' [''Trial '' @ show_int (vh_trialId v),
                    ''Elapsed Time: '' @ num_str x @ '' sec'', ''Metric Value: '' @ num_str y])
             else None)"

definition history_series ::
  "(string \<Rightarrow> number) \<Rightarrow> (number \<Rightarrow> string) \<Rightarrow> string option \<Rightarrow> ValidationHistory list option \<Rightarrow> (Series \<times> string list) list" where
  "history_series time_of num_str startTime validationHistory = (case (startTime, validationHistory) of
      (Some s, Some vs) \<Rightarrow>
        if s = [] then []
        else let ps = List.map_filter (history_point time_of num_str (time_of s)) vs
             in [(\<lparr>se_x = Some (map fst ps), se_y = Some (map (fst \<circ> snd) ps)\<rparr>, map (snd \<circ> snd) ps)]
    | _ \<Rightarrow> [])"

section \<open>Lemmas\<close>

text \<open>\<open>clone_range\<close> is the \<open>clone\<close> of the code.\<close>

lemma clone_range_js: "clone (range_js r) True = Inr (range_js (clone_range r))"
proof -
  have wf: "wf_js (range_js r)"
    by (auto simp: range_js_def Let_def split: option.split)
  have b: "of_json (case to_json (case b of None \<Rightarrow> Null | Some n \<Rightarrow> Num n) of None \<Rightarrow> JNull | Some j \<Rightarrow> j)
      = (case clone_bound b of None \<Rightarrow> Null | Some n \<Rightarrow> Num n)" for b :: "number option"
    by (cases b; simp add: clone_bound_def) (rename_tac n, case_tac n; simp)
  show ?thesis
    using json_parse_stringify [OF wf] b
    by (auto simp: clone_def stringify_def range_js_def clone_range_def Let_def json_props_def split: option.splits)
qed

lemma widen_fin: "widen (Fin a, Fin b) (Fin x) = (Fin (min x a), Fin (max x b))"
  by (auto simp: widen_def min_def max_def)

lemma foldl_widen:
  "foldl widen (Fin a, Fin b) (map Fin xs) = (Fin (fold min xs a), Fin (fold max xs b))"
  by (induction xs arbitrary: a b) (simp_all add: widen_fin)

lemma fold_min_le: "fold min xs a \<le> a \<and> (\<forall>x \<in> set xs. fold min xs a \<le> (x :: rat))"
proof (induction xs arbitrary: a)
  case (Cons x xs)
  have "fold min xs (min x a) \<le> min x a" "\<forall>y \<in> set xs. fold min xs (min x a) \<le> y"
    using Cons.IH [of "min x a"] by blast+
  then show ?case by auto
qed simp

lemma fold_max_ge: "a \<le> fold max xs a \<and> (\<forall>x \<in> set xs. (x :: rat) \<le> fold max xs a)"
proof (induction xs arbitrary: a)
  case (Cons x xs)
  have "max x a \<le> fold max xs (max x a)" "\<forall>y \<in> set xs. y \<le> fold max xs (max x a)"
    using Cons.IH [of "max x a"] by blast+
  then show ?case by auto
qed simp

lemma extent_fin:
  assumes "vs = map Fin xs" and "xs \<noteq> []"
  shows "\<exists>m M. extent vs = (Fin m, Fin M) \<and> (\<forall>x \<in> set xs. m \<le> x \<and> x \<le> M)"
proof -
  obtain y ys where xs: "xs = y # ys" using assms(2) by (cases xs) auto
  have "widen (PInf, NInf) (Fin y) = (Fin y, Fin y)" by (simp add: widen_def)
  then have "extent vs = (Fin (fold min ys y), Fin (fold max ys y))"
    by (simp add: extent_def assms(1) xs foldl_widen)
  then show ?thesis using fold_min_le [of ys y] fold_max_ge [of y ys] by (auto simp: xs)
qed

definition all_values :: "(Series \<Rightarrow> number list option) \<Rightarrow> Series list \<Rightarrow> number list" where
  "all_values f dat = concat (map (\<lambda>d. field_values (f d)) dat)"

lemma padding: "m \<le> x \<Longrightarrow> x \<le> M \<Longrightarrow> m - (M - m) * (1 / 10) \<le> x \<and> x \<le> M + (M - m) * (1 / 10 :: rat)"
  by (simp add: field_simps)

text \<open>
  The range of a chart covers its data.  When the series hold finite numbers, at least one on each axis, the
  largest range on a linear scale is finite and holds every point with a margin of a tenth of the extent, except that
  nothing left of zero is shown; the range that is set is the same, since it survives the copy through JSON text.  A chart
  without data gets a range without bounds.
\<close>

theorem chart_range_covers:
  assumes xs: "all_values se_x dat = map Fin xs" "xs \<noteq> []" and ys: "all_values se_y dat = map Fin ys" "ys \<noteq> []"
  shows "(\<exists>a b c d. newMaxRange log10 Scale_Linear dat
        = \<lparr>rg_xlo = Some (Fin a), rg_xhi = Some (Fin b), rg_ylo = Some (Fin c), rg_yhi = Some (Fin d)\<rparr>
      \<and> 0 \<le> a \<and> (\<forall>x \<in> set xs. 0 \<le> x \<longrightarrow> a \<le> x \<and> x \<le> b) \<and> (\<forall>y \<in> set ys. c \<le> y \<and> y \<le> d)
      \<and> mc_range (mount_chart log10 dat)
          = Some \<lparr>rg_xlo = Some (Fin a), rg_xhi = Some (Fin b), rg_ylo = Some (Fin c), rg_yhi = Some (Fin d)\<rparr>)
    \<and> mc_range (mount_chart log10 []) = Some \<lparr>rg_xlo = None, rg_xhi = None, rg_ylo = None, rg_yhi = None\<rparr>"
proof (intro conjI)
  obtain xm xM where x: "extent (all_values se_x dat) = (Fin xm, Fin xM)" "\<forall>x \<in> set xs. xm \<le> x \<and> x \<le> xM"
    using extent_fin [OF xs] by blast
  obtain ym yM where y: "extent (all_values se_y dat) = (Fin ym, Fin yM)" "\<forall>y \<in> set ys. ym \<le> y \<and> y \<le> yM"
    using extent_fin [OF ys] by blast
  define px where "px = (xM - xm) * (1 / 10)"
  define py where "py = (yM - ym) * (1 / 10)"
  define a where "a = max 0 (xm - px)"
  have "\<not> num_lt (Fin v) (Fin 0) \<longrightarrow> max0 (Fin v) = Fin v" for v
    by (auto simp: max0_def)
  moreover have "max0 (Fin (xm - px)) = Fin a" by (auto simp: max0_def a_def)
  ultimately have r: "newMaxRange log10 Scale_Linear dat
      = \<lparr>rg_xlo = Some (Fin a), rg_xhi = Some (Fin (xM + px)), rg_ylo = Some (Fin (ym - py)), rg_yhi = Some (Fin (yM + py))\<rparr>"
    using x(1) y(1)
    by (simp add: newMaxRange_def all_values_def PADDING_PERCENT_def num_sub_def px_def py_def Let_def
        del: num_lt.simps)
  have mounted: "mc_range (mount_chart log10 dat) = Some (clone_range (newMaxRange log10 Scale_Linear dat))"
    by (simp add: mount_chart_def range_effect_def renderPlot_def Let_def)
  show "\<exists>a b c d. newMaxRange log10 Scale_Linear dat
        = \<lparr>rg_xlo = Some (Fin a), rg_xhi = Some (Fin b), rg_ylo = Some (Fin c), rg_yhi = Some (Fin d)\<rparr>
      \<and> 0 \<le> a \<and> (\<forall>x \<in> set xs. 0 \<le> x \<longrightarrow> a \<le> x \<and> x \<le> b) \<and> (\<forall>y \<in> set ys. c \<le> y \<and> y \<le> d)
      \<and> mc_range (mount_chart log10 dat)
          = Some \<lparr>rg_xlo = Some (Fin a), rg_xhi = Some (Fin b), rg_ylo = Some (Fin c), rg_yhi = Some (Fin d)\<rparr>"
  proof (intro exI conjI)
    show "0 \<le> a" by (simp add: a_def)
    show "\<forall>x \<in> set xs. 0 \<le> x \<longrightarrow> a \<le> x \<and> x \<le> xM + px"
      using x(2) padding by (auto simp: a_def px_def)
    show "\<forall>y \<in> set ys. ym - py \<le> y \<and> y \<le> yM + py"
      using y(2) padding by (auto simp: py_def)
  qed (simp_all add: r mounted clone_range_def clone_bound_def)
  show "mc_range (mount_chart log10 []) = Some \<lparr>rg_xlo = None, rg_xhi = None, rg_ylo = None, rg_yhi = None\<rparr>"
    by (simp add: mount_chart_def range_effect_def renderPlot_def newMaxRange_def extent_def num_sub_def
        PADDING_PERCENT_def signed_inf_def max0_def clone_range_def clone_bound_def)
qed

theorem chart_range_covers_witness:
  "\<exists>a b. rg_xlo (newMaxRange (\<lambda>x. x) Scale_Linear [\<lparr>se_x = Some [Fin 100, Fin 200], se_y = Some [Fin 3, Fin (- 1)]\<rparr>]) = Some (Fin a)
     \<and> rg_xhi (newMaxRange (\<lambda>x. x) Scale_Linear [\<lparr>se_x = Some [Fin 100, Fin 200], se_y = Some [Fin 3, Fin (- 1)]\<rparr>]) = Some (Fin b)
     \<and> a \<le> 100 \<and> 200 \<le> b"
proof -
  define dat where "dat = [\<lparr>se_x = Some [Fin 100, Fin 200], se_y = Some [Fin 3, Fin (- 1)]\<rparr>]"
  have "all_values se_x dat = map Fin [100, 200]" "all_values se_y dat = map Fin [3, - 1]"
    by (simp_all add: all_values_def dat_def field_values_def)
  from chart_range_covers [OF this(1) _ this(2), of "\<lambda>x. x"] show ?thesis
    unfolding dat_def [symmetric] by fastforce
qed

text \<open>The invariant: the ranges belong to the current data and scale.\<close>

definition chart_ok :: "(number \<Rightarrow> number) \<Rightarrow> MetricChart \<Rightarrow> bool" where
  "chart_ok log10 st = (mc_maxRange st = Some (newMaxRange log10 (mc_scale st) (mc_data st))
     \<and> mc_isRendered st
     \<and> (\<not> mc_isZoomed st \<longrightarrow> mc_range st = Some (clone_range (newMaxRange log10 (mc_scale st) (mc_data st))))
     \<and> mc_range st \<noteq> None)"

lemma chart_ok_mount: "chart_ok log10 (mount_chart log10 dat)"
  by (simp add: chart_ok_def mount_chart_def range_effect_def renderPlot_def Let_def)

lemma chart_ok_event: "chart_ok log10 st \<Longrightarrow> chart_ok log10 (chart_event log10 e st)"
  by (cases e) (auto simp: chart_ok_def chart_event_def range_effect_def renderPlot_def handleRelayout_def
      handleDoubleClick_def handleScaleSelect_def Let_def split: option.splits)

lemma chart_ok_events: "chart_ok log10 st \<Longrightarrow> chart_ok log10 (fold (chart_event log10) es st)"
  by (induction es arbitrary: st) (simp_all add: chart_ok_event)

lemma chart_zoom_data:
  "chart_ok log10 st \<Longrightarrow> mc_isZoomed st \<Longrightarrow> \<forall>e \<in> set es. new_data e \<Longrightarrow>
    mc_range (fold (chart_event log10) es st) = mc_range st \<and> mc_isZoomed (fold (chart_event log10) es st)"
proof (induction es arbitrary: st)
  case (Cons e es)
  obtain d where e: "e = ChartData d" using Cons.prems(3) by (cases e) auto
  have "mc_range (chart_event log10 e st) = mc_range st" "mc_isZoomed (chart_event log10 e st)"
    using Cons.prems by (simp_all add: e chart_event_def range_effect_def renderPlot_def Let_def)
  then show ?case using Cons chart_ok_event by simp
qed simp

text \<open>
  C26: A chart follows its data until the user zooms.  After any sequence of new data, zooms, double clicks and
  choices of the scale the largest range is that of the current data and scale, and unless the chart is zoomed it is
  the one shown.  While it is zoomed, new data changes nothing in the range shown; a double click, or choosing a scale, shows
  all of the data again.
\<close>

theorem chart_follows_data:
  "let st = fold (chart_event log10) es (mount_chart log10 dat);
       full = (\<lambda>st :: MetricChart. Some (clone_range (newMaxRange log10 (mc_scale st) (mc_data st))));
       zoomed = chart_event log10 (ChartRelayout ev) st
   in mc_maxRange st = Some (newMaxRange log10 (mc_scale st) (mc_data st))
    \<and> (mc_isZoomed st \<or> mc_range st = full st)
    \<and> mc_isZoomed zoomed
    \<and> mc_range (fold (chart_event log10) (map ChartData ds) zoomed) = mc_range zoomed
    \<and> mc_range (chart_event log10 ChartDoubleClick st) = full (chart_event log10 ChartDoubleClick st)
    \<and> mc_range (chart_event log10 (ChartScale s) st) = full (chart_event log10 (ChartScale s) st)"
proof -
  define st where "st = fold (chart_event log10) es (mount_chart log10 dat)"
  define full where "full = (\<lambda>st :: MetricChart. Some (clone_range (newMaxRange log10 (mc_scale st) (mc_data st))))"
  have ok: "chart_ok log10 st" unfolding st_def by (intro chart_ok_events chart_ok_mount)
  then have 1: "mc_maxRange st = Some (newMaxRange log10 (mc_scale st) (mc_data st))" "mc_isZoomed st \<or> mc_range st = full st"
    by (auto simp: chart_ok_def full_def)
  have z: "mc_isZoomed (chart_event log10 (ChartRelayout ev) st)"
    using ok by (auto simp: chart_ok_def chart_event_def handleRelayout_def range_effect_def renderPlot_def Let_def)
  have 2: "mc_range (fold (chart_event log10) (map ChartData ds) (chart_event log10 (ChartRelayout ev) st))
         = mc_range (chart_event log10 (ChartRelayout ev) st)"
    using chart_zoom_data [OF chart_ok_event [OF ok] z, of "map ChartData ds"] by simp
  have "\<not> mc_isZoomed (chart_event log10 ChartDoubleClick st)" "\<not> mc_isZoomed (chart_event log10 (ChartScale s) st)"
    by (simp_all add: chart_event_def handleDoubleClick_def handleScaleSelect_def range_effect_def renderPlot_def Let_def)
  then have 3: "mc_range (chart_event log10 ChartDoubleClick st) = full (chart_event log10 ChartDoubleClick st)"
      "mc_range (chart_event log10 (ChartScale s) st) = full (chart_event log10 (ChartScale s) st)"
    using chart_ok_event [OF ok, of ChartDoubleClick] chart_ok_event [OF ok, of "ChartScale s"]
    by (simp_all add: chart_ok_def full_def)
  show ?thesis
    unfolding Let_def st_def [symmetric] full_def [symmetric] using 1 2 3 z by (simp add: full_def)
qed

text \<open>Zooming to a range that starts at zero keeps the start that was shown before.\<close>

lemma zoom_to_zero:
  "rg_xlo (the (mc_range (handleRelayout [(''xaxis.range[0]'', Fin 0), (''xaxis.range[1]'', Fin 50)]
     (st\<lparr>mc_range := Some \<lparr>rg_xlo = Some (Fin 10), rg_xhi = Some (Fin 100), rg_ylo = y1, rg_yhi = y2\<rparr>\<rparr>)))) = Some (Fin 10)"
  by (simp add: handleRelayout_def event_bound_def)

text \<open>A best validation of zero, or one that is not a number, is left out of the chart of the experiment.\<close>

lemma history_zero: "vh_validationError v = Some (Fin 0) \<Longrightarrow> history_point time_of num_str start v = None"
  by (simp add: history_point_def Let_def)

end
