(* ===== verification/Dashboard.thy ===== *)
theory Dashboard
  imports Task_List Experiment_List Filters Widgets
begin

text \<open>
  The dashboard (\<^verbatim>\<open>pages/Dashboard.tsx\<close>) with the cards of its recent tasks (\<^verbatim>\<open>components/TaskCard.tsx\<close>):
  the filters and their storage, the request for experiments, the tally of what is active, and which tasks are shown in
  which order.  What the contexts hold is an argument (\<open>DashboardData\<close>).
\<close>

section \<open>The page\<close>

definition db_defaultFilters :: TaskFilters where
  "db_defaultFilters = \<lparr>tf_limit = 25, tf_states = [ALL_VALUE],
     tf_types = map (\<lambda>t. (str_CommandType t, False))
       [CommandType_Command, CommandType_Notebook, CommandType_Shell, CommandType_Tensorboard] @ [(''Experiment'', False)],
     tf_username = None\<rparr>"

definition DB_STORAGE_PATH :: string where "DB_STORAGE_PATH = ''dashboard/tasks''"

record DashboardPage =
  db_filters :: TaskFilters
  db_experiments :: "ExperimentItem list option"

record DashboardData =
  dd_commands :: CommandSource
  dd_notebooks :: CommandSource
  dd_shells :: CommandSource
  dd_tensorboards :: CommandSource
  dd_activeExperiments :: "ExperimentItem list option"
  dd_users :: "User list option"
  dd_overview :: ClusterOverview

text \<open>
  The code takes what the storage holds for filters; \<open>read_filters\<close> is that reading, \<open>None\<close> for a value of another
  shape.
\<close>

definition read_bool :: "js \<Rightarrow> bool option" where
  "read_bool v = (case v of Bool b \<Rightarrow> Some b | _ \<Rightarrow> None)"

definition read_filters :: "js \<Rightarrow> TaskFilters option" where
  "read_filters v = (case (get_prop v ''limit'', get_prop v ''states'', get_prop v ''types'') of
      (Num (Fin q), Arr ss, Obj ts) \<Rightarrow>
        (case (those (map str_opt ss), those (map (\<lambda>(k, b). map_option (Pair k) (read_bool b)) ts)) of
           (Some states, Some types) \<Rightarrow> Some \<lparr>tf_limit = \<lfloor>q\<rfloor>, tf_states = states, tf_types = types,
             tf_username = str_opt (get_prop v ''username'')\<rparr>
         | _ \<Rightarrow> None)
    | _ \<Rightarrow> None)"

text \<open>The page as mounted for the given user: with the filters of the storage, or the user's own tasks.\<close>

definition mount_dashboard ::
  "'s Store \<Rightarrow> Storage \<Rightarrow> string option \<Rightarrow> 's \<Rightarrow> DashboardPage option result" where
  "mount_dashboard ops storage username s =
     bind_exn (storage_getWithDefault ops storage s ''filters'' (task_filters_json (db_defaultFilters\<lparr>tf_username := username\<rparr>)))
       (\<lambda>v. Inr (map_option (\<lambda>f. \<lparr>db_filters = f, db_experiments = None\<rparr>) (read_filters v)))"

definition db_fetchExperiments ::
  "(js \<Rightarrow> bool) \<Rightarrow> Server \<Rightarrow> DashboardPage \<Rightarrow> 's Web \<Rightarrow> DashboardPage \<times> 's Web" where
  "db_fetchExperiments isCancel srv pg w =
     (case getExperimentList isCancel (srv_list srv) \<lparr>sorter_descend = True, sorter_key = ''SORT_BY_START_TIME''\<rparr>
         \<lparr>page_limit = 100, page_offset = 0\<rparr>
         \<lparr>ef_labels = None, ef_showArchived = False, ef_states = tf_states (db_filters pg),
          ef_username = tf_username (db_filters pg)\<rparr> None w of
        (Inr (experiments, _), w) \<Rightarrow> (pg\<lparr>db_experiments := Some experiments\<rparr>, w)
      | (Inl _, w) \<Rightarrow> (pg, run_handler isCancel (Obj [(''message'', Str ''Unable to fetch experiments.''),
          (''silent'', Bool True), (''type'', js_type ErrorType_Api)]) w))"

definition db_handleFilterChange ::
  "'s Store \<Rightarrow> Storage \<Rightarrow> TaskFilters \<Rightarrow> DashboardPage \<times> 's \<Rightarrow> (DashboardPage \<times> 's) result" where
  "db_handleFilterChange ops storage filters = (\<lambda>(pg, s).
     bind_exn (storage_set ops storage s ''filters'' (task_filters_json filters)) (\<lambda>s.
     Inr (pg\<lparr>db_filters := filters, db_experiments := None\<rparr>, s)))"

section \<open>The overview\<close>

definition data_or :: "'a list option \<Rightarrow> 'a list" where
  "data_or d = (case d of Some xs \<Rightarrow> xs | None \<Rightarrow> [])"

definition countActiveCommand :: "Command list \<Rightarrow> nat" where
  "countActiveCommand commands = length (filter (\<lambda>command. cmd_state command \<in> set activeCommandStates) commands)"

definition activeTaskTally :: "DashboardData \<Rightarrow> (string \<times> nat) list" where
  "activeTaskTally d =
     [(''COMMAND'', countActiveCommand (data_or (cs_data (dd_commands d)))),
      (''NOTEBOOK'', countActiveCommand (data_or (cs_data (dd_notebooks d)))),
      (''SHELL'', countActiveCommand (data_or (cs_data (dd_shells d)))),
      (''TENSORBOARD'', countActiveCommand (data_or (cs_data (dd_tensorboards d)))),
      (''Experiment'', length (data_or (dd_activeExperiments d)))]"

text \<open>A title with the number shown and the small text after it; what counts zero is left out.\<close>

definition resource_stat :: "string \<Rightarrow> ClusterOverviewResource \<Rightarrow> (string \<times> string \<times> string) list" where
  "resource_stat title r = (if cor_total r \<noteq> 0
     then [(title, show_int (cor_available r), ''/'' @ show_int (cor_total r))] else [])"

definition task_stat :: "DashboardData \<Rightarrow> string \<times> string \<Rightarrow> (string \<times> string \<times> string) list" where
  "task_stat d = (\<lambda>(kind, title). case map_of (activeTaskTally d) kind of
      Some n \<Rightarrow> if n \<noteq> 0 then [(title, show_int (int n), [])] else [] | None \<Rightarrow> [])"

definition overview_stats :: "(number \<Rightarrow> string) \<Rightarrow> DashboardData \<Rightarrow> (string \<times> string \<times> string) list" where
  "overview_stats num_str d =
     (''Cluster Allocation'', num_str (ov_allocation (dd_overview d)), ''%'')
     # resource_stat ''Available GPUs'' (ov_GPU (dd_overview d))
     @ resource_stat ''Available CPUs'' (ov_CPU (dd_overview d))
     @ concat (map (task_stat d) [(''Experiment'', ''Active Experiments''), (''NOTEBOOK'', ''Active Notebooks''),
         (''TENSORBOARD'', ''Active Tensorboards''), (''SHELL'', ''Active Shells''), (''COMMAND'', ''Active Commands'')])"

section \<open>Recent tasks\<close>

definition showTasksSpinner :: "DashboardData \<Rightarrow> DashboardPage \<Rightarrow> bool" where
  "showTasksSpinner d pg = (db_experiments pg = None \<or> \<not> cs_hasLoaded (dd_commands d)
     \<or> \<not> cs_hasLoaded (dd_notebooks d) \<or> \<not> cs_hasLoaded (dd_shells d) \<or> \<not> cs_hasLoaded (dd_tensorboards d))"

definition genericCommands :: "DashboardData \<Rightarrow> Command list" where
  "genericCommands d = data_or (cs_data (dd_commands d)) @ data_or (cs_data (dd_notebooks d))
     @ data_or (cs_data (dd_shells d)) @ data_or (cs_data (dd_tensorboards d))"

definition db_loadedTasks :: "DashboardData \<Rightarrow> DashboardPage \<Rightarrow> AnyTask list" where
  "db_loadedTasks d pg = map (\<lambda>e. ExperimentTask (experimentToTask e)) (data_or (db_experiments pg))
     @ map (\<lambda>c. CommandTask (commandToTask c)) (genericCommands d)"

fun lastEvent :: "AnyTask \<Rightarrow> RecentEvent" where
  "lastEvent (ExperimentTask t) = et_lastEvent t"
| "lastEvent (CommandTask t) = ct_lastEvent t"

text \<open>The date of a task, read by \<open>Date.parse\<close> (\<open>parse\<close>), and the comparator, which is never zero.\<close>

definition task_date :: "(string \<Rightarrow> number) \<Rightarrow> AnyTask \<Rightarrow> number" where
  "task_date parse t = parse (ev_date (lastEvent t))"

definition recent_cmp :: "(string \<Rightarrow> number) \<Rightarrow> AnyTask \<Rightarrow> AnyTask \<Rightarrow> int" where
  "recent_cmp parse a b = (if num_lt (task_date parse a) (task_date parse b) then 1 else - 1)"

definition sortedTasks :: "(string \<Rightarrow> number) \<Rightarrow> DashboardData \<Rightarrow> DashboardPage \<Rightarrow> AnyTask list" where
  "sortedTasks parse d pg = js_sort (recent_cmp parse) (db_loadedTasks d pg)"

definition slice_limit :: "int \<Rightarrow> 'a list \<Rightarrow> 'a list" where
  "slice_limit n xs = (if 0 \<le> n then take (nat n) xs else take (length xs - nat (- n)) xs)"

definition db_filteredTasks :: "(string \<Rightarrow> number) \<Rightarrow> DashboardData \<Rightarrow> DashboardPage \<Rightarrow> AnyTask list" where
  "db_filteredTasks parse d pg = slice_limit (tf_limit (db_filters pg))
     (filterTasks (sortedTasks parse d pg) (db_filters pg) (data_or (dd_users d)) [])"

datatype RecentTasks = RecentSpinner | RecentCards "AnyTask list" | RecentEmpty

definition recent_section :: "(string \<Rightarrow> number) \<Rightarrow> DashboardData \<Rightarrow> DashboardPage \<Rightarrow> RecentTasks" where
  "recent_section parse d pg =
     (if showTasksSpinner d pg then RecentSpinner
      else if length (db_filteredTasks parse d pg) \<noteq> 0 then RecentCards (db_filteredTasks parse d pg) else RecentEmpty)"

section \<open>The card of a task\<close>

record TaskCard =
  tc_classes :: "string list"
  tc_disabled :: bool
  tc_path :: "string option"
  tc_popout :: bool
  tc_progress :: "BarPart list option"
  tc_icon :: string
  tc_name :: string
  tc_event :: string
  tc_id :: string
  tc_state :: State
  tc_percent :: "string option"

fun any_progress :: "AnyTask \<Rightarrow> number option" where
  "any_progress (ExperimentTask t) = et_progress t"
| "any_progress (CommandTask t) = None"

fun any_url :: "AnyTask \<Rightarrow> string option" where
  "any_url (ExperimentTask t) = task_url t"
| "any_url (CommandTask t) = task_url t"

text \<open>\<open>progress || 0\<close>.\<close>

definition progress_or :: "AnyTask \<Rightarrow> number" where
  "progress_or t = (case any_progress t of Some p \<Rightarrow> if p = NaN then Fin 0 else p | None \<Rightarrow> Fin 0)"

definition task_card :: "(number \<Rightarrow> string) \<Rightarrow> AnyTask \<Rightarrow> TaskCard" where
  "task_card num_str t =
     (let hasProgress = (isExperimentTask t \<and> progress_or t \<noteq> Fin 0);
          isComplete = (isExperimentTask t \<and> any_progress t = Some (Fin 1))
      in \<lparr>tc_classes = ''base'' # (if canBeOpened t then [''link''] else []),
          tc_disabled = (\<not> canBeOpened t),
          tc_path = (case any_url t of Some u \<Rightarrow> if u \<noteq> [] then Some u else None | None \<Rightarrow> None),
          tc_popout = (\<not> isExperimentTask t),
          tc_progress = (if isExperimentTask t
            then Some (progress_parts num_str (num_mul (progress_or t) (Fin 100)) (str_State (any_state t))) else None),
          tc_icon = (if isExperimentTask t then ''experiment'' else toLowerCase (any_type t)),
          tc_name = any_name t, tc_event = ev_name (lastEvent t), tc_id = take 4 (any_id t), tc_state = any_state t,
          tc_percent = (if isExperimentTask t \<and> hasProgress \<and> \<not> isComplete
            then Some (num_str (percent (progress_or t) 1) @ ''%'') else None)\<rparr>)"

text \<open>A click on the link of the card; a disabled link has no handler.  A command is opened by its own handler.\<close>

definition click_card ::
  "(string \<Rightarrow> string \<Rightarrow> bool) \<Rightarrow> (string \<Rightarrow> Url result) \<Rightarrow> Env \<Rightarrow> ClickEvent \<Rightarrow> AnyTask \<Rightarrow> Nav list result" where
  "click_card regexp_test URL env event t =
     (if \<not> canBeOpened t then Inr []
      else case t of
        CommandTask c \<Rightarrow> openCommand env (ACommandTask c)
      | ExperimentTask e \<Rightarrow> handlePath regexp_test URL env event
          \<lparr>po_external = False, po_onClick = None, po_path = tc_path (task_card (\<lambda>_. []) t), po_popout = False\<rparr>)"

section \<open>Lemmas\<close>

text \<open>The comparator, though never zero, sorts tasks with proper dates from the latest to the earliest.\<close>

definition later :: "(string \<Rightarrow> number) \<Rightarrow> AnyTask \<Rightarrow> AnyTask \<Rightarrow> bool" where
  "later parse a b = num_lt (task_date parse b) (task_date parse a)"

definition dated :: "(string \<Rightarrow> number) \<Rightarrow> AnyTask \<Rightarrow> bool" where
  "dated parse t = (\<exists>q. task_date parse t = Fin q)"

lemma insert_recent:
  "dated parse x \<Longrightarrow> \<forall>y \<in> set ys. dated parse y \<Longrightarrow> sorted_wrt (\<lambda>a b. \<not> later parse b a) ys \<Longrightarrow>
   sorted_wrt (\<lambda>a b. \<not> later parse b a) (insert_by (recent_cmp parse) x ys)"
proof (induction ys)
  case (Cons y ys)
  have set: "set (insert_by (recent_cmp parse) x ys) = insert x (set ys)"
    by (metis mset_insert_by set_mset_add_mset_insert set_mset_mset)
  show ?case
  proof (cases "recent_cmp parse x y \<le> 0")
    case True
    then have "\<not> later parse y x" by (simp add: recent_cmp_def later_def split: if_splits)
    moreover have "\<not> later parse z x" if "z \<in> set ys" for z
      using that Cons.prems \<open>\<not> later parse y x\<close> by (fastforce simp: later_def dated_def)
    ultimately show ?thesis using True Cons.prems by auto
  next
    case False
    then have "\<not> later parse x y" using Cons.prems(1,2) by (auto simp: recent_cmp_def later_def dated_def split: if_splits)
    then show ?thesis using False Cons set by auto
  qed
qed simp

lemma sort_recent:
  "\<forall>y \<in> set ys. dated parse y \<Longrightarrow> sorted_wrt (\<lambda>a b. \<not> later parse b a) (js_sort (recent_cmp parse) ys)"
proof (induction ys)
  case (Cons y ys)
  have "js_sort (recent_cmp parse) (y # ys) = insert_by (recent_cmp parse) y (js_sort (recent_cmp parse) ys)"
    by (simp add: js_sort_def)
  then show ?case using Cons insert_recent [of parse y "js_sort (recent_cmp parse) ys"] by simp
qed (simp add: js_sort_def)

lemma filterTasks_filter: "\<exists>P. \<forall>ts. filterTasks ts filters users search = filter P ts"
  by (auto simp: filterTasks_def Let_def filter_filter)

lemma filterTasks_archived: "t \<in> set (filterTasks ts filters users search) \<Longrightarrow> \<not> any_archived t"
  by (cases t) (auto simp: filterTasks_def Let_def)

lemma strict_sorted:
  assumes "sorted_wrt (\<lambda>a b. \<not> later parse b a) xs" and "\<forall>x \<in> set xs. dated parse x"
    and "distinct (map (task_date parse) xs)"
  shows "sorted_wrt (later parse) xs"
  using assms
proof (induction xs)
  case (Cons x xs)
  have "later parse x y" if y: "y \<in> set xs" for y
  proof -
    have "task_date parse y \<noteq> task_date parse x" using imageI [OF y, of "task_date parse"] Cons.prems(3) by auto
    moreover obtain p q where "task_date parse x = Fin p" "task_date parse y = Fin q"
      using y Cons.prems(2) by (auto simp: dated_def)
    ultimately show ?thesis using y Cons.prems(1) by (auto simp: later_def)
  qed
  then show ?case using Cons by simp
qed simp

lemma sorted_take: "sorted_wrt P xs \<Longrightarrow> x \<in> set (take n xs) \<Longrightarrow> y \<in> set xs - set (take n xs) \<Longrightarrow> P x y"
  by (metis Diff_iff Un_iff append_take_drop_id set_append sorted_wrt_append)

section \<open>Properties\<close>

text \<open>
  C28: The dashboard shows the most recent tasks that pass its filters.  When every task loaded has a proper date of its
  own and the limit is not negative, the cards shown are in order from the latest to the earliest; they pass the filters,
  none of them is archived; they are as many as the limit, or all that pass; and a task that passes but is not shown is
  older than each that is.
\<close>

theorem recent_tasks:
  assumes "\<forall>t \<in> set (db_loadedTasks d pg). \<exists>q. task_date parse t = Fin q"
    and "distinct (map (task_date parse) (db_loadedTasks d pg))" and "0 \<le> tf_limit (db_filters pg)"
  shows "let shown = db_filteredTasks parse d pg;
        passing = filterTasks (db_loadedTasks d pg) (db_filters pg) (data_or (dd_users d)) [] in
     sorted_wrt (\<lambda>a b. num_lt (task_date parse b) (task_date parse a)) shown
   \<and> set shown \<subseteq> set passing \<and> (\<forall>t \<in> set shown. \<not> any_archived t)
   \<and> length shown = min (length passing) (nat (tf_limit (db_filters pg)))
   \<and> (\<forall>t \<in> set passing - set shown. \<forall>s \<in> set shown. num_lt (task_date parse t) (task_date parse s))"
proof -
  let ?ts = "db_loadedTasks d pg"
  obtain P where P: "\<And>ts. filterTasks ts (db_filters pg) (data_or (dd_users d)) [] = filter P ts"
    using filterTasks_filter [of "db_filters pg" "data_or (dd_users d)" "[]"] by blast
  define srt where "srt = filter P (js_sort (recent_cmp parse) ?ts)"
  have dt: "\<forall>t \<in> set ?ts. dated parse t" using assms(1) by (simp add: dated_def)
  have m: "mset srt = mset (filter P ?ts)" by (simp add: srt_def)
  have "mset (map (task_date parse) (js_sort (recent_cmp parse) ?ts)) = mset (map (task_date parse) ?ts)" by simp
  with assms(2) have "distinct (map (task_date parse) (js_sort (recent_cmp parse) ?ts))"
    using mset_eq_imp_distinct_iff by blast
  then have "distinct (map (task_date parse) srt)" by (simp add: srt_def distinct_map_filter)
  moreover have "sorted_wrt (\<lambda>a b. \<not> later parse b a) srt"
    using sort_recent [OF dt] by (simp add: srt_def sorted_wrt_filter)
  moreover have "\<forall>t \<in> set srt. dated parse t" using dt by (simp add: srt_def)
  ultimately have st: "sorted_wrt (later parse) srt" by (intro strict_sorted)
  have shown: "db_filteredTasks parse d pg = take (nat (tf_limit (db_filters pg))) srt"
    using assms(3) by (simp add: db_filteredTasks_def sortedTasks_def slice_limit_def P srt_def)
  have sub: "set srt = set (filter P ?ts)" "length srt = length (filter P ?ts)"
    using m by (metis set_mset_mset, metis size_mset)
  have arch: "\<not> any_archived t" if "t \<in> set (filter P ?ts)" for t
    using that filterTasks_archived [of t ?ts "db_filters pg" "data_or (dd_users d)" "[]"] by (simp add: P)
  have "later parse s t" if "t \<in> set srt - set (take n srt)" "s \<in> set (take n srt)" for s t n
    using sorted_take [OF st that(2,1)] .
  then have old: "\<forall>t \<in> set srt - set (take n srt). \<forall>s \<in> set (take n srt). num_lt (task_date parse t) (task_date parse s)" for n
    unfolding later_def by blast
  have "sorted_wrt (later parse) (take n srt)" for n using st by (rule sorted_wrt_take)
  then have srt': "sorted_wrt (\<lambda>a b. num_lt (task_date parse b) (task_date parse a)) (take n srt)" for n
    by (simp add: later_def [abs_def])
  let ?n = "nat (tf_limit (db_filters pg))"
  have tk: "set (take ?n srt) \<subseteq> set (filter P ?ts)" using set_take_subset [of ?n srt] unfolding sub(1) .
  have "\<forall>t \<in> set (take ?n srt). \<not> any_archived t" using tk arch by blast
  moreover have "length (take ?n srt) = min (length (filter P ?ts)) ?n" by (simp add: sub(2))
  ultimately show ?thesis
    unfolding Let_def shown P using srt' [of ?n] old [of ?n, unfolded sub(1)] tk by (intro conjI)
qed

definition sample_dashboard :: DashboardData where
  "sample_dashboard = (let src = \<lparr>cs_data = Some [], cs_hasLoaded = True\<rparr>;
       c = (\<lambda>i date. (sample_command i CommandState_Running)\<lparr>cmd_registeredTime := date\<rparr>) in
     \<lparr>dd_commands = src, dd_notebooks = src, dd_shells = src\<lparr>cs_data := Some [c ''a'' ''t'', c ''b'' ''ttt'', c ''c'' ''tt'']\<rparr>,
      dd_tensorboards = src, dd_activeExperiments = None, dd_users = None, dd_overview = defaultClusterOverview\<rparr>)"

theorem recent_tasks_witness:
  "let pg = \<lparr>db_filters = db_defaultFilters\<lparr>tf_limit := 2\<rparr>, db_experiments = Some []\<rparr>;
       shown = db_filteredTasks (\<lambda>s. Fin (of_nat (length s))) sample_dashboard pg
   in length shown = 2 \<and> any_id (hd shown) = ''b'' \<and> sorted_wrt (\<lambda>a b.
        num_lt (task_date (\<lambda>s. Fin (of_nat (length s))) b) (task_date (\<lambda>s. Fin (of_nat (length s))) a)) shown"
proof -
  let ?pg = "\<lparr>db_filters = db_defaultFilters\<lparr>tf_limit := 2\<rparr>, db_experiments = Some []\<rparr>"
  let ?parse = "\<lambda>s :: string. Fin (of_nat (length s))"
  let ?t = "\<lambda>i date. CommandTask (commandToTask ((sample_command i CommandState_Running)\<lparr>cmd_registeredTime := date\<rparr>))"
  have ts: "db_loadedTasks sample_dashboard ?pg = [?t ''a'' ''t'', ?t ''b'' ''ttt'', ?t ''c'' ''tt'']"
    by (simp add: db_loadedTasks_def genericCommands_def data_or_def sample_dashboard_def Let_def)
  have d: "task_date ?parse (?t i date) = Fin (of_nat (length date))" for i date
    by (simp add: task_date_def commandToTask_def)
  have "filterTasks (db_loadedTasks sample_dashboard ?pg) (db_filters ?pg) (data_or (dd_users sample_dashboard)) []
      = db_loadedTasks sample_dashboard ?pg"
    unfolding ts by (simp add: filterTasks_def db_defaultFilters_def obj_values_def matchesUser_def matchesState_def matchesSearch_def ALL_VALUE_def)
  note th = recent_tasks [of sample_dashboard ?pg ?parse, unfolded Let_def this, unfolded ts]
  let ?shown = "db_filteredTasks ?parse sample_dashboard ?pg"
  have p: "sorted_wrt (\<lambda>a b. num_lt (task_date ?parse b) (task_date ?parse a)) ?shown" "length ?shown = 2"
    using th by (simp_all add: d)
  have h: "any_id (hd ?shown) = ''b''"
    unfolding db_filteredTasks_def sortedTasks_def ts by (simp add: js_sort_def recent_cmp_def task_date_def slice_limit_def filterTasks_def obj_values_def
        db_defaultFilters_def matchesUser_def matchesState_def matchesSearch_def ALL_VALUE_def commandToTask_def sample_command_def)
  show ?thesis using p h by (simp add: Let_def)
qed

text \<open>What the handler stores is read back as the same filters.\<close>

lemma those_Some: "those (map Some xs) = Some xs"
  by (induction xs) auto

lemma read_task_filters:
  assumes "distinct (map fst (tf_types f))"
  shows "wf_js (task_filters_json f)" and "\<exists>j. to_json (task_filters_json f) = Some j \<and> read_filters (of_json j) = Some f"
proof -
  show "wf_js (task_filters_json f)"
    using assms by (auto simp: task_filters_json_def js_int_def js_strs_def js_opt_def list_all_iff case_prod_unfold comp_def
        split: option.split)
  have t: "json_props (map (\<lambda>(k, v). (k, to_json v)) (map (\<lambda>(k, b). (k, Bool b)) ts)) = map (\<lambda>(k, b). (k, JBool b)) ts" for ts :: "(string \<times> bool) list"
    by (induction ts) auto
  have "those (map (\<lambda>(k, b). map_option (Pair k) (read_bool b)) (map (\<lambda>(k, v). (k, of_json v)) (map (\<lambda>(k, b). (k, JBool b)) ts)))
      = Some ts" for ts :: "(string \<times> bool) list"
    by (induction ts) (auto simp: read_bool_def)
  moreover have "those (map str_opt (map of_json (map (\<lambda>x. case to_json x of None \<Rightarrow> JNull | Some j \<Rightarrow> j) (map Str ss)))) = Some ss" for ss
    by (induction ss) auto
  ultimately show "\<exists>j. to_json (task_filters_json f) = Some j \<and> read_filters (of_json j) = Some f"
    by (cases "tf_username f")
      (simp_all add: task_filters_json_def js_int_def js_strs_def js_opt_def t read_filters_def get_prop_def
        del: map_map)
qed

text \<open>
  The dashboard remembers its filters.  What the handler of the filters stores is what the next visit starts with,
  whoever visits: the page as it is after the change, waiting for its experiments.  A visitor without stored filters starts with
  the default ones, restricted to the visitor's own tasks.
\<close>

theorem dashboard_filters_remembered:
  assumes "store_laws ops" and "distinct (map fst (tf_types f))"
    and "db_handleFilterChange ops storage f (pg, s) = Inr (pg', s')"
  shows "mount_dashboard ops storage username s' = Inr (Some pg') \<and> db_filters pg' = f \<and> db_experiments pg' = None
    \<and> mount_dashboard ops storage username (storage_clear ops s)
        = Inr (Some \<lparr>db_filters = db_defaultFilters\<lparr>tf_username := username\<rparr>, db_experiments = None\<rparr>)"
proof (intro conjI)
  from assms(3) have set: "storage_set ops storage s ''filters'' (task_filters_json f) = Inr s'"
    and pg': "pg' = \<lparr>db_filters = f, db_experiments = None\<rparr>"
    by (auto simp: db_handleFilterChange_def bind_exn_Inr_iff)
  obtain j where j: "to_json (task_filters_json f) = Some j" "read_filters (of_json j) = Some f"
    using read_task_filters(2) [OF assms(2)] by blast
  have "of_json j \<noteq> Null" using j(2) by (auto simp: read_filters_def get_prop_def)
  with store_laws.get_after_set [OF assms(1) set read_task_filters(1) [OF assms(2)] j(1)]
  show "mount_dashboard ops storage username s' = Inr (Some pg')"
    by (simp add: mount_dashboard_def storage_getWithDefault_def j(2) pg')
  show "db_filters pg' = f" "db_experiments pg' = None" by (simp_all add: pg')
  have "read_filters (task_filters_json g) = Some g" if "g = db_defaultFilters\<lparr>tf_username := username\<rparr>" for g
    by (simp add: that read_filters_def task_filters_json_def db_defaultFilters_def get_prop_def js_int_def js_strs_def
        js_opt_def read_bool_def split: option.split)
  then show "mount_dashboard ops storage username (storage_clear ops s)
      = Inr (Some \<lparr>db_filters = db_defaultFilters\<lparr>tf_username := username\<rparr>, db_experiments = None\<rparr>)"
    using store_laws.get_after_clear [OF assms(1)] by (simp add: mount_dashboard_def storage_getWithDefault_def)
qed

theorem dashboard_filters_remembered_witness:
  "\<exists>pg' s'. db_handleFilterChange MemoryStore (useStorage (Some ''ann'') DB_STORAGE_PATH) (db_defaultFilters\<lparr>tf_limit := 50\<rparr>)
       (\<lparr>db_filters = db_defaultFilters, db_experiments = Some []\<rparr>, mem_new) = Inr (pg', s')
     \<and> mount_dashboard MemoryStore (useStorage (Some ''ann'') DB_STORAGE_PATH) None s' = Inr (Some pg')
     \<and> tf_limit (db_filters pg') = 50"
proof -
  let ?f = "db_defaultFilters\<lparr>tf_limit := 50\<rparr>"
  let ?sg = "useStorage (Some ''ann'') DB_STORAGE_PATH"
  obtain s' where "storage_set MemoryStore ?sg mem_new ''filters'' (task_filters_json ?f) = Inr s'"
    by (simp add: storage_set_def task_filters_json_def is_nullish_def)
  then have h: "db_handleFilterChange MemoryStore ?sg ?f (\<lparr>db_filters = db_defaultFilters, db_experiments = Some []\<rparr>, mem_new)
      = Inr (\<lparr>db_filters = ?f, db_experiments = None\<rparr>, s')"
    by (simp add: db_handleFilterChange_def)
  have "distinct (map fst (tf_types ?f))" by (simp add: db_defaultFilters_def)
  from dashboard_filters_remembered [OF mem.store_laws_axioms this h, of None] h show ?thesis by auto
qed

lemma lower_kinds: "toLowerCase ''NOTEBOOK'' = ''notebook''" "toLowerCase ''TENSORBOARD'' = ''tensorboard''"
  by code_simp+

text \<open>
  C29: What a click on the card of a task does.  Nothing when the task cannot be opened; the page of an experiment, at its
  path, for the card of an experiment; for a notebook or a TensorBoard the page that waits for it, in a new tab; but the
  card of a running shell, which has a service address like them, throws.
\<close>

theorem task_card_opens:
  assumes "url_api URL" "path_to_regexp test" and "plain_origin (reactHostAddress env)"
    and "plain_path (env_PUBLIC_URL env)" "CHR ''?'' \<notin> set (env_PUBLIC_URL env)" and "plain_path (exp_url e)"
    and plain_click: "click_button event \<noteq> 1" "\<not> click_metaKey event" "\<not> click_ctrlKey event"
  shows "click_card test URL env event (ExperimentTask (experimentToTask e)) =
     (case route_for (takeWhile (\<lambda>c. c \<noteq> CHR ''?'') (exp_url e)) of
        Some _ \<Rightarrow> bind_exn (clone (env_location env) True) (\<lambda>l. Inr [Push (exp_url e) (Obj [(''loginRedirect'', l)])])
      | None \<Rightarrow> Inr [Assign (env_PUBLIC_URL env @ exp_url e)])
   \<and> click_card test URL env event (CommandTask c) =
     (if ct_state c \<in> terminalCommandStates \<or> task_serviceAddress c \<in> {None, Some []} then Inr []
      else let page = (\<lambda>kind events. Inr (openBlank (env_PUBLIC_URL env @ ''/wait/'' @ kind @ ''/'' @ task_id c @ ''?eventUrl=''
              @ serverAddress env [] @ events @ ''&serviceAddr='' @ the (task_serviceAddress c))))
           in case ct_type c of
                CommandType_Notebook \<Rightarrow> page ''notebook'' (''/notebooks/'' @ task_id c @ ''/events'')
              | CommandType_Tensorboard \<Rightarrow> page ''tensorboard'' (''/tensorboard/'' @ task_id c @ ''/events?tail=1'')
              | _ \<Rightarrow> Inl (JsError ''command cannot be opened''))"
proof (intro conjI)
  have p: "exp_url e \<noteq> []" using assms(6) by (auto simp: plain_path_def)
  then have "linkPath env (exp_url e) False \<noteq> []"
    using assms(4) by (auto simp: linkPath_def plain_path_def)
  then have "click_card test URL env event (ExperimentTask (experimentToTask e)) = routeAll test URL env (linkPath env (exp_url e) False)"
    using p plain_click by (simp add: click_card_def handlePath_def task_card_def Let_def experimentToTask_def)
  then show "click_card test URL env event (ExperimentTask (experimentToTask e)) =
     (case route_for (takeWhile (\<lambda>c. c \<noteq> CHR ''?'') (exp_url e)) of
        Some _ \<Rightarrow> bind_exn (clone (env_location env) True) (\<lambda>l. Inr [Push (exp_url e) (Obj [(''loginRedirect'', l)])])
      | None \<Rightarrow> Inr [Assign (env_PUBLIC_URL env @ exp_url e)])"
    using link_round_trip [OF assms(1-6)] by simp
  show "click_card test URL env event (CommandTask c) =
     (if ct_state c \<in> terminalCommandStates \<or> task_serviceAddress c \<in> {None, Some []} then Inr []
      else let page = (\<lambda>kind events. Inr (openBlank (env_PUBLIC_URL env @ ''/wait/'' @ kind @ ''/'' @ task_id c @ ''?eventUrl=''
              @ serverAddress env [] @ events @ ''&serviceAddr='' @ the (task_serviceAddress c))))
           in case ct_type c of
                CommandType_Notebook \<Rightarrow> page ''notebook'' (''/notebooks/'' @ task_id c @ ''/events'')
              | CommandType_Tensorboard \<Rightarrow> page ''tensorboard'' (''/tensorboard/'' @ task_id c @ ''/events?tail=1'')
              | _ \<Rightarrow> Inl (JsError ''command cannot be opened''))"
    using lower_kinds by (cases "ct_type c")
      (auto simp: click_card_def openCommand_def waitPageUrl_def commandToEventUrl_def Let_def
        split: option.split)
qed

theorem task_card_opens_witness:
  "click_card seg_match simple_URL dev_env \<lparr>click_button = 0, click_metaKey = False, click_ctrlKey = False\<rparr>
       (ExperimentTask (experimentToTask (sample_experiment 3 RunState_Active\<lparr>exp_url := ''/experiments/3''\<rparr>)))
     = Inr [Push ''/experiments/3'' (Obj [(''loginRedirect'', Obj [])])]"
proof -
  let ?e = "sample_experiment 3 RunState_Active\<lparr>exp_url := ''/experiments/3''\<rparr>"
  have c: "plain_origin (reactHostAddress dev_env)" "plain_path (env_PUBLIC_URL dev_env)"
    "CHR ''?'' \<notin> set (env_PUBLIC_URL dev_env)" "plain_path ''/experiments/3''"
    by code_simp+
  have r: "\<exists>r. route_for (takeWhile (\<lambda>c. c \<noteq> CHR ''?'') ''/experiments/3'') = Some r"
    by (intro exI [of _ "mk_route None ''experimentDetails'' True ''/experiments/:experimentId'' (Some ''Experiment'')"])
      code_simp
  have "clone (env_location dev_env) True = Inr (Obj [])" by code_simp
  with r show ?thesis
    using task_card_opens [OF simple.url_api_axioms segs.path_to_regexp_axioms c(1-3), of ?e
        "\<lparr>click_button = 0, click_metaKey = False, click_ctrlKey = False\<rparr>"] c(4) by auto
qed

text \<open>The pages and the counts of the overview: a kind is shown when some of its tasks are active.\<close>

lemma overview_titles:
  "(title, n, small) \<in> set (overview_stats num_str d) \<Longrightarrow> title \<noteq> ''Cluster Allocation'' \<Longrightarrow> n \<noteq> show_int 0 \<or> small \<noteq> []"
  by (auto simp: overview_stats_def resource_stat_def task_stat_def activeTaskTally_def show_int_inj split: if_splits)

end
