(* ===== verification/Chrome.thy ===== *)
theory Chrome
  imports Actions Filters Widgets Auth_Pages
begin

text \<open>
  The frame around the pages: links (\<^verbatim>\<open>components/Link.tsx\<close>), dropdowns, the navigation at the side, top and bottom, the
  header of a page, small parts (\<^verbatim>\<open>Section\<close>, \<^verbatim>\<open>Grid\<close>, \<^verbatim>\<open>Logo\<close>, \<^verbatim>\<open>Toggle\<close>), \<^verbatim>\<open>hooks/useResize.ts\<close> and
  \<^verbatim>\<open>App.tsx\<close>.  Class names are those of the style modules.
\<close>

section \<open>Sizes\<close>

text \<open>
  \<open>toRem\<close>: a number of pixels, or a text in which the first number followed by a unit is looked for.  \<open>num_str\<close> is the
  notation of numbers.
\<close>

definition digits_value :: "string \<Rightarrow> rat" where
  "digits_value ds = foldl (\<lambda>n c. 10 * n + of_nat (of_char c - 48)) 0 ds"

definition decimal_value :: "string \<Rightarrow> rat" where
  "decimal_value s = (let i = takeWhile is_digit s; f = drop (Suc (length i)) s
     in digits_value i + digits_value f / 10 ^ length f)"

text \<open>\<open>(\d+\.?\d*)\s*(px|rem)\<close> at the start of a text: the number and the unit.\<close>

definition rem_at :: "string \<Rightarrow> (string \<times> string) option" where
  "rem_at s =
     (let i = takeWhile is_digit s; r = dropWhile is_digit s;
          dot = (if r \<noteq> [] \<and> hd r = CHR ''.'' then ''.'' else []); r = drop (length dot) r;
          f = (if dot = [] then [] else takeWhile is_digit r); r = dropWhile is_space (drop (length f) r)
      in if i = [] then None
         else if toLowerCase (take 2 r) = ''px'' then Some (i @ dot @ f, take 2 r)
         else if toLowerCase (take 3 r) = ''rem'' then Some (i @ dot @ f, take 3 r) else None)"

fun rem_match :: "string \<Rightarrow> (string \<times> string) option" where
  "rem_match [] = None"
| "rem_match (c # s) = (case rem_at (c # s) of Some m \<Rightarrow> Some m | None \<Rightarrow> rem_match s)"

datatype Px = PxNum number | PxStr string

definition toRem :: "(number \<Rightarrow> string) \<Rightarrow> Px option \<Rightarrow> string" where
  "toRem num_str px = (case px of
      None \<Rightarrow> ''auto''
    | Some (PxNum n) \<Rightarrow> num_str (num_div n (Fin 10)) @ ''rem''
    | Some (PxStr s) \<Rightarrow> (case rem_match s of
          Some (v, unit) \<Rightarrow> if unit = ''px'' then num_str (Fin (decimal_value v / 10)) @ ''rem''
            else if unit = ''rem'' then num_str (Fin (decimal_value v)) @ ''rem'' else s
        | None \<Rightarrow> s))"

section \<open>Links\<close>

record LinkProps =
  lk_className :: "string option"
  lk_disabled :: bool
  lk_external :: bool
  lk_inherit :: bool
  lk_isButton :: bool
  lk_label :: "string option"
  lk_onClick :: "Nav list option" \<comment> \<open>what the given handler does\<close>
  lk_path :: "string option"
  lk_popout :: bool
  lk_size :: "string option"

definition no_props :: LinkProps where
  "no_props = \<lparr>lk_className = None, lk_disabled = False, lk_external = False, lk_inherit = False, lk_isButton = False,
     lk_label = None, lk_onClick = None, lk_path = None, lk_popout = False, lk_size = None\<rparr>"

text \<open>A property that is set and not the empty string, as a list.\<close>

definition opt_str :: "string option \<Rightarrow> string list" where
  "opt_str x = (case x of Some s \<Rightarrow> if s \<noteq> [] then [s] else [] | None \<Rightarrow> [])"

definition link_classes :: "LinkProps \<Rightarrow> string list" where
  "link_classes l = [''base''] @ opt_str (lk_className l) @ (if \<not> lk_disabled l then [''link''] else [])
     @ (if lk_inherit l then [''inherit''] else []) @ (if lk_isButton l then [''ant-btn''] else []) @ opt_str (lk_size l)"

definition link_href :: "Env \<Rightarrow> LinkProps \<Rightarrow> string option" where
  "link_href env l = (case lk_path l of
      Some p \<Rightarrow> if p \<noteq> [] then Some (linkPath env p (lk_external l)) else None | None \<Rightarrow> None)"

datatype LinkView = LinkSpan string | LinkAnchor "string option" string "string option" string

definition link_view :: "Env \<Rightarrow> LinkProps \<Rightarrow> LinkView" where
  "link_view env l =
     (let classes = js_join '' '' (link_classes l)
      in if lk_disabled l then LinkSpan classes
         else LinkAnchor (lk_label l) classes (link_href env l) (js_join '' '' windowOpenFeatures))"

definition link_click ::
  "(string \<Rightarrow> string \<Rightarrow> bool) \<Rightarrow> (string \<Rightarrow> Url result) \<Rightarrow> Env \<Rightarrow> ClickEvent \<Rightarrow> LinkProps \<Rightarrow> Nav list result" where
  "link_click regexp_test URL env event l =
     (if lk_disabled l then Inr []
      else handlePath regexp_test URL env event
        \<lparr>po_external = lk_external l, po_onClick = lk_onClick l, po_path = lk_path l, po_popout = lk_popout l\<rparr>)"

section \<open>Dropdowns\<close>

datatype Placement =
    Pl_Bottom | Pl_BottomLeft | Pl_BottomRight | Pl_Left | Pl_LeftBottom | Pl_LeftTop
  | Pl_Right | Pl_RightTop | Pl_RightBottom | Pl_Top | Pl_TopLeft | Pl_TopRight

fun str_Placement :: "Placement \<Rightarrow> string" where
  "str_Placement Pl_Bottom = ''bottom''"
| "str_Placement Pl_BottomLeft = ''bottomLeft''"
| "str_Placement Pl_BottomRight = ''bottomRight''"
| "str_Placement Pl_Left = ''left''"
| "str_Placement Pl_LeftBottom = ''leftBottom''"
| "str_Placement Pl_LeftTop = ''leftTop''"
| "str_Placement Pl_Right = ''right''"
| "str_Placement Pl_RightTop = ''rightTop''"
| "str_Placement Pl_RightBottom = ''rightBottom''"
| "str_Placement Pl_Top = ''top''"
| "str_Placement Pl_TopLeft = ''topLeft''"
| "str_Placement Pl_TopRight = ''topRight''"

definition calc :: "string \<Rightarrow> string \<Rightarrow> string" where
  "calc sign rem = ''calc(100% '' @ sign @ '' '' @ rem @ '')''"

text \<open>The style of the content, from the offsets in the units of the page.\<close>

fun contentStyle :: "string \<Rightarrow> string \<Rightarrow> Placement \<Rightarrow> (string \<times> string) list" where
  "contentStyle x y Pl_Bottom = [(''left'', ''50%''), (''top'', calc ''+'' y), (''transform'', ''translateX(-50%)'')]"
| "contentStyle x y Pl_BottomLeft = [(''left'', x), (''top'', calc ''+'' y)]"
| "contentStyle x y Pl_BottomRight = [(''right'', x), (''top'', calc ''+'' y)]"
| "contentStyle x y Pl_Left = [(''right'', calc ''-'' x), (''top'', ''50%''), (''transform'', ''translateY(-50%)'')]"
| "contentStyle x y Pl_LeftBottom = [(''bottom'', y), (''right'', calc ''-'' x)]"
| "contentStyle x y Pl_LeftTop = [(''right'', calc ''-'' x), (''top'', y)]"
| "contentStyle x y Pl_Right = [(''left'', calc ''+'' x), (''top'', ''50%''), (''transform'', ''translateY(-50%)'')]"
| "contentStyle x y Pl_RightBottom = [(''bottom'', y), (''left'', calc ''+'' x)]"
| "contentStyle x y Pl_RightTop = [(''left'', calc ''+'' x), (''top'', y)]"
| "contentStyle x y Pl_Top = [(''bottom'', calc ''-'' y), (''left'', ''50%''), (''transform'', ''translateX(-50%)'')]"
| "contentStyle x y Pl_TopLeft = [(''bottom'', calc ''-'' y), (''left'', x)]"
| "contentStyle x y Pl_TopRight = [(''bottom'', calc ''-'' y), (''right'', x)]"

text \<open>Where in the document a click was: in a date picker, in the trigger, in the content of the dropdown.\<close>

record ClickTarget =
  at_picker :: bool
  at_trigger :: bool
  at_dropdown :: bool

record Dropdown =
  dr_isVisible :: bool
  dr_told :: "bool list" \<comment> \<open>the calls of \<open>onVisibleChange\<close>\<close>

definition dropdown_click :: "bool \<Rightarrow> ClickTarget option \<Rightarrow> bool \<Rightarrow> bool" where
  "dropdown_click disableAutoDismiss target isVisible = (case target of
      None \<Rightarrow> isVisible
    | Some t \<Rightarrow> if at_picker t then isVisible
        else if at_trigger t then \<not> isVisible
        else if at_dropdown t then (if \<not> disableAutoDismiss then False else isVisible)
        else False)"

definition mount_dropdown :: "bool \<Rightarrow> Dropdown" where
  "mount_dropdown initVisible = \<lparr>dr_isVisible = initVisible, dr_told = [initVisible]\<rparr>"

definition dropdown_event :: "bool \<Rightarrow> ClickTarget option \<Rightarrow> Dropdown \<Rightarrow> Dropdown" where
  "dropdown_event disableAutoDismiss target d =
     (let v = dropdown_click disableAutoDismiss target (dr_isVisible d)
      in \<lparr>dr_isVisible = v, dr_told = (if v \<noteq> dr_isVisible d then dr_told d @ [v] else dr_told d)\<rparr>)"

definition dropdown_classes :: "Placement \<Rightarrow> bool \<Rightarrow> bool \<Rightarrow> string list" where
  "dropdown_classes placement isVisible showArrow =
     [''base'', str_Placement placement] @ (if isVisible then [''visible''] else []) @ (if showArrow then [''arrow''] else [])"

section \<open>The header of a page\<close>

definition getFullDocTitle :: "string option \<Rightarrow> string option \<Rightarrow> string" where
  "getFullDocTitle title clusterName = js_join '' - '' (opt_str title @ opt_str clusterName @ [''Determined''])"

record PageProps =
  pg_className :: "string option"
  pg_breadcrumb :: "(string \<times> string) list option" \<comment> \<open>names and paths\<close>
  pg_docTitle :: "string option"
  pg_stickHeader :: bool
  pg_title :: "string option"

definition page_docTitle :: "PageProps \<Rightarrow> string option \<Rightarrow> string" where
  "page_docTitle p clusterName =
     getFullDocTitle (if opt_str (pg_docTitle p) \<noteq> [] then pg_docTitle p else pg_title p) clusterName"

definition page_classes :: "PageProps \<Rightarrow> string" where
  "page_classes p = js_join '' '' ((case pg_className p of Some c \<Rightarrow> c | None \<Rightarrow> []) # ''base''
     # (if pg_stickHeader p then [''stickyHeader''] else []))"

definition showHeader :: "PageProps \<Rightarrow> bool" where
  "showHeader p = (pg_breadcrumb p \<noteq> None \<or> opt_str (pg_title p) \<noteq> [])"

text \<open>Every entry of the trail but the last is a link to its path.\<close>

datatype Crumb = CrumbText string | CrumbLink string string

definition breadCrumbRender :: "(string \<times> string) list \<Rightarrow> Crumb list" where
  "breadCrumbRender rs = map (\<lambda>(i, name, path). if i = length rs - 1 then CrumbText name else CrumbLink path name)
     (List.enumerate 0 rs)"

definition header_classes :: "bool \<Rightarrow> string list" where
  "header_classes sticky = ''base'' # (if sticky then [''sticky''] else [])"

section \<open>Navigation\<close>

text \<open>An entry of a navigation; it is active when its path is that of the page.\<close>

record NavItem =
  ni_icon :: string
  ni_label :: string
  ni_link :: LinkProps
  ni_status :: "string option"

definition nav_item :: "string \<Rightarrow> string \<Rightarrow> string \<Rightarrow> NavItem" where
  "nav_item icon label path = \<lparr>ni_icon = icon, ni_label = label,
     ni_link = no_props\<lparr>lk_label := Some label, lk_path := Some path\<rparr>, ni_status = None\<rparr>"

definition external_item :: "string \<Rightarrow> string \<Rightarrow> string \<Rightarrow> NavItem" where
  "external_item icon label path = (let i = nav_item icon label path in
     i\<lparr>ni_link := (ni_link i)\<lparr>lk_external := True, lk_popout := True\<rparr>\<rparr>)"

definition item_active :: "string \<Rightarrow> NavItem \<Rightarrow> bool" where
  "item_active pathname i = (Some pathname = lk_path (ni_link i))"

definition item_classes :: "string \<Rightarrow> NavItem \<Rightarrow> string list" where
  "item_classes pathname i = [''navItem''] @ (if item_active pathname i then [''active''] else [])
     @ (if opt_str (ni_status i) \<noteq> [] then [''hasStatus''] else [])"

text \<open>With the chrome collapsed the label is a tooltip.\<close>

definition item_tooltip :: "UIState \<Rightarrow> NavItem \<Rightarrow> string option" where
  "item_tooltip ui i = (if ui_chromeCollapsed ui then Some (ni_label i) else None)"

definition STORAGE_KEY_COLLAPSED :: string where "STORAGE_KEY_COLLAPSED = ''collapsed''"

record Navigation =
  nv_isCollapsed :: js \<comment> \<open>what the storage held, or a boolean\<close>
  nv_isShowingCpu :: bool

definition mount_navigation :: "'s Store \<Rightarrow> Storage \<Rightarrow> 's \<Rightarrow> Navigation result" where
  "mount_navigation ops storage s = bind_exn (storage_getWithDefault ops storage s STORAGE_KEY_COLLAPSED (Bool False))
     (\<lambda>v. Inr \<lparr>nv_isCollapsed = v, nv_isShowingCpu = False\<rparr>)"

definition handleCollapse :: "'s Store \<Rightarrow> Storage \<Rightarrow> Navigation \<times> 's \<Rightarrow> (Navigation \<times> 's) result" where
  "handleCollapse ops storage = (\<lambda>(nv, s).
     let newCollapsed = Bool (\<not> truthy (nv_isCollapsed nv)) in
     bind_exn (storage_set ops storage s STORAGE_KEY_COLLAPSED newCollapsed) (\<lambda>s.
     Inr (nv\<lparr>nv_isCollapsed := newCollapsed\<rparr>, s)))"

definition collapse_effect :: "Navigation \<Rightarrow> UIState \<Rightarrow> UIState" where
  "collapse_effect nv ui = ui_reducer ui (if truthy (nv_isCollapsed nv) then CollapseChrome else ExpandChrome)"

definition handleVisibleChange :: "bool \<Rightarrow> Navigation \<Rightarrow> Navigation" where
  "handleVisibleChange visible nv = nv\<lparr>nv_isShowingCpu := visible\<rparr>"

definition showNavigation :: "AuthState \<Rightarrow> UIState \<Rightarrow> bool" where
  "showNavigation auth ui = (auth_isAuthenticated auth \<and> ui_showChrome ui)"

definition shortVersion :: "string \<Rightarrow> string" where
  "shortVersion version = js_join ''.'' (take 3 (js_split ''.'' version))"

definition isVersionLong :: "string \<Rightarrow> bool" where
  "isVersionLong version = (length (filter (\<lambda>c. c = CHR ''.'') version) > 2)"

text \<open>The label of the version and, when it is shortened, its tooltip.\<close>

definition version_label :: "string \<Rightarrow> string \<times> string option" where
  "version_label version = (if isVersionLong version then (shortVersion version, Some (''Version '' @ version)) else (version, None))"

definition nav_username :: "AuthState \<Rightarrow> string" where
  "nav_username auth = (case auth_user auth of
      Some u \<Rightarrow> if user_username u \<noteq> [] then user_username u else ''Anonymous'' | None \<Rightarrow> ''Anonymous'')"

definition cluster_status :: "(number \<Rightarrow> string) \<Rightarrow> ClusterOverview \<Rightarrow> string option" where
  "cluster_status num_str overview = (if ov_allocation overview = Fin 0 then None else Some (num_str (ov_allocation overview) @ ''%''))"

definition nav_pages :: "string option \<Rightarrow> NavItem list" where
  "nav_pages cluster = [nav_item ''dashboard'' ''Dashboard'' ''/dashboard'', nav_item ''experiment'' ''Experiments'' ''/experiments'',
     nav_item ''tasks'' ''Tasks'' ''/tasks'', (nav_item ''cluster'' ''Cluster'' ''/cluster'')\<lparr>ni_status := cluster\<rparr>]"

definition nav_items :: "(number \<Rightarrow> string) \<Rightarrow> ClusterOverview \<Rightarrow> NavItem list" where
  "nav_items num_str overview = nav_pages (cluster_status num_str overview)
     @ [nav_item ''logs'' ''Master Logs'' ''/logs'', external_item ''docs'' ''Docs'' ''/docs'',
        external_item ''cloud'' ''API (Beta)'' ''/docs/rest-api/'']"

definition collapse_item :: "Navigation \<Rightarrow> string \<times> string" where
  "collapse_item nv = (if truthy (nv_isCollapsed nv) then (''expand'', ''Expand'') else (''collapse'', ''Collapse''))"

text \<open>The menu beside the launch button: its entries with the slots each launches with, its offset and placement.\<close>

definition launch_menu :: "Navigation \<Rightarrow> (string \<times> int) list \<times> (int \<times> int) \<times> Placement" where
  "launch_menu nv =
     (let c = truthy (nv_isCollapsed nv)
      in ((if c then [(''Launch Notebook'', 1)] else []) @ [(''Launch CPU-only Notebook'', 0)],
          if c then (8, 0) else (0, 8), if c then Pl_RightTop else Pl_BottomRight))"

definition user_menu :: "Navigation \<Rightarrow> LinkProps \<times> (int \<times> int) \<times> Placement" where
  "user_menu nv =
     (let c = truthy (nv_isCollapsed nv)
      in (no_props\<lparr>lk_path := Some ''/logout''\<rparr>, if c then (- 8, 0) else (16, - 8), if c then Pl_Right else Pl_TopLeft))"

section \<open>The bar at the bottom\<close>

record Tabbar =
  tb_isShowingOverflow :: bool

definition handleOverflowOpen :: "Tabbar \<Rightarrow> Tabbar" where
  "handleOverflowOpen t = t\<lparr>tb_isShowingOverflow := True\<rparr>"

definition handleActionSheetCancel :: "Tabbar \<Rightarrow> Tabbar" where
  "handleActionSheetCancel t = t\<lparr>tb_isShowingOverflow := False\<rparr>"

text \<open>The request for a notebook is not awaited: the sheet closes whatever comes of it.\<close>

definition tab_handleLaunchNotebook ::
  "'s Store \<Rightarrow> (js \<Rightarrow> bool) \<Rightarrow> (codec \<Rightarrow> js \<Rightarrow> js + js) \<Rightarrow> Server \<Rightarrow> bool \<Rightarrow> Tabbar \<times> 's Web
    \<Rightarrow> Tabbar \<times> (Nav list \<times> 's Web) option" where
  "tab_handleLaunchNotebook ops isCancel dec srv cpuOnly = (\<lambda>(t, w).
     (t\<lparr>tb_isShowingOverflow := False\<rparr>, launchNotebook ops isCancel dec srv (if cpuOnly then 0 else 1) w))"

definition handlePathUpdate ::
  "(string \<Rightarrow> string \<Rightarrow> bool) \<Rightarrow> (string \<Rightarrow> Url result) \<Rightarrow> Env \<Rightarrow> ClickEvent \<Rightarrow> string \<Rightarrow> Tabbar \<Rightarrow> (Tabbar \<times> Nav list) result" where
  "handlePathUpdate regexp_test URL env e path t =
     bind_exn (handlePath regexp_test URL env e \<lparr>po_external = False, po_onClick = None, po_path = Some path, po_popout = False\<rparr>)
       (\<lambda>navs. Inr (t\<lparr>tb_isShowingOverflow := False\<rparr>, navs))"

definition tabbar_items :: "(number \<Rightarrow> string) \<Rightarrow> ClusterOverview \<Rightarrow> NavItem list" where
  "tabbar_items num_str overview = nav_pages (cluster_status num_str overview)
     @ [\<lparr>ni_icon = ''overflow-vertical'', ni_label = ''Overflow Menu'',
         ni_link = no_props\<lparr>lk_label := Some ''Overflow Menu''\<rparr>, ni_status = None\<rparr>]"

datatype TabAction = LaunchNotebook bool | GoTo string | FollowLink LinkProps

definition tab_actions :: "(string \<times> string \<times> TabAction) list" where
  "tab_actions = [(''notebook'', ''Launch Notebook'', LaunchNotebook False),
     (''notebook'', ''Launch CPU-only Notebook'', LaunchNotebook True), (''logs'', ''Master Logs'', GoTo ''/logs''),
     (''docs'', ''Docs'', FollowLink (ni_link (external_item ''docs'' ''Docs'' ''/docs''))),
     (''cloud'', ''API (Beta)'', FollowLink (ni_link (external_item ''cloud'' ''API (Beta)'' ''/docs/rest-api/'')))]"

text \<open>The sheet: a click on its overlay outside of it, or on Cancel, calls \<open>onCancel\<close>; \<open>None\<close> when there is none.\<close>

definition handleOverlayClick :: "bool \<Rightarrow> ('a \<Rightarrow> 'a) option \<Rightarrow> 'a \<Rightarrow> 'a" where
  "handleOverlayClick in_sheet onCancel st = (if in_sheet then st else case onCancel of Some f \<Rightarrow> f st | None \<Rightarrow> st)"

definition handleCancelClick :: "('a \<Rightarrow> 'a) option \<Rightarrow> 'a \<Rightarrow> 'a" where
  "handleCancelClick onCancel st = (case onCancel of Some f \<Rightarrow> f st | None \<Rightarrow> st)"

section \<open>Small parts\<close>

record Toggle =
  tg_checked :: bool
  tg_told :: "bool list" \<comment> \<open>the calls of \<open>onChange\<close>\<close>

definition mount_toggle :: "bool option \<Rightarrow> Toggle" where
  "mount_toggle checked = \<lparr>tg_checked = (checked = Some True), tg_told = []\<rparr>"

definition toggle_handleClick :: "Toggle \<Rightarrow> Toggle" where
  "toggle_handleClick t = t\<lparr>tg_checked := \<not> tg_checked t, tg_told := tg_told t @ [\<not> tg_checked t]\<rparr>"

definition section_classes :: "bool \<Rightarrow> bool \<Rightarrow> bool \<Rightarrow> string list \<times> string list" where
  "section_classes divider maxHeight bodyBorder =
     ([''base''] @ (if divider then [''divider''] else []) @ (if maxHeight then [''maxHeight''] else []),
      [''body''] @ (if bodyBorder then [''bodyBorder''] else []))"

definition grid_style :: "(number \<Rightarrow> string) \<Rightarrow> string option \<Rightarrow> string option \<Rightarrow> number option \<Rightarrow> string \<times> string" where
  "grid_style num_str gap mode minItemWidth =
     (let m = (case opt_str mode of s # _ \<Rightarrow> s | [] \<Rightarrow> ''auto-fit'');
          w = (case minItemWidth of Some n \<Rightarrow> if n \<noteq> Fin 0 \<and> n \<noteq> NaN then n else Fin 24 | None \<Rightarrow> Fin 24)
      in (case opt_str gap of s # _ \<Rightarrow> ''var(--theme-sizes-layout-'' @ s @ '') '' | [] \<Rightarrow> [],
          ''repeat('' @ m @ '', minmax('' @ num_str w @ ''rem, 1fr))''))"

definition logo_alt :: "Env \<Rightarrow> string" where
  "logo_alt env = ''Determined AI Logo''
     @ (if reactHostAddress env \<noteq> serverAddress env [] then '' (Server: '' @ serverAddress env [] @ '')'' else [])"

text \<open>
  \<open>useResize\<close>: the rectangle of an element, first at mount and then when an observation names the element; with a
  reference to nothing nothing is observed.
\<close>

record Rect =
  rc_height :: number
  rc_width :: number
  rc_x :: number
  rc_y :: number

definition defaultResizeInfo :: Rect where
  "defaultResizeInfo = \<lparr>rc_height = Fin 0, rc_width = Fin 0, rc_x = Fin 0, rc_y = Fin 0\<rparr>"

definition resize_mount :: "'e option option \<Rightarrow> 'e \<Rightarrow> 'e option" where
  "resize_mount ref body = (case ref of None \<Rightarrow> Some body | Some r \<Rightarrow> r)"

definition initial_resize :: "'e option \<Rightarrow> ('e \<Rightarrow> Rect) \<Rightarrow> Rect" where
  "initial_resize element rect = (case element of Some e \<Rightarrow> rect e | None \<Rightarrow> defaultResizeInfo)"

definition resize_observed :: "'e option \<Rightarrow> 'e list \<times> ('e \<Rightarrow> Rect) \<Rightarrow> Rect \<Rightarrow> Rect" where
  "resize_observed element = (\<lambda>(entries, rect) info. case element of
      Some e \<Rightarrow> if e \<in> set entries then rect e else info | None \<Rightarrow> info)"

section \<open>The application\<close>

definition app_classes :: "AuthState \<Rightarrow> UIState \<Rightarrow> string list" where
  "app_classes auth ui = ''base'' # (if \<not> ui_showChrome ui \<or> \<not> auth_isAuthenticated auth then [''noChrome''] else [])"

definition favicon :: "Env \<Rightarrow> bool \<Rightarrow> bool \<Rightarrow> string" where
  "favicon env isDev active = env_PUBLIC_URL env @ ''/favicons/favicon'' @ (if isDev then ''-dev'' else [])
     @ (if active then ''-active'' else []) @ ''.png''"

text \<open>
  The effect on the information about the master: analytics are set up and a notice shown when its version is not the
  one of the WebUI.  The description of the notice holds the version.
\<close>

definition app_info_effect :: "(js \<Rightarrow> bool) \<Rightarrow> (js + Telemetry) \<Rightarrow> string option \<Rightarrow> DeterminedInfo \<Rightarrow> App \<Rightarrow> App" where
  "app_info_effect isCancel telemetry VERSION info w =
     (let w = setupAnalytics isCancel telemetry info w
      in if Some (info_version info) \<noteq> VERSION
         then w\<lparr>app_notifications := app_notifications w @ [(''warn'', Str (info_version info), ''New WebUI Version'')]\<rparr> else w)"

definition app_mount_effect :: "UIState \<Rightarrow> UIState" where
  "app_mount_effect ui = ui_reducer ui ShowSpinner"

definition correctViewportHeight :: "(number \<Rightarrow> string) \<Rightarrow> number \<Rightarrow> string \<times> string" where
  "correctViewportHeight num_str innerHeight = (''--vh'', num_str (num_mul innerHeight (Fin (1 / 100))) @ ''px'')"

text \<open>\<open>refreshPage\<close> adds the time to the query; a present query is kept in front of it, with its question mark.\<close>

definition refresh_search :: "string \<Rightarrow> string \<Rightarrow> string" where
  "refresh_search search now = (if search \<noteq> [] then search @ ''&ts='' @ now else ''ts='' @ now)"

section \<open>Lemmas\<close>

definition closing :: "bool \<Rightarrow> ClickTarget option \<Rightarrow> bool" where
  "closing disableAutoDismiss target = (case target of
      None \<Rightarrow> False
    | Some t \<Rightarrow> \<not> at_picker t \<and> \<not> at_trigger t \<and> \<not> (at_dropdown t \<and> disableAutoDismiss))"

definition toggling :: "ClickTarget option \<Rightarrow> bool" where
  "toggling target = (case target of None \<Rightarrow> False | Some t \<Rightarrow> \<not> at_picker t \<and> at_trigger t)"

lemma dropdown_click_cases:
  "dropdown_click dis c v = (if closing dis c then False else if toggling c then \<not> v else v)"
  by (auto simp: dropdown_click_def closing_def toggling_def split: option.split)

lemma closing_not_toggling: "closing dis c \<Longrightarrow> \<not> toggling c"
  by (auto simp: closing_def toggling_def split: option.splits)

lemma dropdown_told:
  "dr_told d \<noteq> [] \<Longrightarrow> last (dr_told d) = dr_isVisible d \<Longrightarrow> distinct_adj (dr_told d) \<Longrightarrow>
   (let e = fold (dropdown_event dis) cs d
    in dr_told e \<noteq> [] \<and> last (dr_told e) = dr_isVisible e \<and> distinct_adj (dr_told e))"
proof (induction cs arbitrary: d)
  case (Cons c cs)
  let ?d = "dropdown_event dis c d"
  have "dr_told ?d \<noteq> []" "last (dr_told ?d) = dr_isVisible ?d" "distinct_adj (dr_told ?d)"
    using Cons.prems by (auto simp: dropdown_event_def Let_def distinct_adj_append_iff)
  then show ?case using Cons.IH [of ?d] by simp
qed simp

lemma dropdown_visible:
  "dr_isVisible (fold (dropdown_event dis) cs d) =
     (let after = takeWhile (\<lambda>c. \<not> closing dis c) (rev cs)
      in (dr_isVisible d \<and> length after = length cs) \<noteq> odd (length (filter toggling after)))"
proof (induction cs rule: rev_induct)
  case (snoc c cs)
  have "length (takeWhile (\<lambda>c. \<not> closing dis c) (rev cs)) \<le> length cs"
    by (metis length_rev length_takeWhile_le)
  then show ?case using snoc closing_not_toggling [of dis c]
    by (auto simp: dropdown_event_def Let_def dropdown_click_cases)
qed simp

section \<open>Properties\<close>

text \<open>
  A dropdown after any clicks.  It is visible when an odd number of clicks on its trigger has come since the last
  click that closes it, one outside of it or, unless automatic dismissal is off, on its content; without such a click
  the initial state counts as well; clicks in a date picker change nothing.  The parent has been told every change, and only
  changes: the last call has the current state and no two calls in a row are the same.
\<close>

theorem dropdown_visibility:
  "let st = fold (dropdown_event disableAutoDismiss) clicks (mount_dropdown initVisible);
       closes = (\<lambda>c. case c of None \<Rightarrow> False
         | Some t \<Rightarrow> \<not> at_picker t \<and> \<not> at_trigger t \<and> \<not> (at_dropdown t \<and> disableAutoDismiss));
       toggles = (\<lambda>c. case c of None \<Rightarrow> False | Some t \<Rightarrow> \<not> at_picker t \<and> at_trigger t);
       after = takeWhile (\<lambda>c. \<not> closes c) (rev clicks)
   in dr_isVisible st = ((initVisible \<and> length after = length clicks) \<noteq> odd (length (filter toggles after)))
    \<and> dr_told st \<noteq> [] \<and> last (dr_told st) = dr_isVisible st \<and> distinct_adj (dr_told st)"
proof -
  have "closing disableAutoDismiss = (\<lambda>c. case c of None \<Rightarrow> False
         | Some t \<Rightarrow> \<not> at_picker t \<and> \<not> at_trigger t \<and> \<not> (at_dropdown t \<and> disableAutoDismiss))"
    "toggling = (\<lambda>c. case c of None \<Rightarrow> False | Some t \<Rightarrow> \<not> at_picker t \<and> at_trigger t)"
    by (auto simp: fun_eq_iff closing_def toggling_def)
  then show ?thesis
    using dropdown_visible [of disableAutoDismiss clicks "mount_dropdown initVisible"]
      dropdown_told [of "mount_dropdown initVisible" disableAutoDismiss clicks]
    by (simp add: mount_dropdown_def Let_def)
qed

text \<open>Clicks on the entry that collapses the side bar, one after the other.\<close>

fun collapse_clicks :: "'s Store \<Rightarrow> Storage \<Rightarrow> nat \<Rightarrow> Navigation \<times> 's \<Rightarrow> (Navigation \<times> 's) result" where
  "collapse_clicks ops storage 0 st = Inr st"
| "collapse_clicks ops storage (Suc n) st = bind_exn (collapse_clicks ops storage n st) (handleCollapse ops storage)"

lemma handleCollapse_Inr:
  "\<exists>s'. storage_set ops storage s STORAGE_KEY_COLLAPSED (Bool (\<not> truthy (nv_isCollapsed nv))) = Inr s'
    \<and> handleCollapse ops storage (nv, s) = Inr (nv\<lparr>nv_isCollapsed := Bool (\<not> truthy (nv_isCollapsed nv))\<rparr>, s')"
  by (simp add: handleCollapse_def storage_set_def is_nullish_def Let_def)

text \<open>
  C38: The side bar stays as the user left it.  Any number of clicks on Collapse succeeds and flips the state of the
  side bar each time; the state of the interface follows it; and when there was a click, the storage holds the state, so that
  a later visit starts with it, while every other setting stays as it was.
\<close>

theorem navigation_collapse:
  assumes "store_laws ops"
  shows "\<exists>nv' s'. collapse_clicks ops storage n (nv, s) = Inr (nv', s')
    \<and> truthy (nv_isCollapsed nv') = (truthy (nv_isCollapsed nv) \<noteq> odd n)
    \<and> ui_chromeCollapsed (collapse_effect nv' ui) = truthy (nv_isCollapsed nv')
    \<and> nv_isShowingCpu nv' = nv_isShowingCpu nv
    \<and> (0 < n \<longrightarrow> mount_navigation ops storage s' = Inr \<lparr>nv_isCollapsed = nv_isCollapsed nv', nv_isShowingCpu = False\<rparr>)
    \<and> (key \<noteq> ''collapsed'' \<longrightarrow> storage_get ops storage s' key = storage_get ops storage s key)"
proof (induction n)
  case 0
  then show ?case by (simp add: collapse_effect_def)
next
  case (Suc n)
  then obtain nv1 s1 where 1: "collapse_clicks ops storage n (nv, s) = Inr (nv1, s1)"
    "truthy (nv_isCollapsed nv1) = (truthy (nv_isCollapsed nv) \<noteq> odd n)" "nv_isShowingCpu nv1 = nv_isShowingCpu nv"
    "key \<noteq> ''collapsed'' \<longrightarrow> storage_get ops storage s1 key = storage_get ops storage s key" by blast
  let ?v = "Bool (\<not> truthy (nv_isCollapsed nv1))"
  obtain s2 where 2: "storage_set ops storage s1 STORAGE_KEY_COLLAPSED ?v = Inr s2"
    "handleCollapse ops storage (nv1, s1) = Inr (nv1\<lparr>nv_isCollapsed := ?v\<rparr>, s2)"
    using handleCollapse_Inr [of ops storage s1 nv1] by blast
  have get: "storage_get ops storage s2 STORAGE_KEY_COLLAPSED = Inr ?v"
    using store_laws.get_after_set [OF assms 2(1), of "JBool (\<not> truthy (nv_isCollapsed nv1))"] by simp
  have "storage_get ops storage s2 key = storage_get ops storage s1 key" if "key \<noteq> ''collapsed''"
    using store_laws.get_after_set_other [OF assms 2(1), of storage key] that by (simp add: computeKey_inj STORAGE_KEY_COLLAPSED_def)
  then show ?case
    using 1 2 get by (auto simp: collapse_effect_def mount_navigation_def storage_getWithDefault_def)
qed

theorem navigation_collapse_witness:
  "\<exists>nv' s'. collapse_clicks MemoryStore (useStorage None ''navigation'') 3 (\<lparr>nv_isCollapsed = Bool False, nv_isShowingCpu = False\<rparr>, mem_new)
       = Inr (nv', s') \<and> truthy (nv_isCollapsed nv')
     \<and> mount_navigation MemoryStore (useStorage None ''navigation'') s' = Inr nv'"
proof -
  let ?nv = "\<lparr>nv_isCollapsed = Bool False, nv_isShowingCpu = False\<rparr>"
  from navigation_collapse [OF mem.store_laws_axioms, of "useStorage None ''navigation''" 3 ?nv mem_new undefined "''x''"]
  obtain nv' s' where h: "collapse_clicks MemoryStore (useStorage None ''navigation'') 3 (?nv, mem_new) = Inr (nv', s')"
    "truthy (nv_isCollapsed nv')" "\<not> nv_isShowingCpu nv'"
    "mount_navigation MemoryStore (useStorage None ''navigation'') s' = Inr \<lparr>nv_isCollapsed = nv_isCollapsed nv', nv_isShowingCpu = False\<rparr>"
    by auto
  then show ?thesis by (cases nv') auto
qed

text \<open>
  The side bar is mounted with the application, before the user is known, and \<open>useStorage\<close> keeps the storage of the first
  render: its setting is outside of every user's namespace.
\<close>

lemma collapsed_shared: "computeKey (useStorage None ''navigation'') STORAGE_KEY_COLLAPSED = ''navigation/collapsed''"
  by code_simp

lemma style_sides:
  "length (filter (\<lambda>(k, v). k \<in> {''left'', ''right''}) (contentStyle x y p)) = 1
   \<and> length (filter (\<lambda>(k, v). k \<in> {''top'', ''bottom''}) (contentStyle x y p)) = 1"
  by (cases p) simp_all

lemma last_crumb_text: "rs \<noteq> [] \<Longrightarrow> \<exists>t. last (breadCrumbRender rs) = CrumbText t"
  by (cases rs rule: rev_cases) (auto simp: breadCrumbRender_def enumerate_append_eq)

lemma short_version: "isVersionLong v \<Longrightarrow> snd (version_label v) = Some (''Version '' @ v)"
  by (simp add: version_label_def)

text \<open>A page is titled after itself, the cluster and the product, each when it is known.\<close>

lemma doc_title:
  "t \<noteq> [] \<Longrightarrow> c \<noteq> [] \<Longrightarrow> getFullDocTitle (Some t) (Some c) = t @ '' - '' @ c @ '' - Determined''"
  "getFullDocTitle None (Some []) = ''Determined''"
  by (simp_all add: getFullDocTitle_def opt_str_def)

end
