(* ===== verification/Experiment_Overview.thy ===== *)
theory Experiment_Overview
  imports Experiment_Details Metric_Chart Widgets Trial_Util
begin

text \<open>
  The pages of one experiment with tabs: the dialog of a checkpoint (\<^verbatim>\<open>components/CheckpointModal.tsx\<close>), the summaries of an
  experiment and of a trial (\<^verbatim>\<open>ExperimentInfoBox.tsx\<close>, \<^verbatim>\<open>TrialInfoBox.tsx\<close>, \<^verbatim>\<open>InfoBox.tsx\<close>), the overview with its table
  of trials (\<^verbatim>\<open>ExperimentOverview.tsx\<close>, \<^verbatim>\<open>ExperimentOverview.table.tsx\<close>) and the page itself
  (\<^verbatim>\<open>pages/ExperimentDetailPage.tsx\<close>).
\<close>

section \<open>The dialog of a checkpoint\<close>

text \<open>What the packages write: dates, sizes, durations, times ago and numbers.\<close>

record Formats =
  fm_datetime :: "string \<Rightarrow> string"
  fm_bytes :: "number \<Rightarrow> string"
  fm_human :: "number \<Rightarrow> string"
  fm_ago :: "string \<Rightarrow> string"
  fm_num :: "number \<Rightarrow> string"

text \<open>What the dialog reads of the two kinds of checkpoints it is given; \<open>None\<close> where the property is missing.\<close>

record ModalCheckpoint =
  mk_experimentId :: "int option"
  mk_trialId :: int
  mk_batch :: BatchData
  mk_state :: CheckpointState
  mk_uuid :: "string option"
  mk_resources :: "(string \<times> number) list option"
  mk_validationMetric :: "number option"
  mk_startTime :: string
  mk_endTime :: "string option"

definition of_detail :: "CheckpointDetail \<Rightarrow> ModalCheckpoint" where
  "of_detail c = \<lparr>mk_experimentId = cd_experimentId c, mk_trialId = cp_trialId c, mk_batch = BatchOf (cd_batch c),
     mk_state = cp_state c, mk_uuid = cp_uuid c, mk_resources = cp_resources c, mk_validationMetric = cp_validationMetric c,
     mk_startTime = t_startTime c, mk_endTime = t_endTime c\<rparr>"

definition of_extended :: "CheckpointWorkloadExtended \<Rightarrow> ModalCheckpoint" where
  "of_extended c = \<lparr>mk_experimentId = Some (cwe_experimentId c), mk_trialId = cwe_trialId c,
     mk_batch = BatchesOf (wl_numBatches c) (wl_priorBatchesProcessed c), mk_state = cw_state c,
     mk_uuid = field_value (cw_uuid c), mk_resources = field_value (cw_resources c), mk_validationMetric = None,
     mk_startTime = t_startTime c, mk_endTime = t_endTime c\<rparr>"

text \<open>A text in a template, where what is missing is written \<open>undefined\<close>; \<open>x || ''\<close> is the text or nothing.\<close>

definition template :: "string option \<Rightarrow> string" where
  "template x = (case x of Some s \<Rightarrow> s | None \<Rightarrow> ''undefined'')"

definition text_or :: "string option \<Rightarrow> string" where
  "text_or x = (case x of Some s \<Rightarrow> s | None \<Rightarrow> [])"

definition getStorageLocation :: "ExperimentConfig \<Rightarrow> string option \<Rightarrow> string" where
  "getStorageLocation config uuid =
     (let storage = conf_checkpointStorage config;
          hostPath = text_or (Option.bind storage cs_hostPath);
          storagePath = text_or (Option.bind storage cs_storagePath);
          location = (case storage of
              None \<Rightarrow> []
            | Some st \<Rightarrow> (case cs_type st of
                Some CheckpointStorageType_AWS \<Rightarrow> ''s3://'' @ text_or (cs_bucket st)
              | Some CheckpointStorageType_GCS \<Rightarrow> ''gs://'' @ text_or (cs_bucket st)
              | Some CheckpointStorageType_SharedFS \<Rightarrow>
                  if hostPath \<noteq> [] \<and> storagePath \<noteq> []
                  then (if prefix ''/'' storagePath then ''file://'' @ storagePath else ''file://'' @ hostPath @ ''/'' @ storagePath)
                  else if hostPath \<noteq> [] then ''file://'' @ hostPath else []
              | _ \<Rightarrow> []))
      in location @ ''/'' @ template uuid)"

text \<open>The files, from the smallest to the largest.\<close>

definition modal_resources :: "(string \<times> number) list option \<Rightarrow> (string \<times> number) list" where
  "modal_resources resources = (case resources of
      None \<Rightarrow> []
    | Some rs \<Rightarrow> js_sort (\<lambda>a b. num_sgn (num_sub (snd a) (snd b))) rs)"

definition modal_metric :: "number option \<Rightarrow> ModalCheckpoint \<Rightarrow> number option" where
  "modal_metric searcherValidation c = (if searcherValidation \<noteq> None then searcherValidation else mk_validationMetric c)"

text \<open>\<open>Stray\<close> is a number that React shows for \<open>{n && \<dots>}\<close> when the number counts as false.\<close>

datatype RowContent =
    Links "(string \<times> string) list" string \<comment> \<open>paths and texts, and the text after them\<close>
  | StateBadge BadgeView
  | Text string
  | Resources "(string \<times> string) list"

datatype ModalRow = Row string RowContent | Stray string

definition modal_source :: "ModalCheckpoint \<Rightarrow> RowContent" where
  "modal_source c =
     (let e = template (map_option show_int (mk_experimentId c)); t = show_int (mk_trialId c)
      in Links [(''/experiments/'' @ e, ''Experiment '' @ e), (''/experiments/'' @ e @ ''/trials/'' @ t, ''Trial '' @ t)]
           (''Batch '' @ show_int (getBatchNumber (mk_batch c))))"

definition metric_text :: "string \<Rightarrow> number \<Rightarrow> string" where
  "metric_text metric n = humanReadableFloat n 6 @ '' ('' @ metric @ '')''"

definition modal_rows :: "Formats \<Rightarrow> ExperimentConfig \<Rightarrow> number option \<Rightarrow> ModalCheckpoint \<Rightarrow> ModalRow list" where
  "modal_rows fm config searcherValidation c =
     [Row ''Source'' (modal_source c),
      Row ''State'' (StateBadge (badge_view (str_CheckpointState (mk_state c)) Badge_State None))]
     @ (if text_or (mk_uuid c) \<noteq> [] then [Row ''UUID'' (Text (text_or (mk_uuid c)))] else [])
     @ [Row ''Location'' (Text (getStorageLocation config (mk_uuid c)))]
     @ (case modal_metric searcherValidation c of
          None \<Rightarrow> []
        | Some n \<Rightarrow> if n = Fin 0 \<or> n = NaN then [Stray (fm_num fm n)]
            else [Row ''Validation Metric'' (Text (metric_text (conf_metric config) n))])
     @ [Row ''Start Time'' (Text (fm_datetime fm (mk_startTime c)))]
     @ (if text_or (mk_endTime c) \<noteq> [] then [Row ''End Time'' (Text (fm_datetime fm (text_or (mk_endTime c))))] else [])
     @ [Row ''Total Size'' (Text (fm_bytes fm (checkpointSize (mk_resources c))))]
     @ (if modal_resources (mk_resources c) \<noteq> []
        then [Row ''Resources'' (Resources (map (\<lambda>(name, n). (name, fm_bytes fm n)) (modal_resources (mk_resources c))))]
        else [])"

section \<open>The summaries\<close>

datatype InfoContent =
    InfoText string
  | InfoButton string
  | InfoBar "BarPart list"
  | InfoLink string string
  | InfoTags "string list"

text \<open>A row without content, or with one that counts as false, is not shown.\<close>

definition info_rows :: "(string \<times> InfoContent option) list \<Rightarrow> (string \<times> InfoContent) list" where
  "info_rows rows = List.map_filter (\<lambda>(label, c). case c of
      None \<Rightarrow> None | Some (InfoText t) \<Rightarrow> if t \<noteq> [] then Some (label, InfoText t) else None | Some x \<Rightarrow> Some (label, x)) rows"

text \<open>\<open>n && content\<close>.\<close>

definition num_content :: "(number \<Rightarrow> InfoContent) \<Rightarrow> number option \<Rightarrow> InfoContent option" where
  "num_content f n = (case n of Some x \<Rightarrow> if x \<noteq> Fin 0 \<and> x \<noteq> NaN then Some (f x) else None | None \<Rightarrow> None)"

text \<open>A dialog that is shown or not.\<close>

record InfoBoxes =
  ib_showConfig :: bool \<comment> \<open>the configuration, or the hyperparameters of a trial\<close>
  ib_showBestCheckpoint :: bool

datatype InfoEvent = ShowConfig | HideConfig | ShowBestCheckpoint | HideBestCheckpoint

fun info_event :: "InfoEvent \<Rightarrow> InfoBoxes \<Rightarrow> InfoBoxes" where
  "info_event ShowConfig b = b\<lparr>ib_showConfig := True\<rparr>"
| "info_event HideConfig b = b\<lparr>ib_showConfig := False\<rparr>"
| "info_event ShowBestCheckpoint b = b\<lparr>ib_showBestCheckpoint := True\<rparr>"
| "info_event HideBestCheckpoint b = b\<lparr>ib_showBestCheckpoint := False\<rparr>"

definition best_button :: "int \<Rightarrow> int \<Rightarrow> string" where
  "best_button trialId batch = ''Trial '' @ show_int trialId @ '' Batch '' @ show_int batch"

definition experiment_rows ::
  "Formats \<Rightarrow> (string \<Rightarrow> number) \<Rightarrow> number \<Rightarrow> TopWorkloads \<Rightarrow> ExperimentBase \<Rightarrow> (string \<times> InfoContent option) list" where
  "experiment_rows fm time_of now best e =
     (let config = eb_config e in
     [(''Progress'', num_content (\<lambda>p. InfoBar (progress_parts (fm_num fm) (num_mul p (Fin 100)) (str_RunState (eb_state e))))
         (eb_progress e)),
      (''Best Validation'', map_option (\<lambda>n. InfoText (metric_text (conf_metric config) n)) (bestValidation best)),
      (''Configuration'', Some (InfoButton ''View Configuration'')),
      (''Best Checkpoint'', map_option (\<lambda>c. InfoButton (best_button (cp_trialId c) (cd_batch c))) (bestCheckpoint best)),
      (''Max Slots'', num_content (\<lambda>n. InfoText (fm_num fm n)) (conf_maxSlots config)),
      (''Start Time'', Some (InfoText (fm_ago fm (eb_startTime e)))),
      (''Duration'', map_option (\<lambda>t. InfoText (fm_human fm (getDuration time_of now (Some t) (eb_startTime e)))) (eb_endTime e)),
      (''Model Definition'', Some (InfoLink (''/experiments/'' @ show_int (eb_id e) @ ''/model_def'') ''Download Model'')),
      (''Labels'', Some (InfoTags (case conf_labels config of Some ls \<Rightarrow> ls | None \<Rightarrow> [])))])"

text \<open>\<open>toString\<close> of a value, which \<open>null\<close> does not have, and what is shown of a hyperparameter.\<close>

fun to_string :: "(number \<Rightarrow> string) \<Rightarrow> js \<Rightarrow> string" where
  "to_string num_str (Str s) = s"
| "to_string num_str (Num n) = num_str n"
| "to_string num_str (Bool b) = (if b then ''true'' else ''false'')"
| "to_string num_str (Arr xs) = js_join '','' (map (\<lambda>x. if is_nullish x then [] else to_string num_str x) xs)"
| "to_string num_str Null = ''null''"
| "to_string num_str Undefined = ''undefined''"
| "to_string num_str _ = ''[object Object]''"

definition hyperparam_text :: "(number \<Rightarrow> string) \<Rightarrow> (js \<Rightarrow> string) \<Rightarrow> js \<Rightarrow> string result" where
  "hyperparam_text num_str pretty v = (if isObject v then Inr (pretty v)
     else if is_nullish v then Inl TypeError else Inr (to_string num_str v))"

fun hyperparamsView :: "(number \<Rightarrow> string) \<Rightarrow> (js \<Rightarrow> string) \<Rightarrow> (string \<times> js) list \<Rightarrow> (string list) result" where
  "hyperparamsView num_str pretty [] = Inr []"
| "hyperparamsView num_str pretty ((label, v) # ps) = bind_exn (hyperparam_text num_str pretty v) (\<lambda>t.
     bind_exn (hyperparamsView num_str pretty ps) (\<lambda>ts. Inr ((label @ '': '' @ t) # ts)))"

text \<open>The best checkpoint of a trial as the dialog gets it: without the experiment.\<close>

definition trial_bestCheckpoint :: "TrialDetails \<Rightarrow> ModalCheckpoint option" where
  "trial_bestCheckpoint trial = map_option (\<lambda>cp. \<lparr>mk_experimentId = None, mk_trialId = tr_id trial,
      mk_batch = BatchOf (wl_numBatches cp + wl_priorBatchesProcessed cp), mk_state = cw_state cp,
      mk_uuid = field_value (cw_uuid cp), mk_resources = field_value (cw_resources cp), mk_validationMetric = None,
      mk_startTime = t_startTime cp, mk_endTime = t_endTime cp\<rparr>) (tr_bestAvailableCheckpoint trial)"

definition totalCheckpointsSize :: "WorkloadWrapper list \<Rightarrow> number" where
  "totalCheckpointsSize workloads = foldl num_add (Fin 0) (map (\<lambda>step. checkpointSize (field_value (cw_resources (the (ww_checkpoint step)))))
     (filter (\<lambda>step. case ww_checkpoint step of Some c \<Rightarrow> cw_state c = CheckpointState_Completed | None \<Rightarrow> False) workloads))"

definition trial_bestValidation :: "ExperimentBase \<Rightarrow> TrialDetails \<Rightarrow> number option" where
  "trial_bestValidation e trial = (case tr_bestValidationMetric trial of
      None \<Rightarrow> None
    | Some w \<Rightarrow> (case field_value (mw_metrics w) of Some ms \<Rightarrow> map_of ms (conf_metric (eb_config e)) | None \<Rightarrow> None))"

definition trial_rows ::
  "Formats \<Rightarrow> (string \<Rightarrow> number) \<Rightarrow> number \<Rightarrow> ExperimentBase \<Rightarrow> TrialDetails \<Rightarrow> (string \<times> InfoContent option) list" where
  "trial_rows fm time_of now e trial =
     (let durations = trialDurations time_of now (tr_workloads trial) in
     [(''Start Time'', Some (InfoText (fm_datetime fm (t_startTime trial)))),
      (''End Time'', (case t_endTime trial of Some t \<Rightarrow> if t \<noteq> [] then Some (InfoText (fm_datetime fm t)) else None | None \<Rightarrow> None)),
      (''Durations'', Some (InfoText (''Training: '' @ fm_human fm (td_train durations)
         @ ''Checkpointing: '' @ fm_human fm (td_checkpoint durations) @ ''Validating: '' @ fm_human fm (td_validation durations)))),
      (''Best Validation'', num_content (\<lambda>n. InfoText (metric_text (conf_metric (eb_config e)) n)) (trial_bestValidation e trial)),
      (''Best Checkpoint'', map_option (\<lambda>c. InfoButton (best_button (mk_trialId c) (getBatchNumber (mk_batch c)))) (trial_bestCheckpoint trial)),
      (''Total Checkpoint Size'', Some (InfoText (fm_bytes fm (totalCheckpointsSize (tr_workloads trial))))),
      (''H-params'', Some (InfoButton ''Show''))])"

section \<open>The overview\<close>

text \<open>The columns: keys and titles, and how each sorts.  \<open>lc\<close> is the browser's collation, \<open>time_of\<close> reads dates.\<close>

definition default_columns :: "(string \<times> string) list" where
  "default_columns = [(''id'', ''ID''), (''state'', ''State''), (''batches'', ''Batches''),
     (''bestValidation'', ''Best Validation Metric''), (''latestValidation'', ''Latest Validation Metric''),
     (''startTime'', ''Start Time''), (''duration'', ''Duration''), (''checkpoint'', ''Checkpoint'')]"

definition metric_of :: "MetricsWorkload option \<Rightarrow> string option \<Rightarrow> number option" where
  "metric_of workload metric = getMetricValue (map_option MetricsW workload) metric"

definition default_sorter ::
  "(string \<Rightarrow> string \<Rightarrow> int) \<Rightarrow> (string \<Rightarrow> number) \<Rightarrow> number \<Rightarrow> string
    \<Rightarrow> (TrialDetails \<Rightarrow> TrialDetails \<Rightarrow> number) option" where
  "default_sorter lc time_of now key =
     (if key = ''id'' then Some (\<lambda>a b. Fin (of_int (alphanumericSorter lc (show_int (tr_id a)) (show_int (tr_id b)))))
      else if key = ''state'' then Some (\<lambda>a b. Fin (of_int (runStateSorter (tr_state a) (tr_state b))))
      else if key = ''batches'' then Some (\<lambda>a b. numericSorter (Some (Fin (of_int (tr_totalBatchesProcessed a))))
          (Some (Fin (of_int (tr_totalBatchesProcessed b)))) False)
      else if key = ''bestValidation'' then Some (\<lambda>a b. numericSorter (metric_of (tr_bestValidationMetric a) None)
          (metric_of (tr_bestValidationMetric b) None) False)
      else if key = ''startTime'' then Some (\<lambda>a b. stringTimeSorter time_of (t_startTime a) (t_startTime b))
      else if key = ''duration'' then Some (\<lambda>a b. num_sub (getDuration time_of now (t_endTime a) (t_startTime a))
          (getDuration time_of now (t_endTime b) (t_startTime b)))
      else None)"

record ExperimentOverview =
  eo_pageSize :: int
  eo_sorter :: "ApiSorter option"
  eo_activeCheckpoint :: "CheckpointWorkloadExtended option"
  eo_showCheckpoint :: bool

definition mount_overview :: "int \<Rightarrow> ApiSorter option \<Rightarrow> ExperimentOverview" where
  "mount_overview initLimit initSorter = \<lparr>eo_pageSize = initLimit, eo_sorter = initSorter, eo_activeCheckpoint = None,
     eo_showCheckpoint = False\<rparr>"

text \<open>A value of zero is shown as such.\<close>

definition latestValidationRenderer :: "(number \<Rightarrow> string) \<Rightarrow> ExperimentBase \<Rightarrow> TrialDetails \<Rightarrow> string option" where
  "latestValidationRenderer num_str e trial = (case metric_of (tr_latestValidationMetric trial) (Some (conf_metric (eb_config e))) of
      Some n \<Rightarrow> if n \<noteq> Fin 0 \<and> n \<noteq> NaN then Some (humanReadableFloat n 6) else Some (num_str n) | None \<Rightarrow> None)"

definition bestValidationRenderer :: "(number \<Rightarrow> string) \<Rightarrow> ExperimentBase \<Rightarrow> TrialDetails \<Rightarrow> string option" where
  "bestValidationRenderer num_str e trial = (case metric_of (tr_bestValidationMetric trial) (Some (conf_metric (eb_config e))) of
      Some n \<Rightarrow> if n \<noteq> Fin 0 \<and> n \<noteq> NaN then Some (humanReadableFloat n 6) else Some (num_str n) | None \<Rightarrow> None)"

definition eo_latestValidationSorter :: "ExperimentBase \<Rightarrow> TrialDetails \<Rightarrow> TrialDetails \<Rightarrow> number" where
  "eo_latestValidationSorter e a b =
     (let metric = conf_metric (eb_config e)
      in if metric = [] then Fin 0
         else numericSorter (metric_of (tr_latestValidationMetric a) (Some metric)) (metric_of (tr_latestValidationMetric b) (Some metric)) False)"

definition eo_checkpointRenderer :: "ExperimentBase \<Rightarrow> TrialDetails \<Rightarrow> CheckpointWorkloadExtended option" where
  "eo_checkpointRenderer e trial =
     map_option (\<lambda>c. CheckpointWorkload.extend c \<lparr>cwe_experimentId = eb_id e, cwe_trialId = tr_id trial\<rparr>)
       (tr_bestAvailableCheckpoint trial)"

definition eo_column_order :: "ExperimentBase \<Rightarrow> ExperimentOverview \<Rightarrow> string \<Rightarrow> string option" where
  "eo_column_order e v key = (case eo_sorter v of
      None \<Rightarrow> if key = ''bestValidation'' then Some (if conf_smallerIsBetter (eb_config e) then ''ascend'' else ''descend'') else None
    | Some s \<Rightarrow> if key = sorter_key s then Some (if sorter_descend s then ''descend'' else ''ascend'') else None)"

definition eo_handleTableChange ::
  "'s Store \<Rightarrow> Storage \<Rightarrow> int \<Rightarrow> string option \<Rightarrow> string option \<Rightarrow> ExperimentOverview \<times> 's \<Rightarrow> (ExperimentOverview \<times> 's) result" where
  "eo_handleTableChange ops storage pageSize columnKey order = (\<lambda>(v, s).
     let key = text_or columnKey; sorter = \<lparr>sorter_descend = (order = Some ''descend''), sorter_key = key\<rparr> in
     if key = [] \<or> key \<notin> set (map fst default_columns) then Inr (v, s)
     else bind_exn (storage_set ops storage s ED_STORAGE_SORTER_KEY (sorter_json sorter)) (\<lambda>s.
          bind_exn (storage_set ops storage s ED_STORAGE_LIMIT_KEY (js_int pageSize)) (\<lambda>s.
          Inr (v\<lparr>eo_sorter := Some sorter, eo_pageSize := pageSize\<rparr>, s))))"

definition eo_handleTableRow ::
  "(string \<Rightarrow> string \<Rightarrow> bool) \<Rightarrow> (string \<Rightarrow> Url result) \<Rightarrow> Env \<Rightarrow> ClickEvent \<Rightarrow> ExperimentBase \<Rightarrow> TrialDetails \<Rightarrow> Nav list result" where
  "eo_handleTableRow regexp_test URL env event e trial = handlePath regexp_test URL env event
     \<lparr>po_external = False, po_onClick = None, po_path = Some (trialDetails_path (tr_id trial) (eb_id e)), po_popout = False\<rparr>"

definition handleCheckpointShow :: "CheckpointWorkloadExtended \<Rightarrow> ExperimentOverview \<Rightarrow> ExperimentOverview" where
  "handleCheckpointShow checkpoint v = v\<lparr>eo_activeCheckpoint := Some checkpoint, eo_showCheckpoint := True\<rparr>"

definition handleCheckpointDismiss :: "ExperimentOverview \<Rightarrow> ExperimentOverview" where
  "handleCheckpointDismiss v = v\<lparr>eo_showCheckpoint := False\<rparr>"

definition overview_modal :: "ExperimentOverview \<Rightarrow> (string \<times> ModalCheckpoint \<times> bool) option" where
  "overview_modal v = map_option (\<lambda>c. (''Best Checkpoint for Trial '' @ show_int (cwe_trialId c), of_extended c, eo_showCheckpoint v))
     (eo_activeCheckpoint v)"

section \<open>The page with tabs\<close>

datatype TabType = Tab_Overview | Tab_Visualization

fun str_TabType :: "TabType \<Rightarrow> string" where
  "str_TabType Tab_Overview = ''overview''"
| "str_TabType Tab_Visualization = ''visualization''"

definition TAB_KEYS :: "string list" where
  "TAB_KEYS = map str_TabType [Tab_Overview, Tab_Visualization]"

definition DEFAULT_TAB_KEY :: string where "DEFAULT_TAB_KEY = str_TabType Tab_Overview"

fun indexOf :: "'a list \<Rightarrow> 'a \<Rightarrow> int" where
  "indexOf [] x = - 1"
| "indexOf (y # ys) x = (if x = y then 0 else (let i = indexOf ys x in if i < 0 then i else i + 1))"

text \<open>The index is used as a truth value.\<close>

definition defaultTabKey :: "string option \<Rightarrow> string" where
  "defaultTabKey tab = (case tab of
      Some t \<Rightarrow> if t \<noteq> [] \<and> indexOf TAB_KEYS t \<noteq> 0 then t else DEFAULT_TAB_KEY | None \<Rightarrow> DEFAULT_TAB_KEY)"

text \<open>
  The page: what it fetches and its dialog for a fork are the same as those of the page without tabs, whose state it holds
  (the fields for a checkpoint and for the table are not used).
\<close>

record HpPage =
  hp_experimentId :: string \<comment> \<open>as it stands in the path\<close>
  hp_tab :: "string option"
  hp_tabKey :: string
  hp_page :: ExperimentPage

definition parsed_id :: "string \<Rightarrow> int option" where
  "parsed_id s = (case parseInt s of Fin q \<Rightarrow> Some \<lfloor>q\<rfloor> | _ \<Rightarrow> None)"

definition mount_hp :: "string \<Rightarrow> string option \<Rightarrow> HpPage" where
  "mount_hp experimentId tab = \<lparr>hp_experimentId = experimentId, hp_tab = tab, hp_tabKey = defaultTabKey tab,
     hp_page = mount_experiment_page (case parsed_id experimentId of Some i \<Rightarrow> i | None \<Rightarrow> 0) 0 None\<rparr>"

definition hp_basePath :: "HpPage \<Rightarrow> string" where
  "hp_basePath p = ''/experiments/'' @ hp_experimentId p @ ''/hp''"

definition hp_fetchExperimentDetails ::
  "(js \<Rightarrow> bool) \<Rightarrow> (codec \<Rightarrow> js \<Rightarrow> js + js) \<Rightarrow> ExperimentServer \<Rightarrow> HpPage \<Rightarrow> 's Web \<Rightarrow> HpPage \<times> 's Web" where
  "hp_fetchExperimentDetails isCancel dec srv p w =
     (case fetch_parts isCancel dec srv (ep_id (hp_page p)) w of
        (Inr (experiment, trials, validationHistory), w) \<Rightarrow>
          (p\<lparr>hp_page := (hp_page p)\<lparr>ep_experiment := Some experiment, ep_isLoading := False, ep_trials := trials,
             ep_valHistory := validationHistory\<rparr>\<rparr>, w)
      | (Inl f, w) \<Rightarrow> (case caught f of
            Some e \<Rightarrow> if ep_error (hp_page p) = None \<and> \<not> isAborted isCancel e
              then (p\<lparr>hp_page := (hp_page p)\<lparr>ep_error := Some e\<rparr>\<rparr>, w) else (p, w)
          | None \<Rightarrow> (p, w)))"

definition hp_handleForkModalCancel :: "Yaml \<Rightarrow> HpPage \<Rightarrow> failure option \<times> HpPage" where
  "hp_handleForkModalCancel yaml p = (case handleForkModalCancel yaml (hp_page p) of (f, q) \<Rightarrow> (f, p\<lparr>hp_page := q\<rparr>))"

text \<open>The tab shown next and the path that replaces the one of the page.\<close>

definition hp_handleTabChange :: "string \<Rightarrow> HpPage \<Rightarrow> HpPage \<times> string" where
  "hp_handleTabChange key p =
     (p\<lparr>hp_tabKey := key\<rparr>, if key = DEFAULT_TAB_KEY then hp_basePath p else hp_basePath p @ ''/'' @ key)"

definition hp_showForkModal :: "HpPage \<Rightarrow> HpPage" where
  "hp_showForkModal p = p\<lparr>hp_page := showForkModal (hp_page p)\<rparr>"

definition tab_effect :: "HpPage \<Rightarrow> string option" where
  "tab_effect p = (case hp_tab p of
      Some t \<Rightarrow> if t \<noteq> [] \<and> (t \<notin> set TAB_KEYS \<or> t = DEFAULT_TAB_KEY) then Some (hp_basePath p) else None
    | None \<Rightarrow> None)"

definition hp_stops_polling :: "HpPage \<Rightarrow> bool" where
  "hp_stops_polling p = (case ep_experiment (hp_page p) of Some e \<Rightarrow> eb_state e \<in> terminalRunStates | None \<Rightarrow> False)"

definition hp_fork_effect :: "(js \<Rightarrow> bool) \<Rightarrow> Yaml \<Rightarrow> HpPage \<times> 's Web \<Rightarrow> HpPage \<times> 's Web" where
  "hp_fork_effect isCancel yaml = (\<lambda>(p, w). case fork_effect isCancel yaml (hp_page p, w) of (q, w) \<Rightarrow> (p\<lparr>hp_page := q\<rparr>, w))"

datatype HpView = HpInvalid string | HpMessage string | HpSpinner | HpShown "(string \<times> string) list" string

definition hp_view :: "HpPage \<Rightarrow> HpView" where
  "hp_view p =
     (if parseInt (hp_experimentId p) = NaN then HpInvalid (''Invalid Experiment ID '' @ hp_experimentId p)
      else case ep_error (hp_page p) of
        Some e \<Rightarrow> HpMessage (if isNotFound e then ''Unable to find Experiment '' @ hp_experimentId p
            else ''Unable to fetch Experiment '' @ hp_experimentId p)
      | None \<Rightarrow> (case ep_experiment (hp_page p) of
            None \<Rightarrow> HpSpinner
          | Some e \<Rightarrow> HpShown [(''Experiments'', ''/experiments''), (''Experiment '' @ hp_experimentId p, ''/experiments/'' @ hp_experimentId p)]
              (''Experiment '' @ hp_experimentId p)))"

text \<open>The tab that is open: none when the key names no tab.\<close>

definition open_tab :: "HpPage \<Rightarrow> TabType option" where
  "open_tab p = find (\<lambda>t. str_TabType t = hp_tabKey p) [Tab_Overview, Tab_Visualization]"

section \<open>Lemmas\<close>

lemma insert_size:
  "\<exists>q. snd x = Fin q \<Longrightarrow> \<forall>y \<in> set ys. \<exists>q. snd y = Fin q \<Longrightarrow> sorted_wrt (\<lambda>a b. \<not> num_lt (snd b) (snd a)) ys \<Longrightarrow>
   sorted_wrt (\<lambda>a b. \<not> num_lt (snd b) (snd a)) (insert_by (\<lambda>a b. num_sgn (num_sub (snd a) (snd b))) x ys)"
proof (induction ys)
  case (Cons y ys)
  have set: "set (insert_by (\<lambda>a b. num_sgn (num_sub (snd a) (snd b))) x ys) = insert x (set ys)"
    by (metis mset_insert_by set_mset_add_mset_insert set_mset_mset)
  obtain p q where pq: "snd x = Fin p" "snd y = Fin q" using Cons.prems by auto
  show ?case
  proof (cases "p \<le> q")
    case True
    moreover have "\<not> num_lt (snd z) (snd x)" if "z \<in> set ys" for z
      using that Cons.prems pq True by fastforce
    ultimately show ?thesis using Cons.prems pq by (auto simp: num_sub_def)
  next
    case False
    then show ?thesis using Cons set pq by (auto simp: num_sub_def)
  qed
qed simp

lemma sort_size:
  "\<forall>y \<in> set ys. \<exists>q. snd y = Fin q \<Longrightarrow>
   sorted_wrt (\<lambda>a b. \<not> num_lt (snd b) (snd a)) (js_sort (\<lambda>a b. num_sgn (num_sub (snd a) (snd b))) ys)"
proof (induction ys)
  case (Cons y ys)
  let ?cmp = "\<lambda>a b. num_sgn (num_sub (snd a) (snd b))"
  have "js_sort ?cmp (y # ys) = insert_by ?cmp y (js_sort ?cmp ys)" by (simp add: js_sort_def)
  then show ?case using Cons insert_size [of y "js_sort ?cmp ys"] by simp
qed (simp add: js_sort_def)

lemma indexOf_range: "- 1 \<le> indexOf xs x"
  by (induction xs) (auto simp: Let_def)

lemma indexOf_0: "indexOf xs x = 0 \<longleftrightarrow> xs \<noteq> [] \<and> hd xs = x"
  using indexOf_range [of "tl xs" x] by (cases xs) (auto simp: Let_def)

section \<open>Properties\<close>

text \<open>
  The dialog of a trial's best checkpoint.  The table of the overview and the summary of a trial open it for the same
  checkpoint: both list all of its files from the smallest to the largest and give the same batch.  The one opened from the table
  links to the experiment and the trial; the one of the summary does not know the experiment and links to
  \<open>/experiments/undefined\<close>.
\<close>

theorem checkpoint_dialog:
  assumes "tr_bestAvailableCheckpoint trial = Some cp" and "field_value (cw_resources cp) = Some rs"
    and "\<forall>r \<in> set rs. \<exists>q. snd r = Fin q"
  shows "\<exists>c d batch rows. eo_checkpointRenderer e trial = Some c \<and> trial_bestCheckpoint trial = Some d
    \<and> modal_resources (mk_resources (of_extended c)) = rows \<and> modal_resources (mk_resources d) = rows
    \<and> mset rows = mset rs \<and> sorted_wrt (\<lambda>a b. \<not> num_lt (snd b) (snd a)) rows
    \<and> modal_source (of_extended c) = Links [(''/experiments/'' @ show_int (eb_id e), ''Experiment '' @ show_int (eb_id e)),
        (trialDetails_path (tr_id trial) (eb_id e), ''Trial '' @ show_int (tr_id trial))] batch
    \<and> modal_source d = Links [(''/experiments/undefined'', ''Experiment undefined''),
        (''/experiments/undefined/trials/'' @ show_int (tr_id trial), ''Trial '' @ show_int (tr_id trial))] batch"
  using sort_size [OF assms(3)] assms(1,2)
  by (simp add: eo_checkpointRenderer_def trial_bestCheckpoint_def of_extended_def modal_resources_def modal_source_def
      template_def trialDetails_path_def CheckpointWorkload.extend_def Let_def)

definition sample_checkpoint_trial :: TrialDetails where
  "sample_checkpoint_trial = \<lparr>t_endTime = None, t_startTime = ''t'',
     tr_bestAvailableCheckpoint = Some \<lparr>t_endTime = None, t_startTime = ''t'', wl_numBatches = 100, wl_priorBatchesProcessed = 0,
        cw_resources = Given (Some [(''model'', Fin 9), (''code'', Fin 3)]), cw_state = CheckpointState_Completed,
        cw_uuid = Given (Some ''ab'')\<rparr>,
     tr_bestValidationMetric = None, tr_experimentId = 1, tr_hparams = Obj [], tr_id = 5, tr_latestValidationMetric = None,
     tr_state = RunState_Active, tr_totalBatchesProcessed = 100, tr_workloads = []\<rparr>"

theorem checkpoint_dialog_witness:
  "\<forall>e. \<exists>c. eo_checkpointRenderer e sample_checkpoint_trial = Some c
     \<and> mset (modal_resources (mk_resources (of_extended c))) = {#(''model'', Fin 9), (''code'', Fin 3)#}"
proof
  fix e :: ExperimentBase
  obtain cp where cp: "tr_bestAvailableCheckpoint sample_checkpoint_trial = Some cp"
    "field_value (cw_resources cp) = Some [(''model'', Fin 9), (''code'', Fin 3)]"
    by (simp add: sample_checkpoint_trial_def)
  from checkpoint_dialog [OF cp, of e] obtain c rows where "eo_checkpointRenderer e sample_checkpoint_trial = Some c"
    "modal_resources (mk_resources (of_extended c)) = rows" "mset rows = mset [(''model'', Fin 9), (''code'', Fin 3)]"
    by auto
  then show "\<exists>c. eo_checkpointRenderer e sample_checkpoint_trial = Some c
     \<and> mset (modal_resources (mk_resources (of_extended c))) = {#(''model'', Fin 9), (''code'', Fin 3)#}" by simp
qed



text \<open>A checkpoint in S3 or HDFS is shown without its bucket: the switch knows \<open>aws\<close>, which no configuration uses.\<close>

lemma s3_location:
  "conf_checkpointStorage config = Some st \<Longrightarrow> cs_type st \<in> {Some CheckpointStorageType_S3, Some CheckpointStorageType_HDFS} \<Longrightarrow>
   getStorageLocation config (Some u) = ''/'' @ u"
  by (auto simp: getStorageLocation_def template_def)

text \<open>The path of a checkpoint on a shared file system.\<close>

lemma shared_location:
  "conf_checkpointStorage config = Some st \<Longrightarrow> cs_type st = Some CheckpointStorageType_SharedFS \<Longrightarrow> cs_hostPath st = Some h \<Longrightarrow>
   h \<noteq> [] \<Longrightarrow> getStorageLocation config (Some u) = ''file://'' @ (case cs_storagePath st of
       Some p \<Rightarrow> if p = [] then h else if prefix ''/'' p then p else h @ ''/'' @ p | None \<Rightarrow> h) @ ''/'' @ u"
  by (auto simp: getStorageLocation_def template_def text_or_def split: option.split)

lemma metric_zero_stray: "Stray (fm_num fm (Fin 0)) \<in> set (modal_rows fm config (Some (Fin 0)) c)"
  by (simp add: modal_rows_def modal_metric_def)

lemma null_hyperparam: "hyperparamsView num_str pretty ((label, Null) # ps) = Inl TypeError"
  by (simp add: hyperparam_text_def isObject_def is_nullish_def)

lemma info_rows_shown: "set (info_rows rows) \<subseteq> {(l, c). (l, Some c) \<in> set rows}"
  by (auto simp: info_rows_def List.map_filter_def split: option.splits InfoContent.splits if_splits)

end
