(* ===== verification/Cluster_Pages.thy ===== *)
theory Cluster_Pages
  imports Chrome Experiment_Overview Task_List Log_Viewer
begin

text \<open>
  The pages of the cluster (\<^verbatim>\<open>pages/Cluster.tsx\<close>, \<^verbatim>\<open>pages/HGICluster.tsx\<close>) with the cards of resource pools, the columns of the
  lists of experiments and tasks (\<^verbatim>\<open>ExperimentList.table.tsx\<close>, \<^verbatim>\<open>TaskList.table.tsx\<close>, \<^verbatim>\<open>TrialDetails.table.tsx\<close>), the table that
  scrolls (\<^verbatim>\<open>components/ResponsiveTable.tsx\<close>), the page of the token (\<^verbatim>\<open>components/AuthToken.tsx\<close>) and what
  \<^verbatim>\<open>contexts/AppContexts.tsx\<close> polls.  The resource pools are sample data, an argument here.
\<close>

section \<open>The cluster\<close>

definition resource_key :: "Resource \<Rightarrow> string" where
  "resource_key r = (case res_type r of Some t \<Rightarrow> str_ResourceType t | None \<Rightarrow> ''undefined'')"

definition availableResources :: "Agent list option \<Rightarrow> (string \<times> Resource list) list" where
  "availableResources agents = (case agents of
      None \<Rightarrow> []
    | Some as \<Rightarrow> categorize (filter res_enabled (concat (map agent_resources as))) resource_key)"

datatype 'a ClusterView = ClusterSpinner | ClusterMessage string | ClusterShown 'a

definition cluster_view :: "Agent list option \<Rightarrow> 'a \<Rightarrow> 'a ClusterView" where
  "cluster_view agents body = (case agents of
      None \<Rightarrow> ClusterSpinner
    | Some as \<Rightarrow> if length as = 0 then ClusterMessage ''No Agents connected''
        else if obj_keys (availableResources agents) = [] then ClusterMessage ''No Slots available'' else ClusterShown body)"

text \<open>The charts: their titles and what each is given.\<close>

definition cluster_charts :: "Agent list option \<Rightarrow> (string \<times> Resource list option) list" where
  "cluster_charts agents = map (\<lambda>t. (str_ResourceType t @ ''s'', map_of (availableResources agents) (str_ResourceType t)))
     (filter (\<lambda>t. t \<noteq> ResourceType_UNSPECIFIED) [ResourceType_CPU, ResourceType_GPU, ResourceType_UNSPECIFIED])"

section \<open>Resource pools\<close>

record ResourcePool =
  rp_name :: string
  rp_description :: string
  rp_type :: string
  rp_gpusPerAgent :: int
  rp_numAgents :: int
  rp_maxInstances :: int
  rp_defaultGpuPool :: bool
  rp_defaultCpuPool :: bool
  rp_cpuContainersRunning :: int
  rp_cpuContainerCapacity :: int
  rp_details :: "(string \<times> js) list"
  rp_raw :: js \<comment> \<open>the pool as an object\<close>

definition cpuContainers :: "ResourcePool list \<Rightarrow> int \<times> int" where
  "cpuContainers pools = fold (\<lambda>rp (running, tot). (running + rp_cpuContainersRunning rp, tot + rp_cpuContainerCapacity rp)) pools (0, 0)"

text \<open>The three numbers at the top.\<close>

definition hgi_stats :: "ResourcePool list \<Rightarrow> Agent list \<Rightarrow> ClusterOverview \<Rightarrow> (string \<times> string) list" where
  "hgi_stats pools agents overview =
     (let gpu = ov_GPU overview; (running, tot) = cpuContainers pools in
     [(''Number of Agents'', show_nat (length agents)),
      (''GPU Slots Allocated'', show_int (cor_total gpu - cor_available gpu) @ '' / '' @ show_int (cor_total gpu)),
      (''CPU Containers Running'', show_int running @ ''/'' @ show_int tot)])"

text \<open>
  The cards: each is drawn for the pool of its own index, with the states of the slots of a pool drawn at random
  (\<open>random\<close> gives the numbers of \<open>Math.random\<close>, in \<open>[0, 1)\<close>).
\<close>

definition random_pool :: "ResourcePool list \<Rightarrow> rat \<Rightarrow> ResourcePool" where
  "random_pool pools r = pools ! nat \<lfloor>r * of_nat (length pools)\<rfloor>"

definition hgi_cards :: "(nat \<Rightarrow> rat) \<Rightarrow> ResourcePool list \<Rightarrow> Agent list \<Rightarrow> (nat \<times> ResourceState option list) list" where
  "hgi_cards random pools agents = map (\<lambda>idx. (idx, getSlotContainerStates agents (Some (rp_name (random_pool pools (random idx))))))
     [0..<length pools]"

definition rpLogo :: "string \<Rightarrow> string" where
  "rpLogo type = (if type = ''aws'' then ''aws-logo.svg'' else if type = ''gcp'' then ''gcp-logo.svg''
     else if type = ''static'' then ''on-prem-logo.svg'' else [])"

definition rpAttrs :: "(string \<times> string) list" where
  "rpAttrs = [(''location'', ''Location''), (''instanceType'', ''Instance Type''), (''spotOrPreemptible'', ''Spot/Preemptible''),
     (''minInstances'', ''Min Agents''), (''maxInstances'', ''Max Agents''), (''gpusPerAgent'', ''GPUs per Agent''),
     (''cpuContainerCapacityPerAgent'', ''CPU Containers per Agent''), (''schedulerType'', ''Scheduler Type'')]"

definition agentStatusText :: "int \<Rightarrow> int \<Rightarrow> string" where
  "agentStatusText numAgents maxInstances =
     (if numAgents = 0 then ''No'' else if maxInstances = 0 then show_int numAgents
      else show_int numAgents @ ''/'' @ show_int maxInstances) @ '' Agents Active''"

definition shortDetails :: "ResourcePool \<Rightarrow> (string \<times> js) list" where
  "shortDetails rp = fold (\<lambda>cur. obj_put (snd cur) (get_prop (rp_raw rp) (fst cur))) rpAttrs []"

definition pool_tags :: "ResourcePool \<Rightarrow> string list" where
  "pool_tags rp = [rp_type rp] @ (if rp_defaultGpuPool rp then [''default gpu pool''] else [])
     @ (if rp_defaultCpuPool rp then [''default cpu pool''] else [])"

definition agents_color :: "ResourcePool \<Rightarrow> string" where
  "agents_color rp = (if rp_numAgents rp > 0 then ''var(--theme-colors-states-active)'' else ''var(--theme-colors-states-inactive)'')"

definition pool_slots :: "ResourcePool \<Rightarrow> int" where
  "pool_slots rp = rp_numAgents rp * rp_gpusPerAgent rp"

definition toggleModal :: "bool \<Rightarrow> bool" where
  "toggleModal cur = (\<not> cur)"

text \<open>A line of an object's properties.\<close>

definition json_row :: "(number \<Rightarrow> string) \<Rightarrow> (js \<Rightarrow> string) \<Rightarrow> (string \<Rightarrow> string) option \<Rightarrow> string \<times> js \<Rightarrow> string \<times> string" where
  "json_row num_str pretty transformLabel = (\<lambda>(label, v).
     ((case transformLabel of Some f \<Rightarrow> f label | None \<Rightarrow> label),
      if isObject v then pretty v else if v = Str [] \<or> is_nullish v then ''N/A'' else to_string num_str v))"

definition json_rows :: "(number \<Rightarrow> string) \<Rightarrow> (js \<Rightarrow> string) \<Rightarrow> (string \<Rightarrow> string) option \<Rightarrow> (string \<times> js) list \<Rightarrow> (string \<times> string) list" where
  "json_rows num_str pretty transformLabel json = map (json_row num_str pretty transformLabel) json"

text \<open>The details of a pool: without, and if there are any those of its provider.\<close>

definition pool_details :: "ResourcePool \<Rightarrow> (string \<times> js) list \<times> js option" where
  "pool_details rp = (filter (\<lambda>(k, _). k \<noteq> rp_type rp) (rp_details rp),
     (case map_of (rp_details rp) (rp_type rp) of Some v \<Rightarrow> if truthy v then Some v else None | None \<Rightarrow> None))"

section \<open>Columns\<close>

text \<open>The keys and titles, whether the server sorts by the column, and the names the server sorts by.\<close>

definition experiment_columns :: "(string \<times> string \<times> bool) list" where
  "experiment_columns = [(''SORT_BY_ID'', ''ID'', True), (''SORT_BY_DESCRIPTION'', ''Name'', True),
     (''SORT_BY_START_TIME'', ''Start Time'', True), (''duration'', ''Duration'', False), (''SORT_BY_NUM_TRIALS'', ''Trials'', True),
     (''SORT_BY_STATE'', ''State'', True), (''SORT_BY_PROGRESS'', ''Progress'', True), (''archived'', ''Archived'', False),
     (''SORT_BY_USER'', ''User'', True), (''action'', [], False)]"

definition task_columns :: "(string \<times> string) list" where
  "task_columns = [(''id'', ''Short ID''), (''type'', ''Type''), (''name'', ''Name''), (''startTime'', ''Start Time''), (''state'', ''State''),
     (''user'', ''User''), (''action'', [])]"

definition task_sorter ::
  "(string \<Rightarrow> string \<Rightarrow> int) \<Rightarrow> (string \<Rightarrow> number) \<Rightarrow> string \<Rightarrow> (CommandTask \<Rightarrow> CommandTask \<Rightarrow> number) option" where
  "task_sorter lc time_of key =
     (let alpha = (\<lambda>f a b :: CommandTask. Fin (of_int (alphanumericSorter lc (f a) (f b)))) in
      if key = ''id'' then Some (alpha task_id)
      else if key = ''type'' then Some (alpha (\<lambda>t. str_CommandType (ct_type t)))
      else if key = ''name'' then Some (alpha task_name)
      else if key = ''startTime'' then Some (\<lambda>a b. stringTimeSorter time_of (task_startTime a) (task_startTime b))
      else if key = ''state'' then Some (\<lambda>a b. Fin (of_int (commandStateSorter (ct_state a) (ct_state b))))
      else if key = ''user'' then Some (alpha ct_username)
      else None)"

section \<open>The table that scrolls\<close>

text \<open>\<open>max-content\<close>, nothing, or the width of the table.\<close>

datatype ScrollX = ScrollNone | ScrollMax | ScrollWidth number

record ResponsiveTable =
  rt_hasScrollBeenEnabled :: bool
  rt_scrollX :: ScrollX

definition table_effect :: "number option \<Rightarrow> number \<Rightarrow> ResponsiveTable \<Rightarrow> ResponsiveTable" where
  "table_effect tableWidth width t = (case tableWidth of
      None \<Rightarrow> t
    | Some tw \<Rightarrow>
        if width = Fin 0 then t
        else if num_lt width tw then \<lparr>rt_hasScrollBeenEnabled = True, rt_scrollX = ScrollWidth tw\<rparr>
        else t\<lparr>rt_scrollX := (if rt_hasScrollBeenEnabled t then ScrollMax else ScrollNone)\<rparr>)"

section \<open>The page of the token\<close>

definition shown_token :: "js \<Rightarrow> string" where
  "shown_token stored = (if truthy stored then js_str stored else ''Auth token not found.'')"

text \<open>Copying: the new content of the clipboard and the notification.\<close>

definition token_copied :: "Clipboard \<Rightarrow> string \<Rightarrow> App \<Rightarrow> string option \<times> App" where
  "token_copied browser token w = (case copyToClipboard browser token of
      Inr c \<Rightarrow> (Some c, w\<lparr>app_notifications := app_notifications w
        @ [(''open'', Str ''Auth token copied to the clipboard.'', ''Auth Token Copied'')]\<rparr>)
    | Inl e \<Rightarrow> (None, w\<lparr>app_notifications := app_notifications w
        @ [(''warn'', (case e of JsError m \<Rightarrow> Str m | _ \<Rightarrow> Undefined), ''Unable to Copy to Clipboard'')]\<rparr>))"

section \<open>What all pages share\<close>

text \<open>
  \<open>AppContexts\<close>: six request hooks and the contexts that repeat what the hooks hold.  A context is set, to a copy, when the
  state of its hook changes.
\<close>

datatype AppSource = SrcUsers | SrcCommands | SrcNotebooks | SrcShells | SrcTensorboards | SrcActiveExperiments

record AppContexts =
  ac_hook :: "AppSource \<Rightarrow> RestHook"
  ac_context :: "AppSource \<Rightarrow> RestApiState"

definition mount_contexts :: AppContexts where
  "mount_contexts = \<lparr>ac_hook = (\<lambda>_. mount_rest (Obj [])), ac_context = (\<lambda>_. rh_state (mount_rest (Obj [])))\<rparr>"

definition sync_context :: "AppSource \<Rightarrow> AppContexts \<Rightarrow> AppContexts" where
  "sync_context s c = c\<lparr>ac_context := (ac_context c)(s := rh_state (ac_hook c s))\<rparr>"

definition change_hook :: "AppSource \<Rightarrow> (RestHook \<Rightarrow> RestHook) \<Rightarrow> AppContexts \<Rightarrow> AppContexts" where
  "change_hook s f c = sync_context s (c\<lparr>ac_hook := (ac_hook c)(s := f (ac_hook c s))\<rparr>)"

text \<open>The requests that are polled; the active experiments are asked for by their states.\<close>

definition fetch_params :: "AppSource \<Rightarrow> js" where
  "fetch_params s = (case s of SrcActiveExperiments \<Rightarrow> Obj [(''states'', js_strs activeRunStates)]
     | SrcUsers \<Rightarrow> Obj [(''url'', Str ''/users'')] | _ \<Rightarrow> Obj [])"

definition fetchAll :: "AppContexts \<Rightarrow> AppContexts" where
  "fetchAll c = fold (\<lambda>s. change_hook s (rest_effect (fetch_params s)))
     [SrcCommands, SrcNotebooks, SrcShells, SrcTensorboards, SrcActiveExperiments] c"

definition fetchUsers :: "AppContexts \<Rightarrow> AppContexts" where
  "fetchUsers c = change_hook SrcUsers (rest_effect (fetch_params SrcUsers)) c"

section \<open>Lemmas\<close>

lemma categorize_snoc:
  "categorize (xs @ [x]) f = obj_put (f x) ((case map_of (categorize xs f) (f x) of Some ys \<Rightarrow> ys | None \<Rightarrow> []) @ [x]) (categorize xs f)"
  by (simp add: categorize_def Let_def split: option.split)

lemma map_of_categorize:
  "map_of (categorize xs f) k = (if filter (\<lambda>x. f x = k) xs = [] then None else Some (filter (\<lambda>x. f x = k) xs))"
proof (induction xs arbitrary: k rule: rev_induct)
  case (snoc x xs)
  then show ?case by (cases "f x = k") (simp_all add: categorize_snoc)
qed (simp add: categorize_def)

lemma categorize_empty: "obj_keys (categorize xs f) = [] \<longleftrightarrow> xs = []"
proof
  assume "obj_keys (categorize xs f) = []"
  then have "categorize xs f = []" by (simp add: obj_keys_def)
  then have "map_of (categorize xs f) k = None" for k by simp
  then have "filter (\<lambda>x. f x = k) xs = []" for k by (metis map_of_categorize option.distinct(1))
  from this [of "f (hd xs)"] show "xs = []" by (cases xs) auto
qed (simp add: categorize_def obj_keys_def)

text \<open>Contexts repeat their hooks, also across polling and answers.\<close>

definition contexts_ok :: "AppContexts \<Rightarrow> bool" where
  "contexts_ok c = (\<forall>s. ac_context c s = rh_state (ac_hook c s))"

lemma contexts_change: "contexts_ok c \<Longrightarrow> contexts_ok (change_hook s f c)"
  by (simp add: contexts_ok_def change_hook_def sync_context_def)

lemma contexts_poll: "contexts_ok c \<Longrightarrow> contexts_ok (fetchAll c)" "contexts_ok c \<Longrightarrow> contexts_ok (fetchUsers c)"
  by (simp_all add: fetchAll_def fetchUsers_def contexts_change)

lemma contexts_mount: "contexts_ok mount_contexts"
  by (simp add: contexts_ok_def mount_contexts_def)

lemma str_ResourceType_inj: "str_ResourceType a = str_ResourceType b \<longleftrightarrow> a = b" "str_ResourceType a \<noteq> ''undefined''"
  by (cases a; cases b; simp) (cases a; simp)

lemma resource_key_inj: "resource_key r = str_ResourceType t \<longleftrightarrow> res_type r = Some t"
  using str_ResourceType_inj(2) [of t] by (cases "res_type r") (auto simp: resource_key_def str_ResourceType_inj(1))

section \<open>Properties\<close>

text \<open>
  The page of the cluster shows what the agents have.  Without an answer it waits; without agents, or when no slot of
  theirs is enabled, it says so; otherwise it shows a chart for CPUs and one for GPUs, each given exactly the enabled slots
  of its kind, of all agents and in their order, and nothing when there is none.
\<close>

theorem cluster_resources:
  "let slots = (\<lambda>k. filter (\<lambda>r. res_type r = Some k) (filter res_enabled (concat (map agent_resources agents))));
       given = (\<lambda>k. if slots k = [] then None else Some (slots k)) in
   cluster_charts (Some agents) = [(''CPUs'', given ResourceType_CPU), (''GPUs'', given ResourceType_GPU)]
   \<and> cluster_view (Some agents) body =
       (if agents = [] then ClusterMessage ''No Agents connected''
        else if (\<forall>a \<in> set agents. \<forall>r \<in> set (agent_resources a). \<not> res_enabled r) then ClusterMessage ''No Slots available''
        else ClusterShown body)
   \<and> cluster_view None body = ClusterSpinner \<and> cluster_charts None = [(''CPUs'', None), (''GPUs'', None)]"
proof -
  have k: "resource_key r = str_ResourceType t \<longleftrightarrow> res_type r = Some t" for r t
    using resource_key_inj .
  have a: "map_of (availableResources (Some agents)) (str_ResourceType t) =
     (let ys = filter (\<lambda>r. res_type r = Some t) (filter res_enabled (concat (map agent_resources agents)))
      in if ys = [] then None else Some ys)" for t
    by (simp add: availableResources_def map_of_categorize k del: filter_filter)
  have e: "obj_keys (availableResources (Some agents)) = [] \<longleftrightarrow> (\<forall>a \<in> set agents. \<forall>r \<in> set (agent_resources a). \<not> res_enabled r)"
    by (auto simp: availableResources_def categorize_empty filter_empty_conv)
  have c: "cluster_charts (Some agents) = [(''CPUs'', map_of (availableResources (Some agents)) (str_ResourceType ResourceType_CPU)),
      (''GPUs'', map_of (availableResources (Some agents)) (str_ResourceType ResourceType_GPU))]"
    by (simp add: cluster_charts_def)
  have n: "cluster_view None body = ClusterSpinner" "cluster_charts None = [(''CPUs'', None), (''GPUs'', None)]"
    by (simp_all add: cluster_view_def cluster_charts_def availableResources_def)
  have v: "cluster_view (Some agents) body =
       (if agents = [] then ClusterMessage ''No Agents connected''
        else if (\<forall>a \<in> set agents. \<forall>r \<in> set (agent_resources a). \<not> res_enabled r) then ClusterMessage ''No Slots available''
        else ClusterShown body)"
    unfolding e [symmetric] by (simp add: cluster_view_def)
  show ?thesis unfolding Let_def c a v n by (simp add: Let_def)
qed

theorem cluster_resources_witness:
  "cluster_view (Some [\<lparr>agent_id = ''a'', agent_registeredTime = Fin 0, agent_resourcePool = [], agent_resources = []\<rparr>]) () =
     ClusterMessage ''No Slots available''"
  using cluster_resources [of "[\<lparr>agent_id = ''a'', agent_registeredTime = Fin 0, agent_resourcePool = [], agent_resources = []\<rparr>]" "()"]
  by (simp add: Let_def)

text \<open>The slots on the card of a pool are those of a pool drawn at random: the same page may show any of them.\<close>

lemma random_card:
  "i < length pools \<Longrightarrow> \<exists>random. \<forall>idx. 0 \<le> random idx \<and> random idx < 1
     \<and> random_pool pools (random idx) = pools ! i"
proof -
  assume i: "i < length pools"
  let ?r = "(of_nat i :: rat) / of_nat (length pools)"
  have "?r * of_nat (length pools) = of_nat i" using i by auto
  then have "random_pool pools ?r = pools ! i" by (simp add: random_pool_def)
  moreover have "0 \<le> ?r \<and> ?r < 1" using i by (auto simp: divide_simps)
  ultimately show ?thesis by (intro exI [of _ "\<lambda>_. ?r"]) simp
qed

end
