(* ===== verification/Page_Views.thy ===== *)
theory Page_Views
  imports Cluster_Pages Log_Pages Trial_Details Auth_Pages Learning_Chart
begin

text \<open>
  What the pages and dialogs show around their data, and the handlers that go with it: the lines and buttons of the log
  viewer, the buttons, confirmations and columns of the lists, and what each page shows before, and in place of, its content.
  White space in texts is written as the browser shows it.
\<close>

section \<open>The log viewer\<close>

text \<open>
  \<open>ansiToHtml\<close>: \<open>replace\<close> with a text replaces its first occurrence only; \<open>toHtml\<close> is the package's conversion of the
  colour codes.
\<close>

definition escape_markup :: "string \<Rightarrow> string" where
  "escape_markup ansi = replace_first ''>'' ''&gt;'' (replace_first ''<'' ''&lt;'' ansi)"

definition ansiToHtml :: "(string \<Rightarrow> string) \<Rightarrow> string \<Rightarrow> string" where
  "ansiToHtml toHtml ansi = toHtml (escape_markup ansi)"

definition scrollToTop_classes :: "ScrollInfo \<Rightarrow> string list" where
  "scrollToTop_classes scroll = ''scrollToTop'' # (if num_lt (Fin SCROLL_TOP_THRESHOLD) (Fin (sc_scrollTop scroll)) then [''show''] else [])"

definition enableTailing_classes :: "bool \<Rightarrow> string list" where
  "enableTailing_classes isTailing = ''enableTailing'' # (if isTailing then [''enabled''] else [])"

definition levelCss :: "string \<Rightarrow> LogLevel option \<Rightarrow> string" where
  "levelCss defaultCss level = js_join '' '' (defaultCss # (case level of Some l \<Rightarrow> [str_LogLevel l] | None \<Rightarrow> []))"

record LineView =
  ln_id :: string
  ln_height :: string
  ln_top :: string
  ln_number :: "int option"
  ln_level :: "(string \<times> string \<times> string) option" \<comment> \<open>tooltip, classes and text\<close>
  ln_time :: string
  ln_messageClass :: string
  ln_html :: string

definition line_view :: "(number \<Rightarrow> string) \<Rightarrow> (string \<Rightarrow> string) \<Rightarrow> ViewerProps \<Rightarrow> LogConfig \<Rightarrow> ViewerLog \<Rightarrow> LineView" where
  "line_view num_str toHtml props config l =
     (let sz = lc_messageSizes config (log_id l);
          lvl = (case log_level l of Some v \<Rightarrow> str_LogLevel v | None \<Rightarrow> [])
      in \<lparr>ln_id = ''log-'' @ show_int (log_id l),
          ln_height = toRem num_str (map_option (\<lambda>s. PxNum (ms_height s)) sz),
          ln_top = toRem num_str (map_option (\<lambda>s. PxNum (ms_top s)) sz),
          ln_number = (if \<not> vp_disableLineNumber props then Some (log_id l + 1) else None),
          ln_level = (if \<not> vp_disableLevel props
            then Some (''Level: '' @ capitalize lvl, levelCss ''level'' (log_level l), ''<['' @ lvl @ '']>'') else None),
          ln_time = vl_formattedTime l, ln_messageClass = levelCss ''message'' (log_level l),
          ln_html = ansiToHtml toHtml (log_message l)\<rparr>)"

text \<open>The buttons with whether they are disabled; the tooltip of tailing.\<close>

definition log_buttons :: "bool \<Rightarrow> Viewer \<Rightarrow> (string \<times> bool) list" where
  "log_buttons hasDownload v = [(''Copy to Clipboard'', length (vw_logs v) = 0), (''Toggle Fullscreen Mode'', False)]
     @ (if hasDownload then [(''Download Logs'', False)] else [])"

definition tailing_tooltip :: "bool \<Rightarrow> string" where
  "tailing_tooltip isTailing = (if isTailing then ''Tailing Enabled'' else ''Enable Tailing'')"

text \<open>Full screen, when there is an element and the package supports it; scrolling to the top; downloading.\<close>

definition handleFullScreen :: "bool \<Rightarrow> bool \<Rightarrow> bool \<Rightarrow> bool" where
  "handleFullScreen hasBase isEnabled isFullscreen = (if hasBase \<and> isEnabled then \<not> isFullscreen else isFullscreen)"

definition viewer_scrollToTop :: "Hooks.Element option \<Rightarrow> Hooks.Element option" where
  "viewer_scrollToTop container = map_option (\<lambda>e. e\<lparr>el_scrollTop := 0\<rparr>) container"

definition handleDownload :: "('a \<Rightarrow> 'a) option \<Rightarrow> 'a \<Rightarrow> 'a" where
  "handleDownload onDownload st = (case onDownload of Some f \<Rightarrow> f st | None \<Rightarrow> st)"

section \<open>The list of experiments\<close>

definition xl_column_order :: "ExperimentListPage \<Rightarrow> string \<Rightarrow> string option" where
  "xl_column_order pg key = (if key = sorter_key (xl_sorter pg)
     then Some (if sorter_descend (xl_sorter pg) then ''descend'' else ''ascend'') else None)"

record ConfirmDialog =
  cf_content :: string
  cf_okText :: string
  cf_title :: string

definition handleConfirmation :: "Action \<Rightarrow> ConfirmDialog" where
  "handleConfirmation action =
     \<lparr>cf_content = ''Are you sure you want to '' @ toLowerCase (str_Action action) @ '' all the eligible selected experiments?'',
      cf_okText = str_Action action, cf_title = ''Confirm Batch Action''\<rparr>"

text \<open>The buttons: label, whether disabled, the action, and whether it is confirmed first.\<close>

definition experiment_buttons_view :: "Tracker \<Rightarrow> (string \<times> bool \<times> Action \<times> bool) list" where
  "experiment_buttons_view t =
     [(''View in TensorBoard'', False, Action_OpenTensorBoard, False),
      (''Activate'', \<not> hasActivatable t, Action_Activate, True),
      (''Pause'', \<not> hasPausable t, Action_Pause, True),
      (''Archive'', \<not> hasArchivable t, Action_Archive, True),
      (''Unarchive'', \<not> hasUnarchivable t, Action_Unarchive, True),
      (''Cancel'', \<not> hasCancelable t, Action_Cancel, True),
      (''Kill'', \<not> Experiment_List.hasKillable t, Action_Kill, True)]"

text \<open>
  A click on a row: \<open>className\<close> is that of the element clicked, nothing when it is no text.
\<close>

definition xl_handleTableRow ::
  "(string \<Rightarrow> string \<Rightarrow> bool) \<Rightarrow> (string \<Rightarrow> Url result) \<Rightarrow> Env \<Rightarrow> string option \<Rightarrow> ClickEvent \<Rightarrow> ExperimentItem \<Rightarrow> Nav list result" where
  "xl_handleTableRow regexp_test URL env className event record =
     bind_exn (isAlternativeAction className) (\<lambda>alternative.
     if alternative then Inr []
     else handlePath regexp_test URL env event
       \<lparr>po_external = False, po_onClick = None, po_path = Some (exp_url record), po_popout = False\<rparr>)"

section \<open>The list of tasks\<close>

definition tl_column_order :: "TaskListPage \<Rightarrow> string \<Rightarrow> string option" where
  "tl_column_order pg key = (if key = sorter_key (tl_sorter pg)
     then Some (if sorter_descend (tl_sorter pg) then ''descend'' else ''ascend'') else None)"

definition kill_confirmation :: ConfirmDialog where
  "kill_confirmation = \<lparr>cf_content = ''Are you sure you want to kill all the eligible selected tasks?'', cf_okText = ''Kill'',
     cf_title = ''Confirm Batch Kill''\<rparr>"

definition source_button :: "SourceInfo \<Rightarrow> string" where
  "source_button info = ''Show '' @ show_nat (length (si_sources info)) @ '' Source'' @ si_plural info"

text \<open>The dialog of the sources: its title, whether it is visible, and its links.\<close>

definition sources_dialog :: "SourceInfo option \<Rightarrow> string \<times> bool \<times> (string \<times> string) list" where
  "sources_dialog info =
     (template (map_option (\<lambda>i. show_nat (length (si_sources i))) info) @ '' TensorBoard Source'' @ template (map_option si_plural info),
      info \<noteq> None,
      (case info of Some i \<Rightarrow> map (\<lambda>s. (tbs_path s, str_TensorBoardSourceType (tbs_type s) @ '' '' @ show_int (tbs_id s))) (si_sources i)
       | None \<Rightarrow> []))"

section \<open>The pages of an experiment and of a trial\<close>

datatype PageView = PageMessage string | PageSpinner | PageShown "(string \<times> string) list" string

definition ed_view :: "string \<Rightarrow> ExperimentPage \<Rightarrow> PageView" where
  "ed_view experimentId pg =
     (if parseInt experimentId = NaN then PageMessage (''Invalid Experiment ID '' @ experimentId)
      else case ep_error pg of
        Some e \<Rightarrow> PageMessage (if isNotFound e then ''Unable to find Experiment '' @ experimentId
            else ''Unable to fetch Experiment '' @ experimentId)
      | None \<Rightarrow> (case ep_experiment pg of
            None \<Rightarrow> PageSpinner
          | Some _ \<Rightarrow> PageShown [(''Experiments'', ''/experiments''), (''Experiment '' @ experimentId, ''/experiments/'' @ experimentId)]
              (''Experiment '' @ experimentId)))"

definition ed_handleTableRow ::
  "(string \<Rightarrow> string \<Rightarrow> bool) \<Rightarrow> (string \<Rightarrow> Url result) \<Rightarrow> Env \<Rightarrow> ClickEvent \<Rightarrow> ExperimentPage \<Rightarrow> TrialDetails \<Rightarrow> Nav list result" where
  "ed_handleTableRow regexp_test URL env event pg trial = handlePath regexp_test URL env event
     \<lparr>po_external = False, po_onClick = None, po_path = Some (trialDetails_path (tr_id trial) (ep_id pg)), po_popout = False\<rparr>"

text \<open>The subtitle: the description and whether the experiment is archived.\<close>

definition ed_subtitle :: "ExperimentBase \<Rightarrow> string \<times> string list" where
  "ed_subtitle e = (conf_description (eb_config e), if eb_archived e then [''ARCHIVED''] else [])"

definition td_view :: "string \<Rightarrow> TrialPage \<Rightarrow> js \<Rightarrow> PageView" where
  "td_view trialIdParam pg upgraded =
     (let t = show_int (tp_trialId pg); e = template (map_option show_int (tp_experimentId pg)) in
      if parseInt trialIdParam = NaN then PageMessage (''Invalid Trial ID '' @ trialIdParam)
      else case tp_error pg of
        Some err \<Rightarrow> PageMessage (if isNotFound err then ''Unable to find Trial '' @ t else ''Unable to fetch Trial '' @ t)
      | None \<Rightarrow>
          if tp_trial pg = None \<or> tp_experiment pg = None \<or> \<not> truthy upgraded then PageSpinner
          else PageShown [(''Experiments'', ''/experiments''), (''Experiment '' @ e, ''/experiments/'' @ e),
              (''Trial '' @ t, ''/experiments/'' @ e @ ''/trials/'' @ t)] (''Trial '' @ t))"

text \<open>A column of a metric: its label, the letter of its kind, and the order it starts with.\<close>

definition metric_column :: "string option \<Rightarrow> bool \<Rightarrow> MetricName \<Rightarrow> string \<times> string \<times> string option" where
  "metric_column metric smallerIsBetter m =
     (mn_name m, map to_upper_char (take 1 (str_MetricType (mn_type m))),
      if metric \<noteq> None \<and> metric \<noteq> Some [] \<and> metric = Some (mn_name m)
      then Some (if smallerIsBetter then ''ascend'' else ''descend'') else None)"

definition show_options :: "(string \<times> string) list" where
  "show_options = (ALL_VALUE, ''All'') # map (\<lambda>f. (str_TrialInfoFilter f, str_TrialInfoFilter f))
     [TrialInfoFilter_Checkpoint, TrialInfoFilter_Validation, TrialInfoFilter_CheckpointOrValidation]"

definition continue_titles :: "TrialPage \<Rightarrow> string \<times> string" where
  "continue_titles pg = (''Continue Trial '' @ show_int (tp_trialId pg),
     ''Continue Trial '' @ show_int (tp_trialId pg) @ '' of Experiment '' @ template (map_option show_int (tp_experimentId pg)))"

text \<open>The editor of a configuration: its own error, which an edit clears, and the errors that are shown.\<close>

record EditorDialog =
  cd_configError :: "js option"
  cd_config :: string

definition editorOnChange :: "string \<Rightarrow> EditorDialog \<Rightarrow> EditorDialog" where
  "editorOnChange newValue d = d\<lparr>cd_config := newValue, cd_configError := None\<rparr>"

definition editor_alerts :: "js option \<Rightarrow> EditorDialog \<Rightarrow> js list" where
  "editor_alerts err d = (case cd_configError d of Some e \<Rightarrow> if truthy e then [e] else [] | None \<Rightarrow> [])
     @ (case err of Some e \<Rightarrow> if truthy e then [e] else [] | None \<Rightarrow> [])"

section \<open>The pages of logs\<close>

record TrialDownload =
  dm_modal :: bool \<comment> \<open>the confirmation that the page remembers\<close>
  dm_isDownloading :: bool

definition handleDownloadLogs :: "int \<Rightarrow> int option \<Rightarrow> TrialDownload \<Rightarrow> ConfirmDialog \<times> TrialDownload" where
  "handleDownloadLogs trialId experimentId d =
     (let t = show_int trialId in
     (\<lparr>cf_content = ''We recommend using the Determined CLI to download trial logs: det trial logs '' @ t @ '' > experiment_''
         @ template (map_option show_int experimentId) @ ''_trial_'' @ t @ ''_logs.txt'',
       cf_okText = ''Proceed to Download'', cf_title = ''Confirm Download for Trial '' @ t @ '' Logs''\<rparr>,
      d\<lparr>dm_modal := True\<rparr>))"

definition download_error :: "int \<Rightarrow> js \<Rightarrow> js" where
  "download_error trialId e = (let t = show_int trialId in Obj [
     (''error'', e),
     (''message'', Str ''trial log download failed.''),
     (''publicMessage'', Str (''Failed to download trial '' @ t @ '' logs. If the problem persists please try our CLI \"det trial logs ''
        @ t @ ''\"'')),
     (''publicSubject'', Str ''Download Failed''),
     (''type'', js_type ErrorType_Ui)])"

text \<open>The download, given its outcome: the files written; whatever comes of it the page is no longer downloading.\<close>

definition handleDownloadConfirm ::
  "(js \<Rightarrow> bool) \<Rightarrow> ('s Web \<Rightarrow> (failure + string \<times> string list) \<times> 's Web) \<Rightarrow> int \<Rightarrow> TrialDownload \<times> 's Web
    \<Rightarrow> (TrialDownload \<times> 's Web \<times> (string \<times> string list) option) option" where
  "handleDownloadConfirm isCancel download trialId = (\<lambda>(d, w).
     let finished = d\<lparr>dm_modal := False, dm_isDownloading := False\<rparr> in
     case download w of
       (Inr file, w) \<Rightarrow> Some (finished, w, Some file)
     | (Inl f, w) \<Rightarrow> map_option (\<lambda>e. (finished, run_handler isCancel (download_error trialId e) w, None)) (caught f))"

definition trial_logs_view :: "RestApiState \<Rightarrow> int option \<Rightarrow> int \<Rightarrow> PageView" where
  "trial_logs_view trial experimentId trialId =
     (let t = show_int trialId; e = template (map_option show_int experimentId) in
      if rs_errorCount trial > 0 \<and> \<not> rs_isLoading trial then PageMessage (''Unable to find Trial '' @ t)
      else PageShown [(''Experiments'', ''/experiments''), (''Experiment '' @ e, ''/experiments/'' @ e),
          (''Trial '' @ t, ''/experiments/'' @ e @ ''/trials/'' @ t), (''Logs'', ''#'')] (''Trial '' @ t @ '' Logs''))"

definition task_logs_breadcrumb :: "string \<Rightarrow> string \<Rightarrow> (string \<times> string) list" where
  "task_logs_breadcrumb taskType taskId = [(''Tasks'', ''/tasks''), (capitalize taskType @ '' '' @ take 4 taskId, ''#'')]"

section \<open>Waiting and signing in\<close>

definition wait_error :: "js \<Rightarrow> js" where
  "wait_error err = Obj [(''error'', err), (''message'', Str ''failed while waiting for command to be ready''),
     (''silent'', Bool False), (''type'', js_type ErrorType_Server)]"

definition handleWsError :: "(js \<Rightarrow> bool) \<Rightarrow> js \<Rightarrow> 's Web \<Rightarrow> 's Web" where
  "handleWsError isCancel err w = run_handler isCancel (wait_error err) w"

definition wait_mount_effect :: "UIState \<Rightarrow> UIState" where
  "wait_mount_effect ui = ui_reducer ui HideChrome"

text \<open>\<open>!waitStatus || !terminal && indicator\<close>: \<open>true\<close>, which shows nothing, before the first status.\<close>

definition wait_indicator :: "WaitPage \<Rightarrow> bool" where
  "wait_indicator p = (case wp_status p of None \<Rightarrow> False | Some (_, state) \<Rightarrow> \<not> is_terminal state)"

text \<open>The sign-in page shows its form after one check of the session; the form's error and whether it can be sent.\<close>

definition sign_in_shown :: "AuthState \<Rightarrow> bool" where
  "sign_in_shown auth = auth_checked auth"

definition login_form_view :: "'s LoginPage \<Rightarrow> string list \<times> bool" where
  "login_form_view p = ((if lp_isBadCredentials p then [''Incorrect username or password.''] else []), \<not> lp_canSubmit p)"

section \<open>Lemmas\<close>

lemma replace_first_char:
  "replace_first [c] r s = (if c \<in> set s then takeWhile (\<lambda>x. x \<noteq> c) s @ r @ tl (dropWhile (\<lambda>x. x \<noteq> c) s) else s)"
  by (induction s) auto

lemma replace_first_count:
  "x \<notin> set r \<Longrightarrow> count_list (replace_first [c] r s) x = (if x = c then count_list s x - 1 else count_list s x)"
proof (induction s)
  case (Cons y s)
  have "c \<in> set s \<or> count_list s c = 0" by (simp add: count_list_0_iff)
  then show ?case using Cons by (auto simp: count_list_append split: if_splits)
qed simp

section \<open>Properties\<close>



text \<open>Every action but opening a TensorBoard is confirmed, and its button is disabled when it applies to nothing selected.\<close>

lemma confirmed_actions:
  "(label, d, action, confirmed) \<in> set (experiment_buttons_view t) \<Longrightarrow> confirmed \<longleftrightarrow> action \<noteq> Action_OpenTensorBoard"
  by (auto simp: experiment_buttons_view_def)

lemma no_first_indicator: "\<not> wait_indicator \<lparr>wp_status = None, wp_closed = False, wp_nav = []\<rparr>"
  by (simp add: wait_indicator_def)

text \<open>A column shows an order exactly when it is the one sorted by.\<close>

lemma one_sorted_column: "xl_column_order pg a \<noteq> None \<Longrightarrow> xl_column_order pg b \<noteq> None \<Longrightarrow> a = b"
  by (auto simp: xl_column_order_def split: if_splits)

end
