(* ===== verification/Event_Manager.thy ===== *)
theory Event_Manager
  imports Decoder_Logs
begin

text \<open>
  The master's buffer of the events of a task (\<^verbatim>\<open>src/master/internal/command/events.go\<close>), which answers the requests of the
  page of task logs: a ring of \<open>defaultEventBufferSize\<close> cells, the number of the next event, and the handler of the
  request.  Streams to web sockets are left out.  The lemmas relate the ring to all events of the task and give the
  logs that the WebUI's decoder makes of an answer.
\<close>

section \<open>Events\<close>

text \<open>
  The events that \<^verbatim>\<open>command.go\<close> sends; a pointer to a struct is an object.  Of the snapshot only the description is
  kept, all that the decoder reads.
\<close>

datatype EventKind =
    ScheduledEvent string
  | AssignedEvent "(string \<times> js) list"
  | ContainerStartedEvent "(string \<times> js) list"
  | ServiceReadyEvent "(string \<times> js) list"
  | ExitedEvent string
  | LogEvent string

record Event =
  ev_Snapshot :: string
  ev_ParentID :: string
  ev_ID :: string
  ev_Seq :: int
  ev_Time :: string
  ev_kind :: EventKind

text \<open>The JSON of an event; the fields of the other kinds are \<open>nil\<close>.\<close>

definition event_json :: "Event \<Rightarrow> js" where
  "event_json e = Obj [
     (''snapshot'', Obj [(''config'', Obj [(''description'', Str (ev_Snapshot e))])]),
     (''parent_id'', Str (ev_ParentID e)), (''id'', Str (ev_ID e)), (''seq'', Num (Fin (of_int (ev_Seq e)))),
     (''time'', Str (ev_Time e)),
     (''scheduled_event'', case ev_kind e of ScheduledEvent t \<Rightarrow> Str t | _ \<Rightarrow> Null),
     (''assigned_event'', case ev_kind e of AssignedEvent ps \<Rightarrow> Obj ps | _ \<Rightarrow> Null),
     (''container_started_event'', case ev_kind e of ContainerStartedEvent ps \<Rightarrow> Obj ps | _ \<Rightarrow> Null),
     (''service_ready_event'', case ev_kind e of ServiceReadyEvent ps \<Rightarrow> Obj ps | _ \<Rightarrow> Null),
     (''terminate_request_event'', Null),
     (''exited_event'', case ev_kind e of ExitedEvent s \<Rightarrow> Str s | _ \<Rightarrow> Null),
     (''log_event'', case ev_kind e of LogEvent s \<Rightarrow> Str s | _ \<Rightarrow> Null)]"

section \<open>The manager\<close>

text \<open>The cells of the ring from the one that is written next, so from the oldest one.\<close>

record EventManager =
  em_bufferSize :: nat
  em_buffer :: "Event option list"
  em_seq :: int

definition defaultEventBufferSize :: nat where "defaultEventBufferSize = 200"

definition newEventManager :: EventManager where
  "newEventManager = \<lparr>em_bufferSize = defaultEventBufferSize, em_buffer = replicate defaultEventBufferSize None, em_seq = 0\<rparr>"

definition stamp_event :: "string \<Rightarrow> string \<Rightarrow> string \<Rightarrow> Event \<Rightarrow> EventManager \<Rightarrow> Event" where
  "stamp_event parent uuid now msg e = msg\<lparr>ev_ParentID := parent, ev_ID := uuid, ev_Seq := em_seq e, ev_Time := now\<rparr>"

definition receive_event :: "string \<Rightarrow> string \<Rightarrow> string \<Rightarrow> Event \<Rightarrow> EventManager \<Rightarrow> EventManager" where
  "receive_event parent uuid now msg e =
     (let buffer = (if em_bufferSize e > 0 then tl (em_buffer e) @ [Some (stamp_event parent uuid now msg e)] else em_buffer e)
      in e\<lparr>em_buffer := buffer, em_seq := em_seq e + 1\<rparr>)"

definition validEvent :: "Event \<Rightarrow> int option \<Rightarrow> int option \<Rightarrow> bool" where
  "validEvent e greaterThanSeq lessThanSeq =
     (if (case greaterThanSeq of Some g \<Rightarrow> ev_Seq e \<le> g | None \<Rightarrow> False) then False
      else if (case lessThanSeq of Some l \<Rightarrow> ev_Seq e \<ge> l | None \<Rightarrow> False) then False
      else True)"

fun client_events :: "int option \<Rightarrow> int option \<Rightarrow> int \<Rightarrow> Event option list \<Rightarrow> Event list \<Rightarrow> Event list" where
  "client_events g l limit [] clientEvents = clientEvents"
| "client_events g l limit (None # events) clientEvents = client_events g l limit events clientEvents"
| "client_events g l limit (Some e # events) clientEvents = client_events g l limit events
     (if validEvent e g l \<and> int (length clientEvents) < limit then clientEvents @ [e] else clientEvents)"

definition events_handler :: "int option \<Rightarrow> int option \<Rightarrow> int option \<Rightarrow> EventManager \<Rightarrow> Event list" where
  "events_handler greaterThanID lessThanID limit e =
     client_events greaterThanID lessThanID (case limit of Some l \<Rightarrow> l | None \<Rightarrow> int (em_bufferSize e)) (em_buffer e) []"

section \<open>The ring and all events\<close>

text \<open>A manager after the events of the list, in their order and with the numbers it gave them.\<close>

inductive managed :: "Event list \<Rightarrow> EventManager \<Rightarrow> bool" where
  new_manager: "managed [] newEventManager"
| received: "managed es em \<Longrightarrow> managed (es @ [stamp_event parent uuid now e em]) (receive_event parent uuid now e em)"

definition kept :: "Event list \<Rightarrow> Event list" where
  "kept es = drop (length es - defaultEventBufferSize) es"

lemma kept_snoc: "kept (es @ [e]) = (if defaultEventBufferSize \<le> length es then tl (kept es) else kept es) @ [e]"
proof (cases "defaultEventBufferSize \<le> length es")
  case True
  then have "Suc (length es) - defaultEventBufferSize = Suc (length es - defaultEventBufferSize)" by linarith
  then show ?thesis using True by (simp add: kept_def drop_Suc tl_drop defaultEventBufferSize_def)
next
  case False
  then show ?thesis by (simp add: kept_def)
qed

lemma managed_ring:
  "managed es em \<Longrightarrow> em_bufferSize em = defaultEventBufferSize \<and> em_seq em = int (length es)
    \<and> em_buffer em = replicate (defaultEventBufferSize - length es) None @ map Some (kept es)
    \<and> map ev_Seq es = map int [0..<length es]"
proof (induction rule: managed.induct)
  case new_manager
  then show ?case by (simp add: newEventManager_def kept_def)
next
  case (received es em parent uuid now e)
  have "tl (replicate (defaultEventBufferSize - length es) None @ map Some (kept es))
      = replicate (defaultEventBufferSize - Suc (length es)) None
        @ map Some (if defaultEventBufferSize \<le> length es then tl (kept es) else kept es)"
    by (cases "defaultEventBufferSize - length es") (auto simp: map_tl)
  then show ?case
    using received by (simp add: receive_event_def Let_def kept_snoc stamp_event_def defaultEventBufferSize_def)
qed

lemma kept_sub: "set (kept es) \<subseteq> set es" "length (kept es) \<le> defaultEventBufferSize"
  by (auto simp: kept_def dest: in_set_dropD)

lemma managed_kept:
  assumes "managed es em"
  shows "sorted_wrt (<) (map ev_Seq es)" "sorted_wrt (<) (map ev_Seq (kept es))"
    and "e \<in> set es \<Longrightarrow> 0 \<le> ev_Seq e \<and> ev_Seq e < em_seq em"
    and "Some e \<in> set (em_buffer em) \<longleftrightarrow> e \<in> set (kept es)"
proof -
  note ring = managed_ring [OF assms]
  have "sorted_wrt (<) (map int [0..<length es])" by (simp add: sorted_wrt_map)
  then show s: "sorted_wrt (<) (map ev_Seq es)" using ring by metis
  then show "sorted_wrt (<) (map ev_Seq (kept es))" by (simp add: kept_def sorted_wrt_drop flip: drop_map)
  show "Some e \<in> set (em_buffer em) \<longleftrightarrow> e \<in> set (kept es)" using ring by auto
  assume "e \<in> set es"
  then have "ev_Seq e \<in> set (map int [0..<length es])" using ring by (metis imageI set_map)
  then show "0 \<le> ev_Seq e \<and> ev_Seq e < em_seq em" using ring by auto
qed

lemma client_events_None [simp]: "client_events g l n (replicate k None @ xs) acc = client_events g l n xs acc"
  by (induction k) simp_all

lemma client_events_filter:
  "int (length acc + length es) \<le> n \<Longrightarrow>
    client_events g l n (map Some es) acc = acc @ filter (\<lambda>e. validEvent e g l) es"
  by (induction es arbitrary: acc) auto

text \<open>An answer to a request that asks for as much as the ring holds.\<close>

lemma handler_kept:
  assumes "managed es em" "int defaultEventBufferSize \<le> n"
  shows "events_handler g None (Some n) em = filter (\<lambda>e. validEvent e g None) (kept es)"
  using managed_ring [OF assms(1)] kept_sub(2) [of es] assms(2)
  by (simp add: events_handler_def client_events_filter)

section \<open>What the WebUI makes of an answer\<close>

fun event_message :: "string \<Rightarrow> string \<Rightarrow> EventKind \<Rightarrow> string" where
  "event_message description parent (ScheduledEvent t) =
     (if t = [] then [] else ''Scheduling '' @ parent @ '' (id: '' @ description @ '')...'')"
| "event_message description parent (AssignedEvent _) = description @ '' was assigned to an agent...''"
| "event_message description parent (ContainerStartedEvent _) = ''Container of '' @ description @ '' has started...''"
| "event_message description parent (ServiceReadyEvent _) = []"
| "event_message description parent (ExitedEvent s) = (if s = [] then [] else description @ '' was terminated: '' @ s)"
| "event_message description parent (LogEvent s) = (if s = [] then [] else ioTaskEventToMessage s)"

definition event_log :: "Event \<Rightarrow> Log" where
  "event_log e = \<lparr>log_id = ev_Seq e, log_level = None,
     log_message = event_message (ev_Snapshot e) (ev_ParentID e) (ev_kind e), log_meta = None, log_time = Some (ev_Time e)\<rparr>"

fun ready :: "EventKind \<Rightarrow> bool" where
  "ready (ServiceReadyEvent _) = True"
| "ready _ = False"

abbreviation readable :: "Event \<Rightarrow> bool" where
  "readable e \<equiv> \<not> ready (ev_kind e)"

lemma event_json_conforms: "conforms ioTaskLog (event_json e)"
  unfolding ioTaskLog_def event_json_def conforms_CType
  by (cases "ev_kind e") (simp_all add: own_def optional_def ioNullOrUndefined_def)

lemma ready_json: "is_ready_event (event_json e) = ready (ev_kind e)"
  by (cases "ev_kind e") (simp_all add: is_ready_event_def event_json_def get_prop_def)

lemma event_log_json: "task_log (event_json e) = Inr (event_log e)"
  by (cases "ev_kind e") (simp_all add: task_log_def task_message_def event_json_def own_def opt_as_def event_log_def prop_of_def)

lemma events_decoded:
  assumes "io_ts dec"
  shows "jsonToTaskLogs dec (Arr (map event_json es)) = Inr (map event_log (filter readable es))"
proof -
  let ?v = "Arr (map event_json es)"
  have "conforms ioTaskLogs ?v" by (simp add: ioTaskLogs_def list_all_iff event_json_conforms)
  then have "decode_io dec ioTaskLogs ?v = Inr ?v"
    by (simp add: io_ts.decode_ok [OF assms] decode_io_def strip_exact_free exact_free_logs del: strip.simps)
  moreover have "mapM_exn task_log (map event_json xs) = Inr (map event_log xs)" for xs
    by (induction xs) (simp_all add: event_log_json)
  ultimately show ?thesis by (simp add: jsonToTaskLogs_def filter_map o_def ready_json)
qed

lemma kept_low: "managed es em \<Longrightarrow> e \<in> set (kept es) \<Longrightarrow> int (length es - defaultEventBufferSize) \<le> ev_Seq e"
proof -
  assume "managed es em" "e \<in> set (kept es)"
  then have "ev_Seq e \<in> set (drop (length es - defaultEventBufferSize) (map int [0..<length es]))"
    using managed_ring [of es em] by (metis kept_def drop_map image_eqI set_map)
  then show ?thesis by (auto simp: drop_map drop_upt)
qed

end
