(* ===== verification/Task_Logs.thy ===== *)
theory Task_Logs
  imports Log_Pages Event_Manager
begin

text \<open>
  The page of a task's logs (\<^verbatim>\<open>pages/TaskLogs.tsx\<close>) put together with the master's buffer of the task's events, its
  handler, the decoder and the viewer.  The handlers and the effects of the page are those of the page of the master's
  logs, on requests that name the task.  The invariant of the page and the property at the end hold for every order in
  which events arrive, requests are sent, answered or lost, and the user scrolls.
\<close>

section \<open>The page\<close>

definition task_viewer_props :: ViewerProps where
  "task_viewer_props = \<lparr>vp_disableLevel = True, vp_disableLineNumber = False\<rparr>"

definition task_older_effect :: "(string \<Rightarrow> string \<Rightarrow> string) \<Rightarrow> Rects option \<Rightarrow> Log list \<Rightarrow> LogsPage \<Rightarrow> LogsPage result" where
  "task_older_effect fmt = older_effect fmt task_viewer_props"

definition task_newer_effect :: "(string \<Rightarrow> string \<Rightarrow> string) \<Rightarrow> Rects option \<Rightarrow> Log list \<Rightarrow> LogsPage \<Rightarrow> LogsPage result" where
  "task_newer_effect fmt = newer_effect fmt task_viewer_props"

text \<open>The logs that a request yields while the manager of the task's events is \<open>em\<close>.\<close>

definition load_task_logs ::
  "(codec \<Rightarrow> js \<Rightarrow> js + js) \<Rightarrow> EventManager \<Rightarrow> TaskLogsParams \<Rightarrow> failure + Log list" where
  "load_task_logs dec em params =
     jsonToTaskLogs dec (Arr (map event_json (events_handler (lp_greaterThanId params) None (lp_tail params) em)))"

record TaskLogsWorld =
  tw_em :: EventManager
  tw_page :: LogsPage
  tw_older :: "TaskLogsParams option"
  tw_newer :: "TaskLogsParams option"

text \<open>Both requests are sent at once when the page is entered.\<close>

definition open_task_logs :: "string \<Rightarrow> CommandType \<Rightarrow> EventManager \<Rightarrow> TaskLogsWorld" where
  "open_task_logs taskId taskType em = \<lparr>tw_em = em, tw_page = mount_page,
     tw_older = Some (task_baseParams taskId taskType), tw_newer = Some (task_baseParams taskId taskType)\<rparr>"

inductive task_logs_step ::
  "(codec \<Rightarrow> js \<Rightarrow> js + js) \<Rightarrow> (string \<Rightarrow> string \<Rightarrow> string) \<Rightarrow> TaskLogsParams \<Rightarrow> Rects
    \<Rightarrow> TaskLogsWorld \<Rightarrow> TaskLogsWorld \<Rightarrow> bool"
  for dec fmt baseParams r where
  told: "em_seq (tw_em w) < MAX_SAFE_INTEGER \<Longrightarrow>
    task_logs_step dec fmt baseParams r w (w\<lparr>tw_em := receive_event parent uuid now e (tw_em w)\<rparr>)"
| scrolled: "scrollToTop_effect True (pg_viewer (tw_page w)) previous scroll = Some oldestLogId \<Longrightarrow>
    task_fetchOlderLogs baseParams oldestLogId (tw_page w) = (request, pg) \<Longrightarrow>
    task_logs_step dec fmt baseParams r w
      (w\<lparr>tw_page := pg, tw_older := (case request of None \<Rightarrow> tw_older w | Some _ \<Rightarrow> request)\<rparr>)"
| polled: "task_logs_step dec fmt baseParams r w
      (w\<lparr>tw_newer := (case task_fetchNewerLogs baseParams (tw_page w) of None \<Rightarrow> tw_newer w | Some params \<Rightarrow> Some params)\<rparr>)"
| older_loaded: "tw_older w = Some params \<Longrightarrow> load_task_logs dec (tw_em w) params = Inr logs \<Longrightarrow>
    task_older_effect fmt (Some r) logs (tw_page w) = Inr pg \<Longrightarrow>
    task_logs_step dec fmt baseParams r w (w\<lparr>tw_page := pg, tw_older := None\<rparr>)"
| newer_loaded: "tw_newer w = Some params \<Longrightarrow> load_task_logs dec (tw_em w) params = Inr logs \<Longrightarrow>
    task_newer_effect fmt (Some r) logs (tw_page w) = Inr pg \<Longrightarrow>
    task_logs_step dec fmt baseParams r w (w\<lparr>tw_page := pg, tw_newer := None\<rparr>)"
| older_failed: "task_logs_step dec fmt baseParams r w (w\<lparr>tw_older := None\<rparr>)"
| newer_failed: "task_logs_step dec fmt baseParams r w (w\<lparr>tw_newer := None\<rparr>)"

inductive task_logs_run ::
  "(codec \<Rightarrow> js \<Rightarrow> js + js) \<Rightarrow> (string \<Rightarrow> string \<Rightarrow> string) \<Rightarrow> TaskLogsParams \<Rightarrow> Rects
    \<Rightarrow> TaskLogsWorld \<Rightarrow> TaskLogsWorld \<Rightarrow> bool"
  for dec fmt baseParams r w0 where
  task_logs_start: "task_logs_run dec fmt baseParams r w0 w0"
| task_logs_more: "task_logs_run dec fmt baseParams r w0 w \<Longrightarrow> task_logs_step dec fmt baseParams r w w' \<Longrightarrow>
    task_logs_run dec fmt baseParams r w0 w'"

section \<open>Answers\<close>

abbreviation greater :: "int option \<Rightarrow> Event \<Rightarrow> bool" where
  "greater g e \<equiv> (case g of None \<Rightarrow> True | Some i \<Rightarrow> i < ev_Seq e)"

text \<open>The events of an answer: those the ring still holds, after the given number, that carry something to read.\<close>

definition answer_events :: "int option \<Rightarrow> Event list \<Rightarrow> Event list" where
  "answer_events g es = filter (\<lambda>e. greater g e \<and> readable e) (kept es)"

lemma load_answer:
  assumes "io_ts dec" "managed es em" "lp_tail params = Some TAIL_SIZE"
  shows "load_task_logs dec em params = Inr (map event_log (answer_events (lp_greaterThanId params) es))"
proof -
  have "validEvent e g None = greater g e" for e g by (auto simp: validEvent_def split: option.splits)
  then show ?thesis
    using handler_kept [OF assms(2), of TAIL_SIZE "lp_greaterThanId params"]
    by (simp add: load_task_logs_def assms(3) events_decoded [OF assms(1)] answer_events_def conj_commute
        TAIL_SIZE_def defaultEventBufferSize_def)
qed

lemma answer_sorted:
  assumes "managed es em"
  shows "sorted_wrt (<) (map log_id (map event_log (answer_events g es)))"
proof -
  have "sorted_wrt (<) (map ev_Seq (filter P xs))" if "sorted_wrt (<) (map ev_Seq xs)" for P xs
    using that by (induction xs) auto
  then show ?thesis using managed_kept(2) [OF assms] by (simp add: answer_events_def event_log_def o_def)
qed

section \<open>The invariant\<close>

abbreviation page_logs :: "LogsPage \<Rightarrow> ViewerLog list" where
  "page_logs pg \<equiv> vw_logs (pg_viewer pg)"

definition page_ok :: "(string \<Rightarrow> string \<Rightarrow> string) \<Rightarrow> Event list \<Rightarrow> LogsPage \<Rightarrow> bool" where
  "page_ok fmt es pg \<longleftrightarrow> viewer_ok (pg_viewer pg) \<and> pg_logIdRange pg = vw_logIdRange (pg_viewer pg)
     \<and> (\<forall>l \<in> set (page_logs pg). \<exists>e \<in> set es. readable e \<and> l = viewer_log fmt (event_log e))
     \<and> (page_logs pg \<noteq> [] \<longrightarrow> (\<forall>e \<in> set (kept es). readable e \<longrightarrow> lr_min (pg_logIdRange pg) \<le> ev_Seq e))
     \<and> (\<forall>e \<in> set (kept es). readable e \<and> ev_Seq e \<le> lr_max (pg_logIdRange pg) \<longrightarrow>
          viewer_log fmt (event_log e) \<in> set (page_logs pg))"

definition all_shown :: "(string \<Rightarrow> string \<Rightarrow> string) \<Rightarrow> Event list \<Rightarrow> LogsPage \<Rightarrow> bool" where
  "all_shown fmt es pg \<longleftrightarrow> (\<forall>e \<in> set (kept es). readable e \<longrightarrow> viewer_log fmt (event_log e) \<in> set (page_logs pg))"

text \<open>The number a request may name: none while nothing is shown, later at most the newest one shown.\<close>

definition request_ok :: "LogsPage \<Rightarrow> int option \<Rightarrow> bool" where
  "request_ok pg g \<longleftrightarrow> (page_logs pg = [] \<longrightarrow> g = None) \<and> (\<forall>i. g = Some i \<longrightarrow> i \<le> lr_max (pg_logIdRange pg))"

lemma event_log_id [simp]: "log_id (event_log e) = ev_Seq e"
  by (simp add: event_log_def)

lemma not_answered:
  "page_ok fmt es pg \<Longrightarrow> request_ok pg g \<Longrightarrow> e \<in> set (kept es) \<Longrightarrow> readable e \<Longrightarrow> e \<notin> set (answer_events g es) \<Longrightarrow>
    viewer_log fmt (event_log e) \<in> set (page_logs pg)"
  by (fastforce simp: answer_events_def page_ok_def request_ok_def split: option.splits)

lemma answer_ids:
  assumes "managed es em" "int (length es) \<le> MAX_SAFE_INTEGER" "e \<in> set (answer_events g es)"
  shows "e \<in> set (kept es)" "readable e" "0 \<le> ev_Seq e" "ev_Seq e < MAX_SAFE_INTEGER"
  using assms managed_kept(3) [OF assms(1), of e] managed_ring [OF assms(1)] kept_sub(1) [of es]
  by (auto simp: answer_events_def)

lemma page_added:
  assumes m: "managed es em" and len: "int (length es) \<le> MAX_SAFE_INTEGER"
    and pg: "page_ok fmt es pg" and g: "request_ok pg g"
    and side: "prepend \<longrightarrow> page_logs pg = []"
    and L: "L = map event_log (answer_events g es)" "L \<noteq> []" "lr_max (pg_logIdRange pg) < log_id (last L)"
  defines "rg \<equiv> \<lparr>lr_max = max (lr_max (pg_logIdRange pg)) (log_id (last L)), lr_min = min (lr_min (pg_logIdRange pg)) (log_id (hd L))\<rparr>"
  shows "\<exists>v new. addLogs fmt props (Some r) L prepend (pg_viewer pg) = Inr v \<and> vw_logs v = page_logs pg @ new
    \<and> (\<forall>l \<in> set new. \<exists>e \<in> set (kept es). l = viewer_log fmt (event_log e))
    \<and> page_ok fmt es (pg\<lparr>pg_logIdRange := rg, pg_viewer := v\<rparr>)
    \<and> all_shown fmt es (pg\<lparr>pg_logIdRange := rg, pg_viewer := v\<rparr>)"
proof -
  let ?v = "pg_viewer pg" let ?n = "new_logs ?v L"
  note ok = pg [unfolded page_ok_def]
  have sorted: "sorted_wrt (<) (map log_id L)" using answer_sorted [OF m, of g] L(1) by simp
  have ids: "0 \<le> log_id l \<and> log_id l < MAX_SAFE_INTEGER" "page_logs pg \<noteq> [] \<Longrightarrow> lr_min (pg_logIdRange pg) \<le> log_id l"
    if "l \<in> set L" for l using that answer_ids [OF m len, of _ g] ok unfolding L(1) by auto
  have batch: "batch_ok ?v prepend L"
    using sorted ids side ok by (fastforce simp: batch_ok_def MIN_SAFE_INTEGER_def)
  have last: "last L \<in> set ?n" using L(2,3) ok by (simp add: new_logs_def)
  then have new: "?n \<noteq> []" by auto
  obtain v where v: "addLogs fmt props (Some r) L prepend ?v = Inr v"
    "vw_logs v = (if prepend then map (viewer_log fmt) ?n @ vw_logs ?v else vw_logs ?v @ map (viewer_log fmt) ?n)"
    "vw_logIdRange v = \<lparr>lr_max = max (lr_max (vw_logIdRange ?v)) (log_id (last ?n)),
       lr_min = min (lr_min (vw_logIdRange ?v)) (log_id (hd ?n))\<rparr>"
    using addLogs_new [OF new, of props r prepend fmt] by force
  have vok: "viewer_ok v" using viewer_ok_added [OF _ batch new v(2,3)] ok by blast
  have logs: "vw_logs v = page_logs pg @ map (viewer_log fmt) ?n" using v(2) side by auto
  have all_new: "?n = L" if "page_logs pg = []"
    using that ok ids(1) by (auto simp: new_logs_def viewer_ok_def noRange_def MIN_SAFE_INTEGER_def intro!: filter_True)
  have nsub: "l \<in> set L" if "l \<in> set ?n" for l using that by (auto simp: new_logs_def)
  have nsorted: "sorted_wrt (<) (map log_id ?n)" using filter_sorted_ids [OF sorted] by (simp add: new_logs_def)
  have "log_id (last ?n) = log_id (last L)"
    using sorted_bounds [OF sorted nsub [OF last_in_set [OF new]]] sorted_bounds [OF nsorted last] by simp
  moreover have "min (lr_min (pg_logIdRange pg)) (log_id (hd ?n)) = min (lr_min (pg_logIdRange pg)) (log_id (hd L))"
    using all_new ids(2) [OF hd_in_set [OF L(2)]] ids(2) [OF nsub [OF hd_in_set [OF new]]]
    by (cases "page_logs pg = []") auto
  ultimately have rg: "rg = vw_logIdRange v" using v(3) ok by (simp add: rg_def)
  have in_L: "viewer_log fmt (event_log e) \<in> set (vw_logs v)" if "e \<in> set (answer_events g es)" for e
  proof (cases "event_log e \<in> set ?n")
    case False
    then have "ev_Seq e \<le> lr_max (pg_logIdRange pg)" using that L(1) ok by (auto simp: new_logs_def)
    then show ?thesis using answer_ids(1,2) [OF m len that] ok logs by auto
  qed (simp add: logs)
  then have all: "all_shown fmt es (pg\<lparr>pg_logIdRange := rg, pg_viewer := v\<rparr>)"
    using not_answered [OF pg g] logs by (auto simp: all_shown_def)
  have low: "lr_min rg \<le> ev_Seq e" if e: "e \<in> set (kept es)" "readable e" for e
  proof (cases "page_logs pg = []")
    case True
    then have "event_log e \<in> set L" using e g by (auto simp: L(1) answer_events_def request_ok_def)
    then show ?thesis using sorted_bounds [OF sorted] by (fastforce simp: rg_def)
  next
    case False
    then show ?thesis using ok e by (auto simp: rg_def min_le_iff_disj)
  qed
  have src_new: "\<exists>e \<in> set (kept es). readable e \<and> x = event_log e" if "x \<in> set ?n" for x
    using nsub [OF that] answer_ids(1,2) [OF m len, of _ g] unfolding L(1) by fastforce
  have src: "\<exists>e \<in> set es. readable e \<and> l = viewer_log fmt (event_log e)" if "l \<in> set (vw_logs v)" for l
    using that ok src_new kept_sub(1) [of es] unfolding logs by fastforce
  have "page_ok fmt es (pg\<lparr>pg_logIdRange := rg, pg_viewer := v\<rparr>)"
    using vok rg low src all by (simp add: page_ok_def all_shown_def)
  moreover have "\<forall>l \<in> set (map (viewer_log fmt) ?n). \<exists>e \<in> set (kept es). l = viewer_log fmt (event_log e)"
    using src_new by fastforce
  ultimately show ?thesis using v(1) logs all by blast
qed

lemma task_newer:
  assumes m: "managed es em" and len: "int (length es) \<le> MAX_SAFE_INTEGER"
    and pg: "page_ok fmt es pg" and g: "request_ok pg g" and L: "L = map event_log (answer_events g es)"
  shows "\<exists>pg' new. task_newer_effect fmt (Some r) L pg = Inr pg' \<and> page_logs pg' = page_logs pg @ new
    \<and> (\<forall>l \<in> set new. \<exists>e \<in> set (kept es). l = viewer_log fmt (event_log e))
    \<and> page_ok fmt es pg' \<and> all_shown fmt es pg' \<and> lr_max (pg_logIdRange pg) \<le> lr_max (pg_logIdRange pg')"
proof (cases "L \<noteq> [] \<and> lr_max (pg_logIdRange pg) < log_id (last L)")
  case True
  let ?rg = "\<lparr>lr_max = max (lr_max (pg_logIdRange pg)) (log_id (last L)), lr_min = min (lr_min (pg_logIdRange pg)) (log_id (hd L))\<rparr>"
  obtain v new where "addLogs fmt task_viewer_props (Some r) L False (pg_viewer pg) = Inr v" "vw_logs v = page_logs pg @ new"
    "\<forall>l \<in> set new. \<exists>e \<in> set (kept es). l = viewer_log fmt (event_log e)"
    "page_ok fmt es (pg\<lparr>pg_logIdRange := ?rg, pg_viewer := v\<rparr>)" "all_shown fmt es (pg\<lparr>pg_logIdRange := ?rg, pg_viewer := v\<rparr>)"
    using page_added [OF m len pg g _ L, of False task_viewer_props r] True by blast
  then show ?thesis using True
    by (intro exI [of _ "pg\<lparr>pg_logIdRange := ?rg, pg_viewer := v\<rparr>"] exI [of _ new])
      (simp add: task_newer_effect_def newer_effect_def Let_def)
next
  case False
  then have same: "task_newer_effect fmt (Some r) L pg = Inr pg"
    by (auto simp: task_newer_effect_def newer_effect_def Let_def)
  have "viewer_log fmt (event_log e) \<in> set (page_logs pg)" if e: "e \<in> set (kept es)" "readable e" for e
  proof (cases "e \<in> set (answer_events g es)")
    case True
    then have "event_log e \<in> set L" by (simp add: L)
    then have "ev_Seq e \<le> lr_max (pg_logIdRange pg)"
      using sorted_bounds [of L "event_log e"] answer_sorted [OF m, of g] False L by fastforce
    then show ?thesis using pg e by (simp add: page_ok_def)
  next
    case False
    then show ?thesis using not_answered [OF pg g e] by blast
  qed
  then show ?thesis using same pg by (auto simp: all_shown_def)
qed

lemma task_older:
  assumes m: "managed es em" and len: "int (length es) \<le> MAX_SAFE_INTEGER"
    and pg: "page_ok fmt es pg" and g: "page_logs pg = [] \<longrightarrow> g = None" and L: "L = map event_log (answer_events g es)"
  shows "\<exists>pg' new. task_older_effect fmt (Some r) L pg = Inr pg' \<and> page_logs pg' = page_logs pg @ new
    \<and> (\<forall>l \<in> set new. \<exists>e \<in> set (kept es). l = viewer_log fmt (event_log e))
    \<and> page_ok fmt es pg' \<and> lr_max (pg_logIdRange pg) \<le> lr_max (pg_logIdRange pg') \<and> (page_logs pg \<noteq> [] \<longrightarrow> pg' = pg)"
proof (cases "L \<noteq> [] \<and> page_logs pg = []")
  case True
  have rg: "pg_logIdRange pg = noRange" using pg True by (simp add: page_ok_def viewer_ok_def)
  have ids: "0 \<le> log_id l" "log_id l < MAX_SAFE_INTEGER" if "l \<in> set L" for l
    using answer_ids(3,4) [OF m len, of _ g] that by (auto simp: L)
  let ?rg = "\<lparr>lr_max = max (lr_max (pg_logIdRange pg)) (log_id (last L)), lr_min = min (lr_min (pg_logIdRange pg)) (log_id (hd L))\<rparr>"
  have "lr_max (pg_logIdRange pg) < log_id (last L)" "\<not> lr_min (pg_logIdRange pg) \<le> log_id (hd L)"
    using True ids [of "last L"] ids [of "hd L"] by (auto simp: rg noRange_def MIN_SAFE_INTEGER_def)
  moreover have "request_ok pg g" using g True by (simp add: request_ok_def)
  moreover note True
  ultimately obtain v new where "addLogs fmt task_viewer_props (Some r) L True (pg_viewer pg) = Inr v" "vw_logs v = page_logs pg @ new"
    "\<forall>l \<in> set new. \<exists>e \<in> set (kept es). l = viewer_log fmt (event_log e)"
    "page_ok fmt es (pg\<lparr>pg_logIdRange := ?rg, pg_viewer := v\<rparr>)"
    using page_added [OF m len pg _ _ L, of True task_viewer_props r] by blast
  then show ?thesis using True \<open>\<not> lr_min (pg_logIdRange pg) \<le> log_id (hd L)\<close>
    by (intro exI [of _ "pg\<lparr>pg_logIdRange := ?rg, pg_viewer := v\<rparr>"] exI [of _ new])
      (simp add: task_older_effect_def older_effect_def Let_def)
next
  case False
  have "lr_min (pg_logIdRange pg) \<le> log_id (hd L)" if "L \<noteq> []"
    using that False hd_in_set [OF that] answer_ids(1,2) [OF m len, of _ g] pg by (auto simp: page_ok_def L)
  then have "task_older_effect fmt (Some r) L pg = Inr pg"
    by (cases "L = []") (simp_all add: task_older_effect_def older_effect_def Let_def)
  then show ?thesis using pg by simp
qed

lemma page_ok_told:
  assumes "page_ok fmt es pg" "managed es em" "managed (es @ [e]) em'"
  shows "page_ok fmt (es @ [e]) pg"
proof -
  have sub: "set (kept (es @ [e])) \<subseteq> insert e (set (kept es))"
    using list.set_sel(2) [of "kept es"] by (cases "kept es") (auto simp: kept_snoc split: if_splits)
  have "ev_Seq e = int (length es)" using managed_ring [OF assms(3)] by simp
  moreover have "log_id l < int (length es)" if "l \<in> set (page_logs pg)" for l
    using assms(1) that managed_kept(3) [OF assms(2)] managed_ring [OF assms(2)] by (fastforce simp: page_ok_def)
  moreover have "lr_max (pg_logIdRange pg) = log_id (last (page_logs pg)) \<and> lr_min (pg_logIdRange pg) = log_id (hd (page_logs pg))"
    if "page_logs pg \<noteq> []" using assms(1) that by (simp add: page_ok_def viewer_ok_def)
  moreover have "lr_max (pg_logIdRange pg) = MIN_SAFE_INTEGER" if "page_logs pg = []"
    using assms(1) that by (simp add: page_ok_def viewer_ok_def noRange_def)
  ultimately have "lr_max (pg_logIdRange pg) < ev_Seq e" "page_logs pg \<noteq> [] \<Longrightarrow> lr_min (pg_logIdRange pg) \<le> ev_Seq e"
    by (cases "page_logs pg = []"; force simp: MIN_SAFE_INTEGER_def less_imp_le)+
  moreover have "x = e \<or> x \<in> set (kept es)" if "x \<in> set (kept (es @ [e]))" for x using sub that by blast
  ultimately show ?thesis using assms(1) unfolding page_ok_def by (simp, metis not_le)
qed

section \<open>Every order of events\<close>

definition task_world_ok :: "(string \<Rightarrow> string \<Rightarrow> string) \<Rightarrow> nat \<Rightarrow> Event list \<Rightarrow> TaskLogsWorld \<Rightarrow> bool" where
  "task_world_ok fmt first es w \<longleftrightarrow> managed es (tw_em w) \<and> int (length es) \<le> MAX_SAFE_INTEGER
     \<and> first \<le> length es - defaultEventBufferSize
     \<and> page_ok fmt es (tw_page w) \<and> (\<forall>l \<in> set (page_logs (tw_page w)). int first \<le> log_id l)
     \<and> (\<forall>p. tw_older w = Some p \<longrightarrow> lp_tail p = Some TAIL_SIZE \<and> (page_logs (tw_page w) = [] \<longrightarrow> lp_greaterThanId p = None))
     \<and> (\<forall>p. tw_newer w = Some p \<longrightarrow> lp_tail p = Some TAIL_SIZE \<and> request_ok (tw_page w) (lp_greaterThanId p))"

lemma page_ok_cong:
  "pg_viewer pg' = pg_viewer pg \<Longrightarrow> pg_logIdRange pg' = pg_logIdRange pg \<Longrightarrow> page_ok fmt es pg' = page_ok fmt es pg"
  by (simp add: page_ok_def)

lemma new_after_first:
  assumes "task_world_ok fmt first es w" "\<forall>l \<in> set new. \<exists>e \<in> set (kept es). l = viewer_log fmt (event_log e)"
  shows "\<forall>l \<in> set (page_logs (tw_page w) @ new). int first \<le> log_id l"
proof -
  have "int first \<le> ev_Seq e" if "e \<in> set (kept es)" for e
    using kept_low [OF _ that, of "tw_em w"] assms(1) by (auto simp: task_world_ok_def)
  then show ?thesis using assms by (auto simp: task_world_ok_def)
qed

lemma world_older_answered:
  assumes "io_ts dec" and w: "task_world_ok fmt first es w" and p: "tw_older w = Some params"
  shows "\<exists>logs pg new. load_task_logs dec (tw_em w) params = Inr logs \<and> task_older_effect fmt (Some r) logs (tw_page w) = Inr pg
    \<and> page_logs pg = page_logs (tw_page w) @ new
    \<and> task_world_ok fmt first es (w\<lparr>tw_page := pg, tw_older := None\<rparr>) \<and> (page_logs (tw_page w) \<noteq> [] \<longrightarrow> pg = tw_page w)"
proof -
  note ok = w [unfolded task_world_ok_def]
  let ?L = "map event_log (answer_events (lp_greaterThanId params) es)"
  have load: "load_task_logs dec (tw_em w) params = Inr ?L" using load_answer [OF assms(1)] ok p by blast
  obtain pg new where "task_older_effect fmt (Some r) ?L (tw_page w) = Inr pg" and e: "page_logs pg = page_logs (tw_page w) @ new"
    "\<forall>l \<in> set new. \<exists>e \<in> set (kept es). l = viewer_log fmt (event_log e)"
    "page_ok fmt es pg" "lr_max (pg_logIdRange (tw_page w)) \<le> lr_max (pg_logIdRange pg)" "page_logs (tw_page w) \<noteq> [] \<longrightarrow> pg = tw_page w"
    using task_older [of es "tw_em w" fmt "tw_page w" "lp_greaterThanId params" ?L r] ok p by blast
  moreover have "task_world_ok fmt first es (w\<lparr>tw_page := pg, tw_older := None\<rparr>)"
    using ok e new_after_first [OF w e(2)] by (force simp: task_world_ok_def request_ok_def)
  ultimately show ?thesis using load by blast
qed

lemma world_newer_answered:
  assumes "io_ts dec" and w: "task_world_ok fmt first es w" and p: "tw_newer w = Some params"
  shows "\<exists>logs pg new. load_task_logs dec (tw_em w) params = Inr logs \<and> task_newer_effect fmt (Some r) logs (tw_page w) = Inr pg
    \<and> page_logs pg = page_logs (tw_page w) @ new
    \<and> task_world_ok fmt first es (w\<lparr>tw_page := pg, tw_newer := None\<rparr>) \<and> all_shown fmt es pg"
proof -
  note ok = w [unfolded task_world_ok_def]
  let ?L = "map event_log (answer_events (lp_greaterThanId params) es)"
  have load: "load_task_logs dec (tw_em w) params = Inr ?L" using load_answer [OF assms(1)] ok p by blast
  obtain pg new where "task_newer_effect fmt (Some r) ?L (tw_page w) = Inr pg" and e: "page_logs pg = page_logs (tw_page w) @ new"
    "\<forall>l \<in> set new. \<exists>e \<in> set (kept es). l = viewer_log fmt (event_log e)"
    "page_ok fmt es pg" "all_shown fmt es pg"
    using task_newer [of es "tw_em w" fmt "tw_page w" "lp_greaterThanId params" ?L r] ok p by blast
  moreover have "task_world_ok fmt first es (w\<lparr>tw_page := pg, tw_newer := None\<rparr>)"
    using ok e new_after_first [OF w e(2)] by (force simp: task_world_ok_def)
  ultimately show ?thesis using load by blast
qed

lemma task_world_step:
  assumes "io_ts dec" and w: "task_world_ok fmt first es w"
    and "task_logs_step dec fmt (task_baseParams taskId taskType) r w w'"
  shows "\<exists>fs new. task_world_ok fmt first (es @ fs) w' \<and> page_logs (tw_page w') = page_logs (tw_page w) @ new"
proof -
  note ok = w [unfolded task_world_ok_def]
  have same: "task_world_ok fmt first es w' \<Longrightarrow> page_logs (tw_page w') = page_logs (tw_page w) @ new \<Longrightarrow> ?thesis" for new
    by (rule exI [of _ "[]"], rule exI [of _ new]) simp
  from assms(3) show ?thesis
  proof (cases rule: task_logs_step.cases)
    case (told parent uuid now e)
    let ?e = "stamp_event parent uuid now e (tw_em w)"
    have m: "managed (es @ [?e]) (tw_em w')" using managed.received [of es "tw_em w"] ok told(1) by simp
    moreover have "page_ok fmt (es @ [?e]) (tw_page w)" using page_ok_told [OF _ _ m] ok by blast
    moreover have "int (length es) < MAX_SAFE_INTEGER" using told(2) managed_ring [of es "tw_em w"] ok by simp
    ultimately have "task_world_ok fmt first (es @ [?e]) w'" using ok told(1)
      by (simp add: task_world_ok_def, simp add: defaultEventBufferSize_def)
    then show ?thesis using told(1) by (intro exI [of _ "[?e]"] exI [of _ "[]"]) simp
  next
    case (scrolled previous scroll oldest request pg)
    have ne: "page_logs (tw_page w) \<noteq> []" using scrolled(2) by (auto simp: scrollToTop_effect_def)
    have pg: "pg_viewer pg = pg_viewer (tw_page w)" "pg_logIdRange pg = pg_logIdRange (tw_page w)"
      and req: "\<forall>p. request = Some p \<longrightarrow> lp_tail p = Some TAIL_SIZE"
      using scrolled(3) by (auto simp: task_fetchOlderLogs_def task_baseParams_def Let_def split: if_splits)
    then have "page_ok fmt es pg" using ok page_ok_cong by blast
    then have "task_world_ok fmt first es w'"
      using ok pg req ne scrolled(1) by (auto simp: task_world_ok_def request_ok_def split: option.splits)
    then show ?thesis using same [of "[]"] scrolled(1) pg by simp
  next
    case polled
    have "lr_max (pg_logIdRange (tw_page w)) < 0" if "page_logs (tw_page w) = []"
      using ok that by (simp add: page_ok_def viewer_ok_def noRange_def MIN_SAFE_INTEGER_def)
    then have "task_world_ok fmt first es w'"
      using ok polled by (auto simp: task_world_ok_def task_fetchNewerLogs_def task_baseParams_def request_ok_def split: if_splits)
    then show ?thesis using same [of "[]"] polled by simp
  next
    case (older_loaded params logs pg)
    then show ?thesis using world_older_answered [OF assms(1) w older_loaded(2), of r] same by auto
  next
    case (newer_loaded params logs pg)
    then show ?thesis using world_newer_answered [OF assms(1) w newer_loaded(2), of r] same by auto
  next
    case older_failed
    then have "task_world_ok fmt first es w'" using ok by (simp add: task_world_ok_def)
    then show ?thesis using same [of "[]"] older_failed by simp
  next
    case newer_failed
    then have "task_world_ok fmt first es w'" using ok by (simp add: task_world_ok_def)
    then show ?thesis using same [of "[]"] newer_failed by simp
  qed
qed

lemma open_task_world:
  assumes "managed es em" "int (length es) \<le> MAX_SAFE_INTEGER"
  shows "task_world_ok fmt (length es - defaultEventBufferSize) es (open_task_logs taskId taskType em)"
proof -
  have "0 \<le> ev_Seq e" if "e \<in> set (kept es)" for e
    using that managed_kept(3) [OF assms(1)] kept_sub(1) [of es] by blast
  then have "page_ok fmt es mount_page"
    by (fastforce simp: page_ok_def mount_page_def mount_viewer_def viewer_ok_def noRange_def MIN_SAFE_INTEGER_def)
  then show ?thesis using assms
    by (simp add: task_world_ok_def open_task_logs_def task_baseParams_def request_ok_def mount_page_def mount_viewer_def)
qed

lemma task_world_run:
  assumes "task_logs_run dec fmt (task_baseParams taskId taskType) r w0 w" "io_ts dec" "task_world_ok fmt first es w0"
  shows "\<exists>fs. task_world_ok fmt first (es @ fs) w"
  using assms(1)
proof (induction rule: task_logs_run.induct)
  case task_logs_start
  show ?case using assms(3) by (intro exI [of _ "[]"]) simp
next
  case (task_logs_more w w')
  then obtain fs where "task_world_ok fmt first (es @ fs) w" by blast
  from task_world_step [OF assms(2) this task_logs_more.hyps(2)] show ?case by (metis append_assoc)
qed

section \<open>Properties\<close>

text \<open>
  C6: The page of a task's logs follows the task's events.  In whatever order events arrive, the page asks, answers come
  or are lost and the user scrolls, what the page shows are events of the task with something to read, each once, in
  order and with its own text.  An answer to a request for newer logs, the initial one or one of the polling, keeps what
  is shown and leaves shown every such event that the master's buffer still holds.  An answer to a request for older logs
  changes nothing once something is shown: the master keeps 200 events, fewer than the thousand that the page asks
  for, so an event that had left the buffer when the page was opened is never shown.
\<close>

theorem task_logs_follow:
  assumes "io_ts dec" and "managed es em" and "int (length es) \<le> MAX_SAFE_INTEGER"
    and "task_logs_run dec fmt (task_baseParams taskId taskType) r (open_task_logs taskId taskType em) w"
  shows "\<exists>fs. managed (es @ fs) (tw_em w)
    \<and> sorted_wrt (<) (map log_id (page_logs (tw_page w)))
    \<and> (\<forall>l \<in> set (page_logs (tw_page w)). int (length es) - 200 \<le> log_id l
        \<and> (\<exists>e \<in> set (es @ fs). readable e \<and> l = viewer_log fmt (event_log e)))
    \<and> (\<forall>params. tw_newer w = Some params \<longrightarrow>
        (\<exists>logs pg new. load_task_logs dec (tw_em w) params = Inr logs \<and> task_newer_effect fmt (Some r) logs (tw_page w) = Inr pg
          \<and> page_logs pg = page_logs (tw_page w) @ new
          \<and> (\<forall>e. Some e \<in> set (em_buffer (tw_em w)) \<and> readable e \<longrightarrow> viewer_log fmt (event_log e) \<in> set (page_logs pg))))
    \<and> (\<forall>params. tw_older w = Some params \<and> page_logs (tw_page w) \<noteq> [] \<longrightarrow>
        (\<exists>logs. load_task_logs dec (tw_em w) params = Inr logs \<and> task_older_effect fmt (Some r) logs (tw_page w) = Inr (tw_page w)))"
proof -
  obtain fs where w: "task_world_ok fmt (length es - defaultEventBufferSize) (es @ fs) w"
    using task_world_run [OF assms(4,1) open_task_world [OF assms(2,3)]] by blast
  note ok = w [unfolded task_world_ok_def page_ok_def]
  then have m: "managed (es @ fs) (tw_em w)" by blast
  have s: "sorted_wrt (<) (map log_id (page_logs (tw_page w)))" using ok by (simp add: viewer_ok_def)
  have l: "\<forall>l \<in> set (page_logs (tw_page w)). int (length es) - 200 \<le> log_id l
      \<and> (\<exists>e \<in> set (es @ fs). readable e \<and> l = viewer_log fmt (event_log e))"
    using ok by (force simp: defaultEventBufferSize_def)
  have n: "\<exists>logs pg new. load_task_logs dec (tw_em w) params = Inr logs \<and> task_newer_effect fmt (Some r) logs (tw_page w) = Inr pg
      \<and> page_logs pg = page_logs (tw_page w) @ new
      \<and> (\<forall>e. Some e \<in> set (em_buffer (tw_em w)) \<and> readable e \<longrightarrow> viewer_log fmt (event_log e) \<in> set (page_logs pg))"
    if "tw_newer w = Some params" for params
    using world_newer_answered [OF assms(1) w that, of r] managed_kept(4) [OF m] by (fastforce simp: all_shown_def)
  have o: "\<exists>logs. load_task_logs dec (tw_em w) params = Inr logs \<and> task_older_effect fmt (Some r) logs (tw_page w) = Inr (tw_page w)"
    if "tw_older w = Some params" "page_logs (tw_page w) \<noteq> []" for params
    using world_older_answered [OF assms(1) w that(1), of r] that(2) by blast
  show ?thesis
    by (rule exI [of _ fs], intro conjI allI impI m s l n o; (elim conjE)?; assumption)
qed

definition sample_event :: Event where
  "sample_event = \<lparr>ev_Snapshot = ''nb'', ev_ParentID = [], ev_ID = [], ev_Seq = 0, ev_Time = [], ev_kind = ScheduledEvent ''t1''\<rparr>"

definition sample_manager :: EventManager where
  "sample_manager = receive_event ''p'' ''u'' ''now'' sample_event newEventManager"

lemma sample_managed: "managed [stamp_event ''p'' ''u'' ''now'' sample_event newEventManager] sample_manager"
  using managed.received [OF managed.new_manager, of "''p''" "''u''" "''now''" sample_event] by (simp add: sample_manager_def)

theorem task_logs_follow_witness:
  "\<exists>logs pg. load_task_logs io_decode sample_manager (task_baseParams ''t1'' CommandType_Notebook) = Inr logs
     \<and> task_newer_effect (\<lambda>t _. t) (Some sample_rects) logs mount_page = Inr pg
     \<and> (0, ''Scheduling p (id: nb)...'') \<in> (\<lambda>l. (log_id l, log_message l)) ` set (page_logs pg)"
proof -
  let ?w = "open_task_logs ''t1'' CommandType_Notebook sample_manager"
  let ?e = "stamp_event ''p'' ''u'' ''now'' sample_event newEventManager"
  have "Some ?e \<in> set (em_buffer sample_manager)" "readable ?e"
    using managed_kept(4) [OF sample_managed] by (simp_all add: kept_def defaultEventBufferSize_def stamp_event_def sample_event_def)
  then obtain logs pg where "load_task_logs io_decode sample_manager (task_baseParams ''t1'' CommandType_Notebook) = Inr logs"
    "task_newer_effect (\<lambda>t _. t) (Some sample_rects) logs mount_page = Inr pg"
    "viewer_log (\<lambda>t _. t) (event_log ?e) \<in> set (page_logs pg)"
    using task_logs_follow [OF io.io_ts_axioms sample_managed _ task_logs_start,
        where fmt = "\<lambda>t _. t" and taskId = "''t1''" and taskType = CommandType_Notebook and r = sample_rects]
    by (fastforce simp: open_task_logs_def MAX_SAFE_INTEGER_def)
  moreover have "(log_id (viewer_log (\<lambda>t _. t) (event_log ?e)), log_message (viewer_log (\<lambda>t _. t) (event_log ?e))) = (0, ''Scheduling p (id: nb)...'')"
    by (simp add: stamp_event_def sample_event_def event_log_def newEventManager_def)
  ultimately show ?thesis by (metis (no_types, lifting) image_eqI)
qed

end
