(* ===== verification/Api_Calls.thy ===== *)
theory Api_Calls
  imports Requests
begin

text \<open>
  The functions that the rest of the WebUI calls (\<^verbatim>\<open>services/api.ts\<close>): each is the entry of the request table given to
  one of the two generators of \<^verbatim>\<open>services/utils.ts\<close>.  The lemmas state which request each call puts on the wire,
  whatever the network answers, and that the calls of the generated client meet the contract \<open>request_call\<close>.
\<close>

section \<open>Calls\<close>

definition api_login ::
  "(codec \<Rightarrow> js \<Rightarrow> js + js) \<Rightarrow> (string \<Rightarrow> string) \<Rightarrow> 's Store \<Rightarrow> (js \<Rightarrow> bool) \<Rightarrow> (nat \<Rightarrow> Request \<Rightarrow> js + js) \<Rightarrow> js
    \<Rightarrow> Credentials \<Rightarrow> 's Web \<Rightarrow> (failure + LoginResponse) \<times> 's Web" where
  "api_login dec sha512 ops isCancel net = generateApi ops isCancel net (login dec sha512)"

definition api_logout ::
  "(js \<Rightarrow> bool) \<Rightarrow> (nat \<Rightarrow> Request \<Rightarrow> js + unit)
    \<Rightarrow> unit \<Rightarrow> 's Web \<Rightarrow> (failure + unit) \<times> 's Web" where
  "api_logout isCancel net = generateDetApi isCancel net logout"

definition api_getCurrentUser ::
  "(js \<Rightarrow> bool) \<Rightarrow> (nat \<Rightarrow> Request \<Rightarrow> js + V1User)
    \<Rightarrow> js \<Rightarrow> 's Web \<Rightarrow> (failure + DetailedUser) \<times> 's Web" where
  "api_getCurrentUser isCancel net = generateDetApi isCancel net getCurrentUser"

definition api_getUsers ::
  "(codec \<Rightarrow> js \<Rightarrow> js + js) \<Rightarrow> 's Store \<Rightarrow> (js \<Rightarrow> bool) \<Rightarrow> (nat \<Rightarrow> Request \<Rightarrow> js + js) \<Rightarrow> js
    \<Rightarrow> unit \<Rightarrow> 's Web \<Rightarrow> (failure + ListedUser list) \<times> 's Web" where
  "api_getUsers dec ops isCancel net = generateApi ops isCancel net (getUsers dec)"

definition api_getInfo ::
  "(js \<Rightarrow> bool) \<Rightarrow> (nat \<Rightarrow> Request \<Rightarrow> js + V1GetMasterResponse)
    \<Rightarrow> unit \<Rightarrow> 's Web \<Rightarrow> (failure + DeterminedInfo) \<times> 's Web" where
  "api_getInfo isCancel net = generateDetApi isCancel net getInfo"

definition api_getTelemetry ::
  "(js \<Rightarrow> bool) \<Rightarrow> (nat \<Rightarrow> Request \<Rightarrow> js + Telemetry)
    \<Rightarrow> unit \<Rightarrow> 's Web \<Rightarrow> (failure + Telemetry) \<times> 's Web" where
  "api_getTelemetry isCancel net = generateDetApi isCancel net getTelemetry"

definition api_getAgents ::
  "(string \<Rightarrow> number) \<Rightarrow> (js \<Rightarrow> bool) \<Rightarrow> (nat \<Rightarrow> Request \<Rightarrow> js + V1Agent list option)
    \<Rightarrow> unit \<Rightarrow> 's Web \<Rightarrow> (failure + Agent list) \<times> 's Web" where
  "api_getAgents dayjs_unix isCancel net = generateDetApi isCancel net (getAgents dayjs_unix)"

definition api_getExperiments ::
  "(js \<Rightarrow> bool) \<Rightarrow> (nat \<Rightarrow> Request \<Rightarrow> js + V1Experiment list option)
    \<Rightarrow> GetExperimentsParams \<Rightarrow> 's Web \<Rightarrow> (failure + V1Experiment list) \<times> 's Web" where
  "api_getExperiments isCancel net = generateDetApi isCancel net getExperiments"

definition api_getExperimentDetails ::
  "(codec \<Rightarrow> js \<Rightarrow> js + js) \<Rightarrow> (js \<Rightarrow> bool) \<Rightarrow> (nat \<Rightarrow> Request \<Rightarrow> js + V1Experiment \<times> js)
    \<Rightarrow> int \<Rightarrow> 's Web \<Rightarrow> (failure + ExperimentBase) \<times> 's Web" where
  "api_getExperimentDetails dec isCancel net = generateDetApi isCancel net (getExperimentDetails dec)"

definition api_getExpTrials ::
  "(js \<Rightarrow> bool) \<Rightarrow> (nat \<Rightarrow> Request \<Rightarrow> js + Trialv1Trial list)
    \<Rightarrow> GetTrialsParams \<Rightarrow> 's Web \<Rightarrow> (failure + TrialDetails list) \<times> 's Web" where
  "api_getExpTrials isCancel net = generateDetApi isCancel net getExpTrials"

definition api_getExpValidationHistory ::
  "(js \<Rightarrow> bool) \<Rightarrow> (nat \<Rightarrow> Request \<Rightarrow> js + V1ValidationHistoryEntry list option)
    \<Rightarrow> int \<Rightarrow> 's Web \<Rightarrow> (failure + ValidationHistory list) \<times> 's Web" where
  "api_getExpValidationHistory isCancel net = generateDetApi isCancel net getExpValidationHistory"

definition api_getTrialDetails ::
  "(js \<Rightarrow> bool) \<Rightarrow> (nat \<Rightarrow> Request \<Rightarrow> js + V1GetTrialResponse)
    \<Rightarrow> int \<Rightarrow> 's Web \<Rightarrow> (failure + TrialDetails) \<times> 's Web" where
  "api_getTrialDetails isCancel net = generateDetApi isCancel net getTrialDetails"

definition api_createExperiment ::
  "(codec \<Rightarrow> js \<Rightarrow> js + js) \<Rightarrow> (js \<Rightarrow> bool) \<Rightarrow> (nat \<Rightarrow> Request \<Rightarrow> js + V1Experiment \<times> js)
    \<Rightarrow> string \<times> int \<Rightarrow> 's Web \<Rightarrow> (failure + ExperimentBase) \<times> 's Web" where
  "api_createExperiment dec isCancel net = generateDetApi isCancel net (createExperiment dec)"

definition api_archiveExperiment ::
  "(js \<Rightarrow> bool) \<Rightarrow> (nat \<Rightarrow> Request \<Rightarrow> js + unit)
    \<Rightarrow> int \<Rightarrow> 's Web \<Rightarrow> (failure + unit) \<times> 's Web" where
  "api_archiveExperiment isCancel net = generateDetApi isCancel net archiveExperiment"

definition api_unarchiveExperiment ::
  "(js \<Rightarrow> bool) \<Rightarrow> (nat \<Rightarrow> Request \<Rightarrow> js + unit)
    \<Rightarrow> int \<Rightarrow> 's Web \<Rightarrow> (failure + unit) \<times> 's Web" where
  "api_unarchiveExperiment isCancel net = generateDetApi isCancel net unarchiveExperiment"

definition api_activateExperiment ::
  "(js \<Rightarrow> bool) \<Rightarrow> (nat \<Rightarrow> Request \<Rightarrow> js + unit)
    \<Rightarrow> int \<Rightarrow> 's Web \<Rightarrow> (failure + unit) \<times> 's Web" where
  "api_activateExperiment isCancel net = generateDetApi isCancel net activateExperiment"

definition api_pauseExperiment ::
  "(js \<Rightarrow> bool) \<Rightarrow> (nat \<Rightarrow> Request \<Rightarrow> js + unit)
    \<Rightarrow> int \<Rightarrow> 's Web \<Rightarrow> (failure + unit) \<times> 's Web" where
  "api_pauseExperiment isCancel net = generateDetApi isCancel net pauseExperiment"

definition api_cancelExperiment ::
  "(js \<Rightarrow> bool) \<Rightarrow> (nat \<Rightarrow> Request \<Rightarrow> js + unit)
    \<Rightarrow> int \<Rightarrow> 's Web \<Rightarrow> (failure + unit) \<times> 's Web" where
  "api_cancelExperiment isCancel net = generateDetApi isCancel net cancelExperiment"

definition api_killExperiment ::
  "(js \<Rightarrow> bool) \<Rightarrow> (nat \<Rightarrow> Request \<Rightarrow> js + unit)
    \<Rightarrow> int \<Rightarrow> 's Web \<Rightarrow> (failure + unit) \<times> 's Web" where
  "api_killExperiment isCancel net = generateDetApi isCancel net killExperiment"

definition api_patchExperiment ::
  "(js \<Rightarrow> bool) \<Rightarrow> (nat \<Rightarrow> Request \<Rightarrow> js + unit)
    \<Rightarrow> int \<times> js \<Rightarrow> 's Web \<Rightarrow> (failure + unit) \<times> 's Web" where
  "api_patchExperiment isCancel net = generateDetApi isCancel net patchExperiment"

definition api_getExperimentLabels ::
  "(js \<Rightarrow> bool) \<Rightarrow> (nat \<Rightarrow> Request \<Rightarrow> js + string list option)
    \<Rightarrow> js \<Rightarrow> 's Web \<Rightarrow> (failure + string list) \<times> 's Web" where
  "api_getExperimentLabels isCancel net = generateDetApi isCancel net getExperimentLabels"

definition api_getCommands ::
  "(codec \<Rightarrow> js \<Rightarrow> js + js) \<Rightarrow> 's Store \<Rightarrow> (js \<Rightarrow> bool) \<Rightarrow> (nat \<Rightarrow> Request \<Rightarrow> js + js) \<Rightarrow> js
    \<Rightarrow> unit \<Rightarrow> 's Web \<Rightarrow> (failure + Command list) \<times> 's Web" where
  "api_getCommands dec ops isCancel net = generateApi ops isCancel net (getCommands dec)"

definition api_getNotebooks ::
  "(codec \<Rightarrow> js \<Rightarrow> js + js) \<Rightarrow> 's Store \<Rightarrow> (js \<Rightarrow> bool) \<Rightarrow> (nat \<Rightarrow> Request \<Rightarrow> js + js) \<Rightarrow> js
    \<Rightarrow> unit \<Rightarrow> 's Web \<Rightarrow> (failure + Command list) \<times> 's Web" where
  "api_getNotebooks dec ops isCancel net = generateApi ops isCancel net (getNotebooks dec)"

definition api_getShells ::
  "(codec \<Rightarrow> js \<Rightarrow> js + js) \<Rightarrow> 's Store \<Rightarrow> (js \<Rightarrow> bool) \<Rightarrow> (nat \<Rightarrow> Request \<Rightarrow> js + js) \<Rightarrow> js
    \<Rightarrow> unit \<Rightarrow> 's Web \<Rightarrow> (failure + Command list) \<times> 's Web" where
  "api_getShells dec ops isCancel net = generateApi ops isCancel net (getShells dec)"

definition api_getTensorboards ::
  "(codec \<Rightarrow> js \<Rightarrow> js + js) \<Rightarrow> 's Store \<Rightarrow> (js \<Rightarrow> bool) \<Rightarrow> (nat \<Rightarrow> Request \<Rightarrow> js + js) \<Rightarrow> js
    \<Rightarrow> unit \<Rightarrow> 's Web \<Rightarrow> (failure + Command list) \<times> 's Web" where
  "api_getTensorboards dec ops isCancel net = generateApi ops isCancel net (getTensorboards dec)"

definition api_killCommand ::
  "(js \<Rightarrow> bool) \<Rightarrow> (nat \<Rightarrow> Request \<Rightarrow> js + unit)
    \<Rightarrow> string \<Rightarrow> 's Web \<Rightarrow> (failure + unit) \<times> 's Web" where
  "api_killCommand isCancel net = generateDetApi isCancel net killCommand"

definition api_killNotebook ::
  "(js \<Rightarrow> bool) \<Rightarrow> (nat \<Rightarrow> Request \<Rightarrow> js + unit)
    \<Rightarrow> string \<Rightarrow> 's Web \<Rightarrow> (failure + unit) \<times> 's Web" where
  "api_killNotebook isCancel net = generateDetApi isCancel net killNotebook"

definition api_killShell ::
  "(js \<Rightarrow> bool) \<Rightarrow> (nat \<Rightarrow> Request \<Rightarrow> js + unit)
    \<Rightarrow> string \<Rightarrow> 's Web \<Rightarrow> (failure + unit) \<times> 's Web" where
  "api_killShell isCancel net = generateDetApi isCancel net killShell"

definition api_killTensorboard ::
  "(js \<Rightarrow> bool) \<Rightarrow> (nat \<Rightarrow> Request \<Rightarrow> js + unit)
    \<Rightarrow> string \<Rightarrow> 's Web \<Rightarrow> (failure + unit) \<times> 's Web" where
  "api_killTensorboard isCancel net = generateDetApi isCancel net killTensorboard"

definition api_createNotebook ::
  "(codec \<Rightarrow> js \<Rightarrow> js + js) \<Rightarrow> 's Store \<Rightarrow> (js \<Rightarrow> bool) \<Rightarrow> (nat \<Rightarrow> Request \<Rightarrow> js + js) \<Rightarrow> js
    \<Rightarrow> int \<Rightarrow> 's Web \<Rightarrow> (failure + Command) \<times> 's Web" where
  "api_createNotebook dec ops isCancel net = generateApi ops isCancel net (createNotebook dec)"

definition api_createTensorboard ::
  "(codec \<Rightarrow> js \<Rightarrow> js + js) \<Rightarrow> 's Store \<Rightarrow> (js \<Rightarrow> bool) \<Rightarrow> (nat \<Rightarrow> Request \<Rightarrow> js + js) \<Rightarrow> js
    \<Rightarrow> TBSource \<Rightarrow> 's Web \<Rightarrow> (failure + Command) \<times> 's Web" where
  "api_createTensorboard dec ops isCancel net = generateApi ops isCancel net (createTensorboard dec)"

definition api_getMasterLogs ::
  "(codec \<Rightarrow> js \<Rightarrow> js + js) \<Rightarrow> ((string \<times> int) list \<Rightarrow> string) \<Rightarrow> 's Store \<Rightarrow> (js \<Rightarrow> bool) \<Rightarrow> (nat \<Rightarrow> Request \<Rightarrow> js + js) \<Rightarrow> js
    \<Rightarrow> LogsParams \<Rightarrow> 's Web \<Rightarrow> (failure + Log list) \<times> 's Web" where
  "api_getMasterLogs dec qs ops isCancel net = generateApi ops isCancel net (getMasterLogs dec qs)"

definition api_getTaskLogs ::
  "(codec \<Rightarrow> js \<Rightarrow> js + js) \<Rightarrow> ((string \<times> int) list \<Rightarrow> string) \<Rightarrow> 's Store \<Rightarrow> (js \<Rightarrow> bool) \<Rightarrow> (nat \<Rightarrow> Request \<Rightarrow> js + js) \<Rightarrow> js
    \<Rightarrow> TaskLogsParams \<Rightarrow> 's Web \<Rightarrow> (failure + Log list) \<times> 's Web" where
  "api_getTaskLogs dec qs ops isCancel net = generateApi ops isCancel net (getTaskLogs dec qs)"

definition api_getTrialLogs ::
  "(codec \<Rightarrow> js \<Rightarrow> js + js) \<Rightarrow> ((string \<times> int) list \<Rightarrow> string) \<Rightarrow> 's Store \<Rightarrow> (js \<Rightarrow> bool) \<Rightarrow> (nat \<Rightarrow> Request \<Rightarrow> js + js) \<Rightarrow> js
    \<Rightarrow> TrialLogsParams \<Rightarrow> 's Web \<Rightarrow> (failure + Log list) \<times> 's Web" where
  "api_getTrialLogs dec qs ops isCancel net = generateApi ops isCancel net (getTrialLogs dec qs)"

lemmas http_calls = api_login_def api_getUsers_def api_getCommands_def api_getNotebooks_def api_getShells_def api_getTensorboards_def api_createNotebook_def api_createTensorboard_def api_getMasterLogs_def api_getTaskLogs_def api_getTrialLogs_def

lemmas sdk_calls = api_logout_def api_getCurrentUser_def api_getInfo_def api_getTelemetry_def api_getAgents_def api_getExperiments_def api_getExperimentDetails_def api_getExpTrials_def api_getExpValidationHistory_def api_getTrialDetails_def api_createExperiment_def api_archiveExperiment_def api_unarchiveExperiment_def api_activateExperiment_def api_pauseExperiment_def api_cancelExperiment_def api_killExperiment_def api_patchExperiment_def api_getExperimentLabels_def api_killCommand_def api_killNotebook_def api_killShell_def api_killTensorboard_def

lemmas http_table = login_def getUsers_def getCommands_def getNotebooks_def getShells_def getTensorboards_def createNotebook_def createTensorboard_def getMasterLogs_def getTaskLogs_def getTrialLogs_def

lemmas sdk_table = logout_def getCurrentUser_def getInfo_def getTelemetry_def getAgents_def getExperiments_def getExperimentDetails_def getExpTrials_def getExpValidationHistory_def getTrialDetails_def createExperiment_def archiveExperiment_def unarchiveExperiment_def activateExperiment_def pauseExperiment_def cancelExperiment_def killExperiment_def patchExperiment_def getExperimentLabels_def killCommand_def killNotebook_def killShell_def killTensorboard_def experiment_action_def

section \<open>What is sent\<close>

lemma http_sent:
  assumes "get_authToken ops (web_local w) = Inr tok" "\<not> ha_unAuthenticated api" "ha_stubbedResponse api = None"
    and "ha_httpOptions api p = opts" "ho_headers opts = []"
  shows "web_requests (snd (generateApi ops isCancel net api ct p w)) = web_requests w @ [HttpRequest ct (ho_body opts)
     [(''Authorization'', Str (''Bearer '' @ js_str tok))] (case ho_method opts of Some m \<Rightarrow> m | None \<Rightarrow> ''GET'')
     (serverAddress (web_env w) [] @ ho_url opts)]"
  using assms by (subst generateApi_requests [OF http_request_auth]) simp_all

text \<open>
  The requests of the old API.  With the token \<open>tok\<close> in the storage, each call but \<open>login\<close> sends one request, which carries
  the token, and \<open>login\<close> sends one without it; nothing else is sent, whatever the network answers.
\<close>

abbreviation old_request :: "'s Web \<Rightarrow> js \<Rightarrow> (string \<times> js) list \<Rightarrow> string \<Rightarrow> string \<Rightarrow> js \<Rightarrow> Request" where
  "old_request w ct headers method path body \<equiv> HttpRequest ct body headers method (serverAddress (web_env w) [] @ path)"

theorem old_api_requests:
  fixes w :: "'s Web"
  assumes "get_authToken ops (web_local w) = Inr tok"
  defines "auth \<equiv> [(''Authorization'', Str (''Bearer '' @ js_str tok))]"
  defines "logs \<equiv> \<lambda>path query. js_join ''?'' [path, query]"
  shows "web_requests (snd (api_login dec sha512 ops isCancel net ct creds w)) = web_requests w @ [old_request w ct [] ''POST'' ''/login?cookie=true''
        (Obj [(''password'', Str (saltAndHashPassword sha512 (cred_password creds))), (''username'', Str (cred_username creds))])]"
    and "web_requests (snd (api_getUsers dec ops isCancel net ct () w)) = web_requests w @ [old_request w ct auth ''GET'' ''/users'' Undefined]"
    and "web_requests (snd (api_getCommands dec ops isCancel net ct () w)) = web_requests w @ [old_request w ct auth ''GET'' ''/commands'' Undefined]"
    and "web_requests (snd (api_getNotebooks dec ops isCancel net ct () w)) = web_requests w @ [old_request w ct auth ''GET'' ''/notebooks'' Undefined]"
    and "web_requests (snd (api_getShells dec ops isCancel net ct () w)) = web_requests w @ [old_request w ct auth ''GET'' ''/shells'' Undefined]"
    and "web_requests (snd (api_getTensorboards dec ops isCancel net ct () w)) = web_requests w @ [old_request w ct auth ''GET'' ''/tensorboard'' Undefined]"
    and "web_requests (snd (api_createNotebook dec ops isCancel net ct slots w)) = web_requests w @ [old_request w ct auth ''POST'' ''/notebooks''
        (Obj [(''config'', Obj [(''resources'', Obj [(''slots'', js_int slots)])]), (''context'', Null)])]"
    and "web_requests (snd (api_createTensorboard dec ops isCancel net ct src w)) = web_requests w @ [old_request w ct auth ''POST'' ''/tensorboard''
        (Obj [(if src_type src = TBSourceType_Trial then ''trial_ids'' else ''experiment_ids'', Arr (map js_int (src_ids src)))])]"
    and "web_requests (snd (api_getMasterLogs dec qs ops isCancel net ct ml w)) = web_requests w
        @ [old_request w ct auth ''GET'' (logs ''/logs'' (buildQuery qs ml)) Undefined]"
    and "web_requests (snd (api_getTaskLogs dec qs ops isCancel net ct lp w)) = web_requests w
        @ [old_request w ct auth ''GET'' (logs (commandToEndpoint (tlp_taskType lp) @ ''/'' @ tlp_taskId lp @ ''/events'') (buildQuery qs lp)) Undefined]"
    and "web_requests (snd (api_getTrialLogs dec qs ops isCancel net ct rl w)) = web_requests w
        @ [old_request w ct auth ''GET'' (logs (''/experiments/'' @ show_int (rlp_experimentId rl) @ ''/trials/'' @ show_int (rlp_trialId rl)
            @ ''/logs'') (buildQuery qs rl)) Undefined]"
proof goal_cases
  case 1
  show ?case by (subst api_login_def, subst generateApi_requests)
    (simp_all add: http_request_def login_def http_api_def http_post_def Let_def)
qed (simp_all add: http_calls auth_def logs_def http_sent [OF assms(1)] http_table http_api_def http_get_def http_post_def Let_def)

text \<open>
  The requests of the generated client: one for each call, through the client that holds the current token, whatever the
  network answers.
\<close>

abbreviation sdk_request :: "'s Web \<Rightarrow> string \<Rightarrow> string \<Rightarrow> js list \<Rightarrow> Request" where
  "sdk_request w client method args \<equiv> SdkRequest client method args (the (map_of (web_detApi w) client))"

lemma sdk_sent:
  assumes "da_stubbedResponse api = None" "da_request api p = (client, method, args)"
  shows "web_requests (snd (generateDetApi isCancel net api p w)) = web_requests w @ [sdk_request w client method args]"
  using assms by (auto simp: generateDetApi_def Let_def det_request_def split: sum.splits)

theorem generated_client_requests:
  shows "web_requests (snd (api_logout isCancel net0 () w)) = web_requests w
        @ [sdk_request w ''Auth'' ''determinedLogout'' []]"
    and "web_requests (snd (api_getCurrentUser isCancel net1 u w)) = web_requests w
        @ [sdk_request w ''Auth'' ''determinedCurrentUser'' [u]]"
    and "web_requests (snd (api_getInfo isCancel net2 () w)) = web_requests w
        @ [sdk_request w ''Cluster'' ''determinedGetMaster'' []]"
    and "web_requests (snd (api_getTelemetry isCancel net3 () w)) = web_requests w
        @ [sdk_request w ''InternalApi'' ''determinedGetTelemetry'' []]"
    and "web_requests (snd (api_getAgents dayjs_unix isCancel net4 () w)) = web_requests w
        @ [sdk_request w ''Cluster'' ''determinedGetAgents'' []]"
    and "web_requests (snd (api_getExperimentDetails dec isCancel net5 i w)) = web_requests w
        @ [sdk_request w ''Experiments'' ''determinedGetExperiment'' [js_int i]]"
    and "web_requests (snd (api_getExpValidationHistory isCancel net6 i w)) = web_requests w
        @ [sdk_request w ''Experiments'' ''determinedGetExperimentValidationHistory'' [js_int i]]"
    and "web_requests (snd (api_getTrialDetails isCancel net7 i w)) = web_requests w
        @ [sdk_request w ''Experiments'' ''determinedGetTrial'' [js_int i]]"
    and "web_requests (snd (api_createExperiment dec isCancel net8 (config, parent) w)) = web_requests w
        @ [sdk_request w ''Experiments'' ''determinedCreateExperiment'' [Obj [(''config'', Str config), (''parentId'', js_int parent)]]]"
    and "web_requests (snd (api_archiveExperiment isCancel net9 i w)) = web_requests w
        @ [sdk_request w ''Experiments'' ''determinedArchiveExperiment'' [js_int i]]"
    and "web_requests (snd (api_unarchiveExperiment isCancel net10 i w)) = web_requests w
        @ [sdk_request w ''Experiments'' ''determinedUnarchiveExperiment'' [js_int i]]"
    and "web_requests (snd (api_activateExperiment isCancel net11 i w)) = web_requests w
        @ [sdk_request w ''Experiments'' ''determinedActivateExperiment'' [js_int i]]"
    and "web_requests (snd (api_pauseExperiment isCancel net12 i w)) = web_requests w
        @ [sdk_request w ''Experiments'' ''determinedPauseExperiment'' [js_int i]]"
    and "web_requests (snd (api_cancelExperiment isCancel net13 i w)) = web_requests w
        @ [sdk_request w ''Experiments'' ''determinedCancelExperiment'' [js_int i]]"
    and "web_requests (snd (api_killExperiment isCancel net14 i w)) = web_requests w
        @ [sdk_request w ''Experiments'' ''determinedKillExperiment'' [js_int i]]"
    and "web_requests (snd (api_patchExperiment isCancel net15 (i, u) w)) = web_requests w
        @ [sdk_request w ''Experiments'' ''determinedPatchExperiment'' [js_int i, u]]"
    and "web_requests (snd (api_getExperimentLabels isCancel net16 u w)) = web_requests w
        @ [sdk_request w ''Experiments'' ''determinedGetExperimentLabels'' [u]]"
    and "web_requests (snd (api_killCommand isCancel net17 t w)) = web_requests w
        @ [sdk_request w ''Commands'' ''determinedKillCommand'' [Str t]]"
    and "web_requests (snd (api_killNotebook isCancel net18 t w)) = web_requests w
        @ [sdk_request w ''Notebooks'' ''determinedKillNotebook'' [Str t]]"
    and "web_requests (snd (api_killShell isCancel net19 t w)) = web_requests w
        @ [sdk_request w ''Shells'' ''determinedKillShell'' [Str t]]"
    and "web_requests (snd (api_killTensorboard isCancel net20 t w)) = web_requests w
        @ [sdk_request w ''Tensorboards'' ''determinedKillTensorboard'' [Str t]]"
  by (simp_all add: sdk_calls sdk_sent sdk_table det_api_def)

end
