(* ===== verification/Curve_Life.thy ===== *)
theory Curve_Life
  imports Learning_Chart
begin

text \<open>
  The life of the chart of the learning curves (\<^verbatim>\<open>components/LearningCurveChart.tsx\<close>): uPlot's object is made again whenever
  the data, the trials or the metric change, it is resized with its container and destroyed in the end.  The record of
  uPlot's objects stands for what the constructor, \<open>destroy\<close>, \<open>setSize\<close> and the hook of \<open>setScale\<close> do.
\<close>

section \<open>Options\<close>

definition CHART_HEIGHT :: real where "CHART_HEIGHT = 400"

definition SERIES_WIDTH :: real where "SERIES_WIDTH = 3"

definition SERIES_UNFOCUSED_ALPHA :: rat where "SERIES_UNFOCUSED_ALPHA = 2 / 10"

record SeriesOptions =
  so_label :: string
  so_scale :: string
  so_spanGaps :: bool
  so_stroke :: string
  so_width :: real

record CurveOptions =
  co_series :: "SeriesOptions list" \<comment> \<open>after the one of the batches\<close>
  co_metricLabel :: string \<comment> \<open>of the second axis\<close>
  co_xScale :: "(real \<times> real) option" \<comment> \<open>largest and smallest value\<close>
  co_width :: real
  co_height :: real

definition curve_series :: "real \<Rightarrow> int list \<Rightarrow> SeriesOptions list result" where
  "curve_series devicePixelRatio trialIds = mapM_exn (\<lambda>(index, trialId). bind_exn (glasbeyColor index) (\<lambda>stroke.
     Inr \<lparr>so_label = ''trial '' @ show_int trialId, so_scale = ''metric'', so_spanGaps = True, so_stroke = stroke,
       so_width = SERIES_WIDTH / devicePixelRatio\<rparr>)) (enumerate 0 trialIds)"

text \<open>
  The space for the labels of an axis: none while nothing can be measured or the axis has no font.  \<open>text_width\<close> is the
  width that the browser gives a text in a font.
\<close>

definition calculateAxesLabelSize ::
  "(string \<Rightarrow> string \<Rightarrow> real) option \<Rightarrow> real \<Rightarrow> string list option \<Rightarrow> real option \<Rightarrow> string list option \<Rightarrow> real" where
  "calculateAxesLabelSize text_width devicePixelRatio font labelSize values = (case (text_width, values, font) of
      (Some width, Some vs, Some (f # _)) \<Rightarrow>
        width f (longest_value vs) / devicePixelRatio + (case labelSize of Some s \<Rightarrow> s | None \<Rightarrow> 0)
    | _ \<Rightarrow> 0)"

section \<open>Making and destroying\<close>

record CurveProps =
  cv_trialIds :: "int list"
  cv_selectedMetric :: MetricName
  cv_data :: "number option list list"
  cv_xValues :: "int list"

text \<open>The state of the component, and uPlot's objects that exist, by the order in which they were made.\<close>

record CurveLife =
  cl_chart :: "nat option"
  cl_xScale :: "(real \<times> real) option"
  cl_resize :: real \<comment> \<open>the width that \<open>useResize\<close> gives\<close>
  cl_plots :: "(nat \<times> CurveOptions \<times> int list \<times> number option list list) list"
  cl_made :: nat

definition mount_curve :: "real \<Rightarrow> CurveLife" where
  "mount_curve width = \<lparr>cl_chart = None, cl_xScale = None, cl_resize = width, cl_plots = [], cl_made = 0\<rparr>"

text \<open>The effect; \<open>None\<close> is a reference to no element, and a trial without a colour throws before anything is made.\<close>

definition curve_effect :: "real \<Rightarrow> real option \<Rightarrow> CurveProps \<Rightarrow> CurveLife \<Rightarrow> CurveLife result" where
  "curve_effect devicePixelRatio offsetWidth props l = (case offsetWidth of
      None \<Rightarrow> Inr l
    | Some w \<Rightarrow> bind_exn (curve_series devicePixelRatio (cv_trialIds props)) (\<lambda>series.
        (let options = \<lparr>co_series = series, co_metricLabel = metric_label (cv_selectedMetric props),
               co_xScale = cl_xScale l, co_width = w, co_height = CHART_HEIGHT\<rparr>
         in Inr (l\<lparr>cl_chart := Some (cl_made l), cl_made := Suc (cl_made l),
              cl_plots := cl_plots l @ [(cl_made l, options, cv_xValues props, cv_data props)]\<rparr>))))"

text \<open>The cleanup of the effect that made the plot \<open>n\<close>.\<close>

definition curve_cleanup :: "nat \<Rightarrow> CurveLife \<Rightarrow> CurveLife" where
  "curve_cleanup n l = l\<lparr>cl_chart := None, cl_plots := filter (\<lambda>(m, _). m \<noteq> n) (cl_plots l)\<rparr>"

definition curve_scaled :: "string \<Rightarrow> real option \<times> real option \<Rightarrow> CurveLife \<Rightarrow> CurveLife" where
  "curve_scaled scaleKey scale l = l\<lparr>cl_xScale := setScale scaleKey scale (cl_xScale l)\<rparr>"

definition curve_resized :: "CurveLife \<Rightarrow> CurveLife" where
  "curve_resized l = (case cl_chart l of
      None \<Rightarrow> l
    | Some n \<Rightarrow> l\<lparr>cl_plots := map (\<lambda>(m, options, d). (m, if m = n then options\<lparr>co_width := cl_resize l, co_height := CHART_HEIGHT\<rparr>
        else options, d)) (cl_plots l)\<rparr>)"

text \<open>
  Events: new properties (the cleanup of the last effect, if it made a plot, and the effect, then the one on the size,
  which depends on the chart too), a change of a scale, a resize.  When the effect throws, React unmounts the component, after the cleanup.
\<close>

datatype CurveEvent = CurveProps_changed CurveProps | CurveScaled string "real option \<times> real option" | CurveResized real

definition clean_last :: "CurveLife \<Rightarrow> CurveLife" where
  "clean_last l = (case cl_chart l of Some n \<Rightarrow> curve_cleanup n l | None \<Rightarrow> l)"

fun curve_event :: "real \<Rightarrow> real \<Rightarrow> CurveEvent \<Rightarrow> CurveLife \<Rightarrow> CurveLife result" where
  "curve_event dpr w (CurveProps_changed props) l = bind_exn (curve_effect dpr (Some w) props (clean_last l)) (\<lambda>l. Inr (curve_resized l))"
| "curve_event dpr w (CurveScaled k s) l = Inr (curve_scaled k s l)"
| "curve_event dpr w (CurveResized x) l = Inr (curve_resized (l\<lparr>cl_resize := x\<rparr>))"

fun curve_events :: "real \<Rightarrow> real \<Rightarrow> CurveEvent list \<Rightarrow> CurveLife \<Rightarrow> CurveLife result" where
  "curve_events dpr w [] l = Inr l"
| "curve_events dpr w (e # es) l = bind_exn (curve_event dpr w e l) (curve_events dpr w es)"

section \<open>Lemmas\<close>

text \<open>At most one plot exists, the one in the state, and it has the data of the properties.\<close>

definition curve_ok :: "CurveProps option \<Rightarrow> CurveLife \<Rightarrow> bool" where
  "curve_ok props l \<longleftrightarrow> (case props of
      None \<Rightarrow> cl_chart l = None \<and> cl_plots l = []
    | Some p \<Rightarrow> \<exists>n options. cl_chart l = Some n \<and> cl_plots l = [(n, options, cv_xValues p, cv_data p)]
        \<and> co_metricLabel options = metric_label (cv_selectedMetric p) \<and> length (co_series options) = length (cv_trialIds p))"

fun props_after :: "CurveProps option \<Rightarrow> CurveEvent \<Rightarrow> CurveProps option" where
  "props_after p (CurveProps_changed q) = Some q"
| "props_after p _ = p"

lemma curve_series_length: "curve_series dpr ts = Inr ss \<Longrightarrow> length ss = length ts"
  by (auto simp: curve_series_def dest: mapM_exn_length)

lemma clean_last_ok: "curve_ok p l \<Longrightarrow> curve_ok None (clean_last l) \<and> cl_xScale (clean_last l) = cl_xScale l"
  by (auto simp: curve_ok_def clean_last_def curve_cleanup_def split: option.splits)

lemma curve_event_ok: "curve_ok p l \<Longrightarrow> curve_event dpr w e l = Inr l' \<Longrightarrow> curve_ok (props_after p e) l'"
proof (cases e)
  case (CurveProps_changed q)
  assume "curve_ok p l" "curve_event dpr w e l = Inr l'"
  with CurveProps_changed show ?thesis
    using clean_last_ok [of p l] by (auto simp: curve_effect_def bind_exn_Inr_iff curve_ok_def curve_series_length curve_resized_def)
next
  case (CurveScaled k s)
  assume "curve_ok p l" "curve_event dpr w e l = Inr l'"
  with CurveScaled show ?thesis by (auto simp: curve_ok_def curve_scaled_def split: option.splits)
next
  case (CurveResized x)
  assume "curve_ok p l" "curve_event dpr w e l = Inr l'"
  with CurveResized show ?thesis by (auto simp: curve_ok_def curve_resized_def split: option.splits)
qed

lemma curve_events_ok:
  "curve_ok p l \<Longrightarrow> curve_events dpr w es l = Inr l' \<Longrightarrow> curve_ok (fold (\<lambda>e p. props_after p e) es p) l'"
  by (induction es arbitrary: p l) (auto simp: bind_exn_Inr_iff dest: curve_event_ok)

section \<open>Properties\<close>

text \<open>
  The chart keeps up with its properties and keeps the zoom.  After any events at most one plot exists: none before the
  first properties, then the one in the state, with the data of the last properties, a series for each trial, and the
  metric's label.  When the properties change again, the plot is replaced by one that starts with the zoom in force and
  has the width of its container.
\<close>

theorem curve_life:
  assumes "curve_events dpr w es (mount_curve x) = Inr l"
  shows "curve_ok (fold (\<lambda>e p. props_after p e) es None) l
    \<and> (\<forall>q l'. curve_event dpr w (CurveProps_changed q) l = Inr l' \<longrightarrow>
        (\<exists>options. cl_plots l' = [(cl_made l, options, cv_xValues q, cv_data q)] \<and> cl_chart l' = Some (cl_made l)
          \<and> co_xScale options = cl_xScale l \<and> cl_xScale l' = cl_xScale l \<and> co_width options = cl_resize l))"
proof -
  have ok: "curve_ok (fold (\<lambda>e p. props_after p e) es None) l"
    using curve_events_ok [OF _ assms] by (simp add: curve_ok_def mount_curve_def)
  have "cl_plots (clean_last l) = [] \<and> cl_xScale (clean_last l) = cl_xScale l \<and> cl_made (clean_last l) = cl_made l
      \<and> cl_resize (clean_last l) = cl_resize l"
    using clean_last_ok [OF ok] by (auto simp: curve_ok_def clean_last_def curve_cleanup_def split: option.splits)
  then show ?thesis using ok by (auto simp: curve_effect_def bind_exn_Inr_iff curve_resized_def)
qed

end
