(* ===== verification/App_Frame.thy ===== *)
theory App_Frame
  imports Chrome Page_Views
begin

text \<open>
  How the application is put together: the hooks and providers that \<^verbatim>\<open>contexts/index.ts\<close> generates, the nesting of the
  providers by \<^verbatim>\<open>Compose.tsx\<close>, what \<^verbatim>\<open>App.tsx\<close> shows, the bars at the top and the bottom, and small parts of
  pages.  The lemmas show that inside the application no hook of a context fails and that without a session nothing but
  the route is shown.
\<close>

section \<open>Contexts\<close>

text \<open>
  The contexts by name; \<open>None\<close> is the \<open>null\<close> a context has outside of its provider.  An element is what it renders from
  the contexts around it.
\<close>

type_synonym ('s, 'v) element = "(string \<Rightarrow> 's option) \<Rightarrow> 'v"

definition generateContextHook :: "string \<Rightarrow> string \<Rightarrow> (string \<Rightarrow> 's option) \<Rightarrow> 's result" where
  "generateContextHook contextName hookName ctx = (case ctx contextName of
      Some v \<Rightarrow> Inr v
    | None \<Rightarrow> Inl (JsError (hookName @ '' must be used inside the '' @ contextName @ ''.Provider.'')))"

text \<open>A provider with the state that its reducer has reached.\<close>

definition provider_state :: "('s \<Rightarrow> 'a \<Rightarrow> 's) \<Rightarrow> 's \<Rightarrow> 'a list \<Rightarrow> 's" where
  "provider_state reducer initialState dispatched = foldl reducer initialState dispatched"

definition Provider :: "string \<Rightarrow> 's \<Rightarrow> ('s, 'v) element \<Rightarrow> ('s, 'v) element" where
  "Provider name state children = (\<lambda>ctx. children (ctx(name \<mapsto> state)))"

definition Compose :: "(('s, 'v) element \<Rightarrow> ('s, 'v) element) list \<Rightarrow> ('s, 'v) element \<Rightarrow> ('s, 'v) element" where
  "Compose components children = foldr (\<lambda>Comp acc. Comp acc) components children"

definition app_contexts :: "string list" where
  "app_contexts = [''Auth'', ''DeterminedInfo'', ''Users'', ''Agents'', ''ClusterOverview'', ''ActiveExperiments'', ''Commands'',
     ''Notebooks'', ''Shells'', ''Tensorboards'', ''Spinner'']"

definition AppRoot :: "(string \<Rightarrow> 's) \<Rightarrow> ('s, 'v) element \<Rightarrow> ('s, 'v) element" where
  "AppRoot state view = Compose (map (\<lambda>n. Provider n (state n)) app_contexts) view"

section \<open>The bars and the view\<close>

text \<open>The avatar's name, and the link, offset and placement of the menu.\<close>

definition navigation_topbar :: "AuthState \<Rightarrow> UIState \<Rightarrow> (string \<times> LinkProps \<times> (int \<times> int) \<times> Placement) option" where
  "navigation_topbar auth ui = (if \<not> showNavigation auth ui then None
     else Some (nav_username auth, no_props\<lparr>lk_path := Some ''/logout''\<rparr>, (0, 8), Pl_BottomRight))"

definition navigation_tabbar ::
  "(number \<Rightarrow> string) \<Rightarrow> AuthState \<Rightarrow> UIState \<Rightarrow> ClusterOverview \<Rightarrow> Tabbar \<Rightarrow> (NavItem list \<times> bool) option" where
  "navigation_tabbar num_str auth ui overview t = (if \<not> showNavigation auth ui then None
     else Some (tabbar_items num_str overview, tb_isShowingOverflow t))"

record AppShown =
  as_classes :: string
  as_spinning :: bool
  as_polling :: bool \<comment> \<open>\<open>AppContexts\<close>\<close>
  as_navigation :: bool
  as_topbar :: bool
  as_tabbar :: bool

definition app_view :: "AuthState \<Rightarrow> UIState \<Rightarrow> AppShown" where
  "app_view auth ui = \<lparr>as_classes = js_join '' '' (app_classes auth ui), as_spinning = ui_showSpinner ui,
     as_polling = auth_isAuthenticated auth, as_navigation = showNavigation auth ui, as_topbar = navigation_topbar auth ui \<noteq> None,
     as_tabbar = showNavigation auth ui\<rparr>"

definition app_active :: "ClusterOverview \<Rightarrow> bool" where
  "app_active overview = (ov_allocation overview \<noteq> Fin 0)"

definition app_poll_delay :: int where "app_poll_delay = 600000"

definition app_set_info :: "DeterminedInfo option \<Rightarrow> DeterminedInfo \<Rightarrow> DeterminedInfo" where
  "app_set_info response info = (case response of None \<Rightarrow> info | Some v \<Rightarrow> context_reducer info info (CSet v))"

section \<open>Small parts\<close>

datatype MessageType = Msg_Alert | Msg_Empty | Msg_Warning

definition message_view :: "MessageType option \<Rightarrow> string \<Rightarrow> string option \<Rightarrow> string \<times> string \<times> string list" where
  "message_view type title message =
     ((case (case type of Some t \<Rightarrow> t | None \<Rightarrow> Msg_Alert) of
         Msg_Empty \<Rightarrow> ''simple'' | Msg_Alert \<Rightarrow> ''icon-alert.svg'' | Msg_Warning \<Rightarrow> ''icon-warning.svg''), title, opt_str message)"

text \<open>The texts before and after a badge, both with the label as tooltip.\<close>

definition badge_tag :: "string option \<Rightarrow> string option \<Rightarrow> (string \<times> string option) list \<times> (string \<times> string option) list" where
  "badge_tag preLabel label = (map (\<lambda>p. (p, label)) (opt_str preLabel), map (\<lambda>l. (l, label)) (opt_str label))"

definition section_view :: "string \<Rightarrow> bool \<Rightarrow> string \<times> string option" where
  "section_view title hideTitle = (toHtmlId title, if hideTitle then None else Some title)"

definition responsive_filters_view :: "ResponsiveState \<Rightarrow> (bool \<times> Placement) option" where
  "responsive_filters_view st = (if rf_isCollapsed st then Some (rf_initVisible st, Pl_BottomRight) else None)"

text \<open>A button of a group of filters: its label, classes and icon.\<close>

definition filter_button_views :: "FilterButton list \<Rightarrow> (string \<times> string \<times> string) list" where
  "filter_button_views bs = map (\<lambda>b. (fb_label b, js_join '' '' (button_classes b), fb_icon b)) bs"

text \<open>The entries of a sheet, with Cancel at the end.\<close>

definition sheet_labels :: "(string \<times> string) list \<Rightarrow> bool \<Rightarrow> (string \<times> string) list" where
  "sheet_labels actions hideCancel = actions @ (if hideCancel then [] else [(''error'', ''Cancel'')])"

section \<open>Downloads\<close>

text \<open>What a download does to the document, in this order.\<close>

datatype DomCall =
    CreateObjectURL string
  | Append string string \<comment> \<open>an anchor with the name of the file and the address\<close>
  | Click string
  | RevokeObjectURL string
  | Remove string

definition downloadBlob :: "string \<Rightarrow> string \<Rightarrow> string \<Rightarrow> DomCall list" where
  "downloadBlob filename data url = [CreateObjectURL data, Append filename url, Click url, RevokeObjectURL url, Remove url]"

definition downloadText :: "string \<Rightarrow> string list \<Rightarrow> string \<Rightarrow> DomCall list" where
  "downloadText filename parts url = downloadBlob filename (concat parts) url"

definition generateLogStringBuffer :: "nat \<Rightarrow> nat \<Rightarrow> string" where
  "generateLogStringBuffer n avgLength =
     (let msg = replicate avgLength (CHR ''a'') @ [CHR 0x0A] in concat (map (\<lambda>i. show_nat i @ msg) [0..<n]))"

text \<open>The link of the icon, if the document has one.\<close>

definition updateFavicon :: "string \<Rightarrow> (string \<times> string) option \<Rightarrow> (string \<times> string) option" where
  "updateFavicon iconPath link = map_option (\<lambda>_. (''image/png'', iconPath)) link"

section \<open>Lemmas\<close>

lemma Compose_providers:
  "Compose (map (\<lambda>n. Provider n (state n)) ns) view ctx = view (\<lambda>n. if n \<in> set ns then Some (state n) else ctx n)"
proof (induction ns arbitrary: ctx)
  case (Cons n ns)
  then show ?case
    by (simp add: Compose_def Provider_def) (metis (no_types, opaque_lifting) fun_upd_apply)
qed (simp add: Compose_def)

text \<open>
  Inside the application every hook of its contexts yields the state of the provider, and any other fails; outside each
  of them fails.
\<close>

theorem hooks_in_app:
  "AppRoot state (generateContextHook n h) (\<lambda>_. None) = (if n \<in> set app_contexts then Inr (state n)
      else Inl (JsError (h @ '' must be used inside the '' @ n @ ''.Provider.'')))"
  "generateContextHook n h (\<lambda>_. None) = Inl (JsError (h @ '' must be used inside the '' @ n @ ''.Provider.''))"
  by (simp_all add: AppRoot_def Compose_providers generateContextHook_def)

text \<open>A context that is set last has that value; one that is reset has its first value.\<close>

lemma provider_default:
  "provider_state (context_reducer init) init (as @ [CSet v]) = v"
  "provider_state (context_reducer init) init (as @ [CReset]) = init"
  by (simp_all add: provider_state_def)

text \<open>Without a session neither bars nor polling are there, whatever the chrome; with one, hiding the chrome hides all bars.\<close>

theorem bars_need_session:
  "as_polling (app_view auth ui) = auth_isAuthenticated auth"
  "as_navigation (app_view auth ui) = (auth_isAuthenticated auth \<and> ui_showChrome ui)"
  "as_topbar (app_view auth ui) = as_navigation (app_view auth ui)" "as_tabbar (app_view auth ui) = as_navigation (app_view auth ui)"
  "(navigation_tabbar num_str auth ui overview t = None) = (\<not> as_navigation (app_view auth ui))"
  by (simp_all add: app_view_def navigation_topbar_def navigation_tabbar_def showNavigation_def)

end
