(* ===== verification/Spec2Isabelle.thy ===== *)
theory Spec2Isabelle
  imports Md5 Trial_Util Log_Pages Experiment_List Trial_Details Task_List Experiment_Details Metric_Filter Learning_Chart Visualization Auth_Pages Filters Widgets Metric_Chart Dashboard Chrome Experiment_Overview Cluster_Pages Page_Views Task_Logs Api_Calls Curve_Life App_Frame
begin

text \<open>
  The WebUI of the Determined platform (\<^verbatim>\<open>src/webui/react/src\<close>): a React program that shows and
  steers the experiments, trials and tasks of a cluster.  Paths below are relative to that directory.

  \<^bold>\<open>The program.\<close>  Pages and components hold their state in React hooks; contexts (\<^verbatim>\<open>contexts/\<close>) hold
  what pages share.  A page asks the master for data through the request table (\<^verbatim>\<open>services/apiConfig.ts\<close>,
  \<^verbatim>\<open>services/api.ts\<close>), whose entries name a client (axios for the old API, a generated client for the new one),
  build a request (\<^verbatim>\<open>services/utils.ts\<close>) and decode the answer (\<^verbatim>\<open>services/decoder.ts\<close> over the codecs of
  \<^verbatim>\<open>ioTypes.ts\<close>) to the types of \<^verbatim>\<open>types.ts\<close>.  Failures go through \<^verbatim>\<open>ErrorHandler.ts\<close> to the log, the
  notifications and the analytics.  Requests are repeated by \<^verbatim>\<open>hooks/usePolling.ts\<close> or driven by
  \<^verbatim>\<open>hooks/useRestApi.ts\<close>.  What a user chose is kept in \<^verbatim>\<open>utils/storage.ts\<close> under keys that start with the
  user.  \<^verbatim>\<open>routes/\<close> builds and follows addresses.

  \<^bold>\<open>How React is modelled.\<close>  The state of a component is a record with one field for each \<open>useState\<close> (and each
  ref that the code reads); a handler or an effect is a function on that record with the requests it sends and
  the storage it writes as values; a rerender computes the values derived from the state (\<open>useMemo\<close>, the
  arguments of elements).  Where the order of answers matters, requests in flight are part of the state and each
  event (a request, its answer, a tick of a timer, a user's action) is a step of an \<open>inductive\<close> relation or of a
  function on events, so a theorem holds for every interleaving.  A handler is the closure of one render; where
  the code reads a value of an earlier render, that render is an argument.

  \<^bold>\<open>Theories and what they model.\<close>
    \<^item> \<open>Prelude\<close>: strings, arrays and objects of JavaScript (split, join, sort, objects in insertion order) and the
      lemmas shared by all; the locale \<open>comparator\<close> (contract of a function given to \<open>sort\<close>).
    \<^item> \<open>Js_Value\<close>: dynamic values, numbers with \<open>NaN\<close> and infinities, results with exceptions, JSON text
      (\<open>parse_val\<close>, printing and its round trip).
    \<^item> \<open>Types_Ts\<close>: \<^verbatim>\<open>types.ts\<close>.  \<open>Types_Util\<close>: \<^verbatim>\<open>utils/step.ts\<close>, \<^verbatim>\<open>utils/types.ts\<close> (steps of a trial, upgrade of a
      configuration; locale \<open>total_comparator\<close>).
    \<^item> \<open>Data_Util\<close>: \<^verbatim>\<open>utils/data.ts\<close> (access by path, sorters).  \<open>String_Util\<close>: \<^verbatim>\<open>utils/string.ts\<close>,
      \<^verbatim>\<open>utils/number.ts\<close>, \<^verbatim>\<open>utils/color.ts\<close>, \<^verbatim>\<open>constants/colors.ts\<close>.  \<open>Md5\<close>: \<^verbatim>\<open>utils/md5.ts\<close>.
    \<^item> \<open>Storage_Util\<close>: \<^verbatim>\<open>utils/storage.ts\<close> (locale \<open>store_laws\<close>, what a store promises).
    \<^item> \<open>Trial_Util\<close>, \<open>Task_Util\<close>: \<^verbatim>\<open>utils/trial.ts\<close>, \<^verbatim>\<open>utils/time.ts\<close>, \<^verbatim>\<open>utils/task.ts\<close>, \<^verbatim>\<open>utils/cluster.ts\<close>,
      \<^verbatim>\<open>contexts/ClusterOverview.tsx\<close>.
    \<^item> \<open>Error_Handler\<close>: \<^verbatim>\<open>ErrorHandler.ts\<close>, \<^verbatim>\<open>Analytics.ts\<close>, \<^verbatim>\<open>utils/Logger.ts\<close>.
    \<^item> \<open>Io_Types\<close> (locale \<open>io_ts\<close>), \<open>Decoder\<close>, \<open>Decoder_Logs\<close>, \<open>Decoder_Sdk\<close>: \<^verbatim>\<open>ioTypes.ts\<close>,
      \<^verbatim>\<open>services/decoder.ts\<close>.
    \<^item> \<open>Services\<close> (locale \<open>axios\<close>), \<open>Api_Config\<close>, \<open>Requests\<close> (locale \<open>request_call\<close>): \<^verbatim>\<open>services/\<close>.
      \<open>Api_Calls\<close>: the calls of \<^verbatim>\<open>services/api.ts\<close> and what each sends.
    \<^item> \<open>Routes\<close> (locales \<open>url_api\<close>, \<open>path_to_regexp\<close>, \<open>navigation\<close>): \<^verbatim>\<open>routes/\<close>, \<^verbatim>\<open>wait.ts\<close>.
    \<^item> \<open>Contexts\<close>: \<^verbatim>\<open>contexts/\<close>, \<^verbatim>\<open>hooks/useAuthCheck.ts\<close>.  \<open>Hooks\<close>: \<^verbatim>\<open>hooks/\<close>.
    \<^item> \<open>Log_Viewer\<close>: \<^verbatim>\<open>components/LogViewer.tsx\<close>.  \<open>Log_Pages\<close>: the three pages of logs.  \<open>Log_Buffer\<close>: the master's
      buffer that answers the page of master logs (\<^verbatim>\<open>src/master/pkg/logger/log_buffer.go\<close>).
      \<open>Event_Manager\<close>: the master's buffer of a task's events (\<^verbatim>\<open>src/master/internal/command/events.go\<close>).
      \<open>Task_Logs\<close>: the page of a task's logs together with that buffer.
    \<^item> \<open>Experiment_List\<close>, \<open>Task_List\<close>, \<open>Experiment_Details\<close>, \<open>Trial_Details\<close>, \<open>Auth_Pages\<close>: the pages with their
      handlers and effects.  \<open>Actions\<close>: the menus and buttons that act on tasks, experiments and trials.
    \<^item> \<open>Visualization\<close>, \<open>Learning_Curve\<close>, \<open>Learning_Chart\<close>, \<open>Metric_Filter\<close>: the visualizations of experiments and
      trials.  \<open>Metric_Chart\<close>: \<^verbatim>\<open>components/MetricChart.tsx\<close> and the plot it keeps.
    \<^item> \<open>Filters\<close>: the filters of tasks and of logs, selects of several values.  \<open>Theme\<close>: \<^verbatim>\<open>themes.ts\<close>.
      \<open>Widgets\<close>: badges, bars, avatars, charts of slots, tables, readable numbers.
    \<^item> \<open>Dashboard\<close>: the dashboard and its cards.  \<open>Chrome\<close>: what stands around a page (links, dropdowns, the
      navigation bars, toggles, sections, \<^verbatim>\<open>App.tsx\<close>).
    \<^item> \<open>Experiment_Overview\<close>: the dialog of a checkpoint, the summaries of experiments and trials, the page with
      tabs.  \<open>Cluster_Pages\<close>: the pages of the cluster, its pools of agents, the table that follows the width.
    \<^item> \<open>Curve_Life\<close>: the making and destroying of the chart of learning curves.  \<open>App_Frame\<close>: the providers of the
      contexts, the nesting of the application, its bars.
    \<^item> \<open>Page_Views\<close>: the lines of the log viewer and their ANSI colours, confirmations, what pages show in each
      state.

  \<^bold>\<open>What the lemmas show.\<close>  Each theory proves, beside the properties marked with a claim id (\<open>C1\<close> and so on):
  the value of its operations on every branch; preservation of the invariants of its state; and the contracts its
  callers rely on.  The contracts are the locales: \<open>comparator\<close> gives that a sort is a sorted permutation and is
  interpreted on the sorters of \<^verbatim>\<open>utils/data.ts\<close>; \<open>store_laws\<close> gives the round trips of \<open>Storage\<close> and of the session
  and is interpreted on \<open>MemoryStore\<close>; \<open>axios\<close>, \<open>io_ts\<close>, \<open>url_api\<close> and \<open>path_to_regexp\<close> state what the code relies on
  of a package and are interpreted on the model's own executable definitions of that behaviour; \<open>request_call\<close>
  gives what \<open>Promise.all\<close> over requests sends and is interpreted on killing a task.

  \<^bold>\<open>Bounds and fuel.\<close>  A string is a list of 8-bit code units; the code's string operations do not depend on the
  width, except \<^verbatim>\<open>utils/md5.ts\<close>, which masks to eight bits itself.  A number is a rational number, \<open>NaN\<close> or an
  infinity: rounding of double precision is not modelled, so results that depend on it are not stated; bitwise
  operations are on 32-bit words.  \<open>md5\<close> is the RFC's digest for strings of fewer than \<open>2 ^ 29\<close> bytes, the bound
  at which the code's 32-bit count of bits wraps around.  The parser of JSON text has the number of tokens of the text, plus one, as fuel,
  which suffices because every recursive call is on a shorter rest; the round trip is proved with that fuel.  The loops of
  the code (blocks of md5, split, the replacement of parentheses and levels, the search for the closest point) are
  total functions with measures.  The wait for the lists of tasks settles within the 12 ticks after which the
  code gives up.  The log buffer holds \<open>logStoreSize = 25000\<close> entries; the theorem is for any positive size.  The buffer of a task's
  events holds 200; the theorem on the page is for fewer than \<open>2 ^ 53\<close> events, the numbers that are exact in JavaScript.

  \<^bold>\<open>Parameters.\<close>  What is not under \<^verbatim>\<open>src/\<close> is an argument: the network (a function from a request to its
  outcome), axios' cancellation marker, the locale-aware comparison of strings, \<open>URL\<close>, date parsing and the clock,
  random numbers, js-yaml, regular expressions of path-to-regexp, uPlot's conversion of values to positions, and the
  generated client, whose messages arrive as dynamic values.  The text of an exception that the engine raises
  (a \<open>TypeError\<close> on \<open>undefined\<close>) is not modelled: such an exception is the constructor \<open>TypeError\<close>, or an argument \<open>caught\<close> of the handler that reports it.

  \<^bold>\<open>Not modelled.\<close>  The master, the agent and the scheduler (Go) apart from the buffers of logs and events, and the Python harness
  and command line: they are other programs of the repository and talk to the WebUI only through requests.  Of the
  WebUI: the elements a component renders where they carry no decision, styles, the drawing inside Plotly, uPlot and
  Ant Design, stories and end-to-end tests, fixtures and generators of sample data, the service worker and the
  bootstrap of the page; they call packages and compute nothing that a theorem could be about.
\<close>

end
